(* ===== verification/Prelude.thy ===== *)
theory Prelude
  imports Main "HOL-Library.Sublist"
begin

text \<open>
  Shared vocabulary of the development: the simplification collections the component theories
  fill, C strings as character lists, byte arrays with in-place writes, results of system calls,
  and the generic list lemmas the components rely on.

  A C string is modelled by the list of its characters up to, and without, the terminating NUL
  (\<open>cstr\<close> reads it off an array). A plain \<open>char\<close> of the target (armv5tl-montavista-linuxeabi) is
  unsigned, so \<open>code c\<close> is the value of the character \<open>c\<close> in an arithmetic expression.
\<close>

named_theorems clib_simps "character classes and string routines of the C library, unfolded"
named_theorems frame_simps "fields of the request that an operation leaves unchanged"
named_theorems buf_intros "preservation of the output buffer invariant"
named_theorems hash_simps "chained hash tables: buckets after an update"

type_synonym cstring = string

abbreviation NUL :: char where "NUL \<equiv> CHR 0x00"
abbreviation TAB :: char where "TAB \<equiv> CHR 0x09"
abbreviation LF :: char where "LF \<equiv> CHR 0x0A"
abbreviation CR :: char where "CR \<equiv> CHR 0x0D"
abbreviation SP :: char where "SP \<equiv> CHR 0x20"
abbreviation CRLF :: string where "CRLF \<equiv> [CR, LF]"

abbreviation code :: "char \<Rightarrow> nat" where "code \<equiv> of_char"

definition cstr :: "char list \<Rightarrow> cstring" where
  "cstr xs = takeWhile (\<lambda>c. c \<noteq> NUL) xs"

definition nul_free :: "char list \<Rightarrow> bool" where
  "nul_free s \<longleftrightarrow> NUL \<notin> set s"

lemma cstr_simps [simp]:
  "cstr [] = []"
  "cstr (c # cs) = (if c = NUL then [] else c # cstr cs)"
  by (simp_all add: cstr_def)

lemma nul_free_simps [simp]:
  "nul_free []"
  "nul_free (c # cs) \<longleftrightarrow> c \<noteq> NUL \<and> nul_free cs"
  "nul_free (xs @ ys) \<longleftrightarrow> nul_free xs \<and> nul_free ys"
  by (auto simp: nul_free_def)

lemma nul_free_cstr [simp]: "nul_free (cstr xs)"
  by (induction xs) auto

lemma cstr_id: "nul_free xs \<Longrightarrow> cstr xs = xs"
  by (induction xs) auto

lemma cstr_append_NUL: "nul_free xs \<Longrightarrow> cstr (xs @ NUL # ys) = xs"
  by (induction xs) auto

lemma length_cstr_le: "length (cstr xs) \<le> length xs"
  by (simp add: cstr_def length_takeWhile_le)

lemma nul_free_take [simp]: "nul_free s \<Longrightarrow> nul_free (take n s)"
  by (auto simp: nul_free_def dest: in_set_takeD)

lemma nul_free_drop [simp]: "nul_free s \<Longrightarrow> nul_free (drop n s)"
  by (auto simp: nul_free_def dest: in_set_dropD)

subsection \<open>Byte arrays\<close>

text \<open>
  \<open>mem_put off data buf\<close> stores \<open>data\<close> at offset \<open>off\<close> of the array \<open>buf\<close>, as \<open>memcpy\<close> does. A store
  that runs past the end of the array makes the list longer than the array is: the invariants
  below say that no operation does so.
\<close>

definition mem_put :: "nat \<Rightarrow> char list \<Rightarrow> char list \<Rightarrow> char list" where
  "mem_put off data buf = take off buf @ data @ drop (off + length data) buf"

lemma mem_put_Nil [simp]: "mem_put off [] buf = buf"
  by (simp add: mem_put_def)

lemma length_mem_put [simp]:
  "off + length data \<le> length buf \<Longrightarrow> length (mem_put off data buf) = length buf"
  by (simp add: mem_put_def)

lemma mem_put_overrun:
  "length buf < off + length data \<Longrightarrow> off \<le> length buf \<Longrightarrow>
   length buf < length (mem_put off data buf)"
  by (simp add: mem_put_def)

lemma take_mem_put_before [simp]:
  "n \<le> off \<Longrightarrow> off \<le> length buf \<Longrightarrow> take n (mem_put off data buf) = take n buf"
  by (simp add: mem_put_def min_def)

lemma take_mem_put [simp]:
  "off \<le> length buf \<Longrightarrow> take (off + length data) (mem_put off data buf) = take off buf @ data"
  by (simp add: mem_put_def)

lemma mem_put_append:
  assumes "off + length xs + length ys \<le> length buf"
  shows "mem_put (off + length xs) ys (mem_put off xs buf) = mem_put off (xs @ ys) buf"
  using assms by (simp add: mem_put_def ac_simps)

lemma drop_mem_put_after [simp]:
  "off + length data \<le> n \<Longrightarrow> off \<le> length buf \<Longrightarrow> drop n (mem_put off data buf) = drop n buf"
  by (simp add: mem_put_def)

subsection \<open>Results of system calls\<close>

text \<open>
  The kernel is a parameter of the model: an operation that reads takes the outcome of the
  \<open>read\<close> as an argument, an operation that writes consumes the next entry of a list of
  outcomes (\<open>W_ok n\<close>: at most \<open>n\<close> bytes accepted).
\<close>

datatype errno = EAGAIN | EWOULDBLOCK | EINTR | EPIPE | ENOSPC | ENOENT | EACCES | EOTHER

definition would_block :: "errno \<Rightarrow> bool" where
  "would_block e \<longleftrightarrow> e = EWOULDBLOCK \<or> e = EAGAIN"

datatype rd_result = R_bytes "char list" | R_err errno

datatype wr_result = W_ok nat | W_err errno

subsection \<open>Generic list facts\<close>

lemma dropWhile_cases:
  obtains "dropWhile P xs = []" "\<forall>x\<in>set xs. P x"
  | y ys where "dropWhile P xs = y # ys" "\<not> P y" "xs = takeWhile P xs @ y # ys"
proof (cases "dropWhile P xs")
  case Nil
  then show ?thesis using that(1) by (simp add: dropWhile_eq_Nil_conv)
next
  case (Cons y ys)
  moreover have "\<not> P y" using Cons by (simp add: dropWhile_eq_Cons_conv)
  moreover have "xs = takeWhile P xs @ y # ys"
    using Cons by (metis takeWhile_dropWhile_id)
  ultimately show ?thesis using that(2) by blast
qed

lemma length_dropWhile_less:
  "xs \<noteq> [] \<Longrightarrow> P (hd xs) \<Longrightarrow> length (dropWhile P xs) < length xs"
  by (cases xs) (auto simp: le_imp_less_Suc length_dropWhile_le)

lemma list_update_nth_eq:
  "i < length xs \<Longrightarrow> (xs[i := x]) ! j = (if i = j then x else xs ! j)"
  by (simp add: nth_list_update)

end
