(* ===== verification/Clib.thy ===== *)
theory Clib
  imports Prelude
begin

text \<open>
  The routines of the C library that the server uses, over character lists: the character
  classes of the C locale, case conversion and comparison, searching, \<open>atoi\<close> with the
  saturation of \<open>strtol\<close> at the 32-bit \<open>long\<close> of the target, decimal printing, and the part of
  \<open>sscanf\<close> that the parsers use (\<open>%d\<close>, \<open>%u\<close>, \<open>%Ns\<close>, white space and literal characters).
\<close>

subsection \<open>Character classes and case\<close>

definition isdigit :: "char \<Rightarrow> bool" where
  "isdigit c \<longleftrightarrow> 48 \<le> code c \<and> code c \<le> 57"

definition isspace :: "char \<Rightarrow> bool" where
  "isspace c \<longleftrightarrow> code c = 32 \<or> 9 \<le> code c \<and> code c \<le> 13"

definition isupper :: "char \<Rightarrow> bool" where
  "isupper c \<longleftrightarrow> 65 \<le> code c \<and> code c \<le> 90"

definition islower :: "char \<Rightarrow> bool" where
  "islower c \<longleftrightarrow> 97 \<le> code c \<and> code c \<le> 122"

definition isxdigit :: "char \<Rightarrow> bool" where
  "isxdigit c \<longleftrightarrow> isdigit c \<or> 65 \<le> code c \<and> code c \<le> 70 \<or> 97 \<le> code c \<and> code c \<le> 102"

definition toupper :: "char \<Rightarrow> char" where
  "toupper c = (if islower c then char_of (code c - 32) else c)"

definition tolower :: "char \<Rightarrow> char" where
  "tolower c = (if isupper c then char_of (code c + 32) else c)"

lemma code_char_of: "n < 256 \<Longrightarrow> code (char_of n) = n"
  by simp

lemma code_inject: "code c = code d \<longleftrightarrow> c = d"
  by simp

lemma code_toupper: "code (toupper c) = (if islower c then code c - 32 else code c)"
  by (auto simp: toupper_def islower_def)

lemma toupper_not_NUL [simp]: "toupper c = NUL \<longleftrightarrow> c = NUL"
proof -
  have "code (toupper c) = code NUL \<longleftrightarrow> code c = code NUL"
    by (auto simp: code_toupper islower_def)
  then show ?thesis by (simp only: code_inject)
qed

lemma not_islower_toupper [simp]: "\<not> islower (toupper c)"
  by (auto simp: islower_def code_toupper)

lemma toupper_idem [simp]: "toupper (toupper c) = toupper c"
  by (subst (1) toupper_def) simp

lemma code_tolower: "code (tolower c) = (if isupper c then code c + 32 else code c)"
  by (simp add: tolower_def isupper_def)

lemma tolower_idem [simp]: "tolower (tolower c) = tolower c"
proof -
  have "\<not> isupper (tolower c)" by (auto simp: isupper_def code_tolower)
  then show ?thesis by (subst (1) tolower_def) simp
qed

subsection \<open>Comparison and search\<close>

text \<open>
  \<open>strcasecmp s t == 0\<close> and \<open>strncasecmp s t n == 0\<close>. \<open>memcmp (s, lit, n) == 0\<close> on a NUL-terminated
  \<open>s\<close> is \<open>prefix lit s\<close> when \<open>n\<close> is the length of the literal (the comparison stops at the NUL of a
  shorter \<open>s\<close>) and \<open>s = lit\<close> when \<open>n\<close> counts the NUL of the literal too.
\<close>

definition strcaseeq :: "cstring \<Rightarrow> cstring \<Rightarrow> bool" where
  "strcaseeq s t \<longleftrightarrow> map tolower s = map tolower t"

definition strncaseeq :: "nat \<Rightarrow> cstring \<Rightarrow> cstring \<Rightarrow> bool" where
  "strncaseeq n s t \<longleftrightarrow> map tolower (take n s) = map tolower (take n t)"

lemma strcaseeq_refl [simp]: "strcaseeq s s"
  by (simp add: strcaseeq_def)

lemma strcaseeq_sym: "strcaseeq s t \<Longrightarrow> strcaseeq t s"
  by (simp add: strcaseeq_def)

lemma strcaseeq_trans: "strcaseeq s t \<Longrightarrow> strcaseeq t u \<Longrightarrow> strcaseeq s u"
  by (simp add: strcaseeq_def)

text \<open>\<open>strchr\<close> and \<open>strrchr\<close> return the rest of the string from the character found.\<close>

fun strchr :: "char \<Rightarrow> cstring \<Rightarrow> cstring option" where
  "strchr c [] = None"
| "strchr c (x # xs) = (if x = c then Some (x # xs) else strchr c xs)"

fun strrchr :: "char \<Rightarrow> cstring \<Rightarrow> cstring option" where
  "strrchr c [] = None"
| "strrchr c (x # xs) = (case strrchr c xs of Some t \<Rightarrow> Some t
     | None \<Rightarrow> if x = c then Some (x # xs) else None)"

text \<open>The part of a string before the first \<open>c\<close>: what is left after \<open>*strchr (s, c) = 0\<close>.\<close>

definition before :: "char \<Rightarrow> cstring \<Rightarrow> cstring" where
  "before c s = takeWhile (\<lambda>x. x \<noteq> c) s"

lemma strchr_Some:
  "strchr c s = Some t \<Longrightarrow> s = before c s @ t \<and> t \<noteq> [] \<and> hd t = c \<and> c \<notin> set (before c s)"
  by (induction s) (auto simp: before_def split: if_splits)

lemma strchr_None_iff: "strchr c s = None \<longleftrightarrow> c \<notin> set s"
  by (induction s) auto

lemma strrchr_None_iff: "strrchr c s = None \<longleftrightarrow> c \<notin> set s"
  by (induction s) (auto split: option.splits)

lemma strrchr_Some:
  "strrchr c s = Some t \<Longrightarrow> \<exists>p. s = p @ t \<and> t \<noteq> [] \<and> hd t = c \<and> c \<notin> set (tl t)"
proof (induction s)
  case Nil
  then show ?case by simp
next
  case (Cons x xs)
  show ?case
  proof (cases "strrchr c xs")
    case None
    with Cons.prems have "t = x # xs" "x = c" by (auto split: if_splits)
    with None show ?thesis by (simp add: strrchr_None_iff)
  next
    case (Some u)
    with Cons.prems have "t = u" by simp
    with Some Cons.IH obtain p where "xs = p @ t \<and> t \<noteq> [] \<and> hd t = c \<and> c \<notin> set (tl t)" by blast
    then show ?thesis by (intro exI[of _ "x # p"]) simp
  qed
qed

text \<open>\<open>strstr\<close>: the rest of the haystack from the first occurrence of the needle.\<close>

fun strstr :: "cstring \<Rightarrow> cstring \<Rightarrow> cstring option" where
  "strstr needle [] = (if needle = [] then Some [] else None)"
| "strstr needle (x # xs) =
     (if prefix needle (x # xs) then Some (x # xs) else strstr needle xs)"

lemma strstr_Some: "strstr p s = Some t \<Longrightarrow> \<exists>u. s = u @ t \<and> prefix p t"
proof (induction s)
  case (Cons x xs)
  then show ?case
    by (cases "prefix p (x # xs)") (auto intro: exI[of _ "[]"] exI[of _ "x # _"])
qed (auto split: if_splits)

subsection \<open>Numbers\<close>

definition digit_val :: "char \<Rightarrow> nat" where
  "digit_val c = code c - 48"

definition digit_char :: "nat \<Rightarrow> char" where
  "digit_char d = char_of (48 + d)"

fun scan_digits :: "nat \<Rightarrow> cstring \<Rightarrow> nat \<times> cstring" where
  "scan_digits n [] = (n, [])"
| "scan_digits n (c # cs) =
     (if isdigit c then scan_digits (10 * n + digit_val c) cs else (n, c # cs))"

abbreviation INT_MAX :: int where "INT_MAX \<equiv> 2147483647"
abbreviation INT_MIN :: int where "INT_MIN \<equiv> - 2147483648"

definition clamp_long :: "int \<Rightarrow> int" where
  "clamp_long n = max INT_MIN (min INT_MAX n)"

text \<open>
  \<open>strtol (s, &end, 10)\<close>: \<open>None\<close> when no digit is found, otherwise the value, saturated, and the rest.
  \<open>atoi\<close> is \<open>strtol\<close>, 0 when there is no number.
\<close>

definition strtol :: "cstring \<Rightarrow> (int \<times> cstring) option" where
  "strtol s =
    (let t = dropWhile isspace s;
         (neg, u) = (case t of c # cs \<Rightarrow>
            if c = CHR ''-'' then (True, cs) else if c = CHR ''+'' then (False, cs) else (False, t)
          | [] \<Rightarrow> (False, t))
     in case u of [] \<Rightarrow> None
        | c # _ \<Rightarrow> if isdigit c
            then (let (n, r) = scan_digits 0 u
                  in Some (clamp_long (if neg then - int n else int n), r))
            else None)"

definition atoi :: "cstring \<Rightarrow> int" where
  "atoi s = (case strtol s of None \<Rightarrow> 0 | Some (n, _) \<Rightarrow> n)"

lemma atoi_range: "INT_MIN \<le> atoi s \<and> atoi s \<le> INT_MAX"
  by (auto simp: atoi_def strtol_def clamp_long_def Let_def split: option.splits list.splits if_splits prod.splits)

text \<open>Decimal printing: the digits of a number, most significant first (\<open>%u\<close>, \<open>%d\<close> of a value
  that is not negative, and \<open>%d\<close> in general).\<close>

fun itoa :: "nat \<Rightarrow> cstring" where
  "itoa n = (if n < 10 then [digit_char n] else itoa (n div 10) @ [digit_char (n mod 10)])"

declare itoa.simps [simp del]

definition show_int :: "int \<Rightarrow> cstring" where
  "show_int n = (if n < 0 then CHR ''-'' # itoa (nat (- n)) else itoa (nat n))"

lemma isdigit_digit_char [simp]: "d < 10 \<Longrightarrow> isdigit (digit_char d)"
  by (simp add: isdigit_def digit_char_def)

lemma digit_val_digit_char [simp]: "d < 10 \<Longrightarrow> digit_val (digit_char d) = d"
  by (simp add: digit_val_def digit_char_def)

lemma digit_char_digit_val: "isdigit c \<Longrightarrow> digit_char (digit_val c) = c"
  by (simp add: digit_val_def digit_char_def isdigit_def)

lemma digit_val_less: "isdigit c \<Longrightarrow> digit_val c < 10"
  by (auto simp: digit_val_def isdigit_def)

lemma digit_char_not_NUL [simp]: "d < 10 \<Longrightarrow> digit_char d \<noteq> NUL"
proof
  assume "d < 10" "digit_char d = NUL"
  then have "code (digit_char d) = 0" by simp
  with \<open>d < 10\<close> show False by (simp add: digit_char_def)
qed

lemma itoa_not_Nil [simp]: "itoa n \<noteq> []"
  by (subst itoa.simps) simp

lemma itoa_digits: "c \<in> set (itoa n) \<Longrightarrow> isdigit c"
proof (induction n rule: itoa.induct)
  case (1 n)
  then show ?case by (subst (asm) (2) itoa.simps) (auto split: if_splits)
qed

lemma nul_free_itoa [simp]: "nul_free (itoa n)"
proof -
  have "\<not> isdigit NUL" by (simp add: isdigit_def)
  then show ?thesis using itoa_digits by (auto simp: nul_free_def)
qed

lemma scan_digits_append:
  "list_all isdigit xs \<Longrightarrow>
   scan_digits n (xs @ ys) = scan_digits (foldl (\<lambda>a c. 10 * a + digit_val c) n xs) ys"
  by (induction xs arbitrary: n) auto

lemma foldl_itoa: "foldl (\<lambda>a c. 10 * a + digit_val c) 0 (itoa n) = n"
proof (induction n rule: itoa.induct)
  case (1 n)
  show ?case
  proof (cases "n < 10")
    case True
    then show ?thesis by (subst itoa.simps) simp
  next
    case False
    with 1 show ?thesis by (subst itoa.simps) simp
  qed
qed

lemma scan_digits_itoa:
  assumes "\<And>c cs. ys = c # cs \<Longrightarrow> \<not> isdigit c"
  shows "scan_digits 0 (itoa n @ ys) = (n, ys)"
proof -
  have "list_all isdigit (itoa n)" using itoa_digits by (auto simp: list_all_iff)
  then have "scan_digits 0 (itoa n @ ys) = scan_digits n ys"
    by (simp add: scan_digits_append foldl_itoa)
  also have "\<dots> = (n, ys)" using assms by (cases ys) auto
  finally show ?thesis .
qed

lemma isdigit_not_space: "isdigit c \<Longrightarrow> \<not> isspace c"
  by (auto simp: isdigit_def isspace_def)

lemma hd_itoa: obtains c cs where "itoa n = c # cs" "isdigit c"
proof (cases "itoa n")
  case (Cons c cs)
  then show ?thesis using that itoa_digits[of c n] by simp
qed simp

lemma strtol_digits:
  assumes "isdigit c"
  shows "strtol (c # cs) = (let (n, r) = scan_digits 0 (c # cs) in Some (clamp_long (int n), r))"
proof -
  have "c \<noteq> CHR ''-''" "c \<noteq> CHR ''+''" using assms by (auto simp: isdigit_def)
  with assms show ?thesis
    by (simp add: strtol_def isdigit_not_space Let_def del: scan_digits.simps)
qed

lemma strtol_itoa:
  assumes "int n \<le> INT_MAX" and "\<And>c cs. ys = c # cs \<Longrightarrow> \<not> isdigit c"
  shows "strtol (itoa n @ ys) = Some (int n, ys)"
proof -
  obtain c cs where c: "itoa n = c # cs" "isdigit c" by (rule hd_itoa)
  have "scan_digits 0 (itoa n @ ys) = (n, ys)" by (rule scan_digits_itoa) (rule assms(2))
  with c assms(1) show ?thesis by (simp add: strtol_digits clamp_long_def)
qed

lemma atoi_itoa: "int n \<le> INT_MAX \<Longrightarrow> atoi (itoa n) = int n"
  using strtol_itoa[of n "[]"] by (simp add: atoi_def)

lemma atoi_digits: "isdigit c \<Longrightarrow> atoi (c # cs) = min INT_MAX (int (fst (scan_digits 0 (c # cs))))"
  by (auto simp: atoi_def strtol_digits clamp_long_def split: prod.splits)


subsection \<open>Formatted input\<close>

text \<open>
  A format is a list of items; \<open>sscanf\<close> returns the values it assigned, in order, so their number
  is the value the C function returns (the callers only test for a full match).
\<close>

datatype scan_item = Scan_d | Scan_u | Scan_s nat | Scan_lit char | Scan_ws

datatype scan_val = V_int int | V_str cstring

definition strtoul :: "cstring \<Rightarrow> (int \<times> cstring) option" where
  "strtoul s =
    (let t = dropWhile isspace s;
         (neg, u) = (case t of c # cs \<Rightarrow>
            if c = CHR ''-'' then (True, cs) else if c = CHR ''+'' then (False, cs) else (False, t)
          | [] \<Rightarrow> (False, t))
     in case u of [] \<Rightarrow> None
        | c # _ \<Rightarrow> if isdigit c
            then (let (n, r) = scan_digits 0 u
                  in Some (if 2 ^ 32 \<le> n then 2 ^ 32 - 1
                           else if neg then (- int n) mod 2 ^ 32 else int n, r))
            else None)"

fun sscanf :: "scan_item list \<Rightarrow> cstring \<Rightarrow> scan_val list" where
  "sscanf [] s = []"
| "sscanf (Scan_ws # f) s = sscanf f (dropWhile isspace s)"
| "sscanf (Scan_lit c # f) s =
     (case s of [] \<Rightarrow> [] | x # xs \<Rightarrow> if x = c then sscanf f xs else [])"
| "sscanf (Scan_d # f) s =
     (case strtol s of None \<Rightarrow> [] | Some (n, r) \<Rightarrow> V_int n # sscanf f r)"
| "sscanf (Scan_u # f) s =
     (case strtoul s of None \<Rightarrow> [] | Some (n, r) \<Rightarrow> V_int n # sscanf f r)"
| "sscanf (Scan_s w # f) s =
     (let t = dropWhile isspace s; u = takeWhile (\<lambda>c. \<not> isspace c) (take w t)
      in if u = [] then [] else V_str u # sscanf f (drop (length u) t))"

definition scan_lits :: "cstring \<Rightarrow> scan_item list" where
  "scan_lits s = map Scan_lit s"

lemma sscanf_lits: "sscanf (scan_lits xs @ f) (xs @ s) = sscanf f s"
  by (induction xs) (simp_all add: scan_lits_def)

lemma strtoul_itoa:
  assumes "n < 2 ^ 32" and "\<And>c cs. ys = c # cs \<Longrightarrow> \<not> isdigit c"
  shows "strtoul (itoa n @ ys) = Some (int n, ys)"
proof -
  obtain c cs where c: "itoa n = c # cs" "isdigit c" by (rule hd_itoa)
  have "scan_digits 0 (itoa n @ ys) = (n, ys)" by (rule scan_digits_itoa) (rule assms(2))
  moreover have "c \<noteq> CHR ''-''" "c \<noteq> CHR ''+''" using c(2) by (auto simp: isdigit_def)
  ultimately show ?thesis using c assms(1)
    by (simp add: strtoul_def isdigit_not_space Let_def del: scan_digits.simps)
qed

text \<open>Character \<open>i\<close> of a C string; the NUL after its end.\<close>

definition char_at :: "cstring \<Rightarrow> nat \<Rightarrow> char" where
  "char_at s i = (if i < length s then s ! i else NUL)"

end
