(* ===== verification/Boa_Util.thy ===== *)
theory Boa_Util
  imports Clib
begin

unbundle bit_operations_syntax

text \<open>
  \<^verbatim>\<open>util.c\<close>: cleaning and decoding of request paths, the two date formats and the
  \<open>If-Modified-Since\<close> comparison, number conversion, path normalisation.
\<close>

subsection \<open>clean\_pathname\<close>

text \<open>The inner loop, which skips \<open>/\<close>, \<open>./\<close> and \<open>../\<close> after a slash, and the outer one.\<close>

function skip_segments :: "cstring \<Rightarrow> cstring" where
  "skip_segments s =
     (if prefix ''/'' s then skip_segments (drop 1 s)
      else if prefix ''./'' s then skip_segments (drop 2 s)
      else if prefix ''../'' s then skip_segments (drop 3 s)
      else s)"
  by pat_completeness auto
termination
  by (relation "measure length") (auto simp: prefix_def)

declare skip_segments.simps [simp del]

lemma length_skip_segments: "length (skip_segments s) \<le> length s"
proof (induction s rule: skip_segments.induct)
  case (1 s)
  then show ?case by (subst skip_segments.simps) force
qed

function clean_pathname :: "cstring \<Rightarrow> cstring" where
  "clean_pathname [] = []"
| "clean_pathname (c # cs) =
     (if c = CHR ''/'' then CHR ''/'' # clean_pathname (skip_segments cs)
      else c # clean_pathname cs)"
  by pat_completeness auto
termination
  by (relation "measure length") (auto simp: le_imp_less_Suc length_skip_segments)

subsection \<open>Dates\<close>

record tm =
  tm_sec :: nat
  tm_min :: nat
  tm_hour :: nat
  tm_mday :: nat
  tm_mon :: nat
  tm_year :: int
  tm_wday :: nat

definition month_tab :: cstring where
  "month_tab = ''Jan Feb Mar Apr May Jun Jul Aug Sep Oct Nov Dec ''"

definition day_tab :: cstring where
  "day_tab = ''Sun,Mon,Tue,Wed,Thu,Fri,Sat,''"

text \<open>\<open>*p-- = '0' + a % 10; *p-- = '0' + a / 10\<close>, and the loop that prints the year.\<close>

definition two_digits :: "nat \<Rightarrow> cstring" where
  "two_digits a = [char_of (48 + a div 10), digit_char (a mod 10)]"

fun year_digits :: "nat \<Rightarrow> cstring" where
  "year_digits a = (if a = 0 then [] else year_digits (a div 10) @ [digit_char (a mod 10)])"

declare year_digits.simps [simp del]

definition get_commonlog_time :: "tm \<Rightarrow> int \<Rightarrow> cstring" where
  "get_commonlog_time t time_offset =
    (let a = nat (\<bar>time_offset\<bar> div 60) in
     ''['' @ two_digits (tm_mday t) @ ''/'' @ take 3 (drop (4 * tm_mon t) month_tab) @ ''/'' @
     year_digits (nat (1900 + tm_year t)) @ '':'' @
     two_digits (tm_hour t) @ '':'' @ two_digits (tm_min t) @ '':'' @ two_digits (tm_sec t) @ '' '' @
     (if time_offset \<ge> 0 then ''+'' else ''-'') @
     [char_of (48 + a div 600), digit_char (a div 60 mod 10), digit_char (a div 10 mod 6), digit_char (a mod 10)] @
     ''] '')"

definition rfc822_time_buf :: "tm \<Rightarrow> cstring" where
  "rfc822_time_buf t =
     take 4 (drop (tm_wday t * 4) day_tab) @ '' '' @ two_digits (tm_mday t) @ '' '' @
     take 4 (drop (4 * tm_mon t) month_tab) @ year_digits (nat (1900 + tm_year t)) @ '' '' @
     two_digits (tm_hour t) @ '':'' @ two_digits (tm_min t) @ '':'' @ two_digits (tm_sec t) @
     '' GMT''"

definition month2int :: "cstring \<Rightarrow> int" where
  "month2int m =
    (let c = char_at m 0 in
     if c = CHR ''A'' then (if char_at m 1 = CHR ''p'' then 3 else 7)
     else if c = CHR ''D'' then 11
     else if c = CHR ''F'' then 1
     else if c = CHR ''J'' then (if char_at m 1 = CHR ''a'' then 0
                                 else if char_at m 2 = CHR ''n'' then 5 else 6)
     else if c = CHR ''M'' then (if char_at m 2 = CHR ''r'' then 2 else 4)
     else if c = CHR ''N'' then 10
     else if c = CHR ''O'' then 9
     else if c = CHR ''S'' then 8
     else - 1)"

text \<open>The date formats of \<open>modified_since\<close>: RFC 1123, RFC 1036, asctime, and a non-standard one.\<close>

definition fmt_hms :: "scan_item list" where
  "fmt_hms = [Scan_d, Scan_lit (CHR '':''), Scan_d, Scan_lit (CHR '':''), Scan_d]"

definition fmt_rfc1123 :: "nat \<Rightarrow> scan_item list" where
  "fmt_rfc1123 w = [Scan_d, Scan_ws, Scan_s w, Scan_ws, Scan_d, Scan_ws] @ fmt_hms @ Scan_ws # scan_lits ''GMT''"

definition fmt_rfc1036 :: "scan_item list" where
  "fmt_rfc1036 = [Scan_d, Scan_lit (CHR ''-''), Scan_s 3, Scan_lit (CHR ''-''), Scan_d, Scan_ws] @
     fmt_hms @ Scan_ws # scan_lits ''GMT''"

definition fmt_asctime :: "scan_item list" where
  "fmt_asctime = [Scan_ws, Scan_s 3, Scan_ws, Scan_d, Scan_ws] @ fmt_hms @ [Scan_ws, Scan_d]"

text \<open>
  The fields \<open>(day, monthname, year, hour, minute, second)\<close> of the header, or \<open>None\<close> when no format
  gives all six; \<open>int_arg\<close> and \<open>str_arg\<close> read the variable a conversion was assigned to.
\<close>

definition int_arg :: "scan_val list \<Rightarrow> nat \<Rightarrow> int" where
  "int_arg vs i = (case vs ! i of V_int n \<Rightarrow> n | V_str _ \<Rightarrow> 0)"

definition str_arg :: "scan_val list \<Rightarrow> nat \<Rightarrow> cstring" where
  "str_arg vs i = (case vs ! i of V_int _ \<Rightarrow> [] | V_str s \<Rightarrow> s)"

definition date_dmy :: "int \<Rightarrow> scan_val list \<Rightarrow> int \<times> cstring \<times> int \<times> int \<times> int \<times> int" where
  "date_dmy century vs =
     (int_arg vs 0, str_arg vs 1, int_arg vs 2 + century, int_arg vs 3, int_arg vs 4, int_arg vs 5)"

definition date_asctime :: "scan_val list \<Rightarrow> int \<times> cstring \<times> int \<times> int \<times> int \<times> int" where
  "date_asctime vs =
     (int_arg vs 1, str_arg vs 0, int_arg vs 5, int_arg vs 2, int_arg vs 3, int_arg vs 4)"

definition scan_date :: "cstring \<Rightarrow> (int \<times> cstring \<times> int \<times> int \<times> int \<times> int) option" where
  "scan_date ims =
    (let info = dropWhile (\<lambda>c. c \<noteq> SP) ims;
         v1 = sscanf (fmt_rfc1123 3) info;
         v2 = sscanf fmt_rfc1036 info;
         v3 = sscanf fmt_asctime info;
         v4 = sscanf (fmt_rfc1123 10) ims
     in if info = [] then None
        else if length v1 = 6 then Some (date_dmy 0 v1)
        else if length v2 = 6 then Some (date_dmy 1900 v2)
        else if length v3 = 6 then Some (date_asctime v3)
        else if length v4 = 6 then Some (date_dmy 0 v4)
        else None)"

text \<open>The chain of comparisons: the first difference that is not 0 decides.\<close>

fun first_difference :: "int list \<Rightarrow> int" where
  "first_difference [] = 0"
| "first_difference (c # cs) = (if c \<noteq> 0 then (if c > 0 then 1 else 0) else first_difference cs)"

definition modified_since :: "tm \<Rightarrow> cstring \<Rightarrow> int" where
  "modified_since file_gmt ims =
    (case scan_date ims of None \<Rightarrow> - 1
     | Some (day, monthname, year, hour, minute, second) \<Rightarrow>
         first_difference
          [1900 + tm_year file_gmt - year,
           int (tm_mon file_gmt) - month2int monthname,
           int (tm_mday file_gmt) - day,
           int (tm_hour file_gmt) - hour,
           int (tm_min file_gmt) - minute,
           int (tm_sec file_gmt) - second])"

subsection \<open>Header names and percent-decoding\<close>

definition to_upper :: "cstring \<Rightarrow> cstring" where
  "to_upper s = map (\<lambda>c. if c = CHR ''-'' then CHR ''_'' else toupper c) s"

definition hex_digit_value :: "char \<Rightarrow> int" where
  "hex_digit_value c = (if code c \<ge> 65 then (int (code c) AND 0xdf) - 65 + 10 else int (code c) - 48)"

text \<open>The macro \<open>HEX_TO_DECIMAL\<close>, stored into a \<open>char\<close>.\<close>

definition HEX_TO_DECIMAL :: "char \<Rightarrow> char \<Rightarrow> char" where
  "HEX_TO_DECIMAL c d = char_of (nat ((hex_digit_value c * 16 + hex_digit_value d) mod 256))"

text \<open>
  The decoding loop returns the characters stored into \<open>uri\<close> and the query string it found;
  \<open>None\<close> is the return value 0. \<open>q\<close> says whether the caller passed a \<open>query_string\<close> pointer.
\<close>

fun unescape_loop :: "bool \<Rightarrow> cstring \<Rightarrow> (char list \<times> cstring option) option" where
  "unescape_loop q [] = Some ([], None)"
| "unescape_loop q (x # xs) =
    (if x = CHR ''%'' then
       (case xs of
          c # d # rest \<Rightarrow>
            map_option (\<lambda>(u, qs). (HEX_TO_DECIMAL c d # u, qs)) (unescape_loop q rest)
        | _ \<Rightarrow> None)
     else if x = CHR ''?'' then Some ([], if q then Some xs else None)
     else if x = CHR ''#'' then
       Some ([], if q then map_option tl (strchr (CHR ''?'') xs) else None)
     else map_option (\<lambda>(u, qs). (x # u, qs)) (unescape_loop q xs))"

definition unescape_uri :: "bool \<Rightarrow> cstring \<Rightarrow> (cstring \<times> cstring option) option" where
  "unescape_uri q uri = map_option (\<lambda>(u, qs). (cstr u, qs)) (unescape_loop q uri)"

subsection \<open>Numbers\<close>

function simple_itoa_loop :: "nat \<Rightarrow> cstring \<Rightarrow> cstring" where
  "simple_itoa_loop i acc =
     (let acc' = digit_char (i mod 10) # acc in
      if i div 10 > 0 then simple_itoa_loop (i div 10) acc' else acc')"
  by pat_completeness auto
termination
  by (relation "measure fst") auto

declare simple_itoa_loop.simps [simp del]

definition simple_itoa :: "nat \<Rightarrow> cstring" where
  "simple_itoa i = simple_itoa_loop i []"

definition boa_atoi :: "cstring \<Rightarrow> int" where
  "boa_atoi s =
    (if \<not> isdigit (char_at s 0) then - 1
     else let retval = atoi s in
       if retval < 0 then - 1
       else if \<not> prefix s (simple_itoa (nat retval)) then - 1
       else retval)"

subsection \<open>Temporary files and absolute paths\<close>

abbreviation MAX_PATH_LENGTH :: nat where "MAX_PATH_LENGTH \<equiv> 4096"

text \<open>
  \<open>mkstemp\<close> gives the descriptor and the name made from the template, or fails; \<open>unlink_ok\<close> says
  whether \<open>unlink\<close> succeeds. The result is the descriptor (0 for an error) and what is copied to
  \<open>storage\<close>, whose size is \<open>capacity\<close>.
\<close>

definition create_temporary_file ::
  "cstring \<Rightarrow> (cstring \<Rightarrow> (nat \<times> cstring) option) \<Rightarrow> bool \<Rightarrow> bool \<Rightarrow> nat option \<Rightarrow> nat \<times> cstring option" where
  "create_temporary_file tempdir mkstemp unlink_ok want_unlink capacity =
    (let boa_tempfile = take (MAX_PATH_LENGTH - 1) (tempdir @ ''/boa-temp.XXXXXX'') in
     case mkstemp boa_tempfile of None \<Rightarrow> (0, None)
     | Some (fd, name) \<Rightarrow>
        let (fd1, stored, want1) =
              (case capacity of None \<Rightarrow> (fd, None, want_unlink)
               | Some n \<Rightarrow> if length name < n then (fd, Some name, want_unlink)
                           else (0, None, True));
            fd2 = (if want1 \<and> \<not> unlink_ok then 0 else fd1)
        in (fd2, stored))"

text \<open>\<open>None\<close> stands for \<open>exit(1)\<close>; \<open>cwd\<close> is the result of \<open>getcwd\<close>, \<open>None\<close> when it fails.\<close>

definition normalize_path :: "cstring option \<Rightarrow> cstring \<Rightarrow> cstring option" where
  "normalize_path cwd path =
    (if char_at path 0 = CHR ''/'' then Some path
     else case cwd of None \<Rightarrow> None
       | Some dirbuf \<Rightarrow>
           if length dirbuf + length path > MAX_PATH_LENGTH * 2 then None
           else Some (if path \<noteq> ''.'' then dirbuf @ ''/'' @ path else dirbuf))"


subsection \<open>clean\_pathname leaves no parent or empty segment\<close>

lemma skip_segments_done:
  "\<not> prefix ''/'' (skip_segments s) \<and> \<not> prefix ''./'' (skip_segments s) \<and>
   \<not> prefix ''../'' (skip_segments s)"
proof (induction s rule: skip_segments.induct)
  case (1 s)
  then show ?case by (subst (1 2 3) skip_segments.simps) (simp split: if_split)
qed

lemma skip_segments_id:
  "\<not> prefix ''/'' s \<Longrightarrow> \<not> prefix ''./'' s \<Longrightarrow> \<not> prefix ''../'' s \<Longrightarrow> skip_segments s = s"
  by (subst skip_segments.simps) simp

text \<open>Up to its first slash, a path is copied unchanged.\<close>

lemma prefix_clean_pathname:
  "CHR ''/'' \<notin> set p \<Longrightarrow> prefix (p @ ''/'') (clean_pathname s) \<longleftrightarrow> prefix (p @ ''/'') s"
proof (induction p arbitrary: s)
  case Nil
  show ?case by (cases s) auto
next
  case (Cons x p)
  then show ?case by (cases s) auto
qed

lemma clean_pathname_no_segment:
  assumes "CHR ''/'' \<notin> set p" and "p @ ''/'' \<in> {''/'', ''./'', ''../''}"
  shows "\<not> sublist (CHR ''/'' # p @ ''/'') (clean_pathname s)"
proof (induction s rule: clean_pathname.induct)
  case 1
  show ?case by simp
next
  case (2 c cs)
  show ?case
  proof (cases "c = CHR ''/''")
    case True
    have "\<not> prefix (p @ ''/'') (skip_segments cs)"
      using assms(2) skip_segments_done[of cs] by auto
    then have "\<not> prefix (p @ ''/'') (clean_pathname (skip_segments cs))"
      using assms(1) by (simp add: prefix_clean_pathname)
    with True 2 show ?thesis by (simp add: sublist_Cons_right)
  next
    case False
    with 2 show ?thesis by (simp add: sublist_Cons_right)
  qed
qed

definition safe_path :: "cstring \<Rightarrow> bool" where
  "safe_path s \<longleftrightarrow> \<not> sublist ''//'' s \<and> \<not> sublist ''/./'' s \<and> \<not> sublist ''/../'' s"

lemma safe_clean_pathname [simp]: "safe_path (clean_pathname s)"
  using clean_pathname_no_segment[of "[]" s] clean_pathname_no_segment[of "''.''" s]
    clean_pathname_no_segment[of "''..''" s]
  by (simp add: safe_path_def)

lemma safe_path_ConsD: "safe_path (c # s) \<Longrightarrow> safe_path s"
  by (simp add: safe_path_def sublist_Cons_right)

lemma clean_pathname_safe_id: "safe_path s \<Longrightarrow> clean_pathname s = s"
proof (induction s rule: clean_pathname.induct)
  case (2 c cs)
  show ?case
  proof (cases "c = CHR ''/''")
    case True
    with 2(3) have "skip_segments cs = cs"
      by (intro skip_segments_id) (auto simp: safe_path_def sublist_Cons_right)
    with True 2 show ?thesis by (auto dest: safe_path_ConsD)
  next
    case False
    with 2 show ?thesis by (auto dest: safe_path_ConsD)
  qed
qed simp

lemma length_clean_pathname: "length (clean_pathname s) \<le> length s"
proof (induction s rule: clean_pathname.induct)
  case (2 c cs)
  then show ?case using length_skip_segments[of cs] by auto
qed simp

lemma hd_clean_pathname: "s \<noteq> [] \<Longrightarrow> clean_pathname s \<noteq> [] \<and> hd (clean_pathname s) = hd s"
  by (cases s) auto

lemma set_skip_segments: "set (skip_segments s) \<subseteq> set s"
proof (induction s rule: skip_segments.induct)
  case (1 s)
  then show ?case
    by (subst skip_segments.simps) (auto dest: in_set_dropD)
qed

lemma set_clean_pathname: "set (clean_pathname s) \<subseteq> set s"
proof (induction s rule: clean_pathname.induct)
  case (2 c cs)
  then show ?case using set_skip_segments[of cs] by auto
qed simp

lemma nul_free_clean_pathname [simp]: "nul_free s \<Longrightarrow> nul_free (clean_pathname s)"
  using set_clean_pathname by (auto simp: nul_free_def)

subsection \<open>The date formats\<close>

definition tm_ok :: "tm \<Rightarrow> bool" where
  "tm_ok t \<longleftrightarrow> tm_sec t \<le> 61 \<and> tm_min t < 60 \<and> tm_hour t < 24 \<and> 1 \<le> tm_mday t \<and> tm_mday t \<le> 31 \<and>
     tm_mon t < 12 \<and> tm_wday t < 7 \<and> 1000 \<le> 1900 + tm_year t \<and> 1900 + tm_year t \<le> 9999"

lemma year_digits_itoa: "0 < n \<Longrightarrow> year_digits n = itoa n"
proof (induction n rule: itoa.induct)
  case (1 n)
  show ?case
  proof (cases "n < 10")
    case True
    then have "year_digits (n div 10) = []" by (simp add: year_digits.simps)
    with True 1(2) show ?thesis by (subst year_digits.simps, subst itoa.simps) simp
  next
    case False
    with 1 show ?thesis by (subst year_digits.simps, subst itoa.simps) simp
  qed
qed

lemma length_year_digits:
  assumes "1000 \<le> n" "n \<le> 9999"
  shows "length (year_digits n) = 4"
proof -
  have "\<not> n < 10" "\<not> n div 10 < 10" "\<not> n div 10 div 10 < 10" "n div 10 div 10 div 10 < 10"
    using assms by linarith+
  then have "length (itoa n) = 4"
    by (simp only: itoa.simps[of n] itoa.simps[of "n div 10"] itoa.simps[of "n div 10 div 10"]
        itoa.simps[of "n div 10 div 10 div 10"] if_True if_False length_append list.size)
  with assms show ?thesis by (simp add: year_digits_itoa)
qed

lemma length_two_digits [simp]: "length (two_digits a) = 2"
  by (simp add: two_digits_def)

lemma two_digits_digits:
  "a < 100 \<Longrightarrow> two_digits a = [digit_char (a div 10), digit_char (a mod 10)] \<and> a div 10 < 10"
  by (simp add: two_digits_def digit_char_def)

lemma strtol_SP [simp]: "strtol (SP # s) = strtol s"
  by (simp add: strtol_def isspace_def)

lemma strtol_two_digits:
  assumes "a < 100" and "\<And>c cs. ys = c # cs \<Longrightarrow> \<not> isdigit c"
  shows "strtol (two_digits a @ ys) = Some (int a, ys)"
proof -
  have d: "two_digits a = [digit_char (a div 10), digit_char (a mod 10)]" "a div 10 < 10"
    using two_digits_digits[OF assms(1)] by auto
  have "scan_digits 0 (two_digits a @ ys) = scan_digits a ys"
    using d by simp
  also have "\<dots> = (a, ys)" using assms(2) by (cases ys) auto
  finally show ?thesis using d assms(1) by (simp add: strtol_digits clamp_long_def del: scan_digits.simps)
qed

lemma strtol_two_digits_Cons:
  "a < 100 \<Longrightarrow> \<not> isdigit c \<Longrightarrow> strtol (two_digits a @ c # cs) = Some (int a, c # cs)"
  by (rule strtol_two_digits) auto

text \<open>The month field: three letters that \<open>month2int\<close> maps back to the month, then a space.\<close>

lemma month_entry:
  assumes "m < 12"
  obtains a b c where "take 4 (drop (4 * m) month_tab) = [a, b, c, SP]"
    "\<not> isspace a" "\<not> isspace b" "\<not> isspace c" "month2int [a, b, c] = int m"
proof -
  have "\<forall>m\<in>set [0..<12]. (let e = take 4 (drop (4 * m) month_tab) in
      length e = 4 \<and> e ! 3 = SP \<and> list_all (\<lambda>c. \<not> isspace c) (take 3 e) \<and> month2int (take 3 e) = int m)"
    by code_simp
  with assms have e: "let e = take 4 (drop (4 * m) month_tab) in
      length e = 4 \<and> e ! 3 = SP \<and> list_all (\<lambda>c. \<not> isspace c) (take 3 e) \<and> month2int (take 3 e) = int m"
    by (metis atLeastLessThan_iff le0 set_upt)
  then obtain a b c d where "take 4 (drop (4 * m) month_tab) = [a, b, c, d]"
    by (auto simp: Let_def length_Suc_conv numeral_eq_Suc)
  with e that show ?thesis by (auto simp: Let_def)
qed

lemma day_entry:
  assumes "w < 7"
  shows "length (take 4 (drop (w * 4) day_tab)) = 4" "SP \<notin> set (take 4 (drop (w * 4) day_tab))"
proof -
  have "\<forall>w\<in>set [0..<7]. length (take 4 (drop (w * 4) day_tab)) = 4 \<and> SP \<notin> set (take 4 (drop (w * 4) day_tab))"
    by code_simp
  with assms show "length (take 4 (drop (w * 4) day_tab)) = 4" "SP \<notin> set (take 4 (drop (w * 4) day_tab))"
    by (metis atLeastLessThan_iff le0 set_upt)+
qed

lemma length_rfc822_time_buf:
  assumes "tm_ok t" shows "length (rfc822_time_buf t) = 29"
proof -
  have "tm_mon t < 12" using assms by (simp add: tm_ok_def)
  then obtain a b c where "take 4 (drop (4 * tm_mon t) month_tab) = [a, b, c, SP]"
    by (rule month_entry)
  then have m: "length (take 4 (drop (4 * tm_mon t) month_tab)) = 4" by simp
  have y: "length (year_digits (nat (1900 + tm_year t))) = 4"
    using assms by (intro length_year_digits) (auto simp: tm_ok_def)
  show ?thesis using m y day_entry(1)[of "tm_wday t"] assms
    by (simp add: rfc822_time_buf_def tm_ok_def del: length_take)
qed

text \<open>Scanning the time of day and the year back.\<close>

lemma isdigit_colon_SP [simp]: "\<not> isdigit (CHR '':'')" "\<not> isdigit SP" "isspace SP"
  by (simp_all add: isdigit_def isspace_def)

lemma strtol_year:
  assumes "1000 \<le> y" "y \<le> 9999"
  shows "strtol (year_digits (nat y) @ SP # s) = Some (y, SP # s)"
proof -
  have "year_digits (nat y) = itoa (nat y)" using assms by (simp add: year_digits_itoa)
  moreover have "strtol (itoa (nat y) @ SP # s) = Some (int (nat y), SP # s)"
    by (rule strtol_itoa) (use assms in auto)
  ultimately show ?thesis using assms by simp
qed

lemma sscanf_hms:
  assumes "h < 100" "m < 100" "s < 100"
  shows "sscanf (fmt_hms @ f) (two_digits h @ CHR '':'' # two_digits m @ CHR '':'' # two_digits s @ SP # r) =
     V_int (int h) # V_int (int m) # V_int (int s) # sscanf f (SP # r)"
  using assms by (simp add: fmt_hms_def strtol_two_digits_Cons)

lemma dropWhile_SP_Cons [simp]: "\<not> isspace c \<Longrightarrow> dropWhile isspace (SP # c # s) = c # s"
  by simp

lemma isdigit_two_digits:
  "a < 100 \<Longrightarrow> \<exists>d e. two_digits a = [d, e] \<and> \<not> isspace d"
  using two_digits_digits[of a] isdigit_digit_char isdigit_not_space by fastforce

lemma isdigit_year:
  assumes "1000 \<le> y" obtains d e where "year_digits (nat y) = d # e" "\<not> isspace d"
proof -
  have "year_digits (nat y) = itoa (nat y)" using assms by (simp add: year_digits_itoa)
  with that hd_itoa[of "nat y"] show ?thesis by (metis isdigit_not_space)
qed

lemma scan_date_rfc822:
  assumes "tm_ok t"
  obtains m where "scan_date (rfc822_time_buf t) =
      Some (int (tm_mday t), m, 1900 + tm_year t, int (tm_hour t), int (tm_min t), int (tm_sec t))"
    "month2int m = int (tm_mon t)"
proof -
  obtain a b c where m: "take 4 (drop (4 * tm_mon t) month_tab) = [a, b, c, SP]"
      "\<not> isspace a" "\<not> isspace b" "\<not> isspace c" "month2int [a, b, c] = int (tm_mon t)"
    using assms month_entry[of "tm_mon t"] by (auto simp: tm_ok_def)
  define hms where "hms = two_digits (tm_hour t) @ CHR '':'' # two_digits (tm_min t) @ CHR '':'' #
      two_digits (tm_sec t) @ SP # ''GMT''"
  define yr where "yr = year_digits (nat (1900 + tm_year t)) @ SP # hms"
  define rest where "rest = SP # two_digits (tm_mday t) @ SP # a # b # c # SP # yr"
  have shape: "rfc822_time_buf t = take 4 (drop (tm_wday t * 4) day_tab) @ rest"
    by (simp add: rfc822_time_buf_def m rest_def yr_def hms_def)
  have info: "dropWhile (\<lambda>c. c \<noteq> SP) (rfc822_time_buf t) = rest"
    using day_entry(2)[of "tm_wday t"] assms
    by (subst shape, subst dropWhile_append2) (auto simp: tm_ok_def rest_def)
  obtain d1 d2 where yr0: "year_digits (nat (1900 + tm_year t)) = d1 # d2" "\<not> isspace d1"
    using assms isdigit_year[of "1900 + tm_year t"] by (auto simp: tm_ok_def)
  obtain h1 h2 where h0: "two_digits (tm_hour t) = [h1, h2]" "\<not> isspace h1"
    using assms isdigit_two_digits[of "tm_hour t"] by (auto simp: tm_ok_def)
  have H: "tm_hour t < 100" "tm_min t < 100" "tm_sec t < 100" "tm_mday t < 100"
    using assms by (auto simp: tm_ok_def)
  have s3: "sscanf (fmt_hms @ Scan_ws # scan_lits ''GMT'') hms =
      [V_int (int (tm_hour t)), V_int (int (tm_min t)), V_int (int (tm_sec t))]"
    unfolding hms_def using H by (subst sscanf_hms) (simp_all add: scan_lits_def isspace_def)
  have s2: "sscanf (Scan_d # Scan_ws # fmt_hms @ Scan_ws # scan_lits ''GMT'') yr =
      V_int (1900 + tm_year t) # sscanf (fmt_hms @ Scan_ws # scan_lits ''GMT'') hms"
    using assms strtol_year[of "1900 + tm_year t" hms] h0
    by (simp add: yr_def tm_ok_def) (simp add: hms_def)
  have "sscanf (fmt_rfc1123 3) rest =
      V_int (int (tm_mday t)) # V_str [a, b, c] #
        sscanf (Scan_d # Scan_ws # fmt_hms @ Scan_ws # scan_lits ''GMT'') yr"
    using m H yr0
    by (simp add: fmt_rfc1123_def rest_def strtol_two_digits_Cons numeral_3_eq_3 yr_def)
  then have v: "sscanf (fmt_rfc1123 3) rest = [V_int (int (tm_mday t)), V_str [a, b, c],
      V_int (1900 + tm_year t), V_int (int (tm_hour t)), V_int (int (tm_min t)), V_int (int (tm_sec t))]"
    by (simp only: s2 s3)
  have "rest \<noteq> []" by (simp add: rest_def)
  then have "scan_date (rfc822_time_buf t) = Some (int (tm_mday t), [a, b, c], 1900 + tm_year t,
      int (tm_hour t), int (tm_min t), int (tm_sec t))"
    by (simp add: scan_date_def info v Let_def date_dmy_def int_arg_def str_arg_def)
  with m that show ?thesis by blast
qed

text \<open>The order in which the fields of two broken-down times are compared.\<close>

definition tm_key :: "tm \<Rightarrow> int list" where
  "tm_key t = [1900 + tm_year t, int (tm_mon t), int (tm_mday t), int (tm_hour t), int (tm_min t), int (tm_sec t)]"

fun lex_less :: "int list \<Rightarrow> int list \<Rightarrow> bool" where
  "lex_less (x # xs) (y # ys) \<longleftrightarrow> x < y \<or> x = y \<and> lex_less xs ys"
| "lex_less _ _ \<longleftrightarrow> False"

lemma modified_since_rfc822:
  assumes "tm_ok t"
  shows "modified_since f (rfc822_time_buf t) = (if lex_less (tm_key t) (tm_key f) then 1 else 0)"
proof -
  obtain m where s: "scan_date (rfc822_time_buf t) =
      Some (int (tm_mday t), m, 1900 + tm_year t, int (tm_hour t), int (tm_min t), int (tm_sec t))"
    and m: "month2int m = int (tm_mon t)"
    using scan_date_rfc822[OF assms] by blast
  show ?thesis by (auto simp: modified_since_def s m tm_key_def)
qed

subsection \<open>Number conversion\<close>

lemma simple_itoa_loop_itoa: "simple_itoa_loop i acc = itoa i @ acc"
proof (induction i acc rule: simple_itoa_loop.induct)
  case (1 i acc)
  show ?case
  proof (cases "i < 10")
    case True
    then show ?thesis by (subst simple_itoa_loop.simps, subst itoa.simps) simp
  next
    case False
    with 1 show ?thesis by (subst simple_itoa_loop.simps, subst itoa.simps) (simp add: Let_def)
  qed
qed

lemma simple_itoa_itoa [simp]: "simple_itoa i = itoa i"
  by (simp add: simple_itoa_def simple_itoa_loop_itoa)

abbreviation dec_value :: "nat \<Rightarrow> cstring \<Rightarrow> nat" where
  "dec_value \<equiv> foldl (\<lambda>a c. 10 * a + digit_val c)"

lemma dec_value_ge: "n * 10 ^ length s \<le> dec_value n s"
proof (induction s arbitrary: n)
  case (Cons c s)
  have "n * 10 ^ length (c # s) \<le> (10 * n + digit_val c) * 10 ^ length s" by (simp add: algebra_simps)
  also have "\<dots> \<le> dec_value (10 * n + digit_val c) s" by (rule Cons)
  finally show ?case by simp
qed simp

lemma fst_scan_digits_all: "list_all isdigit s \<Longrightarrow> fst (scan_digits n s) = dec_value n s"
  using scan_digits_append[of s n "[]"] by simp

lemma prefix_itoa_value:
  assumes "prefix s (itoa n)" "s \<noteq> []" "dec_value 0 s = n"
  shows "s = itoa n"
proof -
  obtain t where t: "itoa n = s @ t" using assms(1) by (auto elim: prefixE)
  then have "n = dec_value n t" using foldl_itoa[of n] assms(3) by simp
  then have "n * 10 ^ length t \<le> n" using dec_value_ge[of n t] by simp
  moreover have "t \<noteq> [] \<Longrightarrow> (1::nat) < 10 ^ length t"
    by (intro one_less_power) auto
  ultimately have "n = 0 \<or> t = []" by (metis leD mult_le_cancel1 mult.right_neutral not_gr0)
  then show ?thesis
  proof
    assume "n = 0"
    then have "itoa n = [digit_char 0]" by (simp add: itoa.simps)
    with t assms(2) show ?thesis by (cases s) auto
  qed (use t in simp)
qed

lemma boa_atoi_Some:
  assumes "boa_atoi s = int n"
  shows "s = itoa n \<and> int n \<le> INT_MAX"
proof -
  from assms have d: "isdigit (char_at s 0)" and r: "atoi s = int n" and p: "prefix s (itoa n)"
    by (auto simp: boa_atoi_def Let_def split: if_splits)
  from d obtain c cs where s: "s = c # cs" "isdigit c"
    by (cases s) (auto simp: char_at_def isdigit_def)
  have "list_all isdigit s" using p itoa_digits by (auto simp: list_all_iff dest: set_mono_prefix)
  then have v: "fst (scan_digits 0 s) = dec_value 0 s" by (rule fst_scan_digits_all)
  have "dec_value 0 s \<le> n"
  proof -
    obtain t where "itoa n = s @ t" using p by (auto elim: prefixE)
    then have "n = dec_value (dec_value 0 s) t" using foldl_itoa[of n] by simp
    moreover have "dec_value 0 s \<le> dec_value 0 s * 10 ^ length t" by simp
    ultimately show ?thesis using dec_value_ge[of "dec_value 0 s" t] by linarith
  qed
  moreover have "int n = min INT_MAX (int (dec_value 0 s))"
    using r s v by (simp add: atoi_digits)
  ultimately have "dec_value 0 s = n" "int n \<le> INT_MAX" by linarith+
  with p s prefix_itoa_value show ?thesis by auto
qed

lemma boa_atoi_itoa: "int n \<le> INT_MAX \<Longrightarrow> boa_atoi (itoa n) = int n"
proof -
  assume a: "int n \<le> INT_MAX"
  obtain c cs where "itoa n = c # cs" "isdigit c" by (rule hd_itoa)
  moreover have "atoi (itoa n) = int n" using a by (rule atoi_itoa)
  ultimately show ?thesis by (simp add: boa_atoi_def char_at_def Let_def)
qed

lemma boa_atoi_cases: "boa_atoi s = - 1 \<or> (\<exists>n. boa_atoi s = int n)"
  by (auto simp: boa_atoi_def Let_def intro: exI[of _ "nat (atoi s)"])

subsection \<open>Properties\<close>

text \<open>
  C31: \<open>clean_pathname\<close> leaves no empty segment (\<open>//\<close>), no \<open>/./\<close> and no \<open>/../\<close> in a path, so a request
  path that went through it has no parent segment followed by a slash; it is idempotent, never
  lengthens the path (it works in place) and invents no character.
\<close>

theorem clean_pathname_correct:
  "\<not> sublist ''//'' (clean_pathname s) \<and> \<not> sublist ''/./'' (clean_pathname s) \<and>
   \<not> sublist ''/../'' (clean_pathname s) \<and> clean_pathname (clean_pathname s) = clean_pathname s \<and>
   length (clean_pathname s) \<le> length s \<and> set (clean_pathname s) \<subseteq> set s"
  using safe_clean_pathname[of s] clean_pathname_safe_id[OF safe_clean_pathname, of s]
    length_clean_pathname[of s] set_clean_pathname[of s]
  by (simp add: safe_path_def)

text \<open>
  \<open>boa_atoi\<close> accepts exactly the canonical decimal numerals of an \<open>int\<close>: it returns \<open>n\<close> for the
  digits of \<open>n\<close> with no leading zero, sign, space or trailing character, and -1 for every other
  string, numerals above \<open>INT_MAX\<close> included.
\<close>

theorem boa_atoi_canonical:
  "(boa_atoi s = int n \<longleftrightarrow> s = itoa n \<and> int n \<le> INT_MAX) \<and>
   (boa_atoi s = - 1 \<longleftrightarrow> (\<nexists>m. s = itoa m \<and> int m \<le> INT_MAX))"
proof -
  have "boa_atoi s = int n \<longleftrightarrow> s = itoa n \<and> int n \<le> INT_MAX" for n
    using boa_atoi_Some[of s n] boa_atoi_itoa[of n] by blast
  moreover have "boa_atoi s = - 1 \<longleftrightarrow> (\<nexists>m. boa_atoi s = int m)"
    using boa_atoi_cases[of s] by auto
  ultimately show ?thesis by simp
qed

text \<open>
  The \<open>Last-Modified\<close> date the server prints is 29 characters long and is understood by the
  server itself: \<open>modified_since\<close> on a printed date says that the file is newer exactly when its
  broken-down time is lexicographically later, and 0 (not modified) otherwise.
\<close>

theorem modified_since_rfc822_time:
  "tm_ok t \<Longrightarrow> length (rfc822_time_buf t) = 29 \<and>
     modified_since f (rfc822_time_buf t) = (if lex_less (tm_key t) (tm_key f) then 1 else 0)"
  by (simp add: length_rfc822_time_buf modified_since_rfc822)

definition sample_tm :: tm where
  "sample_tm = \<lparr>tm_sec = 7, tm_min = 26, tm_hour = 18, tm_mday = 9, tm_mon = 9, tm_year = 101, tm_wday = 2\<rparr>"

theorem modified_since_rfc822_time_witness:
  "rfc822_time_buf sample_tm = ''Tue, 09 Oct 2001 18:26:07 GMT'' \<and> length (rfc822_time_buf sample_tm) = 29 \<and>
   modified_since (sample_tm\<lparr>tm_sec := 8\<rparr>) (rfc822_time_buf sample_tm) = 1"
proof -
  have "tm_ok sample_tm" by code_simp
  moreover have "lex_less (tm_key sample_tm) (tm_key (sample_tm\<lparr>tm_sec := 8\<rparr>))" by code_simp
  moreover have "rfc822_time_buf sample_tm = ''Tue, 09 Oct 2001 18:26:07 GMT''" by code_simp
  ultimately show ?thesis
    using modified_since_rfc822_time[of sample_tm "sample_tm\<lparr>tm_sec := 8\<rparr>"] by simp
qed

end
