(* ===== verification/Request.thy ===== *)
theory Request
  imports Boa_Util
begin

text \<open>
  The request structure of \<^verbatim>\<open>globals.h\<close> and the constants of \<^verbatim>\<open>defines.h\<close>: one record per client
  connection, shared by every component of the server.

  Pointers into the two buffers of the request are kept as offsets (\<open>hptr\<close>); a pointer to a string
  is the string, \<open>None\<close> for \<open>NULL\<close>. Two fields stand for the socket: \<open>sock_out\<close>, the outcomes of the
  next writes to it, and \<open>sock_sent\<close>, the bytes it accepted so far.
\<close>

datatype req_status = READ_HEADER | ONE_CR | ONE_LF | TWO_CR | BODY_READ | BODY_WRITE
  | WRITE | PIPE_READ | PIPE_WRITE | DONE | DEAD

datatype http_method = M_NONE | M_GET | M_HEAD | M_POST

datatype ka_status = KA_INACTIVE | KA_STOPPED | KA_ACTIVE

datatype cgi_type = NO_CGI | CGI | NPH

datatype cgi_state = CGI_NONE | CGI_PARSE | CGI_BUFFER | CGI_DONE

datatype hptr = HNull | In_stream nat | In_buffer nat

definition BUFFER_SIZE :: nat where "BUFFER_SIZE = 8192"
definition CLIENT_STREAM_SIZE :: nat where "CLIENT_STREAM_SIZE = 8192"
definition MAX_HEADER_LENGTH :: nat where "MAX_HEADER_LENGTH = 1024"
definition MAX_CMD_LENGTH :: nat where "MAX_CMD_LENGTH = 2048"
definition MAX_CMD_NUM :: nat where "MAX_CMD_NUM = 64"

abbreviation R_REQUEST_OK :: nat where "R_REQUEST_OK \<equiv> 200"
abbreviation R_MOVED_PERM :: nat where "R_MOVED_PERM \<equiv> 301"
abbreviation R_MOVED_TEMP :: nat where "R_MOVED_TEMP \<equiv> 302"
abbreviation R_NOT_MODIFIED :: nat where "R_NOT_MODIFIED \<equiv> 304"
abbreviation R_BAD_REQUEST :: nat where "R_BAD_REQUEST \<equiv> 400"
abbreviation R_UNAUTHORIZED :: nat where "R_UNAUTHORIZED \<equiv> 401"
abbreviation R_FORBIDDEN :: nat where "R_FORBIDDEN \<equiv> 403"
abbreviation R_NOT_FOUND :: nat where "R_NOT_FOUND \<equiv> 404"
abbreviation R_ERROR :: nat where "R_ERROR \<equiv> 500"
abbreviation R_NOT_IMP :: nat where "R_NOT_IMP \<equiv> 501"
abbreviation R_BAD_GATEWAY :: nat where "R_BAD_GATEWAY \<equiv> 502"
abbreviation R_SERVICE_UNAV :: nat where "R_SERVICE_UNAV \<equiv> 503"
abbreviation R_BAD_VERSION :: nat where "R_BAD_VERSION \<equiv> 505"

record command_argument =
  arg_name :: cstring
  arg_value :: "cstring option"
  arg_flags :: int

text \<open>An entry of the URI table: its handler is the number of a function, \<open>None\<close> for \<open>NULL\<close>.\<close>

record http_uri_entry =
  uri_name :: cstring
  uri_handler :: "nat option"
  uri_authority :: int
  uri_flag :: nat

definition URI_FLAG_NEED_PARSE :: nat where "URI_FLAG_NEED_PARSE = 0"
definition URI_FLAG_VIRTUAL_PAGE :: nat where "URI_FLAG_VIRTUAL_PAGE = 1"
definition URI_FLAG_CHECK_LOGIN :: nat where "URI_FLAG_CHECK_LOGIN = 2"
definition URI_FLAG_VOLATILE_FILE :: nat where "URI_FLAG_VOLATILE_FILE = 3"
definition URI_FLAG_DIRECT_READ :: nat where "URI_FLAG_DIRECT_READ = 4"
definition URI_FLAG_DIRECT_WRITE :: nat where "URI_FLAG_DIRECT_WRITE = 5"
definition URI_FLAG_RTSP_O_HTTP :: nat where "URI_FLAG_RTSP_O_HTTP = 6"

text \<open>\<open>uri_flag & (1 << b)\<close>, the constants above naming the bit \<open>b\<close>.\<close>

definition has_flag :: "http_uri_entry \<Rightarrow> nat \<Rightarrow> bool" where
  "has_flag u b \<longleftrightarrow> bit (uri_flag u) b"

record request =
  fd :: nat
  status :: req_status
  time_last :: int
  pathname :: "cstring option"
  simple :: bool
  keepalive :: ka_status
  kacount :: int
  data_fd :: nat
  filesize :: nat
  filepos :: nat
  data_mem :: "char list option"
  "method" :: http_method
  logline :: "cstring option"
  header_line :: hptr
  header_end :: hptr
  parse_pos :: nat
  buffer_start :: nat
  buffer_end :: nat
  http_version :: cstring
  response_status :: nat
  if_modified_since :: "cstring option"
  last_modified :: int
  local_ip_addr :: cstring
  remote_port :: int
  remote_ip_addr :: cstring
  http_uri :: "http_uri_entry option"
  http_stream :: nat
  authority :: int
  connect :: "nat option"
  curr_user_id :: cstring
  curr_user_ip :: nat
  remote_ip :: nat
  is_memory :: bool
  busy_audio :: bool
  busy_video :: bool
  busy_stream :: bool
  has_mmap_ptr :: bool
  video_lock :: int
  audio_lock :: int
  last_stream_time :: int
  cmd_string :: "cstring option"
  cmd_count :: nat
  cmd_arg :: "command_argument list"
  export_file :: "cstring option"
  extra_size :: nat
  flag_restart :: bool
  flag_set_mac :: bool
  flag_reboot :: bool
  is_cgi :: cgi_type
  cgi_status :: cgi_state
  cgi_env :: "cstring list"
  header_user_agent :: "cstring option"
  header_referer :: "cstring option"
  post_data_fd :: nat
  path_info :: "cstring option"
  path_translated :: "cstring option"
  script_name :: "cstring option"
  query_string :: "cstring option"
  content_type :: "cstring option"
  content_length :: "cstring option"
  mmap_entry_var :: "nat option"
  authorization :: "cstring option"
  ssl :: bool
  sessionid :: cstring
  buffer :: "char list"
  request_uri :: cstring
  client_stream :: "char list"
  sock_out :: "wr_result list"
  sock_sent :: "char list"

abbreviation client_stream_pos :: "request \<Rightarrow> nat" where
  "client_stream_pos r \<equiv> length (client_stream r)"

text \<open>\<open>SQUASH_KA\<close>, and the comparison \<open>status < BODY_READ\<close>.\<close>

definition SQUASH_KA :: "request \<Rightarrow> request" where
  "SQUASH_KA r = r\<lparr>keepalive := KA_STOPPED\<rparr>"

definition reading_header :: "req_status \<Rightarrow> bool" where
  "reading_header st \<longleftrightarrow> st \<in> {READ_HEADER, ONE_CR, ONE_LF, TWO_CR}"

text \<open>A zeroed request, the state \<open>memset\<close> leaves (the buffers below it are kept).\<close>

definition zero_request :: "char list \<Rightarrow> cstring \<Rightarrow> request" where
  "zero_request buf uri =
    \<lparr>fd = 0, status = READ_HEADER, time_last = 0, pathname = None, simple = False,
     keepalive = KA_INACTIVE, kacount = 0, data_fd = 0, filesize = 0, filepos = 0, data_mem = None,
     method = M_NONE, logline = None, header_line = HNull, header_end = HNull, parse_pos = 0,
     buffer_start = 0, buffer_end = 0, http_version = [], response_status = 0,
     if_modified_since = None, last_modified = 0, local_ip_addr = [], remote_port = 0,
     remote_ip_addr = [], http_uri = None, http_stream = 0, authority = 0, connect = None,
     curr_user_id = [], curr_user_ip = 0, remote_ip = 0, is_memory = False, busy_audio = False, busy_video = False, busy_stream = False,
     has_mmap_ptr = False, video_lock = 0, audio_lock = 0, last_stream_time = 0,
     cmd_string = None, cmd_count = 0, cmd_arg = [], export_file = None, extra_size = 0,
     flag_restart = False, flag_set_mac = False, flag_reboot = False, is_cgi = NO_CGI,
     cgi_status = CGI_NONE, cgi_env = [], header_user_agent = None, header_referer = None,
     post_data_fd = 0, path_info = None, path_translated = None, script_name = None,
     query_string = None, content_type = None, content_length = None, mmap_entry_var = None,
     authorization = None, ssl = False, sessionid = [], buffer = buf, request_uri = uri,
     client_stream = [], sock_out = [], sock_sent = []\<rparr>"

end
