(* ===== verification/Boa_Escape.thy ===== *)
theory Boa_Escape
  imports Boa_Util "HOL-Library.Word"
begin

text \<open>
  \<^verbatim>\<open>escape.c\<close>, \<^verbatim>\<open>escape.h\<close> and \<open>escape_string\<close> of \<^verbatim>\<open>buffer.c\<close>: the bitmap of the characters that a URL
  may hold unescaped, packed into 32-bit words, and percent-encoding.
\<close>

subsection \<open>The bitmap\<close>

abbreviation NEEDS_ESCAPE_BITS :: nat where "NEEDS_ESCAPE_BITS \<equiv> 128"
abbreviation NEEDS_ESCAPE_SHIFT :: nat where "NEEDS_ESCAPE_SHIFT \<equiv> 5"

definition NEEDS_ESCAPE_INDEX :: "nat \<Rightarrow> nat" where
  "NEEDS_ESCAPE_INDEX c = drop_bit NEEDS_ESCAPE_SHIFT c"

definition NEEDS_ESCAPE_MASK :: "nat \<Rightarrow> 32 word" where
  "NEEDS_ESCAPE_MASK c = push_bit (c AND (2 ^ NEEDS_ESCAPE_SHIFT - 1)) 1"

definition special :: cstring where
  "special = ''ABCDEFGHIJKLMNOPQRSTUVWXYZ'' @ ''abcdefghijklmnopqrstuvwxyz'' @ ''0123456789'' @
     ''-_.!~*'' @ [CHR 0x27] @ ''():@&=+$,/?''"

definition clear_special :: "32 word list \<Rightarrow> char \<Rightarrow> 32 word list" where
  "clear_special tab ch =
    (let j = code ch in
     if j \<ge> NEEDS_ESCAPE_BITS then tab
     else tab[NEEDS_ESCAPE_INDEX j := tab ! NEEDS_ESCAPE_INDEX j AND NOT (NEEDS_ESCAPE_MASK j)])"

definition build_needs_escape :: "32 word list" where
  "build_needs_escape = foldl clear_special (replicate (NEEDS_ESCAPE_BITS div 32) (- 1)) special"

definition needs_escape :: "char \<Rightarrow> bool" where
  "needs_escape c \<longleftrightarrow> code c \<ge> NEEDS_ESCAPE_BITS \<or>
     build_needs_escape ! NEEDS_ESCAPE_INDEX (code c) AND NEEDS_ESCAPE_MASK (code c) \<noteq> 0"

subsection \<open>Percent-encoding\<close>

definition INT_TO_HEX :: "nat \<Rightarrow> char" where
  "INT_TO_HEX x = (if x \<ge> 10 then char_of (65 + (x - 10)) else char_of (48 + x))"

definition escape_char :: "char \<Rightarrow> cstring" where
  "escape_char c =
     (if needs_escape c then [CHR ''%'', INT_TO_HEX (code c div 16), INT_TO_HEX (code c mod 16)]
      else [c])"

text \<open>\<open>alloc\<close> says whether the caller passed \<open>NULL\<close> for the buffer (\<open>None\<close>: the result \<open>NULL\<close>).\<close>

definition escape_string :: "bool \<Rightarrow> cstring \<Rightarrow> cstring option" where
  "escape_string alloc inp = (if alloc \<and> inp = [] then None else Some (concat (map escape_char inp)))"

subsection \<open>The bitmap decides membership in \<open>special\<close>\<close>

lemma NEEDS_ESCAPE_INDEX_eq: "NEEDS_ESCAPE_INDEX c = c div 32"
  by (simp add: NEEDS_ESCAPE_INDEX_def drop_bit_eq_div)

lemma NEEDS_ESCAPE_MASK_eq: "NEEDS_ESCAPE_MASK c = push_bit (c mod 32) 1"
proof -
  have "c AND (2 ^ 5 - 1) = take_bit 5 c" by (simp only: take_bit_eq_mask mask_eq_exp_minus_1)
  then show ?thesis by (simp add: NEEDS_ESCAPE_MASK_def take_bit_eq_mod)
qed

definition tab_bit :: "32 word list \<Rightarrow> nat \<Rightarrow> bool" where
  "tab_bit tab n \<longleftrightarrow> bit (tab ! (n div 32)) (n mod 32)"

lemma and_push_bit_1: "(w AND push_bit n 1 \<noteq> 0) \<longleftrightarrow> bit w n" for w :: "32 word"
proof -
  have "w AND push_bit n 1 = (if bit w n then push_bit n 1 else 0)"
    by (rule bit_eqI) (auto simp: bit_simps dest: bit_imp_le_length)
  moreover have "bit w n \<Longrightarrow> push_bit n (1 :: 32 word) \<noteq> 0"
    by (auto dest!: bit_imp_le_length simp: bit_eq_iff bit_simps)
  ultimately show ?thesis by simp
qed

lemma needs_escape_tab: "needs_escape c \<longleftrightarrow> code c \<ge> 128 \<or> tab_bit build_needs_escape (code c)"
  by (simp only: needs_escape_def NEEDS_ESCAPE_INDEX_eq NEEDS_ESCAPE_MASK_eq and_push_bit_1 tab_bit_def)

lemma tab_bit_clear:
  assumes "length tab = 4" "n < 128"
  shows "tab_bit (clear_special tab ch) n \<longleftrightarrow> tab_bit tab n \<and> n \<noteq> code ch"
proof (cases "code ch < 128")
  case True
  have "n div 32 = code ch div 32 \<and> n mod 32 = code ch mod 32 \<longleftrightarrow> n = code ch"
    by (metis div_mult_mod_eq)
  moreover have "code ch div 32 < 4" using True by linarith
  ultimately show ?thesis using True assms
    by (auto simp: tab_bit_def clear_special_def Let_def NEEDS_ESCAPE_INDEX_eq NEEDS_ESCAPE_MASK_eq
        nth_list_update bit_simps)
next
  case False
  with assms show ?thesis by (auto simp: clear_special_def Let_def)
qed

lemma length_clear [simp]: "length (clear_special tab ch) = length tab"
  by (simp add: clear_special_def Let_def)

lemma tab_bit_foldl:
  "length tab = 4 \<Longrightarrow> n < 128 \<Longrightarrow>
   tab_bit (foldl clear_special tab cs) n \<longleftrightarrow> tab_bit tab n \<and> n \<notin> code ` set cs"
  by (induction cs arbitrary: tab) (auto simp: tab_bit_clear)

lemma special_ascii: "c \<in> set special \<Longrightarrow> code c < 128"
proof -
  have "list_all (\<lambda>c. code c < 128) special" by code_simp
  then show "c \<in> set special \<Longrightarrow> code c < 128" by (simp add: list_all_iff)
qed

lemma needs_escape_iff: "needs_escape c \<longleftrightarrow> c \<notin> set special"
proof (cases "code c < 128")
  case True
  then have "code c div 32 < 4" by linarith
  then have "tab_bit (replicate 4 (- 1)) (code c)"
    by (simp add: tab_bit_def bit_simps)
  moreover have "code c \<notin> code ` set special \<longleftrightarrow> c \<notin> set special"
    by (auto simp: image_iff)
  ultimately show ?thesis using True
    by (simp add: needs_escape_tab build_needs_escape_def tab_bit_foldl)
next
  case False
  then show ?thesis using special_ascii by (auto simp: needs_escape_def)
qed

subsection \<open>Decoding an encoded string\<close>

lemma hex_digit_value_INT_TO_HEX: "x < 16 \<Longrightarrow> hex_digit_value (INT_TO_HEX x) = int x"
proof -
  assume "x < 16"
  then have "x \<in> {0, 1, 2, 3, 4, 5, 6, 7, 8, 9, 10, 11, 12, 13, 14, 15}"
    by (simp add: less_Suc_eq numeral_eq_Suc)
  then show ?thesis by (auto simp: hex_digit_value_def INT_TO_HEX_def)
qed

lemma HEX_TO_DECIMAL_INT_TO_HEX: "HEX_TO_DECIMAL (INT_TO_HEX (code c div 16)) (INT_TO_HEX (code c mod 16)) = c"
proof -
  have "code c < 256" by simp
  then have "code c div 16 < 16" by linarith
  then have "hex_digit_value (INT_TO_HEX (code c div 16)) = int (code c div 16)"
      "hex_digit_value (INT_TO_HEX (code c mod 16)) = int (code c mod 16)"
    by (simp_all add: hex_digit_value_INT_TO_HEX)
  moreover have "int (code c div 16) * 16 + int (code c mod 16) = int (code c)"
    by (metis of_nat_add of_nat_mult of_nat_numeral div_mult_mod_eq)
  ultimately show ?thesis
    by (simp add: HEX_TO_DECIMAL_def nat_mod_as_int flip: nat_mod_distrib)
qed

lemma escape_char_plain:
  assumes "\<not> needs_escape c" shows "c \<noteq> CHR ''%'' \<and> c \<noteq> CHR ''#''"
proof -
  have "list_all (\<lambda>c. c \<noteq> CHR ''%'' \<and> c \<noteq> CHR ''#'') special" by code_simp
  with assms show ?thesis by (simp add: needs_escape_iff list_all_iff)
qed

lemma unescape_loop_escape:
  "CHR ''?'' \<notin> set s \<Longrightarrow> unescape_loop q (concat (map escape_char s)) = Some (s, None)"
proof (induction s)
  case (Cons c s)
  then show ?case
    using escape_char_plain[of c] by (auto simp: escape_char_def HEX_TO_DECIMAL_INT_TO_HEX)
qed simp

lemma length_escape_char: "length (escape_char c) \<le> 3"
  by (simp add: escape_char_def)

lemma length_escape: "length (concat (map escape_char s)) \<le> 3 * length s"
  by (induction s) (auto intro: add_le_mono length_escape_char)

subsection \<open>Properties\<close>

text \<open>
  The packed bitmap built at start-up answers exactly "is not one of the 80 characters listed
  in \<open>special\<close>", for all 256 characters.
\<close>

theorem needs_escape_correct: "needs_escape c \<longleftrightarrow> c \<notin> set special"
  by (rule needs_escape_iff)

text \<open>
  C32: Percent-decoding undoes percent-encoding. For a C string without a question mark (which the
  encoder leaves alone and the decoder takes for the start of the query) \<open>unescape_uri\<close> succeeds on
  the output of \<open>escape_string\<close>, gives the string back and finds no query; the encoder writes at
  most the three bytes per character that it allocates.
\<close>

theorem unescape_uri_escape_string:
  assumes "nul_free s" "CHR ''?'' \<notin> set s"
  shows "\<exists>t. escape_string False s = Some t \<and> length t \<le> 3 * length s \<and>
     unescape_uri q t = Some (s, None)"
  using assms
  by (simp add: escape_string_def unescape_uri_def unescape_loop_escape cstr_id length_escape)

theorem unescape_uri_escape_string_witness:
  "\<exists>t. escape_string False ''/a b%'' = Some t \<and> length t \<le> 15 \<and> unescape_uri True t = Some (''/a b%'', None)"
  using unescape_uri_escape_string[of "''/a b%''" True] by simp

end
