(* ===== verification/Boa_Buffer.thy ===== *)
theory Boa_Buffer
  imports Request Boa_Escape
begin

text \<open>
  \<^verbatim>\<open>buffer.c\<close>: the output buffer of a request. Writers append to \<open>buffer\<close> between \<open>buffer_start\<close> and
  \<open>buffer_end\<close>, escaping on the way where the destination is a header or an HTML body;
  \<open>req_flush\<close> hands the bytes to the socket. A call returns its \<open>int\<close> result and the new request.
\<close>

subsection \<open>Writing to the socket\<close>

text \<open>
  \<open>write (req->fd, data)\<close> or \<open>SSL_write\<close>: the next outcome of \<open>sock_out\<close>; when the list is exhausted
  the socket would block.
\<close>

definition sock_write :: "char list \<Rightarrow> request \<Rightarrow> wr_result \<times> request" where
  "sock_write data r =
    (case sock_out r of
       [] \<Rightarrow> (W_err EAGAIN, r)
     | W_err e # rest \<Rightarrow> (W_err e, r\<lparr>sock_out := rest\<rparr>)
     | W_ok n # rest \<Rightarrow> (let k = min n (length data) in
         (W_ok k, r\<lparr>sock_out := rest, sock_sent := sock_sent r @ take k data\<rparr>)))"

subsection \<open>The writers\<close>

definition req_write :: "cstring \<Rightarrow> request \<Rightarrow> int \<times> request" where
  "req_write msg r =
    (let msg_len = length msg in
     if msg_len = 0 \<or> status r = DEAD then (int (buffer_end r), r)
     else if buffer_end r + msg_len > BUFFER_SIZE then (- 1, r\<lparr>status := DEAD\<rparr>)
     else (int (buffer_end r + msg_len),
           r\<lparr>buffer := mem_put (buffer_end r) msg (buffer r), buffer_end := buffer_end r + msg_len\<rparr>))"

definition req_copy :: "char list \<Rightarrow> request \<Rightarrow> int \<times> request" where
  "req_copy data r =
    (let data_size = length data in
     if data_size = 0 \<or> status r = DEAD then (int (buffer_end r), r)
     else if buffer_end r + data_size > BUFFER_SIZE then (- 1, r\<lparr>status := DEAD\<rparr>)
     else (int (buffer_end r + data_size),
           r\<lparr>buffer := mem_put (buffer_end r) data (buffer r), buffer_end := buffer_end r + data_size\<rparr>))"

definition reset_output_buffer :: "request \<Rightarrow> request" where
  "reset_output_buffer r = r\<lparr>buffer_end := 0, extra_size := 0\<rparr>"

text \<open>
  The loop \<open>while ((c = *inp++) && left > 0)\<close> of the two escaping writers: what it stores from
  \<open>dest\<close> on, and the final value of \<open>left\<close>, which may go below 0.
\<close>

fun escape_loop :: "(char \<Rightarrow> cstring) \<Rightarrow> int \<Rightarrow> cstring \<Rightarrow> cstring \<times> int" where
  "escape_loop enc left [] = ([], left)"
| "escape_loop enc left (c # inp) =
     (if left > 0
      then (case escape_loop enc (left - int (length (enc c))) inp of (out, l) \<Rightarrow> (enc c @ out, l))
      else ([], left))"

definition html_char :: "char \<Rightarrow> cstring" where
  "html_char c =
    (if c = CHR ''>'' then ''&gt;'' else if c = CHR ''<'' then ''&lt;''
     else if c = CHR ''&'' then ''&amp;'' else if c = CHR 0x22 then ''&quot;'' else [c])"

definition escape_write :: "(char \<Rightarrow> cstring) \<Rightarrow> nat \<Rightarrow> cstring \<Rightarrow> request \<Rightarrow> int \<times> request" where
  "escape_write enc guard msg r =
    (case escape_loop enc (int BUFFER_SIZE - int (buffer_end r) - int guard) msg of (out, left) \<Rightarrow>
       let r1 = r\<lparr>buffer := mem_put (buffer_end r) out (buffer r), buffer_end := buffer_end r + length out\<rparr>
       in if left = 0 then (- 1, r1\<lparr>status := DEAD\<rparr>) else (int (buffer_end r1), r1))"

definition req_write_escape_http :: "cstring \<Rightarrow> request \<Rightarrow> int \<times> request" where
  "req_write_escape_http = escape_write escape_char 3"

definition req_write_escape_html :: "cstring \<Rightarrow> request \<Rightarrow> int \<times> request" where
  "req_write_escape_html = escape_write html_char 5"

subsection \<open>Flushing\<close>

definition flush_done :: "request \<Rightarrow> int \<times> request" where
  "flush_done r =
    (let r' = (if buffer_start r = buffer_end r then r\<lparr>buffer_start := 0, buffer_end := 0\<rparr> else r)
     in (int (buffer_end r'), r'))"

text \<open>
  The number of bytes is an \<open>int\<close> in the code: where the start is behind the end it is negative, and \<open>write\<close> refuses it with an
  error that is not \<open>EAGAIN\<close>.
\<close>

definition req_flush :: "request \<Rightarrow> int \<times> request" where
  "req_flush r =
    (let bytes_to_write = buffer_end r - buffer_start r in
     if status r = DEAD then (- 2, r)
     else if buffer_start r > buffer_end r then (- 2, r\<lparr>buffer_start := 0, buffer_end := 0, status := DEAD\<rparr>)
     else if bytes_to_write = 0 then flush_done r
     else (case sock_write (take bytes_to_write (drop (buffer_start r) (buffer r))) r of
         (W_err e, r1) \<Rightarrow>
           if would_block e then (- 1, r1)
           else (- 2, r1\<lparr>buffer_start := 0, buffer_end := 0, status := DEAD\<rparr>)
       | (W_ok n, r1) \<Rightarrow> flush_done (r1\<lparr>buffer_start := buffer_start r1 + n\<rparr>)))"

subsection \<open>A sequence of writes\<close>

text \<open>
  The code sends a response as a sequence of calls of the three writers whose results it ignores;
  a \<open>piece\<close> is one such call.
\<close>

datatype piece = Txt cstring | Http cstring | Html cstring

fun put_piece :: "piece \<Rightarrow> request \<Rightarrow> request" where
  "put_piece (Txt s) r = snd (req_write s r)"
| "put_piece (Http s) r = snd (req_write_escape_http s r)"
| "put_piece (Html s) r = snd (req_write_escape_html s r)"

fun piece_text :: "piece \<Rightarrow> cstring" where
  "piece_text (Txt s) = s"
| "piece_text (Http s) = concat (map escape_char s)"
| "piece_text (Html s) = concat (map html_char s)"

definition emit :: "piece list \<Rightarrow> request \<Rightarrow> request" where
  "emit ps r = fold put_piece ps r"

subsection \<open>The buffer invariant and the output stream\<close>

definition buf_ok :: "request \<Rightarrow> bool" where
  "buf_ok r \<longleftrightarrow> length (buffer r) = BUFFER_SIZE + 1 \<and> buffer_start r \<le> buffer_end r \<and>
     buffer_end r \<le> BUFFER_SIZE"

definition pending :: "request \<Rightarrow> char list" where
  "pending r = drop (buffer_start r) (take (buffer_end r) (buffer r))"

text \<open>What the client has received and will receive, in order: the abstract value of the buffer.\<close>

definition outstream :: "request \<Rightarrow> char list" where
  "outstream r = sock_sent r @ pending r"

definition append_to_buffer :: "char list \<Rightarrow> request \<Rightarrow> request" where
  "append_to_buffer s r =
     r\<lparr>buffer := mem_put (buffer_end r) s (buffer r), buffer_end := buffer_end r + length s\<rparr>"

lemma append_to_buffer_simps [simp]:
  "buffer_end (append_to_buffer s r) = buffer_end r + length s"
  "buffer_start (append_to_buffer s r) = buffer_start r"
  "status (append_to_buffer s r) = status r"
  "sock_sent (append_to_buffer s r) = sock_sent r"
  by (simp_all add: append_to_buffer_def)

lemma append_to_buffer_Nil [simp]: "append_to_buffer [] r = r"
  by (simp add: append_to_buffer_def)

lemma append_to_buffer_ok [buf_intros]:
  "buf_ok r \<Longrightarrow> buffer_end r + length s \<le> BUFFER_SIZE \<Longrightarrow> buf_ok (append_to_buffer s r)"
  by (simp add: buf_ok_def append_to_buffer_def)

lemma outstream_append:
  assumes "buf_ok r"
  shows "outstream (append_to_buffer s r) = outstream r @ s"
proof -
  have "buffer_end r \<le> length (buffer r)" using assms by (simp add: buf_ok_def)
  then show ?thesis using assms
    by (simp add: outstream_def pending_def append_to_buffer_def buf_ok_def)
qed

lemma append_to_buffer_append:
  assumes "buffer_end r + length p + length q \<le> length (buffer r)"
  shows "append_to_buffer q (append_to_buffer p r) = append_to_buffer (p @ q) r"
  using assms by (simp add: append_to_buffer_def mem_put_append)

lemma buf_ok_status [simp]: "buf_ok (r\<lparr>status := s\<rparr>) = buf_ok r"
  by (simp add: buf_ok_def)

lemma outstream_status [simp]: "outstream (r\<lparr>status := s\<rparr>) = outstream r"
  by (simp add: outstream_def pending_def)

subsection \<open>The contract of a writer\<close>

text \<open>
  What the rest of the server relies on: a writer keeps the buffer inside its array, appends a
  prefix of the encoded message to the outstream (all of it when there is room), and touches nothing
  of the request but the buffer, its end and, when the room runs out, the status.
\<close>

definition same_but_buffer :: "request \<Rightarrow> request \<Rightarrow> bool" where
  "same_but_buffer r r' \<longleftrightarrow>
     (\<exists>b e st. r' = r\<lparr>buffer := b, buffer_end := e, status := st\<rparr>)"

lemma same_but_buffer_refl [simp]: "same_but_buffer r r"
  unfolding same_but_buffer_def
  by (intro exI[of _ "buffer r"] exI[of _ "buffer_end r"] exI[of _ "status r"]) simp

lemma same_but_buffer_trans: "same_but_buffer a b \<Longrightarrow> same_but_buffer b c \<Longrightarrow> same_but_buffer a c"
  unfolding same_but_buffer_def by (elim exE) (simp, blast)

lemma same_but_buffer_append:
  "same_but_buffer r (append_to_buffer p r)" "same_but_buffer r ((append_to_buffer p r)\<lparr>status := st\<rparr>)"
  unfolding same_but_buffer_def append_to_buffer_def
  by (rule exI, rule exI, rule exI[of _ "status r"], simp) blast

locale output_writer =
  fixes wr :: "'m \<Rightarrow> request \<Rightarrow> request"
    and enc :: "'m \<Rightarrow> char list"
  assumes wr_shape: "\<exists>p. prefix p (enc m) \<and> (wr m r = append_to_buffer p r \<or>
        wr m r = (append_to_buffer p r)\<lparr>status := DEAD\<rparr>)"
    and wr_bound: "buffer_end r \<le> BUFFER_SIZE \<Longrightarrow> buffer_end (wr m r) \<le> BUFFER_SIZE"
    and wr_room: "status r \<noteq> DEAD \<Longrightarrow> buffer_end r + length (enc m) + 5 < BUFFER_SIZE \<Longrightarrow>
        wr m r = append_to_buffer (enc m) r"
begin

lemma wr_ok: "buf_ok r \<Longrightarrow> buf_ok (wr m r)"
  using wr_shape[of m r] wr_bound[of r m]
  by (auto simp: buf_ok_def append_to_buffer_def)

lemma wr_outstream: "buf_ok r \<Longrightarrow> \<exists>p. prefix p (enc m) \<and> outstream (wr m r) = outstream r @ p"
  using wr_shape[of m r] by (auto simp: outstream_append)

lemma wr_status: "status (wr m r) = status r \<or> status (wr m r) = DEAD"
  using wr_shape[of m r] by auto

lemma wr_frame: "same_but_buffer r (wr m r)"
  using wr_shape[of m r] by (auto simp: same_but_buffer_append)

text \<open>A sequence of messages through one writer.\<close>

lemma fold_ok: "buf_ok r \<Longrightarrow> buf_ok (fold wr ms r)"
  by (induction ms arbitrary: r) (auto intro: wr_ok)

lemma fold_frame: "same_but_buffer r (fold wr ms r)"
  by (induction ms arbitrary: r) (auto intro: wr_frame same_but_buffer_trans)

lemma fold_status: "status (fold wr ms r) = status r \<or> status (fold wr ms r) = DEAD"
proof (induction ms arbitrary: r)
  case (Cons m ms)
  show ?case using Cons[of "wr m r"] wr_status[of m r] by auto
qed simp

lemma fold_prefix: "buf_ok r \<Longrightarrow> prefix (outstream r) (outstream (fold wr ms r))"
proof (induction ms arbitrary: r)
  case (Cons m ms)
  have "prefix (outstream r) (outstream (wr m r))" using wr_outstream[OF Cons.prems, of m] by auto
  also have "prefix (outstream (wr m r)) (outstream (fold wr (m # ms) r))"
    using Cons.IH[OF wr_ok[OF Cons.prems]] by simp
  finally show ?case .
qed simp

lemma fold_room:
  "status r \<noteq> DEAD \<Longrightarrow> buf_ok r \<Longrightarrow> buffer_end r + length (concat (map enc ms)) + 5 < BUFFER_SIZE \<Longrightarrow>
   fold wr ms r = append_to_buffer (concat (map enc ms)) r"
proof (induction ms arbitrary: r)
  case (Cons m ms)
  have m: "wr m r = append_to_buffer (enc m) r" using Cons.prems by (intro wr_room) auto
  then have "fold wr (m # ms) r = append_to_buffer (concat (map enc ms)) (append_to_buffer (enc m) r)"
    using Cons wr_ok[of r m] by simp
  also have "\<dots> = append_to_buffer (concat (map enc (m # ms))) r"
    using Cons.prems by (simp add: append_to_buffer_append buf_ok_def)
  finally show ?case .
qed simp

end


subsection \<open>The writers keep the contract\<close>

lemma req_write_cases:
  "snd (req_write s r) = append_to_buffer s r \<and> (s = [] \<or> buffer_end r + length s \<le> BUFFER_SIZE) \<or>
   snd (req_write s r) = r \<and> status r = DEAD \<or> snd (req_write s r) = r\<lparr>status := DEAD\<rparr>"
  by (auto simp: req_write_def append_to_buffer_def Let_def)

lemma req_copy_req_write: "req_copy = req_write"
  by (intro ext) (simp add: req_copy_def req_write_def)

text \<open>The loop of an escaping writer whose characters expand to at most \<open>guard + 1\<close> bytes.\<close>

lemma escape_loop_spec:
  assumes "\<And>c. 0 < length (enc c)" and "\<And>c. length (enc c) \<le> g + 1"
  shows "escape_loop enc left inp = (out, l) \<Longrightarrow>
     prefix out (concat (map enc inp)) \<and> l = left - int (length out) \<and>
     (out = [] \<or> int (length out) \<le> left + int g) \<and>
     (int (length (concat (map enc inp))) < left \<longrightarrow> out = concat (map enc inp))"
proof (induction inp arbitrary: left out l)
  case Nil
  then show ?case by auto
next
  case (Cons c inp)
  show ?case
  proof (cases "left > 0")
    case False
    with Cons.prems show ?thesis by auto
  next
    case True
    obtain o1 l1 where e: "escape_loop enc (left - int (length (enc c))) inp = (o1, l1)"
      by fastforce
    with Cons.prems True have o: "out = enc c @ o1" "l = l1" by auto
    have "length (enc c) \<le> g + 1" by (rule assms(2))
    moreover have "0 < length (enc c)" by (rule assms(1))
    ultimately show ?thesis using Cons.IH[OF e] o True by auto
  qed
qed

lemma escape_write_writer:
  assumes "\<And>c. 0 < length (enc c)" and "\<And>c. length (enc c) \<le> g + 1" and "g \<le> 5"
  shows "output_writer (\<lambda>s r. snd (escape_write enc g s r)) (\<lambda>s. concat (map enc s))"
proof
  fix s :: cstring and r :: request
  obtain out l where e: "escape_loop enc (int BUFFER_SIZE - int (buffer_end r) - int g) s = (out, l)"
    by fastforce
  note spec = escape_loop_spec[of enc g, OF assms(1,2) e]
  have w: "snd (escape_write enc g s r) =
      (if l = 0 then (append_to_buffer out r)\<lparr>status := DEAD\<rparr> else append_to_buffer out r)"
    by (simp add: escape_write_def e append_to_buffer_def Let_def)
  show "\<exists>p. prefix p (concat (map enc s)) \<and> (snd (escape_write enc g s r) = append_to_buffer p r \<or>
      snd (escape_write enc g s r) = (append_to_buffer p r)\<lparr>status := DEAD\<rparr>)"
    using spec w by metis
  show "buffer_end (snd (escape_write enc g s r)) \<le> BUFFER_SIZE" if "buffer_end r \<le> BUFFER_SIZE"
    using spec w that by auto
  show "snd (escape_write enc g s r) = append_to_buffer (concat (map enc s)) r"
    if "status r \<noteq> DEAD" "buffer_end r + length (concat (map enc s)) + 5 < BUFFER_SIZE"
    using spec w that assms(3) by auto
qed

lemma length_html_char: "0 < length (html_char c)" "length (html_char c) \<le> 6"
  by (simp_all add: html_char_def)

interpretation w_txt: output_writer "\<lambda>s r. snd (req_write s r)" "\<lambda>s. s"
proof
  fix s :: cstring and r :: request
  show "\<exists>p. prefix p s \<and> (snd (req_write s r) = append_to_buffer p r \<or>
      snd (req_write s r) = (append_to_buffer p r)\<lparr>status := DEAD\<rparr>)"
    using req_write_cases[of s r] by (metis append_to_buffer_Nil prefix_bot.bot_least prefix_order.refl)
  show "buffer_end (snd (req_write s r)) \<le> BUFFER_SIZE" if "buffer_end r \<le> BUFFER_SIZE"
    using req_write_cases[of s r] that by auto
  show "snd (req_write s r) = append_to_buffer s r"
    if "status r \<noteq> DEAD" "buffer_end r + length s + 5 < BUFFER_SIZE"
    using that by (auto simp: req_write_def append_to_buffer_def Let_def)
qed

interpretation w_http: output_writer "\<lambda>s r. snd (req_write_escape_http s r)" "\<lambda>s. concat (map escape_char s)"
  unfolding req_write_escape_http_def
  by (rule escape_write_writer) (auto simp: escape_char_def)

interpretation w_html: output_writer "\<lambda>s r. snd (req_write_escape_html s r)" "\<lambda>s. concat (map html_char s)"
  unfolding req_write_escape_html_def
  by (rule escape_write_writer) (use length_html_char in auto)

interpretation w_piece: output_writer put_piece piece_text
proof
  fix m :: piece and r :: request
  show "\<exists>p. prefix p (piece_text m) \<and> (put_piece m r = append_to_buffer p r \<or>
      put_piece m r = (append_to_buffer p r)\<lparr>status := DEAD\<rparr>)"
    by (cases m) (simp_all add: w_txt.wr_shape w_http.wr_shape w_html.wr_shape)
  show "buffer_end (put_piece m r) \<le> BUFFER_SIZE" if "buffer_end r \<le> BUFFER_SIZE"
    using that by (cases m) (simp_all add: w_txt.wr_bound w_http.wr_bound w_html.wr_bound)
  show "put_piece m r = append_to_buffer (piece_text m) r"
    if "status r \<noteq> DEAD" "buffer_end r + length (piece_text m) + 5 < BUFFER_SIZE"
    using that by (cases m) (simp_all add: w_txt.wr_room w_http.wr_room w_html.wr_room)
qed

lemmas emit_ok [buf_intros] = w_piece.fold_ok [folded emit_def]
lemmas emit_frame = w_piece.fold_frame [folded emit_def]
lemmas emit_status = w_piece.fold_status [folded emit_def]
lemmas emit_prefix = w_piece.fold_prefix [folded emit_def]
lemmas emit_room = w_piece.fold_room [folded emit_def]

subsection \<open>Flushing conserves the output\<close>

lemma pending_slice:
  "take (buffer_end r - buffer_start r) (drop (buffer_start r) (buffer r)) = pending r"
  by (simp add: pending_def drop_take)

lemma length_pending: "buf_ok r \<Longrightarrow> length (pending r) = buffer_end r - buffer_start r"
  by (simp add: pending_def buf_ok_def)

text \<open>The outcomes of \<open>req_flush\<close>.\<close>

lemma pending_Nil_iff: "buf_ok r \<Longrightarrow> pending r = [] \<longleftrightarrow> buffer_start r = buffer_end r"
  using length_pending[of r] by (auto simp: buf_ok_def)

lemma req_flush_dead: "status r = DEAD \<Longrightarrow> req_flush r = (- 2, r)"
  by (simp add: req_flush_def)

lemma req_flush_empty:
  "buf_ok r \<Longrightarrow> status r \<noteq> DEAD \<Longrightarrow> pending r = [] \<Longrightarrow>
   req_flush r = (0, r\<lparr>buffer_start := 0, buffer_end := 0\<rparr>)"
  by (simp add: req_flush_def flush_done_def pending_Nil_iff buf_ok_def)

lemma req_flush_write:
  assumes "buf_ok r" "status r \<noteq> DEAD" "pending r \<noteq> []"
  shows "req_flush r = (case sock_write (pending r) r of
         (W_err e, r1) \<Rightarrow>
           if would_block e then (- 1, r1)
           else (- 2, r1\<lparr>buffer_start := 0, buffer_end := 0, status := DEAD\<rparr>)
       | (W_ok n, r1) \<Rightarrow> flush_done (r1\<lparr>buffer_start := buffer_start r1 + n\<rparr>))"
proof -
  have "buffer_end r - buffer_start r \<noteq> 0" "\<not> buffer_start r > buffer_end r" using assms by (auto simp: pending_Nil_iff buf_ok_def)
  then show ?thesis by (simp only: req_flush_def Let_def pending_slice assms(2) if_False)
qed

lemma req_flush_blocked:
  assumes "buf_ok r" "status r \<noteq> DEAD" "pending r \<noteq> []"
  shows "sock_out r = [] \<Longrightarrow> req_flush r = (- 1, r)"
    and "sock_out r = W_err e # t \<Longrightarrow> would_block e \<Longrightarrow> req_flush r = (- 1, r\<lparr>sock_out := t\<rparr>)"
    and "sock_out r = W_err e # t \<Longrightarrow> \<not> would_block e \<Longrightarrow>
      req_flush r = (- 2, r\<lparr>sock_out := t, buffer_start := 0, buffer_end := 0, status := DEAD\<rparr>)"
  by (simp_all add: req_flush_write[OF assms] sock_write_def would_block_def)

lemma req_flush_wrote:
  assumes "buf_ok r" "status r \<noteq> DEAD" "pending r \<noteq> []" "sock_out r = W_ok n # t"
  shows "req_flush r =
    (if length (pending r) \<le> n
     then (0, r\<lparr>sock_out := t, sock_sent := sock_sent r @ pending r, buffer_start := 0, buffer_end := 0\<rparr>)
     else (int (buffer_end r), r\<lparr>sock_out := t, sock_sent := sock_sent r @ take n (pending r),
             buffer_start := buffer_start r + n\<rparr>))"
  using length_pending[OF assms(1)] assms
  by (auto simp: req_flush_write sock_write_def flush_done_def Let_def min_def buf_ok_def)

lemma req_flush_cases [consumes 1, case_names dead empty blocked failed wrote]:
  assumes "buf_ok r"
  obtains "status r = DEAD" "req_flush r = (- 2, r)"
  | "status r \<noteq> DEAD" "pending r = []" "req_flush r = (0, r\<lparr>buffer_start := 0, buffer_end := 0\<rparr>)"
  | t where "status r \<noteq> DEAD" "pending r \<noteq> []" "\<nexists>n t. sock_out r = W_ok n # t"
      "req_flush r = (- 1, r\<lparr>sock_out := t\<rparr>)"
  | t where "status r \<noteq> DEAD" "pending r \<noteq> []" "\<nexists>n t. sock_out r = W_ok n # t"
      "req_flush r = (- 2, r\<lparr>sock_out := t, buffer_start := 0, buffer_end := 0, status := DEAD\<rparr>)"
  | n t where "status r \<noteq> DEAD" "pending r \<noteq> []" "sock_out r = W_ok n # t" "req_flush r =
    (if length (pending r) \<le> n
     then (0, r\<lparr>sock_out := t, sock_sent := sock_sent r @ pending r, buffer_start := 0, buffer_end := 0\<rparr>)
     else (int (buffer_end r), r\<lparr>sock_out := t, sock_sent := sock_sent r @ take n (pending r),
             buffer_start := buffer_start r + n\<rparr>))"
proof (cases "status r = DEAD \<or> pending r = []")
  case True
  then show ?thesis using that(1,2) assms req_flush_dead req_flush_empty by blast
next
  case False
  then have live: "status r \<noteq> DEAD" "pending r \<noteq> []" by auto
  note bl = req_flush_blocked[OF assms live]
  show ?thesis
  proof (cases "sock_out r")
    case Nil
    then have "req_flush r = (- 1, r\<lparr>sock_out := []\<rparr>)" using bl(1) by simp
    with live Nil show ?thesis by (intro that(3)) auto
  next
    case (Cons o1 t)
    show ?thesis
    proof (cases o1)
      case (W_ok n)
      with Cons live show ?thesis using req_flush_wrote[OF assms live] by (intro that(5)) auto
    next
      case (W_err e)
      have no: "\<nexists>n t. sock_out r = W_ok n # t" using Cons W_err by simp
      show ?thesis
      proof (cases "would_block e")
        case True
        then show ?thesis using that(3)[OF live no] bl(2)[of e t] Cons W_err by simp
      next
        case False
        then show ?thesis using that(4)[OF live no] bl(3)[of e t] Cons W_err by simp
      qed
    qed
  qed
qed

lemma req_flush_ok [buf_intros]:
  assumes "buf_ok r" shows "buf_ok (snd (req_flush r))"
  using assms
proof (cases rule: req_flush_cases)
  case (wrote n t)
  then show ?thesis using assms length_pending[OF assms]
    by (cases "length (pending r) \<le> n") (simp_all add: buf_ok_def)
qed (use assms in \<open>simp_all add: buf_ok_def\<close>)

lemma req_flush_conserves:
  assumes "buf_ok r" "fst (req_flush r) \<noteq> - 2"
  shows "outstream (snd (req_flush r)) = outstream r"
  using assms(1)
proof (cases rule: req_flush_cases)
  case (wrote n t)
  have "take n (pending r) @ drop n (pending r) = pending r" by simp
  then have "take n (pending r) @ drop (buffer_start r + n) (take (buffer_end r) (buffer r)) = pending r"
    by (simp add: pending_def add.commute)
  with wrote show ?thesis by (simp add: outstream_def) (simp add: pending_def)
qed (use assms(2) in \<open>simp_all add: outstream_def pending_def\<close>)

lemma req_flush_error:
  assumes "buf_ok r" "fst (req_flush r) = - 2"
  shows "status (snd (req_flush r)) = DEAD \<and> sock_sent (snd (req_flush r)) = sock_sent r"
  using assms(1) by (cases rule: req_flush_cases) (use assms(2) in \<open>simp_all split: if_splits\<close>)

lemma req_flush_progress:
  assumes "buf_ok r" "status r \<noteq> DEAD" "sock_out r = W_ok n # t" "pending r \<noteq> []"
  shows "status (snd (req_flush r)) = status r" "pending (snd (req_flush r)) = drop n (pending r)"
    "sock_out (snd (req_flush r)) = t" "fst (req_flush r) \<noteq> - 2"
  by (simp_all add: req_flush_wrote[OF assms(1,2,4,3)])
     (simp add: pending_def add.commute)

text \<open>The flush of every pass of the main loop, repeated.\<close>

fun flush_times :: "nat \<Rightarrow> request \<Rightarrow> request" where
  "flush_times 0 r = r"
| "flush_times (Suc k) r = flush_times k (snd (req_flush r))"

lemma flush_times_empty:
  "buf_ok r \<Longrightarrow> status r \<noteq> DEAD \<Longrightarrow> pending r = [] \<Longrightarrow>
   pending (flush_times k r) = [] \<and> sock_sent (flush_times k r) = sock_sent r"
proof (induction k arbitrary: r)
  case (Suc k)
  have "req_flush r = (0, r\<lparr>buffer_start := 0, buffer_end := 0\<rparr>)"
    using Suc.prems by (rule req_flush_empty)
  then show ?case using Suc.IH[of "snd (req_flush r)"] Suc.prems req_flush_ok[of r]
    by (simp add: pending_def)
qed simp

lemma flush_times_all:
  assumes "buf_ok r" "status r \<noteq> DEAD" "length (pending r) \<le> k"
    and "sock_out r = map (\<lambda>n. W_ok (Suc n)) ns @ rest" "k = length ns"
  shows "pending (flush_times k r) = [] \<and> sock_sent (flush_times k r) = outstream r"
  using assms
proof (induction k arbitrary: r ns)
  case 0
  then show ?case by (simp add: outstream_def)
next
  case (Suc k)
  show ?case
  proof (cases "pending r = []")
    case True
    then show ?thesis using flush_times_empty[OF Suc.prems(1,2), of "Suc k"]
      by (simp add: outstream_def)
  next
    case False
    obtain n ms where ns: "ns = n # ms" "k = length ms" using Suc.prems(5) by (cases ns) auto
    then have "sock_out r = W_ok (Suc n) # map (\<lambda>n. W_ok (Suc n)) ms @ rest"
      using Suc.prems(4) by simp
    note p = req_flush_progress[OF Suc.prems(1,2) this False]
    have "outstream (snd (req_flush r)) = outstream r"
      by (rule req_flush_conserves[OF Suc.prems(1) p(4)])
    moreover have "length (pending (snd (req_flush r))) \<le> k" using p(2) Suc.prems(3) by simp
    ultimately show ?thesis
      using Suc.IH[OF req_flush_ok[OF Suc.prems(1)], of ms] p Suc.prems(2) ns(2) by simp
  qed
qed

subsection \<open>Escaped text is inert in HTML\<close>

lemma html_char_safe: "CHR ''<'' \<notin> set (html_char c) \<and> CHR ''>'' \<notin> set (html_char c) \<and> CHR 0x22 \<notin> set (html_char c)"
  by (simp add: html_char_def)

lemma html_text_safe:
  assumes "x \<in> {CHR ''<'', CHR ''>'', CHR 0x22}" "prefix p (concat (map html_char s))"
  shows "x \<notin> set p"
  using assms html_char_safe by (fastforce dest: set_mono_prefix)

text \<open>A fresh request, for the concrete instances.\<close>

definition fresh :: request where
  "fresh = zero_request (replicate (BUFFER_SIZE + 1) NUL) []"

lemma fresh_simps [simp]:
  "buf_ok fresh" "status fresh = READ_HEADER" "buffer_end fresh = 0" "buffer_start fresh = 0"
  "pending fresh = []" "sock_sent fresh = []" "outstream fresh = []"
  by (simp_all add: fresh_def zero_request_def buf_ok_def pending_def outstream_def)

subsection \<open>Properties\<close>

text \<open>
  C23: The output buffer implements an append-only stream. Any sequence of writes, plain or
  escaping, keeps the buffer inside its array (no store beyond \<open>BUFFER_SIZE\<close>), only appends to what
  the client is going to receive, and changes nothing of the request but the buffer and the
  status; when the text fits with the guard band to spare, exactly the encoded text is appended
  and the request stays alive.
\<close>

theorem emit_appends:
  assumes "buf_ok r"
  shows "buf_ok (emit ps r) \<and> prefix (outstream r) (outstream (emit ps r)) \<and>
     same_but_buffer r (emit ps r) \<and>
     (status r \<noteq> DEAD \<and> buffer_end r + length (concat (map piece_text ps)) + 5 < BUFFER_SIZE \<longrightarrow>
        outstream (emit ps r) = outstream r @ concat (map piece_text ps) \<and> status (emit ps r) = status r)"
  using assms emit_ok emit_prefix emit_frame emit_room
  by (simp add: outstream_append)

theorem emit_appends_witness:
  "outstream (emit [Txt ''<A HREF='', Html ''a<b'', Txt ''>''] fresh) = ''<A HREF=a&lt;b>''"
  using emit_appends[of fresh "[Txt ''<A HREF='', Html ''a<b'', Txt ''>'']"]
  by (simp add: BUFFER_SIZE_def html_char_def)

text \<open>
  C24: flushing neither loses, repeats nor reorders a byte: unless it reports an error, the bytes
  sent followed by the bytes still buffered are the same before and after a flush, whatever part
  of the data the socket accepts; an error makes the request dead and sends nothing. The buffer
  invariant is kept in every case.
\<close>

theorem req_flush_stream:
  assumes "buf_ok r" "req_flush r = (ret, r')"
  shows "buf_ok r' \<and> (ret \<noteq> - 2 \<longrightarrow> outstream r' = outstream r) \<and>
     (ret = - 2 \<longrightarrow> status r' = DEAD \<and> sock_sent r' = sock_sent r)"
  using req_flush_ok[of r] req_flush_conserves[of r] req_flush_error[of r] assms by simp

definition chatty :: request where
  "chatty = (append_to_buffer ''abc'' fresh)\<lparr>sock_out := [W_ok 2, W_err EAGAIN, W_ok 5]\<rparr>"

theorem req_flush_stream_witness:
  "outstream (snd (req_flush chatty)) = ''abc'' \<and> buf_ok (snd (req_flush chatty))"
proof -
  have ok: "buf_ok (append_to_buffer ''abc'' fresh)"
    by (rule append_to_buffer_ok) (simp_all add: BUFFER_SIZE_def)
  then have c: "buf_ok chatty" by (simp add: chatty_def buf_ok_def)
  have o: "outstream chatty = ''abc''"
    using outstream_append[of fresh "''abc''"] by (simp add: chatty_def outstream_def pending_def)
  then have p: "pending chatty = ''abc''" by (simp add: outstream_def chatty_def fresh_def zero_request_def append_to_buffer_def)
  have "fst (req_flush chatty) \<noteq> - 2"
    using c p by (subst req_flush_wrote[of chatty 2 "[W_err EAGAIN, W_ok 5]"])
      (auto simp: chatty_def)
  then show ?thesis
    using req_flush_stream[OF c, of "fst (req_flush chatty)" "snd (req_flush chatty)"] o by simp
qed

text \<open>
  C25: Output is delivered: if the socket accepts at least one byte at each of the next \<open>k\<close> writes and
  at most \<open>k\<close> bytes are buffered, then after \<open>k\<close> flushes the buffer is empty and the client has
  received exactly the bytes sent before followed by the buffered ones.
\<close>

theorem flush_delivers:
  assumes "buf_ok r" "status r \<noteq> DEAD" "length (pending r) \<le> k"
    and "sock_out r = map (\<lambda>n. W_ok (Suc n)) ns @ rest" "k = length ns"
  shows "pending (flush_times k r) = [] \<and> sock_sent (flush_times k r) = sock_sent r @ pending r"
  using flush_times_all[OF assms] by (simp add: outstream_def)

theorem flush_delivers_witness:
  "sock_sent (flush_times 3 ((append_to_buffer ''abc'' fresh)\<lparr>sock_out := [W_ok 1, W_ok 1, W_ok 9]\<rparr>)) = ''abc''"
proof -
  let ?a = "append_to_buffer ''abc'' fresh"
  let ?r = "?a\<lparr>sock_out := [W_ok 1, W_ok 1, W_ok 9]\<rparr>"
  have "buf_ok ?a" by (rule append_to_buffer_ok) (simp_all add: BUFFER_SIZE_def)
  then have ok: "buf_ok ?r" by (simp add: buf_ok_def)
  have "sock_sent ?r @ pending ?r = ''abc''"
    using outstream_append[of fresh "''abc''"] by (simp add: outstream_def pending_def)
  moreover have "sock_sent ?r = []" by simp
  ultimately have p: "pending ?r = ''abc''" by simp
  have out: "sock_out ?r = map (\<lambda>n. W_ok (Suc n)) [0, 0, 8] @ []" by simp
  have "sock_sent (flush_times 3 ?r) = sock_sent ?r @ pending ?r"
    using flush_delivers[OF ok _ _ out, of 3] p by simp
  with p show ?thesis by simp
qed

text \<open>
  No markup can be injected through \<open>req_write_escape_html\<close>: what it appends to the output,
  truncated or not, holds no \<open><\<close>, \<open>>\<close> or double quote, so a request URI echoed in an error page or
  in the attribute of a link stays text.
\<close>

theorem escape_html_inert:
  assumes "buf_ok r"
  shows "\<exists>p. outstream (snd (req_write_escape_html s r)) = outstream r @ p \<and>
     CHR ''<'' \<notin> set p \<and> CHR ''>'' \<notin> set p \<and> CHR 0x22 \<notin> set p"
  using w_html.wr_outstream[OF assms, of s] html_text_safe by blast

theorem escape_html_inert_witness:
  "\<exists>p. outstream (snd (req_write_escape_html ''<script>'' fresh)) = outstream fresh @ p \<and> CHR ''<'' \<notin> set p"
  using escape_html_inert[of fresh "''<script>''"] by auto

text \<open>
  the out-of-room test of the escaping writers is incomplete. They report lack of space only
  when the count of remaining bytes is exactly 0, but an escaped character subtracts 3 at once:
  with four bytes of room the second of two blanks is dropped, and the call still succeeds on a
  request that stays alive.
\<close>

theorem escape_http_silent_truncation:
  "\<exists>r. buf_ok r \<and> status r = WRITE \<and>
     (\<exists>n r'. req_write_escape_http ''  '' r = (int n, r') \<and> status r' = WRITE \<and>
        outstream r' = outstream r @ ''%20'' \<and> piece_text (Http ''  '') = ''%20%20'')"
proof (intro exI conjI)
  let ?r = "fresh\<lparr>buffer_end := BUFFER_SIZE - 4, status := WRITE\<rparr>"
  have e: "escape_char SP = ''%20''" by code_simp
  show ok: "buf_ok ?r" by (simp add: buf_ok_def fresh_def zero_request_def)
  have "req_write_escape_http ''  '' ?r = (int (BUFFER_SIZE - 4 + 3), append_to_buffer ''%20'' ?r)"
    by (simp add: req_write_escape_http_def escape_write_def e append_to_buffer_def BUFFER_SIZE_def)
  then show "req_write_escape_http ''  '' ?r = (int (BUFFER_SIZE - 4 + 3), append_to_buffer ''%20'' ?r)" .
  show "outstream (append_to_buffer ''%20'' ?r) = outstream ?r @ ''%20''" by (rule outstream_append[OF ok])
  show "piece_text (Http ''  '') = ''%20%20''" by (simp add: e)
qed simp_all

end
