(* ===== verification/Hash_Table.thy ===== *)
theory Hash_Table
  imports Prelude
begin

text \<open>
  Chained hash tables. The server has five of them (MIME types, home directories, URIs, commands,
  page arguments), written out five times over the same scheme: an array of chains, a hash
  function, a comparison of keys. They differ in where a new entry goes: at the end of the chain
  unless the key is present, or at its head. The two contracts are the locales below; each table
  interprets one of them.
\<close>

subsection \<open>The interface\<close>

text \<open>
  \<open>norm\<close> maps a key to what the table compares: two keys with the same normal form find the same
  entry.
\<close>

locale keyed_table =
  fixes inv :: "'t \<Rightarrow> bool"
    and empty :: 't
    and add :: "'e \<Rightarrow> 't \<Rightarrow> 't"
    and look :: "'k \<Rightarrow> 't \<Rightarrow> 'e option"
    and key :: "'e \<Rightarrow> 'k"
    and norm :: "'k \<Rightarrow> 'q"
  assumes inv_empty: "inv empty"
    and inv_add: "inv t \<Longrightarrow> inv (add e t)"
    and look_empty: "look k empty = None"
    and look_add_other: "inv t \<Longrightarrow> norm k \<noteq> norm (key e) \<Longrightarrow> look k (add e t) = look k t"
begin

lemma inv_fold: "inv t \<Longrightarrow> inv (fold add es t)"
  by (induction es arbitrary: t) (auto intro: inv_add)

lemma look_fold_none:
  "inv t \<Longrightarrow> (\<And>e. e \<in> set es \<Longrightarrow> norm k \<noteq> norm (key e)) \<Longrightarrow> look k (fold add es t) = look k t"
  by (induction es arbitrary: t) (auto simp: inv_add look_add_other)

end

locale first_wins = keyed_table inv empty add look key norm
  for inv :: "'t \<Rightarrow> bool" and empty :: 't and add :: "'e \<Rightarrow> 't \<Rightarrow> 't"
    and look :: "'k \<Rightarrow> 't \<Rightarrow> 'e option" and key :: "'e \<Rightarrow> 'k" and norm :: "'k \<Rightarrow> 'q" +
  assumes look_add_same: "inv t \<Longrightarrow> norm k = norm (key e) \<Longrightarrow>
     look k (add e t) = (case look k t of None \<Rightarrow> Some e | Some e' \<Rightarrow> Some e')"
begin

lemma look_fold:
  "inv t \<Longrightarrow> look k (fold add es t) =
     (case look k t of Some e \<Rightarrow> Some e | None \<Rightarrow> find (\<lambda>e. norm (key e) = norm k) es)"
proof (induction es arbitrary: t)
  case (Cons e es)
  show ?case
  proof (cases "norm (key e) = norm k")
    case True
    then show ?thesis using Cons by (simp add: inv_add look_add_same split: option.split)
  next
    case False
    then show ?thesis using Cons look_add_other[of t k e] by (simp add: inv_add split: option.split)
  qed
qed (simp split: option.split)

lemma look_table: "look k (fold add es empty) = find (\<lambda>e. norm (key e) = norm k) es"
  by (simp add: look_fold inv_empty look_empty)

end

locale last_wins = keyed_table inv empty add look key norm
  for inv :: "'t \<Rightarrow> bool" and empty :: 't and add :: "'e \<Rightarrow> 't \<Rightarrow> 't"
    and look :: "'k \<Rightarrow> 't \<Rightarrow> 'e option" and key :: "'e \<Rightarrow> 'k" and norm :: "'k \<Rightarrow> 'q" +
  assumes look_add_same: "inv t \<Longrightarrow> norm k = norm (key e) \<Longrightarrow> look k (add e t) = Some e"
begin

lemma look_fold:
  "inv t \<Longrightarrow> look k (fold add es t) =
     (case find (\<lambda>e. norm (key e) = norm k) (rev es) of Some e \<Rightarrow> Some e | None \<Rightarrow> look k t)"
proof (induction es arbitrary: t)
  case (Cons e es)
  have f: "find P (xs @ [x]) = (case find P xs of Some y \<Rightarrow> Some y | None \<Rightarrow> if P x then Some x else None)"
    for P :: "'e \<Rightarrow> bool" and xs x by (induction xs) auto
  show ?case
  proof (cases "norm (key e) = norm k")
    case True
    then show ?thesis using Cons by (simp add: inv_add look_add_same f split: option.split)
  next
    case False
    then show ?thesis using Cons look_add_other[of t k e] by (simp add: inv_add f split: option.split)
  qed
qed simp

lemma look_table: "look k (fold add es empty) = find (\<lambda>e. norm (key e) = norm k) (rev es)"
  by (simp add: look_fold inv_empty look_empty split: option.split)

end

subsection \<open>Arrays of chains\<close>

text \<open>The common scheme, with the chain of a key in the array position its hash gives.\<close>

definition chain_tail_add :: "('k \<Rightarrow> nat) \<Rightarrow> ('e \<Rightarrow> 'k) \<Rightarrow> 'e \<Rightarrow> 'e list list \<Rightarrow> 'e list list" where
  "chain_tail_add hash key e tab =
    (let b = hash (key e); c = tab ! b in
     if \<exists>x \<in> set c. key x = key e then tab else tab[b := c @ [e]])"

definition chain_head_add :: "('k \<Rightarrow> nat) \<Rightarrow> ('e \<Rightarrow> 'k) \<Rightarrow> 'e \<Rightarrow> 'e list list \<Rightarrow> 'e list list" where
  "chain_head_add hash key e tab = (let b = hash (key e) in tab[b := e # tab ! b])"

definition chain_look :: "('k \<Rightarrow> nat) \<Rightarrow> ('e \<Rightarrow> 'k) \<Rightarrow> ('k \<Rightarrow> 'k \<Rightarrow> bool) \<Rightarrow> 'k \<Rightarrow> 'e list list \<Rightarrow> 'e option" where
  "chain_look hash key same k tab = find (\<lambda>e. same (key e) k) (tab ! hash k)"

lemma find_append: "find P (xs @ ys) = (case find P xs of Some y \<Rightarrow> Some y | None \<Rightarrow> find P ys)"
  by (induction xs) auto

lemma chain_tail_first_wins:
  fixes key :: "'e \<Rightarrow> 'k" and hash :: "'k \<Rightarrow> nat"
  assumes "\<And>k. hash k < n"
  shows "first_wins (\<lambda>tab. length tab = n) (replicate n []) (chain_tail_add hash key)
     (chain_look hash key (=)) key (\<lambda>k. k)"
proof
  fix tab :: "'e list list" and e k
  show "length (chain_tail_add hash key e tab) = n" if "length tab = n"
    using that by (simp add: chain_tail_add_def Let_def)
  show "chain_look hash key (=) k (replicate n []) = None"
    using assms by (simp add: chain_look_def)
  show "chain_look hash key (=) k (chain_tail_add hash key e tab) = chain_look hash key (=) k tab"
    if "length tab = n" "k \<noteq> key e"
    using that assms[of k] assms[of "key e"]
    by (auto simp: chain_tail_add_def chain_look_def Let_def nth_list_update find_append split: option.split)
  show "chain_look hash key (=) k (chain_tail_add hash key e tab) =
      (case chain_look hash key (=) k tab of None \<Rightarrow> Some e | Some e' \<Rightarrow> Some e')"
    if "length tab = n" "k = key e"
  proof (cases "find (\<lambda>x. key x = k) (tab ! hash k)")
    case None
    then have "\<not> (\<exists>x \<in> set (tab ! hash k). key x = k)" by (simp add: find_None_iff)
    with None that assms[of k] show ?thesis
      by (simp add: chain_tail_add_def chain_look_def Let_def find_append)
  next
    case (Some x)
    then have "\<exists>x \<in> set (tab ! hash k). key x = k" by (auto simp: find_Some_iff)
    with Some that show ?thesis by (simp add: chain_tail_add_def chain_look_def Let_def)
  qed
qed simp

lemma chain_head_last_wins:
  fixes key :: "'e \<Rightarrow> 'k" and hash :: "'k \<Rightarrow> nat"
  assumes "\<And>k. hash k < n" and "\<And>a b. same a b \<longleftrightarrow> canon a = canon b"
  shows "last_wins (\<lambda>tab. length tab = n) (replicate n []) (chain_head_add hash key)
     (chain_look hash key same) key (\<lambda>k. (hash k, canon k))"
proof
  fix tab :: "'e list list" and e k
  show "length (chain_head_add hash key e tab) = n" if "length tab = n"
    using that by (simp add: chain_head_add_def Let_def)
  show "chain_look hash key same k (replicate n []) = None"
    using assms(1) by (simp add: chain_look_def)
  show "chain_look hash key same k (chain_head_add hash key e tab) = chain_look hash key same k tab"
    if "length tab = n" "(hash k, canon k) \<noteq> (hash (key e), canon (key e))"
    using that assms(1)[of k] assms(1)[of "key e"]
    by (auto simp: chain_head_add_def chain_look_def Let_def nth_list_update assms(2))
  show "chain_look hash key same k (chain_head_add hash key e tab) = Some e"
    if "length tab = n" "(hash k, canon k) = (hash (key e), canon (key e))"
    using that assms(1)[of "key e"] by (simp add: chain_head_add_def chain_look_def Let_def assms(2))
qed simp

end
