(* ===== verification/Boa_Hash.thy ===== *)
theory Boa_Hash
  imports Clib Hash_Table "HOL-Library.Word"
begin

text \<open>
  \<^verbatim>\<open>hash.c\<close>: the table of MIME types and the cache of home directories. The hash is djb2 over at most
  four characters, at the width of \<open>unsigned\<close>. Allocation succeeds (the code exits when it does not).
\<close>

abbreviation MIME_HASHTABLE_SIZE :: nat where "MIME_HASHTABLE_SIZE \<equiv> 47"
abbreviation PASSWD_HASHTABLE_SIZE :: nat where "PASSWD_HASHTABLE_SIZE \<equiv> 47"
abbreviation MAX_HASH_LENGTH :: nat where "MAX_HASH_LENGTH \<equiv> 4"

record hash_struct =
  hkey :: cstring
  hvalue :: cstring

fun djb2_loop :: "32 word \<Rightarrow> nat \<Rightarrow> cstring \<Rightarrow> 32 word" where
  "djb2_loop hash count [] = hash"
| "djb2_loop hash count (c # str) =
     (if count = 0 then hash
      else djb2_loop ((push_bit 5 hash + hash) + of_nat (code c)) (count - 1) str)"

definition djb2_hash :: "cstring \<Rightarrow> 32 word" where
  "djb2_hash str = djb2_loop 5381 MAX_HASH_LENGTH str"

definition get_mime_hash_value :: "cstring \<Rightarrow> nat" where
  "get_mime_hash_value extension =
     (if extension = [] then 0 else unat (djb2_hash extension mod of_nat MIME_HASHTABLE_SIZE))"

fun chain_find :: "cstring \<Rightarrow> hash_struct list \<Rightarrow> hash_struct option" where
  "chain_find k [] = None"
| "chain_find k (e # es) = (if hkey e = k then Some e else chain_find k es)"

definition add_mime_type :: "cstring option \<Rightarrow> cstring \<Rightarrow> hash_struct list list \<Rightarrow> hash_struct list list" where
  "add_mime_type ext type tab =
    (case ext of None \<Rightarrow> tab
     | Some extension \<Rightarrow>
        (let hash = get_mime_hash_value extension in
         case chain_find extension (tab ! hash) of
           Some _ \<Rightarrow> tab
         | None \<Rightarrow> tab[hash := tab ! hash @ [\<lparr>hkey = extension, hvalue = type\<rparr>]]))"

definition get_mime_type :: "cstring \<Rightarrow> hash_struct list list \<Rightarrow> cstring \<Rightarrow> cstring" where
  "get_mime_type default_type tab filename =
    (case strrchr (CHR ''.'') filename of None \<Rightarrow> default_type
     | Some dot \<Rightarrow>
        (let extension = tl dot in
         case chain_find extension (tab ! get_mime_hash_value extension) of
           Some e \<Rightarrow> hvalue e | None \<Rightarrow> default_type))"

definition get_homedir_hash_value :: "cstring \<Rightarrow> nat" where
  "get_homedir_hash_value name =
     (if name = [] then 0 else unat (djb2_hash name mod of_nat PASSWD_HASHTABLE_SIZE))"

text \<open>\<open>getpwnam\<close> is the user database: the home directory of a user, if there is one.\<close>

definition get_home_dir ::
  "(cstring \<Rightarrow> cstring option) \<Rightarrow> cstring \<Rightarrow> hash_struct list list \<Rightarrow> cstring option \<times> hash_struct list list" where
  "get_home_dir getpwnam name tab =
    (let hash = get_homedir_hash_value name in
     case chain_find name (tab ! hash) of
       Some e \<Rightarrow> (Some (hvalue e), tab)
     | None \<Rightarrow>
        (case getpwnam name of None \<Rightarrow> (None, tab)
         | Some dir \<Rightarrow> (Some dir, tab[hash := tab ! hash @ [\<lparr>hkey = name, hvalue = dir\<rparr>]])))"

definition dump_mime :: "hash_struct list list \<Rightarrow> hash_struct list list" where
  "dump_mime tab = map (\<lambda>_. []) tab"

definition dump_passwd :: "hash_struct list list \<Rightarrow> hash_struct list list" where
  "dump_passwd tab = map (\<lambda>_. []) tab"

text \<open>The totals that \<open>show_hash_stats\<close> prints for the two tables.\<close>

definition show_hash_stats :: "hash_struct list list \<Rightarrow> hash_struct list list \<Rightarrow> nat \<times> nat" where
  "show_hash_stats mime passwd =
     (foldl (\<lambda>total chain. if chain = [] then total else total + length chain) 0 mime,
      foldl (\<lambda>total chain. if chain = [] then total else total + length chain) 0 passwd)"

subsection \<open>The tables keep the contract\<close>

lemma chain_find_find: "chain_find k es = find (\<lambda>e. hkey e = k) es"
  by (induction es) auto

lemma unat_mod_47: "unat (w mod (47 :: 32 word)) < 47"
proof -
  have "w mod 47 < (47 :: 32 word)" by (rule word_mod_less_divisor) simp
  then show ?thesis by (simp add: word_less_nat_alt)
qed

lemma get_mime_hash_value_less [simp]: "get_mime_hash_value k < MIME_HASHTABLE_SIZE"
  by (simp add: get_mime_hash_value_def unat_mod_47)

lemma get_homedir_hash_value_less [simp]: "get_homedir_hash_value k < PASSWD_HASHTABLE_SIZE"
  by (simp add: get_homedir_hash_value_def unat_mod_47)

lemma add_mime_type_chain:
  fixes e :: hash_struct
  shows "add_mime_type (Some (hkey e)) (hvalue e) tab = chain_tail_add get_mime_hash_value hkey e tab"
proof (cases "chain_find (hkey e) (tab ! get_mime_hash_value (hkey e))")
  case None
  then have "\<not> (\<exists>x \<in> set (tab ! get_mime_hash_value (hkey e)). hkey x = hkey e)"
    by (simp add: chain_find_find find_None_iff)
  with None show ?thesis
    by (cases e) (simp add: add_mime_type_def chain_tail_add_def Let_def)
next
  case (Some x)
  then have "\<exists>x \<in> set (tab ! get_mime_hash_value (hkey e)). hkey x = hkey e"
    by (auto simp: chain_find_find find_Some_iff)
  with Some show ?thesis by (simp add: add_mime_type_def chain_tail_add_def Let_def)
qed

definition mime_lookup :: "cstring \<Rightarrow> hash_struct list list \<Rightarrow> hash_struct option" where
  "mime_lookup k tab = chain_find k (tab ! get_mime_hash_value k)"

lemma mime_lookup_chain: "mime_lookup = chain_look get_mime_hash_value hkey (=)"
  by (intro ext) (simp add: mime_lookup_def chain_look_def chain_find_find)

interpretation mime: first_wins "\<lambda>tab. length tab = MIME_HASHTABLE_SIZE" "replicate MIME_HASHTABLE_SIZE []"
  "\<lambda>e. add_mime_type (Some (hkey e)) (hvalue e)" mime_lookup hkey "\<lambda>k. k"
  unfolding add_mime_type_chain mime_lookup_chain
  by (rule chain_tail_first_wins) simp

lemma get_mime_type_lookup:
  "get_mime_type d tab filename = (case strrchr (CHR ''.'') filename of None \<Rightarrow> d
     | Some dot \<Rightarrow> (case mime_lookup (tl dot) tab of Some e \<Rightarrow> hvalue e | None \<Rightarrow> d))"
  by (simp add: get_mime_type_def mime_lookup_def Let_def split: option.splits)

lemma strrchr_extension: "CHR ''.'' \<notin> set x \<Longrightarrow> strrchr (CHR ''.'') (base @ CHR ''.'' # x) = Some (CHR ''.'' # x)"
proof (induction base)
  case Nil
  then have "strrchr (CHR ''.'') x = None" by (simp add: strrchr_None_iff)
  then show ?case by simp
qed simp

text \<open>The cache of home directories: every cached entry is what the user database says.\<close>

definition cache_ok :: "(cstring \<Rightarrow> cstring option) \<Rightarrow> hash_struct list list \<Rightarrow> bool" where
  "cache_ok getpwnam tab \<longleftrightarrow> length tab = PASSWD_HASHTABLE_SIZE \<and>
     (\<forall>c \<in> set tab. \<forall>e \<in> set c. getpwnam (hkey e) = Some (hvalue e))"

lemma get_home_dir_ok:
  assumes "cache_ok getpwnam tab"
  shows "fst (get_home_dir getpwnam name tab) = getpwnam name"
    and "cache_ok getpwnam (snd (get_home_dir getpwnam name tab))"
proof -
  let ?h = "get_homedir_hash_value name"
  have h: "?h < length tab" using assms by (simp add: cache_ok_def)
  have hit: "getpwnam name = Some (hvalue e)" if "chain_find name (tab ! ?h) = Some e" for e
  proof -
    have "e \<in> set (tab ! ?h)" "hkey e = name" using that by (auto simp: chain_find_find find_Some_iff)
    with assms nth_mem[OF h] show ?thesis by (auto simp: cache_ok_def)
  qed
  show "fst (get_home_dir getpwnam name tab) = getpwnam name"
    using hit by (auto simp: get_home_dir_def Let_def split: option.splits)
  show "cache_ok getpwnam (snd (get_home_dir getpwnam name tab))"
  proof (cases "chain_find name (tab ! ?h) = None \<and> getpwnam name \<noteq> None")
    case True
    then obtain dir where dir: "getpwnam name = Some dir" by blast
    let ?c = "tab ! ?h @ [\<lparr>hkey = name, hvalue = dir\<rparr>]"
    have "\<forall>e \<in> set ?c. getpwnam (hkey e) = Some (hvalue e)"
      using assms nth_mem[OF h] dir by (auto simp: cache_ok_def)
    moreover have "set (tab[?h := ?c]) \<subseteq> insert ?c (set tab)" by (rule set_update_subset_insert)
    moreover have "\<forall>c \<in> set tab. \<forall>e \<in> set c. getpwnam (hkey e) = Some (hvalue e)"
      using assms by (simp add: cache_ok_def)
    ultimately have "\<forall>c \<in> set (tab[?h := ?c]). \<forall>e \<in> set c. getpwnam (hkey e) = Some (hvalue e)"
      by blast
    then have "cache_ok getpwnam (tab[?h := ?c])" using assms by (simp add: cache_ok_def)
    with True dir show ?thesis by (simp add: get_home_dir_def Let_def)
  next
    case False
    with assms show ?thesis by (auto simp: get_home_dir_def Let_def split: option.splits)
  qed
qed

subsection \<open>Properties\<close>

text \<open>
  The MIME table is a map in which the first type given for an extension wins. After any list
  of \<open>AddType\<close> directives, \<open>get_mime_type\<close> of a file name returns the type of the first directive
  for the characters after its last dot, and the default type when there is none or no dot,
  whatever chains the extensions share.
\<close>

theorem get_mime_type_first:
  fixes es :: "hash_struct list"
  shows "CHR ''.'' \<notin> set ext \<Longrightarrow>
   get_mime_type d (fold (\<lambda>e. add_mime_type (Some (hkey e)) (hvalue e)) es (replicate MIME_HASHTABLE_SIZE []))
      (base @ CHR ''.'' # ext) =
     (case find (\<lambda>e. hkey e = ext) es of Some e \<Rightarrow> hvalue e | None \<Rightarrow> d)"
  by (simp add: get_mime_type_lookup strrchr_extension mime.look_table)

theorem get_mime_type_first_witness:
  "get_mime_type ''text/plain'' (fold (\<lambda>e. add_mime_type (Some (hkey e)) (hvalue e))
       [\<lparr>hkey = ''htm'', hvalue = ''text/html''\<rparr>, \<lparr>hkey = ''jpg'', hvalue = ''image/jpeg''\<rparr>,
        \<lparr>hkey = ''htm'', hvalue = ''x/y''\<rparr>] (replicate MIME_HASHTABLE_SIZE [])) ''/a.b/index.htm'' = ''text/html''"
  using get_mime_type_first[of "''htm''" "''text/plain''"
      "[\<lparr>hkey = ''htm'', hvalue = ''text/html''\<rparr>, \<lparr>hkey = ''jpg'', hvalue = ''image/jpeg''\<rparr>,
        \<lparr>hkey = ''htm'', hvalue = ''x/y''\<rparr>]" "''/a.b/index''"] by simp

text \<open>
  The cache of home directories is transparent: starting from the empty table and after any
  sequence of lookups, \<open>get_home_dir\<close> returns what the user database \<open>getpwnam\<close> returns.
\<close>

theorem get_home_dir_transparent:
  "fst (get_home_dir getpwnam name
      (fold (\<lambda>n t. snd (get_home_dir getpwnam n t)) names (replicate PASSWD_HASHTABLE_SIZE []))) = getpwnam name"
proof -
  have "cache_ok getpwnam t \<Longrightarrow> cache_ok getpwnam (fold (\<lambda>n t. snd (get_home_dir getpwnam n t)) names t)" for t
    by (induction names arbitrary: t) (simp_all add: get_home_dir_ok)
  moreover have "cache_ok getpwnam (replicate PASSWD_HASHTABLE_SIZE [])" by (simp add: cache_ok_def)
  ultimately show ?thesis by (intro get_home_dir_ok(1))
qed

end
