(* ===== verification/Boa_Response.thy ===== *)
theory Boa_Response
  imports Boa_Buffer Boa_Hash
begin

text \<open>
  \<^verbatim>\<open>response.c\<close>: the status line, headers and body of the responses the server writes itself. A
  routine that prints headers is the list of the writes it makes; a routine of the rest of the
  server's interface sets the response status, makes its writes in order and, for an error page,
  flushes.
\<close>

subsection \<open>Configuration\<close>

text \<open>
  The global variables that \<^verbatim>\<open>config.c\<close> sets, the time and the conversion \<open>gmtime\<close> of the C library.
\<close>

record conf =
  ka_timeout :: nat
  ka_max :: int
  server_name :: cstring
  server_root :: cstring
  server_admin :: cstring
  server_port :: int
  document_root :: "cstring option"
  user_dir :: "cstring option"
  directory_index :: "cstring option"
  default_type :: cstring
  dirmaker :: "cstring option"
  cachedir :: "cstring option"
  tempdir :: cstring
  cgi_path :: "cstring option"
  virtualhost :: bool
  single_post_limit :: int
  max_connections :: int
  mime_hashtable :: "hash_struct list list"
  current_time :: int
  gmtime :: "int \<Rightarrow> tm"

definition http_date :: "conf \<Rightarrow> int \<Rightarrow> cstring" where
  "http_date cfg s = rfc822_time_buf (gmtime cfg (if s = 0 then current_time cfg else s))"

subsection \<open>Headers\<close>

definition print_content_type :: "conf \<Rightarrow> request \<Rightarrow> piece list" where
  "print_content_type cfg r =
     [Txt ''Content-Type: '', Txt (get_mime_type (default_type cfg) (mime_hashtable cfg) (request_uri r)), Txt CRLF]"

definition print_content_length :: "request \<Rightarrow> piece list" where
  "print_content_length r =
     [Txt ''Content-Length: '', Txt (simple_itoa ((filesize r + extra_size r) mod 2 ^ 32)), Txt CRLF]"

definition print_last_modified :: "conf \<Rightarrow> request \<Rightarrow> piece list" where
  "print_last_modified cfg r = [Txt (''Last-Modified: '' @ http_date cfg (last_modified r) @ CRLF)]"

definition print_ka_phrase :: "conf \<Rightarrow> request \<Rightarrow> piece list" where
  "print_ka_phrase cfg r =
    (if kacount r > 0 \<and> keepalive r = KA_ACTIVE \<and> response_status r < 500
     then [Txt (''Connection: Keep-Alive'' @ CRLF @ ''Keep-Alive: timeout=''), Txt (simple_itoa (ka_timeout cfg)),
           Txt '', max='', Txt (simple_itoa (nat (kacount r))), Txt CRLF]
     else [Txt (''Connection: close'' @ CRLF)])"

definition print_dlink_http_headers :: "conf \<Rightarrow> piece list" where
  "print_dlink_http_headers cfg = [Txt (''Date: '' @ http_date cfg 0 @ CRLF @ ''Server: dcs-lig-httpd'' @ CRLF)]"

definition print_http_headers :: "conf \<Rightarrow> request \<Rightarrow> piece list" where
  "print_http_headers cfg r =
     Txt (''Date: '' @ http_date cfg 0 @ CRLF @ ''Server: Boa/0.94.13'' @ CRLF) # print_ka_phrase cfg r"

subsection \<open>Successful responses\<close>

definition send_r_request_ok :: "conf \<Rightarrow> request \<Rightarrow> request" where
  "send_r_request_ok cfg r0 =
    (let r = r0\<lparr>response_status := R_REQUEST_OK\<rparr> in
     if simple r then r
     else emit ([Txt (''HTTP/1.1 200 OK'' @ CRLF)] @ print_http_headers cfg r @
       (if is_cgi r = NO_CGI then print_content_type cfg r @
          (case export_file r of None \<Rightarrow> []
           | Some f \<Rightarrow> [Txt ''Content-Disposition: attachment; filename='', Txt f, Txt CRLF]) @
          print_content_length r @ print_last_modified cfg r @ [Txt CRLF]
        else [])) r)"

definition send_request_ok_no_cache :: "conf \<Rightarrow> request \<Rightarrow> request" where
  "send_request_ok_no_cache cfg r = emit ([Txt (''HTTP/1.1 200 OK'' @ CRLF @ ''Pragma: no-cache'' @ CRLF @ ''Cache-Control: no-store'' @ CRLF @ ''Connection: close'' @ CRLF)] @
     (if is_cgi r = NO_CGI then print_content_type cfg r @ print_content_length r @ [Txt CRLF] else []))
     (r\<lparr>response_status := R_REQUEST_OK\<rparr>)"

definition send_request_ok_text :: "conf \<Rightarrow> request \<Rightarrow> request" where
  "send_request_ok_text cfg r = emit ([Txt (''HTTP/1.1 200 OK'' @ CRLF @ ''Content-type: text/plain'' @ CRLF @ ''Connection: close'' @ CRLF @ ''Pragma: no-cache'' @ CRLF @ ''Cache-Control: no-store'' @ CRLF)] @
     print_content_length r @
     [Txt CRLF])
     (r\<lparr>response_status := R_REQUEST_OK\<rparr>)"

definition send_request_ok_no_length :: "conf \<Rightarrow> request \<Rightarrow> request" where
  "send_request_ok_no_length cfg r = emit ([Txt (''HTTP/1.1 200 OK'' @ CRLF @ ''Content-type: text/plain'' @ CRLF @ ''Connection: close'' @ CRLF @ ''Pragma: no-cache'' @ CRLF @ ''Cache-Control: no-store'' @ CRLF), Txt CRLF])
     (r\<lparr>response_status := R_REQUEST_OK\<rparr>)"

definition send_request_ok_sdget :: "conf \<Rightarrow> request \<Rightarrow> request" where
  "send_request_ok_sdget cfg r = emit ([Txt (''HTTP/1.1 200 OK'' @ CRLF @ ''Content-type: text/html'' @ CRLF @ ''Connection: close'' @ CRLF @ ''Pragma: no-cache'' @ CRLF @ ''Cache-Control: no-store'' @ CRLF)] @
     print_content_length r @
     [Txt CRLF])
     (r\<lparr>response_status := R_REQUEST_OK\<rparr>)"

definition send_request_dlink_ok :: "int \<Rightarrow> conf \<Rightarrow> request \<Rightarrow> request" where
  "send_request_dlink_ok n cfg r = emit ([Txt (''HTTP/1.1 200 OK'' @ CRLF)] @
     print_last_modified cfg r @
     [Txt (''Cache-Control: no-cache, no-store, must-revalidate'' @ CRLF), Txt (''Pragma: no-cache'' @ CRLF), Txt (''Content-type: text/plain'' @ CRLF), Txt (''Content-Length: ''), Txt (simple_itoa (nat (n mod 2 ^ 32))), Txt CRLF, Txt (''Connection: close'' @ CRLF)] @
     print_dlink_http_headers cfg @
     [Txt CRLF])
     (r\<lparr>response_status := R_REQUEST_OK\<rparr>)"

definition send_request_dlink_ok_mpeg4 :: "conf \<Rightarrow> request \<Rightarrow> request" where
  "send_request_dlink_ok_mpeg4 cfg r = emit ([Txt (''HTTP/1.1 200 OK'' @ CRLF)] @
     print_last_modified cfg r @
     [Txt (''Cache-Control: no-cache, no-store, must-revalidate'' @ CRLF), Txt (''Pragma: no-cache'' @ CRLF), Txt (''Content-type: video/ACVS'' @ CRLF), Txt CRLF])
     (r\<lparr>response_status := R_REQUEST_OK\<rparr>)"

definition send_request_dlink_ok_audio :: "conf \<Rightarrow> request \<Rightarrow> request" where
  "send_request_dlink_ok_audio cfg r = emit ([Txt (''HTTP/1.1 200 OK'' @ CRLF)] @
     print_last_modified cfg r @
     [Txt (''Cache-Control: no-cache, no-store, must-revalidate'' @ CRLF), Txt (''Pragma: no-cache'' @ CRLF), Txt (''Content-type: audio/ACAS'' @ CRLF), Txt CRLF])
     (r\<lparr>response_status := R_REQUEST_OK\<rparr>)"

definition send_request_uni_xml_ok :: "conf \<Rightarrow> request \<Rightarrow> request" where
  "send_request_uni_xml_ok cfg r = emit ([Txt (''HTTP/1.1 200 OK'' @ CRLF), Txt (''Transfer-Encoding: chunked'' @ CRLF), Txt (''Expires: Mon, 26 Jul 1997 05:00:00 GMT'' @ CRLF), Txt (''Connection: close'' @ CRLF)] @
     print_last_modified cfg r @
     [Txt (''Cache-Control: no-cache, no-store, must-revalidate'' @ CRLF), Txt (''Pragma: no-cache'' @ CRLF), Txt (''Content-type: text/xml'' @ CRLF)] @
     print_dlink_http_headers cfg @
     [Txt CRLF])
     (r\<lparr>response_status := R_REQUEST_OK\<rparr>)"

definition send_request_ok_api :: "conf \<Rightarrow> request \<Rightarrow> request" where
  "send_request_ok_api cfg r = emit ([Txt (''HTTP/1.1 200 OK'' @ CRLF @ ''Content-type: text/html'' @ CRLF @ ''Pragma: no-cache'' @ CRLF @ ''Cache-Control: no-store'' @ CRLF @ CRLF)])
     (r\<lparr>response_status := R_REQUEST_OK\<rparr>)"

definition send_request_ok_jpeg :: "conf \<Rightarrow> request \<Rightarrow> request" where
  "send_request_ok_jpeg cfg r = emit ([Txt (''HTTP/1.1 200 OK'' @ CRLF @ ''Content-Type: image/jpeg'' @ CRLF @ ''Pragma: no-cache'' @ CRLF @ ''Cache-Control: no-store'' @ CRLF)] @
     print_content_length r @
     [Txt CRLF])
     (r\<lparr>response_status := R_REQUEST_OK\<rparr>)"

definition send_request_ok_audio :: "conf \<Rightarrow> request \<Rightarrow> request" where
  "send_request_ok_audio cfg r = emit ([Txt (''HTTP/1.1 200 OK'' @ CRLF @ ''Connection: Close'' @ CRLF @ ''Pragma: no-cache'' @ CRLF @ ''Cache-Control: no-store'' @ CRLF @ ''Content-Type: multipart/x-mixed-replace;boundary=--myboundary'' @ CRLF @ CRLF)])
     (r\<lparr>response_status := R_REQUEST_OK\<rparr>)"

subsection \<open>Error pages\<close>

text \<open>
  The shape of the error routines: stop keep-alive, set the status, print the status line, the
  common headers and those of the page unless the request is simple, the body unless the method
  is \<open>HEAD\<close>, and flush.
\<close>

definition error_page :: "conf \<Rightarrow> nat \<Rightarrow> cstring \<Rightarrow> piece list \<Rightarrow> piece list \<Rightarrow> request \<Rightarrow> request" where
  "error_page cfg st status_line hdrs body r0 =
    (let r = (SQUASH_KA r0)\<lparr>response_status := st\<rparr> in
     snd (req_flush (emit
       ((if simple r then [] else [Txt status_line] @ print_http_headers cfg r @ hdrs) @
        (if method r \<noteq> M_HEAD then body else [])) r)))"

definition send_r_moved_perm :: "cstring \<Rightarrow> conf \<Rightarrow> request \<Rightarrow> request" where
  "send_r_moved_perm url cfg r = error_page cfg R_MOVED_PERM (''HTTP/1.0 301 Moved Permanently'' @ CRLF)
     [Txt (''Content-Type: text/html; charset=ISO-8859-1'' @ CRLF),
      Txt (''Location: ''),
      Http url,
      Txt (CRLF @ CRLF)]
     [Txt (''<HTML><HEAD><TITLE>301 Moved Permanently</TITLE></HEAD>'' @ [LF] @ ''<BODY>'' @ [LF] @ ''<H1>301 Moved</H1>The document has moved'' @ [LF] @ ''<A HREF='' @ [CHR 0x22]),
      Html url,
      Txt ([CHR 0x22] @ ''>here</A>.'' @ [LF] @ ''</BODY></HTML>'' @ [LF])] r"

definition send_r_moved_temp :: "cstring \<Rightarrow> cstring \<Rightarrow> conf \<Rightarrow> request \<Rightarrow> request" where
  "send_r_moved_temp url more_hdr cfg r = error_page cfg R_MOVED_TEMP (''HTTP/1.0 302 Moved Temporarily'' @ CRLF)
     [Txt (''Content-Type: text/html; charset=ISO-8859-1'' @ CRLF),
      Txt (''Location: ''),
      Http url,
      Txt (CRLF),
      Txt more_hdr,
      Txt (CRLF @ CRLF)]
     [Txt (''<HTML><HEAD><TITLE>302 Moved Temporarily</TITLE></HEAD>'' @ [LF] @ ''<BODY>'' @ [LF] @ ''<H1>302 Moved</H1>The document has moved'' @ [LF] @ ''<A HREF='' @ [CHR 0x22]),
      Html url,
      Txt ([CHR 0x22] @ ''>here</A>.'' @ [LF] @ ''</BODY></HTML>'' @ [LF])] r"

definition send_r_bad_request :: "conf \<Rightarrow> request \<Rightarrow> request" where
  "send_r_bad_request cfg r = error_page cfg R_BAD_REQUEST (''HTTP/1.0 400 Bad Request'' @ CRLF)
     [Txt (''Content-Type: text/html; charset=ISO-8859-1'' @ CRLF @ CRLF)]
     [Txt (''<HTML><HEAD><TITLE>400 Bad Request</TITLE></HEAD>'' @ [LF] @ ''<BODY><H1>400 Bad Request</H1>'' @ [LF] @ ''Your client has issued a malformed or illegal request.'' @ [LF] @ ''</BODY></HTML>'' @ [LF])] r"

definition send_r_unauthorized :: "cstring \<Rightarrow> conf \<Rightarrow> request \<Rightarrow> request" where
  "send_r_unauthorized realm_name cfg r = error_page cfg R_UNAUTHORIZED (''HTTP/1.0 401 Unauthorized'' @ CRLF)
     [Txt (''WWW-Authenticate: Basic realm='' @ [CHR 0x22]),
      Txt realm_name,
      Txt ([CHR 0x22] @ CRLF),
      Txt (''Content-Type: text/html; charset=ISO-8859-1'' @ CRLF @ CRLF)]
     [Txt (''<HTML><HEAD><TITLE>401 Unauthorized</TITLE></HEAD>'' @ [LF] @ ''<BODY><H1>401 Unauthorized</H1>'' @ [LF] @ ''Your client does not have permission to get URL ''),
      Html (request_uri r),
      Txt ('' from this server.'' @ [LF] @ ''</BODY></HTML>'' @ [LF])] r"

definition send_r_forbidden :: "conf \<Rightarrow> request \<Rightarrow> request" where
  "send_r_forbidden cfg r = error_page cfg R_FORBIDDEN (''HTTP/1.0 403 Forbidden'' @ CRLF)
     [Txt (''Content-Type: text/html; charset=ISO-8859-1'' @ CRLF @ CRLF)]
     [Txt (''<HTML><HEAD><TITLE>403 Forbidden</TITLE></HEAD>'' @ [LF] @ ''<BODY><H1>403 Forbidden</H1>'' @ [LF] @ ''Your client does not have permission to get URL ''),
      Html (request_uri r),
      Txt ('' from this server.'' @ [LF] @ ''</BODY></HTML>'' @ [LF])] r"

definition send_r_not_found :: "conf \<Rightarrow> request \<Rightarrow> request" where
  "send_r_not_found cfg r = error_page cfg R_NOT_FOUND (''HTTP/1.0 404 Not Found'' @ CRLF)
     [Txt (''Content-Type: text/html; charset=ISO-8859-1'' @ CRLF @ CRLF)]
     [Txt (''<HTML><HEAD><TITLE>404 Not Found</TITLE></HEAD>'' @ [LF] @ ''<BODY><H1>404 Not Found</H1>'' @ [LF] @ ''The requested URL ''),
      Html (request_uri r),
      Txt ('' was not found on this server.'' @ [LF] @ ''</BODY></HTML>'' @ [LF])] r"

definition send_r_error :: "conf \<Rightarrow> request \<Rightarrow> request" where
  "send_r_error cfg r = error_page cfg R_ERROR (''HTTP/1.0 500 Server Error'' @ CRLF)
     [Txt (''Content-Type: text/html; charset=ISO-8859-1'' @ CRLF @ CRLF)]
     [Txt (''<HTML><HEAD><TITLE>500 Server Error</TITLE></HEAD>'' @ [LF] @ ''<BODY><H1>500 Server Error</H1>'' @ [LF] @ ''The server encountered an internal error and could not complete your request.'' @ [LF] @ ''</BODY></HTML>'' @ [LF])] r"

definition send_r_not_implemented :: "conf \<Rightarrow> request \<Rightarrow> request" where
  "send_r_not_implemented cfg r = error_page cfg R_NOT_IMP (''HTTP/1.0 501 Not Implemented'' @ CRLF)
     [Txt (''Content-Type: text/html; charset=ISO-8859-1'' @ CRLF @ CRLF)]
     [Txt (''<HTML><HEAD><TITLE>501 Not Implemented</TITLE></HEAD>'' @ [LF] @ ''<BODY><H1>501 Not Implemented</H1>'' @ [LF] @ ''POST to non-script is not supported in Boa.'' @ [LF] @ ''</BODY></HTML>'' @ [LF])] r"

definition send_r_bad_gateway :: "conf \<Rightarrow> request \<Rightarrow> request" where
  "send_r_bad_gateway cfg r = error_page cfg R_BAD_GATEWAY (''HTTP/1.0 502 Bad Gateway'' @ CRLF)
     [Txt (''Content-Type: text/html; charset=ISO-8859-1'' @ CRLF @ CRLF)]
     [Txt (''<HTML><HEAD><TITLE>502 Bad Gateway</TITLE></HEAD>'' @ [LF] @ ''<BODY><H1>502 Bad Gateway</H1>'' @ [LF] @ ''The CGI was not CGI/1.1 compliant.'' @ [LF] @ ''</BODY></HTML>'' @ [LF])] r"

definition unavailable_body :: cstring where
  "unavailable_body = ''<HTML><HEAD><TITLE>503 Service Unavailable</TITLE></HEAD>'' @ [LF] @ ''<BODY><H1>503 Service Unavailable</H1>'' @ [LF] @ ''There are too many connections in use right now.'' @ CRLF @ ''Please try again later.'' @ CRLF @ ''</BODY></HTML>'' @ [LF]"

definition send_r_service_unavailable :: "conf \<Rightarrow> request \<Rightarrow> request" where
  "send_r_service_unavailable cfg r = error_page cfg R_SERVICE_UNAV (''HTTP/1.0 503 Service Unavailable'' @ CRLF)
     [Txt (''Content-Length: ''),
      Txt (simple_itoa (length unavailable_body)),
      Txt (CRLF),
      Txt (''Content-Type: text/html; charset=ISO-8859-1'' @ CRLF @ CRLF)]
     [Txt unavailable_body] r"

definition send_r_bad_version :: "conf \<Rightarrow> request \<Rightarrow> request" where
  "send_r_bad_version cfg r = error_page cfg R_BAD_VERSION (''HTTP/1.0 505 HTTP Version Not Supported'' @ CRLF)
     [Txt (''Content-Type: text/html; charset=ISO-8859-1'' @ CRLF @ CRLF)]
     [Txt (''<HTML><HEAD><TITLE>505 HTTP Version Not Supported</TITLE></HEAD>'' @ [LF] @ ''<BODY><H1>505 HTTP Version Not Supported</H1>'' @ [LF] @ ''HTTP versions other than 0.9 and 1.0 are not supported in Boa.'' @ [LF] @ ''<p><p>Version encountered: ''),
      Txt (http_version r),
      Txt (''<p><p></BODY></HTML>'' @ [LF])] r"

definition send_r_not_modified :: "conf \<Rightarrow> request \<Rightarrow> request" where
  "send_r_not_modified cfg r0 =
    (let r = (SQUASH_KA r0)\<lparr>response_status := R_NOT_MODIFIED\<rparr> in
     snd (req_flush (emit ([Txt (''HTTP/1.0 304 Not Modified'' @ CRLF)] @ print_http_headers cfg r @
       print_content_type cfg r @ [Txt CRLF]) r)))"


subsection \<open>The status word of the stream headers\<close>

text \<open>
  The inputs of \<open>print_ipcam_status\<close>: the state of the digital inputs and output, of the video
  signal and of the SD card, as the shared system information gives them.
\<close>

record ipcam_state =
  alarm_in :: "bool list"
  videoloss :: bool
  motion :: bool
  sd_on_detect :: bool
  sd_mounted :: bool
  sd_fail :: bool
  sd_lock :: bool
  alarm_out1 :: bool
  gioout_alwayson :: bool

definition or_if :: "bool \<Rightarrow> 32 word \<Rightarrow> 32 word \<Rightarrow> 32 word" where
  "or_if c m w = (if c then w OR m else w)"

definition ipcam_status_word :: "ipcam_state \<Rightarrow> 32 word" where
  "ipcam_status_word s =
    (let w0 = fold (\<lambda>i. or_if (alarm_in s ! i) (push_bit i 1)) [0..<6] 0;
         w1 = or_if (motion s) (push_bit 16 1) (or_if (videoloss s) (push_bit 8 1) w0);
         w2 = or_if (sd_lock s) (push_bit 22 1) (or_if (sd_fail s) (push_bit 21 3)
              (or_if (sd_mounted s) (push_bit 21 2) (or_if (sd_on_detect s) (push_bit 21 1) w1)))
     in or_if (gioout_alwayson s) (push_bit 25 1) (or_if (alarm_out1 s) (push_bit 24 1) w2))"

subsection \<open>What the responses leave alone\<close>

text \<open>The request with everything erased that a response may change.\<close>

definition io_erase :: "request \<Rightarrow> request" where
  "io_erase r = r\<lparr>buffer := [], buffer_start := 0, buffer_end := 0, status := DEAD, sock_out := [],
     sock_sent := [], keepalive := KA_INACTIVE, response_status := 0\<rparr>"

definition same_but_io :: "request \<Rightarrow> request \<Rightarrow> bool" where
  "same_but_io r r' \<longleftrightarrow> io_erase r = io_erase r'"

lemma io_erase_updates [simp, frame_simps]:
  "io_erase (r\<lparr>response_status := n\<rparr>) = io_erase r" "io_erase (r\<lparr>status := st\<rparr>) = io_erase r"
  "io_erase (r\<lparr>keepalive := ka\<rparr>) = io_erase r" "io_erase (r\<lparr>buffer_start := x\<rparr>) = io_erase r"
  "io_erase (r\<lparr>buffer_end := y\<rparr>) = io_erase r" "io_erase (r\<lparr>buffer := b\<rparr>) = io_erase r"
  "io_erase (r\<lparr>sock_out := so\<rparr>) = io_erase r" "io_erase (r\<lparr>sock_sent := ss\<rparr>) = io_erase r"
  "io_erase (SQUASH_KA r) = io_erase r"
  by (simp_all add: io_erase_def SQUASH_KA_def)

lemma io_erase_emit [simp, frame_simps]: "io_erase (emit ps r) = io_erase r"
  using emit_frame[of r ps] by (auto simp: same_but_buffer_def)

lemma io_erase_flush_done [simp]: "io_erase (snd (flush_done r)) = io_erase r"
  by (simp add: flush_done_def Let_def)

lemma io_erase_sock_write [simp]: "io_erase (snd (sock_write data r)) = io_erase r"
  by (simp add: sock_write_def Let_def split: list.split wr_result.split)

lemma io_erase_flush [simp, frame_simps]: "io_erase (snd (req_flush r)) = io_erase r"
proof -
  obtain w r1 where w: "sock_write (take (buffer_end r - buffer_start r) (drop (buffer_start r) (buffer r))) r = (w, r1)"
    by fastforce
  then have "io_erase r1 = io_erase r" using io_erase_sock_write[of _ r] by (metis snd_conv)
  then show ?thesis by (cases w) (simp_all add: req_flush_def w Let_def)
qed

lemma io_erase_error_page [simp, frame_simps]: "io_erase (error_page cfg st l h b r) = io_erase r"
  by (simp add: error_page_def Let_def)

text \<open>The fields that survive, read off equal erased requests.\<close>

lemma io_erase_fields:
  assumes "io_erase r = io_erase r'"
  shows "request_uri r = request_uri r'" "method r = method r'" "http_uri r = http_uri r'"
    "authority r = authority r'" "cgi_env r = cgi_env r'" "client_stream r = client_stream r'"
    "parse_pos r = parse_pos r'" "filesize r = filesize r'" "filepos r = filepos r'"
    "header_line r = header_line r'" "header_end r = header_end r'" "simple r = simple r'"
    "post_data_fd r = post_data_fd r'" "logline r = logline r'" "cmd_count r = cmd_count r'"
    "cmd_arg r = cmd_arg r'" "is_cgi r = is_cgi r'" "connect r = connect r'"
  using arg_cong[OF assms, of request_uri] arg_cong[OF assms, of "method"] arg_cong[OF assms, of http_uri]
    arg_cong[OF assms, of authority] arg_cong[OF assms, of cgi_env] arg_cong[OF assms, of client_stream]
    arg_cong[OF assms, of parse_pos] arg_cong[OF assms, of filesize] arg_cong[OF assms, of filepos]
    arg_cong[OF assms, of header_line] arg_cong[OF assms, of header_end] arg_cong[OF assms, of simple]
    arg_cong[OF assms, of post_data_fd] arg_cong[OF assms, of logline] arg_cong[OF assms, of cmd_count]
    arg_cong[OF assms, of cmd_arg] arg_cong[OF assms, of is_cgi] arg_cong[OF assms, of connect]
  by (simp_all add: io_erase_def)

subsection \<open>Responses and the output buffer\<close>

lemma buf_ok_updates [simp]:
  "buf_ok (r\<lparr>response_status := n\<rparr>) = buf_ok r" "buf_ok (SQUASH_KA r) = buf_ok r"
  "outstream (r\<lparr>response_status := n\<rparr>) = outstream r" "outstream (SQUASH_KA r) = outstream r"
  by (simp_all add: buf_ok_def outstream_def pending_def SQUASH_KA_def)

lemma error_page_ok [buf_intros]: "buf_ok r \<Longrightarrow> buf_ok (error_page cfg st l h b r)"
  unfolding error_page_def Let_def by (intro req_flush_ok emit_ok) simp

lemma emit_kept [simp]:
  "response_status (emit ps r) = response_status r" "keepalive (emit ps r) = keepalive r"
  "buffer_start (emit ps r) = buffer_start r"
  using emit_frame[of r ps] by (auto simp: same_but_buffer_def)

lemma flush_kept [simp]:
  "response_status (snd (req_flush r)) = response_status r" "keepalive (snd (req_flush r)) = keepalive r"
  by (simp_all add: req_flush_def Let_def sock_write_def flush_done_def split: list.split wr_result.split)

lemma error_page_status [simp]:
  "response_status (error_page cfg st l h b r) = st" "keepalive (error_page cfg st l h b r) = KA_STOPPED"
  by (simp_all add: error_page_def Let_def SQUASH_KA_def)

text \<open>The text of an error page, and its delivery to the output when there is room.\<close>

definition page_text :: "conf \<Rightarrow> nat \<Rightarrow> cstring \<Rightarrow> piece list \<Rightarrow> piece list \<Rightarrow> request \<Rightarrow> cstring" where
  "page_text cfg st l h b r =
    (let r1 = (SQUASH_KA r)\<lparr>response_status := st\<rparr> in
     concat (map piece_text ((if simple r then [] else [Txt l] @ print_http_headers cfg r1 @ h) @
        (if method r \<noteq> M_HEAD then b else []))))"

lemma error_page_output:
  assumes "buf_ok r" "status r \<noteq> DEAD" "buffer_end r + length (page_text cfg st l h b r) + 5 < BUFFER_SIZE"
  shows "outstream (error_page cfg st l h b r) = outstream r @ page_text cfg st l h b r \<or>
     status (error_page cfg st l h b r) = DEAD"
proof -
  let ?r1 = "(SQUASH_KA r)\<lparr>response_status := st\<rparr>"
  let ?ps = "(if simple ?r1 then [] else [Txt l] @ print_http_headers cfg ?r1 @ h) @
        (if method ?r1 \<noteq> M_HEAD then b else [])"
  have sm: "simple ?r1 = simple r" "method ?r1 = method r" by (simp_all add: SQUASH_KA_def)
  have ok: "buf_ok ?r1" using assms(1) by simp
  have t: "concat (map piece_text ?ps) = page_text cfg st l h b r"
    unfolding page_text_def Let_def sm ..
  have "emit ?ps ?r1 = append_to_buffer (concat (map piece_text ?ps)) ?r1"
    by (rule emit_room) (use assms ok t in \<open>simp_all add: SQUASH_KA_def\<close>)
  then have e: "outstream (emit ?ps ?r1) = outstream r @ page_text cfg st l h b r"
    using outstream_append[OF ok] t by simp
  have okp: "buf_ok (emit ?ps ?r1)" using ok by (rule emit_ok)
  have "error_page cfg st l h b r = snd (req_flush (emit ?ps ?r1))"
    by (simp only: error_page_def Let_def)
  with e req_flush_conserves[OF okp] req_flush_error[OF okp] show ?thesis by metis
qed

lemmas send_error_defs = send_r_moved_perm_def send_r_moved_temp_def send_r_bad_request_def
  send_r_unauthorized_def send_r_forbidden_def send_r_not_found_def send_r_error_def
  send_r_not_implemented_def send_r_bad_gateway_def send_r_service_unavailable_def send_r_bad_version_def

lemma send_error_frame [simp]:
  "io_erase (send_r_bad_request cfg r) = io_erase r" "io_erase (send_r_not_found cfg r) = io_erase r"
  "io_erase (send_r_forbidden cfg r) = io_erase r" "io_erase (send_r_unauthorized realm cfg r) = io_erase r"
  "io_erase (send_r_error cfg r) = io_erase r" "io_erase (send_r_not_implemented cfg r) = io_erase r"
  "io_erase (send_r_bad_gateway cfg r) = io_erase r" "io_erase (send_r_service_unavailable cfg r) = io_erase r"
  "io_erase (send_r_moved_perm url cfg r) = io_erase r" "io_erase (send_r_moved_temp url hdr cfg r) = io_erase r"
  by (simp_all add: send_error_defs)

lemma send_error_ok [buf_intros]:
  assumes "buf_ok r"
  shows "buf_ok (send_r_bad_request cfg r)" "buf_ok (send_r_not_found cfg r)"
  "buf_ok (send_r_forbidden cfg r)" "buf_ok (send_r_unauthorized realm cfg r)"
  "buf_ok (send_r_error cfg r)" "buf_ok (send_r_not_implemented cfg r)"
  "buf_ok (send_r_bad_gateway cfg r)" "buf_ok (send_r_service_unavailable cfg r)"
  "buf_ok (send_r_moved_perm url cfg r)" "buf_ok (send_r_moved_temp url hdr cfg r)"
  using assms by (simp_all add: send_error_defs error_page_ok)

lemma send_error_status [simp]:
  "response_status (send_r_bad_request cfg r) = 400" "response_status (send_r_not_found cfg r) = 404"
  "response_status (send_r_forbidden cfg r) = 403" "response_status (send_r_unauthorized realm cfg r) = 401"
  "response_status (send_r_error cfg r) = 500" "response_status (send_r_not_implemented cfg r) = 501"
  "response_status (send_r_bad_gateway cfg r) = 502" "response_status (send_r_service_unavailable cfg r) = 503"
  "response_status (send_r_moved_perm url cfg r) = 301" "response_status (send_r_moved_temp url hdr cfg r) = 302"
  by (simp_all add: send_error_defs)

subsection \<open>Properties\<close>

text \<open>
  every error page of the server reports its own code and closes the connection. Whatever the
  state of the request, the routine sets the response status to the code of its page, stops
  keep-alive, keeps the output buffer inside its array and leaves the rest of the request (method,
  URI, authority, CGI environment, parsing position) alone.
\<close>

theorem error_responses:
  assumes "buf_ok r"
  shows "\<forall>(f, st) \<in> set [(send_r_moved_perm url cfg, 301), (send_r_moved_temp url hdr cfg, 302),
      (send_r_bad_request cfg, 400), (send_r_unauthorized realm cfg, 401), (send_r_forbidden cfg, 403),
      (send_r_not_found cfg, 404), (send_r_error cfg, 500), (send_r_not_implemented cfg, 501),
      (send_r_bad_gateway cfg, 502), (send_r_service_unavailable cfg, 503), (send_r_bad_version cfg, 505)].
     response_status (f r) = st \<and> keepalive (f r) = KA_STOPPED \<and> buf_ok (f r) \<and> same_but_io r (f r)"
  using assms by (simp add: send_error_defs error_page_ok same_but_io_def)

definition sample_conf :: conf where
  "sample_conf =
    \<lparr>ka_timeout = 10, ka_max = 1000, server_name = ''camera'', server_root = ''/etc'', server_admin = ''root'',
     server_port = 80, document_root = Some ''/opt/www'', user_dir = None, directory_index = Some ''index.htm'',
     default_type = ''text/plain'', dirmaker = None, cachedir = None, tempdir = ''/tmp'', cgi_path = None,
     virtualhost = False, single_post_limit = 20971520, max_connections = 10,
     mime_hashtable = replicate MIME_HASHTABLE_SIZE [], current_time = 1000, gmtime = (\<lambda>_. sample_tm)\<rparr>"

theorem error_responses_witness:
  "response_status (send_r_not_found sample_conf fresh) = 404 \<and> buf_ok (send_r_not_found sample_conf fresh)"
  using error_responses[of fresh] by simp

text \<open>
  The 404 page. A full request that is alive and has room in its buffer gets exactly the status
  line, the date, server and connection headers, the content type and the body, in which the
  requested URL appears with \<open><\<close>, \<open>>\<close>, \<open>&\<close> and the double quote replaced by entities; a \<open>HEAD\<close> request
  gets the headers only. The one other outcome is a request killed by a write error.
\<close>

theorem send_r_not_found_page:
  assumes "buf_ok r" "status r \<noteq> DEAD" "\<not> simple r" "buffer_end r + 6 * length (request_uri r) + 700 < BUFFER_SIZE"
    and "length (http_date cfg 0) = 29"
  defines "head \<equiv> ''HTTP/1.0 404 Not Found'' @ CRLF @ ''Date: '' @ http_date cfg 0 @ CRLF @ ''Server: Boa/0.94.13'' @ CRLF @
       ''Connection: close'' @ CRLF @ ''Content-Type: text/html; charset=ISO-8859-1'' @ CRLF @ CRLF"
  shows "status (send_r_not_found cfg r) = DEAD \<or> outstream (send_r_not_found cfg r) = outstream r @ head @
      (if method r = M_HEAD then [] else
        ''<HTML><HEAD><TITLE>404 Not Found</TITLE></HEAD>'' @ [LF] @ ''<BODY><H1>404 Not Found</H1>'' @ [LF] @
        ''The requested URL '' @ concat (map html_char (request_uri r)) @
        '' was not found on this server.'' @ [LF] @ ''</BODY></HTML>'' @ [LF])"
proof -
  have len: "length (concat (map html_char s)) \<le> 6 * length s" for s
    by (induction s) (use length_html_char(2) in \<open>auto intro: add_le_mono\<close>)
  note bound = len[of "request_uri r"]
  obtain l h b where f: "send_r_not_found cfg r = error_page cfg R_NOT_FOUND l h b r"
    and lhb: "l = ''HTTP/1.0 404 Not Found'' @ CRLF"
      "h = [Txt (''Content-Type: text/html; charset=ISO-8859-1'' @ CRLF @ CRLF)]"
      "b = [Txt (''<HTML><HEAD><TITLE>404 Not Found</TITLE></HEAD>'' @ [LF] @ ''<BODY><H1>404 Not Found</H1>'' @ [LF] @ ''The requested URL ''),
        Html (request_uri r), Txt ('' was not found on this server.'' @ [LF] @ ''</BODY></HTML>'' @ [LF])]"
    by (simp add: send_r_not_found_def)
  have pg: "page_text cfg R_NOT_FOUND l h b r = head @ (if method r = M_HEAD then [] else
        ''<HTML><HEAD><TITLE>404 Not Found</TITLE></HEAD>'' @ [LF] @ ''<BODY><H1>404 Not Found</H1>'' @ [LF] @
        ''The requested URL '' @ concat (map html_char (request_uri r)) @
        '' was not found on this server.'' @ [LF] @ ''</BODY></HTML>'' @ [LF])"
    using assms(3) by (simp add: page_text_def lhb head_def print_http_headers_def print_ka_phrase_def SQUASH_KA_def Let_def)
  have "buffer_end r + length (page_text cfg R_NOT_FOUND l h b r) + 5 < BUFFER_SIZE"
    using assms(4,5) bound by (simp add: pg head_def)
  from error_page_output[OF assms(1,2) this] show ?thesis by (auto simp: f pg)
qed

theorem send_r_not_found_page_witness:
  "status (send_r_not_found sample_conf fresh) = DEAD \<or>
   prefix ''HTTP/1.0 404 Not Found'' (outstream (send_r_not_found sample_conf fresh))"
proof -
  have "http_date sample_conf 0 = ''Tue, 09 Oct 2001 18:26:07 GMT''" by code_simp
  then show ?thesis using send_r_not_found_page[of fresh sample_conf]
    by (auto simp: fresh_def zero_request_def BUFFER_SIZE_def buf_ok_def outstream_def pending_def)
qed

text \<open>
  the SD card bits of the stream status word collide. The comments give the card bits 20 and 21
  and its lock bit 22, but the states are shifted to bits 21 and 22: bit 20 is never set, and bit
  22 reads "locked" for every card that is mounted or failed.
\<close>

theorem ipcam_status_sd_collision:
  "\<not> bit (ipcam_status_word s) 20 \<and>
   (bit (ipcam_status_word s) 22 \<longleftrightarrow> sd_lock s \<or> sd_mounted s \<or> sd_fail s)"
  by (simp add: ipcam_status_word_def Let_def or_if_def upt_rec bit_simps)

end
