(* ===== verification/Boa_Alias.thy ===== *)
theory Boa_Alias
  imports Boa_Response
begin

text \<open>
  \<^verbatim>\<open>alias.c\<close>: the table of \<open>Alias\<close>, \<open>Redirect\<close> and \<open>ScriptAlias\<close> directives, and the translation of a
  request URI to a file name or a script. The file system (\<open>stat\<close>) and the user database
  (\<open>getpwnam\<close>) are arguments; so is the URI table, which \<^verbatim>\<open>request.c\<close> owns. A translation returns
  0 (close the request) or 1, the request, and the cache of home directories.
\<close>

subsection \<open>The alias table\<close>

abbreviation ALIAS_HASHTABLE_SIZE :: nat where "ALIAS_HASHTABLE_SIZE \<equiv> 17"

datatype alias_type = ALIAS | SCRIPTALIAS | REDIRECT

record alias_entry =
  fakename :: cstring
  realname :: cstring
  alias_type :: alias_type

abbreviation fake_len :: "alias_entry \<Rightarrow> nat" where "fake_len a \<equiv> length (fakename a)"
abbreviation real_len :: "alias_entry \<Rightarrow> nat" where "real_len a \<equiv> length (realname a)"

definition get_alias_hash_value :: "cstring \<Rightarrow> nat" where
  "get_alias_hash_value file =
     (code (char_at file 0) +
      sum_list (map code (takeWhile (\<lambda>c. c \<noteq> CHR ''/'') (drop 1 file)))) mod 2 ^ 32 mod ALIAS_HASHTABLE_SIZE"

text \<open>
  The search for a duplicate stops before the last element of the chain. \<open>None\<close> is the exit of \<open>DIE\<close>
  (a \<open>NULL\<close> or empty name, or \<open>normalize_path\<close> failing); \<open>cwd\<close> is the current directory.
\<close>

definition add_alias ::
  "cstring option \<Rightarrow> cstring option \<Rightarrow> cstring option \<Rightarrow> alias_type \<Rightarrow> alias_entry list list \<Rightarrow> alias_entry list list option" where
  "add_alias cwd fake real type tab =
    (case (fake, real) of
       (Some fakename1, Some realname1) \<Rightarrow>
         if length fakename1 = 0 \<or> length realname1 = 0 then None
         else
           (let hash = get_alias_hash_value fakename1; chain = tab ! hash in
            if \<exists>old \<in> set (butlast chain). fakename old = fakename1 then Some tab
            else map_option (\<lambda>rn. tab[hash := chain @ [\<lparr>fakename = fakename1, realname = rn, alias_type = type\<rparr>]])
              (if char_at realname1 0 = CHR ''.'' \<and> char_at realname1 1 = CHR ''/''
               then normalize_path cwd (drop 2 realname1) else Some realname1))
     | _ \<Rightarrow> None)"

definition alias_matches :: "cstring \<Rightarrow> nat \<Rightarrow> alias_entry \<Rightarrow> bool" where
  "alias_matches uri urilen a \<longleftrightarrow>
     fake_len a \<le> urilen \<and> take (fake_len a) uri = fakename a \<and>
     (last (fakename a) = CHR ''/'' \<or>
      (last (fakename a) \<noteq> CHR ''/'' \<and>
       (char_at uri (fake_len a) = NUL \<or> char_at uri (fake_len a) = CHR ''/'')))"

definition find_alias :: "alias_entry list list \<Rightarrow> cstring \<Rightarrow> nat \<Rightarrow> alias_entry option" where
  "find_alias tab uri urilen0 =
    (let urilen = (if urilen0 = 0 then length uri else urilen0)
     in find (alias_matches uri urilen) (tab ! get_alias_hash_value uri))"

definition dump_alias :: "alias_entry list list \<Rightarrow> alias_entry list list" where
  "dump_alias tab = map (\<lambda>_. []) tab"

subsection \<open>Scripts\<close>

text \<open>File modes, as \<open>stat\<close> reports them (\<open>None\<close>: it fails).\<close>

definition S_ISDIR :: "nat \<Rightarrow> bool" where
  "S_ISDIR m \<longleftrightarrow> m AND 61440 = 16384"

text \<open>\<open>S_IFREG | S_IRUSR | S_IXUSR | S_IRGRP | S_IXGRP | S_IROTH | S_IXOTH\<close>\<close>

definition script_access_mask :: nat where
  "script_access_mask = 32768 OR 256 OR 64 OR 32 OR 8 OR 4 OR 1"

text \<open>
  The loop that looks for the script in the path, over the static array \<open>pathname\<close>: it advances
  first and reads then, so on a path that ends at the alias it starts behind the terminating NUL.
  What the array holds there, \<open>stale\<close>, is left from an earlier request.
\<close>

datatype script_end = Script_missing | Script_forbidden | Script_file nat | Script_nul

function script_scan :: "(cstring \<Rightarrow> nat option) \<Rightarrow> char list \<Rightarrow> nat \<Rightarrow> script_end" where
  "script_scan stat path index =
    (let i = index + 1; c = char_at path i in
     if c = NUL then Script_nul
     else if c = CHR ''/'' then
       (case stat (cstr (take i path)) of
          None \<Rightarrow> Script_missing
        | Some st_mode \<Rightarrow>
            if \<not> S_ISDIR st_mode then
              (if st_mode AND script_access_mask = 0 then Script_forbidden else Script_file i)
            else script_scan stat path i)
     else script_scan stat path i)"
  by pat_completeness auto
termination
  by (relation "measure (\<lambda>(st, path, index). length path - index)")
     (auto simp: char_at_def split: if_splits)

declare script_scan.simps [simp del]

text \<open>The environment of a translation, and the home directory of the user named in a path.\<close>

record uri_env =
  http_uri_search :: "cstring \<Rightarrow> http_uri_entry option"
  first_uri :: http_uri_entry
  alias_hashtable :: "alias_entry list list"
  fs_stat :: "cstring \<Rightarrow> nat option"
  pw_dir :: "cstring \<Rightarrow> cstring option"
  stale :: "char list"

type_synonym home_cache = "hash_struct list list"

text \<open>\<open>buffer = user_homedir / user_dir p\<close>\<close>

definition userdir_path :: "cstring \<Rightarrow> cstring \<Rightarrow> cstring \<Rightarrow> cstring" where
  "userdir_path home dir p = home @ ''/'' @ dir @ p"

text \<open>The translation of the extra path of a script: aliases first, then user directories, then
  the document root. \<open>Inl\<close> is an error page and the return value 0.\<close>

definition translate_path_info ::
  "conf \<Rightarrow> uri_env \<Rightarrow> cstring \<Rightarrow> request \<Rightarrow> home_cache \<Rightarrow> request + (request \<times> home_cache)" where
  "translate_path_info cfg env info r homes =
    (let path_len = length info;
         tail = (\<lambda>r homes. case (path_translated r, document_root cfg) of
                   (None, Some root) \<Rightarrow> Inr (r\<lparr>path_translated := Some (root @ info)\<rparr>, homes)
                 | _ \<Rightarrow> Inr (r, homes))
     in case find (\<lambda>a. prefix (fakename a) info) (alias_hashtable env ! get_alias_hash_value info) of
          Some a \<Rightarrow>
            if int (real_len a) + int path_len - int (fake_len a) > int MAX_HEADER_LENGTH
            then Inl (send_r_bad_request cfg r)
            else tail (r\<lparr>path_translated := Some (realname a @ drop (fake_len a) info)\<rparr>) homes
        | None \<Rightarrow>
            (case user_dir cfg of
               Some dir \<Rightarrow>
                 if char_at info 1 = CHR ''~'' then
                   (let rest = drop 1 info; p = (case strchr (CHR ''/'') rest of None \<Rightarrow> [] | Some p \<Rightarrow> p);
                        (home, homes') = get_home_dir (pw_dir env) (drop 1 (before (CHR ''/'') rest)) homes
                    in case home of None \<Rightarrow> Inl (send_r_not_found cfg r)
                       | Some h \<Rightarrow> tail (r\<lparr>path_translated := Some (userdir_path h dir p)\<rparr>) homes')
                 else tail r homes
             | None \<Rightarrow> tail r homes))"

definition init_script_alias ::
  "conf \<Rightarrow> uri_env \<Rightarrow> alias_entry \<Rightarrow> nat \<Rightarrow> request \<Rightarrow> home_cache \<Rightarrow> int \<times> request \<times> home_cache" where
  "init_script_alias cfg env a uri_len r0 homes =
    (if int uri_len - int (fake_len a) + int (real_len a) > int MAX_HEADER_LENGTH
     then (0, send_r_bad_request cfg r0, homes)
     else
       (let rest = drop (fake_len a) (request_uri r0);
            path = realname a @ rest @ NUL # stale env;
            r = r0\<lparr>is_cgi := (if prefix ''nph-'' rest \<or> simple r0 then NPH else CGI)\<rparr>;
            named = r\<lparr>script_name := Some (request_uri r)\<rparr>
        in case script_scan (fs_stat env) path (real_len a) of
             Script_missing \<Rightarrow> (0, send_r_not_found cfg r, homes)
           | Script_forbidden \<Rightarrow> (0, send_r_forbidden cfg r, homes)
           | Script_nul \<Rightarrow>
               (case fs_stat env (cstr path) of
                  None \<Rightarrow> (0, send_r_not_found cfg named, homes)
                | Some st_mode \<Rightarrow>
                    if S_ISDIR st_mode \<or> st_mode AND script_access_mask = 0
                    then (0, send_r_forbidden cfg named, homes)
                    else (1, named\<lparr>pathname := Some (cstr path)\<rparr>, homes))
           | Script_file index \<Rightarrow>
               (let info = cstr (drop index path);
                    r1 = named\<lparr>path_info := Some info,
                           script_name := Some (take (length (request_uri r) - length info) (request_uri r))\<rparr>
                in case translate_path_info cfg env info r1 homes of
                     Inl r2 \<Rightarrow> (0, r2, homes)
                   | Inr (r2, homes') \<Rightarrow> (1, r2\<lparr>pathname := Some (cstr (take index path))\<rparr>, homes'))))"

subsection \<open>Translation of the request URI\<close>

definition CGI_MIME_TYPE :: cstring where
  "CGI_MIME_TYPE = ''application/x-httpd-cgi''"

definition JPEG_FRAME_URI :: cstring where
  "JPEG_FRAME_URI = ''/dms''"

text \<open>The last part of \<open>translate_uri\<close>: the file name is known; is it a script, a file, or a bad \<open>POST\<close>?\<close>

definition classify_file :: "conf \<Rightarrow> cstring \<Rightarrow> request \<Rightarrow> int \<times> request" where
  "classify_file cfg file r0 =
    (let r = r0\<lparr>pathname := Some file\<rparr> in
     if get_mime_type (default_type cfg) (mime_hashtable cfg) file = CGI_MIME_TYPE
     then (1, r\<lparr>script_name := Some (request_uri r), is_cgi := (if simple r then NPH else CGI)\<rparr>)
     else if method r = M_POST then (0, send_r_bad_request cfg r)
     else (1, r))"

definition translate_root :: "conf \<Rightarrow> request \<Rightarrow> home_cache \<Rightarrow> int \<times> request \<times> home_cache" where
  "translate_root cfg r homes =
    (case document_root cfg of
       None \<Rightarrow> (0, send_r_not_found cfg r, homes)
     | Some root \<Rightarrow>
        (let l3 = (if virtualhost cfg then length (local_ip_addr r) else 0) in
         if length root + length (request_uri r) + l3 + 1 > MAX_HEADER_LENGTH
         then (0, send_r_bad_request cfg r, homes)
         else (case classify_file cfg
             (if virtualhost cfg then root @ ''/'' @ local_ip_addr r @ request_uri r
              else root @ request_uri r) r of (n, r') \<Rightarrow> (n, r', homes))))"

definition translate_uri ::
  "conf \<Rightarrow> uri_env \<Rightarrow> request \<Rightarrow> home_cache \<Rightarrow> int \<times> request \<times> home_cache" where
  "translate_uri cfg env r0 homes =
    (let uri = request_uri r0; uri_len = length uri in
     if char_at uri 0 \<noteq> CHR ''/'' then (0, send_r_bad_request cfg r0, homes)
     else if strncaseeq (length JPEG_FRAME_URI) uri JPEG_FRAME_URI
     then (1, r0\<lparr>http_uri := Some (first_uri env)\<rparr>, homes)
     else
       (let r = r0\<lparr>http_uri := http_uri_search env uri\<rparr> in
        if (case http_uri r of None \<Rightarrow> False
            | Some u \<Rightarrow> has_flag u URI_FLAG_VIRTUAL_PAGE \<or> has_flag u URI_FLAG_VOLATILE_FILE)
        then (1, r, homes)
        else case find_alias (alias_hashtable env) uri uri_len of
          Some a \<Rightarrow>
            if alias_type a = SCRIPTALIAS then init_script_alias cfg env a uri_len r homes
            else if int (real_len a) + (int uri_len - int (fake_len a)) > int MAX_HEADER_LENGTH
            then (0, send_r_bad_request cfg r, homes)
            else
              (let buf = realname a @ drop (fake_len a) uri in
               if alias_type a = REDIRECT then
                 (if method r = M_POST then (0, send_r_bad_request cfg r, homes)
                  else (0, send_r_moved_temp buf [] cfg r, homes))
               else (1, r\<lparr>pathname := Some buf\<rparr>, homes))
        | None \<Rightarrow>
            (case user_dir cfg of
               Some dir \<Rightarrow>
                 if char_at uri 1 = CHR ''~'' then
                   (let name_p = drop 2 uri; p = (case strchr (CHR ''/'') name_p of None \<Rightarrow> [] | Some p \<Rightarrow> p);
                        (home, homes') = get_home_dir (pw_dir env) (before (CHR ''/'') name_p) homes
                    in case home of None \<Rightarrow> (0, send_r_not_found cfg r, homes')
                       | Some h \<Rightarrow>
                           if length h + length dir + length p + 1 > MAX_HEADER_LENGTH
                           then (0, send_r_bad_request cfg r, homes')
                           else (case classify_file cfg (userdir_path h dir p) r of (n, r') \<Rightarrow> (n, r', homes')))
                 else translate_root cfg r homes
             | None \<Rightarrow> translate_root cfg r homes)))"

subsection \<open>The buckets of the alias table\<close>

definition alias_tab_ok :: "alias_entry list list \<Rightarrow> bool" where
  "alias_tab_ok tab \<longleftrightarrow> length tab = ALIAS_HASHTABLE_SIZE \<and>
     (\<forall>i < length tab. \<forall>a \<in> set (tab ! i). get_alias_hash_value (fakename a) = i \<and> fakename a \<noteq> [])"

lemma get_alias_hash_value_less [simp]: "get_alias_hash_value s < ALIAS_HASHTABLE_SIZE"
  by (simp add: get_alias_hash_value_def)

lemma alias_tab_empty: "alias_tab_ok (replicate ALIAS_HASHTABLE_SIZE [])"
  by (simp add: alias_tab_ok_def)

lemma add_alias_ok:
  assumes "alias_tab_ok tab" "add_alias cwd fake real type tab = Some tab'"
  shows "alias_tab_ok tab'"
proof -
  obtain f rn where fr: "fake = Some f" "f \<noteq> []" and t: "tab' = tab \<or>
      tab' = tab[get_alias_hash_value f := tab ! get_alias_hash_value f @
        [\<lparr>fakename = f, realname = rn, alias_type = type\<rparr>]]"
    using assms(2)
    by (auto simp: add_alias_def Let_def split: option.splits if_splits)
  show ?thesis using t
  proof
    assume t': "tab' = tab[get_alias_hash_value f := tab ! get_alias_hash_value f @
        [\<lparr>fakename = f, realname = rn, alias_type = type\<rparr>]]"
    show ?thesis unfolding t' using assms(1) fr(2)
      by (auto simp: alias_tab_ok_def nth_list_update)
  qed (use assms(1) in simp)
qed

text \<open>A matching alias other than \<open>/\<close> is in the bucket of the URI.\<close>

lemma matching_bucket:
  assumes "alias_matches uri n a" "fakename a \<noteq> []" "fakename a \<noteq> ''/''" "nul_free uri" "char_at uri 0 = CHR ''/''"
  shows "get_alias_hash_value (fakename a) = get_alias_hash_value uri"
proof -
  obtain f fs where f: "fakename a = f # fs" using assms(2) by (cases "fakename a") auto
  define rest where "rest = drop (fake_len a) uri"
  have m: "take (fake_len a) uri = fakename a" using assms(1) by (simp add: alias_matches_def)
  then have uri: "uri = f # fs @ rest" unfolding rest_def f by (metis append_Cons append_take_drop_id)
  have f0: "f = CHR ''/''" using assms(5) uri by (simp add: char_at_def)
  have "takeWhile (\<lambda>c. c \<noteq> CHR ''/'') (fs @ rest) = takeWhile (\<lambda>c. c \<noteq> CHR ''/'') fs"
  proof (cases "CHR ''/'' \<in> set fs")
    case True
    then show ?thesis by (induction fs) auto
  next
    case False
    have "fs \<noteq> []" using assms(3) f f0 by auto
    then have "last (fakename a) \<noteq> CHR ''/''" using False f by (metis last_ConsR last_in_set)
    then have "char_at uri (fake_len a) = NUL \<or> char_at uri (fake_len a) = CHR ''/''"
      using assms(1) by (simp add: alias_matches_def)
    then have "rest = [] \<or> hd rest = CHR ''/''"
      using assms(4) uri f by (cases rest) (auto simp: char_at_def nth_append)
    then have "takeWhile (\<lambda>c. c \<noteq> CHR ''/'') rest = []" by (cases rest) auto
    moreover have "takeWhile (\<lambda>c. c \<noteq> CHR ''/'') (fs @ rest) = fs @ takeWhile (\<lambda>c. c \<noteq> CHR ''/'') rest"
      by (rule takeWhile_append2) (use False in auto)
    moreover have "takeWhile (\<lambda>c. c \<noteq> CHR ''/'') fs = fs" using False by (subst takeWhile_eq_all_conv) auto
    ultimately show ?thesis by (metis append_Nil2)
  qed
  then show ?thesis unfolding get_alias_hash_value_def f uri by (simp add: char_at_def)
qed

lemma find_alias_sound:
  assumes "find_alias tab uri (length uri) = Some a" "length tab = ALIAS_HASHTABLE_SIZE"
  shows "alias_matches uri (length uri) a" "a \<in> set (concat tab)"
proof -
  have "a \<in> set (tab ! get_alias_hash_value uri)" "alias_matches uri (length uri) a"
    using assms(1) by (auto simp: find_alias_def Let_def find_Some_iff split: if_splits)
  moreover have "tab ! get_alias_hash_value uri \<in> set tab" using assms(2) by simp
  ultimately show "alias_matches uri (length uri) a" "a \<in> set (concat tab)" by auto
qed

lemma find_alias_complete:
  assumes "alias_tab_ok tab" "a \<in> set (concat tab)" "alias_matches uri (length uri) a" "fakename a \<noteq> ''/''"
    and "nul_free uri" "char_at uri 0 = CHR ''/''"
  shows "find_alias tab uri (length uri) \<noteq> None"
proof -
  obtain c where c: "c \<in> set tab" "a \<in> set c" using assms(2) by auto
  then obtain i where i: "i < length tab" "a \<in> set (tab ! i)" by (metis in_set_conv_nth)
  then have "get_alias_hash_value (fakename a) = i" "fakename a \<noteq> []"
    using assms(1) by (auto simp: alias_tab_ok_def)
  with i matching_bucket[OF assms(3) _ assms(4-6)] have "a \<in> set (tab ! get_alias_hash_value uri)" by auto
  then show ?thesis using assms(3) by (auto simp: find_alias_def Let_def find_None_iff)
qed

subsection \<open>Where a translated file name lies\<close>

text \<open>The directories the configuration exports: targets of aliases, user directories, the
  document root and, with virtual hosts, its subdirectory for the address of the server.\<close>

definition exported_root :: "conf \<Rightarrow> uri_env \<Rightarrow> request \<Rightarrow> cstring \<Rightarrow> bool" where
  "exported_root cfg env r base \<longleftrightarrow>
     (\<exists>a \<in> set (concat (alias_hashtable env)). base = realname a) \<or>
     (\<exists>u h dir. pw_dir env u = Some h \<and> user_dir cfg = Some dir \<and> base = h @ ''/'' @ dir) \<or>
     (\<exists>root. document_root cfg = Some root \<and> (base = root \<or> base = root @ ''/'' @ local_ip_addr r))"

definition contained :: "conf \<Rightarrow> uri_env \<Rightarrow> request \<Rightarrow> cstring \<Rightarrow> bool" where
  "contained cfg env r p \<longleftrightarrow> length p \<le> MAX_HEADER_LENGTH \<and>
     (\<exists>base rest. p = base @ rest \<and> exported_root cfg env r base \<and> sublist rest (request_uri r))"

lemma sublist_strchr: "strchr c s = Some p \<Longrightarrow> sublist p s"
  using strchr_Some[of c s p] by (metis suffixI suffix_imp_sublist)

lemma sublist_drop: "sublist (drop n s) s"
  by (simp add: suffix_drop suffix_imp_sublist)

lemma prefix_cstr: "prefix (cstr (take i s)) (cstr s)"
proof (induction s arbitrary: i)
  case (Cons c s)
  then show ?case by (cases i) auto
qed simp

lemma script_pathname:
  assumes "nul_free rn" "nul_free xs"
  shows "\<exists>ys. cstr (take (length rn + i) (rn @ xs @ NUL # st)) = rn @ ys \<and> prefix ys xs"
proof -
  have "cstr (take (length rn + i) (rn @ xs @ NUL # st)) = rn @ cstr (take i (xs @ NUL # st))"
    using assms(1) by (simp add: cstr_def takeWhile_append nul_free_def)
  moreover have "prefix (cstr (take i (xs @ NUL # st))) xs"
    using prefix_cstr[of i "xs @ NUL # st"] assms(2) by (simp add: cstr_append_NUL)
  ultimately show ?thesis by blast
qed

lemma script_scan_index: "script_scan stat path index = Script_file i \<Longrightarrow> index < i"
proof (induction stat path index rule: script_scan.induct)
  case (1 stat path index)
  let ?c = "char_at path (index + 1)"
  consider "?c = NUL" | "?c = CHR ''/''" | "?c \<noteq> NUL" "?c \<noteq> CHR ''/''" by blast
  then show ?case
  proof cases
    case 2
    then have "i = index + 1 \<or> (\<exists>m. stat (cstr (take (index + 1) path)) = Some m \<and> S_ISDIR m \<and>
        script_scan stat path (index + 1) = Script_file i)"
      using 1(3) by (subst (asm) script_scan.simps) (auto simp: Let_def split: if_splits option.splits)
    then show ?thesis using 1(1)[of "index + 1" ?c] 2 by auto
  next
    case 3
    then have "script_scan stat path (index + 1) = Script_file i"
      using 1(3) by (subst (asm) script_scan.simps) (simp add: Let_def)
    then show ?thesis using 1(2)[of "index + 1" ?c] 3 by simp
  qed (use 1(3) in \<open>subst (asm) script_scan.simps, simp add: Let_def\<close>)
qed

lemma classify_file_1: "classify_file cfg file r = (1, r') \<Longrightarrow> pathname r' = Some file"
  by (auto simp: classify_file_def Let_def split: if_splits)

lemma containedI:
  "exported_root cfg env r base \<Longrightarrow> sublist rest (request_uri r) \<Longrightarrow>
   length base + length rest \<le> MAX_HEADER_LENGTH \<Longrightarrow> contained cfg env r (base @ rest)"
  unfolding contained_def by auto

lemma translate_root_contained:
  assumes "translate_root cfg r homes = (1, r', homes')"
  shows "\<exists>p. pathname r' = Some p \<and> contained cfg env r p"
proof -
  obtain root where root: "document_root cfg = Some root"
    using assms by (cases "document_root cfg") (auto simp: translate_root_def)
  let ?base = "if virtualhost cfg then root @ ''/'' @ local_ip_addr r else root"
  have c: "classify_file cfg (?base @ request_uri r) r = (1, r')"
    and l: "length ?base + length (request_uri r) \<le> MAX_HEADER_LENGTH"
    using assms root by (auto simp: translate_root_def Let_def split: if_splits prod.splits)
  have "exported_root cfg env r ?base" using root by (auto simp: exported_root_def)
  with l have "contained cfg env r (?base @ request_uri r)" by (intro containedI) auto
  with classify_file_1[OF c] show ?thesis by blast
qed

definition uri_env_ok :: "uri_env \<Rightarrow> bool" where
  "uri_env_ok env \<longleftrightarrow> alias_tab_ok (alias_hashtable env) \<and>
     (\<forall>a \<in> set (concat (alias_hashtable env)). nul_free (realname a))"

lemma init_script_alias_contained:
  assumes "init_script_alias cfg env a (length (request_uri r)) r homes = (1, r', homes')"
    and "uri_env_ok env" "a \<in> set (concat (alias_hashtable env))" "nul_free (request_uri r)"
    and "fake_len a \<le> length (request_uri r)"
  shows "\<exists>p. pathname r' = Some p \<and> contained cfg env r p"
proof -
  let ?rest = "drop (fake_len a) (request_uri r)"
  let ?path = "realname a @ ?rest @ NUL # stale env"
  have rn: "nul_free (realname a)" using assms(2,3) by (auto simp: uri_env_ok_def)
  have xs: "nul_free ?rest" using assms(4) by simp
  have len: "real_len a + length ?rest \<le> MAX_HEADER_LENGTH"
    using assms(1,5) by (auto simp: init_script_alias_def split: if_splits)
  have "\<exists>i. pathname r' = Some (cstr (take (real_len a + i) ?path))"
  proof (cases "script_scan (fs_stat env) ?path (real_len a)")
    case (Script_file i)
    then have "real_len a < i" by (rule script_scan_index)
    then have i: "i = real_len a + (i - real_len a)" by simp
    have "pathname r' = Some (cstr (take i ?path))"
      using assms(1) Script_file
      by (auto simp: init_script_alias_def Let_def split: if_splits sum.splits prod.splits)
    then show ?thesis using i by metis
  next
    case Script_nul
    then have "pathname r' = Some (cstr ?path)"
      using assms(1) by (auto simp: init_script_alias_def Let_def split: if_splits option.splits)
    moreover have "take (real_len a + length ?path) ?path = ?path" by simp
    ultimately show ?thesis by metis
  qed (use assms(1) in \<open>auto simp: init_script_alias_def Let_def split: if_splits\<close>)
  then obtain i where "pathname r' = Some (cstr (take (real_len a + i) ?path))" ..
  moreover obtain ys where ys: "cstr (take (real_len a + i) ?path) = realname a @ ys" "prefix ys ?rest"
    using script_pathname[OF rn xs] by blast
  moreover have "sublist ys (request_uri r)"
    using ys(2) sublist_drop[of "fake_len a" "request_uri r"] sublist_order.order_trans prefix_imp_sublist by blast
  moreover have "length ys \<le> length ?rest" using ys(2) by (rule prefix_length_le)
  moreover have "exported_root cfg env r (realname a)" using assms(3) by (auto simp: exported_root_def)
  ultimately show ?thesis using len containedI[of cfg env r "realname a" ys] by auto
qed

text \<open>All successful translations.\<close>

lemma contained_http_uri [simp]: "contained cfg env (r\<lparr>http_uri := u\<rparr>) p = contained cfg env r p"
  by (simp add: contained_def exported_root_def)

lemma translate_uri_contained:
  assumes t: "translate_uri cfg env r homes = (1, r', homes')"
    and ok: "uri_env_ok env" "cache_ok (pw_dir env) homes" "nul_free (request_uri r)"
  shows "http_uri r' \<noteq> None \<and> pathname r' = pathname r \<or> (\<exists>p. pathname r' = Some p \<and> contained cfg env r p)"
proof -
  let ?r = "r\<lparr>http_uri := http_uri_search env (request_uri r)\<rparr>"
  let ?uri = "request_uri r"
  let ?virtual = "case http_uri ?r of None \<Rightarrow> False
            | Some u \<Rightarrow> has_flag u URI_FLAG_VIRTUAL_PAGE \<or> has_flag u URI_FLAG_VOLATILE_FILE"
  note tu = t[unfolded translate_uri_def Let_def]
  show ?thesis
  proof (cases "strncaseeq (length JPEG_FRAME_URI) ?uri JPEG_FRAME_URI \<or> ?virtual")
    case True
    then show ?thesis using tu by (auto split: if_splits option.splits)
  next
    case nv: False
    have len: "length (alias_hashtable env) = ALIAS_HASHTABLE_SIZE" using ok(1) by (simp add: uri_env_ok_def alias_tab_ok_def)
    show ?thesis
    proof (cases "find_alias (alias_hashtable env) ?uri (length ?uri)")
      case (Some a)
      note fa = find_alias_sound[OF Some len]
      have fl: "fake_len a \<le> length ?uri" using fa(1) by (simp add: alias_matches_def)
      have root: "exported_root cfg env r (realname a)" using fa(2) by (auto simp: exported_root_def)
      show ?thesis
      proof (cases "alias_type a = SCRIPTALIAS")
        case True
        then have "init_script_alias cfg env a (length ?uri) ?r homes = (1, r', homes')"
          using tu nv Some by (simp split: if_splits)
        then show ?thesis using init_script_alias_contained[of cfg env a ?r] ok fa fl by simp
      next
        case False
        then have "pathname r' = Some (realname a @ drop (fake_len a) ?uri)"
            "real_len a + (length ?uri - fake_len a) \<le> MAX_HEADER_LENGTH"
          using tu nv Some fl by (auto split: if_splits)
        then show ?thesis using containedI[OF root sublist_drop] by auto
      qed
    next
      case None
      show ?thesis
      proof (cases "\<exists>dir. user_dir cfg = Some dir \<and> char_at ?uri 1 = CHR ''~''")
        case True
        then obtain dir where dir: "user_dir cfg = Some dir" "char_at ?uri 1 = CHR ''~''" by blast
        define p where "p = (case strchr (CHR ''/'') (drop 2 ?uri) of None \<Rightarrow> [] | Some p \<Rightarrow> p)"
        define u where "u = before (CHR ''/'') (drop 2 ?uri)"
        obtain hd hs where gh: "get_home_dir (pw_dir env) u homes = (hd, hs)" by fastforce
        then have hd: "hd = pw_dir env u" using get_home_dir_ok(1)[OF ok(2), of u] by simp
        have c: "\<exists>h. hd = Some h \<and> length h + length dir + length p + 1 \<le> MAX_HEADER_LENGTH \<and>
            classify_file cfg (userdir_path h dir p) ?r = (1, r')"
          using tu nv None dir gh
          by (auto simp: p_def[symmetric] u_def[symmetric] simp del: p_def u_def split: if_splits option.splits prod.splits)
        then obtain h where h: "hd = Some h" "length h + length dir + length p + 1 \<le> MAX_HEADER_LENGTH"
            "pathname r' = Some (userdir_path h dir p)" using classify_file_1 by blast
        have "sublist p (drop 2 ?uri)" by (auto simp: p_def split: option.split intro: sublist_strchr)
        then have "sublist p ?uri" using sublist_drop sublist_order.order_trans by blast
        moreover have "exported_root cfg env r (h @ ''/'' @ dir)"
          using h(1) hd dir by (auto simp: exported_root_def)
        ultimately show ?thesis using h containedI[of cfg env r "h @ ''/'' @ dir" p]
          by (auto simp: userdir_path_def)
      next
        case False
        then have "translate_root cfg ?r homes = (1, r', homes')"
          using tu nv None by (auto split: if_splits option.splits)
        then show ?thesis using translate_root_contained[of cfg ?r homes r' homes' env] by auto
      qed
    qed
  qed
qed

lemma safe_path_sublist: "safe_path s \<Longrightarrow> sublist t s \<Longrightarrow> safe_path t"
  unfolding safe_path_def using sublist_order.order_trans by blast

subsection \<open>Properties\<close>


definition sample_env :: uri_env where
  "sample_env = \<lparr>http_uri_search = (\<lambda>_. None),
     first_uri = \<lparr>uri_name = JPEG_FRAME_URI, uri_handler = None, uri_authority = 0, uri_flag = 0\<rparr>,
     alias_hashtable = replicate ALIAS_HASHTABLE_SIZE [], fs_stat = (\<lambda>_. None), pw_dir = (\<lambda>_. None), stale = []\<rparr>"

definition sample_get :: "cstring \<Rightarrow> request" where
  "sample_get uri = (zero_request (replicate (BUFFER_SIZE + 1) NUL) uri)\<lparr>method := M_GET\<rparr>"

lemma sample_env_ok: "uri_env_ok sample_env" "cache_ok (pw_dir sample_env) (replicate 47 [])"
  by (simp_all add: uri_env_ok_def sample_env_def alias_tab_empty cache_ok_def)


text \<open>
  The lookup in one bucket of the alias table misses nothing but the alias \<open>/\<close>. In a table built
  by \<open>add_alias\<close>, if any alias other than \<open>/\<close> matches the URI (as a prefix that ends in a slash or
  at a segment boundary), \<open>find_alias\<close> returns an alias that matches; what it returns always
  matches and is in the table.
\<close>

theorem find_alias_correct:
  assumes "alias_tab_ok tab" "nul_free uri" "char_at uri 0 = CHR ''/''"
  shows "(\<forall>a. find_alias tab uri (length uri) = Some a \<longrightarrow> a \<in> set (concat tab) \<and> alias_matches uri (length uri) a) \<and>
     ((\<exists>a \<in> set (concat tab). alias_matches uri (length uri) a \<and> fakename a \<noteq> ''/'') \<longrightarrow>
        find_alias tab uri (length uri) \<noteq> None)"
  using find_alias_complete[OF assms(1) _ _ _ assms(2,3)] find_alias_sound[of tab uri] assms(1)
  by (auto simp: alias_tab_ok_def)

definition cgi_bin :: alias_entry where
  "cgi_bin = \<lparr>fakename = ''/cgi-bin/'', realname = ''/opt/cgi-bin/'', alias_type = SCRIPTALIAS\<rparr>"

definition sample_aliases :: "alias_entry list list" where
  "sample_aliases = (replicate ALIAS_HASHTABLE_SIZE [])[get_alias_hash_value ''/cgi-bin/'' := [cgi_bin]]"

theorem find_alias_correct_witness:
  "alias_tab_ok sample_aliases \<and> find_alias sample_aliases ''/cgi-bin/x.cgi'' (length ''/cgi-bin/x.cgi'') \<noteq> None"
proof -
  have "alias_tab_ok sample_aliases"
    by (auto simp: alias_tab_ok_def sample_aliases_def nth_list_update cgi_bin_def)
  moreover have "cgi_bin \<in> set (concat sample_aliases)"
    by (auto simp: sample_aliases_def intro!: bexI[of _ "[cgi_bin]"] set_update_memI)
  moreover have "alias_matches ''/cgi-bin/x.cgi'' (length ''/cgi-bin/x.cgi'') cgi_bin" by code_simp
  moreover have "fakename cgi_bin \<noteq> ''/''" by (simp add: cgi_bin_def)
  moreover have "nul_free ''/cgi-bin/x.cgi''" "char_at ''/cgi-bin/x.cgi'' 0 = CHR ''/''" by code_simp+
  ultimately show ?thesis using find_alias_correct[of sample_aliases "''/cgi-bin/x.cgi''"] by blast
qed

text \<open>
  The permission test of \<open>init_script_alias\<close> never refuses a regular file. It asks whether the
  mode has any of the bits "regular file, readable or executable", and the file type alone is one:
  a regular file without a single permission bit passes.
\<close>

theorem script_access_vacuous:
  "bit st_mode 15 \<Longrightarrow> st_mode AND script_access_mask \<noteq> 0"
proof -
  assume "bit st_mode 15"
  then have "bit (st_mode AND script_access_mask) 15" by (simp add: script_access_mask_def bit_simps)
  then show ?thesis by (metis bit_0_eq bot_fun_def bot_bool_def)
qed

theorem script_access_vacuous_witness: "(32768 :: nat) AND script_access_mask \<noteq> 0"
  by (rule script_access_vacuous) (simp add: bit_simps)

text \<open>
  a request for exactly the name of a script alias reads behind the end of its path. The scan
  advances before it reads, so it looks at what an earlier request left in the static array: with
  the same alias, URI and file system it finds the end of the path in one case, and takes a
  leftover slash for the start of the extra path in the other.
\<close>

theorem script_scan_reads_stale:
  "\<exists>stat. script_scan stat (''/cgi/'' @ [] @ NUL # [NUL]) 5 = Script_nul \<and>
     script_scan stat (''/cgi/'' @ [] @ NUL # ''/old'' @ [NUL]) 5 = Script_file 6"
proof -
  let ?stat = "\<lambda>_. Some 33188"
  have "script_scan ?stat (''/cgi/'' @ [] @ NUL # [NUL]) 5 = Script_nul" by code_simp
  moreover have "script_scan ?stat (''/cgi/'' @ [] @ NUL # ''/old'' @ [NUL]) 5 = Script_file 6"
    by (subst script_scan.simps)
       (simp add: char_at_def S_ISDIR_def script_access_mask_def)
  ultimately show ?thesis by blast
qed

text \<open>
  \<open>add_alias\<close> does not keep its promise not to add an alias twice. The loop leaves before it
  compares the last entry of the chain, so the same directive given twice in a row is stored twice.
\<close>

theorem add_alias_twice:
  "\<exists>t1 t2 a. add_alias None (Some ''/a'') (Some ''/b'') ALIAS (replicate ALIAS_HASHTABLE_SIZE []) = Some t1 \<and>
     add_alias None (Some ''/a'') (Some ''/b'') ALIAS t1 = Some t2 \<and>
     t2 ! get_alias_hash_value ''/a'' = [a, a]"
  by (simp add: add_alias_def Let_def char_at_def)

end
