(* ===== verification/Boa_Queue.thy ===== *)
theory Boa_Queue
  imports Request
begin

text \<open>
  \<^verbatim>\<open>queue.c\<close>: the ready, blocked and free lists, doubly linked through the \<open>next\<close> and \<open>prev\<close> fields of
  the requests. A request is named by the number of its structure; \<open>links\<close> holds the two pointer
  fields of every structure, and the heads are the three globals. The abstract value of a queue
  is the list of the requests on it.
\<close>

subsection \<open>The linked lists\<close>

record links =
  nxt :: "nat \<Rightarrow> nat option"
  prv :: "nat \<Rightarrow> nat option"

definition set_next :: "nat \<Rightarrow> nat option \<Rightarrow> links \<Rightarrow> links" where
  "set_next q v h = h\<lparr>nxt := (nxt h)(q := v)\<rparr>"

definition set_prev :: "nat \<Rightarrow> nat option \<Rightarrow> links \<Rightarrow> links" where
  "set_prev q v h = h\<lparr>prv := (prv h)(q := v)\<rparr>"

definition dequeue :: "nat option \<Rightarrow> nat \<Rightarrow> links \<Rightarrow> nat option \<times> links" where
  "dequeue head q h =
    (let head1 = (if head = Some q then nxt h q else head);
         h1 = (case prv h q of Some p \<Rightarrow> set_next p (nxt h q) h | None \<Rightarrow> h);
         h2 = (case nxt h1 q of Some n \<Rightarrow> set_prev n (prv h1 q) h1 | None \<Rightarrow> h1)
     in (head1, set_prev q None (set_next q None h2)))"

definition enqueue :: "nat option \<Rightarrow> nat \<Rightarrow> links \<Rightarrow> nat option \<times> links" where
  "enqueue head q h =
    (let h1 = (case head of Some p \<Rightarrow> set_prev p (Some q) h | None \<Rightarrow> h)
     in (Some q, set_prev q None (set_next q head h1)))"

subsection \<open>Moving a request between the lists\<close>

record queues =
  lnk :: links
  request_ready :: "nat option"
  request_block :: "nat option"
  request_free :: "nat option"
  block_read_fdset :: "nat set"
  block_write_fdset :: "nat set"
  max_fd :: nat

definition set_read_fd :: "nat \<Rightarrow> queues \<Rightarrow> queues" where
  "set_read_fd f s = s\<lparr>block_read_fdset := insert f (block_read_fdset s), max_fd := max f (max_fd s)\<rparr>"

definition set_write_fd :: "nat \<Rightarrow> queues \<Rightarrow> queues" where
  "set_write_fd f s = s\<lparr>block_write_fdset := insert f (block_write_fdset s), max_fd := max f (max_fd s)\<rparr>"

definition clr_read_fd :: "nat \<Rightarrow> queues \<Rightarrow> queues" where
  "clr_read_fd f s = s\<lparr>block_read_fdset := block_read_fdset s - {f}\<rparr>"

definition clr_write_fd :: "nat \<Rightarrow> queues \<Rightarrow> queues" where
  "clr_write_fd f s = s\<lparr>block_write_fdset := block_write_fdset s - {f}\<rparr>"

definition block_request :: "nat \<Rightarrow> request \<Rightarrow> queues \<Rightarrow> queues" where
  "block_request q r s =
    (let (rd, h1) = dequeue (request_ready s) q (lnk s);
         (bl, h2) = enqueue (request_block s) q h1;
         s1 = s\<lparr>request_ready := rd, request_block := bl, lnk := h2\<rparr>
     in if buffer_end r \<noteq> 0 then set_write_fd (fd r) s1
        else (case status r of
            WRITE \<Rightarrow> set_write_fd (fd r) s1
          | PIPE_WRITE \<Rightarrow> set_write_fd (fd r) s1
          | DONE \<Rightarrow> set_write_fd (fd r) s1
          | PIPE_READ \<Rightarrow> set_read_fd (data_fd r) s1
          | BODY_WRITE \<Rightarrow> set_write_fd (post_data_fd r) s1
          | _ \<Rightarrow> set_read_fd (fd r) s1))"

definition ready_request :: "nat \<Rightarrow> request \<Rightarrow> queues \<Rightarrow> queues" where
  "ready_request q r s =
    (let (bl, h1) = dequeue (request_block s) q (lnk s);
         (rd, h2) = enqueue (request_ready s) q h1;
         s1 = s\<lparr>request_ready := rd, request_block := bl, lnk := h2\<rparr>
     in if buffer_end r \<noteq> 0 then clr_write_fd (fd r) s1
        else (case status r of
            WRITE \<Rightarrow> clr_write_fd (fd r) s1
          | PIPE_WRITE \<Rightarrow> clr_write_fd (fd r) s1
          | DONE \<Rightarrow> clr_write_fd (fd r) s1
          | PIPE_READ \<Rightarrow> clr_read_fd (data_fd r) s1
          | BODY_WRITE \<Rightarrow> clr_write_fd (post_data_fd r) s1
          | _ \<Rightarrow> clr_read_fd (fd r) s1))"

subsection \<open>Linked lists represent lists\<close>

fun first :: "nat list \<Rightarrow> nat option \<Rightarrow> nat option" where
  "first [] n = n"
| "first (x # xs) n = Some x"

fun final :: "nat option \<Rightarrow> nat list \<Rightarrow> nat option" where
  "final p [] = p"
| "final p (x # xs) = final (Some x) xs"

text \<open>The segment \<open>xs\<close>, entered from \<open>p\<close> and left towards \<open>n\<close>.\<close>

fun dseg :: "links \<Rightarrow> nat option \<Rightarrow> nat list \<Rightarrow> nat option \<Rightarrow> bool" where
  "dseg h p [] n \<longleftrightarrow> True"
| "dseg h p (x # xs) n \<longleftrightarrow> prv h x = p \<and> nxt h x = first xs n \<and> dseg h (Some x) xs n"

definition is_queue :: "links \<Rightarrow> nat option \<Rightarrow> nat list \<Rightarrow> bool" where
  "is_queue h head xs \<longleftrightarrow> distinct xs \<and> head = first xs None \<and> dseg h None xs None"

lemma first_append [simp]: "first (xs @ ys) n = first xs (first ys n)"
  by (cases xs) auto

lemma dseg_append: "dseg h p (xs @ ys) n \<longleftrightarrow> dseg h p xs (first ys n) \<and> dseg h (final p xs) ys n"
  by (induction xs arbitrary: p) auto

lemma final_in: "final p xs = p \<and> xs = [] \<or> (\<exists>x \<in> set xs. final p xs = Some x)"
proof (induction xs arbitrary: p)
  case (Cons x xs)
  show ?case using Cons[of "Some x"] by auto
qed simp

lemma dseg_cong:
  "(\<And>x. x \<in> set xs \<Longrightarrow> nxt h x = nxt h' x \<and> prv h x = prv h' x) \<Longrightarrow> dseg h p xs n = dseg h' p xs n"
  by (induction xs arbitrary: p) auto

lemma links_simps [simp]:
  "nxt (set_next q v h) = (nxt h)(q := v)" "prv (set_next q v h) = prv h"
  "prv (set_prev q v h) = (prv h)(q := v)" "nxt (set_prev q v h) = nxt h"
  by (simp_all add: set_next_def set_prev_def)

text \<open>Redirecting the two ends of a segment.\<close>

lemma dseg_end:
  assumes "distinct xs" "dseg h p xs m" "\<And>l. final None xs = Some l \<Longrightarrow> nxt h' l = n"
    and "\<And>x. x \<in> set xs \<Longrightarrow> prv h' x = prv h x"
    and "\<And>x. x \<in> set xs \<Longrightarrow> final None xs \<noteq> Some x \<Longrightarrow> nxt h' x = nxt h x"
  shows "dseg h' p xs n"
  using assms
proof (induction xs arbitrary: p)
  case (Cons x xs)
  show ?case
  proof (cases xs)
    case Nil
    with Cons.prems show ?thesis by simp
  next
    case ys: (Cons y ys)
    have f: "final None (x # xs) = final None xs" by (simp add: ys)
    have "final None xs \<noteq> Some x" using final_in[of None xs] Cons.prems(1) ys by auto
    then have "nxt h' x = nxt h x" using Cons.prems(5)[of x] f by simp
    moreover have "dseg h' (Some x) xs n"
      using Cons.prems f by (intro Cons.IH) auto
    ultimately show ?thesis using Cons.prems ys by simp
  qed
qed simp

lemma dseg_start:
  assumes "distinct xs" "dseg h p xs n" "\<And>x. first xs None = Some x \<Longrightarrow> prv h' x = q"
    and "\<And>x. x \<in> set xs \<Longrightarrow> nxt h' x = nxt h x"
    and "\<And>x. x \<in> set xs \<Longrightarrow> first xs None \<noteq> Some x \<Longrightarrow> prv h' x = prv h x"
  shows "dseg h' q xs n"
proof (cases xs)
  case (Cons x ys)
  have "nxt h y = nxt h' y \<and> prv h y = prv h' y" if "y \<in> set ys" for y
  proof -
    have "x \<noteq> y" using that assms(1) Cons by auto
    then show ?thesis using assms(4,5)[of y] that Cons by simp
  qed
  then have "dseg h (Some x) ys n = dseg h' (Some x) ys n" by (rule dseg_cong)
  then show ?thesis using assms Cons by simp
qed simp

subsection \<open>Refinement of the two primitives\<close>

lemma enqueue_refines:
  assumes "is_queue h head xs" "q \<notin> set xs" "enqueue head q h = (head', h')"
  shows "is_queue h' head' (q # xs)"
proof -
  have h': "head' = Some q" "prv h' q = None" "nxt h' q = first xs None"
      "\<And>x. x \<noteq> q \<Longrightarrow> nxt h' x = nxt h x"
      "\<And>x. x \<noteq> q \<Longrightarrow> prv h' x = (if first xs None = Some x then Some q else prv h x)"
    using assms by (auto simp: enqueue_def Let_def is_queue_def split: option.splits)
  have "dseg h' (Some q) xs None"
  proof (rule dseg_start)
    show "dseg h None xs None" "distinct xs" using assms(1) by (auto simp: is_queue_def)
    show "\<And>x. first xs None = Some x \<Longrightarrow> prv h' x = Some q"
      using h'(5) assms(2) by (cases xs) auto
    show "nxt h' x = nxt h x" if "x \<in> set xs" for x using that h'(4)[of x] assms(2) by metis
    show "prv h' x = prv h x" if "x \<in> set xs" "first xs None \<noteq> Some x" for x
      using that h'(5)[of x] assms(2) by metis
  qed
  then show ?thesis using h' assms by (simp add: is_queue_def)
qed

text \<open>An enqueue changes the links of the request and of the old head only, a dequeue those of the
  request and of its neighbours on the list.\<close>

lemma enqueue_frame:
  assumes "enqueue head q h = (head', h')" "x \<noteq> q" "head \<noteq> Some x"
  shows "nxt h' x = nxt h x \<and> prv h' x = prv h x"
  using assms by (auto simp: enqueue_def Let_def split: option.splits)

lemma dequeue_links:
  assumes "is_queue h head (as @ q # bs)" "dequeue head q h = (head', h')"
  shows "head' = first (as @ bs) None" "nxt h' q = None" "prv h' q = None"
    "x \<noteq> q \<Longrightarrow> nxt h' x = (if final None as = Some x then first bs None else nxt h x)"
    "x \<noteq> q \<Longrightarrow> prv h' x = (if first bs None = Some x then final None as else prv h x)"
proof -
  have d: "distinct (as @ q # bs)" and hd: "head = first (as @ q # bs) None"
    and q: "prv h q = final None as" "nxt h q = first bs None"
    using assms(1) by (auto simp: is_queue_def dseg_append)
  have fa: "final None as \<noteq> Some q" using final_in[of None as] d by auto
  have fb: "first bs None \<noteq> Some q" using d by (cases bs) auto
  have ab: "final None as = Some x \<Longrightarrow> first bs None = Some y \<Longrightarrow> x \<noteq> y" for x y
    using final_in[of None as] d by (cases bs) auto
  show "head' = first (as @ bs) None"
    using assms(2) d hd q by (cases as) (auto simp: dequeue_def Let_def)
  show "nxt h' q = None" "prv h' q = None"
    using assms(2) by (auto simp: dequeue_def Let_def)
  show "nxt h' x = (if final None as = Some x then first bs None else nxt h x)" if "x \<noteq> q"
    using assms(2) that q fa
    by (cases "final None as"; cases "first bs None") (auto simp: dequeue_def Let_def)
  show "prv h' x = (if first bs None = Some x then final None as else prv h x)" if "x \<noteq> q"
    using assms(2) that q fa fb
    by (cases "final None as"; cases "first bs None") (auto simp: dequeue_def Let_def)
qed

lemma dequeue_refines:
  assumes "is_queue h head xs" "q \<in> set xs" "dequeue head q h = (head', h')"
  shows "is_queue h' head' (remove1 q xs)"
proof -
  obtain as bs where xs: "xs = as @ q # bs" "q \<notin> set as" using assms(2) by (metis split_list_first)
  note L = dequeue_links[OF assms(1)[unfolded xs(1)] assms(3)]
  have d: "distinct (as @ q # bs)" "dseg h None as (Some q)" "dseg h (Some q) bs None"
    using assms(1) xs by (auto simp: is_queue_def dseg_append)
  have "dseg h' None as (first bs None)"
  proof (rule dseg_end[OF _ d(2)])
    show "nxt h' l = first bs None" if "final None as = Some l" for l
      using that L(4)[of l] final_in[of None as] d(1) by auto
    show "prv h' x = prv h x" if "x \<in> set as" for x
    proof -
      have "x \<noteq> q" "first bs None \<noteq> Some x" using that d(1) by (cases bs; auto)+
      then show ?thesis using L(5)[of x] by simp
    qed
    show "nxt h' x = nxt h x" if "x \<in> set as" "final None as \<noteq> Some x" for x
      using that L(4)[of x] d(1) by auto
  qed (use d(1) in simp)
  moreover have "dseg h' (final None as) bs None"
  proof (rule dseg_start[OF _ d(3)])
    show "prv h' x = final None as" if "first bs None = Some x" for x
      using that L(5)[of x] d(1) by (cases bs) auto
    show "nxt h' x = nxt h x" if "x \<in> set bs" for x
    proof -
      have "x \<noteq> q" "final None as \<noteq> Some x" using that d(1) final_in[of None as] by auto
      then show ?thesis using L(4)[of x] by simp
    qed
    show "prv h' x = prv h x" if "x \<in> set bs" "first bs None \<noteq> Some x" for x
    proof -
      have "x \<noteq> q" using that(1) d(1) by auto
      then show ?thesis using L(5)[of x] that(2) by simp
    qed
  qed (use d(1) in simp)
  ultimately have "dseg h' None (as @ bs) None" by (simp add: dseg_append)
  with L(1) d(1) xs show ?thesis by (simp add: is_queue_def remove1_append)
qed

lemma is_queue_frame:
  assumes "is_queue h head ys" "\<And>x. x \<in> set ys \<Longrightarrow> nxt h' x = nxt h x \<and> prv h' x = prv h x"
  shows "is_queue h' head ys"
  using assms dseg_cong[of ys h' h None None] by (simp add: is_queue_def)

lemma dequeue_frame:
  assumes "is_queue h head xs" "q \<in> set xs" "dequeue head q h = (head', h')" "x \<notin> set xs"
  shows "nxt h' x = nxt h x \<and> prv h' x = prv h x"
proof -
  obtain as bs where xs: "xs = as @ q # bs" using assms(2) by (metis split_list)
  note L = dequeue_links[OF assms(1)[unfolded xs] assms(3)]
  have "final None as \<noteq> Some x" using final_in[of None as] assms(4) xs by auto
  moreover have "first bs None \<noteq> Some x" using assms(4) xs by (cases bs) auto
  ultimately show ?thesis using L(4,5)[of x] assms(4) xs by auto
qed

subsection \<open>The contract of the lists\<close>

text \<open>
  What the scheduler relies on: moving a request from one list to another removes it from the
  first, puts it at the head of the second and leaves every other list as it was. \<open>rep s l xs\<close>
  says that list \<open>l\<close> of the state \<open>s\<close> holds \<open>xs\<close>.
\<close>

locale request_lists =
  fixes rep :: "'s \<Rightarrow> 'l \<Rightarrow> nat list \<Rightarrow> bool"
    and move :: "'l \<Rightarrow> 'l \<Rightarrow> nat \<Rightarrow> 's \<Rightarrow> 's"
  assumes rep_distinct: "rep s l xs \<Longrightarrow> distinct xs"
    and move_rep: "(\<And>l. rep s l (f l)) \<Longrightarrow> (\<And>l m. l \<noteq> m \<Longrightarrow> set (f l) \<inter> set (f m) = {}) \<Longrightarrow>
       a \<noteq> b \<Longrightarrow> q \<in> set (f a) \<Longrightarrow>
       rep (move a b q s) l ((f(a := remove1 q (f a), b := q # f b)) l)"
begin

definition lists :: "'s \<Rightarrow> ('l \<Rightarrow> nat list) \<Rightarrow> bool" where
  "lists s f \<longleftrightarrow> (\<forall>l. rep s l (f l)) \<and> (\<forall>l m. l \<noteq> m \<longrightarrow> set (f l) \<inter> set (f m) = {})"

text \<open>A move keeps the lists disjoint, and no request is lost or duplicated.\<close>

lemma move_lists:
  assumes "lists s f" "a \<noteq> b" "q \<in> set (f a)"
  shows "lists (move a b q s) (f(a := remove1 q (f a), b := q # f b))"
proof -
  have d: "distinct (f l)" for l using assms(1) rep_distinct by (auto simp: lists_def)
  have "rep (move a b q s) l ((f(a := remove1 q (f a), b := q # f b)) l)" for l
    using assms by (intro move_rep) (auto simp: lists_def)
  moreover have "set ((f(a := remove1 q (f a), b := q # f b)) l) \<inter>
      set ((f(a := remove1 q (f a), b := q # f b)) m) = {}" if "l \<noteq> m" for l m
  proof -
    have dis: "set (f i) \<inter> set (f j) = {}" if "i \<noteq> j" for i j using assms(1) that by (simp add: lists_def)
    have "q \<notin> set (f i)" if "i \<noteq> a" for i using dis[OF that] assms(3) by blast
    then show ?thesis using that assms(2) d[of a] dis[of l m] by auto
  qed
  ultimately show ?thesis by (simp only: lists_def) blast
qed

lemma move_union:
  assumes "lists s f" "a \<noteq> b" "q \<in> set (f a)"
  shows "(\<Union>l. set ((f(a := remove1 q (f a), b := q # f b)) l)) = (\<Union>l. set (f l))"
proof -
  have "distinct (f a)" using assms(1) rep_distinct by (auto simp: lists_def)
  then have "set ((f(a := remove1 q (f a), b := q # f b)) l) =
      (if l = b then insert q (set (f b)) else if l = a then set (f a) - {q} else set (f l))" for l
    by simp
  then show ?thesis using assms(2,3) by (fastforce split: if_splits)
qed

end

datatype which_list = Ready | Block | Free

definition list_head :: "which_list \<Rightarrow> queues \<Rightarrow> nat option" where
  "list_head l s = (case l of Ready \<Rightarrow> request_ready s | Block \<Rightarrow> request_block s | Free \<Rightarrow> request_free s)"

definition set_head :: "which_list \<Rightarrow> nat option \<Rightarrow> queues \<Rightarrow> queues" where
  "set_head l v s = (case l of Ready \<Rightarrow> s\<lparr>request_ready := v\<rparr> | Block \<Rightarrow> s\<lparr>request_block := v\<rparr>
     | Free \<Rightarrow> s\<lparr>request_free := v\<rparr>)"

text \<open>\<open>dequeue (&list_a, q); enqueue (&list_b, q)\<close>\<close>

definition move_request :: "which_list \<Rightarrow> which_list \<Rightarrow> nat \<Rightarrow> queues \<Rightarrow> queues" where
  "move_request a b q s =
    (let (ha, h1) = dequeue (list_head a s) q (lnk s);
         (hb, h2) = enqueue (list_head b s) q h1
     in set_head b hb (set_head a ha (s\<lparr>lnk := h2\<rparr>)))"

definition queue_rep :: "queues \<Rightarrow> which_list \<Rightarrow> nat list \<Rightarrow> bool" where
  "queue_rep s l xs \<longleftrightarrow> is_queue (lnk s) (list_head l s) xs"

lemma head_simps [simp]:
  "list_head l (set_head m v s) = (if l = m then v else list_head l s)"
  "lnk (set_head m v s) = lnk s" "list_head l (s\<lparr>lnk := h\<rparr>) = list_head l s"
  by (simp_all add: list_head_def set_head_def split: which_list.splits)

lemma first_in: "first xs None = Some x \<Longrightarrow> x \<in> set xs"
  by (cases xs) auto

interpretation ql: request_lists queue_rep move_request
proof
  show "distinct xs" if "queue_rep s l xs" for s l xs
    using that by (simp add: queue_rep_def is_queue_def)
next
  fix s :: queues and f :: "which_list \<Rightarrow> nat list" and a b l q
  assume rep: "\<And>l. queue_rep s l (f l)" and disj: "\<And>l m. l \<noteq> m \<Longrightarrow> set (f l) \<inter> set (f m) = {}"
    and ab: "a \<noteq> b" and q: "q \<in> set (f a)"
  obtain ha h1 where d: "dequeue (list_head a s) q (lnk s) = (ha, h1)" by fastforce
  obtain hb h2 where e: "enqueue (list_head b s) q h1 = (hb, h2)" by fastforce
  have s': "lnk (move_request a b q s) = h2" "list_head a (move_request a b q s) = ha"
      "list_head b (move_request a b q s) = hb"
      "l \<noteq> a \<Longrightarrow> l \<noteq> b \<Longrightarrow> list_head l (move_request a b q s) = list_head l s"
    using ab by (simp_all add: move_request_def d e)
  have qa: "is_queue (lnk s) (list_head a s) (f a)" using rep by (simp add: queue_rep_def)
  have q1: "is_queue h1 ha (remove1 q (f a))" by (rule dequeue_refines[OF qa q d])
  have fr1: "is_queue h1 (list_head m s) (f m)" if "m \<noteq> a" for m
  proof (rule is_queue_frame)
    show "is_queue (lnk s) (list_head m s) (f m)" using rep by (simp add: queue_rep_def)
    show "nxt h1 x = nxt (lnk s) x \<and> prv h1 x = prv (lnk s) x" if "x \<in> set (f m)" for x
      using dequeue_frame[OF qa q d] disj[OF \<open>m \<noteq> a\<close>] that by blast
  qed
  have hb: "list_head b s = first (f b) None" using rep[of b] by (simp add: queue_rep_def is_queue_def)
  have qb: "q \<notin> set (f b)" using disj[OF ab] q by blast
  have fr2: "nxt h2 x = nxt h1 x \<and> prv h2 x = prv h1 x" if "x \<noteq> q" "x \<notin> set (f b)" for x
    using enqueue_frame[OF e that(1)] hb first_in[of "f b" x] that(2) by auto
  show "queue_rep (move_request a b q s) l ((f(a := remove1 q (f a), b := q # f b)) l)"
  proof (cases "l = b")
    case True
    then show ?thesis using enqueue_refines[OF fr1 qb] ab s' e by (simp add: queue_rep_def hb)
  next
    case lb: False
    show ?thesis
    proof (cases "l = a")
      case True
      have "distinct (f a)" using qa by (simp add: is_queue_def)
      then have "is_queue h2 ha (remove1 q (f a))"
        using disj[OF ab] by (intro is_queue_frame[OF q1] fr2) auto
      with True lb s' show ?thesis by (simp add: queue_rep_def)
    next
      case False
      then have "is_queue h2 (list_head l s) (f l)"
        using disj[of l b] disj[of l a] lb q by (intro is_queue_frame[OF fr1] fr2) auto
      with False lb s' show ?thesis by (simp add: queue_rep_def)
    qed
  qed
qed

text \<open>The two moves of the scheduler are instances; they also update the sets of descriptors.\<close>

lemma fd_set_simps [simp]:
  "lnk (set_read_fd f s) = lnk s" "list_head l (set_read_fd f s) = list_head l s"
  "lnk (set_write_fd f s) = lnk s" "list_head l (set_write_fd f s) = list_head l s"
  "lnk (clr_read_fd f s) = lnk s" "list_head l (clr_read_fd f s) = list_head l s"
  "lnk (clr_write_fd f s) = lnk s" "list_head l (clr_write_fd f s) = list_head l s"
  by (cases l; simp add: set_read_fd_def set_write_fd_def clr_read_fd_def clr_write_fd_def list_head_def)+

lemma block_request_rep: "queue_rep (block_request q r s) l xs = queue_rep (move_request Ready Block q s) l xs"
  by (cases l) (auto simp: block_request_def move_request_def queue_rep_def list_head_def set_head_def
      set_read_fd_def set_write_fd_def Let_def split: prod.splits req_status.splits)

lemma ready_request_rep: "queue_rep (ready_request q r s) l xs = queue_rep (move_request Block Ready q s) l xs"
  by (cases l) (auto simp: ready_request_def move_request_def queue_rep_def list_head_def set_head_def
      clr_read_fd_def clr_write_fd_def Let_def split: prod.splits req_status.splits)

text \<open>The three lists of a state and the descriptor on which a request waits.\<close>

definition queues_ok :: "queues \<Rightarrow> nat list \<Rightarrow> nat list \<Rightarrow> nat list \<Rightarrow> bool" where
  "queues_ok s rd bl fr \<longleftrightarrow> queue_rep s Ready rd \<and> queue_rep s Block bl \<and> queue_rep s Free fr \<and>
     set rd \<inter> set bl = {} \<and> set rd \<inter> set fr = {} \<and> set bl \<inter> set fr = {}"

definition waits_write :: "request \<Rightarrow> bool" where
  "waits_write r \<longleftrightarrow> buffer_end r \<noteq> 0 \<or> status r \<in> {WRITE, PIPE_WRITE, DONE, BODY_WRITE}"

definition waits_fd :: "request \<Rightarrow> nat" where
  "waits_fd r = (if buffer_end r \<noteq> 0 then fd r else if status r = PIPE_READ then data_fd r
     else if status r = BODY_WRITE then post_data_fd r else fd r)"

definition list_fun :: "nat list \<Rightarrow> nat list \<Rightarrow> nat list \<Rightarrow> which_list \<Rightarrow> nat list" where
  "list_fun rd bl fr l = (case l of Ready \<Rightarrow> rd | Block \<Rightarrow> bl | Free \<Rightarrow> fr)"

lemma queues_ok_lists: "queues_ok s rd bl fr \<longleftrightarrow> ql.lists s (list_fun rd bl fr)"
proof
  assume "queues_ok s rd bl fr"
  then show "ql.lists s (list_fun rd bl fr)"
    by (auto simp: queues_ok_def ql.lists_def list_fun_def split: which_list.splits)
next
  assume a: "ql.lists s (list_fun rd bl fr)"
  then have r: "queue_rep s l (list_fun rd bl fr l)" for l by (simp add: ql.lists_def)
  from a have "Ready \<noteq> Block \<longrightarrow> set rd \<inter> set bl = {}" "Ready \<noteq> Free \<longrightarrow> set rd \<inter> set fr = {}"
      "Block \<noteq> Free \<longrightarrow> set bl \<inter> set fr = {}"
    unfolding ql.lists_def list_fun_def by (metis which_list.case)+
  with r[of Ready] r[of Block] r[of Free] show "queues_ok s rd bl fr"
    by (simp add: queues_ok_def list_fun_def)
qed

lemma queues_ok_cong:
  "(\<And>l xs. queue_rep s l xs = queue_rep s' l xs) \<Longrightarrow> queues_ok s rd bl fr = queues_ok s' rd bl fr"
  by (simp add: queues_ok_def)

lemma list_fun_update:
  "(list_fun rd bl fr)(Ready := x, Block := y) = list_fun x y fr"
  "(list_fun rd bl fr)(Block := y, Ready := x) = list_fun x y fr"
  "(list_fun rd bl fr)(Ready := x, Free := y) = list_fun x bl y"
  "(list_fun rd bl fr)(Free := y, Ready := x) = list_fun x bl y"
  by (auto simp: list_fun_def fun_eq_iff split: which_list.splits)

lemma list_fun_sel [simp]:
  "list_fun rd bl fr Ready = rd" "list_fun rd bl fr Block = bl" "list_fun rd bl fr Free = fr"
  by (simp_all add: list_fun_def)

lemma block_request_ok:
  assumes "queues_ok s rd bl fr" "q \<in> set rd"
  shows "queues_ok (block_request q r s) (remove1 q rd) (q # bl) fr"
  using ql.move_lists[of s "list_fun rd bl fr" Ready Block q] assms
  by (simp add: queues_ok_lists[symmetric] list_fun_update queues_ok_cong[OF block_request_rep])

lemma ready_request_ok:
  assumes "queues_ok s rd bl fr" "q \<in> set bl"
  shows "queues_ok (ready_request q r s) (q # rd) (remove1 q bl) fr"
  using ql.move_lists[of s "list_fun rd bl fr" Block Ready q] assms
  by (simp add: queues_ok_lists[symmetric] list_fun_update queues_ok_cong[OF ready_request_rep])

lemma block_request_fds:
  "block_read_fdset (block_request q r s) =
     (if waits_write r then block_read_fdset s else insert (waits_fd r) (block_read_fdset s)) \<and>
   block_write_fdset (block_request q r s) =
     (if waits_write r then insert (waits_fd r) (block_write_fdset s) else block_write_fdset s) \<and>
   waits_fd r \<le> max_fd (block_request q r s)"
  by (auto simp: block_request_def Let_def waits_write_def waits_fd_def set_read_fd_def set_write_fd_def
      split: prod.splits req_status.splits)

lemma ready_request_fds:
  "block_read_fdset (ready_request q r s) =
     (if waits_write r then block_read_fdset s else block_read_fdset s - {waits_fd r}) \<and>
   block_write_fdset (ready_request q r s) =
     (if waits_write r then block_write_fdset s - {waits_fd r} else block_write_fdset s)"
  by (auto simp: ready_request_def Let_def waits_write_def waits_fd_def clr_read_fd_def clr_write_fd_def
      split: prod.splits req_status.splits)

subsection \<open>Properties\<close>

text \<open>
  C28: The doubly linked lists implement lists. When the three heads and the \<open>next\<close>/\<open>prev\<close> pointers
  represent disjoint lists, blocking a ready request takes it out of the ready list, puts it at
  the head of the blocked list and leaves the free list alone, so the structure stays well formed
  and no request is lost or on two lists; the descriptor the request waits for is in the set that
  \<open>select\<close> watches, and no larger than \<open>max_fd\<close>. Readying a request undoes the move.
\<close>

theorem block_ready_refine:
  assumes "queues_ok s rd bl fr" "q \<in> set rd"
  shows "queues_ok (block_request q r s) (remove1 q rd) (q # bl) fr \<and>
     waits_fd r \<in> (if waits_write r then block_write_fdset (block_request q r s)
                   else block_read_fdset (block_request q r s)) \<and>
     waits_fd r \<le> max_fd (block_request q r s) \<and>
     queues_ok (ready_request q r' (block_request q r s)) (q # remove1 q rd) bl fr"
proof -
  have b: "queues_ok (block_request q r s) (remove1 q rd) (q # bl) fr"
    using assms by (rule block_request_ok)
  have "queues_ok (ready_request q r' (block_request q r s)) (q # remove1 q rd) (remove1 q (q # bl)) fr"
    by (rule ready_request_ok[OF b]) simp
  with b show ?thesis using block_request_fds[of q r s] by simp
qed

definition sample_queues :: queues where
  "sample_queues =
    \<lparr>lnk = \<lparr>nxt = (\<lambda>_. None)(4 := Some 7), prv = (\<lambda>_. None)(7 := Some 4)\<rparr>,
     request_ready = Some 4, request_block = Some 5, request_free = None,
     block_read_fdset = {}, block_write_fdset = {}, max_fd = 0\<rparr>"

theorem block_ready_refine_witness:
  "queues_ok sample_queues [4, 7] [5] [] \<and>
   queues_ok (block_request 7 (zero_request [] []) sample_queues) [4] [7, 5] []"
proof -
  have "queues_ok sample_queues [4, 7] [5] []"
    by (simp add: queues_ok_def queue_rep_def is_queue_def sample_queues_def list_head_def)
  then show ?thesis using block_ready_refine[of sample_queues "[4, 7]" "[5]" "[]" 7 "zero_request [] []"]
    by simp
qed

end
