(* ===== verification/Boa_Cgi.thy ===== *)
theory Boa_Cgi
  imports Boa_Response
begin

text \<open>
  \<^verbatim>\<open>cgi.c\<close>: the environment and argument vector of CGI scripts, the decoding of a query string into
  command arguments, and the start of a script. The outcomes of \<open>pipe\<close>, \<open>fcntl\<close> and \<open>fork\<close> are
  arguments; what the child executes is a value.
\<close>

subsection \<open>The environment\<close>

abbreviation COMMON_CGI_COUNT :: nat where "COMMON_CGI_COUNT \<equiv> 6"
definition CGI_ENV_MAX :: nat where "CGI_ENV_MAX = 50"
definition CGI_ARGC_MAX :: nat where "CGI_ARGC_MAX = 128"

definition env_gen_extra :: "cstring \<Rightarrow> cstring option \<Rightarrow> cstring" where
  "env_gen_extra key val = key @ ''='' @ (case val of None \<Rightarrow> [] | Some v \<Rightarrow> v)"

definition create_common_env :: "conf \<Rightarrow> cstring list" where
  "create_common_env cfg =
    [env_gen_extra ''PATH'' (Some (case cgi_path cfg of Some p \<Rightarrow> p | None \<Rightarrow> ''/bin:/usr/bin:/usr/local/bin'')),
     env_gen_extra ''SERVER_SOFTWARE'' (Some ''Boa/0.94.13''),
     env_gen_extra ''SERVER_NAME'' (Some (server_name cfg)),
     env_gen_extra ''GATEWAY_INTERFACE'' (Some ''CGI/1.1''),
     env_gen_extra ''SERVER_PORT'' (Some (simple_itoa (nat (server_port cfg mod 2 ^ 32)))),
     env_gen_extra ''SERVER_ADMIN'' (Some (server_admin cfg))]"

text \<open>
  \<open>cgi_env\<close> of a request holds the variables from position \<open>COMMON_CGI_COUNT\<close> on, so \<open>cgi_env_index\<close> is
  their number plus that.
\<close>

definition cgi_env_index :: "request \<Rightarrow> nat" where
  "cgi_env_index r = COMMON_CGI_COUNT + length (cgi_env r)"

definition add_cgi_env :: "cstring \<Rightarrow> cstring option \<Rightarrow> bool \<Rightarrow> request \<Rightarrow> bool \<times> request" where
  "add_cgi_env key val http_prefix r =
    (if cgi_env_index r < CGI_ENV_MAX
     then (True, r\<lparr>cgi_env := cgi_env r @ [(if http_prefix then ''HTTP_'' else []) @ env_gen_extra key val]\<rparr>)
     else (False, r))"

text \<open>The variables \<open>complete_env\<close> adds, in order, and the additions themselves, which stop at the
  first that does not fit.\<close>

definition complete_env_vars :: "conf \<Rightarrow> request \<Rightarrow> (cstring \<times> cstring option) list" where
  "complete_env_vars cfg r =
    [(''REQUEST_METHOD'', Some (case method r of M_POST \<Rightarrow> ''POST'' | M_HEAD \<Rightarrow> ''HEAD'' | M_GET \<Rightarrow> ''GET'' | _ \<Rightarrow> ''UNKNOWN'')),
     (''SERVER_ADDR'', Some (local_ip_addr r)), (''SERVER_PROTOCOL'', Some (http_version r)),
     (''REQUEST_URI'', Some (request_uri r))] @
    (case path_info r of None \<Rightarrow> [] | Some p \<Rightarrow> [(''PATH_INFO'', Some p)]) @
    (case path_translated r of None \<Rightarrow> [] | Some p \<Rightarrow> [(''PATH_TRANSLATED'', Some p)]) @
    [(''SCRIPT_NAME'', script_name r)] @
    (case query_string r of None \<Rightarrow> [] | Some q \<Rightarrow> [(''QUERY_STRING'', Some q)]) @
    [(''REMOTE_ADDR'', Some (remote_ip_addr r)),
     (''REMOTE_PORT'', Some (simple_itoa (nat (remote_port r mod 2 ^ 32))))] @
    (if method r = M_POST
     then (''CONTENT_TYPE'', Some (case content_type r of Some t \<Rightarrow> t | None \<Rightarrow> default_type cfg)) #
       (case content_length r of None \<Rightarrow> [] | Some l \<Rightarrow> [(''CONTENT_LENGTH'', Some l)])
     else [])"

fun add_all :: "(cstring \<times> cstring option) list \<Rightarrow> request \<Rightarrow> bool \<times> request" where
  "add_all [] r = (True, r)"
| "add_all ((k, v) # kvs) r =
     (case add_cgi_env k v False r of (True, r') \<Rightarrow> add_all kvs r' | (False, r') \<Rightarrow> (False, r'))"

definition complete_env :: "conf \<Rightarrow> request \<Rightarrow> bool \<times> request" where
  "complete_env cfg r =
    (case add_all (complete_env_vars cfg r) r of
       (False, r') \<Rightarrow> (False, r')
     | (True, r') \<Rightarrow> (cgi_env_index r' < CGI_ENV_MAX + 1, r'))"

subsection \<open>Decoding a query into arguments\<close>

text \<open>
  The table \<open>hex_ascii\<close> has type \<open>char\<close>, unsigned on the target: its entries \<open>-1\<close> read 255.
\<close>

definition hex_ascii :: "char \<Rightarrow> nat" where
  "hex_ascii c = (if isdigit c then code c - 48
     else if 65 \<le> code c \<and> code c \<le> 70 then code c - 55
     else if 97 \<le> code c \<and> code c \<le> 102 then code c - 87 else 255)"

definition ascii_to_hex :: "char \<Rightarrow> char \<Rightarrow> nat" where
  "ascii_to_hex a b = push_bit 4 (hex_ascii a) OR hex_ascii b"

text \<open>
  One round of the loop over the bytes from \<open>data\<close> on: \<open>out\<close> is what has been stored from \<open>cmd_string\<close>
  on, \<open>args\<close> the offsets of the names and values set so far, the current argument last. \<open>D_over\<close> is a
  read beyond the given memory, \<open>D_return\<close> a \<open>return 0\<close> inside the loop.
\<close>

type_synonym arg_offsets = "(nat \<times> nat option) list"

definition set_value :: "nat \<Rightarrow> arg_offsets \<Rightarrow> arg_offsets" where
  "set_value off args = butlast args @ [(fst (last args), Some off)]"

datatype decode_result = D_over | D_return "char list" arg_offsets | D_next "char list" "char list" arg_offsets

definition decode_step :: "char list \<Rightarrow> char list \<Rightarrow> arg_offsets \<Rightarrow> decode_result" where
  "decode_step data0 out args =
    (case data0 of [] \<Rightarrow> D_over
     | chbuf # data \<Rightarrow>
        if chbuf = CHR ''+'' then D_next data (out @ [SP]) args
        else if chbuf = CHR ''%'' then
          (case data of
             a # b # data2 \<Rightarrow> (let hex = ascii_to_hex a b in
               if hex > 0 then D_next data2 (out @ [char_of (hex mod 256)]) args else D_next data out args)
           | _ \<Rightarrow> D_over)
        else if chbuf = CHR ''&'' then
          (if length args \<ge> MAX_CMD_NUM then D_return (out @ [NUL]) args
           else D_next data (out @ [NUL]) (args @ [(length out + 1, None)]))
        else if chbuf = CHR ''='' then D_next data (out @ [NUL]) (set_value (length out + 1) args)
        else if chbuf = NUL \<or> chbuf = LF \<or> chbuf = CR \<or> chbuf = SP then D_return (out @ [NUL]) args
        else D_next data (out @ [chbuf]) args)"

lemma decode_step_shorter: "decode_step data out args = D_next data' out' args' \<Longrightarrow> length data' < length data"
  by (auto simp: decode_step_def Let_def split: list.splits if_splits)

function decode_loop :: "char list \<Rightarrow> char list \<Rightarrow> arg_offsets \<Rightarrow> (char list \<times> arg_offsets) option" where
  "decode_loop data out args =
    (case decode_step data out args of
       D_over \<Rightarrow> None
     | D_return out' args' \<Rightarrow> Some (out', args')
     | D_next data' out' args' \<Rightarrow>
         if length out' < MAX_CMD_LENGTH - 1 then decode_loop data' out' args' else Some (out' @ [NUL], args'))"
  by pat_completeness auto
termination
  by (relation "measure (\<lambda>(data, out, args). length data)") (auto dest: decode_step_shorter)

declare decode_loop.simps [simp del]

definition read_arg :: "char list \<Rightarrow> nat \<times> nat option \<Rightarrow> command_argument" where
  "read_arg out a =
     \<lparr>arg_name = cstr (drop (fst a) out),
      arg_value = Some (case snd a of None \<Rightarrow> [] | Some v \<Rightarrow> cstr (drop v out)), arg_flags = 0\<rparr>"

definition uri_decoding :: "char list option \<Rightarrow> request \<Rightarrow> (int \<times> request) option" where
  "uri_decoding data r =
    (case data of None \<Rightarrow> Some (- 1, r)
     | Some mem \<Rightarrow> map_option (\<lambda>(out, args). (0, r\<lparr>cmd_string := Some (cstr out),
         cmd_count := length args, cmd_arg := map (read_arg out) args\<rparr>)) (decode_loop mem [] [(0, None)]))"

subsection \<open>The argument vector\<close>

text \<open>The loop over the words of an indexed query: at most \<open>n\<close> more arguments.\<close>

function index_args :: "nat \<Rightarrow> cstring \<Rightarrow> cstring list" where
  "index_args n q =
    (if n = 0 then []
     else
       (let r = before (CHR ''+'') q;
            more = (case strchr (CHR ''+'') q of None \<Rightarrow> None | Some p \<Rightarrow> Some (tl p))
        in case unescape_uri False r of
             Some (u, _) \<Rightarrow> u # (case more of None \<Rightarrow> [] | Some q' \<Rightarrow> index_args (n - 1) q')
           | None \<Rightarrow> (case more of None \<Rightarrow> [] | Some q' \<Rightarrow> index_args n q')))"
  by pat_completeness auto

lemma strchr_tl_shorter: "strchr c q = Some p \<Longrightarrow> length (tl p) < length q"
  using strchr_Some[of c q p] by (cases p) (auto dest!: arg_cong[of q _ length])

termination index_args
  by (relation "measure (\<lambda>(n, q). length q)")
     (auto split: option.splits dest: strchr_tl_shorter)

declare index_args.simps [simp del]

definition create_argv :: "request \<Rightarrow> cstring list" where
  "create_argv r =
    (case pathname r of None \<Rightarrow> [] | Some p \<Rightarrow> [p]) @
    (case query_string r of
       Some q \<Rightarrow> if strchr (CHR ''='') q = None then index_args (CGI_ARGC_MAX - 1) q else []
     | None \<Rightarrow> [])"

subsection \<open>Starting a script\<close>

text \<open>What the child of \<open>fork\<close> executes, or its exit before that.\<close>

datatype exec_call =
    Exec_cgi cstring cstring "cstring list" "cstring list"
  | Exec_dirmaker "cstring option" cstring cstring
  | Exec_gunzip cstring
  | Child_exit

definition cgi_child :: "conf \<Rightarrow> request \<Rightarrow> exec_call" where
  "cgi_child cfg r =
    (case pathname r of None \<Rightarrow> Child_exit
     | Some path \<Rightarrow>
        if is_cgi r \<noteq> NO_CGI then
          (case strrchr (CHR ''/'') path of
             None \<Rightarrow> Child_exit
           | Some base \<Rightarrow> Exec_cgi (take (length path - length base + 1) path) path (create_argv r)
               (create_common_env cfg @ cgi_env r))
        else if path \<noteq> [] \<and> last path = CHR ''/'' then Exec_dirmaker (dirmaker cfg) path (request_uri r)
        else Exec_gunzip path)"

record cgi_sys =
  pipe_read_fd :: "nat option"
  nonblock_ok :: bool
  fork_ok :: bool

text \<open>The branch of the parent after the \<open>fork\<close>; the pipe to read from, if there is one.\<close>

definition cgi_parent :: "nat option \<Rightarrow> request \<Rightarrow> int \<times> request" where
  "cgi_parent pipe r =
    (let r1 = (if method r = M_POST then r\<lparr>post_data_fd := 0\<rparr> else r) in
     case pipe of None \<Rightarrow> (0, r1)
     | Some p \<Rightarrow>
        (let r2 = r1\<lparr>data_fd := p, status := PIPE_READ\<rparr>;
             r3 = (if is_cgi r2 = CGI
                   then r2\<lparr>cgi_status := CGI_PARSE, header_line := In_buffer (BUFFER_SIZE div 2),
                           header_end := In_buffer (BUFFER_SIZE div 2)\<rparr>
                   else r2\<lparr>cgi_status := CGI_BUFFER, header_line := In_buffer 0, header_end := In_buffer 0\<rparr>)
         in (1, r3\<lparr>filepos := 0\<rparr>)))"

definition init_cgi :: "conf \<Rightarrow> cgi_sys \<Rightarrow> request \<Rightarrow> int \<times> request" where
  "init_cgi cfg sys r0 =
    (case (if is_cgi r0 \<noteq> NO_CGI then complete_env cfg (SQUASH_KA r0) else (True, SQUASH_KA r0)) of
       (False, r) \<Rightarrow> (0, r)
     | (True, r) \<Rightarrow>
        (let use_pipes = \<not> (case http_uri r of None \<Rightarrow> False | Some u \<Rightarrow> has_flag u URI_FLAG_DIRECT_WRITE)
         in if use_pipes \<and> (pipe_read_fd sys = None \<or> \<not> nonblock_ok sys) then (0, r)
            else if \<not> fork_ok sys then (0, send_r_error cfg r)
            else
              cgi_parent (if use_pipes then pipe_read_fd sys else None) r))"

subsection \<open>The environment fits its array\<close>

lemma add_cgi_env_index:
  "cgi_env_index (snd (add_cgi_env k v h r)) = (if cgi_env_index r < CGI_ENV_MAX then cgi_env_index r + 1 else cgi_env_index r)"
  by (simp add: add_cgi_env_def cgi_env_index_def)

definition env_entries :: "(cstring \<times> cstring option) list \<Rightarrow> cstring list" where
  "env_entries kvs = map (\<lambda>(k, v). env_gen_extra k v) kvs"

lemma add_all_spec:
  "cgi_env_index r \<le> CGI_ENV_MAX \<Longrightarrow>
   add_all kvs r =
     (if cgi_env_index r + length kvs \<le> CGI_ENV_MAX then (True, r\<lparr>cgi_env := cgi_env r @ env_entries kvs\<rparr>)
      else (False, r\<lparr>cgi_env := cgi_env r @ env_entries (take (CGI_ENV_MAX - cgi_env_index r) kvs)\<rparr>))"
proof (induction kvs r rule: add_all.induct)
  case (1 r)
  then show ?case by (simp add: env_entries_def)
next
  case (2 k v kvs r)
  show ?case
  proof (cases "cgi_env_index r < CGI_ENV_MAX")
    case True
    let ?r = "r\<lparr>cgi_env := cgi_env r @ [env_gen_extra k v]\<rparr>"
    have a: "add_cgi_env k v False r = (True, ?r)" using True by (simp add: add_cgi_env_def)
    have i: "cgi_env_index ?r = Suc (cgi_env_index r)" by (simp add: cgi_env_index_def)
    have "CGI_ENV_MAX - cgi_env_index r = Suc (CGI_ENV_MAX - Suc (cgi_env_index r))" using True by simp
    then show ?thesis using 2(1)[OF a[symmetric] refl] a i True by (simp add: env_entries_def)
  next
    case False
    with 2(2) have "cgi_env_index r = CGI_ENV_MAX" by simp
    then show ?thesis by (simp add: add_cgi_env_def env_entries_def)
  qed
qed

lemma init_cgi_ok [buf_intros]: "buf_ok r \<Longrightarrow> buf_ok (snd (init_cgi cfg sys r))"
proof -
  have upd: "buf_ok (r\<lparr>cgi_env := e\<rparr>) = buf_ok r" for r e by (simp add: buf_ok_def)
  have add: "buf_ok (snd (add_all kvs r)) = buf_ok r" for kvs r
    by (induction kvs r rule: add_all.induct) (auto simp: add_cgi_env_def upd)
  have ce: "buf_ok (snd (complete_env cfg r)) = buf_ok r" for r
    using add[of "complete_env_vars cfg r" r] by (auto simp: complete_env_def split: prod.splits bool.splits)
  assume ok: "buf_ok r"
  obtain b r1 where c: "(if is_cgi r \<noteq> NO_CGI then complete_env cfg (SQUASH_KA r) else (True, SQUASH_KA r)) = (b, r1)"
    by fastforce
  then have r1: "buf_ok r1" using ok ce[of "SQUASH_KA r"] by (auto split: if_splits)
  show ?thesis using r1
    by (cases b) (auto simp: init_cgi_def cgi_parent_def c Let_def intro: send_error_ok split: option.splits, auto simp: buf_ok_def)
qed

subsection \<open>Decoding stays within the command buffer\<close>

definition arg_inside :: "nat \<Rightarrow> nat \<times> nat option \<Rightarrow> bool" where
  "arg_inside n a \<longleftrightarrow> fst a \<le> n \<and> (case snd a of None \<Rightarrow> True | Some v \<Rightarrow> v \<le> n)"

definition decode_inv :: "char list \<Rightarrow> arg_offsets \<Rightarrow> bool" where
  "decode_inv out args \<longleftrightarrow> args \<noteq> [] \<and> length args \<le> MAX_CMD_NUM \<and>
     (\<forall>a \<in> set args. arg_inside (length out) a)"

lemma arg_inside_mono: "arg_inside n a \<Longrightarrow> n \<le> m \<Longrightarrow> arg_inside m a"
  by (auto simp: arg_inside_def split: option.splits)

lemma decode_inv_grow:
  "decode_inv out args \<Longrightarrow> decode_inv (out @ extra) args"
  by (auto simp: decode_inv_def intro: arg_inside_mono)

lemma decode_step_next:
  "decode_step data out args = D_next data' out' args' \<Longrightarrow>
   args' = args \<and> (out' = out \<or> (\<exists>c. out' = out @ [c])) \<or>
   out' = out @ [NUL] \<and> args' = set_value (length out + 1) args \<or>
   out' = out @ [NUL] \<and> args' = args @ [(length out + 1, None)] \<and> length args < MAX_CMD_NUM"
  by (simp add: decode_step_def Let_def split: list.splits if_splits) auto

lemma decode_step_return:
  "decode_step data out args = D_return out' args' \<Longrightarrow> out' = out @ [NUL] \<and> args' = args"
  by (simp add: decode_step_def Let_def split: list.splits if_splits)

lemma decode_step_inv:
  assumes "decode_inv out args"
  shows "decode_step data out args = D_next data' out' args' \<Longrightarrow>
           decode_inv out' args' \<and> length out' \<le> Suc (length out)"
    and "decode_step data out args = D_return out' args' \<Longrightarrow>
           \<exists>o1. out' = o1 @ [NUL] \<and> decode_inv o1 args' \<and> length out' = Suc (length out)"
proof -
  have sv: "decode_inv (out @ [NUL]) (set_value (length out + 1) args)"
  proof -
    have "args \<noteq> []" "length args \<le> MAX_CMD_NUM" and all: "\<forall>a \<in> set args. arg_inside (length out) a"
      using assms by (auto simp: decode_inv_def)
    moreover have "arg_inside (Suc (length out)) (fst (last args), Some (Suc (length out)))"
      using all last_in_set[OF \<open>args \<noteq> []\<close>] by (auto simp: arg_inside_def)
    moreover have "\<forall>a \<in> set (butlast args). arg_inside (Suc (length out)) a"
      using all by (auto dest!: in_set_butlastD intro: arg_inside_mono)
    ultimately show ?thesis by (simp add: decode_inv_def set_value_def)
  qed
  have push: "length args < MAX_CMD_NUM \<Longrightarrow> decode_inv (out @ [NUL]) (args @ [(length out + 1, None)])"
    using decode_inv_grow[OF assms, of "[NUL]"] by (auto simp: decode_inv_def arg_inside_def)
  show "decode_inv out' args' \<and> length out' \<le> Suc (length out)"
    if "decode_step data out args = D_next data' out' args'"
    using decode_step_next[OF that] assms sv push decode_inv_grow[OF assms, of "[_]"] by force
  show "\<exists>o1. out' = o1 @ [NUL] \<and> decode_inv o1 args' \<and> length out' = Suc (length out)"
    if "decode_step data out args = D_return out' args'"
    using decode_step_return[OF that] assms by auto
qed

lemma decode_loop_bounds:
  "decode_loop data out args = Some (out', args') \<Longrightarrow> decode_inv out args \<Longrightarrow> length out < MAX_CMD_LENGTH - 1 \<Longrightarrow>
   \<exists>o1. out' = o1 @ [NUL] \<and> decode_inv o1 args' \<and> length out' \<le> MAX_CMD_LENGTH"
proof (induction data out args rule: decode_loop.induct)
  case (1 data out args)
  show ?case
  proof (cases "decode_step data out args")
    case D_over
    with 1 show ?thesis by (simp add: decode_loop.simps)
  next
    case (D_return o1 a1)
    with 1(2) have "out' = o1" "args' = a1" by (simp_all add: decode_loop.simps)
    with decode_step_inv(2)[OF 1(3) D_return] 1(4) show ?thesis by auto
  next
    case (D_next d1 o1 a1)
    note inv = decode_step_inv(1)[OF 1(3) D_next]
    show ?thesis
    proof (cases "length o1 < MAX_CMD_LENGTH - 1")
      case True
      with 1 D_next inv show ?thesis by (simp add: decode_loop.simps[of data])
    next
      case False
      with 1(2) D_next have "out' = o1 @ [NUL]" "args' = a1" by (simp_all add: decode_loop.simps)
      with inv 1(4) show ?thesis by auto
    qed
  qed
qed

subsection \<open>Decoding what a client encodes\<close>

text \<open>A reference encoder: letters and digits as they are, everything else as \<open>%XX\<close>.\<close>

definition plain :: "char \<Rightarrow> bool" where
  "plain c \<longleftrightarrow> isdigit c \<or> isupper c \<or> islower c"

definition query_char :: "char \<Rightarrow> cstring" where
  "query_char c = (if plain c then [c] else [CHR ''%'', INT_TO_HEX (code c div 16), INT_TO_HEX (code c mod 16)])"

definition query_text :: "cstring \<Rightarrow> cstring" where
  "query_text s = concat (map query_char s)"

fun query :: "(cstring \<times> cstring) list \<Rightarrow> cstring" where
  "query [] = []"
| "query [(n, v)] = query_text n @ ''='' @ query_text v"
| "query ((n, v) # a # as) = query_text n @ ''='' @ query_text v @ ''&'' @ query (a # as)"

text \<open>The command buffer and the offsets that result.\<close>

fun layout :: "(cstring \<times> cstring) list \<Rightarrow> char list" where
  "layout [] = []"
| "layout ((n, v) # as) = n @ [NUL] @ v @ [NUL] @ layout as"

fun offsets :: "nat \<Rightarrow> (cstring \<times> cstring) list \<Rightarrow> arg_offsets" where
  "offsets base [] = []"
| "offsets base ((n, v) # as) =
     (base, Some (base + length n + 1)) # offsets (base + length n + length v + 2) as"

lemma hex_ascii_INT_TO_HEX: "x < 16 \<Longrightarrow> hex_ascii (INT_TO_HEX x) = x"
  by (auto simp: hex_ascii_def INT_TO_HEX_def isdigit_def)

lemma ascii_to_hex_code: "ascii_to_hex (INT_TO_HEX (code c div 16)) (INT_TO_HEX (code c mod 16)) = code c"
proof -
  have "code c < 256" by simp
  then have "code c div 16 < 16" by linarith
  moreover have "push_bit 4 (code c div 16) OR code c mod 16 = code c"
  proof -
    have "push_bit 4 (drop_bit 4 (code c)) OR take_bit 4 (code c) = code c"
      by (rule bit_eqI) (auto simp: bit_simps)
    then show ?thesis by (simp add: drop_bit_eq_div take_bit_eq_mod)
  qed
  ultimately show ?thesis by (simp add: ascii_to_hex_def hex_ascii_INT_TO_HEX)
qed

lemma decode_step_plain: "plain c \<Longrightarrow> decode_step (c # data) out args = D_next data (out @ [c]) args"
proof -
  assume p: "plain c"
  have "list_all (\<lambda>d. \<not> plain d) [CHR ''+'', CHR ''%'', CHR ''&'', CHR ''='', NUL, LF, CR, SP]" by code_simp
  then have "c \<notin> {CHR ''+'', CHR ''%'', CHR ''&'', CHR ''='', NUL, LF, CR, SP}" using p by auto
  then show ?thesis by (simp add: decode_step_def)
qed

lemma decode_step_query_char:
  assumes "c \<noteq> NUL"
  shows "decode_step (query_char c @ data) out args = D_next data (out @ [c]) args"
proof (cases "plain c")
  case True
  then show ?thesis by (simp add: query_char_def decode_step_plain)
next
  case False
  have "code c \<noteq> 0"
  proof
    assume "code c = 0"
    then have "code c = code NUL" by simp
    then show False using assms by (simp only: code_inject)
  qed
  with False show ?thesis
    by (simp add: query_char_def decode_step_def ascii_to_hex_code)
qed

lemma decode_loop_text:
  "nul_free s \<Longrightarrow> length out + length s < MAX_CMD_LENGTH - 1 \<Longrightarrow>
   decode_loop (query_text s @ data) out args = decode_loop data (out @ s) args"
proof (induction s arbitrary: out)
  case (Cons c s)
  have "decode_loop (query_char c @ query_text s @ data) out args = decode_loop (query_text s @ data) (out @ [c]) args"
    using Cons.prems by (subst decode_loop.simps) (simp add: decode_step_query_char)
  then show ?case using Cons by (simp add: query_text_def)
qed (simp add: query_text_def)

lemma decode_loop_equals:
  "length out + 1 < MAX_CMD_LENGTH - 1 \<Longrightarrow>
   decode_loop (CHR ''='' # data) out (args @ [(b, x)]) =
   decode_loop data (out @ [NUL]) (args @ [(b, Some (length out + 1))])"
  by (subst decode_loop.simps) (simp add: decode_step_def set_value_def)

lemma decode_loop_amp:
  "length out + 1 < MAX_CMD_LENGTH - 1 \<Longrightarrow> length args < MAX_CMD_NUM \<Longrightarrow>
   decode_loop (CHR ''&'' # data) out args = decode_loop data (out @ [NUL]) (args @ [(length out + 1, None)])"
  by (subst decode_loop.simps) (simp add: decode_step_def)

lemma decode_loop_query:
  assumes "as \<noteq> []" "\<forall>(n, v) \<in> set as. nul_free n \<and> nul_free v" "length args + length as \<le> MAX_CMD_NUM"
    and "length out + length (layout as) < MAX_CMD_LENGTH"
  shows "decode_loop (query as @ NUL # rest) out (args @ [(length out, None)]) =
    Some (out @ layout as, args @ offsets (length out) as)"
  using assms
proof (induction as arbitrary: out args rule: query.induct)
  case (2 n v)
  then show ?case
    by (simp add: decode_loop_text decode_loop_equals)
       (subst decode_loop.simps, simp add: decode_step_def)
next
  case (3 n v a as)
  let ?args = "args @ [(length out, Some (length out + length n + 1))]"
  have "2 \<le> length (layout (a # as))" by (cases a) simp
  then have "decode_loop (query ((n, v) # a # as) @ NUL # rest) out (args @ [(length out, None)]) =
      decode_loop (query (a # as) @ NUL # rest) (out @ n @ [NUL] @ v @ [NUL])
        (?args @ [(length (out @ n @ [NUL] @ v @ [NUL]), None)])"
    using 3(2-) by (simp add: decode_loop_text decode_loop_equals decode_loop_amp)
  also have "\<dots> = Some ((out @ n @ [NUL] @ v @ [NUL]) @ layout (a # as),
      ?args @ offsets (length (out @ n @ [NUL] @ v @ [NUL])) (a # as))"
    using 3(2-) by (intro 3(1)) (auto simp: case_prod_beta)
  finally show ?case by (simp add: case_prod_beta algebra_simps)
qed simp

lemma read_args:
  "\<forall>(n, v) \<in> set as. nul_free n \<and> nul_free v \<Longrightarrow>
   map (read_arg (pre @ layout as)) (offsets (length pre) as) =
     map (\<lambda>(n, v). \<lparr>arg_name = n, arg_value = Some v, arg_flags = 0\<rparr>) as"
proof (induction as arbitrary: pre)
  case (Cons a as)
  obtain n v where a: "a = (n, v)" by fastforce
  have "map (read_arg ((pre @ n @ [NUL] @ v @ [NUL]) @ layout as)) (offsets (length (pre @ n @ [NUL] @ v @ [NUL])) as) =
      map (\<lambda>(n, v). \<lparr>arg_name = n, arg_value = Some v, arg_flags = 0\<rparr>) as"
    using Cons.prems by (intro Cons.IH) auto
  moreover have "read_arg (pre @ layout (a # as)) (length pre, Some (length pre + length n + 1)) =
      \<lparr>arg_name = n, arg_value = Some v, arg_flags = 0\<rparr>"
    using Cons.prems by (simp add: a read_arg_def cstr_append_NUL)
  ultimately show ?case by (simp add: a algebra_simps)
qed simp

subsection \<open>Properties\<close>

text \<open>
  C34: \<open>uri_decoding\<close> stays within its buffers for every query: the decoded text, terminator included,
  fits the \<open>MAX_CMD_LENGTH\<close> bytes allocated, there are between 1 and \<open>MAX_CMD_NUM\<close> arguments, and
  every name and value starts at or before the final NUL, so each is a terminated string inside
  the buffer.
\<close>

theorem uri_decoding_bounds:
  assumes "decode_loop mem [] [(0, None)] = Some (out, args)"
  shows "length out \<le> MAX_CMD_LENGTH \<and> out \<noteq> [] \<and> last out = NUL \<and> 1 \<le> length args \<and> length args \<le> MAX_CMD_NUM \<and>
     (\<forall>a \<in> set args. arg_inside (length out - 1) a)"
proof -
  have "decode_inv [] [(0, None)]" by (simp add: decode_inv_def MAX_CMD_NUM_def arg_inside_def)
  with decode_loop_bounds[OF assms] obtain o1 where "out = o1 @ [NUL]" "decode_inv o1 args" "length out \<le> MAX_CMD_LENGTH"
    by (auto simp: MAX_CMD_LENGTH_def)
  then show ?thesis by (cases args) (auto simp: decode_inv_def)
qed

theorem uri_decoding_bounds_witness:
  "\<exists>out args. decode_loop (''a=1'' @ [NUL]) [] [(0, None)] = Some (out, args) \<and> length out \<le> MAX_CMD_LENGTH"
proof -
  have "decode_loop (query [(''a'', ''1'')] @ NUL # []) [] [(0, None)] \<noteq> None"
    using decode_loop_query[of "[(''a'', ''1'')]" "[]" "[]" "[]"] by (simp add: MAX_CMD_NUM_def MAX_CMD_LENGTH_def)
  moreover have q: "query [(''a'', ''1'')] = ''a=1''" by code_simp
  ultimately have "decode_loop (''a=1'' @ [NUL]) [] [(0, None)] \<noteq> None" unfolding q by simp
  then obtain out args where d: "decode_loop (''a=1'' @ [NUL]) [] [(0, None)] = Some (out, args)" by force
  with uri_decoding_bounds[OF d] show ?thesis by blast
qed

text \<open>
  C33: The decoder gives back what a client encoded: for any list of at most \<open>MAX_CMD_NUM\<close> names and
  values without NUL, encoded as \<open>name=value\<close> pairs joined by \<open>&\<close> with every character other than
  letters and digits as \<open>%XX\<close>, \<open>uri_decoding\<close> succeeds and sets \<open>cmd_arg\<close> to exactly those pairs,
  provided that the decoded text fits the command buffer; what follows the terminator is not read.
\<close>

theorem uri_decoding_roundtrip:
  assumes "as \<noteq> []" "\<forall>(n, v) \<in> set as. nul_free n \<and> nul_free v" "length as \<le> MAX_CMD_NUM"
    and "length (layout as) < MAX_CMD_LENGTH"
  shows "\<exists>r'. uri_decoding (Some (query as @ NUL # rest)) r = Some (0, r') \<and> cmd_count r' = length as \<and>
     cmd_arg r' = map (\<lambda>(n, v). \<lparr>arg_name = n, arg_value = Some v, arg_flags = 0\<rparr>) as"
proof -
  have "decode_loop (query as @ NUL # rest) [] [(0, None)] = Some (layout as, offsets 0 as)"
    using decode_loop_query[of as "[]" "[]" rest] assms by simp
  moreover have "length (offsets b as) = length as" for b
    by (induction as arbitrary: b) auto
  ultimately show ?thesis using read_args[of as "[]"] assms(2) by (simp add: uri_decoding_def)
qed

theorem uri_decoding_roundtrip_witness:
  "\<exists>r'. uri_decoding (Some (query [(''login'', ''a:b&c''), (''x'', [])] @ [NUL])) fresh = Some (0, r') \<and>
     map arg_name (cmd_arg r') = [''login'', ''x'']"
  using uri_decoding_roundtrip[of "[(''login'', ''a:b&c''), (''x'', [])]" "[]" fresh]
  by (auto simp: MAX_CMD_NUM_def MAX_CMD_LENGTH_def)

text \<open>
  A stray percent sign makes the decoder run past the end of the query. The entries -1 of the
  table are stored in an unsigned \<open>char\<close>, so the test for a bad escape never fires: \<open>%\<close> at the end of
  the query decodes the terminator and the byte behind it to the character 255, and decoding goes
  on in the memory that follows, here turning it into a second argument.
\<close>

theorem uri_decoding_overrun:
  "decode_loop (''a%'' @ [NUL] @ ''?b&c'' @ [NUL]) [] [(0, None)] =
     Some (CHR ''a'' # CHR 0xFF # ''b'' @ [NUL] @ ''c'' @ [NUL], [(0, None), (4, None)])"
proof -
  have hex: "ascii_to_hex NUL (CHR ''?'') = 4095"
    by (simp add: ascii_to_hex_def hex_ascii_def isdigit_def)
  have "char_of (255 :: nat) = CHR 0xFF" by code_simp
  then show ?thesis
    by (simp add: decode_loop.simps decode_step_def hex MAX_CMD_LENGTH_def MAX_CMD_NUM_def)
qed

text \<open>
  C35: The environment of a script fits its array. Starting from at most \<open>CGI_ENV_MAX\<close> entries,
  \<open>complete_env\<close> succeeds exactly when all its variables fit; it then appends exactly them, in
  order, after the variables of the request's headers, and in no case uses more than
  \<open>CGI_ENV_MAX\<close> entries, so the terminating \<open>NULL\<close> fits too. A successful addition of a header keeps
  the bound.
\<close>

theorem complete_env_fits:
  assumes "cgi_env_index r \<le> CGI_ENV_MAX" "complete_env cfg r = (ok, r')"
  shows "(ok \<longleftrightarrow> cgi_env_index r + length (complete_env_vars cfg r) \<le> CGI_ENV_MAX) \<and>
     (ok \<longrightarrow> cgi_env r' = cgi_env r @ map (\<lambda>(k, v). env_gen_extra k v) (complete_env_vars cfg r)) \<and>
     cgi_env_index r' \<le> CGI_ENV_MAX \<and> cgi_env_index (snd (add_cgi_env k v h r)) \<le> CGI_ENV_MAX"
proof -
  have i: "cgi_env_index (r\<lparr>cgi_env := cgi_env r @ xs\<rparr>) = cgi_env_index r + length xs" for xs
    by (simp add: cgi_env_index_def)
  show ?thesis
    using assms add_all_spec[OF assms(1), of "complete_env_vars cfg r"] add_cgi_env_index[of k v h r]
    by (cases "cgi_env_index r + length (complete_env_vars cfg r) \<le> CGI_ENV_MAX")
       (auto simp: complete_env_def env_entries_def i)
qed

theorem complete_env_fits_witness:
  "cgi_env_index (snd (complete_env sample_conf fresh)) \<le> CGI_ENV_MAX"
proof -
  have "cgi_env_index fresh \<le> CGI_ENV_MAX" by (simp add: cgi_env_index_def fresh_def zero_request_def CGI_ENV_MAX_def)
  then show ?thesis
    using complete_env_fits[of fresh sample_conf "fst (complete_env sample_conf fresh)" "snd (complete_env sample_conf fresh)"] by simp
qed

text \<open>The argument vector of an indexed query has at most \<open>CGI_ARGC_MAX\<close> entries.\<close>

lemma length_index_args: "length (index_args n q) \<le> n"
proof (induction n q rule: index_args.induct)
  case (1 n q)
  show ?case
  proof (cases "n = 0")
    case True
    then show ?thesis by (simp add: index_args.simps)
  next
    case False
    have "length (index_args (n - 1) (tl p)) \<le> n - 1"
      if "strchr (CHR ''+'') q = Some p" "unescape_uri False (before (CHR ''+'') q) = Some (u, x)" for p u x
      using 1(2)[OF False refl refl that(2) refl, of "tl p"] that(1) by simp
    moreover have "length (index_args n (tl p)) \<le> n"
      if "strchr (CHR ''+'') q = Some p" "unescape_uri False (before (CHR ''+'') q) = None" for p
      using 1(1)[OF False refl refl that(2), of "tl p"] that(1) by simp
    ultimately show ?thesis using False
      by (subst index_args.simps) (force simp: Let_def split: option.splits)
  qed
qed

lemma length_create_argv: "length (create_argv r) \<le> CGI_ARGC_MAX"
proof (cases "query_string r")
  case (Some q)
  then show ?thesis using length_index_args[of "CGI_ARGC_MAX - 1" q]
    by (auto simp: create_argv_def CGI_ARGC_MAX_def split: option.splits)
qed (simp add: create_argv_def CGI_ARGC_MAX_def split: option.splits)

end
