(* ===== verification/Boa_Auth.thy ===== *)
theory Boa_Auth
  imports Boa_Queue Boa_Cgi
begin

text \<open>
  \<^verbatim>\<open>auth.c\<close>: the login connections, the two base-64 routines, the check of a user name and password
  and the authorization of a request; and the loop of \<open>process_requests\<close> (\<^verbatim>\<open>request.c\<close>) that expires idle
  connections.

  Connections are structures on a heap, named by numbers, with their pointers \<open>next\<close> and \<open>last\<close> kept in
  a \<open>links\<close> record as for the request queues. The pointers \<open>user_name\<close>, \<open>passwd\<close> and \<open>auth\<close> of a
  connection point either to the guest record or into the account table of the configuration, so
  they are one reference (\<open>cred\<close>) that is read through the current configuration (\<open>auth_env\<close>). The
  account table and its sizes live outside this program and are arguments.
\<close>

subsection \<open>State\<close>

datatype cred = Guest | Account nat

record user_account =
  acc_name :: cstring
  acc_passwd :: cstring
  acc_authority :: int

record auth_env =
  accounts :: "user_account list"
  user_auth_mode :: int
  viewer_authority :: int
  max_user_size :: nat
  max_pass_size :: nat

definition user_of :: "auth_env \<Rightarrow> cred \<Rightarrow> user_account" where
  "user_of env c = (case c of
     Guest \<Rightarrow> \<lparr>acc_name = ''guest'', acc_passwd = '''', acc_authority = viewer_authority env\<rparr>
   | Account i \<Rightarrow> accounts env ! i)"

record connection =
  user :: cred
  ipaddr :: nat
  conn_time :: int
  counter :: int
  revoke :: bool

text \<open>\<open>malloc_next\<close> lists the results of the next calls of \<open>malloc\<close> (\<open>None\<close>, or an exhausted list, when
  it fails), \<open>syslog\<close> the login records written, the latest first.\<close>

record auth_state =
  conns :: "nat \<Rightarrow> connection"
  clinks :: links
  connect_guest :: "nat option"
  connect_ready :: "nat option"
  connect_free :: "nat option"
  connection_counter :: int
  malloc_next :: "nat option list"
  syslog :: "(nat \<times> cstring) list"

definition MAX_CONNECTION :: int where "MAX_CONNECTION = 10"

abbreviation ERROR_UNAUTHORIZED :: int where "ERROR_UNAUTHORIZED \<equiv> - 1"
abbreviation ERROR_SERVICE_UNAVAILABLE :: int where "ERROR_SERVICE_UNAVAILABLE \<equiv> - 2"
abbreviation ERROR_BAD_REQUEST :: int where "ERROR_BAD_REQUEST \<equiv> - 3"

definition set_conn :: "nat \<Rightarrow> (connection \<Rightarrow> connection) \<Rightarrow> auth_state \<Rightarrow> auth_state" where
  "set_conn a f s = s\<lparr>conns := (conns s)(a := f (conns s a))\<rparr>"

subsection \<open>Connections\<close>

text \<open>The second half of \<open>alloc_connection\<close>: the structure becomes the head of the ready list.\<close>

definition link_ready :: "nat \<Rightarrow> auth_state \<Rightarrow> auth_state" where
  "link_ready a s =
    (let h1 = set_next a (connect_ready s) (set_prev a None (clinks s));
         h2 = (case connect_ready s of Some b \<Rightarrow> set_prev b (Some a) h1 | None \<Rightarrow> h1)
     in set_conn a (\<lambda>c. c\<lparr>revoke := False, counter := 0\<rparr>) (s\<lparr>clinks := h2, connect_ready := Some a\<rparr>))"

definition alloc_connection :: "auth_state \<Rightarrow> nat option \<times> auth_state" where
  "alloc_connection s =
    (case connect_free s of
       None \<Rightarrow>
         if connection_counter s \<ge> MAX_CONNECTION then (None, s)
         else (case malloc_next s of
             [] \<Rightarrow> (None, s)
           | None # ms \<Rightarrow> (None, s\<lparr>malloc_next := ms\<rparr>)
           | Some a # ms \<Rightarrow> (Some a, link_ready a
               (s\<lparr>malloc_next := ms, connection_counter := connection_counter s + 1\<rparr>)))
     | Some a \<Rightarrow> (Some a, link_ready a (s\<lparr>connect_free := nxt (clinks s) a\<rparr>)))"

definition free_connection :: "nat \<Rightarrow> auth_state \<Rightarrow> auth_state" where
  "free_connection a s =
    (let s1 = (if connect_guest s = Some a then s\<lparr>connect_guest := None\<rparr> else s);
         h = clinks s1;
         ready = (if connect_ready s1 = Some a then nxt h a else connect_ready s1);
         h1 = (case prv h a of Some p \<Rightarrow> set_next p (nxt h a) h | None \<Rightarrow> h);
         h2 = (case nxt h1 a of Some n \<Rightarrow> set_prev n (prv h1 a) h1 | None \<Rightarrow> h1);
         h3 = set_next a (connect_free s1) h2
     in s1\<lparr>connect_ready := ready, clinks := h3, connect_free := Some a,
           connection_counter := connection_counter s1 - 1\<rparr>)"

text \<open>The loops over the ready list follow the pointers: \<open>None\<close> when they never end.\<close>

partial_function (option) find_conn :: "(nat \<Rightarrow> bool) \<Rightarrow> links \<Rightarrow> nat option \<Rightarrow> nat option option" where
  [code]: "find_conn P h cur =
    (case cur of None \<Rightarrow> Some None
     | Some a \<Rightarrow> if P a then Some (Some a) else find_conn P h (nxt h a))"

definition revoke_connection :: "auth_env \<Rightarrow> cstring \<Rightarrow> auth_state \<Rightarrow> (int \<times> auth_state) option" where
  "revoke_connection env name s =
    map_option (\<lambda>res. case res of
        Some a \<Rightarrow> (0, set_conn a (\<lambda>c. c\<lparr>revoke := True\<rparr>) s)
      | None \<Rightarrow> (- 1, s))
      (find_conn (\<lambda>a. strcaseeq name (acc_name (user_of env (user (conns s a))))) (clinks s) (connect_ready s))"

subsection \<open>Base 64\<close>

definition b64_val :: "char \<Rightarrow> nat option" where
  "b64_val c =
    (if isupper c then Some (code c - 65)
     else if islower c then Some (code c - 97 + 26)
     else if isdigit c then Some (code c - 48 + 52)
     else if c = CHR ''+'' then Some 62
     else if c = CHR ''-'' then Some 63
     else if c = CHR ''='' then Some 64
     else None)"

text \<open>The inner loop: whole bytes leave the bit buffer, and are stored while there is room.\<close>

function b64_flush :: "nat \<Rightarrow> nat \<Rightarrow> nat \<Rightarrow> char list \<Rightarrow> nat \<times> nat \<times> char list" where
  "b64_flush maxlen bitval bits out =
    (if 8 \<le> bits then
       b64_flush maxlen (bitval mod 2 ^ (bits - 8)) (bits - 8)
         (if length out < maxlen then out @ [char_of (bitval div 2 ^ (bits - 8) mod 256)] else out)
     else (bitval, bits, out))"
  by pat_completeness auto
termination
  by (relation "measure (\<lambda>(m, v, b, out). b)") auto

declare b64_flush.simps [simp del]

fun b64_loop :: "nat \<Rightarrow> nat \<times> nat \<times> char list \<Rightarrow> cstring \<Rightarrow> char list" where
  "b64_loop maxlen (bitval, bits, out) [] = out"
| "b64_loop maxlen (bitval, bits, out) (c # cs) =
     (case b64_val c of
        None \<Rightarrow> b64_loop maxlen (bitval, bits, out) cs
      | Some v \<Rightarrow> b64_loop maxlen
          (if 64 \<le> v then b64_flush maxlen 0 0 out
           else b64_flush maxlen (bitval * 64 + v mod 64) (bits + 6) out) cs)"

text \<open>The bytes stored from the start of the destination on; their number is the value returned.\<close>

definition base64decode :: "cstring \<Rightarrow> nat \<Rightarrow> char list" where
  "base64decode src maxlen =
    (let out = b64_loop maxlen (0, 0, []) src
     in if length out < maxlen then out @ [NUL] else out)"

definition base64chars :: "char list" where
  "base64chars = ''abcdefghijklmnopqrstuvwxyzABCDEFGHIJKLMNOPQRSTUVWXYZ0123456789./''"

fun base64encode :: "char list \<Rightarrow> char list" where
  "base64encode [] = [NUL]"
| "base64encode (x # xs) =
    (let k = foldl (\<lambda>k b. k * 256 + code b) 0 (take 3 (x # xs))
     in map (\<lambda>sh. base64chars ! (k div 2 ^ sh mod 64)) [18, 12, 6, 0] @ base64encode (drop 2 xs))"

subsection \<open>Users\<close>

text \<open>What both success branches of \<open>check_user\<close> do with the connection found or made.\<close>

definition enter_connection :: "auth_env \<Rightarrow> nat \<Rightarrow> request \<Rightarrow> auth_state \<Rightarrow> request \<times> auth_state" where
  "enter_connection env a r s =
    (let s1 = set_conn a (\<lambda>c. c\<lparr>counter := counter c + 1, conn_time := time_last r\<rparr>) s;
         u = user_of env (user (conns s1 a))
     in (r\<lparr>connect := Some a, authority := acc_authority u, curr_user_id := acc_name u,
           curr_user_ip := ipaddr (conns s1 a)\<rparr>, s1))"

definition conn_matches :: "auth_env \<Rightarrow> cstring \<Rightarrow> cstring \<Rightarrow> request \<Rightarrow> auth_state \<Rightarrow> nat \<Rightarrow> bool" where
  "conn_matches env name passwd r s a \<longleftrightarrow>
     \<not> revoke (conns s a) \<and> (connect_guest s = Some a \<or> ipaddr (conns s a) = remote_ip r) \<and>
     strcaseeq name (acc_name (user_of env (user (conns s a)))) \<and>
     passwd = acc_passwd (user_of env (user (conns s a)))"

definition account_matches :: "cstring \<Rightarrow> cstring \<Rightarrow> user_account \<Rightarrow> bool" where
  "account_matches name passwd u \<longleftrightarrow> strcaseeq name (acc_name u) \<and> passwd = acc_passwd u"

text \<open>The search of the accounts, from number \<open>i\<close> on.\<close>

fun find_account :: "cstring \<Rightarrow> cstring \<Rightarrow> nat \<Rightarrow> user_account list \<Rightarrow> nat option" where
  "find_account name passwd i [] = None"
| "find_account name passwd i (u # us) =
     (if account_matches name passwd u then Some i else find_account name passwd (Suc i) us)"

definition ensure_guest :: "auth_env \<Rightarrow> auth_state \<Rightarrow> bool \<times> auth_state" where
  "ensure_guest env s =
    (if connect_guest s = None \<and> user_auth_mode env = 0 then
       (case alloc_connection s of
          (None, s1) \<Rightarrow> (False, s1\<lparr>connect_guest := None\<rparr>)
        | (Some a, s1) \<Rightarrow> (True, set_conn a (\<lambda>c. c\<lparr>user := Guest\<rparr>) (s1\<lparr>connect_guest := Some a\<rparr>)))
     else (True, s))"

definition check_user ::
  "auth_env \<Rightarrow> cstring \<Rightarrow> cstring \<Rightarrow> request \<Rightarrow> auth_state \<Rightarrow> (int \<times> request \<times> auth_state) option" where
  "check_user env name passwd r s0 =
    (case ensure_guest env s0 of
       (False, s) \<Rightarrow> Some (ERROR_SERVICE_UNAVAILABLE, r, s)
     | (True, s) \<Rightarrow>
        (case find_conn (conn_matches env name passwd r s) (clinks s) (connect_ready s) of
           None \<Rightarrow> None
         | Some (Some a) \<Rightarrow> Some (0, enter_connection env a r s)
         | Some None \<Rightarrow>
            (case find_account name passwd 0 (accounts env) of
               None \<Rightarrow> Some (ERROR_UNAUTHORIZED, r, s)
             | Some i \<Rightarrow>
                (case alloc_connection s of
                   (None, s1) \<Rightarrow> Some (ERROR_SERVICE_UNAVAILABLE, r, s1)
                 | (Some a, s1) \<Rightarrow>
                     (case enter_connection env a r
                        (set_conn a (\<lambda>c. c\<lparr>user := Account i, ipaddr := remote_ip r\<rparr>) s1) of
                      (r1, s2) \<Rightarrow> Some (0, r1, s2\<lparr>syslog := (curr_user_ip r1, curr_user_id r1) # syslog s2\<rparr>))))))"

subsection \<open>Authorization of a request\<close>

text \<open>
  The part after a user name and password were found in a string with a colon: both are bounded
  before they are checked.
\<close>

definition check_pair ::
  "auth_env \<Rightarrow> cstring \<Rightarrow> request \<Rightarrow> auth_state \<Rightarrow> (int \<times> request \<times> auth_state) option" where
  "check_pair env pair r s =
    (case strchr (CHR '':'') pair of
       None \<Rightarrow> Some (ERROR_UNAUTHORIZED, r, s)
     | Some rest \<Rightarrow>
        (let name = before (CHR '':'') pair; pwd = tl rest in
         if length name > max_user_size env \<or> length pwd > max_pass_size env then Some (ERROR_UNAUTHORIZED, r, s)
         else check_user env name pwd r s))"

fun find_login :: "nat \<Rightarrow> command_argument list \<Rightarrow> nat option" where
  "find_login i [] = None"
| "find_login i (a # as) = (if arg_name a = ''login'' then Some i else find_login (Suc i) as)"

text \<open>
  \<open>behind\<close> is the memory after the query string, \<open>stack\<close> that after the 256 bytes of the local buffer.
  \<open>None\<close>: the URI entry is the null pointer, or the decoder runs beyond the memory given. The colon of
  a \<open>login\<close> argument is overwritten, which shortens the value kept in the argument list.
\<close>

definition auth_authorize ::
  "auth_env \<Rightarrow> char list \<Rightarrow> char list \<Rightarrow> request \<Rightarrow> auth_state \<Rightarrow> (int \<times> request \<times> auth_state) option" where
  "auth_authorize env behind stack r s =
    (case http_uri r of None \<Rightarrow> None
     | Some u \<Rightarrow>
        (case (if has_flag u URI_FLAG_CHECK_LOGIN
               then uri_decoding (map_option (\<lambda>q. q @ NUL # behind) (query_string r)) r
               else Some (0, r)) of
           None \<Rightarrow> None
         | Some (ret, r1) \<Rightarrow>
            if ret < 0 then Some (ERROR_BAD_REQUEST, r1, s)
            else (case (if has_flag u URI_FLAG_CHECK_LOGIN then find_login 0 (cmd_arg r1) else None) of
              Some i \<Rightarrow>
                (let v = (case arg_value (cmd_arg r1 ! i) of Some v \<Rightarrow> v | None \<Rightarrow> []);
                     r2 = r1\<lparr>cmd_arg := (cmd_arg r1)[i := (cmd_arg r1 ! i)\<lparr>arg_value := Some (before (CHR '':'') v)\<rparr>]\<rparr>
                 in check_pair env v r2 s)
            | None \<Rightarrow>
                (case authorization r1 of
                   None \<Rightarrow> check_user env ''guest'' '''' r1 s
                 | Some au \<Rightarrow>
                     if \<not> strncaseeq 6 au ''Basic '' then Some (ERROR_UNAUTHORIZED, r1, s)
                     else check_pair env (cstr (base64decode (drop 6 au) 256 @ stack)) r1 s))))"

subsection \<open>Expiry of idle connections\<close>

definition HTTP_CONNECTION_TIMEOUT :: int where "HTTP_CONNECTION_TIMEOUT = 300"

definition expired :: "auth_env \<Rightarrow> int \<Rightarrow> auth_state \<Rightarrow> nat \<Rightarrow> bool" where
  "expired env second s a \<longleftrightarrow>
     (connect_guest s \<noteq> Some a \<or> user_auth_mode env \<noteq> 0) \<and>
     counter (conns s a) = 0 \<and> second > conn_time (conns s a) + HTTP_CONNECTION_TIMEOUT"

text \<open>At most \<open>fuel\<close> rounds of the loop; \<open>None\<close> when it has not ended by then.\<close>

fun expire_loop :: "nat \<Rightarrow> auth_env \<Rightarrow> int \<Rightarrow> nat option \<Rightarrow> auth_state \<Rightarrow> auth_state option" where
  "expire_loop fuel env second None s = Some s"
| "expire_loop 0 env second (Some a) s = None"
| "expire_loop (Suc fuel) env second (Some a) s =
     (let s1 = (if expired env second s a then free_connection a s else s)
      in expire_loop fuel env second (nxt (clinks s1) a) s1)"

text \<open>The loop runs at most once per second of the system clock.\<close>

definition expire_connections ::
  "nat \<Rightarrow> auth_env \<Rightarrow> int \<Rightarrow> int \<Rightarrow> auth_state \<Rightarrow> (int \<times> auth_state) option" where
  "expire_connections fuel env old_time second s =
    (if old_time = second then Some (old_time, s)
     else map_option (Pair second) (expire_loop fuel env second (connect_ready s) s))"

subsection \<open>The pool of connections\<close>

text \<open>The free list is linked through \<open>next\<close> only; \<open>last\<close> of a free structure is stale.\<close>

fun fchain :: "links \<Rightarrow> nat option \<Rightarrow> nat list \<Rightarrow> bool" where
  "fchain h cur [] \<longleftrightarrow> cur = None"
| "fchain h cur (x # xs) \<longleftrightarrow> cur = Some x \<and> fchain h (nxt h x) xs"

lemma fchain_cong: "(\<And>x. x \<in> set xs \<Longrightarrow> nxt h' x = nxt h x) \<Longrightarrow> fchain h' cur xs = fchain h cur xs"
  by (induction xs arbitrary: cur) auto

definition malloc_fresh :: "auth_state \<Rightarrow> nat set \<Rightarrow> bool" where
  "malloc_fresh s used \<longleftrightarrow> (\<forall>a \<in> used. Some a \<notin> set (malloc_next s)) \<and> distinct (filter (\<lambda>m. m \<noteq> None) (malloc_next s))"

text \<open>The ready and the free list hold \<open>ready\<close> and \<open>free\<close>, without a structure in common, and \<open>malloc\<close>
  returns structures that are on neither.\<close>

definition pool_ok :: "auth_state \<Rightarrow> nat list \<Rightarrow> nat list \<Rightarrow> bool" where
  "pool_ok s ready free \<longleftrightarrow>
     is_queue (clinks s) (connect_ready s) ready \<and> fchain (clinks s) (connect_free s) free \<and>
     distinct (ready @ free) \<and> malloc_fresh s (set (ready @ free)) \<and>
     connection_counter s \<le> int (length ready)"

lemma set_conn_simps [simp]:
  "clinks (set_conn a f s) = clinks s" "connect_ready (set_conn a f s) = connect_ready s"
  "connect_free (set_conn a f s) = connect_free s" "connect_guest (set_conn a f s) = connect_guest s"
  "connection_counter (set_conn a f s) = connection_counter s" "malloc_next (set_conn a f s) = malloc_next s"
  "conns (set_conn a f s) = (conns s)(a := f (conns s a))"
  by (simp_all add: set_conn_def)

lemma pool_ok_set_conn [simp]: "pool_ok (set_conn a f s) ready free = pool_ok s ready free"
  by (simp add: pool_ok_def malloc_fresh_def)

lemma pool_ok_irrelevant [simp]:
  "pool_ok (s\<lparr>connect_guest := g\<rparr>) ready free = pool_ok s ready free"
  "pool_ok (s\<lparr>syslog := l\<rparr>) ready free = pool_ok s ready free"
  by (simp_all add: pool_ok_def malloc_fresh_def)

text \<open>Linking is the \<open>enqueue\<close> of the request queues.\<close>

lemma link_ready_enqueue:
  assumes "connect_ready s \<noteq> Some a"
  shows "(connect_ready (link_ready a s), clinks (link_ready a s)) = enqueue (connect_ready s) a (clinks s)"
  using assms
  by (cases "connect_ready s") (auto simp: link_ready_def enqueue_def Let_def set_next_def set_prev_def fun_upd_twist)

lemma link_ready_simps [simp]:
  "connect_ready (link_ready a s) = Some a" "connect_free (link_ready a s) = connect_free s"
  "connect_guest (link_ready a s) = connect_guest s" "connection_counter (link_ready a s) = connection_counter s"
  "malloc_next (link_ready a s) = malloc_next s"
  "conns (link_ready a s) = (conns s)(a := (conns s a)\<lparr>revoke := False, counter := 0\<rparr>)"
  by (simp_all add: link_ready_def Let_def)

lemma link_ready_pool:
  assumes "is_queue (clinks s) (connect_ready s) ready" "fchain (clinks s) (connect_free s) free"
    "distinct (a # ready @ free)"
  shows "is_queue (clinks (link_ready a s)) (connect_ready (link_ready a s)) (a # ready) \<and>
    fchain (clinks (link_ready a s)) (connect_free s) free"
proof -
  have hd: "connect_ready s = first ready None" using assms(1) by (simp add: is_queue_def)
  then have "connect_ready s \<noteq> Some a" using assms(3) first_in[of ready a] by auto
  then have e: "enqueue (connect_ready s) a (clinks s) = (connect_ready (link_ready a s), clinks (link_ready a s))"
    by (rule link_ready_enqueue[symmetric])
  have "nxt (clinks (link_ready a s)) x = nxt (clinks s) x" if "x \<in> set free" for x
  proof -
    have "x \<noteq> a" "connect_ready s \<noteq> Some x" using that assms(3) hd first_in[of ready x] by auto
    then show ?thesis using enqueue_frame[OF e] by blast
  qed
  then show ?thesis using enqueue_refines[OF assms(1) _ e] assms(2,3)
      fchain_cong[of free "clinks (link_ready a s)" "clinks s"] by auto
qed

lemma alloc_connection_ok:
  assumes ok: "pool_ok s ready free" and r: "alloc_connection s = (res, s')"
  shows "(case res of None \<Rightarrow> pool_ok s' ready free \<and> conns s' = conns s
     | Some a \<Rightarrow> a \<notin> set ready \<and> pool_ok s' (a # ready) (remove1 a free) \<and>
         conns s' = (conns s)(a := (conns s a)\<lparr>revoke := False, counter := 0\<rparr>)) \<and> connect_guest s' = connect_guest s"
proof (cases "connect_free s")
  case None
  then have fr: "free = []" using ok by (cases free) (auto simp: pool_ok_def)
  show ?thesis
  proof (cases "\<exists>a ms. malloc_next s = Some a # ms \<and> connection_counter s < MAX_CONNECTION")
    case True
    then obtain a ms where m: "malloc_next s = Some a # ms" "connection_counter s < MAX_CONNECTION" by blast
    let ?s = "s\<lparr>malloc_next := ms, connection_counter := connection_counter s + 1\<rparr>"
    have r': "res = Some a" "s' = link_ready a ?s" using r None m by (auto simp: alloc_connection_def)
    have "a \<notin> set ready" using ok m by (auto simp: pool_ok_def malloc_fresh_def)
    moreover have "malloc_fresh s' (set (a # ready))"
      using ok m fr r' by (auto simp: pool_ok_def malloc_fresh_def)
    ultimately show ?thesis
      using link_ready_pool[of ?s ready free a] ok r' fr by (simp add: pool_ok_def)
  next
    case False
    then show ?thesis using r None ok
      by (auto simp: alloc_connection_def pool_ok_def malloc_fresh_def split: if_splits list.splits option.splits)
  qed
next
  case (Some a)
  then obtain fs where fr: "free = a # fs" using ok by (cases free) (auto simp: pool_ok_def)
  let ?s = "s\<lparr>connect_free := nxt (clinks s) a\<rparr>"
  have r': "res = Some a" "s' = link_ready a ?s" using r Some by (auto simp: alloc_connection_def)
  have "a \<notin> set ready" using ok fr by (simp add: pool_ok_def)
  moreover have "malloc_fresh s' (set (a # ready @ fs))" using ok fr r' by (auto simp: pool_ok_def malloc_fresh_def)
  ultimately show ?thesis using link_ready_pool[of ?s ready fs a] ok r' fr by (auto simp: pool_ok_def)
qed

text \<open>Freeing takes the structure off the ready list as \<open>dequeue\<close> does and pushes it on the free list.\<close>

lemma free_connection_links:
  assumes "dequeue (connect_ready s) a (clinks s) = (rd, h)"
  shows "connect_ready (free_connection a s) = rd"
    "nxt (clinks (free_connection a s)) a = connect_free s"
    "x \<noteq> a \<Longrightarrow> nxt (clinks (free_connection a s)) x = nxt h x"
    "x \<noteq> a \<Longrightarrow> prv (clinks (free_connection a s)) x = prv h x"
  using assms by (auto simp: free_connection_def dequeue_def Let_def split: option.splits)

lemma free_connection_simps [simp]:
  "conns (free_connection a s) = conns s" "connect_free (free_connection a s) = Some a"
  "connection_counter (free_connection a s) = connection_counter s - 1"
  "malloc_next (free_connection a s) = malloc_next s"
  "connect_guest (free_connection a s) = (if connect_guest s = Some a then None else connect_guest s)"
  "nxt (clinks (free_connection a s)) a = connect_free s"
  by (simp_all add: free_connection_def Let_def)

lemma free_connection_ok:
  assumes ok: "pool_ok s ready free" and a: "a \<in> set ready"
  shows "pool_ok (free_connection a s) (remove1 a ready) (a # free)"
proof -
  obtain rd h where d: "dequeue (connect_ready s) a (clinks s) = (rd, h)" by force
  note L = free_connection_links[OF d]
  have q: "is_queue (clinks s) (connect_ready s) ready" and dist: "distinct (ready @ free)"
    using ok by (auto simp: pool_ok_def)
  have "is_queue h rd (remove1 a ready)" by (rule dequeue_refines[OF q a d])
  then have "is_queue (clinks (free_connection a s)) rd (remove1 a ready)"
    by (rule is_queue_frame) (use L dist in \<open>auto simp: in_set_remove1\<close>)
  moreover have "nxt (clinks (free_connection a s)) x = nxt (clinks s) x" if "x \<in> set free" for x
  proof -
    have "x \<noteq> a" "x \<notin> set ready" using that a dist by auto
    then show ?thesis using L(3)[of x] dequeue_frame[OF q a d, of x] by simp
  qed
  then have "fchain (clinks (free_connection a s)) (Some a) (a # free)"
    using ok fchain_cong[of free "clinks (free_connection a s)" "clinks s"] by (simp add: pool_ok_def)
  moreover have "length ready \<noteq> 0" using a by auto
  then have "connection_counter s - 1 \<le> int (length (remove1 a ready))"
    using ok a by (cases ready) (auto simp: pool_ok_def length_remove1)
  moreover have "malloc_fresh (free_connection a s) (set (remove1 a ready @ a # free))"
    using ok a set_remove1_subset[of a ready] by (auto simp: pool_ok_def malloc_fresh_def)
  ultimately show ?thesis using L(1) dist a by (auto simp: pool_ok_def in_set_remove1)
qed

text \<open>On a well-formed list the search ends.\<close>

lemma find_conn_list: "dseg h p xs None \<Longrightarrow> find_conn P h (first xs None) = Some (List.find P xs)"
proof (induction xs arbitrary: p)
  case Nil
  then show ?case by (subst find_conn.simps) simp
next
  case (Cons x xs)
  then show ?case using Cons.IH[of "Some x"] by (subst find_conn.simps) auto
qed

lemma find_conn_queue: "pool_ok s ready free \<Longrightarrow> find_conn P (clinks s) (connect_ready s) = Some (List.find P ready)"
  using find_conn_list[of "clinks s" None ready P] by (simp add: pool_ok_def is_queue_def)

subsection \<open>Who a connection belongs to\<close>

text \<open>Every ready connection belongs to an account of the table or is the guest connection.\<close>

fun owner_ok :: "auth_env \<Rightarrow> nat option \<Rightarrow> nat \<Rightarrow> cred \<Rightarrow> bool" where
  "owner_ok env guest a Guest \<longleftrightarrow> guest = Some a"
| "owner_ok env guest a (Account i) \<longleftrightarrow> i < length (accounts env)"

lemma owner_ok_no_guest: "owner_ok env None a c \<Longrightarrow> owner_ok env g a c"
  by (cases c) auto

definition auth_ok :: "auth_env \<Rightarrow> auth_state \<Rightarrow> nat list \<Rightarrow> nat list \<Rightarrow> bool" where
  "auth_ok env s ready free \<longleftrightarrow> pool_ok s ready free \<and> (\<forall>a \<in> set ready. owner_ok env (connect_guest s) a (user (conns s a))) \<and>
     (\<forall>g. connect_guest s = Some g \<longrightarrow> g \<in> set ready \<and> user (conns s g) = Guest)"

text \<open>A name and password match the account or the guest \<open>c\<close>; the guest counts while
  authentication is off, or its connection is still there.\<close>

definition matches :: "auth_env \<Rightarrow> bool \<Rightarrow> cstring \<Rightarrow> cstring \<Rightarrow> cred \<Rightarrow> bool" where
  "matches env guest_on name passwd c \<longleftrightarrow> account_matches name passwd (user_of env c) \<and>
     (case c of Guest \<Rightarrow> guest_on | Account i \<Rightarrow> i < length (accounts env))"

definition guest_on :: "auth_env \<Rightarrow> auth_state \<Rightarrow> bool" where
  "guest_on env s \<longleftrightarrow> user_auth_mode env = 0 \<or> connect_guest s \<noteq> None"

lemma find_account_correct:
  "find_account name passwd i us = Some j \<Longrightarrow> i \<le> j \<and> j < i + length us \<and> account_matches name passwd (us ! (j - i))"
proof (induction us arbitrary: i)
  case (Cons u us)
  show ?case
  proof (cases "account_matches name passwd u")
    case True
    with Cons.prems show ?thesis by simp
  next
    case False
    with Cons.prems have "find_account name passwd (Suc i) us = Some j" by simp
    from Cons.IH[OF this] have "Suc i \<le> j \<and> j < Suc i + length us \<and> account_matches name passwd (us ! (j - Suc i))" .
    moreover from this have "j - i = Suc (j - Suc i)" by (simp add: Suc_diff_Suc)
    ultimately show ?thesis by simp
  qed
qed simp

lemma find_account_None:
  "find_account name passwd i us = None \<longleftrightarrow> (\<forall>u \<in> set us. \<not> account_matches name passwd u)"
  by (induction us arbitrary: i) auto

lemma ensure_guest_ok:
  assumes "auth_ok env s ready free" "ensure_guest env s = (ok, s')"
  shows "\<exists>ready' free'. auth_ok env s' ready' free' \<and> (ok \<longrightarrow> (connect_guest s' \<noteq> None) = guest_on env s)"
proof (cases "connect_guest s = None \<and> user_auth_mode env = 0")
  case True
  obtain res s1 where a: "alloc_connection s = (res, s1)" by force
  have "pool_ok s ready free" using assms(1) by (simp add: auth_ok_def)
  note A = alloc_connection_ok[OF this a]
  show ?thesis
  proof (cases res)
    case None
    then have "auth_ok env s' ready free" "\<not> ok"
      using assms A a True by (auto simp: ensure_guest_def auth_ok_def)
    then show ?thesis by blast
  next
    case (Some b)
    have s': "s' = set_conn b (\<lambda>c. c\<lparr>user := Guest\<rparr>) (s1\<lparr>connect_guest := Some b\<rparr>)"
      using Some assms(2) a True by (simp add: ensure_guest_def)
    have "auth_ok env s' (b # ready) (remove1 b free)" "connect_guest s' = Some b"
      using assms(1) A True Some unfolding s' by (auto simp: auth_ok_def intro: owner_ok_no_guest)
    then show ?thesis using True by (auto simp: guest_on_def)
  qed
next
  case False
  then have "s' = s" "ok \<longrightarrow> (connect_guest s \<noteq> None) = guest_on env s"
    using assms by (auto simp: ensure_guest_def guest_on_def)
  then show ?thesis using assms(1) by blast
qed

lemma enter_connection_ok:
  assumes "auth_ok env s ready free" "enter_connection env a r s = (r', s')"
  shows "auth_ok env s' ready free" "authority r' = acc_authority (user_of env (user (conns s a)))"
  using assms by (auto simp: enter_connection_def auth_ok_def Let_def)

text \<open>A new connection for account \<open>i\<close>.\<close>

lemma new_account_ok:
  assumes "auth_ok env s ready free" "alloc_connection s = (Some a, s1)" "i < length (accounts env)"
  shows "auth_ok env (set_conn a (\<lambda>c. c\<lparr>user := Account i, ipaddr := ip\<rparr>) s1) (a # ready) (remove1 a free)"
  using assms(1,3) alloc_connection_ok[OF _ assms(2), of ready free]
  by (auto simp: auth_ok_def)

lemma auth_ok_syslog [simp]: "auth_ok env (s\<lparr>syslog := l\<rparr>) ready free = auth_ok env s ready free"
  by (simp add: auth_ok_def)

text \<open>The two ways in: a connection already there, and a new one.\<close>

lemma conn_matches_cred:
  assumes "auth_ok env s ready free" "a \<in> set ready" "conn_matches env name passwd r s a"
  shows "matches env (connect_guest s \<noteq> None) name passwd (user (conns s a))"
proof -
  have "owner_ok env (connect_guest s) a (user (conns s a))" using assms(1,2) by (simp add: auth_ok_def)
  then show ?thesis using assms(3)
    by (cases "user (conns s a)") (auto simp: conn_matches_def matches_def account_matches_def)
qed

lemma check_account_ok:
  assumes ok: "auth_ok env s ready free" and f: "find_account name passwd 0 (accounts env) = Some i"
    and a: "alloc_connection s = (Some a, s1)"
    and e: "enter_connection env a r (set_conn a (\<lambda>c. c\<lparr>user := Account i, ipaddr := ip\<rparr>) s1) = (r', s2)"
  shows "auth_ok env s2 (a # ready) (remove1 a free) \<and> matches env g name passwd (Account i) \<and>
     authority r' = acc_authority (user_of env (Account i))"
proof -
  have i: "i < length (accounts env)" "account_matches name passwd (accounts env ! i)"
    using find_account_correct[OF f] by auto
  note N = new_account_ok[OF ok a i(1)]
  show ?thesis using enter_connection_ok[OF N e] i by (simp add: matches_def user_of_def)
qed

subsection \<open>Properties of the user check\<close>

text \<open>
  The outcome of a check against the credentials \<open>name\<close> and \<open>passwd\<close>: access with the authority of an
  account (or the guest) that has exactly these, refusal without a change of the request only if there is none, or
  no connection left.
\<close>

definition checked :: "auth_env \<Rightarrow> bool \<Rightarrow> cstring \<Rightarrow> cstring \<Rightarrow> request \<Rightarrow> int \<Rightarrow> request \<Rightarrow> bool" where
  "checked env g name passwd r ret r' \<longleftrightarrow>
     ret = 0 \<and> (\<exists>c. matches env g name passwd c \<and> authority r' = acc_authority (user_of env c)) \<or>
     ret = ERROR_UNAUTHORIZED \<and> r' = r \<and> (\<forall>i. \<not> matches env g name passwd (Account i)) \<or>
     ret = ERROR_SERVICE_UNAVAILABLE \<and> r' = r"

lemma check_user_checked:
  assumes ok: "auth_ok env s ready free"
  shows "\<exists>ret r' s' ready' free'. check_user env name passwd r s = Some (ret, r', s') \<and>
     auth_ok env s' ready' free' \<and> checked env (guest_on env s) name passwd r ret r'"
proof -
  obtain b s1 where e: "ensure_guest env s = (b, s1)" by force
  then obtain rd fr where ok1: "auth_ok env s1 rd fr" and g: "b \<longrightarrow> (connect_guest s1 \<noteq> None) = guest_on env s"
    using ensure_guest_ok[OF ok] by blast
  have fc: "find_conn P (clinks s1) (connect_ready s1) = Some (List.find P rd)" for P
    using ok1 find_conn_queue[of s1 rd fr] by (simp add: auth_ok_def)
  consider (noguest) "\<not> b"
    | (known) a where "b" "List.find (conn_matches env name passwd r s1) rd = Some a"
    | (unknown) "b" "List.find (conn_matches env name passwd r s1) rd = None" "find_account name passwd 0 (accounts env) = None"
    | (account) i where "b" "List.find (conn_matches env name passwd r s1) rd = None" "find_account name passwd 0 (accounts env) = Some i"
    by (cases b; cases "List.find (conn_matches env name passwd r s1) rd"; cases "find_account name passwd 0 (accounts env)") auto
  then show ?thesis
  proof cases
    case noguest
    then show ?thesis using e ok1 by (auto simp: check_user_def checked_def)
  next
    case known
    obtain r' s2 where en: "enter_connection env a r s1 = (r', s2)" by force
    have "a \<in> set rd" "conn_matches env name passwd r s1 a" using known(2) by (auto simp: find_Some_iff)
    from conn_matches_cred[OF ok1 this] have "matches env (guest_on env s) name passwd (user (conns s1 a))"
      using g known(1) by simp
    then have "checked env (guest_on env s) name passwd r 0 r'"
      using enter_connection_ok(2)[OF ok1 en] by (auto simp: checked_def)
    moreover have "check_user env name passwd r s = Some (0, r', s2)"
      using e known fc en by (simp add: check_user_def)
    ultimately show ?thesis using enter_connection_ok(1)[OF ok1 en] by blast
  next
    case unknown
    have "\<not> matches env (guest_on env s) name passwd (Account i)" for i
      using unknown(3) nth_mem[of i "accounts env"] by (auto simp: matches_def user_of_def find_account_None)
    then show ?thesis using e unknown fc ok1 by (auto simp: check_user_def checked_def)
  next
    case account
    obtain res s2 where al: "alloc_connection s1 = (res, s2)" by force
    show ?thesis
    proof (cases res)
      case None
      have "auth_ok env s2 rd fr"
        using alloc_connection_ok[OF _ al, of rd fr] ok1 None by (auto simp: auth_ok_def)
      then show ?thesis using e account fc al None by (auto simp: check_user_def checked_def)
    next
      case (Some a)
      obtain r' s3 where en: "enter_connection env a r
          (set_conn a (\<lambda>c. c\<lparr>user := Account i, ipaddr := remote_ip r\<rparr>) s2) = (r', s3)" by force
      note C = check_account_ok[OF ok1 account(3) al[unfolded Some] en, of "guest_on env s"]
      have "check_user env name passwd r s = Some (0, r', s3\<lparr>syslog := (curr_user_ip r', curr_user_id r') # syslog s3\<rparr>)"
        using e account fc al Some en by (simp add: check_user_def)
      moreover have "checked env (guest_on env s) name passwd r 0 r'" using C by (auto simp: checked_def)
      ultimately show ?thesis using C auth_ok_syslog by blast
    qed
  qed
qed

subsection \<open>Base 64 against its standard\<close>

text \<open>The encoding of RFC 4648, which clients send.\<close>

definition rfc_alphabet :: "char list" where
  "rfc_alphabet = ''ABCDEFGHIJKLMNOPQRSTUVWXYZabcdefghijklmnopqrstuvwxyz0123456789+/''"

definition sextet :: "nat \<Rightarrow> char" where
  "sextet v = rfc_alphabet ! v"

fun rfc4648 :: "char list \<Rightarrow> cstring" where
  "rfc4648 [] = []"
| "rfc4648 [a] = [sextet (code a div 4), sextet (code a mod 4 * 16), CHR ''='', CHR ''='']"
| "rfc4648 [a, b] = [sextet (code a div 4), sextet (code a mod 4 * 16 + code b div 16),
     sextet (code b mod 16 * 4), CHR ''='']"
| "rfc4648 (a # b # c # cs) = [sextet (code a div 4), sextet (code a mod 4 * 16 + code b div 16),
     sextet (code b mod 16 * 4 + code c div 64), sextet (code c mod 64)] @ rfc4648 cs"

lemma sextet_table: "list_all (\<lambda>v. b64_val (sextet v) = Some v) [0..<63]"
  by (simp add: upt_conv_Cons sextet_def rfc_alphabet_def b64_val_def isupper_def islower_def isdigit_def)

lemma b64_val_sextet: "v < 64 \<Longrightarrow> sextet v \<noteq> CHR ''/'' \<Longrightarrow> b64_val (sextet v) = Some v"
proof -
  assume v: "v < 64" "sextet v \<noteq> CHR ''/''"
  have "sextet 63 = CHR ''/''" by code_simp
  with v have "v < 63" by (cases "v = 63") auto
  with sextet_table show ?thesis by (simp add: list_all_iff)
qed

lemma b64_flush_none: "bits < 8 \<Longrightarrow> b64_flush maxlen bitval bits out = (bitval, bits, out)"
  by (simp add: b64_flush.simps)

lemma b64_flush_one:
  "8 \<le> bits \<Longrightarrow> bits < 16 \<Longrightarrow> length out < maxlen \<Longrightarrow>
   b64_flush maxlen bitval bits out =
     (bitval mod 2 ^ (bits - 8), bits - 8, out @ [char_of (bitval div 2 ^ (bits - 8) mod 256)])"
  by (subst b64_flush.simps) (simp add: b64_flush_none)

text \<open>One sextet: with fewer than 8 bits it is kept, otherwise a byte is completed.\<close>

lemma b64_loop_sextet:
  assumes "v < 64" "sextet v \<noteq> CHR ''/''"
  shows "b64_loop m (x, 0, out) (sextet v # cs) = b64_loop m (x * 64 + v, 6, out) cs"
    and "2 \<le> bits \<Longrightarrow> bits < 8 \<Longrightarrow> length out < m \<Longrightarrow>
      b64_loop m (x, bits, out) (sextet v # cs) =
      b64_loop m ((x * 64 + v) mod 2 ^ (bits - 2), bits - 2, out @ [char_of ((x * 64 + v) div 2 ^ (bits - 2) mod 256)]) cs"
  using b64_val_sextet[OF assms] assms(1) by (simp_all add: b64_flush_none b64_flush_one)

lemma b64_loop_pad: "b64_loop m (x, bits, out) (CHR ''='' # cs) = b64_loop m (0, 0, out) cs"
  by (simp add: b64_val_def isupper_def islower_def isdigit_def b64_flush_none)

text \<open>The arithmetic of a group: the bytes come back.\<close>

lemma join_bits: "r < k \<Longrightarrow> (q * k + r) div k = q \<and> (q * k + r) mod k = (r :: nat)"
  by simp

lemma regroup:
  "(a :: nat) div 4 * 64 + (a mod 4 * 16 + y) = a * 16 + y" "a div 16 * 64 + (a mod 16 * 4 + y) = a * 4 + y"
proof -
  have "a div 4 * 64 + (a mod 4 * 16 + y) = (a div 4 * 4 + a mod 4) * 16 + y"
    "a div 16 * 64 + (a mod 16 * 4 + y) = (a div 16 * 16 + a mod 16) * 4 + y" by (simp_all only: algebra_simps)
  then show "a div 4 * 64 + (a mod 4 * 16 + y) = a * 16 + y" "a div 16 * 64 + (a mod 16 * 4 + y) = a * 4 + y"
    by (simp_all only: div_mult_mod_eq)
qed

declare b64_loop.simps(2) [simp del]

lemma code_div: "code c div 4 < 64" "code c div 16 < 16" "code c div 64 < 4"
proof -
  have "code c < 256" by simp
  then show "code c div 4 < 64" "code c div 16 < 16" "code c div 64 < 4" by (auto intro: less_mult_imp_div_less)
qed

lemma b64_loop_two:
  assumes "sextet (code a div 4) \<noteq> CHR ''/''" "sextet (code a mod 4 * 16 + y) \<noteq> CHR ''/''" "y < 16" "length out < m"
  shows "b64_loop m (0, 0, out) (sextet (code a div 4) # sextet (code a mod 4 * 16 + y) # cs) =
     b64_loop m (y, 4, out @ [a]) cs"
proof -
  have "code a mod 4 * 16 + y < 64" using assms(3) mod_less_divisor[of 4 "code a"] by linarith
  moreover note join_bits[OF assms(3), of "code a"]
  ultimately show ?thesis using assms by (simp add: b64_loop_sextet regroup code_div)
qed

lemma b64_loop_third:
  assumes "sextet (code b mod 16 * 4 + y) \<noteq> CHR ''/''" "y < 4" "length out < m"
  shows "b64_loop m (code b div 16, 4, out) (sextet (code b mod 16 * 4 + y) # cs) = b64_loop m (y, 2, out @ [b]) cs"
proof -
  have "code b mod 16 * 4 + y < 64" using assms(2) mod_less_divisor[of 16 "code b"] by linarith
  moreover note join_bits[OF assms(2), of "code b"]
  ultimately show ?thesis using assms by (simp add: b64_loop_sextet regroup)
qed

lemma b64_loop_fourth:
  assumes "sextet (code c mod 64) \<noteq> CHR ''/''" "length out < m"
  shows "b64_loop m (code c div 64, 2, out) (sextet (code c mod 64) # cs) = b64_loop m (0, 0, out @ [c]) cs"
  using assms by (simp add: b64_loop_sextet)

lemma b64_loop_rfc4648:
  "CHR ''/'' \<notin> set (rfc4648 xs) \<Longrightarrow> length out + length xs \<le> m \<Longrightarrow> b64_loop m (0, 0, out) (rfc4648 xs) = out @ xs"
proof (induction xs arbitrary: out rule: rfc4648.induct)
  case (2 a)
  then show ?case using b64_loop_two[of a 0 out m] by (auto simp: b64_loop_pad code_div)
next
  case (3 a b)
  then show ?case
    using b64_loop_two[of a "code b div 16" out m] b64_loop_third[of b 0 "out @ [a]" m]
    by (auto simp: b64_loop_pad code_div)
next
  case (4 a b c cs)
  then show ?case
    using b64_loop_two[of a "code b div 16" out m] b64_loop_third[of b "code c div 64" "out @ [a]" m]
      b64_loop_fourth[of c "out @ [a, b]" m]
    by (auto simp: code_div)
qed simp

lemma base64decode_rfc4648:
  assumes "CHR ''/'' \<notin> set (rfc4648 xs)" "length xs < m"
  shows "base64decode (rfc4648 xs) m = xs @ [NUL]"
  using b64_loop_rfc4648[OF assms(1), of "[]" m] assms(2) by (simp add: base64decode_def)

text \<open>The decoder never stores more than \<open>maxlen\<close> bytes.\<close>

lemma b64_flush_length: "length out \<le> m \<Longrightarrow> b64_flush m v b out = (v', b', out') \<Longrightarrow> length out' \<le> m"
proof (induction m v b out rule: b64_flush.induct)
  case (1 m v b out)
  then show ?case by (cases "8 \<le> b") (auto simp: b64_flush.simps[of m v b out] split: if_splits)
qed

lemma b64_loop_length: "length out \<le> m \<Longrightarrow> length (b64_loop m (v, b, out) cs) \<le> m"
proof (induction cs arbitrary: v b out)
  case (Cons c cs)
  show ?case
  proof (cases "b64_val c")
    case (Some x)
    obtain v' b' out' where f: "(if 64 \<le> x then b64_flush m 0 0 out else b64_flush m (v * 64 + x mod 64) (b + 6) out) = (v', b', out')"
      by (metis prod_cases3)
    then have "length out' \<le> m" using Cons.prems b64_flush_length by (metis (no_types, lifting))
    then show ?thesis using Cons.IH Some f by (simp add: b64_loop.simps(2))
  qed (use Cons in \<open>simp add: b64_loop.simps(2)\<close>)
qed simp

lemma base64decode_length: "length (base64decode src m) \<le> m"
  using b64_loop_length[of "[]" m 0 0 src] by (simp add: base64decode_def Let_def)

subsection \<open>Properties\<close>

text \<open>The credentials a request presents, once its query is decoded: those of the \<open>login\<close> argument, of the
  authorization header, or the guest's.\<close>

definition split_pair :: "cstring \<Rightarrow> (cstring \<times> cstring) option" where
  "split_pair p = map_option (\<lambda>rest. (before (CHR '':'') p, tl rest)) (strchr (CHR '':'') p)"

definition presented :: "char list \<Rightarrow> http_uri_entry \<Rightarrow> request \<Rightarrow> (cstring \<times> cstring) option" where
  "presented stack u r =
    (case (if has_flag u URI_FLAG_CHECK_LOGIN then find_login 0 (cmd_arg r) else None) of
       Some i \<Rightarrow> split_pair (case arg_value (cmd_arg r ! i) of Some v \<Rightarrow> v | None \<Rightarrow> [])
     | None \<Rightarrow>
        (case authorization r of
           None \<Rightarrow> Some (''guest'', '''')
         | Some au \<Rightarrow> if strncaseeq 6 au ''Basic '' then split_pair (cstr (base64decode (drop 6 au) 256 @ stack)) else None))"

definition decoded_query :: "char list \<Rightarrow> http_uri_entry \<Rightarrow> request \<Rightarrow> (int \<times> request) option" where
  "decoded_query behind u r =
    (if has_flag u URI_FLAG_CHECK_LOGIN then uri_decoding (map_option (\<lambda>q. q @ NUL # behind) (query_string r)) r
     else Some (0, r))"

text \<open>Access is granted only for credentials \<open>cr\<close> that match.\<close>

definition grants :: "auth_env \<Rightarrow> bool \<Rightarrow> (cstring \<times> cstring) option \<Rightarrow> int \<Rightarrow> request \<Rightarrow> bool" where
  "grants env g cr ret r' \<longleftrightarrow> (ret = 0 \<longrightarrow> (\<exists>name pwd c. cr = Some (name, pwd) \<and> matches env g name pwd c \<and>
     authority r' = acc_authority (user_of env c)))"

definition returns_granted ::
  "auth_env \<Rightarrow> bool \<Rightarrow> (cstring \<times> cstring) option \<Rightarrow> (int \<times> request \<times> auth_state) option \<Rightarrow> bool" where
  "returns_granted env g cr res \<longleftrightarrow> (\<exists>ret r' s' ready' free'. res = Some (ret, r', s') \<and> auth_ok env s' ready' free' \<and>
     grants env g cr ret r')"

lemma refused_granted: "auth_ok env s ready free \<Longrightarrow> ret \<noteq> 0 \<Longrightarrow> returns_granted env g cr (Some (ret, r, s))"
  by (auto simp: returns_granted_def grants_def)

lemma check_user_granted:
  assumes "auth_ok env s ready free"
  shows "returns_granted env (guest_on env s) (Some (name, pwd)) (check_user env name pwd r s)"
proof -
  obtain ret r' s' rd fr where c: "check_user env name pwd r s = Some (ret, r', s')" "auth_ok env s' rd fr"
      "checked env (guest_on env s) name pwd r ret r'" using check_user_checked[OF assms] by blast
  then have "grants env (guest_on env s) (Some (name, pwd)) ret r'" by (auto simp: checked_def grants_def)
  with c show ?thesis by (auto simp: returns_granted_def)
qed

lemma check_pair_granted:
  assumes "auth_ok env s ready free"
  shows "returns_granted env (guest_on env s) (split_pair pair) (check_pair env pair r s)"
  using check_user_granted[OF assms] refused_granted[OF assms]
  by (auto simp: check_pair_def split_pair_def Let_def split: option.splits)

lemma auth_authorize_granted:
  assumes ok: "auth_ok env s ready free" and u: "http_uri r = Some u"
    and d: "decoded_query behind u r = Some (dec, r1)"
  shows "returns_granted env (guest_on env s) (presented stack u r1) (auth_authorize env behind stack r s)"
proof (cases "dec < 0")
  case True
  then have "auth_authorize env behind stack r s = Some (ERROR_BAD_REQUEST, r1, s)"
    using u d by (simp add: auth_authorize_def decoded_query_def)
  then show ?thesis using refused_granted[OF ok] by simp
next
  case False
  note run = auth_authorize_def[of env behind stack r s] presented_def[of stack u r1]
  show ?thesis using u d False unfolding run decoded_query_def
    by (auto simp: Let_def intro: check_pair_granted[OF ok] check_user_granted[OF ok] refused_granted[OF ok]
        split: option.splits)
qed

text \<open>
  C2: No access without credentials. When \<open>auth_authorize\<close> lets a request through, the credentials the
  request presents (a \<open>login\<close> argument of its decoded query where the page allows one, otherwise its Basic
  authorization header, otherwise the guest's) are exactly those of one account of the table, or of the
  guest while authentication is off or a guest connection is left; the authority recorded in
  the request is the authority of that account. The call returns whenever the query can be decoded,
  and keeps the connection lists well formed.
\<close>

theorem auth_authorize_sound:
  assumes ok: "auth_ok env s ready free" and u: "http_uri r = Some u"
    and d: "decoded_query behind u r = Some (dec, r1)"
  shows "\<exists>ret r' s' ready' free'. auth_authorize env behind stack r s = Some (ret, r', s') \<and>
     auth_ok env s' ready' free' \<and>
     (ret = 0 \<longrightarrow> (\<exists>name pwd c. presented stack u r1 = Some (name, pwd) \<and> matches env (guest_on env s) name pwd c \<and>
        authority r' = acc_authority (user_of env c)))"
  using auth_authorize_granted[OF assms, of stack] unfolding returns_granted_def grants_def .

definition boot_auth :: auth_state where
  "boot_auth = \<lparr>conns = (\<lambda>_. \<lparr>user = Guest, ipaddr = 0, conn_time = 0, counter = 0, revoke = False\<rparr>),
     clinks = \<lparr>nxt = (\<lambda>_. None), prv = (\<lambda>_. None)\<rparr>, connect_guest = None, connect_ready = None,
     connect_free = None, connection_counter = 0, malloc_next = map Some [20..<40], syslog = []\<rparr>"

lemma boot_auth_ok: "auth_ok env boot_auth [] []"
  by (simp add: boot_auth_def auth_ok_def pool_ok_def is_queue_def malloc_fresh_def filter_id_conv distinct_map)

definition sample_auth :: auth_env where
  "sample_auth = \<lparr>accounts = [\<lparr>acc_name = ''admin'', acc_passwd = ''x1'', acc_authority = 1\<rparr>], user_auth_mode = 1,
     viewer_authority = 3, max_user_size = 20, max_pass_size = 20\<rparr>"

definition sample_page :: http_uri_entry where
  "sample_page = \<lparr>uri_name = ''/a.cgi'', uri_handler = None, uri_authority = 1, uri_flag = 0\<rparr>"

definition login_request :: "cstring \<Rightarrow> request" where
  "login_request au = fresh\<lparr>http_uri := Some sample_page, authorization := Some au\<rparr>"

theorem auth_authorize_sound_witness:
  "auth_ok sample_auth boot_auth [] [] \<and>
   (\<exists>ret r' s'. auth_authorize sample_auth [] [] (login_request ''Basic YWRtaW46eDE='') boot_auth = Some (ret, r', s') \<and>
     (ret = 0 \<longrightarrow> (\<exists>name pwd c. presented [] sample_page (login_request ''Basic YWRtaW46eDE='') = Some (name, pwd) \<and>
        matches sample_auth (guest_on sample_auth boot_auth) name pwd c)))"
proof -
  have "decoded_query [] sample_page (login_request ''Basic YWRtaW46eDE='') = Some (0, login_request ''Basic YWRtaW46eDE='')"
    "http_uri (login_request ''Basic YWRtaW46eDE='') = Some sample_page"
    by (simp_all add: decoded_query_def has_flag_def sample_page_def login_request_def)
  then show ?thesis
    using auth_authorize_sound[OF boot_auth_ok, of "login_request ''Basic YWRtaW46eDE=''" sample_page "[]" 0 _ sample_auth "[]"]
      boot_auth_ok[of sample_auth] by blast
qed

text \<open>
  C36: The right password opens the door. A request whose authorization header is the RFC 4648
  encoding of \<open>name:password\<close> of an account (in any case of the name) is let through, or answered that no connection is available,
  never refused; for pairs that fit the local buffer, and whose encoding has no slash.
\<close>

theorem basic_login_accepted:
  assumes ok: "auth_ok env s ready free" and u: "http_uri r = Some u" "\<not> has_flag u URI_FLAG_CHECK_LOGIN"
    and i: "i < length (accounts env)" "strcaseeq name (acc_name (accounts env ! i))" "pwd = acc_passwd (accounts env ! i)"
    and chars: "nul_free name" "nul_free pwd" "CHR '':'' \<notin> set name"
    and fit: "length name \<le> max_user_size env" "length pwd \<le> max_pass_size env" "length name + length pwd < 255"
    and enc: "authorization r = Some (''Basic '' @ rfc4648 (name @ '':'' @ pwd))"
      "CHR ''/'' \<notin> set (rfc4648 (name @ '':'' @ pwd))"
  shows "\<exists>ret r' s'. auth_authorize env behind stack r s = Some (ret, r', s') \<and> ret \<in> {0, ERROR_SERVICE_UNAVAILABLE}"
proof -
  have dec: "cstr (base64decode (rfc4648 (name @ '':'' @ pwd)) 256 @ stack) = name @ '':'' @ pwd"
    using base64decode_rfc4648[OF enc(2), of 256] fit(3) cstr_append_NUL[of "name @ '':'' @ pwd" stack] chars by simp
  have sp: "strchr (CHR '':'') (name @ '':'' @ pwd) = Some ('':'' @ pwd)" "before (CHR '':'') (name @ '':'' @ pwd) = name"
    using chars(3) by (induction name) (auto simp: before_def)
  have m: "matches env (guest_on env s) name pwd (Account i)"
    using i by (simp add: matches_def account_matches_def user_of_def)
  have run: "auth_authorize env behind stack r s = check_user env name pwd r s"
    using u enc(1) fit sp dec by (simp add: auth_authorize_def strncaseeq_def check_pair_def Let_def)
  obtain ret r' s' where c: "check_user env name pwd r s = Some (ret, r', s')" "checked env (guest_on env s) name pwd r ret r'"
    using check_user_checked[OF ok, of name pwd r] by blast
  then have "ret \<in> {0, ERROR_SERVICE_UNAVAILABLE}" using m unfolding checked_def by blast
  with c(1) run show ?thesis by simp
qed

theorem basic_login_accepted_witness:
  "\<exists>ret r' s'. auth_authorize sample_auth [] [] (login_request (''Basic '' @ rfc4648 ''Admin:x1'')) boot_auth = Some (ret, r', s') \<and>
     ret \<in> {0, ERROR_SERVICE_UNAVAILABLE}"
proof -
  have "CHR ''/'' \<notin> set (rfc4648 (''Admin'' @ '':'' @ ''x1''))"
    by (simp add: sextet_def rfc_alphabet_def)
  moreover have "strcaseeq ''Admin'' (acc_name (accounts sample_auth ! 0))" by code_simp
  moreover have "acc_passwd (accounts sample_auth ! 0) = ''x1''" "0 < length (accounts sample_auth)"
    "length ''Admin'' \<le> max_user_size sample_auth" "length ''x1'' \<le> max_pass_size sample_auth"
    by (simp_all add: sample_auth_def)
  moreover have "http_uri (login_request au) = Some sample_page" "authorization (login_request au) = Some au" for au
    by (simp_all add: login_request_def)
  moreover have "\<not> has_flag sample_page URI_FLAG_CHECK_LOGIN" by (simp add: sample_page_def has_flag_def)
  moreover have "''Admin'' @ '':'' @ ''x1'' = ''Admin:x1''" by simp
  ultimately show ?thesis
    by (intro basic_login_accepted[OF boot_auth_ok, of _ sample_page 0 sample_auth "''Admin''" "''x1''"])
      (simp_all del: rfc4648.simps)
qed

text \<open>
  A password whose RFC 4648 encoding contains a slash is refused. The decoder gives the value 63
  to the minus sign and skips the slash, so the header of the user \<open>admin\<close> with the correct password
  \<open>x??\<close> decodes to something else.
\<close>

theorem base64_slash_dropped:
  "rfc4648 ''admin:x??'' = ''YWRtaW46eD8/'' \<and>
   cstr (base64decode (rfc4648 ''admin:x??'') 256) = ''admin:x?'' \<and>
   cstr (base64decode ''YWRtaW46eD8-'' 256) = ''admin:x??''"
proof -
  have "rfc4648 ''admin:x??'' = ''YWRtaW46eD8/''" by (simp add: sextet_def rfc_alphabet_def)
  moreover have "cstr (base64decode ''YWRtaW46eD8/'' 256) = ''admin:x?''"
    "cstr (base64decode ''YWRtaW46eD8-'' 256) = ''admin:x??''"
    by (simp_all add: base64decode_def b64_loop.simps b64_val_def isupper_def islower_def isdigit_def b64_flush.simps) code_simp+
  ultimately show ?thesis by simp
qed

subsection \<open>Expiry and the number of connections\<close>

lemma expire_step:
  "expired env second s a \<Longrightarrow>
   expire_loop (Suc n) env second (Some a) s = expire_loop n env second (connect_free s) (free_connection a s)"
  by (simp add: Let_def)

lemma expired_free_connection: "expired env second s b \<Longrightarrow> expired env second (free_connection a s) b"
  by (auto simp: expired_def)

text \<open>
  The expiry of idle connections hangs the server. \<open>free_connection\<close> links the connection into the
  free list through the same \<open>next\<close> that the loop then follows. Whenever a connection
  expires while the first free connection is itself past its time limit, the loop goes back and forth between the two for ever,
  whatever the rest of the state: no number of rounds is enough.
\<close>

theorem expire_loop_never_ends:
  assumes "expired env second s a" "connect_free s = Some b" "expired env second s b"
  shows "expire_loop n env second (Some a) s = None"
  using assms
proof (induction n arbitrary: a b s)
  case (Suc n)
  have "expire_loop (Suc n) env second (Some a) s = expire_loop n env second (Some b) (free_connection a s)"
    using expire_step[OF Suc.prems(1)] Suc.prems(2) by simp
  also have "\<dots> = None" using Suc.prems by (intro Suc.IH[of _ b a]) (auto intro: expired_free_connection)
  finally show ?case .
qed simp

text \<open>Two users log in from different addresses at times 0 and 200; their requests end; the first
  connection expires at time 301, the second is due at 501.\<close>

definition login :: "int \<Rightarrow> nat \<Rightarrow> auth_state \<Rightarrow> auth_state" where
  "login now ip s = (case check_user sample_auth ''admin'' ''x1'' (fresh\<lparr>time_last := now, remote_ip := ip\<rparr>) s of
     Some (_, r, s1) \<Rightarrow> (case connect r of Some a \<Rightarrow> set_conn a (\<lambda>c. c\<lparr>counter := counter c - 1, conn_time := now\<rparr>) s1 | None \<Rightarrow> s1)
   | None \<Rightarrow> s)"

definition two_logins :: auth_state where
  "two_logins = login 200 11 (login 0 10 boot_auth)"

lemmas login_eval = two_logins_def login_def check_user_def ensure_guest_def find_conn.simps boot_auth_def
  find_account.simps account_matches_def conn_matches_def user_of_def alloc_connection_def link_ready_def
  enter_connection_def set_conn_def set_next_def set_prev_def sample_auth_def MAX_CONNECTION_def
  strcaseeq_def fresh_def zero_request_def Let_def

lemma two_logins_state:
  "connect_ready two_logins = Some 21" "connect_free two_logins = None" "connect_guest two_logins = None"
  "nxt (clinks two_logins) 21 = Some 20" "nxt (clinks two_logins) 20 = None" "prv (clinks two_logins) 20 = Some 21"
  "prv (clinks two_logins) 21 = None" "counter (conns two_logins 20) = 0" "counter (conns two_logins 21) = 0"
  "conn_time (conns two_logins 20) = 0" "conn_time (conns two_logins 21) = 200"
  by (simp_all add: login_eval upt_conv_Cons)

theorem expire_loop_never_ends_witness:
  "\<exists>s1. expire_loop 2 sample_auth 301 (connect_ready two_logins) two_logins = Some s1 \<and>
     (\<forall>n. expire_loop n sample_auth 501 (connect_ready s1) s1 = None)"
proof -
  let ?s = "free_connection 20 two_logins"
  have e: "\<not> expired sample_auth 301 two_logins 21" "expired sample_auth 301 two_logins 20"
    by (simp_all add: expired_def two_logins_state HTTP_CONNECTION_TIMEOUT_def)
  have "expire_loop 2 sample_auth 301 (connect_ready two_logins) two_logins = Some ?s"
    by (simp add: two_logins_state e numeral_2_eq_2 Let_def)
  moreover have "connect_ready ?s = Some 21" by (simp add: free_connection_def two_logins_state Let_def)
  moreover have "expired sample_auth 501 ?s 21" "connect_free ?s = Some 20" "expired sample_auth 501 ?s 20"
    by (simp_all add: expired_def two_logins_state HTTP_CONNECTION_TIMEOUT_def)
  then have "expire_loop n sample_auth 501 (Some 21) ?s = None" for n by (rule expire_loop_never_ends)
  ultimately show ?thesis by auto
qed

lemma expire_loop_list:
  assumes "dseg (clinks s) p xs None" "connect_free s = None" "length xs \<le> n"
  shows "expire_loop n env second (first xs None) s =
    Some (case List.find (expired env second s) xs of None \<Rightarrow> s | Some a \<Rightarrow> free_connection a s)"
  using assms(1,3)
proof (induction xs arbitrary: p n)
  case (Cons x xs)
  then obtain m where n: "n = Suc m" "length xs \<le> m" by (cases n) auto
  show ?case
  proof (cases "expired env second s x")
    case True
    then show ?thesis using assms(2) n by (simp add: Let_def)
  next
    case False
    then show ?thesis using Cons.IH[of "Some x" m] Cons.prems n by (simp add: Let_def)
  qed
qed simp



fun alloc_many :: "nat \<Rightarrow> auth_state \<Rightarrow> auth_state" where
  "alloc_many 0 s = s"
| "alloc_many (Suc n) s = alloc_many n (snd (alloc_connection s))"

lemma alloc_many_counts:
  assumes "pool_ok s ready []" "malloc_next s = map Some as" "n \<le> length as" "connection_counter s + int n \<le> MAX_CONNECTION"
  shows "\<exists>ready'. pool_ok (alloc_many n s) ready' [] \<and> length ready' = length ready + n \<and>
     connection_counter (alloc_many n s) = connection_counter s + int n"
  using assms
proof (induction n arbitrary: s ready as)
  case (Suc n)
  obtain a as' where as: "as = a # as'" using Suc.prems(3) by (cases as) auto
  have "connect_free s = None" using Suc.prems(1) by (simp add: pool_ok_def)
  then have al: "alloc_connection s = (Some a, link_ready a
      (s\<lparr>malloc_next := map Some as', connection_counter := connection_counter s + 1\<rparr>))" (is "_ = (_, ?s)")
    using Suc.prems(2,4) as by (simp add: alloc_connection_def)
  have "pool_ok ?s (a # ready) []" using alloc_connection_ok[OF Suc.prems(1) al] by simp
  from Suc.IH[OF this, of as'] show ?case using Suc.prems(3,4) as al by auto
qed auto

text \<open>A client that logs in and out \<open>k\<close> more times, always on the one free structure.\<close>

fun churn :: "nat \<Rightarrow> auth_state \<Rightarrow> auth_state" where
  "churn 0 s = s"
| "churn (Suc k) s = churn k (free_connection 20 (snd (alloc_connection s)))"

lemma churn_counts:
  assumes "pool_ok s [] [20]"
  shows "pool_ok (churn k s) [] [20]" "connection_counter (churn k s) = connection_counter s - int k"
    "malloc_next (churn k s) = malloc_next s"
proof -
  have "pool_ok (churn k s) [] [20] \<and> connection_counter (churn k s) = connection_counter s - int k \<and>
    malloc_next (churn k s) = malloc_next s"
    using assms
  proof (induction k arbitrary: s)
    case (Suc k)
    have "connect_free s = Some 20" using Suc.prems by (simp add: pool_ok_def)
    then have al: "alloc_connection s = (Some 20, link_ready 20 (s\<lparr>connect_free := nxt (clinks s) 20\<rparr>))" (is "_ = (_, ?s)")
      by (simp add: alloc_connection_def)
    have "pool_ok ?s [20] []" using alloc_connection_ok[OF Suc.prems al] by simp
    then have "pool_ok (free_connection 20 ?s) [] [20]" using free_connection_ok[of ?s "[20]" "[]" 20] by simp
    from Suc.IH[OF this] show ?case using al by simp
  qed simp
  then show "pool_ok (churn k s) [] [20]" "connection_counter (churn k s) = connection_counter s - int k"
    "malloc_next (churn k s) = malloc_next s" by simp_all
qed

text \<open>
  The limit of \<open>MAX_CONNECTION\<close> connections does not hold. A connection taken from the free list is not
  counted, one that is freed always is, so the counter falls behind the number of connections by one
  with every login that reuses a structure: after \<open>k\<close> further logins and logouts \<open>11 + k\<close> connections can be open at once.
\<close>

theorem connection_limit_exceeded:
  "\<exists>ready. pool_ok (alloc_many (11 + k)
       (churn k (free_connection 20 (alloc_many 1 (boot_auth\<lparr>malloc_next := map Some [20..<40 + k]\<rparr>))))) ready [] \<and>
     int (length ready) = MAX_CONNECTION + 1 + int k"
proof -
  let ?b = "boot_auth\<lparr>malloc_next := map Some [20..<40 + k]\<rparr>"
  have b: "pool_ok ?b [] []" by (simp add: boot_auth_def pool_ok_def is_queue_def malloc_fresh_def filter_id_conv distinct_map)
  have al: "alloc_connection ?b = (Some 20, link_ready 20 (?b\<lparr>malloc_next := map Some [21..<40 + k], connection_counter := 1\<rparr>))"
    (is "_ = (_, ?s)") by (simp add: alloc_connection_def upt_conv_Cons boot_auth_def MAX_CONNECTION_def)
  have "pool_ok ?s [20] []" using alloc_connection_ok[OF b al] by simp
  then have f: "pool_ok (free_connection 20 ?s) [] [20]" using free_connection_ok[of ?s "[20]" "[]" 20] by simp
  let ?c = "churn k (free_connection 20 ?s)"
  have c: "pool_ok ?c [] [20]" "connection_counter ?c = - int k" "malloc_next ?c = map Some [21..<40 + k]"
    using churn_counts[OF f, of k] by simp_all
  have "connect_free ?c = Some 20" using c(1) by (simp add: pool_ok_def)
  then have al2: "alloc_connection ?c = (Some 20, link_ready 20 (?c\<lparr>connect_free := nxt (clinks ?c) 20\<rparr>))" (is "_ = (_, ?d)")
    by (simp add: alloc_connection_def)
  have "pool_ok ?d [20] []" using alloc_connection_ok[OF c(1) al2] by simp
  from alloc_many_counts[OF this, of "[21..<40 + k]" "10 + k"] c
  obtain ready where "pool_ok (alloc_many (10 + k) ?d) ready []" "length ready = 11 + k"
    by (auto simp: MAX_CONNECTION_def)
  moreover have "alloc_many (11 + k) ?c = alloc_many (10 + k) ?d"
    using al2 alloc_many.simps(2)[of "10 + k" ?c] by simp
  moreover have "alloc_many 1 ?b = ?s" using al by simp
  ultimately show ?thesis by (auto simp: MAX_CONNECTION_def)
qed

end
