(* ===== verification/Boa_Dispatch.thy ===== *)
theory Boa_Dispatch
  imports Hash_Table Boa_Response Boa_Cgi "HOL-Library.Word"
begin

text \<open>
  The dispatch tables of the camera's pages and commands: the table of URIs (\<^verbatim>\<open>request.c\<close>), of the commands of
  the query string (\<^verbatim>\<open>appro_api.c\<close>) and of the page arguments (\<^verbatim>\<open>web_translate.c\<close>), the loops that run the
  commands of a query, the lists of commands and arguments they print, and the pages that call
  them.

  The three tables are the same code three times. Their entries are arguments of the model: the
  lists \<open>HttpUri\<close>, \<open>HttpOptionTable\<close> and \<open>HttpArgument\<close> depend on the build configuration, which is not part of the
  repository. A handler is named by a number and run by an argument function on the request and the rest of the
  system (\<open>'w\<close>).
\<close>

subsection \<open>Hash tables\<close>

definition MAX_CMD_HASH_SIZE :: nat where "MAX_CMD_HASH_SIZE = 64"

definition hash_cal_value :: "cstring \<Rightarrow> 32 word" where
  "hash_cal_value name = foldl (\<lambda>value c. value * 37 + of_nat (code c)) 0 name"

definition hash_bucket :: "cstring \<Rightarrow> nat" where
  "hash_bucket name = unat (hash_cal_value name) mod MAX_CMD_HASH_SIZE"

lemma hash_bucket_less: "hash_bucket name < MAX_CMD_HASH_SIZE"
  by (simp add: hash_bucket_def MAX_CMD_HASH_SIZE_def)

record http_option =
  opt_name :: cstring
  opt_handler :: nat
  opt_authority :: int
  opt_flag :: nat

definition API_VIDEO :: nat where "API_VIDEO = 2"

definition hash_insert_entry :: "http_option \<Rightarrow> http_option list list \<Rightarrow> http_option list list" where
  "hash_insert_entry op tab = (let b = hash_bucket (opt_name op) in tab[b := op # tab ! b])"

definition hash_table_init :: "http_option list \<Rightarrow> http_option list list" where
  "hash_table_init opts = fold hash_insert_entry opts (replicate MAX_CMD_HASH_SIZE [])"

definition http_option_search :: "cstring \<Rightarrow> http_option list list \<Rightarrow> http_option option" where
  "http_option_search arg tab = find (\<lambda>opt. opt_name opt = arg) (tab ! hash_bucket arg)"

definition uri_hash_insert_entry :: "http_uri_entry \<Rightarrow> http_uri_entry list list \<Rightarrow> http_uri_entry list list" where
  "uri_hash_insert_entry u tab = (let b = hash_bucket (uri_name u) in tab[b := u # tab ! b])"

definition uri_hash_table_init :: "http_uri_entry list \<Rightarrow> http_uri_entry list list" where
  "uri_hash_table_init uris = fold uri_hash_insert_entry uris (replicate MAX_CMD_HASH_SIZE [])"

definition uri_search :: "http_uri_entry list list \<Rightarrow> cstring \<Rightarrow> http_uri_entry option" where
  "uri_search tab arg = find (\<lambda>u. strcaseeq (uri_name u) arg) (tab ! hash_bucket arg)"

record html_argument =
  harg_name :: cstring
  harg_handler :: "nat option"
  harg_authority :: int

definition arg_hash_insert_entry :: "html_argument \<Rightarrow> html_argument list list \<Rightarrow> html_argument list list" where
  "arg_hash_insert_entry a tab = (let b = hash_bucket (harg_name a) in tab[b := a # tab ! b])"

definition arg_hash_table_init :: "html_argument list \<Rightarrow> html_argument list list" where
  "arg_hash_table_init args = fold arg_hash_insert_entry args (replicate MAX_CMD_HASH_SIZE [])"

definition arg_search :: "cstring \<Rightarrow> html_argument list list \<Rightarrow> html_argument option" where
  "arg_search para tab = find (\<lambda>a. strcaseeq (harg_name a) para) (tab ! hash_bucket para)"

text \<open>
  \<open>TranslateWebPara\<close>: the value returned and the bytes the handler stored at the target. Calling the
  null pointer is \<open>None\<close>.
\<close>

definition TranslateWebPara ::
  "(nat \<Rightarrow> cstring \<Rightarrow> request \<Rightarrow> int \<times> char list) \<Rightarrow> html_argument list list \<Rightarrow> request \<Rightarrow> cstring \<Rightarrow> cstring \<Rightarrow>
   (int \<times> char list) option" where
  "TranslateWebPara handler tab r para subpara =
    (case arg_search para tab of
       None \<Rightarrow> Some (- 1, [])
     | Some a \<Rightarrow>
        if authority r > harg_authority a then Some (- 1, [])
        else map_option (\<lambda>h. handler h subpara r) (harg_handler a))"

subsection \<open>Running the commands of a query\<close>

definition lower_ascii :: "nat list" where
  "lower_ascii = [0..<65] @ [97..<123] @ [91..<256]"

definition strtolower :: "cstring \<Rightarrow> cstring" where
  "strtolower s = map (\<lambda>c. char_of (lower_ascii ! code c)) s"

text \<open>The file-scope variables of the commands: the bottom half to run, and the calls of \<open>exec_ntpd\<close>.\<close>

record 'w cmd_world =
  ntpd_restart :: bool
  ntpd_execs :: nat
  outer :: 'w

type_synonym 'w handlers = "nat \<Rightarrow> nat \<Rightarrow> request \<times> 'w cmd_world \<Rightarrow> request \<times> 'w cmd_world"

definition process_bottom_half :: "'w cmd_world \<Rightarrow> 'w cmd_world" where
  "process_bottom_half w = (if ntpd_restart w then w\<lparr>ntpd_execs := ntpd_execs w + 1, ntpd_restart := False\<rparr> else w)"

definition lower_name :: "nat \<Rightarrow> request \<Rightarrow> request" where
  "lower_name i r =
     r\<lparr>cmd_arg := (cmd_arg r)[i := (cmd_arg r ! i)\<lparr>arg_name := strtolower (arg_name (cmd_arg r ! i))\<rparr>]\<rparr>"

definition has_value :: "command_argument \<Rightarrow> bool" where
  "has_value a \<longleftrightarrow> arg_value a \<noteq> None \<and> arg_value a \<noteq> Some []"

text \<open>One round of the loop of \<open>http_run_command\<close>, for argument \<open>i\<close>; \<open>restarting\<close>: the video server is.
  A handler gets the number of its argument, which it reads from the request.\<close>

definition run_one :: "http_option list list \<Rightarrow> bool \<Rightarrow> 'w handlers \<Rightarrow> nat \<Rightarrow> request \<times> 'w cmd_world \<Rightarrow> request \<times> 'w cmd_world" where
  "run_one tab restarting run i st =
    (let r = lower_name i (fst st); w = snd st; name = arg_name (cmd_arg r ! i) in
     case http_option_search name tab of
       None \<Rightarrow> (emit [Txt ''UW '', Txt name] r, w)
     | Some opt \<Rightarrow>
        if authority r \<le> opt_authority opt then
          (if bit (opt_flag opt) API_VIDEO \<and> restarting \<and> has_value (cmd_arg r ! i)
           then (emit [Txt ''NG '', Txt name] r, w)
           else run (opt_handler opt) i (r, w))
        else (emit [Txt ''UA '', Txt name] r, w))"

definition http_run_command ::
  "conf \<Rightarrow> http_option list list \<Rightarrow> bool \<Rightarrow> 'w handlers \<Rightarrow> nat \<Rightarrow> request \<times> 'w cmd_world \<Rightarrow> request \<times> 'w cmd_world" where
  "http_run_command cfg tab restarting run num st =
    (case fold (run_one tab restarting run) [0..<num] (send_request_ok_api cfg (fst st), snd st) of
       (r, w) \<Rightarrow> (snd (req_copy [NUL] r), process_bottom_half w))"

definition run_dlink_one ::
  "http_option list list \<Rightarrow> int \<Rightarrow> 'w handlers \<Rightarrow> nat \<Rightarrow> request \<times> 'w cmd_world \<Rightarrow> request \<times> 'w cmd_world" where
  "run_dlink_one tab auth run i st =
    (let r = lower_name i (fst st); w = snd st; name = arg_name (cmd_arg r ! i) in
     case http_option_search name tab of
       None \<Rightarrow> (emit [Txt ''UW '', Txt name, Txt [LF]] r, w)
     | Some opt \<Rightarrow>
        if auth \<le> opt_authority opt then run (opt_handler opt) i (r, w)
        else (emit [Txt ''UA '', Txt name, Txt [LF]] r, w))"

definition http_run_dlink_command ::
  "http_option list list \<Rightarrow> 'w handlers \<Rightarrow> nat \<Rightarrow> request \<times> 'w cmd_world \<Rightarrow> request \<times> 'w cmd_world" where
  "http_run_dlink_command tab run num st = fold (run_dlink_one tab (authority (fst st)) run) [0..<num] st"

text \<open>The command \<open>getauthority\<close>: \<open>None\<close> when it follows the null pointer.\<close>

definition get_authority :: "http_option list list \<Rightarrow> nat \<Rightarrow> request \<Rightarrow> request option" where
  "get_authority tab i r =
    (let a = cmd_arg r ! i in
     map_option (\<lambda>opt. append_to_buffer (''OK '' @ arg_name a @ ''='' @ show_int (opt_authority opt) @ [LF]) r)
       (http_option_search (case arg_value a of Some v \<Rightarrow> v | None \<Rightarrow> []) tab))"

subsection \<open>Lists of commands and arguments\<close>

definition pad_left :: "nat \<Rightarrow> char \<Rightarrow> cstring \<Rightarrow> cstring" where
  "pad_left w c s = replicate (w - length s) c @ s"

definition pad_right :: "nat \<Rightarrow> cstring \<Rightarrow> cstring" where
  "pad_right w s = s @ replicate (w - length s) SP"

definition NOT_ENOUGH :: cstring where "NOT_ENOUGH = ''Not enogh size to show''"

text \<open>The loops over the tables; \<open>count\<close> entries listed, \<open>out\<close> printed so far.\<close>

fun cmdlist_loop :: "nat \<Rightarrow> int \<Rightarrow> nat \<Rightarrow> cstring \<Rightarrow> http_option list \<Rightarrow> cstring" where
  "cmdlist_loop max_size auth count out [] = out"
| "cmdlist_loop max_size auth count out (opt # opts) =
    (if auth > opt_authority opt then cmdlist_loop max_size auth count out opts
     else
       (let buf = pad_left 3 (CHR ''0'') (itoa (count + 1)) @ ''.'' @ pad_right 25 (opt_name opt) @ show_int (opt_authority opt) @ [LF]
        in if length out + length buf + 1 > max_size then NOT_ENOUGH
           else cmdlist_loop max_size auth (count + 1) (out @ buf) opts))"

definition html_cmdlist_cmd :: "http_option list \<Rightarrow> request \<Rightarrow> nat \<Rightarrow> cstring" where
  "html_cmdlist_cmd opts r max_size = cmdlist_loop max_size (authority r) 0 [] opts"

text \<open>\<open>names\<close>: the values of the four authorities and their names.\<close>

definition ShowPara :: "(int \<times> cstring) list \<Rightarrow> nat \<Rightarrow> cstring \<Rightarrow> int \<Rightarrow> cstring" where
  "ShowPara names index name auth =
     pad_left 3 SP (itoa index) @ ''.'' @ pad_right 25 name @
     (case map_of names auth of Some s \<Rightarrow> s | None \<Rightarrow> ''ERROR'') @ [LF]"

fun para_loop :: "(int \<times> cstring) list \<Rightarrow> nat \<Rightarrow> nat \<Rightarrow> cstring \<Rightarrow> html_argument list \<Rightarrow> cstring" where
  "para_loop names max_size count out [] = out"
| "para_loop names max_size count out (a # as) =
    (if harg_handler a = None then para_loop names max_size count out as
     else
       (let buf = ShowPara names (count + 1) (harg_name a) (harg_authority a)
        in if length out + length buf + 1 > max_size
           then ''Not enogh size ('' @ itoa (length out + length buf + 1) @ '' bytes) to show''
           else para_loop names max_size (count + 1) (out @ buf) as))"

definition ShowAllPara :: "(int \<times> cstring) list \<Rightarrow> html_argument list \<Rightarrow> nat \<Rightarrow> cstring" where
  "ShowAllPara names args max_size = para_loop names max_size 0 [] args"

text \<open>The handler stores the text of the value and returns its length, or a negative number. The
  test counts the length and one more byte, the store appends a line feed.\<close>

fun value_loop ::
  "(nat \<Rightarrow> cstring \<Rightarrow> request \<Rightarrow> int \<times> char list) \<Rightarrow> nat \<Rightarrow> request \<Rightarrow> cstring \<Rightarrow> html_argument list \<Rightarrow> cstring" where
  "value_loop handler max_size r out [] = out"
| "value_loop handler max_size r out (a # as) =
    (if authority r > harg_authority a then value_loop handler max_size r out as
     else case harg_handler a of None \<Rightarrow> value_loop handler max_size r out as
     | Some h \<Rightarrow>
       (let name = harg_name a @ ''='' in
        if length out + length name + 1 > max_size then NOT_ENOUGH
        else
          (let out1 = out @ name; (ret, bytes) = handler h [] r;
               val = (if ret < 0 then ''Error return'' else bytes);
               size = (if ret < 0 then length val else nat ret)
           in if length out1 + size + 1 > max_size then NOT_ENOUGH
              else value_loop handler max_size r (out1 @ val @ [LF]) as)))"

definition ShowAllWebValue ::
  "(nat \<Rightarrow> cstring \<Rightarrow> request \<Rightarrow> int \<times> char list) \<Rightarrow> html_argument list \<Rightarrow> request \<Rightarrow> nat \<Rightarrow> cstring" where
  "ShowAllWebValue handler args r max_size = value_loop handler max_size r [] args"

subsection \<open>The pages of the command interface\<close>

text \<open>
  The decoder is given the query string and the memory behind it; \<open>None\<close> when it leaves that memory.
  A negative result tells the caller to serve the file of that name.
\<close>

definition decode_args :: "char list \<Rightarrow> request \<Rightarrow> (int \<times> request) option" where
  "decode_args behind r = uri_decoding (map_option (\<lambda>q. q @ NUL # behind) (query_string r)) r"

definition uri_vb_htm ::
  "conf \<Rightarrow> http_option list list \<Rightarrow> bool \<Rightarrow> 'w handlers \<Rightarrow> char list \<Rightarrow> request \<times> 'w cmd_world \<Rightarrow> (int \<times> request \<times> 'w cmd_world) option" where
  "uri_vb_htm cfg tab restarting run behind st =
    (let r = (fst st)\<lparr>is_cgi := CGI\<rparr>; w = snd st in
     case (if cmd_count r = 0 then decode_args behind r else Some (0, r)) of
       None \<Rightarrow> None
     | Some (ret, r1) \<Rightarrow>
        if ret < 0 then Some (0, send_r_bad_request cfg r1, w)
        else (case http_run_command cfg tab restarting run (cmd_count r1) (SQUASH_KA r1, w) of
          (r2, w2) \<Rightarrow> Some (1, r2\<lparr>status := DONE\<rparr>, w2)))"

text \<open>\<open>uri_aevt_htm\<close> and \<open>uri_status_log_htm\<close>: the answers of the commands are thrown away.\<close>

definition uri_aevt_htm ::
  "conf \<Rightarrow> http_option list list \<Rightarrow> bool \<Rightarrow> 'w handlers \<Rightarrow> char list \<Rightarrow> request \<times> 'w cmd_world \<Rightarrow> (int \<times> request \<times> 'w cmd_world) option" where
  "uri_aevt_htm cfg tab restarting run behind st =
    (case decode_args behind (fst st) of
       None \<Rightarrow> None
     | Some (ret, r1) \<Rightarrow>
        if ret \<ge> 0 then
          (case http_run_command cfg tab restarting run (cmd_count r1) (r1, snd st) of
             (r2, w2) \<Rightarrow> Some (- 1, reset_output_buffer r2, w2))
        else Some (- 1, r1, snd st))"

text \<open>The pages that list a table into memory they allocate (\<open>alloc\<close>: whether that succeeds).\<close>

definition text_page :: "conf \<Rightarrow> bool \<Rightarrow> cstring \<Rightarrow> request \<Rightarrow> int \<times> request" where
  "text_page cfg alloc listing r =
    (if \<not> alloc then (0, send_r_error cfg r)
     else (1, (send_request_ok_text cfg ((SQUASH_KA r)\<lparr>is_memory := True, data_mem := Some listing, filesize := length listing\<rparr>))
          \<lparr>status := WRITE\<rparr>))"

definition MAX_CMDLIST_SIZE :: nat where "MAX_CMDLIST_SIZE = 32 * 1024"

definition uri_cmdlist_htm :: "conf \<Rightarrow> http_option list \<Rightarrow> bool \<Rightarrow> request \<Rightarrow> int \<times> request" where
  "uri_cmdlist_htm cfg opts alloc r = text_page cfg alloc (html_cmdlist_cmd opts r MAX_CMDLIST_SIZE) r"

definition uri_keyword_htm :: "conf \<Rightarrow> (int \<times> cstring) list \<Rightarrow> html_argument list \<Rightarrow> bool \<Rightarrow> request \<Rightarrow> int \<times> request" where
  "uri_keyword_htm cfg names args alloc r = text_page cfg alloc (ShowAllPara names args MAX_CMDLIST_SIZE) r"

definition uri_ini_htm ::
  "conf \<Rightarrow> (nat \<Rightarrow> cstring \<Rightarrow> request \<Rightarrow> int \<times> char list) \<Rightarrow> html_argument list \<Rightarrow> bool \<Rightarrow> request \<Rightarrow> int \<times> request" where
  "uri_ini_htm cfg handler args alloc r = text_page cfg alloc (ShowAllWebValue handler args ((SQUASH_KA r)\<lparr>is_memory := True\<rparr>) MAX_CMDLIST_SIZE) r"

subsection \<open>The tables are last-wins maps\<close>

lemma options_chain:
  "hash_insert_entry = chain_head_add hash_bucket opt_name"
  "http_option_search = chain_look hash_bucket opt_name (=)"
  by (intro ext; simp add: hash_insert_entry_def chain_head_add_def http_option_search_def chain_look_def)+

lemma uris_chain:
  "uri_hash_insert_entry = chain_head_add hash_bucket uri_name"
  "(\<lambda>k t. uri_search t k) = chain_look hash_bucket uri_name strcaseeq"
  by (intro ext; simp add: uri_hash_insert_entry_def chain_head_add_def uri_search_def chain_look_def)+

lemma args_chain:
  "arg_hash_insert_entry = chain_head_add hash_bucket harg_name"
  "arg_search = chain_look hash_bucket harg_name strcaseeq"
  by (intro ext; simp add: arg_hash_insert_entry_def chain_head_add_def arg_search_def chain_look_def)+

interpretation options: last_wins "\<lambda>tab. length tab = MAX_CMD_HASH_SIZE" "replicate MAX_CMD_HASH_SIZE []"
  hash_insert_entry http_option_search opt_name "\<lambda>k. (hash_bucket k, k)"
  unfolding options_chain by (rule chain_head_last_wins) (simp_all add: hash_bucket_less)

interpretation uris: last_wins "\<lambda>tab. length tab = MAX_CMD_HASH_SIZE" "replicate MAX_CMD_HASH_SIZE []"
  uri_hash_insert_entry "\<lambda>k t. uri_search t k" uri_name "\<lambda>k. (hash_bucket k, map tolower k)"
  unfolding uris_chain by (rule chain_head_last_wins) (simp_all add: hash_bucket_less strcaseeq_def)

interpretation args: last_wins "\<lambda>tab. length tab = MAX_CMD_HASH_SIZE" "replicate MAX_CMD_HASH_SIZE []"
  arg_hash_insert_entry arg_search harg_name "\<lambda>k. (hash_bucket k, map tolower k)"
  unfolding args_chain by (rule chain_head_last_wins) (simp_all add: hash_bucket_less strcaseeq_def)

text \<open>
  A command is found by its exact name: after \<open>hash_table_init\<close> of any list of commands,
  \<open>http_option_search\<close> returns the last one of that name, and nothing when there is none, whatever names share a
  chain.
\<close>

theorem http_option_search_last:
  "http_option_search name (hash_table_init opts) = find (\<lambda>opt. opt_name opt = name) (rev opts)"
proof -
  have "(\<lambda>opt :: http_option. (hash_bucket (opt_name opt), opt_name opt) = (hash_bucket name, name)) = (\<lambda>opt. opt_name opt = name)" by auto
  then show ?thesis unfolding hash_table_init_def options.look_table by simp
qed

subsection \<open>Case and the hash of a URI\<close>

text \<open>The number of positions in which two strings differ.\<close>

fun differences :: "cstring \<Rightarrow> cstring \<Rightarrow> nat" where
  "differences (a # as) (b # bs) = (if a = b then 0 else 1) + differences as bs"
| "differences _ _ = 0"

lemma mod_linear_cong: "a mod m = b mod m \<Longrightarrow> (a * k + c) mod m = (b * k + c) mod (m :: nat)"
  by (metis mod_add_left_eq mod_mult_left_eq)

text \<open>The bucket at each step: 64 divides the modulus of the 32-bit sum.\<close>

lemma hash_step: "unat (x * 37 + of_nat n :: 32 word) mod 64 = (unat x * 37 + n) mod 64"
proof -
  have c: "a mod 4294967296 mod 64 = a mod (64 :: nat)" for a by (rule mod_mod_cancel) simp
  have "unat (x * 37 + of_nat n :: 32 word) = (unat x * 37 mod 4294967296 + n mod 4294967296) mod 4294967296"
    by (simp add: unat_word_ariths unat_of_nat)
  also have "\<dots> = (unat x * 37 + n) mod 4294967296" by (rule mod_add_eq)
  finally show ?thesis using c by simp
qed

lemma hash_steps:
  "unat x mod 64 = v mod 64 \<Longrightarrow>
   unat (foldl (\<lambda>value c. value * 37 + of_nat (code c)) x s :: 32 word) mod 64 = foldl (\<lambda>v c. v * 37 + code c) v s mod 64"
proof (induction s arbitrary: x v)
  case (Cons c s)
  have "(unat x * 37 + code c) mod 64 = (v * 37 + code c) mod 64"
    using Cons.prems by (rule mod_linear_cong)
  then show ?case using Cons.IH[of "x * 37 + of_nat (code c)" "v * 37 + code c"] hash_step[of x "code c"] by simp
qed simp

lemma hash_bucket_nat: "hash_bucket s = foldl (\<lambda>v c. v * 37 + code c) 0 s mod 64"
  using hash_steps[of 0 0 s] by (simp add: hash_bucket_def hash_cal_value_def MAX_CMD_HASH_SIZE_def)

text \<open>A change of case is a change by 32, which any odd factor keeps modulo 64.\<close>

lemma tolower_eq_codes:
  assumes "tolower a = tolower b"
  shows "code a = code b \<or> code a = code b + 32 \<or> code b = code a + 32"
  using arg_cong[OF assms, of code] by (auto simp: code_tolower split: if_splits)

lemma differences_step:
  assumes "u mod 64 = (v + 32 * d) mod 64" "tolower a = tolower b"
  shows "(u * 37 + code a) mod 64 = (v * 37 + code b + 32 * (d + (if a = b then 0 else 1))) mod (64 :: nat)"
proof -
  have "(u * 37 + code a) mod 64 = ((v + 32 * d) * 37 + code a) mod 64"
    using assms(1) by (rule mod_linear_cong)
  also have "(v + 32 * d) * 37 + code a = v * 37 + code a + 32 * d + 64 * (18 * d)" by simp
  also have "\<dots> mod 64 = (v * 37 + code a + 32 * d) mod 64" by (rule mod_mult_self2)
  finally have e: "(u * 37 + code a) mod 64 = (v * 37 + code a + 32 * d) mod 64" .
  consider "a = b" | "a \<noteq> b" "code a = code b + 32" | "a \<noteq> b" "code b = code a + 32"
    using tolower_eq_codes[OF assms(2)] by (auto simp: code_inject)
  then show ?thesis
  proof cases
    case 3
    have "(v * 37 + code b + 32 * (d + 1)) mod 64 = (v * 37 + code a + 32 * d + 64) mod 64" using 3(2) by (simp add: algebra_simps)
    also have "\<dots> = (v * 37 + code a + 32 * d) mod 64" by (rule mod_add_self2)
    finally show ?thesis using e 3(1) by simp
  qed (use e in \<open>simp_all add: algebra_simps\<close>)
qed

lemma differences_fold:
  "map tolower s = map tolower t \<Longrightarrow> u mod 64 = (v + 32 * d) mod 64 \<Longrightarrow>
   foldl (\<lambda>v c. v * 37 + code c) u s mod 64 = (foldl (\<lambda>v c. v * 37 + code c) v t + 32 * (d + differences s t)) mod (64 :: nat)"
proof (induction s t arbitrary: u v d rule: differences.induct)
  case (1 a as b bs)
  then show ?case using differences_step[of u v d a b]
      "1.IH"[of "u * 37 + code a" "v * 37 + code b" "d + (if a = b then 0 else 1)"]
    by (simp add: algebra_simps)
qed auto

lemma parity_bucket:
  assumes "h < (64 :: nat)"
  shows "(h + 32 * n) mod 64 = h \<longleftrightarrow> even n"
proof (cases "even n")
  case True
  then obtain k where "n = 2 * k" by (rule evenE)
  then have "h + 32 * n = h + 64 * k" by simp
  then show ?thesis using True assms by simp
next
  case False
  then obtain k where "n = 2 * k + 1" by (rule oddE)
  then have "h + 32 * n = h + 32 + 64 * k" by simp
  then have "(h + 32 * n) mod 64 = (h + 32) mod 64" by (simp only: mod_mult_self2)
  also have "(h + 32) mod 64 \<noteq> h"
  proof (cases "h < 32")
    case False
    then obtain j where "h = 32 + j" by (metis le_Suc_ex linorder_not_less)
    then show ?thesis using assms by simp
  qed simp
  finally show ?thesis using False by simp
qed

text \<open>
  the lookup of a URI ignores the case of an even number of letters, and only that. The names
  are compared without regard to case, but the chain is chosen by a hash of the exact characters:
  two spellings of a name fall into the same chain just when they differ in an even number of
  positions, and otherwise the entry is not found.
\<close>

theorem uri_search_case_parity:
  assumes "strcaseeq (uri_name u) name"
  shows "uri_search (uri_hash_table_init [u]) name = (if even (differences (uri_name u) name) then Some u else None)"
proof -
  have "hash_bucket (uri_name u) = (foldl (\<lambda>v c. v * 37 + code c) 0 name + 32 * differences (uri_name u) name) mod 64"
    using differences_fold[of "uri_name u" name 0 0 0] assms by (simp add: hash_bucket_nat strcaseeq_def)
  then have "hash_bucket (uri_name u) = (hash_bucket name + 32 * differences (uri_name u) name) mod 64"
    by (simp only: hash_bucket_nat mod_add_left_eq)
  then have "hash_bucket (uri_name u) = hash_bucket name \<longleftrightarrow> even (differences (uri_name u) name)"
    using parity_bucket[of "hash_bucket name"] hash_bucket_less[of name] by (simp add: MAX_CMD_HASH_SIZE_def)
  then show ?thesis using assms
    unfolding uri_hash_table_init_def uris.look_table by (auto simp: strcaseeq_def)
qed

definition vb_page :: http_uri_entry where
  "vb_page = \<lparr>uri_name = ''/vb.htm'', uri_handler = Some 1, uri_authority = 3, uri_flag = 2\<rparr>"

theorem uri_search_case_parity_witness:
  "uri_search (uri_hash_table_init [vb_page]) ''/VB.htm'' = Some vb_page \<and>
   uri_search (uri_hash_table_init [vb_page]) ''/Vb.htm'' = None"
proof -
  have "strcaseeq (uri_name vb_page) ''/VB.htm''" "strcaseeq (uri_name vb_page) ''/Vb.htm''"
    "even (differences (uri_name vb_page) ''/VB.htm'')" "odd (differences (uri_name vb_page) ''/Vb.htm'')" by code_simp+
  then show ?thesis using uri_search_case_parity[of vb_page "''/VB.htm''"] uri_search_case_parity[of vb_page "''/Vb.htm''"] by simp
qed

subsection \<open>Commands run with the authority of the user\<close>

lemma http_option_search_member:
  "http_option_search name (hash_table_init opts) = Some opt \<Longrightarrow> opt \<in> set opts"
  unfolding hash_table_init_def options.look_table using nth_mem[of _ "rev opts"] by (force simp: find_Some_iff)

lemma authority_emit [simp]: "authority (emit ps r) = authority r"
  by (rule io_erase_fields(4)) simp

lemma authority_lower_name [simp]: "authority (lower_name i r) = authority r"
  by (simp add: lower_name_def)

definition keeps_authority :: "'w handlers \<Rightarrow> bool" where
  "keeps_authority run \<longleftrightarrow> (\<forall>h i r w. authority (fst (run h i (r, w))) = authority r)"

text \<open>Two systems that differ only in handlers that need more authority than \<open>a\<close>.\<close>

definition agree_up_to :: "int \<Rightarrow> http_option list \<Rightarrow> 'w handlers \<Rightarrow> 'w handlers \<Rightarrow> bool" where
  "agree_up_to a opts run run' \<longleftrightarrow> (\<forall>opt \<in> set opts. a \<le> opt_authority opt \<longrightarrow> run (opt_handler opt) = run' (opt_handler opt))"

lemma run_one_agree:
  assumes "agree_up_to (authority (fst st)) opts run run'"
  shows "run_one (hash_table_init opts) restarting run i st = run_one (hash_table_init opts) restarting run' i st"
  using assms http_option_search_member[of _ opts]
  by (auto simp: run_one_def agree_up_to_def Let_def split: option.splits)

lemma run_one_authority:
  "keeps_authority run \<Longrightarrow> authority (fst (run_one tab restarting run i st)) = authority (fst st)"
  by (auto simp: run_one_def keeps_authority_def Let_def split: option.splits)

lemma run_dlink_one_agree:
  assumes "agree_up_to a opts run run'"
  shows "run_dlink_one (hash_table_init opts) a run i st = run_dlink_one (hash_table_init opts) a run' i st"
  using assms http_option_search_member[of _ opts]
  by (auto simp: run_dlink_one_def agree_up_to_def Let_def split: option.splits)

lemma fold_run_agree:
  assumes "keeps_authority run" "agree_up_to (authority (fst st)) opts run run'"
  shows "fold (run_one (hash_table_init opts) restarting run) is st = fold (run_one (hash_table_init opts) restarting run') is st"
  using assms(2)
proof (induction "is" arbitrary: st)
  case (Cons i "is")
  then show ?case using run_one_agree[OF Cons.prems] run_one_authority[OF assms(1), of "hash_table_init opts" restarting i st] by simp
qed simp

text \<open>
  C3: A query never runs a command above its authority. Whatever the commands of the query, the
  answer and the effects on the system are the same as in any system in which the commands that need
  more than the authority of the request have been replaced by others: they are not run. For
  \<open>http_run_command\<close> no handler may change the authority of the request, for \<open>http_run_dlink_command\<close>, which
  reads it once, this is not needed.
\<close>

theorem commands_respect_authority:
  assumes "agree_up_to (authority r) opts run run'"
  shows "(keeps_authority run \<longrightarrow>
       http_run_command cfg (hash_table_init opts) restarting run num (r, w) =
       http_run_command cfg (hash_table_init opts) restarting run' num (r, w)) \<and>
     http_run_dlink_command (hash_table_init opts) run num (r, w) = http_run_dlink_command (hash_table_init opts) run' num (r, w)"
proof -
  have "authority (send_request_ok_api cfg r) = authority r" by (simp add: send_request_ok_api_def)
  then have "keeps_authority run \<longrightarrow>
      http_run_command cfg (hash_table_init opts) restarting run num (r, w) =
      http_run_command cfg (hash_table_init opts) restarting run' num (r, w)"
    using assms fold_run_agree[of run "(send_request_ok_api cfg r, w)" opts run'] by (simp add: http_run_command_def)
  moreover have "fold (run_dlink_one (hash_table_init opts) (authority r) run) is st =
      fold (run_dlink_one (hash_table_init opts) (authority r) run') is st" for "is" st
    by (rule fold_cong) (use run_dlink_one_agree[OF assms] in auto)
  ultimately show ?thesis by (simp add: http_run_dlink_command_def)
qed

definition reboot_option :: http_option where
  "reboot_option = \<lparr>opt_name = ''reboot'', opt_handler = 5, opt_authority = 0, opt_flag = 0\<rparr>"

definition reboot_request :: request where
  "reboot_request = fresh\<lparr>authority := 2, cmd_arg := [\<lparr>arg_name = ''reboot'', arg_value = Some ''go'', arg_flags = 0\<rparr>]\<rparr>"

definition quiet_world :: "unit cmd_world" where
  "quiet_world = \<lparr>ntpd_restart = False, ntpd_execs = 0, outer = ()\<rparr>"

theorem commands_respect_authority_witness:
  "http_run_dlink_command (hash_table_init [reboot_option])
     (\<lambda>h i (r, w). (r\<lparr>flag_reboot := True\<rparr>, w)) 1 (reboot_request, quiet_world) =
   http_run_dlink_command (hash_table_init [reboot_option]) (\<lambda>h i st. st) 1 (reboot_request, quiet_world)"
proof -
  have "agree_up_to (authority reboot_request) [reboot_option]
      (\<lambda>h i (r, w). (r\<lparr>flag_reboot := True\<rparr>, (w :: unit cmd_world))) (\<lambda>h i st. st)"
    by (simp add: agree_up_to_def reboot_option_def reboot_request_def)
  from commands_respect_authority[OF this] show ?thesis by blast
qed

text \<open>
  The command \<open>getauthority\<close>, which needs no authority, follows the null pointer when its
  argument is not the name of a command.
\<close>

theorem get_authority_unknown:
  assumes "arg_value (cmd_arg r ! i) = Some v"
  shows "get_authority (hash_table_init opts) i r = None \<longleftrightarrow> v \<notin> opt_name ` set opts"
  using assms unfolding get_authority_def hash_table_init_def options.look_table
  by (auto simp: Let_def find_None_iff)

subsection \<open>The listings fit their memory\<close>

lemma cmdlist_loop_fits:
  "length out + 1 \<le> max_size \<Longrightarrow> length NOT_ENOUGH + 1 \<le> max_size \<Longrightarrow>
   length (cmdlist_loop max_size auth count out opts) + 1 \<le> max_size"
  by (induction opts arbitrary: count out) (auto simp: Let_def)

lemma cmdlist_loop_hides:
  "filter (\<lambda>opt. auth \<le> opt_authority opt) opts = filter (\<lambda>opt. auth \<le> opt_authority opt) opts' \<Longrightarrow>
   cmdlist_loop max_size auth count out opts = cmdlist_loop max_size auth count out (filter (\<lambda>opt. auth \<le> opt_authority opt) opts')"
proof -
  have "cmdlist_loop max_size auth count out os = cmdlist_loop max_size auth count out (filter (\<lambda>opt. auth \<le> opt_authority opt) os)" for os
    by (induction os arbitrary: count out) (auto simp: Let_def)
  then show "filter (\<lambda>opt. auth \<le> opt_authority opt) opts = filter (\<lambda>opt. auth \<le> opt_authority opt) opts' \<Longrightarrow> ?thesis" by metis
qed

text \<open>
  the page of commands fits its memory, terminator included, for every table, and shows
  nothing of the commands the user may not run: it is the page of the table without them.
\<close>

theorem html_cmdlist_cmd_correct:
  assumes "23 \<le> max_size"
  shows "length (html_cmdlist_cmd opts r max_size) < max_size \<and>
     html_cmdlist_cmd opts r max_size = html_cmdlist_cmd (filter (\<lambda>opt. authority r \<le> opt_authority opt) opts) r max_size"
proof -
  have "length NOT_ENOUGH = 22" by (simp add: NOT_ENOUGH_def)
  then have "length (html_cmdlist_cmd opts r max_size) < max_size"
    using cmdlist_loop_fits[of "[]" max_size "authority r" 0 opts] assms by (simp add: html_cmdlist_cmd_def)
  moreover have "html_cmdlist_cmd opts r max_size = html_cmdlist_cmd (filter (\<lambda>opt. authority r \<le> opt_authority opt) opts) r max_size"
    unfolding html_cmdlist_cmd_def by (rule cmdlist_loop_hides) simp
  ultimately show ?thesis by blast
qed

theorem html_cmdlist_cmd_correct_witness:
  "length (html_cmdlist_cmd [reboot_option] fresh 100) < 100 \<and>
   html_cmdlist_cmd [reboot_option] (fresh\<lparr>authority := 1\<rparr>) 100 = html_cmdlist_cmd [] (fresh\<lparr>authority := 1\<rparr>) 100"
proof -
  have f: "filter (\<lambda>opt. authority (fresh\<lparr>authority := 1\<rparr>) \<le> opt_authority opt) [reboot_option] = []"
    by (simp add: reboot_option_def)
  have "(23 :: nat) \<le> 100" by simp
  from html_cmdlist_cmd_correct[OF this, of "[reboot_option]" fresh]
    html_cmdlist_cmd_correct[OF this, of "[reboot_option]" "fresh\<lparr>authority := 1\<rparr>", unfolded f]
  show ?thesis by blast
qed

text \<open>
  the page of values overruns its memory by one byte. The test before a value counts its length
  and one byte, but a line feed and the terminator follow it: with a value that just passes the test the text alone is as
  long as the memory, and the terminator is stored behind it.
\<close>

theorem ShowAllWebValue_overrun:
  assumes "length val + length name + 2 = max_size" "length val \<noteq> 0"
  shows "length (ShowAllWebValue (\<lambda>h sub r. (int (length val), val))
     [\<lparr>harg_name = name, harg_handler = Some 0, harg_authority = authority r\<rparr>] r max_size) = max_size"
  using assms by (auto simp: ShowAllWebValue_def)

theorem ShowAllWebValue_overrun_witness:
  "length (ShowAllWebValue (\<lambda>h sub r. (int (length ''0123''), ''0123''))
     [\<lparr>harg_name = ''name'', harg_handler = Some 0, harg_authority = authority fresh\<rparr>] fresh 10) = 10"
  by (rule ShowAllWebValue_overrun) simp_all

end
