(* ===== verification/Boa_Template.thy ===== *)
theory Boa_Template
  imports Boa_Dispatch
begin

text \<open>
  The expansion of page templates (\<^verbatim>\<open>get.c\<close>): a page holds tags \<open><%name.sub%>\<close>, and \<open>html_argument_parse\<close>
  replaces each by the text its handler prints, working in one block of memory: the page is copied to
  offset \<open>HTTP_PARSE_LENGTH\<close> of the block and the result is built from its start, so that it may run ahead
  of the page by that much.

  The block is a list; \<open>d\<close> and \<open>w\<close> are the positions of \<open>data\<close> and \<open>result\<close> in it. \<open>memcpy\<close> is taken to read its
  source before it writes.
\<close>

definition HTTP_PARSE_LENGTH :: nat where "HTTP_PARSE_LENGTH = 8192"

subsection \<open>Finding a tag\<close>

text \<open>\<open>strrfind\<close>: the offsets of the first \<open>%>\<close> after a \<open><%\<close> and of the last \<open><%\<close> before it.\<close>

fun find_close :: "nat \<Rightarrow> nat \<Rightarrow> cstring \<Rightarrow> (nat \<times> nat) option" where
  "find_close t0 pos [] = None"
| "find_close t0 pos [c] = None"
| "find_close t0 pos (c # e # cs) =
    (if c = CHR ''%'' \<and> e = CHR ''>'' then Some (t0, pos)
     else if c = CHR ''<'' \<and> e = CHR ''%'' then find_close pos (pos + 2) cs
     else find_close t0 (pos + 1) (e # cs))"

fun find_open :: "nat \<Rightarrow> cstring \<Rightarrow> (nat \<times> nat) option" where
  "find_open pos [] = None"
| "find_open pos [c] = None"
| "find_open pos (c # e # cs) =
    (if c = CHR ''<'' \<and> e = CHR ''%'' then find_close pos (pos + 2) cs else find_open (pos + 1) (e # cs))"

definition strrfind :: "cstring \<Rightarrow> (nat \<times> nat) option" where
  "strrfind data = find_open 0 data"

subsection \<open>The expansion in memory\<close>

type_synonym page_handler = "nat \<Rightarrow> cstring \<Rightarrow> request \<Rightarrow> int \<times> char list"

text \<open>The two parts of the tag's text, as \<open>strchr (arg, '.')\<close> splits it.\<close>

definition split_arg :: "cstring \<Rightarrow> cstring \<times> cstring" where
  "split_arg arg = (case strchr (CHR ''.'') arg of None \<Rightarrow> (arg, []) | Some s \<Rightarrow> (before (CHR ''.'') arg, tl s))"

text \<open>The memory after the copy of the text up to the end of the tag and the cut of the tag at its end,
  and the text of the tag then read from it.\<close>

definition cut_tag :: "char list \<Rightarrow> nat \<Rightarrow> nat \<Rightarrow> nat \<Rightarrow> char list" where
  "cut_tag mem d w t1 = (mem_put w (take (t1 + 2) (drop d mem)) mem)[d + t1 := NUL]"

definition tag_text :: "char list \<Rightarrow> nat \<Rightarrow> nat \<Rightarrow> nat \<Rightarrow> nat \<Rightarrow> cstring" where
  "tag_text mem d w t0 t1 = cstr (drop (d + t0 + 2) (cut_tag mem d w t1))"

text \<open>The cut at the first dot of the tag.\<close>

definition cut_dot :: "nat \<Rightarrow> cstring \<Rightarrow> char list \<Rightarrow> char list" where
  "cut_dot pos arg mem = (case strchr (CHR ''.'') arg of None \<Rightarrow> mem | Some s \<Rightarrow> mem[pos + length (before (CHR ''.'') arg) := NUL])"

text \<open>At most \<open>fuel\<close> rounds of the loop: \<open>None\<close> when it has not ended by then, or calls a null pointer. The
  result is the value returned and the memory.\<close>

fun parse_loop ::
  "nat \<Rightarrow> page_handler \<Rightarrow> html_argument list list \<Rightarrow> request \<Rightarrow> char list \<Rightarrow> nat \<Rightarrow> nat \<Rightarrow> nat \<Rightarrow> (nat \<times> char list) option" where
  "parse_loop 0 handler tab r mem d w tot = None"
| "parse_loop (Suc fuel) handler tab r mem d w tot =
    (case strrfind (cstr (drop d mem)) of
       None \<Rightarrow>
         (let sz = length (cstr (drop d mem))
          in Some (tot + sz, mem_put w (take sz (drop d mem)) mem))
     | Some (t0, t1) \<Rightarrow>
         (let len2 = t1 + 2; arg = tag_text mem d w t0 t1; (para, sub) = split_arg arg;
              mem1 = cut_dot (d + t0 + 2) arg (cut_tag mem d w t1)
          in case TranslateWebPara handler tab r para sub of
               None \<Rightarrow> None
             | Some (sz, bytes) \<Rightarrow>
                 (let mem2 = mem_put (w + t0) bytes mem1 in
                  if sz < 0 then parse_loop fuel handler tab r mem2 (d + len2) (w + len2) (tot + len2)
                  else parse_loop fuel handler tab r mem2 (d + len2) (w + t0 + nat sz) (tot + t0 + nat sz))))"

text \<open>As \<open>init_get\<close> calls it: the page behind the free part of a new block, and a terminator.\<close>

definition parse_block :: "char list \<Rightarrow> char list \<Rightarrow> char list" where
  "parse_block junk page = take HTTP_PARSE_LENGTH junk @ page @ [NUL]"

definition html_argument_parse ::
  "nat \<Rightarrow> page_handler \<Rightarrow> html_argument list list \<Rightarrow> request \<Rightarrow> char list \<Rightarrow> char list \<Rightarrow> char list option" where
  "html_argument_parse fuel handler tab r junk page =
    map_option (\<lambda>(tot, mem). take tot mem)
      (parse_loop fuel handler tab r (parse_block junk page) HTTP_PARSE_LENGTH 0 0)"

subsection \<open>What the expansion means\<close>

lemma find_close_bounds:
  "find_close t0 pos s = Some (a, b) \<Longrightarrow> t0 + 2 \<le> pos \<Longrightarrow>
   a + 2 \<le> b \<and> b + 2 \<le> pos + length s \<and> (a = t0 \<or> pos \<le> a) \<and> pos \<le> b"
proof (induction t0 pos s rule: find_close.induct)
  case (3 t0 pos c e cs)
  show ?case
  proof (cases "c = CHR ''%'' \<and> e = CHR ''>''")
    case False
    then show ?thesis using 3 by (cases "c = CHR ''<'' \<and> e = CHR ''%''") auto
  qed (use 3 in auto)
qed auto

lemma find_open_bounds:
  "find_open pos s = Some (a, b) \<Longrightarrow> a + 2 \<le> b \<and> b + 2 \<le> pos + length s \<and> pos \<le> a"
proof (induction pos s rule: find_open.induct)
  case (3 pos c e cs)
  show ?case
  proof (cases "c = CHR ''<'' \<and> e = CHR ''%''")
    case True
    then show ?thesis using 3 find_close_bounds[of pos "pos + 2" cs a b] by auto
  qed (use 3 in auto)
qed auto

lemma strrfind_bounds: "strrfind s = Some (t0, t1) \<Longrightarrow> t0 + 2 \<le> t1 \<and> t1 + 2 \<le> length s"
  using find_open_bounds[of 0 s t0 t1] by (simp add: strrfind_def)

text \<open>The text that replaces a tag, and the page with every tag replaced; a tag that is unknown or not
  permitted stays.\<close>

definition tag_value :: "page_handler \<Rightarrow> html_argument list list \<Rightarrow> request \<Rightarrow> cstring \<Rightarrow> nat \<Rightarrow> nat \<Rightarrow> cstring" where
  "tag_value handler tab r s t0 t1 =
    (let (para, sub) = split_arg (take (t1 - t0 - 2) (drop (t0 + 2) s)) in
     case TranslateWebPara handler tab r para sub of
       Some (sz, bytes) \<Rightarrow> if sz < 0 then take (t1 + 2 - t0) (drop t0 s) else take (nat sz) bytes
     | None \<Rightarrow> [])"

function expand :: "page_handler \<Rightarrow> html_argument list list \<Rightarrow> request \<Rightarrow> cstring \<Rightarrow> cstring" where
  "expand handler tab r s =
    (case strrfind s of
       None \<Rightarrow> s
     | Some (t0, t1) \<Rightarrow> take t0 s @ tag_value handler tab r s t0 t1 @ expand handler tab r (drop (t1 + 2) s))"
  by pat_completeness auto
termination
  by (relation "measure (\<lambda>(h, tab, r, s). length s)") (auto dest: strrfind_bounds)

declare expand.simps [simp del]

text \<open>The room needed: with \<open>slack\<close> bytes between result and page, each tag fits between them, and the
  result stays behind the page.\<close>

function roomy :: "page_handler \<Rightarrow> html_argument list list \<Rightarrow> request \<Rightarrow> nat \<Rightarrow> cstring \<Rightarrow> bool" where
  "roomy handler tab r slack s =
    (case strrfind s of
       None \<Rightarrow> True
     | Some (t0, t1) \<Rightarrow>
         (let out = t0 + length (tag_value handler tab r s t0 t1) in
          t1 + 2 - t0 \<le> slack \<and> out < slack + t1 + 2 \<and> roomy handler tab r (slack + t1 + 2 - out) (drop (t1 + 2) s)))"
  by pat_completeness auto
termination
  by (relation "measure (\<lambda>(h, tab, r, slack, s). length s)") (auto dest: strrfind_bounds)

declare roomy.simps [simp del]

text \<open>What is assumed of a handler: it stores the text whose length it returns, with or without a
  terminator, or nothing when it fails; and no null handler is in the table.\<close>

definition prints :: "page_handler \<Rightarrow> bool" where
  "prints handler \<longleftrightarrow> (\<forall>h sub r. case handler h sub r of (sz, bytes) \<Rightarrow>
     if sz < 0 then bytes = [] else nat sz \<le> length bytes \<and> length bytes \<le> nat sz + 1)"

definition no_null :: "html_argument list list \<Rightarrow> bool" where
  "no_null tab \<longleftrightarrow> (\<forall>para a. arg_search para tab = Some a \<longrightarrow> harg_handler a \<noteq> None)"

lemma translate_prints:
  assumes "prints handler" "no_null tab"
  obtains sz bytes where "TranslateWebPara handler tab r para sub = Some (sz, bytes)"
    "if sz < 0 then bytes = [] else nat sz \<le> length bytes \<and> length bytes \<le> nat sz + 1"
proof (cases "arg_search para tab")
  case None
  then show ?thesis using that by (simp add: TranslateWebPara_def)
next
  case (Some a)
  then obtain h where h: "harg_handler a = Some h" using assms(2) by (auto simp: no_null_def)
  show ?thesis
  proof (cases "authority r > harg_authority a")
    case True
    then show ?thesis using that Some by (simp add: TranslateWebPara_def)
  next
    case False
    obtain sz bytes where hd: "handler h sub r = (sz, bytes)" by force
    then have "TranslateWebPara handler tab r para sub = Some (sz, bytes)"
      using Some h False by (simp add: TranslateWebPara_def)
    moreover have "if sz < 0 then bytes = [] else nat sz \<le> length bytes \<and> length bytes \<le> nat sz + 1"
      using assms(1)[unfolded prints_def, rule_format, of h sub r] hd by simp
    ultimately show ?thesis using that by blast
  qed
qed

subsection \<open>The memory after a cut\<close>

text \<open>The situation in the loop: the rest \<open>s\<close> of the page at \<open>d\<close>, a tag in it, and room for the tag between
  result and page.\<close>

lemma drop_list_update_before: "i < n \<Longrightarrow> drop n (xs[i := x]) = drop n xs"
  by simp

lemma cstr_cut: "nul_free (take k xs) \<Longrightarrow> k < length xs \<Longrightarrow> cstr (xs[k := NUL]) = take k xs"
  by (simp add: upd_conv_take_nth_drop cstr_append_NUL)

lemma strchr_before: "strchr c s = Some t \<Longrightarrow> length (before c s) < length s"
  by (induction s) (auto simp: before_def split: if_splits)

lemma cut_tag_mem:
  assumes mem: "drop d mem = s @ NUL # rest" and nf: "nul_free s" and t: "t0 + 2 \<le> t1" "t1 + 2 \<le> length s"
    and w: "w + (t1 + 2) \<le> d + t0"
  defines "mem1 \<equiv> cut_dot (d + t0 + 2) (tag_text mem d w t0 t1) (cut_tag mem d w t1)"
  shows "tag_text mem d w t0 t1 = take (t1 - t0 - 2) (drop (t0 + 2) s)"
    and "length mem1 = length mem" "take (w + (t1 + 2)) mem1 = take w mem @ take (t1 + 2) s"
    and "drop (d + (t1 + 2)) mem1 = drop (t1 + 2) s @ NUL # rest"
proof -
  let ?cp = "mem_put w (take (t1 + 2) (drop d mem)) mem"
  have len: "length mem = d + length s + 1 + length rest" using arg_cong[OF mem, of length] by simp
  have src: "take (t1 + 2) (drop d mem) = take (t1 + 2) s" using mem t by simp
  have cplen: "length ?cp = length mem" using len t w by (simp add: src)
  have "drop (d + t0 + 2) ?cp = drop (d + t0 + 2) mem" using w t len by (simp add: src)
  also have "\<dots> = drop (t0 + 2) (drop d mem)" by (simp add: add.commute add.left_commute)
  finally have tag: "drop (d + t0 + 2) ?cp = drop (t0 + 2) s @ NUL # rest" using t mem by simp
  have idx: "d + t1 - (d + t0 + 2) = t1 - t0 - 2" by simp
  have k: "t1 - t0 - 2 < length (drop (t0 + 2) s)" using t by simp
  have "drop (d + t0 + 2) (cut_tag mem d w t1) = (drop (t0 + 2) s @ NUL # rest)[t1 - t0 - 2 := NUL]"
    unfolding cut_tag_def using t tag by (simp add: drop_update_swap idx)
  then show tt: "tag_text mem d w t0 t1 = take (t1 - t0 - 2) (drop (t0 + 2) s)"
    unfolding tag_text_def using k nf by (simp add: cstr_cut)
  have mem1: "mem1 = ?cp[d + t1 := NUL] \<or>
      (\<exists>i. d + t0 + 2 \<le> i \<and> i < d + t1 \<and> mem1 = (?cp[d + t1 := NUL])[i := NUL])"
  proof (cases "strchr (CHR ''.'') (tag_text mem d w t0 t1)")
    case (Some u)
    let ?i = "d + t0 + 2 + length (before (CHR ''.'') (tag_text mem d w t0 t1))"
    have "?i < d + t1" using strchr_before[OF Some] t unfolding tt by simp
    then show ?thesis using Some by (intro disjI2 exI[of _ ?i]) (simp add: mem1_def cut_dot_def cut_tag_def)
  qed (simp add: mem1_def cut_dot_def cut_tag_def)
  then show "length mem1 = length mem" using cplen by auto
  have "take (w + length (take (t1 + 2) s)) ?cp = take w mem @ take (t1 + 2) s"
    using len w t unfolding src by (intro take_mem_put) simp
  then show "take (w + (t1 + 2)) mem1 = take w mem @ take (t1 + 2) s" using mem1 t w by auto
  have "drop (d + (t1 + 2)) ?cp = drop (d + (t1 + 2)) mem" using w t len by (simp add: src)
  also have "\<dots> = drop (t1 + 2) (drop d mem)" by (simp add: add.commute)
  finally show "drop (d + (t1 + 2)) mem1 = drop (t1 + 2) s @ NUL # rest" using mem1 t mem by auto
qed

text \<open>The text put for a tag, with the handler's bytes stored over it.\<close>

lemma put_value_mem:
  assumes mem1: "length mem1 = length mem" "take (w + (t1 + 2)) mem1 = take w mem @ take (t1 + 2) s"
      "drop (d + (t1 + 2)) mem1 = drop (t1 + 2) s @ NUL # rest"
    and t: "t0 + 2 \<le> t1" "t1 + 2 \<le> length s" and w: "w + (t1 + 2) \<le> d + t0" "w + (t1 + 2) \<le> length mem"
    and sz: "0 \<le> sz" "nat sz \<le> length bytes" "length bytes \<le> nat sz + 1" "w + t0 + nat sz < d + (t1 + 2)"
  defines "mem2 \<equiv> mem_put (w + t0) bytes mem1"
  shows "take (w + t0 + nat sz) mem2 = take w mem @ take t0 s @ take (nat sz) bytes"
    and "drop (d + (t1 + 2)) mem2 = drop (t1 + 2) s @ NUL # rest"
proof -
  have wl: "w + t0 \<le> length mem1" using mem1(1) w t by simp
  have "take (w + t0) mem1 = take (w + t0) (take (w + (t1 + 2)) mem1)" using t by (simp add: min_def)
  also have "\<dots> = take w mem @ take t0 s" using mem1(2) t w by (simp add: min_def)
  finally have pre: "take (w + t0) mem1 = take w mem @ take t0 s" .
  have "take (w + t0 + nat sz) mem2 = take (w + t0) mem1 @ take (nat sz) bytes"
    using sz wl by (simp add: mem2_def mem_put_def min_def)
  then show "take (w + t0 + nat sz) mem2 = take w mem @ take t0 s @ take (nat sz) bytes" using pre by simp
  show "drop (d + (t1 + 2)) mem2 = drop (t1 + 2) s @ NUL # rest"
    unfolding mem2_def using sz wl mem1(3) by simp
qed

lemma parse_mem:
  assumes "drop d mem = s @ NUL # rest" "nul_free s"
  shows "length mem = d + length s + 1 + length rest" "cstr (drop d mem) = s"
proof -
  have "length mem - d = length s + 1 + length rest" using arg_cong[OF assms(1), of length] by simp
  then show "length mem = d + length s + 1 + length rest" "cstr (drop d mem) = s"
    using assms by (simp_all add: cstr_append_NUL)
qed

text \<open>One round: the tag is replaced and the loop goes on behind it.\<close>

lemma parse_step:
  assumes ph: "prints handler" and nn: "no_null tab" and prems: "drop d mem = s @ NUL # rest" "nul_free s" "w < d"
    and f: "strrfind s = Some (t0, t1)" and room: "t1 + 2 - t0 \<le> d - w" "t0 + length v < (d - w) + t1 + 2"
    and vdef: "v = tag_value handler tab r s t0 t1"
  shows "\<exists>m2. parse_loop (Suc fuel) handler tab r mem d w tot =
      parse_loop fuel handler tab r m2 (d + (t1 + 2)) (w + t0 + length v) (tot + t0 + length v) \<and>
    take (w + t0 + length v) m2 = take w mem @ take t0 s @ v \<and> drop (d + (t1 + 2)) m2 = drop (t1 + 2) s @ NUL # rest"
proof -
  note t = strrfind_bounds[OF f] and mem = parse_mem[OF prems(1,2)]
  have w: "w + (t1 + 2) \<le> d + t0" using room(1) prems(3) t by linarith
  note C = cut_tag_mem[OF prems(1,2) conjunct1[OF t] conjunct2[OF t] w]
  let ?m1 = "cut_dot (d + t0 + 2) (tag_text mem d w t0 t1) (cut_tag mem d w t1)"
  obtain para sub where sp: "split_arg (take (t1 - t0 - 2) (drop (t0 + 2) s)) = (para, sub)" by force
  obtain sz bytes where tr: "TranslateWebPara handler tab r para sub = Some (sz, bytes)"
      "if sz < 0 then bytes = [] else nat sz \<le> length bytes \<and> length bytes \<le> nat sz + 1"
    using translate_prints[OF ph nn] by blast
  have wl: "w + (t1 + 2) \<le> length mem" using w t mem(1) by linarith
  show ?thesis
  proof (cases "sz < 0", intro exI[of _ "mem_put (w + t0) bytes ?m1"])
    case True
    then have v: "v = take (t1 + 2 - t0) (drop t0 s)" "bytes = []" using sp tr by (simp_all add: vdef tag_value_def)
    have lv: "t0 + length v = t1 + 2" using t unfolding v(1) by auto
    have "take t0 s @ v = take (t0 + (t1 + 2 - t0)) s" unfolding v(1) by (simp only: take_add)
    then have "take t0 s @ v = take (t1 + 2) s" using t by simp
    moreover have "w + t0 + length v = w + (t1 + 2)" "tot + t0 + length v = tot + (t1 + 2)" using lv by simp_all
    ultimately show "parse_loop (Suc fuel) handler tab r mem d w tot =
        parse_loop fuel handler tab r (mem_put (w + t0) bytes ?m1) (d + (t1 + 2)) (w + t0 + length v) (tot + t0 + length v) \<and>
        take (w + t0 + length v) (mem_put (w + t0) bytes ?m1) = take w mem @ take t0 s @ v \<and>
        drop (d + (t1 + 2)) (mem_put (w + t0) bytes ?m1) = drop (t1 + 2) s @ NUL # rest"
      using True v mem(2) f sp tr C by (simp add: Let_def)
  next
    case False
    then have v: "v = take (nat sz) bytes" "length v = nat sz" using sp tr by (simp_all add: vdef tag_value_def)
    have "w + t0 + nat sz < d + (t1 + 2)" using room(2) v(2) prems(3) by linarith
    then show ?thesis
      using False v mem(2) f sp tr C(1) put_value_mem[OF C(2,3,4) _ _ w wl, of sz bytes] t
      by (intro exI[of _ "mem_put (w + t0) bytes ?m1"]) (simp add: Let_def)
  qed
qed

lemma parse_loop_expand:
  assumes ph: "prints handler" and nn: "no_null tab"
  shows "drop d mem = s @ NUL # rest \<Longrightarrow> nul_free s \<Longrightarrow> w < d \<Longrightarrow> roomy handler tab r (d - w) s \<Longrightarrow> length s < fuel \<Longrightarrow>
    \<exists>mem'. parse_loop fuel handler tab r mem d w tot = Some (tot + length (expand handler tab r s), mem') \<and>
      take (w + length (expand handler tab r s)) mem' = take w mem @ expand handler tab r s"
proof (induction fuel arbitrary: mem d w tot s)
  case (Suc fuel)
  note mem = parse_mem[OF Suc.prems(1,2)]
  show ?case
  proof (cases "strrfind s")
    case None
    then have "parse_loop (Suc fuel) handler tab r mem d w tot = Some (tot + length s, mem_put w s mem)"
      using mem(2) Suc.prems(1) by simp
    moreover have "take (w + length s) (mem_put w s mem) = take w mem @ s" using mem(1) Suc.prems(3) by simp
    moreover have "expand handler tab r s = s" using None by (subst expand.simps) simp
    ultimately show ?thesis by simp
  next
    case (Some tt)
    then obtain t0 t1 where f: "strrfind s = Some (t0, t1)" by (cases tt) auto
    note t = strrfind_bounds[OF f]
    let ?v = "tag_value handler tab r s t0 t1" and ?s = "drop (t1 + 2) s"
    let ?w = "w + t0 + length ?v"
    have room: "t1 + 2 - t0 \<le> d - w" "t0 + length ?v < (d - w) + t1 + 2"
        "roomy handler tab r ((d - w) + t1 + 2 - (t0 + length ?v)) ?s"
      using Suc.prems(4) f by (subst (asm) roomy.simps, simp add: Let_def)+
    from parse_step[OF ph nn Suc.prems(1-3) f room(1,2) refl]
    obtain m2 where step: "parse_loop (Suc fuel) handler tab r mem d w tot =
        parse_loop fuel handler tab r m2 (d + (t1 + 2)) ?w (tot + t0 + length ?v)"
        "take ?w m2 = take w mem @ take t0 s @ ?v" "drop (d + (t1 + 2)) m2 = ?s @ NUL # rest" by blast
    have slack: "d + (t1 + 2) - ?w = (d - w) + t1 + 2 - (t0 + length ?v)" "?w < d + (t1 + 2)"
      using Suc.prems(3) room(2) by linarith+
    have "length ?s < fuel" using Suc.prems(5) t by auto
    from Suc.IH[OF step(3) _ slack(2) _ this, of "tot + t0 + length ?v"] room(3) slack(1) Suc.prems(2)
    obtain mem' where "parse_loop fuel handler tab r m2 (d + (t1 + 2)) ?w (tot + t0 + length ?v) =
          Some (tot + t0 + length ?v + length (expand handler tab r ?s), mem')"
        "take (?w + length (expand handler tab r ?s)) mem' = take ?w m2 @ expand handler tab r ?s" by auto
    moreover have "expand handler tab r s = take t0 s @ ?v @ expand handler tab r ?s" using f by (subst expand.simps) simp
    ultimately show ?thesis using step t by (auto simp: add.assoc)
  qed
qed simp

subsection \<open>Properties\<close>

text \<open>
  C26: Template expansion in place is correct. For every page and every table of arguments without null handlers, whose handlers
  print text and return its length, \<open>html_argument_parse\<close> ends after at most one round per character and
  builds exactly the page with each innermost tag replaced by what its handler prints for the authority of
  the request, and every other byte kept, as long as the result never comes closer to the
  unread page than a tag needs, for which it has \<open>HTTP_PARSE_LENGTH\<close> bytes and what the tags
  save.
\<close>

theorem html_argument_parse_correct:
  assumes "prints handler" "no_null tab" "nul_free page" "HTTP_PARSE_LENGTH \<le> length junk"
    and "roomy handler tab r HTTP_PARSE_LENGTH page"
  shows "html_argument_parse (length page + 1) handler tab r junk page = Some (expand handler tab r page)"
proof -
  let ?mem = "parse_block junk page"
  have "drop HTTP_PARSE_LENGTH ?mem = page @ NUL # []" using assms(4) by (simp add: parse_block_def)
  from parse_loop_expand[OF assms(1,2) this assms(3), of 0 r "length page + 1" 0] assms(5)
  obtain mem' where "parse_loop (length page + 1) handler tab r ?mem HTTP_PARSE_LENGTH 0 0 = Some (length (expand handler tab r page), mem')"
      "take (length (expand handler tab r page)) mem' = expand handler tab r page"
    by (auto simp: HTTP_PARSE_LENGTH_def)
  then show ?thesis unfolding html_argument_parse_def by simp
qed

definition title_arg :: html_argument where
  "title_arg = \<lparr>harg_name = ''title'', harg_handler = Some 0, harg_authority = 9\<rparr>"

definition title_handler :: page_handler where
  "title_handler h sub r = (6, ''Camera'' @ [NUL])"

theorem html_argument_parse_correct_witness:
  "html_argument_parse (length ''<b><%title%></b><%x%>'' + 1) title_handler (arg_hash_table_init [title_arg]) fresh
     (replicate HTTP_PARSE_LENGTH NUL) ''<b><%title%></b><%x%>'' = Some ''<b>Camera</b><%x%>''"
proof -
  let ?tab = "arg_hash_table_init [title_arg]" and ?page = "''<b><%title%></b><%x%>''"
  have look: "arg_search ''title'' ?tab = Some title_arg" "arg_search ''x'' ?tab = None"
    unfolding arg_hash_table_init_def args.look_table by (simp_all add: title_arg_def)
  have tr: "TranslateWebPara title_handler ?tab fresh ''title'' [] = Some (6, ''Camera'' @ [NUL])"
    "TranslateWebPara title_handler ?tab fresh ''x'' [] = Some (- 1, [])"
    by (simp_all add: TranslateWebPara_def look, simp add: title_arg_def title_handler_def fresh_def zero_request_def)
  have f: "strrfind ?page = Some (3, 10)" "strrfind ''</b><%x%>'' = Some (4, 7)" "strrfind [] = None"
    by (simp_all add: strrfind_def)
  have v: "tag_value title_handler ?tab fresh ?page 3 10 = ''Camera''"
    "tag_value title_handler ?tab fresh ''</b><%x%>'' 4 7 = ''<%x%>''"
    by (simp_all add: tag_value_def split_arg_def tr)
  have e: "expand title_handler ?tab fresh ?page = ''<b>Camera</b><%x%>''"
    by (subst expand.simps, subst f(1), simp add: v(1), subst expand.simps, subst f(2), simp add: v(2), subst expand.simps, simp add: f(3))
  have room: "roomy title_handler ?tab fresh HTTP_PARSE_LENGTH ?page"
    by (subst roomy.simps, subst f(1), simp add: v(1) HTTP_PARSE_LENGTH_def, subst roomy.simps, subst f(2), simp add: v(2), subst roomy.simps, simp add: f(3))
  have "prints title_handler" by (simp add: prints_def title_handler_def)
  moreover have "no_null ?tab"
    unfolding no_null_def arg_hash_table_init_def args.look_table by (auto simp: title_arg_def)
  ultimately show ?thesis
    using html_argument_parse_correct[of title_handler ?tab ?page "replicate HTTP_PARSE_LENGTH NUL" fresh] room unfolding e by simp
qed

end
