(* ===== verification/Boa_Mmap.thy ===== *)
theory Boa_Mmap
  imports Request
begin

text \<open>
  \<^verbatim>\<open>mmap_cache.c\<close>: the cache of mapped files, an open-addressing table with reference counts. A file is
  identified by device, inode and size. The outcome of \<open>mmap\<close> (the bytes of the file, or failure)
  is an argument.
\<close>

abbreviation MMAP_LIST_SIZE :: nat where "MMAP_LIST_SIZE \<equiv> 256"
abbreviation MMAP_LIST_USE_MAX :: nat where "MMAP_LIST_USE_MAX \<equiv> 128"

record mmap_entry =
  m_dev :: nat
  m_ino :: nat
  m_len :: nat
  m_data :: "char list"
  use_count :: nat

record file_id =
  st_dev :: nat
  st_ino :: nat
  st_size :: nat

record mmap_state =
  mmap_list :: "mmap_entry list"
  mmap_list_entries_used :: nat
  mmap_list_total_requests :: nat
  mmap_list_hash_bounces :: nat

definition MMAP_LIST_HASH :: "file_id \<Rightarrow> nat" where
  "MMAP_LIST_HASH s = st_ino s mod MMAP_LIST_SIZE"

definition same_file :: "mmap_entry \<Rightarrow> file_id \<Rightarrow> bool" where
  "same_file e s \<longleftrightarrow> m_dev e = st_dev s \<and> m_ino e = st_ino s \<and> m_len e = st_size s"

text \<open>The probe loop after \<open>d\<close> rounds: a hit, a free slot, or the start reached again; and the number
  of bounces.\<close>

datatype probe_result = Hit nat | Free_slot nat | Table_full

function probe :: "mmap_entry list \<Rightarrow> file_id \<Rightarrow> nat \<Rightarrow> nat \<Rightarrow> probe_result \<times> nat" where
  "probe tab s start d =
    (let i = (start + d) mod MMAP_LIST_SIZE in
     if use_count (tab ! i) = 0 then (Free_slot i, d)
     else if same_file (tab ! i) s then (Hit i, d)
     else if d + 1 < MMAP_LIST_SIZE then probe tab s start (d + 1)
     else (Table_full, d + 1))"
  by pat_completeness auto
termination
  by (relation "measure (\<lambda>(tab, s, start, d). MMAP_LIST_SIZE - d)") auto

declare probe.simps [simp del]

definition find_mmap :: "file_id \<Rightarrow> char list option \<Rightarrow> mmap_state \<Rightarrow> nat option \<times> mmap_state" where
  "find_mmap s mmap m0 =
    (case probe (mmap_list m0) s (MMAP_LIST_HASH s) 0 of (res, bounces) \<Rightarrow>
      let m = m0\<lparr>mmap_list_total_requests := mmap_list_total_requests m0 + 1,
                 mmap_list_hash_bounces := mmap_list_hash_bounces m0 + bounces\<rparr>;
          tab = mmap_list m
      in case res of
           Hit i \<Rightarrow> (Some i, m\<lparr>mmap_list := tab[i := (tab ! i)\<lparr>use_count := use_count (tab ! i) + 1\<rparr>]\<rparr>)
         | Table_full \<Rightarrow> (None, m)
         | Free_slot i \<Rightarrow>
             if mmap_list_entries_used m > MMAP_LIST_USE_MAX then (None, m)
             else (case mmap of None \<Rightarrow> (None, m)
               | Some bytes \<Rightarrow> (Some i, m\<lparr>mmap_list_entries_used := mmap_list_entries_used m + 1,
                   mmap_list := tab[i := \<lparr>m_dev = st_dev s, m_ino = st_ino s, m_len = st_size s,
                     m_data = bytes, use_count = 1\<rparr>]\<rparr>)))"

definition release_mmap :: "nat option \<Rightarrow> mmap_state \<Rightarrow> mmap_state" where
  "release_mmap e m =
    (case e of None \<Rightarrow> m
     | Some i \<Rightarrow>
        (let ent = mmap_list m ! i in
         if use_count ent = 0 then m
         else
           (let m1 = m\<lparr>mmap_list := (mmap_list m)[i := ent\<lparr>use_count := use_count ent - 1\<rparr>]\<rparr>
            in if use_count ent - 1 = 0 then m1\<lparr>mmap_list_entries_used := mmap_list_entries_used m1 - 1\<rparr> else m1)))"

text \<open>The file is opened by name: \<open>opened\<close> is its identity and mode, \<open>None\<close> when \<open>open\<close> fails.\<close>

definition find_named_mmap ::
  "(file_id \<times> bool) option \<Rightarrow> char list option \<Rightarrow> mmap_state \<Rightarrow> nat option \<times> mmap_state" where
  "find_named_mmap opened mmap m =
    (case opened of None \<Rightarrow> (None, m)
     | Some (s, is_dir) \<Rightarrow> if is_dir then (None, m) else find_mmap s mmap m)"

subsection \<open>The table counts its entries\<close>

definition used :: "mmap_entry list \<Rightarrow> nat" where
  "used tab = length (filter (\<lambda>e. use_count e \<noteq> 0) tab)"

definition mmap_ok :: "mmap_state \<Rightarrow> bool" where
  "mmap_ok m \<longleftrightarrow> length (mmap_list m) = MMAP_LIST_SIZE \<and> mmap_list_entries_used m = used (mmap_list m) \<and>
     used (mmap_list m) \<le> MMAP_LIST_USE_MAX + 1"

lemma used_update:
  "i < length tab \<Longrightarrow>
   used (tab[i := e]) + (if use_count (tab ! i) \<noteq> 0 then 1 else 0) =
   used tab + (if use_count e \<noteq> 0 then 1 else 0)"
proof (induction tab arbitrary: i)
  case (Cons x tab)
  then show ?case by (cases i) (auto simp: used_def split: if_splits)
qed simp

lemma used_same: "i < length tab \<Longrightarrow> 0 < use_count (tab ! i) \<Longrightarrow> 0 < use_count e \<Longrightarrow> used (tab[i := e]) = used tab"
  and used_new: "i < length tab \<Longrightarrow> use_count (tab ! i) = 0 \<Longrightarrow> 0 < use_count e \<Longrightarrow> used (tab[i := e]) = Suc (used tab)"
  and used_last: "i < length tab \<Longrightarrow> 0 < use_count (tab ! i) \<Longrightarrow> use_count e = 0 \<Longrightarrow> used (tab[i := e]) = used tab - 1"
  using used_update[of i tab e] by simp_all

lemma probe_hit:
  "probe tab s start d = (Hit i, b) \<Longrightarrow> i < MMAP_LIST_SIZE \<and> use_count (tab ! i) \<noteq> 0 \<and> same_file (tab ! i) s"
proof (induction tab s start d rule: probe.induct)
  case (1 tab s start d)
  then show ?case by (subst (asm) (2) probe.simps) (auto simp: Let_def split: if_splits)
qed

lemma probe_free:
  "probe tab s start d = (Free_slot i, b) \<Longrightarrow> i < MMAP_LIST_SIZE \<and> use_count (tab ! i) = 0"
proof (induction tab s start d rule: probe.induct)
  case (1 tab s start d)
  then show ?case by (subst (asm) (2) probe.simps) (auto simp: Let_def split: if_splits)
qed

lemma probe_full:
  "probe tab s start d = (Table_full, b) \<Longrightarrow> d \<le> d' \<Longrightarrow> d' < MMAP_LIST_SIZE \<Longrightarrow>
   use_count (tab ! ((start + d') mod MMAP_LIST_SIZE)) \<noteq> 0"
proof (induction tab s start d rule: probe.induct)
  case (1 tab s start d)
  let ?i = "(start + d) mod MMAP_LIST_SIZE"
  have u: "use_count (tab ! ?i) \<noteq> 0" and n: "\<not> same_file (tab ! ?i) s"
    using 1(2) by (auto simp: probe.simps[of tab s start d] Let_def split: if_splits)
  show ?case
  proof (cases "d' = d")
    case False
    with 1(3,4) have "d + 1 < MMAP_LIST_SIZE" "d + 1 \<le> d'" by auto
    moreover have "probe tab s start (d + 1) = (Table_full, b)"
      using 1(2) u n calculation(1) by (simp add: probe.simps[of tab s start d] Let_def)
    ultimately show ?thesis using 1(1)[OF refl u n] 1(4) by simp
  qed (use u in simp)
qed

text \<open>The stop of the probe at its start is never taken: the limit leaves free slots.\<close>

lemma used_all: "(\<forall>i < length tab. use_count (tab ! i) \<noteq> 0) \<Longrightarrow> used tab = length tab"
  unfolding used_def by (simp add: all_set_conv_all_nth)

lemma probe_not_full:
  assumes "mmap_ok m"
  shows "probe (mmap_list m) s start 0 \<noteq> (Table_full, b)"
proof
  assume full: "probe (mmap_list m) s start 0 = (Table_full, b)"
  have "\<forall>i < length (mmap_list m). use_count (mmap_list m ! i) \<noteq> 0"
  proof (intro allI impI)
    fix i assume "i < length (mmap_list m)"
    then have i: "i < 256" using assms by (simp add: mmap_ok_def)
    define d where "d = (i + (256 - start mod 256)) mod 256"
    have "(start + d) mod 256 = (start mod 256 + (i + (256 - start mod 256))) mod 256"
      unfolding d_def by (simp only: mod_add_left_eq mod_add_right_eq)
    also have "start mod 256 + (i + (256 - start mod 256)) = i + 256"
      using mod_less_divisor[of 256 start] by linarith
    also have "(i + 256) mod 256 = i" using i by simp
    finally show "use_count (mmap_list m ! i) \<noteq> 0"
      using probe_full[OF full, of d] by (simp add: d_def)
  qed
  from used_all[OF this] assms show False unfolding mmap_ok_def by linarith
qed

lemmas mmap_cases = probe_hit probe_free

lemma find_mmap_ok: "mmap_ok m \<Longrightarrow> mmap_ok (snd (find_mmap s data m))"
  using mmap_cases[of "mmap_list m" s "MMAP_LIST_HASH s" 0]
  by (auto simp: find_mmap_def mmap_ok_def Let_def used_same used_new split: prod.splits probe_result.splits option.splits)

lemma release_mmap_ok:
  assumes "mmap_ok m" "\<And>i. e = Some i \<Longrightarrow> i < MMAP_LIST_SIZE"
  shows "mmap_ok (release_mmap e m)"
proof (cases e)
  case (Some i)
  then have "i < length (mmap_list m)" using assms by (simp add: mmap_ok_def)
  then show ?thesis
    using Some assms(1)
    by (auto simp: release_mmap_def mmap_ok_def Let_def used_same used_last split: if_splits)
qed (use assms in \<open>simp add: release_mmap_def\<close>)

subsection \<open>What a caller gets\<close>

definition empty_mmap :: mmap_state where
  "empty_mmap = \<lparr>mmap_list = replicate MMAP_LIST_SIZE \<lparr>m_dev = 0, m_ino = 0, m_len = 0, m_data = [], use_count = 0\<rparr>,
     mmap_list_entries_used = 0, mmap_list_total_requests = 0, mmap_list_hash_bounces = 0\<rparr>"

lemma empty_mmap_ok: "mmap_ok empty_mmap"
  by (simp add: empty_mmap_def mmap_ok_def used_def)

text \<open>
  C29: \<open>find_mmap\<close> (with the table's counters consistent) keeps them consistent and never ends in the
  "Shouldn't happen" exit of its probe loop: when it fails, the limit of entries has been passed or the mapping itself
  failed, and the table is as before. When it succeeds, the entry it returns is in use, describes
  exactly the device, inode and size asked for, and no other entry changed.
\<close>

theorem find_mmap_correct:
  assumes "mmap_ok m" "find_mmap s data m = (r, m')"
  shows "mmap_ok m' \<and>
    (case r of
       None \<Rightarrow> (mmap_list_entries_used m > MMAP_LIST_USE_MAX \<or> data = None) \<and> mmap_list m' = mmap_list m
     | Some i \<Rightarrow> i < MMAP_LIST_SIZE \<and> same_file (mmap_list m' ! i) s \<and>
         use_count (mmap_list m' ! i) = use_count (mmap_list m ! i) + 1 \<and>
         (\<forall>j. j \<noteq> i \<longrightarrow> mmap_list m' ! j = mmap_list m ! j))"
proof -
  have "mmap_ok m'" using find_mmap_ok[OF assms(1), of s data] assms(2) by simp
  moreover have "length (mmap_list m) = 256" using assms(1) by (simp add: mmap_ok_def)
  ultimately show ?thesis
    using assms mmap_cases[of "mmap_list m" s "MMAP_LIST_HASH s" 0] probe_not_full[OF assms(1), of s "MMAP_LIST_HASH s"]
    by (auto simp: find_mmap_def Let_def same_file_def
        split: prod.splits probe_result.splits option.splits if_splits)
qed

definition sample_file :: file_id where
  "sample_file = \<lparr>st_dev = 1, st_ino = 7, st_size = 3\<rparr>"

theorem find_mmap_correct_witness:
  "mmap_ok empty_mmap \<and> fst (find_mmap sample_file (Some ''abc'') empty_mmap) = Some 7 \<and>
   same_file (mmap_list (snd (find_mmap sample_file (Some ''abc'') empty_mmap)) ! 7) sample_file"
proof -
  have "fst (find_mmap sample_file (Some ''abc'') empty_mmap) = Some 7"
    by (simp add: find_mmap_def probe.simps empty_mmap_def sample_file_def MMAP_LIST_HASH_def Let_def)
  then show ?thesis
    using find_mmap_correct[OF empty_mmap_ok, of sample_file "Some ''abc''" "Some 7"
        "snd (find_mmap sample_file (Some ''abc'') empty_mmap)"]
    by (simp add: empty_mmap_ok prod_eq_iff)
qed

text \<open>
  Releasing what was found gives back what was taken: after \<open>find_mmap\<close> and \<open>release_mmap\<close> of its
  result, the number of entries in use and the reference count of every entry are as before, so a
  mapping taken once is unmapped exactly when its last user releases it.
\<close>

theorem find_release_balanced:
  assumes "mmap_ok m" "find_mmap s data m = (r, m')"
  shows "mmap_list_entries_used (release_mmap r m') = mmap_list_entries_used m \<and>
    (\<forall>i < MMAP_LIST_SIZE. use_count (mmap_list (release_mmap r m') ! i) = use_count (mmap_list m ! i))"
proof -
  have "length (mmap_list m) = 256" using assms(1) by (simp add: mmap_ok_def)
  then show ?thesis
    using assms mmap_cases[of "mmap_list m" s "MMAP_LIST_HASH s" 0]
    by (auto simp: find_mmap_def release_mmap_def Let_def nth_list_update
        split: prod.splits probe_result.splits option.splits if_splits)
qed

theorem find_release_balanced_witness:
  "mmap_ok empty_mmap \<and>
   mmap_list_entries_used (release_mmap (fst (find_mmap sample_file (Some ''abc'') empty_mmap))
     (snd (find_mmap sample_file (Some ''abc'') empty_mmap))) = 0"
  using find_release_balanced[OF empty_mmap_ok, of sample_file "Some ''abc''"] empty_mmap_ok
  by (simp add: empty_mmap_def)

end
