(* ===== verification/Boa_Get.thy ===== *)
theory Boa_Get
  imports Boa_Template Boa_Mmap
begin

text \<open>
  \<^verbatim>\<open>get.c\<close>: serving files. \<open>init_get\<close> opens the file of a request and decides how to answer (an error page, a
  redirection, a decompressor, a directory index, not modified, a template, or the file itself, mapped or read through a pipe),
  \<open>process_get\<close> sends the rest of a mapped file.

  The file system is an argument: what \<open>open\<close> and \<open>fstat\<close> report for a name, with the result of mapping the file.
  \<open>process_get\<close> is modelled for requests that are not audio or video streams (\<open>http_stream = 0\<close>).
\<close>

record fs_file =
  ff_id :: file_id
  ff_dir :: bool
  ff_mtime :: int
  ff_map :: "char list option"

record get_env =
  fs_open :: "cstring \<Rightarrow> errno + fs_file"
  open_fd :: nat
  map_errno :: errno
  pg_handler :: page_handler
  pg_args :: "html_argument list list"
  pg_junk :: "char list"
  pg_alloc :: bool
  chdir_error :: "errno option"
  dir_entries :: "cstring list option"
  cache_create :: bool
  cache_reopen :: "fs_file option"

definition MAX_FILE_MMAP :: nat where "MAX_FILE_MMAP = 102400"

subsection \<open>Directories\<close>

datatype dir_result = Dir_error request | Dir_return int request | Dir_file fs_file request | Dir_crash

text \<open>The page \<open>index_directory\<close> writes; its length is the size logged.\<close>

definition index_entry :: "cstring \<Rightarrow> cstring" where
  "index_entry n =
    (if n = ''.'' then []
     else if n = ''..'' then '' [DIR] <A HREF='' @ [CHR 0x22] @ ''../'' @ [CHR 0x22] @ ''>Parent Directory</A>'' @ [LF]
     else (case escape_string True n of
         None \<Rightarrow> []
       | Some escname \<Rightarrow> '' <A HREF='' @ [CHR 0x22] @ escname @ [CHR 0x22] @ ''>'' @ n @ ''</A>'' @ [LF]))"

definition index_page :: "cstring \<Rightarrow> cstring list \<Rightarrow> cstring" where
  "index_page uri names =
     ''<HTML><HEAD>'' @ [LF] @ ''<TITLE>Index of '' @ uri @ ''</TITLE>'' @ [LF] @ ''</HEAD>'' @ [LF, LF] @
     ''<BODY>'' @ [LF, LF] @ ''<H2>Index of '' @ uri @ ''</H2>'' @ [LF, LF] @ ''<PRE>'' @ [LF] @
     concat (map index_entry names) @
     ''</PRE>'' @ [LF, LF] @ ''</BODY>'' @ [LF] @ ''</HTML>'' @ [LF]"

definition index_directory :: "get_env \<Rightarrow> conf \<Rightarrow> request \<Rightarrow> request + request" where
  "index_directory env cfg r =
    (case chdir_error env of
       Some e \<Rightarrow> Inl (if e = EACCES then send_r_forbidden cfg r else send_r_bad_request cfg r)
     | None \<Rightarrow>
        (case dir_entries env of
           None \<Rightarrow> Inl (send_r_error cfg r)
         | Some names \<Rightarrow>
             if \<not> cache_create env then Inl (send_r_error cfg r)
             else Inr (r\<lparr>filesize := length (index_page (request_uri r) names)\<rparr>)))"

definition get_cachedir_file :: "get_env \<Rightarrow> conf \<Rightarrow> cstring \<Rightarrow> fs_file \<Rightarrow> request \<Rightarrow> dir_result" where
  "get_cachedir_file env cfg cache f r =
    (let name = cache @ ''/dir.'' @ itoa (st_dev (ff_id f)) @ ''.'' @ itoa (st_ino (ff_id f));
         found = (\<lambda>g r. case directory_index cfg of None \<Rightarrow> Dir_crash
                    | Some idx \<Rightarrow> Dir_file (g\<lparr>ff_mtime := ff_mtime f\<rparr>) (r\<lparr>request_uri := idx\<rparr>));
         make = (case index_directory env cfg r of
                   Inl r1 \<Rightarrow> Dir_error r1
                 | Inr r1 \<Rightarrow> (case cache_reopen env of Some g \<Rightarrow> found g r1 | None \<Rightarrow> Dir_error (send_r_error cfg r1)))
     in case fs_open env name of
          Inr g \<Rightarrow> if ff_mtime g > ff_mtime f then found g r else make
        | Inl _ \<Rightarrow> make)"

definition dir_fallback :: "get_env \<Rightarrow> conf \<Rightarrow> cgi_sys \<Rightarrow> fs_file \<Rightarrow> request \<Rightarrow> dir_result" where
  "dir_fallback env cfg sys f r =
    (if dirmaker cfg \<noteq> None then
       (let r1 = (SQUASH_KA r)\<lparr>response_status := R_REQUEST_OK\<rparr>;
            r2 = (if simple r1 then r1
                  else snd (req_flush (emit ([Txt (''HTTP/1.0 200 OK'' @ CRLF)] @ print_http_headers cfg r1 @
                    print_last_modified cfg r1 @ [Txt (''Content-Type: text/html'' @ CRLF @ CRLF)]) r1)))
        in if method r2 = M_HEAD then Dir_return 0 r2
           else (case init_cgi cfg sys r2 of (ret, r3) \<Rightarrow> Dir_return ret r3))
     else (case cachedir cfg of
        Some cache \<Rightarrow> get_cachedir_file env cfg cache f r
      | None \<Rightarrow> Dir_error (send_r_forbidden cfg r)))"

definition get_dir :: "get_env \<Rightarrow> conf \<Rightarrow> cgi_sys \<Rightarrow> cstring \<Rightarrow> fs_file \<Rightarrow> request \<Rightarrow> dir_result" where
  "get_dir env cfg sys path f r =
    (case directory_index cfg of
       None \<Rightarrow> dir_fallback env cfg sys f r
     | Some idx \<Rightarrow>
        (case fs_open env (path @ idx) of
           Inr g \<Rightarrow> Dir_file g (r\<lparr>request_uri := idx\<rparr>)
         | Inl e \<Rightarrow>
             if e = EACCES then Dir_error (send_r_forbidden cfg r)
             else if e \<noteq> ENOENT then Dir_error (send_r_not_found cfg r)
             else (case fs_open env (path @ idx @ ''.gz'') of
                 Inl _ \<Rightarrow> dir_fallback env cfg sys f r
               | Inr _ \<Rightarrow>
                   (let r1 = (SQUASH_KA r)\<lparr>response_status := R_REQUEST_OK, pathname := Some (path @ idx @ ''.gz'')\<rparr>;
                        r2 = (if simple r1 then r1
                              else snd (req_flush (emit ([Txt (''HTTP/1.0 200 OK-GUNZIP'' @ CRLF)] @ print_http_headers cfg r1 @
                                print_last_modified cfg r1 @
                                [Txt ''Content-Type: '', Txt (get_mime_type (default_type cfg) (mime_hashtable cfg) idx), Txt (CRLF @ CRLF)]) r1)))
                    in if method r2 = M_HEAD then Dir_return 0 r2
                       else (case init_cgi cfg sys r2 of (ret, r3) \<Rightarrow> Dir_return ret r3)))))"

subsection \<open>Files\<close>

definition errno_page :: "conf \<Rightarrow> errno \<Rightarrow> request \<Rightarrow> request" where
  "errno_page cfg e r =
    (if e = ENOENT then send_r_not_found cfg r else if e = EACCES then send_r_forbidden cfg r else send_r_bad_request cfg r)"

definition gunzip_reply :: "conf \<Rightarrow> cgi_sys \<Rightarrow> cstring \<Rightarrow> request \<Rightarrow> int \<times> request" where
  "gunzip_reply cfg sys path r =
    (let r1 = r\<lparr>response_status := R_REQUEST_OK, pathname := Some (path @ ''.gz'')\<rparr>;
         r2 = (if simple r1 then r1
               else snd (req_flush (emit ([Txt (''HTTP/1.0 200 OK-GUNZIP'' @ CRLF)] @ print_http_headers cfg r1 @
                 print_content_type cfg r1 @ print_last_modified cfg r1 @ [Txt CRLF]) r1)))
     in if method r2 = M_HEAD then (0, r2) else init_cgi cfg sys r2)"

definition flag_set :: "nat \<Rightarrow> request \<Rightarrow> bool" where
  "flag_set b r = (case http_uri r of None \<Rightarrow> False | Some u \<Rightarrow> has_flag u b)"

text \<open>The first part of a mapped file goes into the output buffer behind the headers.\<close>

definition buffer_start_of_file :: "char list \<Rightarrow> request \<Rightarrow> request" where
  "buffer_start_of_file data r =
    (let bytes = BUFFER_SIZE - buffer_end r in
     if bytes = 0 then r
     else
       (let n = min bytes (filesize r);
            r1 = (append_to_buffer (take n data) r)\<lparr>filepos := filepos r + n\<rparr>
        in if filesize r1 = filepos r1 then (snd (req_flush r1))\<lparr>status := DONE\<rparr> else r1))"

definition serve_mapped ::
  "get_env \<Rightarrow> conf \<Rightarrow> nat \<Rightarrow> request \<Rightarrow> mmap_state \<Rightarrow> (int \<times> request \<times> mmap_state) option" where
  "serve_mapped env cfg i r0 m =
    (let data = m_data (mmap_list m ! i);
         r = r0\<lparr>mmap_entry_var := Some i, data_mem := Some data\<rparr>
     in if flag_set URI_FLAG_NEED_PARSE r \<and> pg_alloc env then
          (case html_argument_parse (length data + 1) (pg_handler env) (pg_args env)
              (r\<lparr>is_memory := True, has_mmap_ptr := True\<rparr>) (pg_junk env) (take (filesize r) data) of
             None \<Rightarrow> None
           | Some page \<Rightarrow> Some (1, send_request_ok_no_cache cfg (r\<lparr>is_memory := True, has_mmap_ptr := True,
               data_mem := Some page, filesize := length page\<rparr>), m))
        else Some (1, buffer_start_of_file data (send_r_request_ok cfg r), m))"

definition serve_file ::
  "get_env \<Rightarrow> conf \<Rightarrow> fs_file \<Rightarrow> request \<Rightarrow> mmap_state \<Rightarrow> (int \<times> request \<times> mmap_state) option" where
  "serve_file env cfg f r m =
    (let dynamic = flag_set URI_FLAG_NEED_PARSE r \<or> flag_set URI_FLAG_VOLATILE_FILE r in
     if (case if_modified_since r of None \<Rightarrow> False
         | Some d \<Rightarrow> \<not> dynamic \<and> modified_since (gmtime cfg (ff_mtime f)) d = 0)
     then Some (0, send_r_not_modified cfg r, m)
     else
       (let r1 = r\<lparr>filesize := st_size (ff_id f), last_modified := ff_mtime f\<rparr> in
        if method r1 = M_HEAD \<or> filesize r1 = 0 then Some (0, send_r_request_ok cfg r1, m)
        else if filesize r1 > MAX_FILE_MMAP then
          (let r2 = (send_r_request_ok cfg r1)\<lparr>status := PIPE_READ, cgi_status := CGI_BUFFER, data_fd := open_fd env\<rparr>
           in Some (1, (snd (req_flush r2))\<lparr>header_line := In_buffer 0, header_end := In_buffer 0\<rparr>, m))
        else (case find_mmap (ff_id f) (ff_map f) m of
            (None, m1) \<Rightarrow> Some (0, errno_page cfg (map_errno env) (r1\<lparr>buffer_end := 0\<rparr>), m1)
          | (Some i, m1) \<Rightarrow> serve_mapped env cfg i r1 m1)))"

definition init_get ::
  "get_env \<Rightarrow> conf \<Rightarrow> cgi_sys \<Rightarrow> request \<Rightarrow> mmap_state \<Rightarrow> (int \<times> request \<times> mmap_state) option" where
  "init_get env cfg sys r m =
    (case (case pathname r of None \<Rightarrow> Inl EOTHER | Some path \<Rightarrow> fs_open env path) of
       Inl e \<Rightarrow>
         (case (case pathname r of Some path \<Rightarrow> if e = ENOENT then fs_open env (path @ ''.gz'') else Inl e | None \<Rightarrow> Inl e) of
            Inr _ \<Rightarrow> (case gunzip_reply cfg sys (the (pathname r)) r of (ret, r1) \<Rightarrow> Some (ret, r1, m))
          | Inl _ \<Rightarrow> Some (0, errno_page cfg e r, m))
     | Inr f \<Rightarrow>
         if ff_dir f then
           (let path = the (pathname r) in
            if last path \<noteq> CHR ''/'' then
              Some (0, send_r_moved_perm (''http://'' @ server_name cfg @
                (if server_port cfg \<noteq> 80 then '':'' @ show_int (server_port cfg) else []) @ request_uri r @ ''/'') cfg r, m)
            else (case get_dir env cfg sys path f r of
                Dir_crash \<Rightarrow> None
              | Dir_error r1 \<Rightarrow> Some (0, r1, m)
              | Dir_return ret r1 \<Rightarrow> Some (ret, r1, m)
              | Dir_file g r1 \<Rightarrow> serve_file env cfg g r1 m))
         else serve_file env cfg f r m)"

subsection \<open>Sending the file\<close>

definition SOCKETBUF_SIZE :: nat where "SOCKETBUF_SIZE = 8192"

definition process_get :: "request \<Rightarrow> int \<times> request" where
  "process_get r =
    (let data = (case data_mem r of Some d \<Rightarrow> d | None \<Rightarrow> []);
         bytes_to_write = min (filesize r - filepos r) SOCKETBUF_SIZE
     in case sock_write (take bytes_to_write (drop (filepos r) data)) r of
          (W_err e, r1) \<Rightarrow> if would_block e then (- 1, r1) else (0, r1\<lparr>status := DEAD\<rparr>)
        | (W_ok n, r1) \<Rightarrow>
            (let r2 = r1\<lparr>filepos := filepos r1 + n\<rparr> in (if filepos r2 = filesize r2 then 0 else 1, r2)))"

subsection \<open>A file reaches the client\<close>

text \<open>
  The invariant while a mapped file \<open>data\<close> is sent over a connection that does not break: what the client has got, what is in the buffer
  and the rest of the file make up the whole answer, and a request that is done has nothing left of the file.
\<close>

definition healthy :: "request \<Rightarrow> bool" where
  "healthy r \<longleftrightarrow> (\<forall>w \<in> set (sock_out r). case w of W_ok n \<Rightarrow> n > 0 | W_err e \<Rightarrow> would_block e)"

definition sending :: "char list \<Rightarrow> char list \<Rightarrow> request \<Rightarrow> bool" where
  "sending data answer r \<longleftrightarrow> buf_ok r \<and> (buffer_end r = 0 \<or> pending r \<noteq> []) \<and> healthy r \<and> http_stream r = 0 \<and>
     filesize r = length data \<and> filepos r \<le> length data \<and> data_mem r = Some data \<and> status r \<in> {WRITE, DONE} \<and>
     (status r = DONE \<longrightarrow> filepos r = length data) \<and> outstream r @ drop (filepos r) data = answer"

lemma req_flush_filepos [simp]: "filepos (snd (req_flush r)) = filepos r"
  using io_erase_fields(9)[OF io_erase_flush[of r]] .

lemma sending_flush:
  assumes "sending data answer r" "sock_out r = w # t" "pending r \<noteq> []"
  shows "\<exists>n r'. req_flush r = (n, r') \<and> n \<ge> - 1 \<and> sending data answer r' \<and> status r' = status r \<and> sock_out r' = t \<and>
     ((\<exists>k. w = W_ok k) \<longrightarrow> length (sock_sent r') > length (sock_sent r)) \<and> (n = 0 \<longrightarrow> pending r' = [])"
proof -
  have ok: "buf_ok r" and st: "status r \<noteq> DEAD" using assms(1) by (auto simp: sending_def)
  have fr: "sending data answer r'" if "buf_ok r'" "outstream r' = outstream r" "buffer_end r' = 0 \<or> pending r' \<noteq> []" "sock_out r' = t"
      "http_stream r' = http_stream r" "filesize r' = filesize r" "filepos r' = filepos r" "data_mem r' = data_mem r" "status r' = status r" for r'
    using that assms(1,2) by (auto simp: sending_def healthy_def)
  show ?thesis
  proof (cases w)
    case (W_err e)
    then have f: "req_flush r = (- 1, r\<lparr>sock_out := t\<rparr>)"
      using assms(1,2) by (intro req_flush_blocked(2)[OF ok st assms(3)]) (auto simp: sending_def healthy_def)
    have "sending data answer (r\<lparr>sock_out := t\<rparr>)"
      using assms(1) by (intro fr) (auto simp: sending_def buf_ok_def outstream_def pending_def)
    then show ?thesis using f W_err by simp
  next
    case (W_ok n)
    then have n: "n > 0" using assms(1,2) by (auto simp: sending_def healthy_def)
    define r' where "r' = snd (req_flush r)"
    have f: "req_flush r = (if length (pending r) \<le> n
       then (0, r\<lparr>sock_out := t, sock_sent := sock_sent r @ pending r, buffer_start := 0, buffer_end := 0\<rparr>)
       else (int (buffer_end r), r\<lparr>sock_out := t, sock_sent := sock_sent r @ take n (pending r), buffer_start := buffer_start r + n\<rparr>))"
      using req_flush_wrote[OF ok st assms(3)] assms(2) W_ok by simp
    then have "fst (req_flush r) \<noteq> - 2" by (simp split: if_splits)
    then have c: "outstream r' = outstream r" "buf_ok r'" using req_flush_conserves[OF ok] req_flush_ok[OF ok] by (simp_all add: r'_def)
    show ?thesis
    proof (cases "length (pending r) \<le> n")
      case True
      with f have r': "r' = r\<lparr>sock_out := t, sock_sent := sock_sent r @ pending r, buffer_start := 0, buffer_end := 0\<rparr>" by (simp add: r'_def)
      have "sending data answer r'" by (rule fr) (use c r' in simp_all)
      moreover have "pending r' = []" by (simp add: r' pending_def)
      ultimately show ?thesis using f True r' assms(3) by simp
    next
      case False
      with f have r': "r' = r\<lparr>sock_out := t, sock_sent := sock_sent r @ take n (pending r), buffer_start := buffer_start r + n\<rparr>"
        by (simp add: r'_def)
      have "pending r' \<noteq> []" using False length_pending[OF ok] pending_Nil_iff[OF c(2)] r' by auto
      then have "sending data answer r'" by (intro fr) (use c r' in simp_all)
      moreover have "buffer_end r > 0" using False length_pending[OF ok] by auto
      ultimately show ?thesis using f False r' n assms(3) by simp
    qed
  qed
qed

lemma process_get_sending:
  assumes "sending data answer r" "sock_out r = w # t" "buffer_end r = 0" "status r = WRITE"
  shows "\<exists>n r'. process_get r = (n, r') \<and> sending data answer r' \<and> pending r' = [] \<and> (n = 0 \<longrightarrow> filepos r' = length data) \<and> sock_out r' = t \<and>
     (n \<noteq> 0 \<longrightarrow> (\<exists>k. w = W_ok k) \<longrightarrow> length (sock_sent r') > length (sock_sent r)) \<and> length (sock_sent r) \<le> length (sock_sent r')"
proof -
  let ?d = "take (min (length data - filepos r) SOCKETBUF_SIZE) (drop (filepos r) data)"
  have s: "buf_ok r" "filesize r = length data" "filepos r \<le> length data" "data_mem r = Some data"
    "outstream r @ drop (filepos r) data = answer" using assms(1) by (auto simp: sending_def)
  have p: "pending r = []" using assms(3) s(1) by (simp add: pending_def)
  show ?thesis
  proof (cases w)
    case (W_err e)
    then have "process_get r = (- 1, r\<lparr>sock_out := t\<rparr>)"
      using assms(1,2) by (auto simp: process_get_def s(2,4) sock_write_def sending_def healthy_def)
    moreover have "sending data answer (r\<lparr>sock_out := t\<rparr>)" "pending (r\<lparr>sock_out := t\<rparr>) = []"
      using assms(1,2) p by (auto simp: sending_def healthy_def buf_ok_def outstream_def pending_def)
    ultimately show ?thesis using W_err by simp
  next
    case (W_ok n)
    then have n: "n > 0" using assms(1,2) by (auto simp: sending_def healthy_def)
    define k where "k = min n (length ?d)"
    define q where "q = r\<lparr>sock_out := t, sock_sent := sock_sent r @ take k ?d, filepos := filepos r + k\<rparr>"
    have f: "process_get r = (if filepos r + k = length data then 0 else 1, q)"
      using W_ok assms(2) by (simp add: process_get_def s(2,4) sock_write_def Let_def k_def q_def)
    have "k \<le> length ?d" unfolding k_def by (rule min.cobounded2)
    moreover from this have l: "length (sock_sent q) = length (sock_sent r) + k" "sock_out q = t" "filepos q = filepos r + k"
      by (simp_all add: q_def)
    ultimately have "filepos r + k \<le> length data" "take k ?d = take k (drop (filepos r) data)" using s(3) by (auto simp: min_def split: if_splits)
    moreover from this(2) have "take k ?d @ drop (filepos r + k) data = drop (filepos r) data"
      by (metis append_take_drop_id drop_drop add.commute)
    moreover have "outstream q = sock_sent r @ take k ?d" "pending q = []" using p by (simp_all add: outstream_def pending_def q_def)
    ultimately have "sending data answer q" "pending q = []"
      using s(5) p assms by (auto simp: sending_def healthy_def buf_ok_def outstream_def q_def)
    moreover have "k > 0 \<or> filepos r + k = length data" using n s(3) by (auto simp: k_def SOCKETBUF_SIZE_def)
    ultimately show ?thesis using f l by auto
  qed
qed

text \<open>The socket will take more writes than there are bytes left: enough, since every write takes at least one.\<close>

definition offers :: "wr_result list \<Rightarrow> nat" where
  "offers ws = length (filter (\<lambda>w. case w of W_ok n \<Rightarrow> True | W_err e \<Rightarrow> False) ws)"

definition enough :: "char list \<Rightarrow> request \<Rightarrow> bool" where
  "enough answer r \<longleftrightarrow> length answer < length (sock_sent r) + offers (sock_out r)"

lemma enough_step:
  assumes "enough answer r" "sock_out r = w # t" "sock_out r' = t" "length (sock_sent r) \<le> length (sock_sent r')"
    "(\<exists>k. w = W_ok k) \<longrightarrow> length (sock_sent r') > length (sock_sent r)"
  shows "enough answer r'"
  using assms by (cases w) (auto simp: enough_def offers_def)

lemma enough_sock_out:
  assumes "enough answer r" "length (sock_sent r) \<le> length answer"
  obtains w t where "sock_out r = w # t"
  using assms by (cases "sock_out r") (auto simp: enough_def offers_def)

lemma sending_sent: "sending data answer r \<Longrightarrow> length (sock_sent r) \<le> length answer"
  by (auto simp: sending_def outstream_def)

lemma req_flush_sent: "buf_ok r \<Longrightarrow> length (sock_sent r) \<le> length (sock_sent (snd (req_flush r)))"
  by (cases rule: req_flush_cases[of r]) simp_all

lemma buffer_start_sending:
  assumes ok: "buf_ok r" "buffer_end r = 0 \<or> pending r \<noteq> []" "healthy r" "http_stream r = 0" "status r = WRITE"
    and f: "filesize r = length data" "filepos r = 0" "data_mem r = Some data" "data \<noteq> []" and e: "enough (outstream r @ data) r"
  shows "sending data (outstream r @ data) (buffer_start_of_file data r) \<and> enough (outstream r @ data) (buffer_start_of_file data r) \<and>
     length (sock_out (buffer_start_of_file data r)) \<le> length (sock_out r)"
proof (cases "buffer_end r = BUFFER_SIZE")
  case True
  then show ?thesis using ok f e by (auto simp: buffer_start_of_file_def sending_def)
next
  case False
  define n where "n = min (BUFFER_SIZE - buffer_end r) (length data)"
  define r1 where "r1 = (append_to_buffer (take n data) r)\<lparr>filepos := n\<rparr>"
  have n: "0 < n" "n \<le> length data" "n \<le> BUFFER_SIZE - buffer_end r" using False ok(1) f(4) by (auto simp: n_def buf_ok_def)
  have b: "buf_ok (append_to_buffer (take n data) r)" by (rule append_to_buffer_ok) (use ok(1) n in \<open>auto simp: buf_ok_def\<close>)
  have p: "pending r1 \<noteq> []" using b n ok(1) length_pending[OF b] pending_Nil_iff[OF b]
    by (simp add: r1_def append_to_buffer_def pending_def buf_ok_def)
  have o: "outstream r1 = outstream r @ take n data" using outstream_append[OF ok(1), of "take n data"] by (simp add: r1_def outstream_def pending_def)
  have s: "sending data (outstream r @ data) r1"
    using b p o ok f n by (auto simp: sending_def healthy_def r1_def buf_ok_def append_to_buffer_def)
  have e1: "enough (outstream r @ data) r1" "sock_out r1 = sock_out r" using e by (simp_all add: enough_def r1_def append_to_buffer_def)
  have eq: "buffer_start_of_file data r = (if length data = n then (snd (req_flush r1))\<lparr>status := DONE\<rparr> else r1)"
  proof -
    have "BUFFER_SIZE - buffer_end r \<noteq> 0" "filesize r1 = length data" "filepos r1 = n"
      using n f(1) by (auto simp: r1_def append_to_buffer_def)
    then show ?thesis unfolding buffer_start_of_file_def Let_def f(1,2) add_0 n_def[symmetric] r1_def[symmetric] by simp
  qed
  show ?thesis
  proof (cases "length data = n")
    case False
    then show ?thesis using eq s e1 by simp
  next
    case True
    obtain w t where w: "sock_out r1 = w # t" by (rule enough_sock_out[OF e1(1) sending_sent[OF s]])
    obtain m r2 where r2: "req_flush r1 = (m, r2)" "sending data (outstream r @ data) r2" "sock_out r2 = t"
        "(\<exists>k. w = W_ok k) \<longrightarrow> length (sock_sent r2) > length (sock_sent r1)"
      using sending_flush[OF s w p] by blast
    have "filepos r1 = n" by (simp add: r1_def)
    then have "filepos r2 = n" using req_flush_filepos[of r1] r2(1) by simp
    then have "sending data (outstream r @ data) (r2\<lparr>status := DONE\<rparr>)"
      using r2(2) True by (auto simp: sending_def buf_ok_def healthy_def outstream_def pending_def)
    moreover have "enough (outstream r @ data) (r2\<lparr>status := DONE\<rparr>)"
      by (rule enough_step[OF e1(1) w]) (use r2 s req_flush_sent[of r1] in \<open>auto simp: sending_def\<close>)
    ultimately show ?thesis using eq True r2 w e1(2) by simp
  qed
qed

end
