(* ===== verification/Boa_Request.thy ===== *)
theory Boa_Request
  imports Boa_Alias Boa_Auth Boa_Get
begin

text \<open>
  \<^verbatim>\<open>request.c\<close>: the request line, the header lines and what follows the end of the headers. Functions that the
  URI table names as handlers are an argument (\<open>uri_run\<close>): they act on the request and on the state of the server.
\<close>

subsection \<open>The request line\<close>

definition SIMPLE_HTTP_VERSION :: cstring where "SIMPLE_HTTP_VERSION = ''HTTP/0.9''"

text \<open>The method, and the number of characters up to and with the space behind it.\<close>

definition logline_method :: "cstring \<Rightarrow> (http_method \<times> nat) option" where
  "logline_method line =
    (if prefix ''GET '' line then Some (M_GET, 4)
     else if prefix ''HEAD '' line then Some (M_HEAD, 5)
     else if prefix ''POST '' line then Some (M_POST, 5)
     else if prefix ''DESCRIBE '' line then Some (M_GET, 9)
     else None)"

definition fmt_version :: "cstring \<Rightarrow> scan_item list" where
  "fmt_version proto = scan_lits (proto @ ''/'') @ [Scan_u, Scan_lit (CHR ''.''), Scan_u]"

definition scan_version :: "cstring \<Rightarrow> cstring \<Rightarrow> (int \<times> int) option" where
  "scan_version proto s =
    (let vs = sscanf (fmt_version proto) s in if length vs = 2 then Some (int_arg vs 0, int_arg vs 1) else None)"

text \<open>
  The end of \<open>process_logline\<close>, after the version was accepted.
\<close>

definition logline_done :: "conf \<Rightarrow> request \<Rightarrow> int \<times> request" where
  "logline_done cfg r =
    (if method r = M_HEAD \<and> simple r then (0, send_r_bad_request cfg r) else (1, r\<lparr>cgi_env := []\<rparr>))"

text \<open>
  An RTSP request is turned into an HTTP one: the version is overwritten in the client's stream, and the
  URI is taken again, from the first slash at least eight characters behind its start (\<open>stop\<close>) to the next
  space. The length of this second copy is not compared with the size of \<open>request_uri\<close>.
\<close>

definition rtsp_uri :: "cstring \<Rightarrow> cstring" where
  "rtsp_uri stop =
    (case dropWhile (\<lambda>c. c \<noteq> CHR ''/'') (drop 8 stop) of
       [] \<Rightarrow> ''/''
     | c # rest \<Rightarrow> c # takeWhile (\<lambda>c. c \<noteq> SP) rest)"

definition overwrite_version :: "nat \<Rightarrow> char list \<Rightarrow> char list" where
  "overwrite_version at s = mem_put at ''HTTP/1.1'' s"

definition logline_rtsp :: "nat \<Rightarrow> cstring \<Rightarrow> cstring \<Rightarrow> request \<Rightarrow> request" where
  "logline_rtsp at stop stop2 r =
     r\<lparr>client_stream := overwrite_version at (client_stream r),
       logline := map_option (overwrite_version at) (logline r),
       http_version := overwrite_version 0 stop2,
       request_uri := rtsp_uri (overwrite_version (length stop - length stop2) stop),
       simple := False\<rparr>"

text \<open>
  The version, in \<open>ver\<close> at offset \<open>at\<close> of the stream; \<open>stop\<close> is the line from its URI on.
\<close>

definition logline_version :: "conf \<Rightarrow> nat \<Rightarrow> cstring \<Rightarrow> cstring \<Rightarrow> request \<Rightarrow> int \<times> request" where
  "logline_version cfg at stop ver r =
    (case scan_version ''HTTP'' ver of
       Some (p1, p2) \<Rightarrow>
         if p1 = 1 \<and> (p2 = 0 \<or> p2 = 1) then logline_done cfg (r\<lparr>http_version := ver, simple := False\<rparr>)
         else if p1 > 1 \<or> (p1 \<noteq> 0 \<and> p2 > 1) then (0, send_r_bad_request cfg r)
         else logline_done cfg r
     | None \<Rightarrow>
         (case scan_version ''RTSP'' ver of
            Some _ \<Rightarrow> logline_done cfg (logline_rtsp at stop ver r)
          | None \<Rightarrow> (0, send_r_bad_request cfg r)))"

definition process_logline :: "conf \<Rightarrow> request \<Rightarrow> int \<times> request" where
  "process_logline cfg r0 =
    (let line = cstr (client_stream r0); r1 = r0\<lparr>logline := Some line\<rparr> in
     case logline_method line of
       None \<Rightarrow> (0, send_r_not_implemented cfg r1)
     | Some (m, n) \<Rightarrow>
        (let r2 = r1\<lparr>method := m, http_version := SIMPLE_HTTP_VERSION, simple := True\<rparr>;
             stop = dropWhile (\<lambda>c. c = SP) (drop n line);
             uri = takeWhile (\<lambda>c. c \<noteq> SP) stop;
             stop2 = dropWhile (\<lambda>c. c \<noteq> SP) stop
         in if length uri > MAX_HEADER_LENGTH then (0, send_r_bad_request cfg r2)
            else
              (let r3 = r2\<lparr>request_uri := uri\<rparr> in
               if stop2 = [] then logline_done cfg r3
               else (let ver = dropWhile (\<lambda>c. c = SP) stop2 in logline_version cfg (length line - length ver) stop ver r3))))"

subsection \<open>Header lines\<close>

text \<open>
  The names are compared together with their terminator, so as whole strings; only the session cookie is
  compared as a prefix. \<open>add_accept_header\<close> is compiled without a body. The name is changed in the client's stream.
\<close>

definition add_accept_header :: "request \<Rightarrow> cstring \<Rightarrow> request" where
  "add_accept_header r mime_type = r"

definition stream_offset :: "hptr \<Rightarrow> nat" where
  "stream_offset p = (case p of In_stream n \<Rightarrow> n | In_buffer n \<Rightarrow> n | HNull \<Rightarrow> 0)"

definition blank :: "char \<Rightarrow> bool" where
  "blank c \<longleftrightarrow> c = SP \<or> c = TAB"

definition option_value :: "conf \<Rightarrow> cstring \<Rightarrow> cstring \<Rightarrow> request \<Rightarrow> int \<times> request" where
  "option_value cfg line val r =
    (if line = ''IF_MODIFIED_SINCE'' \<and> if_modified_since r = None then (1, r\<lparr>if_modified_since := Some val\<rparr>)
     else if line = ''CONTENT_TYPE'' \<and> content_type r = None then (1, r\<lparr>content_type := Some val\<rparr>)
     else if line = ''CONTENT_LENGTH'' \<and> content_length r = None then (1, r\<lparr>content_length := Some val\<rparr>)
     else if line = ''AUTHORIZATION'' \<and> authorization r = None then (1, r\<lparr>authorization := Some val\<rparr>)
     else if line = ''CONNECTION'' \<and> ka_max cfg \<noteq> 0 \<and> keepalive r \<noteq> KA_STOPPED then
       (1, r\<lparr>keepalive := if strncaseeq 10 val ''Keep-Alive'' then KA_ACTIVE else KA_STOPPED\<rparr>)
     else if line = ''ACCEPT'' then (1, add_accept_header r val)
     else if line = ''REFERER'' then
       (case add_cgi_env ''REFERER'' (Some val) True (r\<lparr>header_referer := Some val\<rparr>) of (ok, r1) \<Rightarrow> (of_bool ok, r1))
     else if line = ''USER_AGENT'' then
       (case add_cgi_env ''USER_AGENT'' (Some val) True (r\<lparr>header_user_agent := Some val\<rparr>) of (ok, r1) \<Rightarrow> (of_bool ok, r1))
     else if prefix ''X_SESSIONCOOKIE'' line then (1, r\<lparr>sessionid := take 27 val\<rparr>)
     else (case add_cgi_env line (Some val) True r of (ok, r1) \<Rightarrow> (of_bool ok, r1)))"

definition process_option_line :: "conf \<Rightarrow> request \<Rightarrow> int \<times> request" where
  "process_option_line cfg r =
    (let at = stream_offset (header_line r); line = cstr (drop at (client_stream r)) in
     case strchr (CHR '':'') line of
       None \<Rightarrow> (0, r)
     | Some rest \<Rightarrow>
        (let name = to_upper (before (CHR '':'') line);
             s = client_stream r;
             r1 = r\<lparr>client_stream := take at s @ name @ NUL # drop (at + length name + 1) s\<rparr>
         in option_value cfg name (dropWhile blank (tl rest)) r1))"

subsection \<open>The end of the headers\<close>

text \<open>
  What the server keeps between requests besides the queues: the cached home directories, the connections of
  the users, the mapped files, and \<open>world\<close>, everything only the handlers see. \<open>server_env\<close> holds what comes from
  outside: the tables, the handlers, and the results of system calls. \<open>behind\<close> and \<open>stack\<close> are the memory that
  follows the query string and the local buffer of \<open>auth_authorize\<close>.
\<close>

record 'w server_state =
  homes :: home_cache
  auth :: auth_state
  mmaps :: mmap_state
  world :: 'w

record 'w server_env =
  uris :: uri_env
  accs :: auth_env
  files :: get_env
  cgis :: cgi_sys
  AUTHORITY_NONE :: int
  uri_run :: "nat \<Rightarrow> request \<times> 'w server_state \<Rightarrow> int \<times> request \<times> 'w server_state"
  mkstemp :: "cstring \<Rightarrow> (nat \<times> cstring) option"
  unlink_ok :: bool
  dup_fd :: nat
  behind :: "char list"
  stack :: "char list"

text \<open>The part behind the authorization: the body of a POST, a CGI program, or a file.\<close>

definition start_reply ::
  "'w server_env \<Rightarrow> conf \<Rightarrow> request \<Rightarrow> 'w server_state \<Rightarrow> (int \<times> request \<times> 'w server_state) option" where
  "start_reply env cfg r s =
    (if method r = M_POST then
       (if flag_set URI_FLAG_DIRECT_READ r
        then (case init_cgi cfg (cgis env) (r\<lparr>post_data_fd := dup_fd env\<rparr>) of (n, r1) \<Rightarrow> Some (n, r1, s))
        else (let d = fst (create_temporary_file (tempdir cfg) (mkstemp env) (unlink_ok env) True None);
                  r1 = r\<lparr>post_data_fd := d\<rparr>
              in Some (if d = 0 then 0 else 1, r1, s)))
     else if is_cgi r \<noteq> NO_CGI then (case init_cgi cfg (cgis env) r of (n, r1) \<Rightarrow> Some (n, r1, s))
     else (case init_get (files env) cfg (cgis env) (r\<lparr>status := WRITE\<rparr>) (mmaps s) of
             None \<Rightarrow> None
           | Some (n, r1, m) \<Rightarrow> Some (n, r1, s\<lparr>mmaps := m\<rparr>)))"

text \<open>The authorization of a page of the URI table, and its handler; a negative value of the handler means: go on.\<close>

definition run_handler ::
  "'w server_env \<Rightarrow> conf \<Rightarrow> http_uri_entry \<Rightarrow> request \<Rightarrow> 'w server_state \<Rightarrow> (int \<times> request \<times> 'w server_state) option" where
  "run_handler env cfg u r s =
    (case uri_handler u of
       None \<Rightarrow> start_reply env cfg r s
     | Some h \<Rightarrow> (case uri_run env h (r, s) of (n, r1, s1) \<Rightarrow> if n \<ge> 0 then Some (n, r1, s1) else start_reply env cfg r1 s1))"

definition authorize_page ::
  "'w server_env \<Rightarrow> conf \<Rightarrow> http_uri_entry \<Rightarrow> request \<Rightarrow> 'w server_state \<Rightarrow> (int \<times> request \<times> 'w server_state) option" where
  "authorize_page env cfg u r s =
    (case auth_authorize (accs env) (behind env) (stack env) r (auth s) of
       None \<Rightarrow> None
     | Some (ret, r1, a) \<Rightarrow>
        (let s1 = s\<lparr>auth := a\<rparr> in
         if ret = ERROR_SERVICE_UNAVAILABLE then Some (0, send_r_service_unavailable cfg r1, s1)
         else if ret = ERROR_BAD_REQUEST then Some (0, send_r_bad_request cfg r1, s1)
         else if uri_authority u < authority r1 then Some (0, send_r_unauthorized (server_name cfg) cfg r1, s1)
         else run_handler env cfg u r1 s1))"

text \<open>The request as the translation of its URI sees it: decoded, split from its query, and cleaned.\<close>

definition cleaned :: "cstring \<times> cstring option \<Rightarrow> request \<Rightarrow> request" where
  "cleaned uq r = r\<lparr>request_uri := clean_pathname (fst uq),
     query_string := (case snd uq of None \<Rightarrow> query_string r | Some q \<Rightarrow> Some q)\<rparr>"

definition process_header_end ::
  "'w server_env \<Rightarrow> conf \<Rightarrow> request \<Rightarrow> 'w server_state \<Rightarrow> (int \<times> request \<times> 'w server_state) option" where
  "process_header_end env cfg r s =
    (if logline r = None then Some (0, send_r_error cfg r, s)
     else (case unescape_uri True (request_uri r) of
         None \<Rightarrow> Some (0, send_r_bad_request cfg r, s)
       | Some uq \<Rightarrow>
          (let r1 = cleaned uq r in
           if char_at (request_uri r1) 0 \<noteq> CHR ''/'' then Some (0, send_r_bad_request cfg r1, s)
           else (case translate_uri cfg (uris env) r1 (homes s) of
               (ok, r2, h) \<Rightarrow>
                 (let s1 = s\<lparr>homes := h\<rparr> in
                  if ok = 0 then Some (0, SQUASH_KA r2, s1)
                  else
                    (let r3 = r2\<lparr>authority := AUTHORITY_NONE env\<rparr> in
                     case http_uri r3 of
                       None \<Rightarrow> start_reply env cfg r3 s1
                     | Some u \<Rightarrow> authorize_page env cfg u r3 s1))))))"

text \<open>
  The handler of the RTSP tunnel: \<open>seq\<close> is the static counter of made-up session ids. The keep-alive
  state is assigned to the counter \<open>kacount\<close>.
\<close>

definition zero_padded :: "nat \<Rightarrow> nat \<Rightarrow> cstring" where
  "zero_padded w n = (let s = itoa n in replicate (w - length s) (CHR ''0'') @ s)"

text \<open>\<open>%010d\<close> of an unsigned 32-bit value.\<close>

definition fmt_010d :: "nat \<Rightarrow> cstring" where
  "fmt_010d n = (if n < 2 ^ 31 then zero_padded 10 n else CHR ''-'' # zero_padded 9 (2 ^ 32 - n))"

definition KA_ACTIVE_value :: int where "KA_ACTIVE_value = 2"

definition rtsp_over_http :: "conf \<Rightarrow> request \<Rightarrow> nat \<Rightarrow> int \<times> request \<times> nat" where
  "rtsp_over_http cfg r seq =
    (if method r = M_GET then
       (let (sid, seq1) = (if sessionid r = [] then (fmt_010d seq, (seq + 1) mod 2 ^ 32) else (sessionid r, seq));
            r1 = r\<lparr>sessionid := sid, kacount := KA_ACTIVE_value, response_status := R_REQUEST_OK\<rparr>;
            r2 = emit [Txt (''HTTP/1.0 200 OK'' @ CRLF),
                Txt (''Content-Type: application/x-rtsp-tunnelled'' @ CRLF),
                Txt ''Date: '', Txt (http_date cfg 0),
                Txt (CRLF @ ''Server: Boa/0.94.13'' @ CRLF), Txt (''Accept-Ranges: bytes'' @ CRLF),
                Txt ''X-SessionCookie: '', Txt (take 28 (sid @ CRLF)),
                Txt (''Connection: close'' @ CRLF @ CRLF)] r1
        in (2, snd (req_flush (r2\<lparr>status := WRITE\<rparr>)), seq1))
     else if method r = M_POST then (2, r\<lparr>kacount := KA_ACTIVE_value, status := BODY_READ\<rparr>, seq)
     else (0, r\<lparr>status := DONE\<rparr>, seq))"

subsection \<open>Properties of the request line\<close>

lemma scan_http_version:
  "scan_version ''HTTP'' ''HTTP/1.0'' = Some (1, 0)" "scan_version ''HTTP'' ''HTTP/1.1'' = Some (1, 1)"
  by (simp_all add: scan_version_def fmt_version_def scan_lits_def strtoul_def isdigit_def isspace_def digit_val_def int_arg_def)

lemma takeWhile_dropWhile_word:
  assumes "SP \<notin> set w"
  shows "takeWhile (\<lambda>c. c \<noteq> SP) (w @ SP # rest) = w" "dropWhile (\<lambda>c. c \<noteq> SP) (w @ SP # rest) = SP # rest"
  using assms by (induction w) auto

lemma dropWhile_SP_word: "w \<noteq> [] \<Longrightarrow> SP \<notin> set w \<Longrightarrow> dropWhile (\<lambda>c. c = SP) (w @ rest) = w @ rest"
  by (cases w) auto

definition request_line :: "cstring \<Rightarrow> cstring \<Rightarrow> cstring \<Rightarrow> cstring" where
  "request_line word uri ver = word @ SP # uri @ SP # ver"

definition known_methods :: "(http_method \<times> cstring) list" where
  "known_methods = [(M_GET, ''GET''), (M_HEAD, ''HEAD''), (M_POST, ''POST'')]"

lemma logline_method_line:
  "(m, word) \<in> set known_methods \<Longrightarrow> logline_method (request_line word uri ver) = Some (m, Suc (length word)) \<and>
     drop (Suc (length word)) (request_line word uri ver) = uri @ SP # ver \<and> nul_free word"
  by (auto simp: known_methods_def logline_method_def request_line_def)

lemma process_logline_cases:
  assumes "(m, word) \<in> set known_methods" "ver = ''HTTP/1.0'' \<or> ver = ''HTTP/1.1''"
    and uri: "uri \<noteq> []" "SP \<notin> set uri" "nul_free uri"
    and cs: "client_stream r = request_line word uri ver @ NUL # rest"
  shows "if length uri \<le> MAX_HEADER_LENGTH
    then process_logline cfg r = (1, r\<lparr>logline := Some (request_line word uri ver), method := m, http_version := ver,
        simple := False, request_uri := uri, cgi_env := []\<rparr>)
    else fst (process_logline cfg r) = 0 \<and> response_status (snd (process_logline cfg r)) = R_BAD_REQUEST"
proof -
  note L = logline_method_line[OF assms(1), of uri ver]
  have ver: "nul_free ver" "scan_version ''HTTP'' ver \<in> {Some (1, 0), Some (1, 1)}"
    "dropWhile (\<lambda>c. c = SP) (SP # ver) = ver" using assms(2) scan_http_version by auto
  have line: "cstr (client_stream r) = request_line word uri ver"
    using cs cstr_append_NUL[of "request_line word uri ver" rest] L ver(1) uri(3) by (simp add: request_line_def)
  note W = takeWhile_dropWhile_word[OF uri(2), of ver] dropWhile_SP_word[OF uri(1,2), of "SP # ver"]
  show ?thesis using L ver(2) W ver(3) unfolding process_logline_def line
    by (auto simp: Let_def logline_version_def logline_done_def)
qed

lemma process_logline_accepts:
  assumes "(m, word) \<in> set known_methods" "ver = ''HTTP/1.0'' \<or> ver = ''HTTP/1.1''"
    and "uri \<noteq> []" "SP \<notin> set uri" "nul_free uri" "client_stream r = request_line word uri ver @ NUL # rest"
    and "length uri \<le> MAX_HEADER_LENGTH"
  shows "process_logline cfg r = (1, r\<lparr>logline := Some (request_line word uri ver), method := m, http_version := ver,
        simple := False, request_uri := uri, cgi_env := []\<rparr>)"
  using process_logline_cases[OF assms(1-6), of cfg] assms(7) by simp

text \<open>
  C30: The request line. A line of one of the three methods, with a URI of characters other than space and NUL
  and a version 1.0 or 1.1, is accepted exactly when the URI has at most 1024 characters; the URI, the method and the version
  are recorded and nothing of the request changes besides. A longer URI is answered with 400.
\<close>

theorem process_logline_correct:
  assumes "(m, word) \<in> set known_methods" "ver = ''HTTP/1.0'' \<or> ver = ''HTTP/1.1''"
    and uri: "uri \<noteq> []" "SP \<notin> set uri" "nul_free uri"
    and cs: "client_stream r = request_line word uri ver @ NUL # rest"
  shows "if length uri \<le> MAX_HEADER_LENGTH
    then process_logline cfg r = (1, r\<lparr>logline := Some (request_line word uri ver), method := m, http_version := ver,
        simple := False, request_uri := uri, cgi_env := []\<rparr>)
    else fst (process_logline cfg r) = 0 \<and> response_status (snd (process_logline cfg r)) = R_BAD_REQUEST"
  by (rule process_logline_cases[OF assms])

theorem process_logline_correct_witness:
  "process_logline sample_conf (fresh\<lparr>client_stream := request_line ''GET'' ''/a'' ''HTTP/1.1'' @ NUL # []\<rparr>) =
    (1, fresh\<lparr>client_stream := request_line ''GET'' ''/a'' ''HTTP/1.1'' @ NUL # [], logline := Some (request_line ''GET'' ''/a'' ''HTTP/1.1''),
       method := M_GET, http_version := ''HTTP/1.1'', simple := False, request_uri := ''/a'', cgi_env := []\<rparr>)"
  using process_logline_correct[of M_GET "''GET''" "''HTTP/1.1''" "''/a''"
      "fresh\<lparr>client_stream := request_line ''GET'' ''/a'' ''HTTP/1.1'' @ NUL # []\<rparr>" "[]" sample_conf]
  by (simp add: known_methods_def MAX_HEADER_LENGTH_def)

lemma scan_digits_x: "scan_digits k (replicate n (CHR ''x'')) = (k, replicate n (CHR ''x''))"
  by (cases n) (simp_all add: isdigit_def)

lemma scan_rtsp_version:
  "scan_version ''HTTP'' (''RTSP/1.0'' @ s) = None"
  "scan_version ''RTSP'' (''RTSP/1.0'' @ replicate n (CHR ''x'')) = Some (1, 0)"
  by (simp_all add: scan_version_def fmt_version_def scan_lits_def strtoul_def isdigit_def isspace_def digit_val_def int_arg_def
      scan_digits_x)

lemma takeWhile_x: "takeWhile (\<lambda>c. c \<noteq> SP) (replicate n (CHR ''x'')) = replicate n (CHR ''x'')"
  by (simp add: takeWhile_eq_all_conv)

text \<open>
  The second copy of the URI of an RTSP request has no bound. The request line \<open>DESCRIBE rtsp://a RTSP/1.0\<close> followed by
  \<open>n\<close> letters is accepted for every \<open>n\<close>, with a URI of \<open>n + 4\<close> characters: beyond 1020 letters it is written
  over the end of \<open>request_uri\<close>, which has room for 1024.
\<close>

theorem rtsp_uri_overrun:
  "\<exists>r'. process_logline cfg (r\<lparr>client_stream := ''DESCRIBE rtsp://a RTSP/1.0'' @ replicate n (CHR ''x'') @ NUL # rest\<rparr>) = (1, r') \<and>
     length (request_uri r') = n + 4"
proof -
  let ?line = "''DESCRIBE rtsp://a RTSP/1.0'' @ replicate n (CHR ''x'')"
  have line: "cstr (?line @ NUL # rest) = ?line"
    by (rule cstr_append_NUL) (simp add: nul_free_def)
  then show ?thesis using scan_rtsp_version(1)[of "replicate n (CHR ''x'')"] scan_rtsp_version(2)[of n]
    by (simp add: process_logline_def Let_def logline_method_def logline_version_def logline_done_def logline_rtsp_def overwrite_version_def
        rtsp_uri_def mem_put_def MAX_HEADER_LENGTH_def takeWhile_x)
qed

subsection \<open>Properties of the header lines\<close>

lemma strchr_before_append:
  assumes "c \<notin> set s"
  shows "strchr c (s @ c # t) = Some (c # t)" "before c (s @ c # t) = s"
  using assms by (induction s) (auto simp: before_def)

lemma dropWhile_blanks:
  assumes "\<forall>c \<in> set bl. blank c" "val = [] \<or> \<not> blank (hd val)"
  shows "dropWhile blank (bl @ val) = val"
  using assms by (induction bl) (cases val, auto)

lemma process_option_line_value:
  assumes "CHR '':'' \<notin> set name" "nul_free (name @ bl @ val)"
    and "\<forall>c \<in> set bl. blank c" "val = [] \<or> \<not> blank (hd val)"
    and "client_stream r = pre @ name @ '':'' @ bl @ val @ NUL # rest" "header_line r = In_stream (length pre)"
  shows "process_option_line cfg r =
     option_value cfg (to_upper name) val (r\<lparr>client_stream := pre @ to_upper name @ NUL # bl @ val @ NUL # rest\<rparr>)"
proof -
  have "cstr (drop (length pre) (client_stream r)) = name @ '':'' @ bl @ val"
    using cstr_append_NUL[of "name @ '':'' @ bl @ val" rest] assms(2,5) by simp
  moreover have "length (to_upper name) = length name" by (simp add: to_upper_def)
  ultimately show ?thesis
    using assms strchr_before_append[OF assms(1), of "bl @ val"] dropWhile_blanks[OF assms(3,4)]
    by (simp add: process_option_line_def Let_def stream_offset_def)
qed

definition remembered :: "(cstring \<times> (request \<Rightarrow> cstring option)) list" where
  "remembered = [(''IF_MODIFIED_SINCE'', if_modified_since), (''CONTENT_TYPE'', content_type),
     (''CONTENT_LENGTH'', content_length), (''AUTHORIZATION'', authorization)]"

lemma add_cgi_env_remembered [simp]:
  "if_modified_since (snd (add_cgi_env key val p r)) = if_modified_since r"
  "content_type (snd (add_cgi_env key val p r)) = content_type r"
  "content_length (snd (add_cgi_env key val p r)) = content_length r"
  "authorization (snd (add_cgi_env key val p r)) = authorization r"
  by (simp_all add: add_cgi_env_def Let_def)

lemma option_value_fields:
  "if_modified_since (snd (option_value cfg line val r)) =
     (if line = ''IF_MODIFIED_SINCE'' \<and> if_modified_since r = None then Some val else if_modified_since r)"
  "content_type (snd (option_value cfg line val r)) =
     (if line = ''CONTENT_TYPE'' \<and> content_type r = None then Some val else content_type r)"
  "content_length (snd (option_value cfg line val r)) =
     (if line = ''CONTENT_LENGTH'' \<and> content_length r = None then Some val else content_length r)"
  "authorization (snd (option_value cfg line val r)) =
     (if line = ''AUTHORIZATION'' \<and> authorization r = None then Some val else authorization r)"
  by (simp_all add: option_value_def add_accept_header_def split_beta)

lemma option_value_remembered:
  assumes "(N, f) \<in> set remembered"
  shows "f (snd (option_value cfg line val r)) = (if line = N \<and> f r = None then Some val else f r)"
  using assms option_value_fields[of cfg line val r] by (auto simp: remembered_def)

text \<open>
  Header lines. The name of a header is compared without regard to case, dashes and underscores count as equal,
  and blanks before the value are dropped. The headers for the date, the type and the length of the body and the
  authorization are recorded the first time they come, a second line does not change them, and no other
  line touches them.
\<close>

theorem option_line_first_wins:
  assumes "CHR '':'' \<notin> set name" "nul_free (name @ bl @ val)"
    and "\<forall>c \<in> set bl. blank c" "val = [] \<or> \<not> blank (hd val)"
    and "client_stream r = pre @ name @ '':'' @ bl @ val @ NUL # rest" "header_line r = In_stream (length pre)"
    and "(N, f) \<in> set remembered"
  shows "f (snd (process_option_line cfg r)) = (if to_upper name = N \<and> f r = None then Some val else f r)"
proof -
  have "f (r\<lparr>client_stream := s\<rparr>) = f r" for s using assms(7) by (auto simp: remembered_def)
  then show ?thesis
    unfolding process_option_line_value[OF assms(1-6)] option_value_remembered[OF assms(7)] by simp
qed

theorem option_line_first_wins_witness:
  "content_length (snd (process_option_line sample_conf (fresh\<lparr>client_stream := ''x'' @ ''Content-length'' @ '':'' @ ''  '' @ ''12'' @ NUL # [],
     header_line := In_stream 1\<rparr>))) = Some ''12''"
proof -
  have "to_upper ''Content-length'' = ''CONTENT_LENGTH''" by code_simp
  then show ?thesis
    using option_line_first_wins[of "''Content-length''" "''  ''" "''12''"
        "fresh\<lparr>client_stream := ''x'' @ ''Content-length'' @ '':'' @ ''  '' @ ''12'' @ NUL # [], header_line := In_stream 1\<rparr>"
        "''x''" "[]" "''CONTENT_LENGTH''" content_length sample_conf]
    by (simp add: remembered_def blank_def fresh_def zero_request_def)
qed

subsection \<open>Protected pages\<close>

lemma authority_uri_decoding: "uri_decoding d r = Some (n, r') \<Longrightarrow> authority r' = authority r"
  by (auto simp: uri_decoding_def Let_def split: option.splits prod.splits if_splits)

lemma check_user_refused:
  "check_user env name pwd r s = Some (ret, r', s') \<Longrightarrow> ret \<noteq> 0 \<Longrightarrow> r' = r"
  by (auto simp: check_user_def split: option.splits prod.splits bool.splits)

lemma check_pair_refused:
  "check_pair env pair r s = Some (ret, r', s') \<Longrightarrow> ret \<noteq> 0 \<Longrightarrow> r' = r"
  by (auto simp: check_pair_def Let_def split: option.splits if_splits dest: check_user_refused)

lemma auth_authorize_refused:
  assumes "auth_authorize env b st r s = Some (ret, r', s')" "ret \<noteq> 0"
  shows "authority r' = authority r"
proof -
  obtain u where u: "http_uri r = Some u" using assms(1) by (cases "http_uri r") (auto simp: auth_authorize_def)
  obtain n r1 where d: "decoded_query b u r = Some (n, r1)"
    using assms(1) u by (cases "decoded_query b u r") (auto simp: auth_authorize_def decoded_query_def)
  have a: "authority r1 = authority r"
    using d authority_uri_decoding by (auto simp: decoded_query_def split: if_splits)
  show ?thesis using assms(1) u d[unfolded decoded_query_def] a assms(2)
    by (auto simp: auth_authorize_def Let_def split: if_splits option.splits dest: check_user_refused check_pair_refused)
qed

text \<open>
  C1: Protected pages. A page of the URI table whose authority is below that of an unknown visitor is reached (its handler
  run, its CGI program started, its file opened) only for credentials of an account, or of the guest, whose authority the page allows;
  every other request for it is answered with an error, and neither the world of the handlers nor the mapped files
  change. This holds for all handlers, files and programs.
\<close>

theorem protected_pages:
  assumes ok: "auth_ok (accs env) (auth s) ready free" and "logline r \<noteq> None"
    and uq: "unescape_uri True (request_uri r) = Some uq"
    and tr: "translate_uri cfg (uris env) (cleaned uq r) (homes s) = (1, r2, h)"
    and u: "http_uri r2 = Some u" "uri_authority u < AUTHORITY_NONE env"
    and dq: "decoded_query (behind env) u (r2\<lparr>authority := AUTHORITY_NONE env\<rparr>) = Some (dec, r3)"
  shows "(\<exists>name pwd c. presented (stack env) u r3 = Some (name, pwd) \<and>
       matches (accs env) (guest_on (accs env) (auth s)) name pwd c \<and> acc_authority (user_of (accs env) c) \<le> uri_authority u) \<or>
     (\<exists>r' s'. process_header_end env cfg r s = Some (0, r', s') \<and> response_status r' \<in> {400, 401, 503} \<and>
       world s' = world s \<and> mmaps s' = mmaps s)"
proof -
  let ?r = "r2\<lparr>authority := AUTHORITY_NONE env\<rparr>"
  have "http_uri ?r = Some u" using u(1) by simp
  from auth_authorize_granted[OF ok this dq, of "stack env"] obtain ret r' a where
    run: "auth_authorize (accs env) (behind env) (stack env) ?r (auth s) = Some (ret, r', a)"
    and granted: "ret = 0 \<longrightarrow> (\<exists>name pwd c. presented (stack env) u r3 = Some (name, pwd) \<and>
       matches (accs env) (guest_on (accs env) (auth s)) name pwd c \<and> authority r' = acc_authority (user_of (accs env) c))"
    unfolding returns_granted_def grants_def by blast
  have none: "ret \<noteq> 0 \<Longrightarrow> authority r' = AUTHORITY_NONE env" using auth_authorize_refused[OF run] by simp
  have run_end: "process_header_end env cfg r s =
      (if char_at (request_uri (cleaned uq r)) 0 \<noteq> CHR ''/'' then Some (0, send_r_bad_request cfg (cleaned uq r), s)
       else authorize_page env cfg u ?r (s\<lparr>homes := h\<rparr>))"
    using assms(2) uq tr u(1) by (auto simp: process_header_end_def Let_def)
  show ?thesis
  proof (cases "ret = 0 \<and> authority r' \<le> uri_authority u")
    case True
    then show ?thesis using granted by auto
  next
    case False
    then have "uri_authority u < authority r'" using none u(2) by auto
    then show ?thesis using run_end run by (simp add: authorize_page_def Let_def)
  qed
qed

definition admin_page :: http_uri_entry where
  "admin_page = \<lparr>uri_name = ''/reboot.cgi'', uri_handler = Some 0, uri_authority = 1, uri_flag = 2\<rparr>"

definition sample_files :: get_env where
  "sample_files = \<lparr>fs_open = (\<lambda>_. Inl ENOENT), open_fd = 9, map_errno = EOTHER, pg_handler = (\<lambda>_ _ _. (-1, [])), pg_args = [],
     pg_junk = [], pg_alloc = True, chdir_error = None, dir_entries = None, cache_create = False, cache_reopen = None\<rparr>"

definition sample_server :: "nat server_env" where
  "sample_server = \<lparr>uris = sample_env\<lparr>http_uri_search := (\<lambda>n. if n = ''/reboot.cgi'' then Some admin_page else None)\<rparr>,
     accs = sample_auth, files = sample_files, cgis = \<lparr>pipe_read_fd = Some 8, nonblock_ok = True, fork_ok = True\<rparr>,
     AUTHORITY_NONE = 4, uri_run = (\<lambda>h (r, s). (0, r\<lparr>flag_reboot := True\<rparr>, s\<lparr>world := world s + 1\<rparr>)),
     mkstemp = (\<lambda>t. Some (11, t)), unlink_ok = True, dup_fd = 12, behind = [], stack = []\<rparr>"

definition sample_state :: "nat server_state" where
  "sample_state = \<lparr>homes = replicate 47 [], auth = boot_auth, mmaps = empty_mmap, world = 0\<rparr>"

definition reboot_get :: request where
  "reboot_get = fresh\<lparr>logline := Some ''GET /reboot.cgi HTTP/1.0'', method := M_GET, request_uri := ''/%72eboot.cgi''\<rparr>"

lemma reboot_get_translated:
  "unescape_uri True (request_uri reboot_get) = Some (''/reboot.cgi'', None)"
  "translate_uri sample_conf (uris sample_server) (cleaned (''/reboot.cgi'', None) reboot_get) (homes sample_state) =
     (1, reboot_get\<lparr>request_uri := ''/reboot.cgi'', http_uri := Some admin_page\<rparr>, homes sample_state)"
proof -
  have "HEX_TO_DECIMAL (CHR ''7'') (CHR ''2'') = CHR ''r''" by code_simp
  then show "unescape_uri True (request_uri reboot_get) = Some (''/reboot.cgi'', None)"
    by (simp add: unescape_uri_def reboot_get_def)
  have "clean_pathname ''/reboot.cgi'' = ''/reboot.cgi''" "\<not> strncaseeq (length JPEG_FRAME_URI) ''/reboot.cgi'' JPEG_FRAME_URI"
    by code_simp+
  then show "translate_uri sample_conf (uris sample_server) (cleaned (''/reboot.cgi'', None) reboot_get) (homes sample_state) =
     (1, reboot_get\<lparr>request_uri := ''/reboot.cgi'', http_uri := Some admin_page\<rparr>, homes sample_state)"
    by (simp add: translate_uri_def cleaned_def Let_def char_at_def sample_server_def admin_page_def has_flag_def
        URI_FLAG_VIRTUAL_PAGE_def reboot_get_def fresh_def zero_request_def bit_simps)
qed

theorem protected_pages_witness:
  "\<exists>r' s'. process_header_end sample_server sample_conf reboot_get sample_state = Some (0, r', s') \<and>
     response_status r' \<in> {400, 401, 503} \<and> world s' = 0"
proof -
  let ?r = "reboot_get\<lparr>request_uri := ''/reboot.cgi'', http_uri := Some admin_page\<rparr>"
  have e: "auth_ok (accs sample_server) (auth sample_state) [] []" "logline reboot_get \<noteq> None"
    "http_uri ?r = Some admin_page" "uri_authority admin_page < AUTHORITY_NONE sample_server"
    by (simp_all add: sample_server_def sample_state_def boot_auth_ok reboot_get_def admin_page_def)
  have d: "decoded_query (behind sample_server) admin_page (?r\<lparr>authority := AUTHORITY_NONE sample_server\<rparr>) =
      Some (0, ?r\<lparr>authority := AUTHORITY_NONE sample_server\<rparr>)"
    by (simp add: decoded_query_def admin_page_def has_flag_def URI_FLAG_CHECK_LOGIN_def bit_simps)
  have n: "\<not> matches (accs sample_server) (guest_on (accs sample_server) (auth sample_state)) ''guest'' [] c" for c
    by (cases c) (auto simp: matches_def guest_on_def sample_server_def sample_auth_def sample_state_def boot_auth_def
        user_of_def account_matches_def nth_Cons')
  have p: "presented (stack sample_server) admin_page (?r\<lparr>authority := AUTHORITY_NONE sample_server\<rparr>) = Some (''guest'', [])"
    by (simp add: presented_def admin_page_def has_flag_def URI_FLAG_CHECK_LOGIN_def reboot_get_def fresh_def zero_request_def bit_simps)
  from protected_pages[OF e(1,2) reboot_get_translated e(3,4) d] show ?thesis using n p by (auto simp: sample_state_def)
qed

end
