(* ===== verification/Boa_Read.thy ===== *)
theory Boa_Read
  imports Boa_Request
begin

text \<open>
  \<^verbatim>\<open>read.c\<close>: reading the headers of a request, a state machine over the characters of the client's stream, and
  copying the body of a POST to a temporary file. An operation that reads or writes takes the outcome of the system
  call as an argument.
\<close>

subsection \<open>Header lines\<close>

text \<open>The switch over the status, for one character.\<close>

fun scan_status :: "req_status \<Rightarrow> char \<Rightarrow> req_status" where
  "scan_status READ_HEADER c = (if c = CR then ONE_CR else if c = LF then ONE_LF else READ_HEADER)"
| "scan_status ONE_CR c = (if c = LF then ONE_LF else if c \<noteq> CR then READ_HEADER else ONE_CR)"
| "scan_status ONE_LF c = (if c = CR then TWO_CR else if c = LF then BODY_READ else READ_HEADER)"
| "scan_status TWO_CR c = (if c = LF then BODY_READ else if c \<noteq> CR then READ_HEADER else TWO_CR)"
| "scan_status st c = st"

definition scan_char :: "request \<Rightarrow> request" where
  "scan_char r =
    (let c = client_stream r ! parse_pos r;
         r1 = (if status r = READ_HEADER \<and> (c = CR \<or> c = LF) then r\<lparr>header_end := In_stream (parse_pos r)\<rparr> else r)
     in r1\<lparr>status := scan_status (status r) c, parse_pos := parse_pos r + 1\<rparr>)"

text \<open>The length of the body of a POST request.\<close>

definition post_length :: "conf \<Rightarrow> request \<Rightarrow> int \<times> request" where
  "post_length cfg r0 =
    (let r = r0\<lparr>status := BODY_WRITE\<rparr> in
     case content_length r of
       None \<Rightarrow> (0, send_r_bad_request cfg r)
     | Some v \<Rightarrow>
        (let n = boa_atoi v in
         if n \<le> 0 then (0, send_r_bad_request cfg r)
         else if single_post_limit cfg \<noteq> 0 \<and> n > single_post_limit cfg then (0, send_r_bad_request cfg r)
         else
           (let r1 = r\<lparr>filesize := nat n, filepos := 0\<rparr>;
                start = stream_offset (header_line r1); stop = stream_offset (header_end r1)
            in (1, if int stop - int start > n then r1\<lparr>header_end := In_stream (start + nat n)\<rparr> else r1))))"

text \<open>
  After the empty line: \<open>check\<close> is the offset behind it. For an RTSP tunnel the rest of the stream is moved to
  its start (with \<open>memcpy\<close>, although the two regions may overlap).
\<close>

definition headers_done ::
  "'w server_env \<Rightarrow> conf \<Rightarrow> request \<Rightarrow> 'w server_state \<Rightarrow> (int \<times> request \<times> 'w server_state) option" where
  "headers_done env cfg r s =
    (let check = parse_pos r in
     case process_header_end env cfg r s of
       None \<Rightarrow> None
     | Some (retval, r1, s1) \<Rightarrow>
        if retval = 0 \<or> method r1 \<noteq> M_POST \<or> flag_set URI_FLAG_DIRECT_READ r1 then Some (retval, r1, s1)
        else
          (let r2 = r1\<lparr>header_line := In_stream check, header_end := In_stream (client_stream_pos r1)\<rparr> in
           if flag_set URI_FLAG_RTSP_O_HTTP r2 then
             Some (retval,
               if retval = 2 then r2\<lparr>client_stream := drop (parse_pos r2) (client_stream r2), parse_pos := 0,
                    buffer_start := 0, buffer_end := 0\<rparr>
               else r2, s1)
           else (case post_length cfg r2 of (ok, r3) \<Rightarrow> Some (if ok = 0 then 0 else retval, r3, s1))))"

text \<open>One round of the loop: it ends the call, or goes on with the next character.\<close>

datatype 'w header_step = H_next request | H_return "(int \<times> request \<times> 'w server_state) option"

definition line_done :: "'w server_env \<Rightarrow> conf \<Rightarrow> request \<Rightarrow> 'w server_state \<Rightarrow> 'w header_step" where
  "line_done env cfg r0 s =
    (let r = r0\<lparr>client_stream := (client_stream r0)[stream_offset (header_end r0) := NUL]\<rparr> in
     if logline r \<noteq> None then
       (case process_option_line cfg r of (ret, r1) \<Rightarrow>
          if ret = 0 then H_return (Some (0, r1, s)) else H_next (r1\<lparr>header_line := In_stream (parse_pos r1)\<rparr>))
     else
       (case process_logline cfg r of (ret, r1) \<Rightarrow>
          if ret = 0 then H_return (Some (0, r1, s))
          else if simple r1 then H_return (process_header_end env cfg r1 s)
          else H_next (r1\<lparr>header_line := In_stream (parse_pos r1)\<rparr>)))"

definition header_step :: "'w server_env \<Rightarrow> conf \<Rightarrow> request \<Rightarrow> 'w server_state \<Rightarrow> 'w header_step" where
  "header_step env cfg r0 s =
    (let r = scan_char r0 in
     if status r = ONE_LF then line_done env cfg r s
     else if status r = BODY_READ then H_return (headers_done env cfg r s)
     else H_next r)"

fun header_loop ::
  "nat \<Rightarrow> 'w server_env \<Rightarrow> conf \<Rightarrow> request \<Rightarrow> 'w server_state \<Rightarrow> 'w header_step" where
  "header_loop 0 env cfg r s = H_next r"
| "header_loop (Suc n) env cfg r s =
    (case header_step env cfg r s of H_return x \<Rightarrow> H_return x | H_next r1 \<Rightarrow> header_loop n env cfg r1 s)"

text \<open>The next part of the stream, when all of it has been parsed.\<close>

definition read_more :: "rd_result \<Rightarrow> request \<Rightarrow> int \<times> request" where
  "read_more rd r =
    (let left = int CLIENT_STREAM_SIZE - int (client_stream_pos r) in
     if left < 1 then (0, r\<lparr>status := DEAD\<rparr>)
     else (case rd of
         R_err e \<Rightarrow> (if e = EINTR then 1 else if would_block e then - 1 else 0, r)
       | R_bytes bs \<Rightarrow>
           if bs = [] then (0, r) else (1, r\<lparr>client_stream := client_stream r @ take (nat left) bs\<rparr>)))"

definition read_header ::
  "'w server_env \<Rightarrow> conf \<Rightarrow> rd_result \<Rightarrow> request \<Rightarrow> 'w server_state \<Rightarrow> (int \<times> request \<times> 'w server_state) option" where
  "read_header env cfg rd r s =
    (case header_loop (client_stream_pos r - parse_pos r) env cfg r s of
       H_return x \<Rightarrow> x
     | H_next r1 \<Rightarrow>
        if reading_header (status r1) then (case read_more rd r1 of (n, r2) \<Rightarrow> Some (n, r2, s)) else Some (1, r1, s))"

subsection \<open>The body of a POST\<close>

text \<open>
  The bytes between the pointers \<open>header_line\<close> and \<open>header_end\<close>, in the client's stream at first, in the
  buffer later; \<open>None\<close> when they are not an interval of one of the two.
\<close>

definition span :: "request \<Rightarrow> (hptr \<times> char list) option" where
  "span r =
    (case (header_line r, header_end r) of
       (In_stream a, In_stream b) \<Rightarrow>
         if a \<le> b \<and> b \<le> client_stream_pos r then Some (In_stream a, drop a (take b (client_stream r))) else None
     | (In_buffer a, In_buffer b) \<Rightarrow>
         if a \<le> b \<and> b \<le> length (buffer r) then Some (In_buffer a, drop a (take b (buffer r))) else None
     | _ \<Rightarrow> None)"

fun hptr_add :: "hptr \<Rightarrow> nat \<Rightarrow> hptr" where
  "hptr_add (In_stream a) n = In_stream (a + n)"
| "hptr_add (In_buffer a) n = In_buffer (a + n)"
| "hptr_add HNull n = HNull"

definition boa_perror :: "conf \<Rightarrow> request \<Rightarrow> request" where
  "boa_perror cfg r = send_r_error cfg r"

text \<open>\<open>None\<close>: the bytes read would not go to the buffer, or not fit it.\<close>

definition read_body :: "conf \<Rightarrow> rd_result \<Rightarrow> request \<Rightarrow> (int \<times> request) option" where
  "read_body cfg rd r =
    (case span r of None \<Rightarrow> None
     | Some (_, text) \<Rightarrow>
        (let bytes_free = int BUFFER_SIZE - int (length text);
             bytes_to_read = min (int (filesize r) - int (filepos r)) bytes_free
         in if bytes_to_read \<le> 0 then Some (1, r\<lparr>status := BODY_WRITE\<rparr>)
            else (case rd of
                R_err e \<Rightarrow> Some (if would_block e then (- 1, r) else (0, boa_perror cfg r))
              | R_bytes bs \<Rightarrow>
                  (let got = take (nat bytes_to_read) bs in
                   if got = [] then Some (0, send_r_bad_request cfg r)
                   else (case header_end r of
                       In_buffer b \<Rightarrow>
                         if b + length got \<le> BUFFER_SIZE
                         then Some (1, r\<lparr>status := BODY_WRITE, buffer := mem_put b got (buffer r), header_end := In_buffer (b + length got)\<rparr>)
                         else None
                     | _ \<Rightarrow> None)))))"

text \<open>The second component of the result is what was written to the file.\<close>

definition write_body :: "conf \<Rightarrow> cgi_sys \<Rightarrow> wr_result \<Rightarrow> request \<Rightarrow> (int \<times> char list \<times> request) option" where
  "write_body cfg sys wr r =
    (case span r of None \<Rightarrow> None
     | Some (p, text) \<Rightarrow>
        (let bytes_to_write = (if filepos r + length text > filesize r then filesize r - filepos r else length text)
         in if bytes_to_write = 0 then
              (let r1 = r\<lparr>header_line := In_buffer 0, header_end := In_buffer 0\<rparr> in
               if filepos r1 \<ge> filesize r1 then (case init_cgi cfg sys r1 of (n, r2) \<Rightarrow> Some (n, [], r2))
               else Some (1, [], r1\<lparr>status := BODY_READ\<rparr>))
            else (case wr of
                W_err e \<Rightarrow> Some (if would_block e then (- 1, [], r) else if e = EINTR then (1, [], r) else (0, [], boa_perror cfg r))
              | W_ok n \<Rightarrow>
                  (let out = take n (take bytes_to_write text) in
                   Some (1, out, r\<lparr>filepos := filepos r + length out, header_line := hptr_add p (length out)\<rparr>)))))"

subsection \<open>The body arrives in the file\<close>

text \<open>
  The runs of the two routines from the request \<open>r0\<close>, until the program is started: \<open>f\<close> is what the file has got, \<open>rd\<close>
  what was read from the socket, which never gives more than it was asked for (\<open>body_room\<close>).
\<close>

definition body_room :: "request \<Rightarrow> nat" where
  "body_room r = min (filesize r - filepos r) BUFFER_SIZE"

inductive body_run :: "conf \<Rightarrow> cgi_sys \<Rightarrow> request \<Rightarrow> request \<Rightarrow> char list \<Rightarrow> char list \<Rightarrow> bool" for cfg sys r0 where
  body_start: "body_run cfg sys r0 r0 [] []"
| body_wrote: "body_run cfg sys r0 r f rd \<Longrightarrow> status r = BODY_WRITE \<Longrightarrow> filepos r < filesize r \<Longrightarrow>
    write_body cfg sys wr r = Some (n, out, r') \<Longrightarrow> n \<noteq> 0 \<Longrightarrow> body_run cfg sys r0 r' (f @ out) rd"
| body_got: "body_run cfg sys r0 r f rd \<Longrightarrow> status r = BODY_READ \<Longrightarrow> length bs \<le> body_room r \<Longrightarrow>
    read_body cfg (R_bytes bs) r = Some (n, r') \<Longrightarrow> n \<noteq> 0 \<Longrightarrow> body_run cfg sys r0 r' f (rd @ bs)"

text \<open>
  The invariant, for a body of \<open>total_len\<close> bytes: \<open>f\<close> and the bytes between the pointers are what has come, \<open>g\<close>; while the server is
  reading, all of it has been written, and the buffer is empty.
\<close>

definition body_inv :: "nat \<Rightarrow> request \<Rightarrow> char list \<Rightarrow> char list \<Rightarrow> bool" where
  "body_inv total_len r f g \<longleftrightarrow> length (buffer r) = BUFFER_SIZE + 1 \<and> filesize r = total_len \<and> filepos r = length f \<and> length g \<le> total_len \<and>
     (\<exists>p chunk. span r = Some (p, chunk) \<and> f @ chunk = g) \<and>
     (status r = BODY_READ \<and> header_line r = In_buffer 0 \<and> header_end r = In_buffer 0 \<and> length f < total_len \<or> status r = BODY_WRITE)"

lemma span_cases:
  assumes "span r = Some (p, chunk)"
  obtains a b where "header_line r = In_stream a" "header_end r = In_stream b" "a \<le> b" "b \<le> client_stream_pos r"
      "p = In_stream a" "chunk = drop a (take b (client_stream r))"
  | a b where "header_line r = In_buffer a" "header_end r = In_buffer b" "a \<le> b" "b \<le> length (buffer r)"
      "p = In_buffer a" "chunk = drop a (take b (buffer r))"
  using assms unfolding span_def by (simp split: hptr.splits if_splits)

lemma span_advance:
  assumes "span r = Some (p, chunk)" "n \<le> length chunk"
  shows "span (r\<lparr>filepos := k, header_line := hptr_add p n\<rparr>) = Some (hptr_add p n, drop n chunk)"
  using assms(1) by (rule span_cases) (use assms(2) in \<open>auto simp: span_def drop_drop add.commute\<close>)

lemma take_drop_min [simp]: "take x xs @ drop (min (length xs) x) xs = xs"
  by (simp add: min_def)

lemma span_empty [simp]: "span (r\<lparr>header_line := In_buffer 0, header_end := In_buffer 0\<rparr>) = Some (In_buffer 0, [])"
  "span (r\<lparr>header_line := In_buffer 0, header_end := In_buffer 0, status := st\<rparr>) = Some (In_buffer 0, [])"
  by (simp_all add: span_def)

lemma write_body_inv:
  assumes inv: "body_inv total_len r f g" and "status r = BODY_WRITE" "filepos r < filesize r"
    and w: "write_body cfg sys wr r = Some (n, out, r')" "n \<noteq> 0"
  shows "body_inv total_len r' (f @ out) g"
proof -
  obtain p chunk where s: "span r = Some (p, chunk)" "f @ chunk = g" using inv by (auto simp: body_inv_def)
  have le: "filepos r + length chunk \<le> filesize r" using inv s by (auto simp: body_inv_def)
  show ?thesis
  proof (cases "chunk = []")
    case True
    then show ?thesis using w s inv assms(3) by (auto simp: write_body_def body_inv_def)
  next
    case False
    then show ?thesis using w s inv assms(2) le span_advance[OF s(1)]
      by (auto simp: write_body_def body_inv_def Let_def split: wr_result.splits if_splits)
  qed
qed

lemma read_body_inv:
  assumes inv: "body_inv total_len r f g" and "status r = BODY_READ" "length bs \<le> body_room r"
    and w: "read_body cfg (R_bytes bs) r = Some (n, r')" "n \<noteq> 0"
  shows "body_inv total_len r' f (g @ bs) \<and> length (g @ bs) \<le> total_len"
proof -
  have e: "header_line r = In_buffer 0" "header_end r = In_buffer 0" "length f < total_len" "g = f" "span r = Some (In_buffer 0, [])"
    "length (buffer r) = BUFFER_SIZE + 1" "filesize r = total_len" "filepos r = length f"
    using inv assms(2) by (auto simp: body_inv_def span_def)
  have room: "nat (min (int total_len - int (length f)) (int BUFFER_SIZE)) = body_room r"
    using e by (auto simp: body_room_def min_def)
  have bs: "take (body_room r) bs = bs" using assms(3) by simp
  have "bs \<noteq> [] \<and> r' = r\<lparr>status := BODY_WRITE, buffer := mem_put 0 bs (buffer r), header_end := In_buffer (length bs)\<rparr>"
    using w e bs room assms(3)
    by (auto simp: read_body_def Let_def BUFFER_SIZE_def body_room_def split: if_splits)
  then show ?thesis using e assms(3) by (auto simp: body_inv_def span_def body_room_def mem_put_def)
qed

lemma body_inv_safe:
  assumes inv: "body_inv total_len r f g"
  shows "write_body cfg sys wr r \<noteq> None"
    and "status r = BODY_READ \<Longrightarrow> length bs \<le> body_room r \<Longrightarrow> read_body cfg (R_bytes bs) r \<noteq> None"
proof -
  show "write_body cfg sys wr r \<noteq> None"
    using inv by (auto simp: body_inv_def write_body_def Let_def split: wr_result.splits prod.splits)
  assume "status r = BODY_READ" "length bs \<le> body_room r"
  then show "read_body cfg (R_bytes bs) r \<noteq> None"
    using inv by (auto simp: body_inv_def span_def read_body_def Let_def body_room_def)
qed

lemma nat_offset_le: "z < int p - int k \<Longrightarrow> \<not> z \<le> 0 \<Longrightarrow> k + nat z \<le> p"
  by linarith

lemma post_length_inv:
  assumes "post_length cfg r = (1, r0)" "header_line r = In_stream k" "header_end r = In_stream (client_stream_pos r)"
    and "k \<le> client_stream_pos r" "length (buffer r) = BUFFER_SIZE + 1"
  defines "total_len \<equiv> nat (boa_atoi (the (content_length r)))"
  shows "body_inv total_len r0 [] (take total_len (drop k (client_stream r)))"
  using assms
  by (auto simp: post_length_def Let_def body_inv_def span_def stream_offset_def drop_take nat_offset_le split: option.splits if_splits)

lemma body_run_inv:
  assumes "body_run cfg sys r0 r f rd" "body_inv total_len r0 [] (take total_len start)"
  shows "body_inv total_len r f (take total_len (start @ rd))"
  using assms
proof (induction rule: body_run.induct)
  case (body_wrote r f rd wr n out r')
  then show ?case using write_body_inv by blast
next
  case (body_got r f rd bs n r')
  let ?g = "take total_len (start @ rd)"
  have inv: "body_inv total_len r f ?g" using body_got by blast
  then have "length f < total_len" "f = ?g" using body_got(2) by (auto simp: body_inv_def span_def)
  then have "length (start @ rd) < total_len" by (metis length_take min_less_iff_conj nat_neq_iff min.absorb1 less_imp_le)
  with read_body_inv[OF inv body_got(2,3,4,5)] show ?case by (auto simp: take_all)
qed simp

text \<open>
  C12: The body of a POST. Once its length was accepted, and whatever the sizes of the reads and writes, the file is at every
  moment a prefix of the body (the rest of the stream behind the headers, followed by what is read); no read or write leaves its
  buffer; and when the file has as many bytes as announced, which is when the program is started, it holds exactly the
  first \<open>Content-Length\<close> bytes of the body, even if the client sent more.
\<close>

theorem post_body_copied:
  assumes "post_length cfg r = (1, r0)" "header_line r = In_stream k" "header_end r = In_stream (client_stream_pos r)"
    and "k \<le> client_stream_pos r" "length (buffer r) = BUFFER_SIZE + 1" and run: "body_run cfg sys r0 r' f rd"
  defines "n \<equiv> nat (boa_atoi (the (content_length r)))" and "body \<equiv> drop k (client_stream r) @ rd"
  shows "prefix f body \<and> length f \<le> n \<and> write_body cfg sys wr r' \<noteq> None \<and>
     (status r' = BODY_READ \<longrightarrow> length bs \<le> body_room r' \<longrightarrow> read_body cfg (R_bytes bs) r' \<noteq> None) \<and>
     (filesize r' \<le> filepos r' \<longrightarrow> f = take n body \<and> length f = n)"
proof -
  have inv: "body_inv n r' f (take n body)"
    using body_run_inv[OF run post_length_inv[OF assms(1-5)]] unfolding n_def body_def .
  then obtain chunk where c: "f @ chunk = take n body" by (auto simp: body_inv_def)
  have "prefix (take n body) body" by (rule take_is_prefix)
  with c have "prefix f body" by (metis prefix_order.trans prefixI)
  moreover
  have len: "length f + length chunk \<le> n" "filesize r' = n" "filepos r' = length f"
    using inv arg_cong[OF c, of length] by (simp_all add: body_inv_def)
  then have "length f \<le> n" by simp
  moreover have "filesize r' \<le> filepos r' \<longrightarrow> f = take n body \<and> length f = n"
  proof
    assume "filesize r' \<le> filepos r'"
    with len have "length chunk = 0" "length f = n" by linarith+
    with c show "f = take n body \<and> length f = n" by simp
  qed
  ultimately show ?thesis using body_inv_safe[OF inv] by blast
qed

definition post_sample :: request where
  "post_sample = fresh\<lparr>content_length := Some ''5'', client_stream := ''POST...abcdefg'', header_line := In_stream 7,
     header_end := In_stream 14\<rparr>"

theorem post_body_copied_witness:
  "\<exists>r0 r'. post_length sample_conf post_sample = (1, r0) \<and>
     body_run sample_conf \<lparr>pipe_read_fd = None, nonblock_ok = True, fork_ok = True\<rparr> r0 r' ''abcde'' [] \<and>
     filesize r' \<le> filepos r' \<and> ''abcde'' = take 5 ''abcdefg''"
proof -
  let ?sys = "\<lparr>pipe_read_fd = None, nonblock_ok = True, fork_ok = True\<rparr>"
  let ?r0 = "post_sample\<lparr>status := BODY_WRITE, filesize := 5, filepos := 0, header_end := In_stream 12\<rparr>"
  let ?r1 = "?r0\<lparr>filepos := 5, header_line := In_stream 12\<rparr>"
  have "boa_atoi ''5'' = 5" by code_simp
  then have p: "post_length sample_conf post_sample = (1, ?r0)"
    by (simp add: post_length_def post_sample_def Let_def stream_offset_def sample_conf_def)
  have w: "write_body sample_conf ?sys (W_ok 9) ?r0 = Some (1, ''abcde'', ?r1)"
    by (simp add: write_body_def span_def post_sample_def Let_def)
  have "body_run sample_conf ?sys ?r0 ?r1 ([] @ ''abcde'') []"
    by (rule body_run.body_wrote[OF body_run.body_start _ _ w]) simp_all
  then have run: "body_run sample_conf ?sys ?r0 ?r1 ''abcde'' []" by simp
  have "''abcde'' = take (nat (boa_atoi (the (content_length post_sample)))) (drop 7 (client_stream post_sample) @ [])"
    using post_body_copied[OF p, of 7 ?sys ?r1 "''abcde''" "[]"] run
    by (simp add: post_sample_def fresh_def zero_request_def)
  then have "''abcde'' = take 5 ''abcdefg''" using \<open>boa_atoi ''5'' = 5\<close> by (simp add: post_sample_def)
  then show ?thesis using p run by auto
qed

subsection \<open>The parser of the headers\<close>

lemma header_loop_add:
  "header_loop (n + m) env cfg r s =
     (case header_loop n env cfg r s of H_return x \<Rightarrow> H_return x | H_next r1 \<Rightarrow> header_loop m env cfg r1 s)"
  by (induction n arbitrary: r) (simp_all split: header_step.splits)

lemma header_step_plain:
  assumes "client_stream r ! parse_pos r = c" "c \<noteq> CR" "c \<noteq> LF" "status r \<in> {READ_HEADER, ONE_LF}"
  shows "header_step env cfg r s = H_next (r\<lparr>status := READ_HEADER, parse_pos := parse_pos r + 1\<rparr>)"
  using assms by (auto simp: header_step_def scan_char_def Let_def)

lemma header_loop_plain:
  assumes "client_stream r = pre @ t @ rest" "parse_pos r = length pre" "t \<noteq> []" "CR \<notin> set t" "LF \<notin> set t"
    and "status r \<in> {READ_HEADER, ONE_LF}"
  shows "header_loop (length t) env cfg r s = H_next (r\<lparr>status := READ_HEADER, parse_pos := length pre + length t\<rparr>)"
  using assms
proof (induction t arbitrary: pre r)
  case (Cons c t)
  have step: "header_step env cfg r s = H_next (r\<lparr>status := READ_HEADER, parse_pos := length pre + 1\<rparr>)"
    using header_step_plain[of r c env cfg s] Cons.prems by auto
  show ?case
  proof (cases "t = []")
    case True
    then show ?thesis using step by simp
  next
    case False
    then show ?thesis using step Cons.IH[of "r\<lparr>status := READ_HEADER, parse_pos := length pre + 1\<rparr>" "pre @ [c]"] Cons.prems
      by simp
  qed
qed simp

lemma header_loop_crlf:
  assumes "client_stream r = pre @ CR # LF # rest" "parse_pos r = length pre" "status r = READ_HEADER"
  shows "header_loop 2 env cfg r s =
     line_done env cfg (r\<lparr>header_end := In_stream (length pre), status := ONE_LF, parse_pos := length pre + 2\<rparr>) s"
  using assms
  by (simp add: numeral_2_eq_2 header_step_def scan_char_def Let_def nth_append split: header_step.splits)

lemma header_loop_line:
  assumes "client_stream r = pre @ t @ CR # LF # rest" "parse_pos r = length pre" "t \<noteq> []" "CR \<notin> set t" "LF \<notin> set t"
    and "status r \<in> {READ_HEADER, ONE_LF}"
  shows "header_loop (length t + 2) env cfg r s = line_done env cfg
     (r\<lparr>header_end := In_stream (length pre + length t), status := ONE_LF, parse_pos := length pre + length t + 2\<rparr>) s"
  unfolding header_loop_add header_loop_plain[OF assms]
  using header_loop_crlf[of "r\<lparr>status := READ_HEADER, parse_pos := length pre + length t\<rparr>" "pre @ t" rest] assms(1)
  by simp

lemma header_loop_end:
  assumes "client_stream r = pre @ CR # LF # rest" "parse_pos r = length pre" "status r = ONE_LF"
  shows "header_loop 2 env cfg r s =
     H_return (headers_done env cfg (r\<lparr>status := BODY_READ, parse_pos := length pre + 2\<rparr>) s)"
  using assms by (simp add: numeral_2_eq_2 header_step_def scan_char_def Let_def nth_append)

text \<open>What the parser leaves in the request apart from its own positions in the stream.\<close>

definition strip :: "request \<Rightarrow> request" where
  "strip r = r\<lparr>status := READ_HEADER, header_line := HNull, header_end := HNull, parse_pos := 0, client_stream := []\<rparr>"

lemma strip_simps [simp]:
  "strip (r\<lparr>status := a\<rparr>) = strip r" "strip (r\<lparr>header_line := b\<rparr>) = strip r" "strip (r\<lparr>header_end := b\<rparr>) = strip r"
  "strip (r\<lparr>parse_pos := n\<rparr>) = strip r" "strip (r\<lparr>client_stream := t\<rparr>) = strip r"
  by (simp_all add: strip_def)

lemma add_cgi_env_strip: "add_cgi_env k v p (strip r) = map_prod id strip (add_cgi_env k v p r)"
  by (simp add: add_cgi_env_def strip_def cgi_env_index_def Let_def)

lemma option_value_strip: "option_value cfg n v (strip r) = map_prod id strip (option_value cfg n v r)"
proof -
  have e: "(strip r)\<lparr>header_referer := Some v\<rparr> = strip (r\<lparr>header_referer := Some v\<rparr>)"
    "(strip r)\<lparr>header_user_agent := Some v\<rparr> = strip (r\<lparr>header_user_agent := Some v\<rparr>)"
    "(strip r)\<lparr>if_modified_since := Some v\<rparr> = strip (r\<lparr>if_modified_since := Some v\<rparr>)"
    "(strip r)\<lparr>content_type := Some v\<rparr> = strip (r\<lparr>content_type := Some v\<rparr>)"
    "(strip r)\<lparr>content_length := Some v\<rparr> = strip (r\<lparr>content_length := Some v\<rparr>)"
    "(strip r)\<lparr>authorization := Some v\<rparr> = strip (r\<lparr>authorization := Some v\<rparr>)"
    "(strip r)\<lparr>keepalive := k\<rparr> = strip (r\<lparr>keepalive := k\<rparr>)"
    "(strip r)\<lparr>sessionid := take 27 v\<rparr> = strip (r\<lparr>sessionid := take 27 v\<rparr>)"
    "if_modified_since (strip r) = if_modified_since r" "content_type (strip r) = content_type r"
    "content_length (strip r) = content_length r" "authorization (strip r) = authorization r"
    "keepalive (strip r) = keepalive r" for k
    by (simp_all add: strip_def)
  show ?thesis by (simp add: option_value_def add_accept_header_def e add_cgi_env_strip split_beta)
qed

lemma option_value_stream [simp]:
  "client_stream (snd (option_value cfg n v r)) = client_stream r" "parse_pos (snd (option_value cfg n v r)) = parse_pos r"
  "logline (snd (option_value cfg n v r)) = logline r" "status (snd (option_value cfg n v r)) = status r"
  by (simp_all add: option_value_def add_accept_header_def add_cgi_env_def Let_def split_beta)

text \<open>The headers as a client writes them, and their meaning.\<close>

definition header_text :: "cstring \<times> cstring \<Rightarrow> cstring" where
  "header_text h = fst h @ '':'' @ SP # snd h"

definition headers_text :: "(cstring \<times> cstring) list \<Rightarrow> cstring" where
  "headers_text hs = concat (map (\<lambda>h. header_text h @ CRLF) hs)"

definition header_ok :: "cstring \<times> cstring \<Rightarrow> bool" where
  "header_ok h \<longleftrightarrow> CHR '':'' \<notin> set (fst h) \<and> set (fst h @ snd h) \<inter> {NUL, CR, LF} = {} \<and>
     (snd h = [] \<or> \<not> blank (hd (snd h)))"

fun spec_headers :: "conf \<Rightarrow> (cstring \<times> cstring) list \<Rightarrow> request \<Rightarrow> int \<times> request" where
  "spec_headers cfg [] r = (1, r)"
| "spec_headers cfg (h # hs) r =
    (case option_value cfg (to_upper (fst h)) (snd h) r of (ret, r1) \<Rightarrow> if ret = 0 then (0, r1) else spec_headers cfg hs r1)"

lemma spec_headers_strip: "spec_headers cfg hs (strip r) = map_prod id strip (spec_headers cfg hs r)"
  by (induction hs arbitrary: r) (simp_all add: option_value_strip split_beta)

lemma header_loop_option:
  assumes "client_stream r = pre @ header_text h @ CR # LF # rest" "parse_pos r = length pre" "header_line r = In_stream (length pre)"
    and "logline r \<noteq> None" "status r = ONE_LF" "header_ok h" "fst (option_value cfg (to_upper (fst h)) (snd h) r) \<noteq> 0"
  obtains r1 pre1 where "header_loop (length (header_text h) + 2) env cfg r s = H_next r1"
    "strip r1 = strip (snd (option_value cfg (to_upper (fst h)) (snd h) r))"
    "client_stream r1 = pre1 @ rest" "length pre1 = length pre + length (header_text h) + 2" "parse_pos r1 = length pre1"
    "header_line r1 = In_stream (length pre1)" "logline r1 = logline r" "status r1 = ONE_LF"
proof -
  let ?n = "length pre + length (header_text h)"
  let ?q = "r\<lparr>header_end := In_stream ?n, status := ONE_LF, parse_pos := ?n + 2\<rparr>"
  let ?r = "?q\<lparr>client_stream := (client_stream r)[?n := NUL]\<rparr>"
  let ?r2 = "?r\<lparr>client_stream := pre @ to_upper (fst h) @ NUL # '' '' @ snd h @ NUL # LF # rest\<rparr>"
  have t: "header_text h \<noteq> []" "CR \<notin> set (header_text h)" "LF \<notin> set (header_text h)"
    using assms(6) by (auto simp: header_text_def header_ok_def)
  have "(pre @ header_text h @ CR # LF # rest)[?n := NUL] = pre @ header_text h @ NUL # LF # rest"
    by (simp add: list_update_append)
  then have "client_stream ?r = pre @ fst h @ '':'' @ '' '' @ snd h @ NUL # LF # rest"
    using assms(1) by (simp add: header_text_def)
  then have po: "process_option_line cfg ?r = option_value cfg (to_upper (fst h)) (snd h) ?r2"
    using process_option_line_value[of "fst h" "'' ''" "snd h" ?r pre "LF # rest"] assms(3,6)
    by (auto simp: header_ok_def nul_free_def blank_def)
  obtain ret r1 where ov: "option_value cfg (to_upper (fst h)) (snd h) ?r2 = (ret, r1)" by force
  have "strip ?r2 = strip r" by simp
  then have sv: "map_prod id strip (option_value cfg (to_upper (fst h)) (snd h) ?r2) =
      map_prod id strip (option_value cfg (to_upper (fst h)) (snd h) r)" by (simp only: option_value_strip[symmetric])
  then have s: "ret \<noteq> 0" "strip r1 = strip (snd (option_value cfg (to_upper (fst h)) (snd h) r))"
    using ov assms(7) by (auto simp: map_prod_def split_beta)
  have "header_loop (length (header_text h) + 2) env cfg r s = line_done env cfg ?q s"
    using header_loop_line[of r pre "header_text h" rest] assms t by simp
  also have "\<dots> = H_next (r1\<lparr>header_line := In_stream (parse_pos r1)\<rparr>)"
    using po ov s(1) assms(4) by (simp add: line_done_def stream_offset_def)
  finally have loop: "header_loop (length (header_text h) + 2) env cfg r s = H_next (r1\<lparr>header_line := In_stream (parse_pos r1)\<rparr>)" .
  have "client_stream r1 = client_stream ?r2" "parse_pos r1 = ?n + 2" "logline r1 = logline r" "status r1 = ONE_LF"
    using arg_cong[OF ov, of "\<lambda>p. client_stream (snd p)"] arg_cong[OF ov, of "\<lambda>p. parse_pos (snd p)"]
      arg_cong[OF ov, of "\<lambda>p. logline (snd p)"] arg_cong[OF ov, of "\<lambda>p. status (snd p)"] by simp_all
  then show thesis
    using that[OF loop, of "pre @ to_upper (fst h) @ NUL # '' '' @ snd h @ NUL # [LF]"] s(2)
    by (simp add: header_text_def to_upper_def)
qed

lemma header_loop_headers:
  assumes "client_stream r = pre @ headers_text hs @ CR # LF # body" "parse_pos r = length pre" "header_line r = In_stream (length pre)"
    and "logline r \<noteq> None" "status r = ONE_LF" "\<forall>h \<in> set hs. header_ok h" "fst (spec_headers cfg hs r) = 1"
  shows "\<exists>r'. header_loop (length (headers_text hs) + 2) env cfg r s = H_return (headers_done env cfg r' s) \<and>
     strip r' = strip (snd (spec_headers cfg hs r)) \<and> status r' = BODY_READ \<and>
     parse_pos r' = length pre + length (headers_text hs) + 2 \<and> drop (parse_pos r') (client_stream r') = body"
  using assms
proof (induction hs arbitrary: r pre)
  case Nil
  let ?q = "r\<lparr>status := BODY_READ, parse_pos := length pre + 2\<rparr>"
  have "header_loop 2 env cfg r s = H_return (headers_done env cfg ?q s)"
    using header_loop_end[of r pre body env cfg s] Nil by (simp add: headers_text_def)
  then show ?case using Nil(1) by (intro exI[of _ ?q]) (simp add: headers_text_def numeral_2_eq_2 del: header_loop.simps)
next
  case (Cons h hs)
  let ?rest = "headers_text hs @ CR # LF # body"
  have cs: "client_stream r = pre @ header_text h @ CR # LF # ?rest" using Cons.prems(1) by (simp add: headers_text_def)
  have ok: "header_ok h" "fst (option_value cfg (to_upper (fst h)) (snd h) r) \<noteq> 0"
    using Cons.prems(6,7) by (auto simp: split_beta split: if_splits)
  obtain r1 pre1 where r1: "header_loop (length (header_text h) + 2) env cfg r s = H_next r1"
      "strip r1 = strip (snd (option_value cfg (to_upper (fst h)) (snd h) r))"
      "client_stream r1 = pre1 @ ?rest" "length pre1 = length pre + length (header_text h) + 2" "parse_pos r1 = length pre1"
      "header_line r1 = In_stream (length pre1)" "logline r1 = logline r" "status r1 = ONE_LF"
    by (rule header_loop_option[OF cs Cons.prems(2-5) ok])
  have sp: "map_prod id strip (spec_headers cfg hs r1) = map_prod id strip (spec_headers cfg (h # hs) r)"
    using ok(2) r1(2) spec_headers_strip[of cfg hs r1]
      spec_headers_strip[of cfg hs "snd (option_value cfg (to_upper (fst h)) (snd h) r)"]
    by (simp add: split_beta)
  then have "fst (spec_headers cfg hs r1) = 1" "strip (snd (spec_headers cfg hs r1)) = strip (snd (spec_headers cfg (h # hs) r))"
    using Cons.prems(7) by (auto simp: map_prod_def split_beta)
  with Cons.IH[OF r1(3,5,6)] r1(7,8) Cons.prems(4,6) obtain r' where
    "header_loop (length (headers_text hs) + 2) env cfg r1 s = H_return (headers_done env cfg r' s)"
    "strip r' = strip (snd (spec_headers cfg (h # hs) r))" "status r' = BODY_READ"
    "parse_pos r' = length pre1 + length (headers_text hs) + 2" "drop (parse_pos r') (client_stream r') = body"
    by auto
  moreover have "length (headers_text (h # hs)) + 2 = (length (header_text h) + 2) + (length (headers_text hs) + 2)"
    by (simp add: headers_text_def)
  ultimately show ?case using r1(1,4) header_loop_add[of "length (header_text h) + 2" "length (headers_text hs) + 2" env cfg r s]
    by auto
qed

text \<open>The whole request as a client writes it, and the request line as the parser leaves it.\<close>

definition request_text :: "cstring \<Rightarrow> cstring \<Rightarrow> cstring \<Rightarrow> (cstring \<times> cstring) list \<Rightarrow> cstring" where
  "request_text word uri ver hs = request_line word uri ver @ CRLF @ headers_text hs @ CRLF"

definition with_line :: "http_method \<Rightarrow> cstring \<Rightarrow> cstring \<Rightarrow> cstring \<Rightarrow> request \<Rightarrow> request" where
  "with_line m word uri ver r = r\<lparr>logline := Some (request_line word uri ver), method := m, http_version := ver,
     simple := False, request_uri := uri, cgi_env := []\<rparr>"

lemma header_loop_request_line:
  assumes m: "(m, word) \<in> set known_methods" "ver = ''HTTP/1.0'' \<or> ver = ''HTTP/1.1''"
    and uri: "uri \<noteq> []" "set uri \<inter> {SP, NUL, CR, LF} = {}" "length uri \<le> MAX_HEADER_LENGTH"
    and r: "client_stream r = request_line word uri ver @ CR # LF # rest" "parse_pos r = 0" "status r = READ_HEADER" "logline r = None"
  shows "\<exists>r1 pre1. header_loop (length (request_line word uri ver) + 2) env cfg r s = H_next r1 \<and>
    strip r1 = strip (with_line m word uri ver r) \<and> client_stream r1 = pre1 @ rest \<and>
    length pre1 = length (request_line word uri ver) + 2 \<and> parse_pos r1 = length pre1 \<and>
    header_line r1 = In_stream (length pre1) \<and> logline r1 \<noteq> None \<and> status r1 = ONE_LF"
proof -
  let ?l = "request_line word uri ver"
  let ?q = "r\<lparr>header_end := In_stream (length ?l), status := ONE_LF, parse_pos := length ?l + 2\<rparr>"
  let ?z = "?q\<lparr>client_stream := ?l @ NUL # LF # rest\<rparr>"
  have w: "nul_free word" "CR \<notin> set word" "LF \<notin> set word" using m(1) by (auto simp: known_methods_def)
  have t: "?l \<noteq> []" "CR \<notin> set ?l" "LF \<notin> set ?l" using w uri(2) m(2) by (auto simp: request_line_def)
  have "header_loop (length ?l + 2) env cfg r s = line_done env cfg ?q s"
    using header_loop_line[of r "[]" ?l rest] t r by simp
  moreover have "process_logline cfg ?z = (1, with_line m word uri ver ?z)"
    using process_logline_accepts[OF m uri(1), of ?z "LF # rest" cfg] uri(2,3) by (auto simp: with_line_def nul_free_def)
  moreover have "(?l @ CR # LF # rest)[length ?l := NUL] = ?l @ NUL # LF # rest" by (simp add: list_update_append)
  ultimately have "header_loop (length ?l + 2) env cfg r s =
      H_next ((with_line m word uri ver ?z)\<lparr>header_line := In_stream (length ?l + 2)\<rparr>)"
    using r by (simp add: line_done_def stream_offset_def with_line_def)
  then show ?thesis
    by (intro exI[of _ "(with_line m word uri ver ?z)\<lparr>header_line := In_stream (length ?l + 2)\<rparr>"] exI[of _ "?l @ [NUL, LF]"])
      (simp add: with_line_def strip_def)
qed

text \<open>
  C8: The parser of a request. For a request line of one of the three methods and headers without line breaks, followed by an empty line
  and anything else, \<open>read_header\<close> does what its specification says: it records the method, URI and version, handles every header
  once and in order, and then hands over to \<open>headers_done\<close> with the position just behind the empty line.
\<close>

theorem read_header_correct:
  assumes m: "(m, word) \<in> set known_methods" "ver = ''HTTP/1.0'' \<or> ver = ''HTTP/1.1''"
    and uri: "uri \<noteq> []" "set uri \<inter> {SP, NUL, CR, LF} = {}" "length uri \<le> MAX_HEADER_LENGTH"
    and hs: "\<forall>h \<in> set hs. header_ok h" "fst (spec_headers cfg hs (with_line m word uri ver r)) = 1"
    and r: "client_stream r = request_text word uri ver hs @ body" "parse_pos r = 0" "status r = READ_HEADER" "logline r = None"
  shows "\<exists>r'. read_header env cfg rd r s = headers_done env cfg r' s \<and>
     strip r' = strip (snd (spec_headers cfg hs (with_line m word uri ver r))) \<and> status r' = BODY_READ \<and>
     parse_pos r' = length (request_text word uri ver hs) \<and> drop (parse_pos r') (client_stream r') = body"
proof -
  let ?l = "request_line word uri ver"
  have cs: "client_stream r = ?l @ CR # LF # headers_text hs @ CR # LF # body" using r(1) by (simp add: request_text_def)
  from header_loop_request_line[OF m uri cs r(2-4), of env cfg s] obtain r1 pre1 where
    r1: "header_loop (length ?l + 2) env cfg r s = H_next r1" "strip r1 = strip (with_line m word uri ver r)"
      "client_stream r1 = pre1 @ headers_text hs @ CR # LF # body" "length pre1 = length ?l + 2" "parse_pos r1 = length pre1"
      "header_line r1 = In_stream (length pre1)" "logline r1 \<noteq> None" "status r1 = ONE_LF"
    by blast
  have "map_prod id strip (spec_headers cfg hs r1) = map_prod id strip (spec_headers cfg hs (with_line m word uri ver r))"
    using r1(2) by (simp add: spec_headers_strip[symmetric])
  then have sp: "fst (spec_headers cfg hs r1) = 1"
      "strip (snd (spec_headers cfg hs r1)) = strip (snd (spec_headers cfg hs (with_line m word uri ver r)))"
    using hs(2) by (auto simp: map_prod_def split_beta)
  from header_loop_headers[OF r1(3,5,6,7,8) hs(1) sp(1), of env s] obtain r' where
    r': "header_loop (length (headers_text hs) + 2) env cfg r1 s = H_return (headers_done env cfg r' s)"
      "strip r' = strip (snd (spec_headers cfg hs r1))" "status r' = BODY_READ"
      "parse_pos r' = length pre1 + length (headers_text hs) + 2" "drop (parse_pos r') (client_stream r') = body"
    by blast
  have "client_stream_pos r - parse_pos r = (length ?l + 2) + ((length (headers_text hs) + 2) + length body)"
    using cs r(2) by simp
  then have "header_loop (client_stream_pos r - parse_pos r) env cfg r s = H_return (headers_done env cfg r' s)"
    using r1(1) r'(1) by (simp only: header_loop_add header_step.case)
  then show ?thesis using r' r1(4) sp(2) by (auto simp: read_header_def request_text_def)
qed

definition wire_sample :: request where
  "wire_sample = fresh\<lparr>client_stream := request_text ''POST'' ''/a'' ''HTTP/1.0'' [(''Content-Length'', ''3'')] @ ''xyz'', header_line := In_stream 0\<rparr>"

theorem read_header_correct_witness:
  "\<exists>r'. read_header sample_server sample_conf (R_bytes []) wire_sample sample_state = headers_done sample_server sample_conf r' sample_state \<and>
     content_length (strip r') = Some ''3'' \<and> request_uri (strip r') = ''/a'' \<and> drop (parse_pos r') (client_stream r') = ''xyz''"
proof -
  let ?h = "(''Content-Length'', ''3'')"
  let ?w = "with_line M_POST ''POST'' ''/a'' ''HTTP/1.0'' wire_sample"
  have up: "to_upper ''Content-Length'' = ''CONTENT_LENGTH''" by code_simp
  have sp: "spec_headers sample_conf [?h] ?w = (1, ?w\<lparr>content_length := Some ''3''\<rparr>)"
    by (simp add: up option_value_def with_line_def wire_sample_def fresh_def zero_request_def)
  have "header_ok ?h" by (simp add: header_ok_def blank_def)
  with sp obtain r' where r': "read_header sample_server sample_conf (R_bytes []) wire_sample sample_state =
      headers_done sample_server sample_conf r' sample_state" "strip r' = strip (?w\<lparr>content_length := Some ''3''\<rparr>)"
      "drop (parse_pos r') (client_stream r') = ''xyz''"
    using read_header_correct[of M_POST "''POST''" "''HTTP/1.0''" "''/a''" "[?h]" sample_conf wire_sample "''xyz''"
        sample_server "R_bytes []" sample_state]
    by (auto simp: known_methods_def MAX_HEADER_LENGTH_def wire_sample_def fresh_def zero_request_def simp del: spec_headers.simps)
  moreover have "content_length (strip r') = Some ''3''" "request_uri (strip r') = ''/a''"
    unfolding r'(2) by (simp_all add: strip_def with_line_def)
  ultimately show ?thesis by blast
qed

subsection \<open>The cut of the stream into packets\<close>

lemma cstr_append_nul: "NUL \<in> set xs \<Longrightarrow> cstr (xs @ ys) = cstr xs"
  by (induction xs) auto

lemma length_cstr_less: "NUL \<in> set xs \<Longrightarrow> length (cstr xs) < length xs"
  by (induction xs) auto

definition set_stream :: "char list \<Rightarrow> request \<Rightarrow> request" where
  "set_stream t r = r\<lparr>client_stream := t\<rparr>"

definition grow :: "char list \<Rightarrow> request \<Rightarrow> request" where
  "grow x r = set_stream (client_stream r @ x) r"

lemma grow_set_stream: "grow x (set_stream t r) = set_stream (t @ x) r"
  by (simp add: grow_def set_stream_def)

lemma add_cgi_env_stream: "add_cgi_env k v p (set_stream t r) = map_prod id (set_stream t) (add_cgi_env k v p r)"
  by (simp add: add_cgi_env_def set_stream_def cgi_env_index_def Let_def)

lemma option_value_set_stream: "option_value cfg n v (set_stream t r) = map_prod id (set_stream t) (option_value cfg n v r)"
proof -
  have e: "(set_stream t r)\<lparr>header_referer := Some v\<rparr> = set_stream t (r\<lparr>header_referer := Some v\<rparr>)"
    "(set_stream t r)\<lparr>header_user_agent := Some v\<rparr> = set_stream t (r\<lparr>header_user_agent := Some v\<rparr>)"
    "(set_stream t r)\<lparr>if_modified_since := Some v\<rparr> = set_stream t (r\<lparr>if_modified_since := Some v\<rparr>)"
    "(set_stream t r)\<lparr>content_type := Some v\<rparr> = set_stream t (r\<lparr>content_type := Some v\<rparr>)"
    "(set_stream t r)\<lparr>content_length := Some v\<rparr> = set_stream t (r\<lparr>content_length := Some v\<rparr>)"
    "(set_stream t r)\<lparr>authorization := Some v\<rparr> = set_stream t (r\<lparr>authorization := Some v\<rparr>)"
    "(set_stream t r)\<lparr>keepalive := k\<rparr> = set_stream t (r\<lparr>keepalive := k\<rparr>)"
    "(set_stream t r)\<lparr>sessionid := take 27 v\<rparr> = set_stream t (r\<lparr>sessionid := take 27 v\<rparr>)"
    "if_modified_since (set_stream t r) = if_modified_since r" "content_type (set_stream t r) = content_type r"
    "content_length (set_stream t r) = content_length r" "authorization (set_stream t r) = authorization r"
    "keepalive (set_stream t r) = keepalive r" for k
    by (simp_all add: set_stream_def)
  show ?thesis by (simp add: option_value_def add_accept_header_def e add_cgi_env_stream split_beta)
qed

lemma process_option_line_grow:
  assumes "header_line r = In_stream at" "NUL \<in> set (drop at (client_stream r))" "at \<le> client_stream_pos r"
  shows "process_option_line cfg (grow x r) = map_prod id (grow x) (process_option_line cfg r)"
proof -
  let ?line = "cstr (drop at (client_stream r))"
  have line: "cstr (drop at (client_stream r @ x)) = ?line" using cstr_append_nul[OF assms(2)] assms(3) by simp
  have inside: "at + length ?line < client_stream_pos r" using length_cstr_less[OF assms(2)] assms(3) by simp
  have g: "client_stream (grow x r) = client_stream r @ x" "header_line (grow x r) = In_stream at"
    using assms(1) by (simp_all add: grow_def set_stream_def)
  show ?thesis
  proof (cases "strchr (CHR '':'') ?line")
    case None
    then show ?thesis using assms(1) line g by (simp add: process_option_line_def Let_def stream_offset_def)
  next
    case (Some rest)
    let ?n = "to_upper (before (CHR '':'') ?line)"
    let ?v = "dropWhile blank (tl rest)"
    let ?s = "take at (client_stream r) @ ?n @ NUL # drop (at + length ?n + 1) (client_stream r)"
    have "length ?n \<le> length ?line" by (simp add: to_upper_def before_def length_takeWhile_le)
    then have s: "take at (client_stream r @ x) @ ?n @ NUL # drop (at + length ?n + 1) (client_stream r @ x) = ?s @ x"
      using inside assms(3) by simp
    have "process_option_line cfg (grow x r) = option_value cfg ?n ?v (set_stream (?s @ x) r)"
      using g line Some s by (simp add: process_option_line_def Let_def stream_offset_def grow_def set_stream_def)
    moreover have "process_option_line cfg r = option_value cfg ?n ?v (set_stream ?s r)"
      using assms(1) Some by (simp add: process_option_line_def Let_def stream_offset_def set_stream_def)
    ultimately show ?thesis
      by (cases "option_value cfg ?n ?v r") (simp add: option_value_set_stream grow_set_stream)
  qed
qed

lemma length_scan_digits: "scan_digits n s = (m, t) \<Longrightarrow> length t \<le> length s"
  by (induction n s rule: scan_digits.induct) (auto split: if_splits)

lemma strtoul_shorter:
  assumes "strtoul s = Some (n, t)"
  shows "length t < length s"
proof -
  have "length t < length (dropWhile isspace s)"
    using assms by (cases "dropWhile isspace s")
      (auto simp: strtoul_def Let_def dest!: length_scan_digits split: list.splits if_splits prod.splits)
  then show ?thesis using length_dropWhile_le[of isspace s] by simp
qed

lemma sscanf_lits_full:
  assumes "sscanf (scan_lits xs @ f) s \<noteq> []" "f \<noteq> []"
  shows "\<exists>t. s = xs @ t \<and> sscanf (scan_lits xs @ f) s = sscanf f t"
  using assms(1)
proof (induction xs arbitrary: s)
  case (Cons x xs)
  then show ?case by (cases s) (auto simp: scan_lits_def split: if_splits)
qed (simp add: scan_lits_def)

lemma scan_version_length:
  assumes "scan_version proto ver = Some p"
  shows "length proto + 4 \<le> length ver"
proof -
  let ?f = "[Scan_u, Scan_lit (CHR ''.''), Scan_u]"
  have two: "length (sscanf (scan_lits (proto @ ''/'') @ ?f) ver) = 2"
    using assms by (auto simp: scan_version_def fmt_version_def Let_def split: if_splits)
  then have "sscanf (scan_lits (proto @ ''/'') @ ?f) ver \<noteq> []" by (metis list.size(3) zero_neq_numeral)
  then obtain t where t: "ver = (proto @ ''/'') @ t" "length (sscanf ?f t) = 2"
    using sscanf_lits_full[of "proto @ ''/''" ?f ver] two by auto
  then obtain n u v where "strtoul t = Some (n, CHR ''.'' # u)" "strtoul u = Some v"
    by (auto split: option.splits list.splits if_splits prod.splits)
  then have "length u + 1 < length t" "length (snd v) < length u" using strtoul_shorter by (cases v; fastforce)+
  then show ?thesis using t(1) by simp
qed

lemma overwrite_version_grow: "at + 8 \<le> length s \<Longrightarrow> overwrite_version at (s @ x) = overwrite_version at s @ x"
  by (simp add: overwrite_version_def mem_put_def)

lemma logline_rtsp_grow:
  "at + 8 \<le> length t \<Longrightarrow> logline_rtsp at stop ver (set_stream (t @ x) r) = grow x (logline_rtsp at stop ver (set_stream t r))"
  by (simp add: logline_rtsp_def set_stream_def grow_def overwrite_version_grow)

lemma logline_done_grow:
  "logline_done cfg r = (ret, r1) \<Longrightarrow> ret \<noteq> 0 \<Longrightarrow> logline_done cfg (grow x r) = (ret, grow x r1)"
  by (auto simp: logline_done_def grow_def set_stream_def split: if_splits)

lemma logline_version_grow:
  assumes "logline_version cfg at stop ver r = (ret, r1)" "ret \<noteq> 0" "at + length ver \<le> client_stream_pos r"
  shows "logline_version cfg at stop ver (grow x r) = (ret, grow x r1)"
proof (cases "scan_version ''HTTP'' ver")
  case None
  then obtain p where p: "scan_version ''RTSP'' ver = Some p" using assms by (auto simp: logline_version_def split: option.splits)
  then have "at + 8 \<le> client_stream_pos r" using scan_version_length[OF p] assms(3) by simp
  then have "logline_rtsp at stop ver (grow x r) = grow x (logline_rtsp at stop ver r)"
    using logline_rtsp_grow[of at "client_stream r" stop ver x r] by (simp add: grow_def set_stream_def)
  moreover have "logline_done cfg (logline_rtsp at stop ver r) = (ret, r1)" using None p assms(1) by (simp add: logline_version_def)
  ultimately show ?thesis using None p logline_done_grow[OF _ assms(2)] by (simp add: logline_version_def)
next
  case (Some p)
  then show ?thesis using assms(1,2)
    by (cases p) (auto simp: logline_version_def logline_done_def grow_def set_stream_def split: if_splits)
qed

text \<open>Where the pointers of the parser are between two characters.\<close>

definition parse_inv :: "request \<Rightarrow> bool" where
  "parse_inv r \<longleftrightarrow> reading_header (status r) \<and> parse_pos r \<le> client_stream_pos r \<and>
     (\<exists>k \<le> parse_pos r. header_line r = In_stream k \<and>
        (status r = ONE_CR \<longrightarrow> (\<exists>e. header_end r = In_stream e \<and> k \<le> e \<and> e < parse_pos r)))"

lemma process_option_line_pos:
  assumes "header_line r = In_stream at" "NUL \<in> set (drop at (client_stream r))" "at \<le> client_stream_pos r"
    and "process_option_line cfg r = (ret, r1)"
  shows "client_stream_pos r1 = client_stream_pos r" "parse_pos r1 = parse_pos r" "status r1 = status r"
proof -
  let ?line = "cstr (drop at (client_stream r))"
  let ?n = "to_upper (before (CHR '':'') ?line)"
  let ?s = "take at (client_stream r) @ ?n @ NUL # drop (at + length ?n + 1) (client_stream r)"
  have "at + length ?line < client_stream_pos r" using length_cstr_less[OF assms(2)] assms(3) by simp
  moreover have "length ?n \<le> length ?line" by (simp add: to_upper_def before_def length_takeWhile_le)
  ultimately have "length ?s = client_stream_pos r" by simp
  moreover have "r1 = r \<or> (\<exists>v. r1 = snd (option_value cfg ?n v (r\<lparr>client_stream := ?s\<rparr>)))"
  proof (cases "strchr (CHR '':'') ?line")
    case None
    then show ?thesis using assms(1,4) by (simp add: process_option_line_def Let_def stream_offset_def)
  next
    case (Some rest)
    then have "option_value cfg ?n (dropWhile blank (tl rest)) (r\<lparr>client_stream := ?s\<rparr>) = (ret, r1)"
      using assms(1,4) by (simp add: process_option_line_def Let_def stream_offset_def)
    then show ?thesis by (metis snd_conv)
  qed
  ultimately show "client_stream_pos r1 = client_stream_pos r" "parse_pos r1 = parse_pos r" "status r1 = status r" by auto
qed

lemma logline_done_pos:
  "logline_done cfg r = (ret, r1) \<Longrightarrow> ret \<noteq> 0 \<Longrightarrow>
   client_stream r1 = client_stream r \<and> parse_pos r1 = parse_pos r \<and> status r1 = status r"
  by (auto simp: logline_done_def split: if_splits)

lemma logline_rtsp_fields:
  "client_stream (logline_rtsp at stop ver r) = overwrite_version at (client_stream r)"
  "parse_pos (logline_rtsp at stop ver r) = parse_pos r" "status (logline_rtsp at stop ver r) = status r"
  by (simp_all add: logline_rtsp_def)

lemma logline_version_pos:
  assumes "logline_version cfg at stop ver r = (ret, r1)" "ret \<noteq> 0" "at + length ver \<le> client_stream_pos r"
  shows "client_stream_pos r1 = client_stream_pos r \<and> parse_pos r1 = parse_pos r \<and> status r1 = status r"
proof (cases "scan_version ''HTTP'' ver")
  case None
  then obtain p where p: "scan_version ''RTSP'' ver = Some p" using assms by (auto simp: logline_version_def split: option.splits)
  then have "at + 8 \<le> client_stream_pos r" using scan_version_length[OF p] assms(3) by simp
  then have "length (overwrite_version at (client_stream r)) = client_stream_pos r" by (simp add: overwrite_version_def)
  moreover have "logline_done cfg (logline_rtsp at stop ver r) = (ret, r1)" using None p assms(1) by (simp add: logline_version_def)
  ultimately show ?thesis using logline_done_pos[OF _ assms(2)] logline_rtsp_fields[of at stop ver r] by simp
next
  case (Some p)
  then show ?thesis using assms(1,2)
    by (cases p) (auto simp: logline_version_def logline_done_def split: if_splits)
qed

lemma process_logline_split:
  assumes "cstr (client_stream r) = line" "logline_method line = Some (m, n)"
    and "dropWhile (\<lambda>c. c = SP) (drop n line) = stop" "takeWhile (\<lambda>c. c \<noteq> SP) stop = uri" "dropWhile (\<lambda>c. c \<noteq> SP) stop = stop2"
    and "dropWhile (\<lambda>c. c = SP) stop2 = ver"
  shows "process_logline cfg r =
    (let q = r\<lparr>logline := Some line, method := m, http_version := SIMPLE_HTTP_VERSION, simple := True\<rparr> in
     if length uri > MAX_HEADER_LENGTH then (0, send_r_bad_request cfg q)
     else if stop2 = [] then logline_done cfg (q\<lparr>request_uri := uri\<rparr>)
     else logline_version cfg (length line - length ver) stop ver (q\<lparr>request_uri := uri\<rparr>))"
  unfolding process_logline_def Let_def assms(1,2) option.case prod.case assms(3) unfolding assms(4,5) unfolding assms(6) ..

lemma process_logline_grow:
  assumes nul: "NUL \<in> set (client_stream r)" and run: "process_logline cfg r = (ret, r1)" "ret \<noteq> 0"
  shows "process_logline cfg (grow x r) = (ret, grow x r1) \<and>
     client_stream_pos r1 = client_stream_pos r \<and> parse_pos r1 = parse_pos r \<and> status r1 = status r"
proof -
  define line where "line = cstr (client_stream r)"
  have g: "cstr (client_stream (grow x r)) = line"
    using cstr_append_nul[OF nul] by (simp add: grow_def set_stream_def line_def)
  obtain m n where m: "logline_method line = Some (m, n)"
    using run by (cases "logline_method line") (auto simp: process_logline_def Let_def line_def)
  obtain stop uri stop2 ver where d: "dropWhile (\<lambda>c. c = SP) (drop n line) = stop" "takeWhile (\<lambda>c. c \<noteq> SP) stop = uri"
    "dropWhile (\<lambda>c. c \<noteq> SP) stop = stop2" "dropWhile (\<lambda>c. c = SP) stop2 = ver" by blast
  let ?q = "r\<lparr>logline := Some line, method := m, http_version := SIMPLE_HTTP_VERSION, simple := True, request_uri := uri\<rparr>"
  have e: "(grow x r)\<lparr>logline := Some line, method := m, http_version := SIMPLE_HTTP_VERSION, simple := True, request_uri := uri\<rparr> = grow x ?q"
    by (simp add: grow_def set_stream_def)
  have "length ver \<le> length line"
    using length_dropWhile_le[of "\<lambda>c. c = SP" "drop n line"] length_dropWhile_le[of "\<lambda>c. c \<noteq> SP" stop]
      length_dropWhile_le[of "\<lambda>c. c = SP" stop2] unfolding d by simp
  then have at: "length line - length ver + length ver \<le> client_stream_pos ?q"
    using length_cstr_le[of "client_stream r"] by (simp add: line_def)
  note split = process_logline_split[OF line_def[symmetric] m d, of cfg, unfolded Let_def]
    process_logline_split[OF g m d, of cfg, unfolded Let_def, unfolded e]
  show ?thesis
    using run split logline_done_grow[of cfg ?q ret r1 x] logline_version_grow[of cfg _ stop ver ?q ret r1 x, OF _ _ at]
      logline_done_pos[of cfg ?q ret r1] logline_version_pos[of cfg _ stop ver ?q ret r1, OF _ _ at]
    by (simp split: if_splits)
qed

lemma grow_simps [simp]:
  "parse_pos (grow x r) = parse_pos r" "status (grow x r) = status r" "header_line (grow x r) = header_line r"
  "header_end (grow x r) = header_end r" "logline (grow x r) = logline r" "simple (grow x r) = simple r"
  "client_stream (grow x r) = client_stream r @ x"
  "grow x (r\<lparr>header_line := b\<rparr>) = (grow x r)\<lparr>header_line := b\<rparr>"
  "grow x (r\<lparr>client_stream := t\<rparr>) = r\<lparr>client_stream := t @ x\<rparr>"
  by (simp_all add: grow_def set_stream_def)

lemma scan_char_grow: "parse_pos r < client_stream_pos r \<Longrightarrow> scan_char (grow x r) = grow x (scan_char r)"
  by (auto simp: scan_char_def Let_def nth_append grow_def set_stream_def)

lemma scan_char_inv:
  assumes "parse_inv r" "parse_pos r < client_stream_pos r"
  shows "parse_pos (scan_char r) = parse_pos r + 1" "client_stream (scan_char r) = client_stream r"
    "header_line (scan_char r) = header_line r" "logline (scan_char r) = logline r"
    and "status (scan_char r) \<notin> {ONE_LF, BODY_READ} \<Longrightarrow> parse_inv (scan_char r)"
    and "status (scan_char r) = ONE_LF \<Longrightarrow> \<exists>k e. header_line r = In_stream k \<and> header_end (scan_char r) = In_stream e \<and>
       k \<le> e \<and> e < client_stream_pos r"
  using assms by (auto simp: scan_char_def Let_def parse_inv_def reading_header_def split: if_splits)

text \<open>The end of a line: what it did does not depend on the bytes behind it.\<close>

lemma line_done_grow:
  assumes r: "header_line r = In_stream k" "header_end r = In_stream e" "k \<le> e" "e < client_stream_pos r"
    "parse_pos r \<le> client_stream_pos r" "status r = ONE_LF"
    and run: "line_done env cfg r s = H_next r1"
  shows "line_done env cfg (grow x r) s = H_next (grow x r1) \<and> parse_inv r1 \<and> parse_pos r1 = parse_pos r \<and>
     client_stream_pos r1 = client_stream_pos r"
proof -
  let ?q = "r\<lparr>client_stream := (client_stream r)[e := NUL]\<rparr>"
  have q: "(grow x r)\<lparr>client_stream := (client_stream r @ x)[e := NUL]\<rparr> = grow x ?q"
    using r(4) by (simp add: list_update_append grow_def set_stream_def)
  have "(client_stream ?q) ! e = NUL" "e < client_stream_pos ?q" using r(4) by simp_all
  then have "drop k (client_stream ?q) ! (e - k) = NUL" "e - k < length (drop k (client_stream ?q))"
    using r(3) by (simp_all add: nth_drop)
  then have nul: "NUL \<in> set (drop k (client_stream ?q))" by (metis nth_mem)
  then have nul': "NUL \<in> set (client_stream ?q)" by (meson in_set_dropD)
  show ?thesis
  proof (cases "logline r")
    case None
    obtain ret r2 where l: "process_logline cfg ?q = (ret, r2)" by force
    then have n: "ret \<noteq> 0" "\<not> simple r2" "r1 = r2\<lparr>header_line := In_stream (parse_pos r2)\<rparr>"
      using run r(2) None by (auto simp: line_done_def stream_offset_def split: if_splits)
    from process_logline_grow[OF nul' l n(1), of x] show ?thesis
      using None n r q by (simp add: line_done_def stream_offset_def parse_inv_def reading_header_def)
  next
    case (Some ll)
    obtain ret r2 where l: "process_option_line cfg ?q = (ret, r2)" by force
    then have n: "ret \<noteq> 0" "r1 = r2\<lparr>header_line := In_stream (parse_pos r2)\<rparr>"
      using run r(2) Some by (auto simp: line_done_def stream_offset_def split: if_splits)
    have "process_option_line cfg (grow x ?q) = (ret, grow x r2)"
      using process_option_line_grow[of ?q k cfg x] r nul l by simp
    then show ?thesis using process_option_line_pos[of ?q k cfg ret r2] Some n r q nul l
      by (simp add: line_done_def stream_offset_def parse_inv_def reading_header_def)
  qed
qed

lemma header_step_grow:
  assumes "parse_inv r" "parse_pos r < client_stream_pos r" "header_step env cfg r s = H_next r1"
  shows "header_step env cfg (grow x r) s = H_next (grow x r1) \<and> parse_inv r1 \<and> parse_pos r1 = parse_pos r + 1 \<and>
     client_stream_pos r1 = client_stream_pos r"
proof (cases "status (scan_char r) = ONE_LF")
  case True
  note I = scan_char_inv(1-4)[OF assms(1,2)]
  obtain k e where e: "header_line r = In_stream k" "header_end (scan_char r) = In_stream e" "k \<le> e" "e < client_stream_pos r"
    using scan_char_inv(6)[OF assms(1,2) True] by blast
  have "line_done env cfg (scan_char r) s = H_next r1" using assms(3) True by (simp add: header_step_def)
  from line_done_grow[OF _ e(2,3) _ _ True this, of x] show ?thesis
    using e I assms(2) True by (simp add: header_step_def scan_char_grow[OF assms(2)])
next
  case False
  then have "r1 = scan_char r" "status (scan_char r) \<noteq> BODY_READ" using assms(3)
    by (auto simp: header_step_def Let_def split: if_splits)
  then show ?thesis using False scan_char_inv[OF assms(1,2)] scan_char_grow[OF assms(2)] by (simp add: header_step_def)
qed

lemma header_loop_grow:
  assumes "parse_inv r" "parse_pos r + n \<le> client_stream_pos r" "header_loop n env cfg r s = H_next r1"
  shows "header_loop n env cfg (grow x r) s = H_next (grow x r1) \<and> parse_inv r1 \<and> parse_pos r1 = parse_pos r + n \<and>
     client_stream_pos r1 = client_stream_pos r"
  using assms
proof (induction n arbitrary: r)
  case (Suc n)
  then obtain r2 where r2: "header_step env cfg r s = H_next r2" by (auto split: header_step.splits)
  from header_step_grow[OF Suc.prems(1) _ r2, of x] Suc.prems have
    "header_step env cfg (grow x r) s = H_next (grow x r2)" "parse_inv r2" "parse_pos r2 = parse_pos r + 1"
    "client_stream_pos r2 = client_stream_pos r" by simp_all
  with Suc.IH[of r2] Suc.prems r2 show ?case by simp
qed simp

text \<open>
  C9: Packets. When the part of the stream that has arrived does not end the headers, and the next read brings \<open>x\<close>, the following call
  of \<open>read_header\<close> has the result it would have had if both parts had come at once: the cut of a request into packets, even within
  a line or between the characters of a line end, is invisible.
\<close>

theorem read_header_split:
  assumes inv: "parse_inv r" and nxt: "header_loop (client_stream_pos r - parse_pos r) env cfg r s = H_next r1"
    and x: "x \<noteq> []" "client_stream_pos r + length x \<le> CLIENT_STREAM_SIZE"
  shows "\<exists>r2. read_header env cfg (R_bytes x) r s = Some (1, r2, s) \<and> parse_inv r2 \<and>
     read_header env cfg rd r2 s = read_header env cfg rd (r\<lparr>client_stream := client_stream r @ x\<rparr>) s"
proof -
  let ?n = "client_stream_pos r - parse_pos r"
  have n: "parse_pos r + ?n = client_stream_pos r" using inv by (simp add: parse_inv_def)
  note G = header_loop_grow[OF inv _ nxt, of x]
  have G: "header_loop ?n env cfg (grow x r) s = H_next (grow x r1)" "parse_inv r1" "parse_pos r1 = client_stream_pos r"
    "client_stream_pos r1 = client_stream_pos r" using G n by simp_all
  have "0 < length x" using x(1) by simp
  with x(2) have "1 \<le> int CLIENT_STREAM_SIZE - int (client_stream_pos r)"
    "length x \<le> nat (int CLIENT_STREAM_SIZE - int (client_stream_pos r))" by linarith+
  then have "read_more (R_bytes x) r1 = (1, grow x r1)"
    using x(1) G(4) by (simp add: read_more_def Let_def grow_def set_stream_def)
  then have "read_header env cfg (R_bytes x) r s = Some (1, grow x r1, s)"
    using nxt G(2) by (simp add: read_header_def parse_inv_def)
  moreover have "parse_inv (grow x r1)" using G(2) by (auto simp: parse_inv_def)
  moreover have "header_loop (?n + length x) env cfg (grow x r) s = header_loop (length x) env cfg (grow x r1) s"
    using G(1) by (simp add: header_loop_add)
  then have "read_header env cfg rd (grow x r1) s = read_header env cfg rd (grow x r) s"
    using G(3,4) n by (simp add: read_header_def add.commute)
  ultimately show ?thesis by (auto simp: grow_def set_stream_def)
qed

definition half_line :: request where
  "half_line = fresh\<lparr>client_stream := ''GET /a HT'', header_line := In_stream 0\<rparr>"

theorem read_header_split_witness:
  "\<exists>r2. read_header sample_server sample_conf (R_bytes ''TP/1.0'') half_line sample_state = Some (1, r2, sample_state) \<and>
     read_header sample_server sample_conf (R_bytes []) r2 sample_state =
     read_header sample_server sample_conf (R_bytes []) (half_line\<lparr>client_stream := ''GET /a HTTP/1.0''\<rparr>) sample_state"
proof -
  have "header_loop (length ''GET /a HT'') sample_server sample_conf half_line sample_state =
      H_next (half_line\<lparr>status := READ_HEADER, parse_pos := 0 + length ''GET /a HT''\<rparr>)"
    using header_loop_plain[of half_line "[]" "''GET /a HT''" "[]" sample_server sample_conf sample_state]
    by (simp add: half_line_def fresh_def zero_request_def del: header_loop.simps)
  moreover have "parse_inv half_line" "parse_pos half_line = 0" "client_stream half_line = ''GET /a HT''"
    by (simp_all add: parse_inv_def half_line_def fresh_def zero_request_def reading_header_def)
  ultimately show ?thesis
    using read_header_split[of half_line sample_server sample_conf sample_state _ "''TP/1.0''" "R_bytes []"]
    by (fastforce simp: CLIENT_STREAM_SIZE_def simp del: header_loop.simps)
qed

subsection \<open>Handlers and POST\<close>

text \<open>
  A handler's answer to a POST is not final. When a handler has answered the request itself (status \<open>DONE\<close>, positive
  result), a valid content length makes \<open>read_header\<close> set the status to \<open>BODY_WRITE\<close> all the same: the body will be copied to the
  descriptor \<open>post_data_fd\<close>, which no one has opened, and a program started behind it.
\<close>

theorem post_handler_overridden:
  assumes "process_header_end env cfg r s = Some (retval, r1, s1)" "retval \<noteq> 0" "method r1 = M_POST"
    and "\<not> flag_set URI_FLAG_DIRECT_READ r1" "\<not> flag_set URI_FLAG_RTSP_O_HTTP r1"
    and "content_length r1 = Some v" "0 < boa_atoi v" "single_post_limit cfg = 0 \<or> boa_atoi v \<le> single_post_limit cfg"
  shows "\<exists>r'. headers_done env cfg r s = Some (retval, r', s1) \<and> status r' = BODY_WRITE \<and> post_data_fd r' = post_data_fd r1"
  using assms by (auto simp: headers_done_def Let_def flag_set_def post_length_def)

definition vb_page :: http_uri_entry where
  "vb_page = \<lparr>uri_name = ''/vb.htm'', uri_handler = Some 0, uri_authority = 4, uri_flag = 2\<rparr>"

definition vb_server :: "nat server_env" where
  "vb_server = sample_server\<lparr>uris := sample_env\<lparr>http_uri_search := (\<lambda>n. if n = ''/vb.htm'' then Some vb_page else None)\<rparr>,
     uri_run := (\<lambda>h (r, s). (1, r\<lparr>status := DONE\<rparr>, s))\<rparr>"

definition vb_post :: request where
  "vb_post = fresh\<lparr>logline := Some ''POST /vb.htm HTTP/1.0'', method := M_POST, request_uri := ''/vb.htm'', content_length := Some ''5''\<rparr>"

lemma guest_refused:
  "check_user sample_auth ''guest'' [] r boot_auth = Some (ERROR_UNAUTHORIZED, r, boot_auth)"
  by (simp add: check_user_def ensure_guest_def boot_auth_def sample_auth_def find_conn.simps account_matches_def strcaseeq_def)

lemma vb_post_handled:
  "process_header_end vb_server sample_conf vb_post sample_state =
     Some (1, vb_post\<lparr>http_uri := Some vb_page, authority := 4, status := DONE\<rparr>, sample_state)"
proof -
  have c: "clean_pathname ''/vb.htm'' = ''/vb.htm''" "\<not> strncaseeq (length JPEG_FRAME_URI) ''/vb.htm'' JPEG_FRAME_URI"
    by code_simp+
  have "translate_uri sample_conf (uris vb_server) (cleaned (''/vb.htm'', None) vb_post) (homes sample_state) =
      (1, vb_post\<lparr>http_uri := Some vb_page\<rparr>, homes sample_state)"
    using c by (simp add: translate_uri_def cleaned_def Let_def char_at_def vb_server_def vb_page_def has_flag_def
        URI_FLAG_VIRTUAL_PAGE_def vb_post_def fresh_def zero_request_def bit_simps)
  moreover have "auth_authorize (accs vb_server) (behind vb_server) (stack vb_server) (vb_post\<lparr>http_uri := Some vb_page, authority := 4\<rparr>) boot_auth =
      Some (ERROR_UNAUTHORIZED, vb_post\<lparr>http_uri := Some vb_page, authority := 4\<rparr>, boot_auth)"
    using guest_refused[of "vb_post\<lparr>http_uri := Some vb_page, authority := 4\<rparr>"]
    by (simp add: auth_authorize_def vb_server_def sample_server_def vb_page_def has_flag_def URI_FLAG_CHECK_LOGIN_def
        vb_post_def fresh_def zero_request_def bit_simps)
  ultimately show ?thesis using c
    by (simp add: process_header_end_def authorize_page_def run_handler_def unescape_uri_def Let_def char_at_def cleaned_def
        vb_server_def sample_server_def sample_state_def vb_page_def vb_post_def fresh_def zero_request_def)
qed

theorem post_handler_overridden_witness:
  "\<exists>r'. headers_done vb_server sample_conf vb_post sample_state = Some (1, r', sample_state) \<and>
     status r' = BODY_WRITE \<and> post_data_fd r' = 0"
proof -
  have "boa_atoi ''5'' = 5" by code_simp
  then show ?thesis using post_handler_overridden[OF vb_post_handled, of "''5''"]
    by (simp add: flag_set_def has_flag_def vb_page_def vb_post_def fresh_def zero_request_def URI_FLAG_DIRECT_READ_def
        URI_FLAG_RTSP_O_HTTP_def bit_simps sample_conf_def)
qed

end
