(* ===== verification/Boa_Pipe.thy ===== *)
theory Boa_Pipe
  imports Boa_Read
begin

text \<open>
  \<^verbatim>\<open>pipe.c\<close> and \<^verbatim>\<open>cgi_header.c\<close>: the output of a program, or a large file, is read into the buffer of the
  request and sent from there; the headers of a program are completed by the server.

  The pointers \<open>header_line\<close> and \<open>header_end\<close> are offsets in the buffer here; the value \<open>None\<close> stands for states in
  which they are not, and for the two cases of \<open>process_cgi_header\<close> that leave the buffer or overwrite their own source.
\<close>

subsection \<open>Headers of a program\<close>

definition end_of_headers :: "cstring \<Rightarrow> cstring option" where
  "end_of_headers buf = (case strstr [LF, CR, LF] buf of Some c \<Rightarrow> Some c | None \<Rightarrow> strstr [LF, LF] buf)"

definition strip_cr :: "cstring \<Rightarrow> cstring" where
  "strip_cr s = rev (dropWhile (\<lambda>c. c = CR) (rev s))"

text \<open>
  A \<open>Location\<close> header, at offset \<open>a\<close> of the buffer. The server's answer quotes the URL and the other headers from the
  buffer it is written to, so it must end before them: \<open>moved_end\<close> is where it ends.
\<close>

definition moved_end :: "cstring \<Rightarrow> cstring \<Rightarrow> conf \<Rightarrow> request \<Rightarrow> nat" where
  "moved_end url hdr cfg r = buffer_end (send_r_moved_temp url hdr cfg (r\<lparr>sock_out := [W_err EAGAIN]\<rparr>))"

definition cgi_location :: "conf \<Rightarrow> nat \<Rightarrow> nat \<Rightarrow> cstring \<Rightarrow> request \<Rightarrow> request option" where
  "cgi_location cfg a e buf r =
    (if char_at buf 10 = CHR ''/'' then Some (send_r_bad_request cfg r)
     else
       (let url = strip_cr (before LF (drop 10 buf));
            c2 = a + 10 + length url;
            mem = (buffer r)[c2 := NUL];
            rest = dropWhile (\<lambda>c. c = LF \<or> c = CR) (drop (c2 + 1) (take e mem));
            hdr = (if rest = [] then [] else cstr (drop (e - length rest) mem));
            r1 = r\<lparr>buffer := mem\<rparr>
        in if moved_end url hdr cfg r1 \<le> a + 10 then Some (send_r_moved_temp url hdr cfg r1) else None))"

text \<open>Neither status nor location: the headers of the server go first, then the data is moved behind them.\<close>

definition cgi_move :: "conf \<Rightarrow> nat \<Rightarrow> nat \<Rightarrow> nat \<Rightarrow> request \<Rightarrow> int \<times> request" where
  "cgi_move cfg a e c r0 =
    (let r = send_r_request_ok cfg r0;
         dest = buffer_end r;
         head = (method r = M_HEAD);
         e1 = (if head then (if buffer r ! (c + 1) = CR then c + 2 else c + 1) else e);
         r1 = (if head then r\<lparr>header_end := In_buffer e1, cgi_status := CGI_DONE\<rparr> else r);
         howmuch = e1 - a
     in if dest + howmuch > BUFFER_SIZE then (0, send_r_error cfg (r1\<lparr>buffer_start := 0, buffer_end := 0\<rparr>))
        else
          (let r2 = r1\<lparr>buffer := mem_put dest (take howmuch (drop a (buffer r1))) (buffer r1), buffer_end := dest + howmuch,
                 header_line := In_buffer (dest + howmuch), header_end := In_buffer (dest + howmuch)\<rparr>
           in (if head then 0 else 1, snd (req_flush r2))))"

definition leave_parse :: "request \<Rightarrow> request" where
  "leave_parse r = (if cgi_status r \<noteq> CGI_DONE then r\<lparr>cgi_status := CGI_BUFFER\<rparr> else r)"

definition process_cgi_header :: "conf \<Rightarrow> request \<Rightarrow> (int \<times> request) option" where
  "process_cgi_header cfg r0 =
    (let r = leave_parse r0 in
     case (header_line r, header_end r) of
       (In_buffer a, In_buffer e) \<Rightarrow>
         (let buf = cstr (drop a (buffer r)) in
          case end_of_headers buf of
            None \<Rightarrow> Some (0, send_r_bad_gateway cfg r)
          | Some t \<Rightarrow>
             (let c = a + (length buf - length t) in
              if simple r then Some (1, r\<lparr>header_line := In_buffer (if char_at t 1 = CR then c + 2 else c + 1)\<rparr>)
              else if strncaseeq 8 buf ''Status: '' then
                (if a = 0 then None
                 else Some (1, r\<lparr>header_line := In_buffer (a - 1), buffer := mem_put (a - 1) ''HTTP/1.0 '' (buffer r)\<rparr>))
              else if strncaseeq 10 buf ''Location: '' then
                map_option (\<lambda>r1. (1, r1\<lparr>status := DONE\<rparr>)) (cgi_location cfg a e buf r)
              else Some (cgi_move cfg a e c r)))
     | _ \<Rightarrow> None)"

subsection \<open>The relay\<close>

definition read_from_pipe :: "conf \<Rightarrow> rd_result \<Rightarrow> request \<Rightarrow> (int \<times> request) option" where
  "read_from_pipe cfg rd r =
    (case header_end r of
       In_buffer e \<Rightarrow>
         (let bytes_to_read = BUFFER_SIZE - e;
              term = (\<lambda>r. r\<lparr>buffer := (buffer r)[e := NUL]\<rparr>)
          in if bytes_to_read = 0 then
               (if cgi_status r = CGI_PARSE then process_cgi_header cfg (term (r\<lparr>cgi_status := CGI_BUFFER\<rparr>))
                else Some (1, r\<lparr>status := PIPE_WRITE\<rparr>))
             else (case rd of
                 R_err err \<Rightarrow> Some (if err = EINTR then (1, r) else if would_block err then (- 1, r) else (0, r\<lparr>status := DEAD\<rparr>))
               | R_bytes bs \<Rightarrow>
                   (let got = take bytes_to_read bs in
                    if got = [] then
                      (let r1 = r\<lparr>status := PIPE_WRITE\<rparr> in
                       if cgi_status r1 = CGI_PARSE then process_cgi_header cfg (term (r1\<lparr>cgi_status := CGI_DONE\<rparr>))
                       else Some (1, r1\<lparr>cgi_status := CGI_DONE\<rparr>))
                    else Some (1, r\<lparr>buffer := mem_put e got (buffer r), header_end := In_buffer (e + length got)\<rparr>))))
     | _ \<Rightarrow> None)"

definition write_from_pipe :: "conf \<Rightarrow> request \<Rightarrow> (int \<times> request) option" where
  "write_from_pipe cfg r =
    (case span r of None \<Rightarrow> None
     | Some (p, chunk) \<Rightarrow>
        if chunk = [] then
          (if cgi_status r = CGI_DONE then Some (0, r)
           else Some (1, r\<lparr>status := PIPE_READ, header_end := In_buffer 0, header_line := In_buffer 0\<rparr>))
        else (case sock_write chunk r of
            (W_err e, r1) \<Rightarrow>
              Some (if would_block e then (- 1, r1) else if e = EINTR then (1, r1)
                    else (0, send_r_error cfg (r1\<lparr>status := DEAD\<rparr>)))
          | (W_ok n, r1) \<Rightarrow> Some (1, r1\<lparr>header_line := hptr_add p n, filepos := filepos r1 + n\<rparr>)))"

subsection \<open>The relay loses nothing\<close>

text \<open>
  The runs of the two routines once the headers are done (\<open>cgi_status\<close> is not \<open>CGI_PARSE\<close>), until the request ends: \<open>rd\<close> is what was read from the
  pipe or the file.
\<close>

definition pipe_room :: "request \<Rightarrow> nat" where
  "pipe_room r = (case header_end r of In_buffer e \<Rightarrow> BUFFER_SIZE - e | _ \<Rightarrow> 0)"

inductive pipe_run :: "conf \<Rightarrow> request \<Rightarrow> request \<Rightarrow> char list \<Rightarrow> bool" for cfg r0 where
  pipe_start: "pipe_run cfg r0 r0 []"
| pipe_read: "pipe_run cfg r0 r rd \<Longrightarrow> status r = PIPE_READ \<Longrightarrow> length bs \<le> pipe_room r \<Longrightarrow>
    read_from_pipe cfg (R_bytes bs) r = Some (n, r') \<Longrightarrow> n \<noteq> 0 \<Longrightarrow> pipe_run cfg r0 r' (rd @ bs)"
| pipe_write: "pipe_run cfg r0 r rd \<Longrightarrow> status r = PIPE_WRITE \<Longrightarrow>
    write_from_pipe cfg r = Some (n, r') \<Longrightarrow> n \<noteq> 0 \<Longrightarrow> pipe_run cfg r0 r' rd"

definition pipe_ok :: "request \<Rightarrow> bool" where
  "pipe_ok r \<longleftrightarrow> length (buffer r) = BUFFER_SIZE + 1 \<and> cgi_status r \<noteq> CGI_PARSE \<and> status r \<in> {PIPE_READ, PIPE_WRITE} \<and>
     (\<exists>a e. header_line r = In_buffer a \<and> header_end r = In_buffer e \<and> a \<le> e \<and> e \<le> BUFFER_SIZE)"

text \<open>What the client has got, followed by what is in the buffer.\<close>

definition relayed :: "request \<Rightarrow> char list" where
  "relayed r = sock_sent r @ (case span r of Some (_, chunk) \<Rightarrow> chunk | None \<Rightarrow> [])"

lemma pipe_ok_span:
  assumes "pipe_ok r"
  obtains a e where "header_line r = In_buffer a" "header_end r = In_buffer e" "a \<le> e" "e \<le> BUFFER_SIZE"
    "span r = Some (In_buffer a, drop a (take e (buffer r)))" "length (buffer r) = BUFFER_SIZE + 1"
  using assms by (auto simp: pipe_ok_def span_def)

lemma read_from_pipe_ok:
  assumes ok: "pipe_ok r" and "status r = PIPE_READ" "length bs \<le> pipe_room r"
    and run: "read_from_pipe cfg (R_bytes bs) r = Some (n, r')"
  shows "pipe_ok r' \<and> relayed r' = relayed r @ bs \<and> n = 1"
proof -
  obtain a e where p: "header_line r = In_buffer a" "header_end r = In_buffer e" "a \<le> e" "e \<le> BUFFER_SIZE"
    "span r = Some (In_buffer a, drop a (take e (buffer r)))" "length (buffer r) = BUFFER_SIZE + 1"
    by (rule pipe_ok_span[OF ok])
  have room: "length bs \<le> BUFFER_SIZE - e" using assms(3) p by (simp add: pipe_room_def)
  have parse: "cgi_status r \<noteq> CGI_PARSE" using ok by (simp add: pipe_ok_def)
  have take: "take (BUFFER_SIZE - e) bs = bs" using room by simp
  have eq: "read_from_pipe cfg (R_bytes bs) r =
      (if BUFFER_SIZE - e = 0 then Some (1, r\<lparr>status := PIPE_WRITE\<rparr>)
       else if bs = [] then Some (1, r\<lparr>status := PIPE_WRITE, cgi_status := CGI_DONE\<rparr>)
       else Some (1, r\<lparr>buffer := mem_put e bs (buffer r), header_end := In_buffer (e + length bs)\<rparr>))"
    unfolding read_from_pipe_def p(2) hptr.case Let_def rd_result.case take using parse by simp
  show ?thesis
  proof (cases "BUFFER_SIZE - e = 0")
    case True
    then have "n = 1" "r' = r\<lparr>status := PIPE_WRITE\<rparr>" "bs = []" using run[unfolded eq] room by simp_all
    then show ?thesis using ok p(1,2) by (simp add: pipe_ok_def relayed_def span_def)
  next
    case False
    show ?thesis
    proof (cases "bs = []")
      case True
      then have "n = 1" "r' = r\<lparr>status := PIPE_WRITE, cgi_status := CGI_DONE\<rparr>" using run[unfolded eq] False by simp_all
      then show ?thesis using ok True p(1,2) by (simp add: pipe_ok_def relayed_def span_def)
    next
      case ne: False
      then have "n = 1" "r' = r\<lparr>buffer := mem_put e bs (buffer r), header_end := In_buffer (e + length bs)\<rparr>"
        using run[unfolded eq] False by simp_all
      moreover have "drop a (take (e + length bs) (mem_put e bs (buffer r))) = drop a (take e (buffer r)) @ bs"
        using p by simp
      moreover have "e + length bs \<le> BUFFER_SIZE" using room p(4) by linarith
      ultimately show ?thesis using ok p by (simp add: pipe_ok_def relayed_def span_def)
    qed
  qed
qed

lemma take_drop_add: "take k (drop a xs) @ drop (a + k) xs = drop a xs"
  by (metis append_take_drop_id drop_drop add.commute)

lemma write_from_pipe_ok:
  assumes ok: "pipe_ok r" and "status r = PIPE_WRITE" and run: "write_from_pipe cfg r = Some (n, r')" "n \<noteq> 0"
  shows "pipe_ok r' \<and> relayed r' = relayed r"
proof -
  obtain a e where p: "header_line r = In_buffer a" "header_end r = In_buffer e" "a \<le> e" "e \<le> BUFFER_SIZE"
    "span r = Some (In_buffer a, drop a (take e (buffer r)))" "length (buffer r) = BUFFER_SIZE + 1"
    by (rule pipe_ok_span[OF ok])
  let ?chunk = "drop a (take e (buffer r))"
  show ?thesis
  proof (cases "?chunk = []")
    case True
    then have "r' = r\<lparr>status := PIPE_READ, header_end := In_buffer 0, header_line := In_buffer 0\<rparr>"
      using run p by (auto simp: write_from_pipe_def split: if_splits)
    then show ?thesis using True ok p by (auto simp: pipe_ok_def relayed_def span_def)
  next
    case False
    then show ?thesis using run p ok assms(2)
      by (cases "sock_out r") (auto simp: write_from_pipe_def sock_write_def Let_def pipe_ok_def relayed_def span_def take_drop_add
          split: wr_result.splits if_splits)
  qed
qed

lemma send_r_error_dead:
  assumes "status r = DEAD"
  shows "status (send_r_error cfg r) = DEAD"
proof -
  have d: "status (emit ps q) = DEAD" if "status q = DEAD" for ps q using emit_status[of ps q] that by auto
  then have "status (snd (req_flush (emit ps q))) = DEAD" if "status q = DEAD" for ps q
    using that by (simp add: req_flush_dead)
  then show ?thesis using assms by (simp add: send_r_error_def error_page_def SQUASH_KA_def Let_def)
qed

lemma pipe_run_ok:
  assumes "pipe_run cfg r0 r rd" "pipe_ok r0"
  shows "pipe_ok r \<and> relayed r = relayed r0 @ rd"
  using assms by (induction rule: pipe_run.induct) (auto dest: read_from_pipe_ok write_from_pipe_ok)

lemma pipe_ok_safe:
  assumes "pipe_ok r"
  shows "write_from_pipe cfg r \<noteq> None" "status r = PIPE_READ \<Longrightarrow> read_from_pipe cfg rd r \<noteq> None"
  using assms by (auto simp: pipe_ok_def span_def write_from_pipe_def read_from_pipe_def Let_def
      split: wr_result.splits rd_result.splits prod.splits)

text \<open>
  C13: The relay from a program or a file to the client. Whatever the sizes of the reads and writes, the bytes sent to the client
  followed by those in the buffer are the bytes that were there at the start followed by all that was read, in order; the
  buffer is never overrun; and when the relay ends normally, everything has been sent.
\<close>

theorem pipe_relay_lossless:
  assumes "pipe_ok r0" "pipe_run cfg r0 r rd"
  shows "relayed r = relayed r0 @ rd \<and> length (buffer r) = BUFFER_SIZE + 1 \<and> write_from_pipe cfg r \<noteq> None \<and>
     (status r = PIPE_READ \<longrightarrow> read_from_pipe cfg rdr r \<noteq> None) \<and>
     (status r = PIPE_WRITE \<and> write_from_pipe cfg r = Some (0, r') \<and> status r' \<noteq> DEAD \<longrightarrow> sock_sent r' = relayed r0 @ rd)"
proof -
  have ok: "pipe_ok r" and rel: "relayed r = relayed r0 @ rd" using pipe_run_ok[OF assms(2,1)] by simp_all
  have "status r = PIPE_WRITE \<and> write_from_pipe cfg r = Some (0, r') \<and> status r' \<noteq> DEAD \<longrightarrow> sock_sent r' = relayed r"
    using ok by (cases "sock_out r")
      (auto simp: pipe_ok_def relayed_def span_def write_from_pipe_def sock_write_def Let_def send_r_error_dead
        split: wr_result.splits if_splits)
  then show ?thesis using ok rel pipe_ok_safe[OF ok] by (simp add: pipe_ok_def)
qed

definition pipe_sample :: request where
  "pipe_sample = fresh\<lparr>status := PIPE_READ, cgi_status := CGI_BUFFER, header_line := In_buffer 0, header_end := In_buffer 0\<rparr>"

theorem pipe_relay_lossless_witness:
  "\<exists>r. pipe_run sample_conf pipe_sample r ''abc'' \<and> relayed r = ''abc''"
proof -
  have ok: "pipe_ok pipe_sample" "relayed pipe_sample = []" "length ''abc'' \<le> pipe_room pipe_sample" "status pipe_sample = PIPE_READ"
    by (simp_all add: pipe_ok_def pipe_sample_def fresh_def zero_request_def relayed_def span_def pipe_room_def BUFFER_SIZE_def)
  obtain n r where r: "read_from_pipe sample_conf (R_bytes ''abc'') pipe_sample = Some (n, r)"
    using pipe_ok_safe(2)[OF ok(1,4), of sample_conf "R_bytes ''abc''"] by auto
  moreover from read_from_pipe_ok[OF ok(1,4,3) r] have "n \<noteq> 0" by simp
  ultimately have "pipe_run sample_conf pipe_sample r ([] @ ''abc'')"
    using pipe_run.pipe_read[OF pipe_run.pipe_start ok(4,3)] by blast
  then show ?thesis using pipe_relay_lossless[OF ok(1), of sample_conf r "''abc''"] ok(2) by auto
qed

subsection \<open>The answer of a program\<close>

definition cgi_ready :: "nat \<Rightarrow> nat \<Rightarrow> request \<Rightarrow> bool" where
  "cgi_ready a e r \<longleftrightarrow> buf_ok r \<and> header_line r = In_buffer a \<and> header_end r = In_buffer e \<and> a \<le> e \<and> e \<le> BUFFER_SIZE \<and>
     buffer_end r \<le> a \<and> \<not> simple r \<and> status r \<noteq> DEAD"

text \<open>The writers change the buffer from its end on only, up to their own end.\<close>

lemma append_to_buffer_mem:
  "buffer_end r + length p \<le> n \<Longrightarrow> buffer_end r \<le> length (buffer r) \<Longrightarrow> drop n (buffer (append_to_buffer p r)) = drop n (buffer r)"
  by (simp add: append_to_buffer_def)

lemma put_piece_mem:
  assumes "buf_ok r" "buffer_end (put_piece m r) \<le> n"
  shows "drop n (buffer (put_piece m r)) = drop n (buffer r) \<and> buffer_end r \<le> buffer_end (put_piece m r)"
proof -
  obtain p where p: "put_piece m r = append_to_buffer p r \<or> put_piece m r = (append_to_buffer p r)\<lparr>status := DEAD\<rparr>"
    using w_piece.wr_shape[of m r] by auto
  then have "buffer_end (put_piece m r) = buffer_end r + length p" "buffer (put_piece m r) = buffer (append_to_buffer p r)"
    by (auto simp: append_to_buffer_def)
  then show ?thesis using assms append_to_buffer_mem[of r p n] by (simp add: buf_ok_def)
qed

lemma emit_mem:
  assumes "buf_ok r" "buffer_end (emit ps r) \<le> n"
  shows "drop n (buffer (emit ps r)) = drop n (buffer r) \<and> buffer_end r \<le> buffer_end (emit ps r)"
  using assms
proof (induction ps arbitrary: r)
  case (Cons m ps)
  have e: "emit (m # ps) r = emit ps (put_piece m r)" by (simp add: emit_def)
  have ok: "buf_ok (put_piece m r)" using w_piece.wr_ok[OF Cons.prems(1)] .
  from Cons.IH[OF ok] Cons.prems(2) e have i: "drop n (buffer (emit ps (put_piece m r))) = drop n (buffer (put_piece m r))"
    "buffer_end (put_piece m r) \<le> buffer_end (emit ps (put_piece m r))" by simp_all
  then have "buffer_end (put_piece m r) \<le> n" using Cons.prems(2) e by simp
  from put_piece_mem[OF Cons.prems(1) this] i e show ?case by simp
qed (simp add: emit_def)

lemma req_flush_or_dead:
  assumes "buf_ok r"
  shows "outstream (snd (req_flush r)) = outstream r \<or> status (snd (req_flush r)) = DEAD"
  using req_flush_conserves[OF assms] req_flush_error[OF assms] by blast

lemma cgi_ready_leave_parse: "cgi_ready a e (leave_parse r) = cgi_ready a e r"
  by (simp add: leave_parse_def cgi_ready_def buf_ok_def)

lemma take_mem_put_append:
  "d + length xs \<le> length b \<Longrightarrow> drop s (take (d + length xs) (mem_put d xs b)) = drop s (take d b @ xs)"
  by simp

text \<open>The data is moved behind the headers of the server, unharmed by them.\<close>

lemma cgi_move_outstream:
  assumes r: "cgi_ready a e r" and fit: "buffer_end (send_r_request_ok cfg r) \<le> a" "status (send_r_request_ok cfg r) \<noteq> DEAD"
    and c: "a \<le> c" "c + 2 \<le> e"
  defines "e1 \<equiv> (if method r = M_HEAD then (if buffer r ! (c + 1) = CR then c + 2 else c + 1) else e)"
  shows "\<exists>r'. cgi_move cfg a e c r = (if method r = M_HEAD then 0 else 1, r') \<and>
     (outstream r' = outstream (send_r_request_ok cfg r) @ drop a (take e1 (buffer r)) \<or> status r' = DEAD)"
proof -
  let ?q = "send_r_request_ok cfg r"
  obtain ps where q: "?q = emit ps (r\<lparr>response_status := R_REQUEST_OK\<rparr>)"
    using r by (auto simp: send_r_request_ok_def cgi_ready_def Let_def)
  have ok0: "buf_ok (r\<lparr>response_status := R_REQUEST_OK\<rparr>)" using r by (simp add: cgi_ready_def buf_ok_def)
  have ok: "buf_ok ?q" using emit_ok[OF ok0] q by simp
  have mem: "drop a (buffer ?q) = drop a (buffer r)" using emit_mem[OF ok0, of ps a] fit(1) q by simp
  have len: "length (buffer r) = BUFFER_SIZE + 1" "length (buffer ?q) = BUFFER_SIZE + 1" using r ok by (auto simp: cgi_ready_def buf_ok_def)
  have m: "method ?q = method r" using q emit_frame[of "r\<lparr>response_status := R_REQUEST_OK\<rparr>" ps] by (auto simp: same_but_buffer_def)
  have bounds: "e1 \<le> e" "e \<le> BUFFER_SIZE" "a \<le> e1" using r c by (auto simp: cgi_ready_def e1_def)
  have slice: "take (e1 - a) (drop a (buffer ?q)) = drop a (take e1 (buffer r))"
    using mem by (simp add: drop_take)
  have "buffer ?q ! (c + 1) = drop a (buffer ?q) ! (c + 1 - a)" using c len bounds by (simp add: nth_drop)
  also have "\<dots> = buffer r ! (c + 1)" using c len bounds mem by (simp add: nth_drop)
  finally have cr: "buffer ?q ! (c + 1) = buffer r ! (c + 1)" .
  have n: "e1 - a = length (drop a (take e1 (buffer r)))" using bounds len by simp
  let ?d = "drop a (take e1 (buffer r))"
  define z where "z = (if method r = M_HEAD then ?q\<lparr>header_end := In_buffer e1, cgi_status := CGI_DONE\<rparr> else ?q)"
  let ?m = "(append_to_buffer ?d z)\<lparr>header_line := In_buffer (buffer_end ?q + (e1 - a)), header_end := In_buffer (buffer_end ?q + (e1 - a))\<rparr>"
  have z: "buffer z = buffer ?q" "buffer_end z = buffer_end ?q" "buf_ok z" "outstream z = outstream ?q"
    using ok by (simp_all add: z_def buf_ok_def outstream_def pending_def)
  have room: "buffer_end ?q + (e1 - a) \<le> BUFFER_SIZE" using bounds fit(1) by linarith
  then have "cgi_move cfg a e c r = (if method r = M_HEAD then 0 else 1, snd (req_flush ?m))"
    using slice z(1,2) n unfolding cgi_move_def Let_def m cr e1_def[symmetric] z_def[symmetric]
    by (simp add: append_to_buffer_def)
  moreover have "buf_ok ?m" "outstream ?m = outstream ?q @ ?d"
    using append_to_buffer_ok[OF z(3), of ?d] outstream_append[OF z(3), of ?d] z room n
    by (simp_all add: buf_ok_def outstream_def pending_def)
  ultimately show ?thesis using req_flush_or_dead[of ?m] by auto
qed

lemma end_of_headers_Some:
  assumes "end_of_headers buf = Some t"
  obtains u w where "buf = u @ t" "t = LF # CR # LF # w" | u w where "buf = u @ t" "t = LF # LF # w"
  using assms strstr_Some[of "[LF, CR, LF]" buf] strstr_Some[of "[LF, LF]" buf] that
  by (auto simp: end_of_headers_def prefix_def split: option.splits)

lemma length_cstr_nth: "n < length xs \<Longrightarrow> xs ! n = NUL \<Longrightarrow> length (cstr xs) \<le> n"
  by (induction xs arbitrary: n) (auto simp: nth_Cons split: nat.splits)

lemma length_cstr_at: "a \<le> e \<Longrightarrow> e < length b \<Longrightarrow> b ! e = NUL \<Longrightarrow> length (cstr (drop a b)) \<le> e - a"
  by (rule length_cstr_nth) (simp_all add: nth_drop)

text \<open>The ordinary answer: neither \<open>Status\<close> nor \<open>Location\<close>, the headers are complete, and those of the server fit below them.\<close>

definition plain_reply :: "conf \<Rightarrow> nat \<Rightarrow> nat \<Rightarrow> cstring \<Rightarrow> cstring \<Rightarrow> request \<Rightarrow> bool" where
  "plain_reply cfg a e u t r \<longleftrightarrow> cgi_ready a e r \<and> buffer r ! e = NUL \<and> cstr (drop a (buffer r)) = u @ t \<and>
     end_of_headers (u @ t) = Some t \<and> \<not> strncaseeq 8 (u @ t) ''Status: '' \<and> \<not> strncaseeq 10 (u @ t) ''Location: '' \<and>
     buffer_end (send_r_request_ok cfg (leave_parse r)) \<le> a \<and> status (send_r_request_ok cfg (leave_parse r)) \<noteq> DEAD"

lemma plain_reply_move:
  assumes "plain_reply cfg a e u t r"
  shows "process_cgi_header cfg r = Some (cgi_move cfg a e (a + length u) (leave_parse r))" "a + length u + 2 \<le> e"
proof -
  note p = assms[unfolded plain_reply_def]
  have q: "cgi_ready a e (leave_parse r)" using p by (simp add: cgi_ready_leave_parse)
  have b: "buffer (leave_parse r) = buffer r" by (simp add: leave_parse_def)
  then show "process_cgi_header cfg r = Some (cgi_move cfg a e (a + length u) (leave_parse r))"
    using p q by (simp add: process_cgi_header_def Let_def cgi_ready_def)
  have "length (u @ t) \<le> e - a" using length_cstr_at[of a e "buffer r"] p by (simp add: cgi_ready_def buf_ok_def)
  moreover have "2 \<le> length t" using p by (auto elim: end_of_headers_Some)
  moreover have "a \<le> e" using p by (simp add: cgi_ready_def)
  ultimately show "a + length u + 2 \<le> e" by simp
qed

text \<open>
  C27: The answer of a program. When it has no \<open>Status\<close> or \<open>Location\<close> header, the client gets the status line and headers of the server
  followed by everything the program has written so far, headers and body, unless the connection breaks.
\<close>

theorem cgi_reply_complete:
  assumes "plain_reply cfg a e u t r" "method r \<noteq> M_HEAD"
  shows "\<exists>r'. process_cgi_header cfg r = Some (1, r') \<and>
    (outstream r' = outstream (send_r_request_ok cfg (leave_parse r)) @ drop a (take e (buffer r)) \<or> status r' = DEAD)"
proof -
  note p = assms(1)[unfolded plain_reply_def]
  have f: "method (leave_parse r) = method r" "buffer (leave_parse r) = buffer r" by (simp_all add: leave_parse_def)
  have "cgi_ready a e (leave_parse r)" using p by (simp add: cgi_ready_leave_parse)
  from cgi_move_outstream[OF this, of cfg "a + length u"] show ?thesis
    using p plain_reply_move[OF assms(1)] assms(2) f by auto
qed

text \<open>
  The answer to a HEAD request is cut one character short: behind the last header the client gets a line feed, or a line feed and a
  carriage return, but never the empty line that ends the headers.
\<close>

theorem cgi_head_unterminated:
  assumes "plain_reply cfg a e u t r" "method r = M_HEAD"
  shows "\<exists>r'. process_cgi_header cfg r = Some (0, r') \<and>
    (outstream r' = outstream (send_r_request_ok cfg (leave_parse r)) @ u @ (if char_at t 1 = CR then [LF, CR] else [LF]) \<or> status r' = DEAD)"
proof -
  note p = assms(1)[unfolded plain_reply_def]
  have f: "method (leave_parse r) = method r" "buffer (leave_parse r) = buffer r" by (simp_all add: leave_parse_def)
  have q: "cgi_ready a e (leave_parse r)" using p by (simp add: cgi_ready_leave_parse)
  have end_t: "end_of_headers (u @ t) = Some t" using p by simp
  obtain rest where d: "drop a (buffer r) = u @ t @ rest" using p by (metis append.assoc cstr_def takeWhile_dropWhile_id)
  have "a \<le> length (buffer r)" using p by (simp add: cgi_ready_def buf_ok_def)
  from nth_drop[OF this, of "length u + 1"] have nth: "buffer r ! (a + length u + 1) = char_at t 1"
    using end_t d by (auto simp: char_at_def nth_append add.assoc elim!: end_of_headers_Some)
  have "drop a (take (a + length u + k) (buffer r)) = take (length u + k) (drop a (buffer r))" for k
    by (simp add: drop_take)
  then have sl: "drop a (take (a + length u + k) (buffer r)) = u @ take k t" if "k \<le> length t" for k using d that by simp
  have "drop a (take (if char_at t 1 = CR then a + length u + 2 else a + length u + 1) (buffer r)) =
      u @ (if char_at t 1 = CR then [LF, CR] else [LF])"
    using end_t sl[of 1] sl[of 2] by (auto simp: char_at_def elim!: end_of_headers_Some)
  then show ?thesis using cgi_move_outstream[OF q, of cfg "a + length u"] p plain_reply_move[OF assms(1)] assms(2) f nth by auto
qed

definition cgi_out :: "char list" where
  "cgi_out = ''X: y'' @ [LF, LF] @ ''hi''"

definition cgi_sample :: "http_method \<Rightarrow> request" where
  "cgi_sample m = fresh\<lparr>method := m, is_cgi := CGI, cgi_status := CGI_DONE, status := PIPE_WRITE, header_line := In_buffer 4096,
     header_end := In_buffer 4104, buffer := replicate 4096 NUL @ cgi_out @ replicate 4089 NUL\<rparr>"

lemma cgi_sample_plain: "plain_reply sample_conf 4096 4104 ''X: y'' ([LF, LF] @ ''hi'') (cgi_sample m)"
proof -
  let ?r = "cgi_sample m"
  have date: "http_date sample_conf 0 = ''Tue, 09 Oct 2001 18:26:07 GMT''" by code_simp
  have ready: "cgi_ready 4096 4104 ?r"
    by (simp add: cgi_ready_def buf_ok_def cgi_sample_def cgi_out_def fresh_def zero_request_def BUFFER_SIZE_def)
  have mem: "cstr (drop 4096 (buffer ?r)) = ''X: y'' @ [LF, LF] @ ''hi''" "buffer ?r ! 4104 = NUL"
    by (simp_all add: cgi_sample_def cgi_out_def nth_append cstr_def)
  let ?q = "?r\<lparr>response_status := 200\<rparr>"
  let ?ps = "[Txt (''HTTP/1.1 200 OK'' @ CRLF)] @ print_http_headers sample_conf ?q"
  have len: "length (concat (map piece_text ?ps)) < 4000"
    by (simp add: print_http_headers_def print_ka_phrase_def date cgi_sample_def fresh_def zero_request_def)
  have ok: "buf_ok ?q" "status ?q \<noteq> DEAD" "buffer_end ?q = 0"
    using ready by (simp_all add: cgi_ready_def buf_ok_def cgi_sample_def fresh_def zero_request_def)
  have "emit ?ps ?q = append_to_buffer (concat (map piece_text ?ps)) ?q"
    by (rule emit_room[OF ok(2,1)]) (use len ok(3) in \<open>simp add: BUFFER_SIZE_def\<close>)
  moreover have "send_r_request_ok sample_conf (leave_parse ?r) = emit ?ps ?q"
    by (simp add: send_r_request_ok_def leave_parse_def cgi_sample_def fresh_def zero_request_def Let_def)
  ultimately have "buffer_end (send_r_request_ok sample_conf (leave_parse ?r)) \<le> 4096"
    "status (send_r_request_ok sample_conf (leave_parse ?r)) \<noteq> DEAD" using len ok by simp_all
  moreover have "end_of_headers (''X: y'' @ [LF, LF] @ ''hi'') = Some ([LF, LF] @ ''hi'')"
    "\<not> strncaseeq 8 (''X: y'' @ [LF, LF] @ ''hi'') ''Status: ''" "\<not> strncaseeq 10 (''X: y'' @ [LF, LF] @ ''hi'') ''Location: ''"
    by code_simp+
  ultimately show ?thesis using ready mem unfolding plain_reply_def by blast
qed

theorem cgi_reply_complete_witness:
  "\<exists>r'. process_cgi_header sample_conf (cgi_sample M_GET) = Some (1, r')"
  using cgi_reply_complete[OF cgi_sample_plain, of M_GET] by (auto simp: cgi_sample_def)

theorem cgi_head_unterminated_witness:
  "\<exists>r'. process_cgi_header sample_conf (cgi_sample M_HEAD) = Some (0, r')"
  using cgi_head_unterminated[OF cgi_sample_plain, of M_HEAD] by (auto simp: cgi_sample_def)

end
