(* ===== verification/Boa_Server.thy ===== *)
theory Boa_Server
  imports Boa_Pipe
begin

text \<open>
  \<^verbatim>\<open>request.c\<close> and \<^verbatim>\<open>select.c\<close>: the life of a request. Requests are allocated, accepted, put on the ready list, processed one
  step at a time, blocked until a descriptor is ready, and freed; a kept-alive connection goes on with a new request.

  The state holds the requests by address, the three lists, the counters, and the actions on the outside, the last one first. What comes
  from outside in one round of the loop (a new connection, the data read, the outcome of a write to the body file, the clock) is a
  record \<open>io\<close>. The handling of audio and video streams and of the RTSP thread are arguments.
\<close>

subsection \<open>The state of the server\<close>

datatype av_format = AV_MJPEG | AV_MPEG4 | AV_H264

datatype action = Close nat | Drain nat | Unlock_video av_format nat int | Unlock_avc int | Unlock_audio int
  | Set_mac | Reboot | Restart

record 'w server =
  rq :: "nat \<Rightarrow> request"
  qu :: queues
  request_count :: nat
  req_malloc :: "nat option list"
  inner :: "'w server_state"
  total_connections :: int
  stat_requests :: nat
  stat_errors :: nat
  pending_requests :: bool
  tunnel :: "nat list"
  acts :: "action list"

record conn_info =
  c_fd :: nat
  c_sockname :: "cstring option"
  c_ip :: nat
  c_addr :: cstring
  c_port :: int
  c_out :: "wr_result list"

datatype accept_result = A_again | A_error | A_conn conn_info

record io =
  io_accept :: accept_result
  io_read :: rd_result
  io_write :: wr_result
  io_stream :: "request \<Rightarrow> int \<times> request"
  io_rtsp :: bool
  io_second :: int

definition MAX_REQUEST :: nat where "MAX_REQUEST = 32"
definition FD_SETSIZE :: nat where "FD_SETSIZE = 1024"
definition REQUEST_TIMEOUT :: int where "REQUEST_TIMEOUT = 60"
definition STREAM_TIMEOUT_SEC :: int where "STREAM_TIMEOUT_SEC = 20"

definition set_rq :: "nat \<Rightarrow> request \<Rightarrow> 'w server \<Rightarrow> 'w server" where
  "set_rq q r s = s\<lparr>rq := (rq s)(q := r)\<rparr>"

definition act :: "action \<Rightarrow> 'w server \<Rightarrow> 'w server" where
  "act a s = s\<lparr>acts := a # acts s\<rparr>"

text \<open>One \<open>dequeue\<close> or \<open>enqueue\<close> on a list of requests.\<close>

definition take_request :: "which_list \<Rightarrow> nat \<Rightarrow> queues \<Rightarrow> queues" where
  "take_request l q s = (case dequeue (list_head l s) q (lnk s) of (h, k) \<Rightarrow> set_head l h (s\<lparr>lnk := k\<rparr>))"

definition put_request :: "which_list \<Rightarrow> nat \<Rightarrow> queues \<Rightarrow> queues" where
  "put_request l q s = (case enqueue (list_head l s) q (lnk s) of (h, k) \<Rightarrow> set_head l h (s\<lparr>lnk := k\<rparr>))"

subsection \<open>New requests\<close>

definition cleared :: "request \<Rightarrow> request" where
  "cleared r = (zero_request ((buffer r)[0 := NUL]) (request_uri r))\<lparr>busy_audio := True, busy_video := True\<rparr>"

definition new_request :: "'w server \<Rightarrow> nat option \<times> 'w server" where
  "new_request s =
    (let init = (\<lambda>a s. (Some a, set_rq a (cleared (rq s a)) s)) in
     case request_free (qu s) of
       Some a \<Rightarrow> init a (s\<lparr>qu := take_request Free a (qu s)\<rparr>)
     | None \<Rightarrow>
        if request_count s \<ge> MAX_REQUEST then (None, s)
        else (case req_malloc s of
            [] \<Rightarrow> (None, s)
          | None # ms \<Rightarrow> (None, s\<lparr>req_malloc := ms\<rparr>)
          | Some a # ms \<Rightarrow> init a (s\<lparr>req_malloc := ms, request_count := request_count s + 1\<rparr>)))"

definition accepted :: "conf \<Rightarrow> conn_info \<Rightarrow> cstring \<Rightarrow> request \<Rightarrow> request" where
  "accepted cfg c name r =
     r\<lparr>fd := c_fd c, status := READ_HEADER, header_line := In_stream 0, time_last := current_time cfg, kacount := ka_max cfg,
       local_ip_addr := name, remote_ip := c_ip c, remote_ip_addr := c_addr c, remote_port := c_port c, sock_out := c_out c\<rparr>"

definition enter_request :: "conf \<Rightarrow> conn_info \<Rightarrow> cstring \<Rightarrow> nat \<Rightarrow> 'w server \<Rightarrow> 'w server" where
  "enter_request cfg c name a s =
    (let r = accepted cfg c name (rq s a);
         limit = int (fd r) > max_connections cfg;
         r1 = (if limit then (send_r_service_unavailable cfg r)\<lparr>status := DONE\<rparr> else r)
     in (set_rq a r1 s)\<lparr>stat_requests := stat_requests s + 1, pending_requests := (\<not> limit \<and> pending_requests s),
          total_connections := total_connections s + 1, qu := put_request Ready a (qu s)\<rparr>)"

definition get_sock_request :: "conf \<Rightarrow> accept_result \<Rightarrow> 'w server \<Rightarrow> nat option \<times> 'w server" where
  "get_sock_request cfg acc s =
    (case acc of
       A_again \<Rightarrow> (None, s\<lparr>pending_requests := False\<rparr>)
     | A_error \<Rightarrow> (None, s)
     | A_conn c \<Rightarrow>
        if c_fd c \<ge> FD_SETSIZE then (None, act (Close (c_fd c)) s)
        else (case c_sockname c of
            None \<Rightarrow> (None, act (Close (c_fd c)) s)
          | Some name \<Rightarrow>
             (case new_request s of
                (None, s1) \<Rightarrow> (None, act (Close (c_fd c)) s1)
              | (Some a, s1) \<Rightarrow> (Some a, enter_request cfg c name a s1))))"

definition get_request :: "conf \<Rightarrow> accept_result \<Rightarrow> 'w server \<Rightarrow> 'w server" where
  "get_request cfg acc s = snd (get_sock_request cfg acc s)"

text \<open>\<open>get_ssl_request\<close>: \<open>ssl_new\<close> says whether \<open>SSL_new\<close> gave a session; the result of \<open>SSL_accept\<close> does not matter.\<close>

definition get_ssl_request :: "conf \<Rightarrow> accept_result \<Rightarrow> bool \<Rightarrow> 'w server \<Rightarrow> 'w server" where
  "get_ssl_request cfg acc ssl_new s =
    (case get_sock_request cfg acc s of
       (None, s1) \<Rightarrow> s1
     | (Some a, s1) \<Rightarrow> set_rq a ((rq s1 a)\<lparr>ssl := ssl_new\<rparr>) s1)"

subsection \<open>The end of a request\<close>

text \<open>
  The locks on audio and video data a request holds, by the kind of its stream; \<open>None\<close>: it is no such stream and has a
  mapped file, if anything.
\<close>

definition video_unlock :: "av_format \<Rightarrow> request \<Rightarrow> action list" where
  "video_unlock f r = (if video_lock r > 0 then [Unlock_video f (http_stream r mod 16) (video_lock r)] else [])"

definition audio_unlock :: "request \<Rightarrow> action list" where
  "audio_unlock r = (if audio_lock r > 0 then [Unlock_audio (audio_lock r)] else [])"

definition stream_unlocks :: "request \<Rightarrow> action list option" where
  "stream_unlocks r =
    (let ty = (http_stream r div 256) mod 256 in
     if ty = 1 then Some (video_unlock AV_MJPEG r)
     else if ty = 2 then Some (video_unlock AV_MJPEG r @ audio_unlock r)
     else if ty = 3 then Some (video_unlock AV_MPEG4 r @ audio_unlock r)
     else if ty = 4 then Some (video_unlock AV_H264 r @ audio_unlock r)
     else if ty = 8 then Some (video_unlock AV_MJPEG r)
     else if ty = 6 then Some (video_unlock AV_MPEG4 r @ audio_unlock r)
     else if ty = 12 then Some (video_unlock AV_H264 r @ audio_unlock r)
     else if ty = 11 then Some ((if video_lock r > 0 then [Unlock_avc (video_lock r)] else []) @ audio_unlock r)
     else if ty = 5 then Some (audio_unlock r)
     else if ty = 10 then Some (audio_unlock r)
     else None)"

text \<open>Releasing what the request holds; freeing its strings needs no counterpart here.\<close>

definition release_request :: "int \<Rightarrow> request \<Rightarrow> 'w server \<Rightarrow> 'w server" where
  "release_request second r s =
    (let st = inner s;
         unl = stream_unlocks r;
         st1 = (if unl = None then st\<lparr>mmaps := release_mmap (mmap_entry_var r) (mmaps st)\<rparr> else st);
         st2 = (case connect r of None \<Rightarrow> st1
                | Some c \<Rightarrow> st1\<lparr>auth := set_conn c (\<lambda>x. x\<lparr>counter := counter x - 1, conn_time := second\<rparr>) (auth st1)\<rparr>);
         closes = (if data_fd r \<noteq> 0 then [Close (data_fd r)] else []) @ (if post_data_fd r \<noteq> 0 then [Close (post_data_fd r)] else [])
     in s\<lparr>inner := st2, acts := rev ((case unl of None \<Rightarrow> [] | Some l \<Rightarrow> l) @ closes) @ acts s,
          stat_errors := stat_errors s + (if response_status r \<ge> 400 then 1 else 0)\<rparr>)"

text \<open>The request that continues a kept-alive connection, with the part of the stream that was not parsed.\<close>

definition continue_request :: "request \<Rightarrow> request \<Rightarrow> request" where
  "continue_request old new =
     new\<lparr>fd := fd old, status := READ_HEADER, header_line := In_stream 0, kacount := kacount old - 1, ssl := ssl old,
       time_last := time_last old, remote_ip_addr := remote_ip_addr old, local_ip_addr := local_ip_addr old,
       remote_ip := remote_ip old, remote_port := remote_port old,
       client_stream := drop (parse_pos old) (client_stream old), sock_out := sock_out old\<rparr>"

definition keeps_alive :: "request \<Rightarrow> bool" where
  "keeps_alive r \<longleftrightarrow> keepalive r = KA_ACTIVE \<and> response_status r < 500 \<and> kacount r > 0"

definition flag_actions :: "request \<Rightarrow> action list" where
  "flag_actions r = (if flag_set_mac r then [Set_mac] else []) @ (if flag_reboot r then [Reboot] else []) @
     (if flag_restart r then [Restart] else [])"

definition close_request :: "nat \<Rightarrow> request \<Rightarrow> 'w server \<Rightarrow> 'w server" where
  "close_request q r s =
    (let drain = method r = M_POST \<and> (is_cgi r = NO_CGI \<or> \<not> flag_set URI_FLAG_DIRECT_WRITE r \<or> \<not> flag_set URI_FLAG_DIRECT_READ r);
         r1 = r\<lparr>flag_set_mac := False, flag_reboot := False, flag_restart := False\<rparr>
     in (set_rq q r1 s)\<lparr>total_connections := total_connections s - 1, qu := put_request Free q (qu s),
          acts := rev ((if drain then [Drain (fd r)] else []) @ [Close (fd r)] @ flag_actions r) @ acts s\<rparr>)"

definition free_request :: "int \<Rightarrow> nat \<Rightarrow> 'w server \<Rightarrow> 'w server" where
  "free_request second q s =
    (let r = rq s q in
     if buffer_end r \<noteq> 0 \<and> status r \<noteq> DEAD then set_rq q (r\<lparr>status := DONE\<rparr>) s
     else
       (let s1 = release_request second r (s\<lparr>qu := take_request Ready q (qu s)\<rparr>) in
        if keeps_alive r then
          (case new_request s1 of
             (None, s2) \<Rightarrow> act (Close (fd r)) (s2\<lparr>qu := put_request Free q (qu s2), total_connections := total_connections s2 - 1\<rparr>)
           | (Some a, s2) \<Rightarrow>
               (let s3 = set_rq a (continue_request r (rq s2 a)) s2 in
                s3\<lparr>stat_requests := stat_requests s3 + 1,
                   qu := put_request Free q (set_read_fd (fd r) (put_request Block a (qu s3)))\<rparr>))
        else close_request q r s1))"

subsection \<open>One step of a request\<close>

text \<open>The flush that comes before anything else, and the one of a finished request.\<close>

definition flush_ret :: "bool \<Rightarrow> request \<Rightarrow> int \<times> request" where
  "flush_ret done r =
    (case req_flush r of (n, r1) \<Rightarrow>
       if n = - 2 then (0, r1\<lparr>status := DEAD\<rparr>)
       else if n > 0 \<or> (n = 0 \<and> \<not> done) then (1, r1)
       else (n, r1))"

definition step_request ::
  "'w server_env \<Rightarrow> conf \<Rightarrow> io \<Rightarrow> request \<Rightarrow> 'w server_state \<Rightarrow> (int \<times> request \<times> 'w server_state) option" where
  "step_request env cfg i r st =
    (let keep = map_option (\<lambda>(n, r1). (n, r1, st)) in
     if buffer_end r \<noteq> 0 \<and> status r \<noteq> DEAD \<and> status r \<noteq> DONE then keep (Some (flush_ret False r))
     else (case status r of
         BODY_READ \<Rightarrow> keep (read_body cfg (io_read i) r)
       | BODY_WRITE \<Rightarrow> keep (map_option (\<lambda>(n, _, r1). (n, r1)) (write_body cfg (cgis env) (io_write i) r))
       | WRITE \<Rightarrow> keep (Some (if http_stream r = 0 then process_get r else io_stream i r))
       | PIPE_READ \<Rightarrow> keep (read_from_pipe cfg (io_read i) r)
       | PIPE_WRITE \<Rightarrow> keep (write_from_pipe cfg r)
       | DONE \<Rightarrow> keep (Some (flush_ret True r))
       | DEAD \<Rightarrow> Some (0, SQUASH_KA (r\<lparr>buffer_end := 0\<rparr>), st)
       | _ \<Rightarrow> read_header env cfg (io_read i) r st))"

text \<open>What \<open>process_requests\<close> does with the result; for 2, the request may go over to the RTSP thread.\<close>

definition dispatch_result :: "conf \<Rightarrow> io \<Rightarrow> nat \<Rightarrow> int \<Rightarrow> 'w server \<Rightarrow> 'w server" where
  "dispatch_result cfg i q retval s =
    (let r = rq s q; timed = r\<lparr>time_last := current_time cfg\<rparr> in
     if retval = - 1 then s\<lparr>qu := block_request q r (qu s)\<rparr>
     else if retval = 0 then free_request (io_second i) q (set_rq q timed s)
     else if retval = 1 then set_rq q timed s
     else if retval = 2 \<and> flag_set URI_FLAG_RTSP_O_HTTP r \<and> io_rtsp i
     then s\<lparr>qu := take_request Ready q (qu s), tunnel := q # tunnel s\<rparr>
     else s)"

text \<open>
  One round of the loop: the successor of the current request, read before the request can leave the list, and the new state.
\<close>

definition process_one :: "'w server_env \<Rightarrow> conf \<Rightarrow> bool \<Rightarrow> io \<Rightarrow> nat \<Rightarrow> 'w server \<Rightarrow> (nat option \<times> 'w server) option" where
  "process_one env cfg sigterm i q s =
    (case step_request env cfg i (rq s q) (inner s) of
       None \<Rightarrow> None
     | Some (n, r1, st) \<Rightarrow>
        (let r2 = (if sigterm then SQUASH_KA r1 else r1);
             s1 = set_rq q r2 (s\<lparr>inner := st\<rparr>);
             s2 = (if pending_requests s1 then get_request cfg (io_accept i) s1 else s1);
             r3 = (rq s2 q)\<lparr>busy_audio := True, busy_video := True\<rparr>;
             retval = (if last_stream_time r3 \<noteq> 0 \<and> io_second i > last_stream_time r3 + STREAM_TIMEOUT_SEC then 0 else n)
         in Some (nxt (lnk (qu s2)) q, dispatch_result cfg i q retval (set_rq q r3 s2))))"

text \<open>The loop over the ready list, one \<open>io\<close> per round. The first component of the result is the list of requests processed.\<close>

fun process_loop :: "'w server_env \<Rightarrow> conf \<Rightarrow> bool \<Rightarrow> io list \<Rightarrow> nat option \<Rightarrow> 'w server \<Rightarrow> (nat list \<times> 'w server) option" where
  "process_loop env cfg sigterm ios None s = Some ([], s)"
| "process_loop env cfg sigterm [] (Some q) s = None"
| "process_loop env cfg sigterm (i # ios) (Some q) s =
    (case process_one env cfg sigterm i q s of
       None \<Rightarrow> None
     | Some (cur, s1) \<Rightarrow> map_option (\<lambda>(vs, s2). (q # vs, s2)) (process_loop env cfg sigterm ios cur s1))"

text \<open>While the streams are to be restarted, every request that is one is freed first.\<close>

fun free_streams :: "nat \<Rightarrow> int \<Rightarrow> nat option \<Rightarrow> 'w server \<Rightarrow> 'w server option" where
  "free_streams n second None s = Some s"
| "free_streams 0 second (Some q) s = None"
| "free_streams (Suc n) second (Some q) s =
    free_streams n second (nxt (lnk (qu s)) q) (if http_stream (rq s q) \<noteq> 0 then free_request second q s else s)"

text \<open>
  The whole of \<open>process_requests\<close>: \<open>web\<close> and \<open>tls\<close> are what \<open>accept\<close> gives on the two server sockets (\<open>None\<close>: the socket is not in use, or not
  ready), \<open>restart_streams\<close> says that \<open>av_stream_pending\<close> is 1, \<open>old_time\<close> is the second of the last expiry.
\<close>

definition process_requests ::
  "'w server_env \<Rightarrow> conf \<Rightarrow> bool \<Rightarrow> accept_result option \<Rightarrow> (accept_result \<times> bool) option \<Rightarrow> bool \<Rightarrow> nat \<Rightarrow> int \<Rightarrow> int \<Rightarrow> io list \<Rightarrow>
   'w server \<Rightarrow> (nat list \<times> int \<times> 'w server) option" where
  "process_requests env cfg sigterm web tls restart_streams fuel second old_time ios s0 =
    (let s1 = (case web of Some a \<Rightarrow> if pending_requests s0 then get_request cfg a s0 else s0 | None \<Rightarrow> s0);
         s2 = (case tls of Some (a, new) \<Rightarrow> get_ssl_request cfg a new s1 | None \<Rightarrow> s1)
     in case (if restart_streams then free_streams MAX_REQUEST second (request_ready (qu s2)) s2 else Some s2) of
          None \<Rightarrow> None
        | Some s3 \<Rightarrow>
           (case expire_connections fuel (accs env) old_time second (auth (inner s3)) of
              None \<Rightarrow> None
            | Some (t, a) \<Rightarrow>
               map_option (\<lambda>(vs, s). (vs, t, s))
                 (process_loop env cfg sigterm ios (request_ready (qu s3)) (s3\<lparr>inner := (inner s3)\<lparr>auth := a\<rparr>\<rparr>))))"

subsection \<open>Blocked requests\<close>

definition timed_out :: "conf \<Rightarrow> request \<Rightarrow> bool" where
  "timed_out cfg r \<longleftrightarrow>
    (let since = current_time cfg - time_last r in
     kacount r < ka_max cfg \<and> since \<ge> int (ka_timeout cfg) \<and> logline r = None \<or> since > REQUEST_TIMEOUT)"

definition fdset_one :: "conf \<Rightarrow> nat \<Rightarrow> 'w server \<Rightarrow> 'w server" where
  "fdset_one cfg q s0 =
    (let r = (if timed_out cfg (rq s0 q) then (rq s0 q)\<lparr>status := DEAD\<rparr> else rq s0 q);
         s = set_rq q r s0;
         on_write = (\<lambda>f. if f \<in> block_write_fdset (qu s) then s\<lparr>qu := ready_request q r (qu s)\<rparr> else s\<lparr>qu := set_write_fd f (qu s)\<rparr>);
         on_read = (\<lambda>f. if f \<in> block_read_fdset (qu s) then s\<lparr>qu := ready_request q r (qu s)\<rparr> else s\<lparr>qu := set_read_fd f (qu s)\<rparr>)
     in if buffer_end r \<noteq> 0 \<and> status r \<noteq> DEAD then on_write (fd r)
        else (case status r of
            WRITE \<Rightarrow> on_write (fd r)
          | PIPE_WRITE \<Rightarrow> on_write (fd r)
          | BODY_WRITE \<Rightarrow> on_write (post_data_fd r)
          | PIPE_READ \<Rightarrow> on_read (data_fd r)
          | DONE \<Rightarrow> on_write (fd r)
          | DEAD \<Rightarrow> s\<lparr>qu := ready_request q r (qu s)\<rparr>
          | _ \<Rightarrow> on_read (fd r)))"

fun fdset_loop :: "nat \<Rightarrow> conf \<Rightarrow> nat option \<Rightarrow> 'w server \<Rightarrow> 'w server option" where
  "fdset_loop n cfg None s = Some s"
| "fdset_loop 0 cfg (Some q) s = None"
| "fdset_loop (Suc n) cfg (Some q) s = fdset_loop n cfg (nxt (lnk (qu s)) q) (fdset_one cfg q s)"

definition fdset_update :: "conf \<Rightarrow> 'w server \<Rightarrow> 'w server option" where
  "fdset_update cfg s = fdset_loop MAX_REQUEST cfg (request_block (qu s)) s"

text \<open>A request the RTSP thread has given back.\<close>

definition return_request :: "nat \<Rightarrow> 'w server \<Rightarrow> 'w server" where
  "return_request q s =
    (let s1 = set_rq q ((rq s q)\<lparr>status := DONE, buffer_end := 0\<rparr>) s in s1\<lparr>qu := put_request Ready q (qu s1), tunnel := remove1 q (tunnel s1)\<rparr>)"

subsection \<open>The lists of requests\<close>

lemma queue_head: "queue_rep s l xs \<Longrightarrow> list_head l s = first xs None"
  by (simp add: queue_rep_def is_queue_def)

lemma take_request_lists:
  assumes l: "ql.lists s f" and q: "q \<in> set (f l)"
  shows "ql.lists (take_request l q s) (f(l := remove1 q (f l)))"
proof -
  have rep: "is_queue (lnk s) (list_head m s) (f m)" and dis: "m \<noteq> n \<Longrightarrow> set (f m) \<inter> set (f n) = {}" for m n
    using l by (auto simp: ql.lists_def queue_rep_def)
  obtain h k where d: "dequeue (list_head l s) q (lnk s) = (h, k)" by fastforce
  have q1: "is_queue k h (remove1 q (f l))" by (rule dequeue_refines[OF rep q d])
  have "is_queue k (list_head m s) (f m)" if "m \<noteq> l" for m
    by (rule is_queue_frame[OF rep], rule dequeue_frame[OF rep q d]) (use dis[OF that] in auto)
  with q1 have "queue_rep (take_request l q s) m ((f(l := remove1 q (f l))) m)" for m
    by (simp add: take_request_def d queue_rep_def)
  moreover have "set ((f(l := remove1 q (f l))) m) \<inter> set ((f(l := remove1 q (f l))) n) = {}" if "m \<noteq> n" for m n
    using that dis[OF that] set_remove1_subset[of q "f l"] by (cases "m = l"; cases "n = l") auto
  ultimately show ?thesis unfolding ql.lists_def by blast
qed

lemma put_request_lists:
  assumes l: "ql.lists s f" and q: "\<And>m. q \<notin> set (f m)"
  shows "ql.lists (put_request l q s) (f(l := q # f l))"
proof -
  have rep: "is_queue (lnk s) (list_head m s) (f m)" and dis: "m \<noteq> n \<Longrightarrow> set (f m) \<inter> set (f n) = {}" for m n
    using l by (auto simp: ql.lists_def queue_rep_def)
  obtain h k where e: "enqueue (list_head l s) q (lnk s) = (h, k)" by fastforce
  have q1: "is_queue k h (q # f l)" by (rule enqueue_refines[OF rep q e])
  have hd: "list_head l s = first (f l) None" using rep[of l] by (simp add: is_queue_def)
  have "is_queue k (list_head m s) (f m)" if "m \<noteq> l" for m
    by (rule is_queue_frame[OF rep], rule enqueue_frame[OF e]) (use dis[OF that] q[of m] hd first_in[of "f l"] in auto)
  with q1 have "queue_rep (put_request l q s) m ((f(l := q # f l)) m)" for m
    by (simp add: put_request_def e queue_rep_def)
  moreover have "set ((f(l := q # f l)) m) \<inter> set ((f(l := q # f l)) n) = {}" if "m \<noteq> n" for m n
    using that dis[OF that] q[of m] q[of n] by (cases "m = l"; cases "n = l") auto
  ultimately show ?thesis unfolding ql.lists_def by blast
qed

text \<open>
  The invariant of the pool: the three lists, and the requests \<open>held\<close> by none of them (because they are being moved, or belong to the RTSP
  thread), are among the requests that were allocated, at most \<open>MAX_REQUEST\<close> (a hang-up gives the memory of the free ones back without
  counting them off); memory allocated later is new.
\<close>

definition server_inv :: "'w server \<Rightarrow> nat list \<Rightarrow> nat list \<Rightarrow> nat list \<Rightarrow> nat list \<Rightarrow> bool" where
  "server_inv s rd bl fr held \<longleftrightarrow> queues_ok (qu s) rd bl fr \<and> distinct (rd @ bl @ fr @ held) \<and>
     length (rd @ bl @ fr @ held) \<le> request_count s \<and> request_count s \<le> MAX_REQUEST \<and>
     distinct (filter (\<lambda>m. m \<noteq> None) (req_malloc s)) \<and> (\<forall>a \<in> set (rd @ bl @ fr @ held). Some a \<notin> set (req_malloc s))"

lemma server_inv_cong:
  "qu s' = qu s \<Longrightarrow> request_count s' = request_count s \<Longrightarrow> req_malloc s' = req_malloc s \<Longrightarrow>
   server_inv s' rd bl fr held = server_inv s rd bl fr held"
  by (simp add: server_inv_def)

lemma list_fun_updates:
  "(list_fun rd bl fr)(Ready := x) = list_fun x bl fr" "(list_fun rd bl fr)(Block := x) = list_fun rd x fr"
  "(list_fun rd bl fr)(Free := x) = list_fun rd bl x"
  by (auto simp: list_fun_def fun_eq_iff split: which_list.splits)

lemma queues_ok_take:
  assumes "queues_ok s rd bl fr"
  shows "q \<in> set rd \<Longrightarrow> queues_ok (take_request Ready q s) (remove1 q rd) bl fr"
    and "q \<in> set fr \<Longrightarrow> queues_ok (take_request Free q s) rd bl (remove1 q fr)"
  using take_request_lists[of s "list_fun rd bl fr" q Ready] take_request_lists[of s "list_fun rd bl fr" q Free] assms
  by (simp_all add: queues_ok_lists list_fun_updates)

lemma queues_ok_put:
  assumes "queues_ok s rd bl fr" "q \<notin> set (rd @ bl @ fr)"
  shows "queues_ok (put_request Ready q s) (q # rd) bl fr" "queues_ok (put_request Block q s) rd (q # bl) fr"
    "queues_ok (put_request Free q s) rd bl (q # fr)"
proof -
  have "q \<notin> set (list_fun rd bl fr m)" for m using assms(2) by (cases m) auto
  then show "queues_ok (put_request Ready q s) (q # rd) bl fr" "queues_ok (put_request Block q s) rd (q # bl) fr"
      "queues_ok (put_request Free q s) rd bl (q # fr)"
    using put_request_lists[of s "list_fun rd bl fr" q Ready] put_request_lists[of s "list_fun rd bl fr" q Block]
      put_request_lists[of s "list_fun rd bl fr" q Free] assms(1)
    by (simp_all add: queues_ok_lists list_fun_updates)
qed

lemma server_inv_take:
  assumes "server_inv s rd bl fr held" "q \<in> set rd"
  shows "server_inv (s\<lparr>qu := take_request Ready q (qu s)\<rparr>) (remove1 q rd) bl fr (q # held)"
  using assms queues_ok_take(1)[of "qu s" rd bl fr q] length_pos_if_in_set[OF assms(2)]
  by (auto simp: server_inv_def length_remove1 neq_Nil_conv)

lemma server_inv_put:
  assumes "server_inv s rd bl fr (q # held)"
  shows "server_inv (s\<lparr>qu := put_request Ready q (qu s)\<rparr>) (q # rd) bl fr held"
    "server_inv (s\<lparr>qu := put_request Block q (qu s)\<rparr>) rd (q # bl) fr held"
    "server_inv (s\<lparr>qu := put_request Free q (qu s)\<rparr>) rd bl (q # fr) held"
  using assms queues_ok_put[of "qu s" rd bl fr q] by (auto simp: server_inv_def)

lemma set_rq_simps [simp]:
  "qu (set_rq q r s) = qu s" "request_count (set_rq q r s) = request_count s" "req_malloc (set_rq q r s) = req_malloc s"
  "rq (set_rq q r s) = (rq s)(q := r)" "pending_requests (set_rq q r s) = pending_requests s"
  "tunnel (set_rq q r s) = tunnel s"
  by (simp_all add: set_rq_def)

lemma act_simps [simp]:
  "qu (act a s) = qu s" "request_count (act a s) = request_count s" "req_malloc (act a s) = req_malloc s"
  "rq (act a s) = rq s" "tunnel (act a s) = tunnel s"
  by (simp_all add: act_def)

text \<open>A new request comes off the free list or is allocated; for the moment it is on no list.\<close>

lemma new_request_inv:
  assumes inv: "server_inv s rd bl fr held" and new: "new_request s = (res, s')"
  shows "res = None \<and> server_inv s' rd bl fr held \<or>
     (\<exists>a fr'. res = Some a \<and> server_inv s' rd bl fr' (a # held) \<and> a \<notin> set (rd @ bl @ held))"
proof -
  have q: "queues_ok (qu s) rd bl fr" using inv by (simp add: server_inv_def)
  then have hd: "request_free (qu s) = first fr None" using queue_head[of "qu s" Free fr] by (simp add: queues_ok_def list_head_def)
  show ?thesis
  proof (cases fr)
    case (Cons a fr')
    then have "queues_ok (take_request Free a (qu s)) rd bl fr'" using queues_ok_take(2)[OF q, of a] by simp
    then have "server_inv s' rd bl fr' (a # held)" "res = Some a" "a \<notin> set (rd @ bl @ held)"
      using new hd Cons inv by (auto simp: new_request_def Let_def server_inv_def)
    then show ?thesis by blast
  next
    case Nil
    show ?thesis
    proof (cases "request_count s \<ge> MAX_REQUEST \<or> req_malloc s = [] \<or> hd (req_malloc s) = None")
      case True
      then show ?thesis using new hd Nil inv
        by (cases "req_malloc s") (auto simp: new_request_def Let_def server_inv_def split: if_splits)
    next
      case False
      then obtain a ms where m: "req_malloc s = Some a # ms" by (cases "req_malloc s") auto
      then have "server_inv s' rd bl fr (a # held)" "res = Some a" "a \<notin> set (rd @ bl @ held)"
        using new hd Nil inv False by (auto simp: new_request_def Let_def server_inv_def)
      then show ?thesis by blast
    qed
  qed
qed

lemma enter_request_inv:
  "server_inv s rd bl fr (a # held) \<Longrightarrow> server_inv (enter_request cfg c name a s) (a # rd) bl fr held"
  using server_inv_put(1)[of s rd bl fr a held] by (simp add: enter_request_def Let_def server_inv_def)

lemma get_sock_request_inv:
  assumes inv: "server_inv s rd bl fr held" and run: "get_sock_request cfg acc s = (res, s')"
  shows "\<exists>pre fr'. server_inv s' (pre @ rd) bl fr' held \<and> (\<forall>a. res = Some a \<longrightarrow> pre = [a])"
proof -
  have same: "server_inv (s\<lparr>pending_requests := False\<rparr>) ([] @ rd) bl fr held" "server_inv s ([] @ rd) bl fr held"
    "server_inv (act x s) ([] @ rd) bl fr held" for x using inv by (simp_all add: server_inv_def)
  show ?thesis
  proof (cases acc)
    case (A_conn c)
    show ?thesis
    proof (cases "c_fd c \<ge> FD_SETSIZE \<or> c_sockname c = None")
      case True
      then have "res = None" "s' = act (Close (c_fd c)) s" using run A_conn by (auto simp: get_sock_request_def split: if_splits)
      then show ?thesis using same(3) by blast
    next
      case False
      then obtain name where n: "c_sockname c = Some name" "\<not> c_fd c \<ge> FD_SETSIZE" by auto
      obtain na s1 where new: "new_request s = (na, s1)" by force
      from new_request_inv[OF inv new] show ?thesis
      proof
        assume a: "na = None \<and> server_inv s1 rd bl fr held"
        then have "res = None" "s' = act (Close (c_fd c)) s1" using run A_conn n new by (simp_all add: get_sock_request_def)
        moreover have "server_inv (act (Close (c_fd c)) s1) ([] @ rd) bl fr held" using a by (simp add: server_inv_def)
        ultimately show ?thesis by blast
      next
        assume "\<exists>a fr'. na = Some a \<and> server_inv s1 rd bl fr' (a # held) \<and> a \<notin> set (rd @ bl @ held)"
        then obtain a fr' where a: "na = Some a" "server_inv s1 rd bl fr' (a # held)" by blast
        then have "res = Some a" "s' = enter_request cfg c name a s1" using run A_conn n new by (simp_all add: get_sock_request_def)
        then show ?thesis using enter_request_inv[OF a(2), of cfg c name] by (intro exI[of _ "[a]"] exI[of _ fr']) simp
      qed
    qed
  next
    case A_again
    then show ?thesis using run same(1) by (intro exI[of _ "[]"] exI[of _ fr]) (auto simp: get_sock_request_def)
  next
    case A_error
    then show ?thesis using run same(2) by (intro exI[of _ "[]"] exI[of _ fr]) (auto simp: get_sock_request_def)
  qed
qed

lemma get_request_inv:
  assumes "server_inv s rd bl fr held"
  shows "\<exists>pre fr'. server_inv (get_request cfg acc s) (pre @ rd) bl fr' held"
  using get_sock_request_inv[OF assms, of cfg acc "fst (get_sock_request cfg acc s)" "snd (get_sock_request cfg acc s)"]
  by (auto simp: get_request_def)

lemma release_request_simps [simp]:
  "qu (release_request t r s) = qu s" "request_count (release_request t r s) = request_count s"
  "req_malloc (release_request t r s) = req_malloc s" "rq (release_request t r s) = rq s"
  "tunnel (release_request t r s) = tunnel s"
  by (simp_all add: release_request_def Let_def)

text \<open>Only the scheduler hands requests to the RTSP thread.\<close>

lemma new_request_tunnel [simp]: "tunnel (snd (new_request s)) = tunnel s"
  by (simp add: new_request_def Let_def split: option.split list.split)

lemma get_sock_request_tunnel [simp]: "tunnel (snd (get_sock_request cfg acc s)) = tunnel s"
proof -
  obtain na s1 where n: "new_request s = (na, s1)" by force
  then have "tunnel s1 = tunnel s" using new_request_tunnel[of s] by simp
  then show ?thesis by (simp add: get_sock_request_def n enter_request_def Let_def split: accept_result.split option.split)
qed

lemma get_request_tunnel [simp]: "tunnel (get_request cfg acc s) = tunnel s"
  by (simp add: get_request_def)

lemma get_ssl_request_tunnel [simp]: "tunnel (get_ssl_request cfg acc new s) = tunnel s"
  using get_sock_request_tunnel[of cfg acc s] by (cases "get_sock_request cfg acc s") (simp add: get_ssl_request_def split: option.split)

lemma free_request_tunnel [simp]: "tunnel (free_request t q s) = tunnel s"
proof -
  let ?s = "release_request t (rq s q) (s\<lparr>qu := take_request Ready q (qu s)\<rparr>)"
  obtain na s1 where n: "new_request ?s = (na, s1)" by force
  then have "tunnel s1 = tunnel s" using new_request_tunnel[of ?s] by simp
  then show ?thesis by (simp add: free_request_def close_request_def Let_def n split: option.split)
qed

lemma free_streams_tunnel: "free_streams n t cur s = Some s' \<Longrightarrow> tunnel s' = tunnel s"
  by (induction n t cur s rule: free_streams.induct) (auto split: if_splits)

subsection \<open>What a step does to the blocked requests\<close>

text \<open>
  A blocked request is watched when the descriptor it waits for is in the right set and not above \<open>max_fd\<close>. In the relation \<open>blocks\<close>, a step
  adds requests to the blocked list that are watched, leaves those that were blocked alone, and takes nothing out of the sets.
\<close>

definition watched :: "queues \<Rightarrow> request \<Rightarrow> bool" where
  "watched s r \<longleftrightarrow> waits_fd r \<in> (if waits_write r then block_write_fdset s else block_read_fdset s) \<and> waits_fd r \<le> max_fd s"

definition fds_le :: "queues \<Rightarrow> queues \<Rightarrow> bool" where
  "fds_le a b \<longleftrightarrow> block_read_fdset a \<subseteq> block_read_fdset b \<and> block_write_fdset a \<subseteq> block_write_fdset b \<and> max_fd a \<le> max_fd b"

definition blocks :: "'w server \<Rightarrow> nat list \<Rightarrow> 'w server \<Rightarrow> nat list \<Rightarrow> bool" where
  "blocks s bl s' bl' \<longleftrightarrow> fds_le (qu s) (qu s') \<and> (\<forall>p \<in> set bl. rq s' p = rq s p) \<and>
     (\<exists>new. bl' = new @ bl \<and> (\<forall>p \<in> set new. watched (qu s') (rq s' p)))"

lemma fds_le_refl [simp]: "fds_le a a"
  by (simp add: fds_le_def)

lemma fds_le_trans: "fds_le a b \<Longrightarrow> fds_le b c \<Longrightarrow> fds_le a c"
  by (auto simp: fds_le_def)

lemma watched_mono: "watched a r \<Longrightarrow> fds_le a b \<Longrightarrow> watched b r"
  by (auto simp: watched_def fds_le_def split: if_splits)

lemma blocks_same: "fds_le (qu s) (qu s') \<Longrightarrow> (\<And>p. p \<in> set bl \<Longrightarrow> rq s' p = rq s p) \<Longrightarrow> blocks s bl s' bl"
  by (simp add: blocks_def)

lemma blocks_refl: "blocks s bl s bl"
  by (simp add: blocks_same)

lemma blocks_add:
  "fds_le (qu s) (qu s') \<Longrightarrow> (\<And>p. p \<in> set bl \<Longrightarrow> rq s' p = rq s p) \<Longrightarrow> watched (qu s') (rq s' q) \<Longrightarrow> blocks s bl s' (q # bl)"
  by (auto simp: blocks_def intro!: exI[of _ "[q]"])

lemma blocks_trans:
  assumes "blocks s bl s1 bl1" "blocks s1 bl1 s2 bl2" shows "blocks s bl s2 bl2"
proof -
  obtain n1 n2 where n: "bl1 = n1 @ bl" "bl2 = n2 @ bl1" "\<forall>p \<in> set n1. watched (qu s1) (rq s1 p)" "\<forall>p \<in> set n2. watched (qu s2) (rq s2 p)"
    using assms by (auto simp: blocks_def)
  have "\<forall>p \<in> set (n2 @ n1). watched (qu s2) (rq s2 p)"
    using n assms(2) watched_mono[of "qu s1" _ "qu s2"] by (auto simp: blocks_def)
  then show ?thesis using assms n fds_le_trans[of "qu s" "qu s1" "qu s2"] by (auto simp: blocks_def)
qed

lemma take_put_fds [simp]:
  "block_read_fdset (take_request l q s) = block_read_fdset s" "block_write_fdset (take_request l q s) = block_write_fdset s"
  "max_fd (take_request l q s) = max_fd s" "block_read_fdset (put_request l q s) = block_read_fdset s"
  "block_write_fdset (put_request l q s) = block_write_fdset s" "max_fd (put_request l q s) = max_fd s"
  by (cases l; auto simp: take_request_def put_request_def set_head_def split: prod.splits)+

lemma new_request_frame:
  assumes "new_request s = (res, s')"
  shows "fds_le (qu s) (qu s')" "res \<noteq> Some p \<Longrightarrow> rq s' p = rq s p"
  using assms by (auto simp: new_request_def Let_def fds_le_def split: option.splits list.splits if_splits)

lemma new_request_cleared:
  "new_request s = (res, s') \<Longrightarrow> res = Some a \<Longrightarrow> buffer_end (rq s' a) = 0"
  by (auto simp: new_request_def Let_def cleared_def zero_request_def split: option.splits list.splits if_splits)

lemma get_sock_request_blocks:
  assumes inv: "server_inv s rd bl fr held" and run: "get_sock_request cfg acc s = (res, s')"
  shows "blocks s bl s' bl"
proof -
  obtain na s1 where new: "new_request s = (na, s1)" by force
  have na: "na = None \<or> (\<exists>a. na = Some a \<and> a \<notin> set bl)" using new_request_inv[OF inv new] by auto
  then have "p \<in> set bl \<Longrightarrow> na \<noteq> Some p" for p by auto
  then have fr: "fds_le (qu s) (qu s1)" "p \<in> set bl \<Longrightarrow> rq s1 p = rq s p" for p
    using new_request_frame[OF new] by simp_all
  have "fds_le (qu s1) (qu (enter_request cfg c name a s1))" for c name a by (simp add: enter_request_def Let_def fds_le_def)
  then have "blocks s bl (enter_request cfg c name a s1) bl" if "a \<notin> set bl" for c name a
    using fr that fds_le_trans[OF fr(1)] by (intro blocks_same) (auto simp: enter_request_def Let_def)
  moreover have "blocks s bl (act x s1) bl" for x using fr by (intro blocks_same) simp_all
  moreover have "blocks s bl (act x s) bl" "blocks s bl s bl" "blocks s bl (s\<lparr>pending_requests := False\<rparr>) bl" for x
    by (rule blocks_same; simp)+
  ultimately show ?thesis using run na new
    by (auto simp: get_sock_request_def split: accept_result.splits option.splits if_splits)
qed

lemma get_request_blocks: "server_inv s rd bl fr held \<Longrightarrow> blocks s bl (get_request cfg acc s) bl"
  using get_sock_request_blocks[of s rd bl fr held cfg acc] by (cases "get_sock_request cfg acc s") (simp add: get_request_def)

lemma get_ssl_request_blocks:
  assumes "server_inv s rd bl fr held" shows "blocks s bl (get_ssl_request cfg acc new s) bl"
proof -
  obtain res s1 where g: "get_sock_request cfg acc s = (res, s1)" by force
  obtain pre fr' where i: "server_inv s1 (pre @ rd) bl fr' held" "\<forall>a. res = Some a \<longrightarrow> pre = [a]"
    using get_sock_request_inv[OF assms g] by blast
  have b: "blocks s bl s1 bl" by (rule get_sock_request_blocks[OF assms g])
  show ?thesis
  proof (cases res)
    case (Some a)
    then have "a \<notin> set bl" using i by (auto simp: server_inv_def)
    then have "blocks s1 bl (set_rq a ((rq s1 a)\<lparr>ssl := new\<rparr>) s1) bl" by (intro blocks_same) auto
    then show ?thesis using blocks_trans[OF b] g Some by (simp add: get_ssl_request_def)
  qed (use g b in \<open>simp add: get_ssl_request_def\<close>)
qed

lemma set_read_fd_rep: "queues_ok (set_read_fd f s) rd bl fr = queues_ok s rd bl fr"
  by (simp add: queues_ok_def queue_rep_def)

text \<open>Freeing keeps the request, takes it to the free list, or replaces it by a blocked one.\<close>

lemma free_request_inv:
  assumes inv: "server_inv s rd bl fr held" and q: "q \<in> set rd"
  shows "\<exists>rd' bl' fr'. server_inv (free_request t q s) rd' bl' fr' held \<and> (rd' = rd \<or> rd' = remove1 q rd) \<and>
    blocks s bl (free_request t q s) bl'"
proof (cases "buffer_end (rq s q) \<noteq> 0 \<and> status (rq s q) \<noteq> DEAD")
  case True
  have "q \<notin> set bl" using inv q by (auto simp: server_inv_def)
  then have "blocks s bl (free_request t q s) bl" using True by (intro blocks_same) (auto simp: free_request_def)
  moreover have "server_inv (free_request t q s) rd bl fr held" using True inv by (simp add: free_request_def server_inv_def)
  ultimately show ?thesis by blast
next
  case False
  let ?r = "rq s q"
  let ?s = "release_request t ?r (s\<lparr>qu := take_request Ready q (qu s)\<rparr>)"
  have qb: "q \<notin> set bl" using inv q by (auto simp: server_inv_def)
  have i1: "server_inv ?s (remove1 q rd) bl fr (q # held)"
    using server_inv_take[OF inv q] by (simp add: server_inv_def)
  have b1: "fds_le (qu s) (qu ?s)" by (simp add: fds_le_def)
  show ?thesis
  proof (cases "keeps_alive ?r")
    case ka: True
    obtain na s2 where new: "new_request ?s = (na, s2)" by force
    have fd2: "fds_le (qu s) (qu s2)" using new_request_frame(1)[OF new] b1 fds_le_trans by blast
    have rq2: "rq s2 p = rq s p" if "na \<noteq> Some p" for p using new_request_frame(2)[OF new that] by simp
    from new_request_inv[OF i1 new] show ?thesis
    proof
      assume a: "na = None \<and> server_inv s2 (remove1 q rd) bl fr (q # held)"
      then have eq: "free_request t q s = act (Close (fd ?r)) (s2\<lparr>qu := put_request Free q (qu s2), total_connections := total_connections s2 - 1\<rparr>)"
        using False ka new by (auto simp: free_request_def Let_def)
      then have "server_inv (free_request t q s) (remove1 q rd) bl (q # fr) held"
        using a server_inv_put(3)[of s2 "remove1 q rd" bl fr q held] by (simp add: server_inv_def)
      moreover have "blocks s bl (free_request t q s) bl"
        using fd2 rq2 a by (intro blocks_same) (simp_all add: eq fds_le_def)
      ultimately show ?thesis by blast
    next
      assume "\<exists>a fr'. na = Some a \<and> server_inv s2 (remove1 q rd) bl fr' (a # q # held) \<and> a \<notin> set (remove1 q rd @ bl @ q # held)"
      then obtain a fr' where a: "na = Some a" "server_inv s2 (remove1 q rd) bl fr' (a # q # held)" "a \<notin> set bl" by auto
      let ?s3 = "s2\<lparr>qu := put_request Block a (qu s2)\<rparr>"
      let ?s4 = "(set_rq a (continue_request ?r (rq s2 a)) s2)\<lparr>stat_requests := stat_requests s2 + 1,
        qu := put_request Free q (set_read_fd (fd ?r) (put_request Block a (qu s2)))\<rparr>"
      have eq: "free_request t q s = ?s4" using False ka new a(1) by (auto simp: free_request_def Let_def set_rq_def)
      have "server_inv ?s3 (remove1 q rd) (a # bl) fr' (q # held)" by (rule server_inv_put(2)[OF a(2)])
      then have "server_inv (?s3\<lparr>qu := set_read_fd (fd ?r) (qu ?s3)\<rparr>) (remove1 q rd) (a # bl) fr' (q # held)"
        by (simp add: server_inv_def set_read_fd_rep)
      from server_inv_put(3)[OF this] have "server_inv (free_request t q s) (remove1 q rd) (a # bl) (q # fr') held"
        unfolding eq by (simp add: server_inv_def)
      moreover have "watched (qu ?s4) (rq ?s4 a)"
        using new_request_cleared[OF new a(1)]
        by (simp add: watched_def waits_fd_def waits_write_def continue_request_def set_read_fd_def)
      then have "blocks s bl (free_request t q s) (a # bl)"
        unfolding eq using fd2 rq2 a by (intro blocks_add) (auto simp: fds_le_def set_read_fd_def)
      ultimately show ?thesis by blast
    qed
  next
    case False2: False
    then have eq: "free_request t q s = close_request q ?r ?s" using False by (auto simp: free_request_def Let_def)
    have "server_inv (free_request t q s) (remove1 q rd) bl (q # fr) held"
      using server_inv_put(3)[OF i1] by (simp add: eq close_request_def Let_def server_inv_def)
    moreover have "blocks s bl (free_request t q s) bl"
      using qb by (intro blocks_same) (auto simp: eq close_request_def Let_def fds_le_def)
    ultimately show ?thesis by blast
  qed
qed

subsection \<open>The scheduler\<close>

lemma block_request_max: "max_fd s \<le> max_fd (block_request q r s)"
  by (auto simp: block_request_def Let_def set_read_fd_def set_write_fd_def split: prod.splits req_status.splits)

lemma dispatch_result_inv:
  assumes inv: "server_inv s rd bl fr (tunnel s)" and q: "q \<in> set rd"
  shows "\<exists>rd' bl' fr'. server_inv (dispatch_result cfg i q n s) rd' bl' fr' (tunnel (dispatch_result cfg i q n s)) \<and>
    (rd' = rd \<or> rd' = remove1 q rd) \<and> blocks s bl (dispatch_result cfg i q n s) bl'"
proof -
  let ?r = "(rq s q)\<lparr>time_last := current_time cfg\<rparr>"
  have i: "server_inv (set_rq q ?r s) rd bl fr (tunnel s)" using inv by (simp add: server_inv_def)
  have qb: "q \<notin> set bl" using inv q by (auto simp: server_inv_def)
  have b: "blocks s bl (set_rq q ?r s) bl" using qb by (intro blocks_same) auto
  consider (blocked) "n = - 1" | (finished) "n = 0" | (again) "n = 1" | (rtsp) "n = 2 \<and> flag_set URI_FLAG_RTSP_O_HTTP (rq s q) \<and> io_rtsp i"
    | (other) "n \<noteq> - 1" "n \<noteq> 0" "n \<noteq> 1" "\<not> (n = 2 \<and> flag_set URI_FLAG_RTSP_O_HTTP (rq s q) \<and> io_rtsp i)" by blast
  then show ?thesis
  proof cases
    case blocked
    let ?s = "s\<lparr>qu := block_request q (rq s q) (qu s)\<rparr>"
    have "server_inv ?s (remove1 q rd) (q # bl) fr (tunnel s)"
      using inv q block_request_ok[of "qu s" rd bl fr q "rq s q"] length_pos_if_in_set[OF q]
      by (auto simp: server_inv_def length_remove1 neq_Nil_conv)
    moreover have "blocks s bl ?s (q # bl)"
      using block_request_fds[of q "rq s q" "qu s"] block_request_max[of "qu s" q "rq s q"] by (intro blocks_add) (auto simp: fds_le_def watched_def)
    ultimately show ?thesis using blocked unfolding dispatch_result_def Let_def by auto
  next
    case finished
    obtain rd' bl' fr' where "server_inv (free_request (io_second i) q (set_rq q ?r s)) rd' bl' fr' (tunnel s)" "rd' = rd \<or> rd' = remove1 q rd"
        "blocks (set_rq q ?r s) bl (free_request (io_second i) q (set_rq q ?r s)) bl'"
      using free_request_inv[OF i q, of "io_second i"] by blast
    then show ?thesis using finished blocks_trans[OF b] by (auto simp: dispatch_result_def Let_def)
  next
    case again
    then show ?thesis using i b unfolding dispatch_result_def Let_def by auto
  next
    case rtsp
    let ?s = "s\<lparr>qu := take_request Ready q (qu s), tunnel := q # tunnel s\<rparr>"
    have "blocks s bl ?s bl" by (intro blocks_same) (simp_all add: fds_le_def)
    moreover have "server_inv ?s (remove1 q rd) bl fr (q # tunnel s)" using server_inv_take[OF inv q] by (simp add: server_inv_def)
    ultimately show ?thesis using rtsp by (auto simp: dispatch_result_def Let_def)
  next
    case other
    moreover have "blocks s bl s bl" by (intro blocks_same) simp_all
    ultimately show ?thesis using inv by (auto simp: dispatch_result_def Let_def)
  qed
qed

lemma queue_next:
  assumes "queue_rep s l (pre @ q # todo)"
  shows "nxt (lnk s) q = first todo None"
  using assms by (simp add: queue_rep_def is_queue_def dseg_append)

lemma process_one_inv:
  assumes inv: "server_inv s (pre @ q # todo) bl fr (tunnel s)" and run: "process_one env cfg sigterm i q s = Some (cur, s')"
  shows "cur = first todo None \<and> (\<exists>pre' bl' fr'. server_inv s' (pre' @ todo) bl' fr' (tunnel s') \<and> blocks s bl s' bl')"
proof -
  obtain n r1 st where st: "step_request env cfg i (rq s q) (inner s) = Some (n, r1, st)"
    using run by (auto simp: process_one_def split: option.splits)
  define s1 where "s1 = set_rq q (if sigterm then SQUASH_KA r1 else r1) (s\<lparr>inner := st\<rparr>)"
  define s2 where "s2 = (if pending_requests s1 then get_request cfg (io_accept i) s1 else s1)"
  define r3 where "r3 = (rq s2 q)\<lparr>busy_audio := True, busy_video := True\<rparr>"
  define m where "m = (if last_stream_time r3 \<noteq> 0 \<and> io_second i > last_stream_time r3 + STREAM_TIMEOUT_SEC then 0 else n)"
  have res: "cur = nxt (lnk (qu s2)) q" "s' = dispatch_result cfg i q m (set_rq q r3 s2)"
    using run st unfolding process_one_def s1_def s2_def r3_def m_def Let_def by auto
  have tun: "tunnel s1 = tunnel s" "tunnel s2 = tunnel s" by (simp_all add: s1_def s2_def)
  have i1: "server_inv s1 (pre @ q # todo) bl fr (tunnel s)" using inv by (simp add: s1_def server_inv_def)
  obtain pre2 fr2 where i2: "server_inv s2 (pre2 @ pre @ q # todo) bl fr2 (tunnel s)"
    using get_request_inv[OF i1, of cfg "io_accept i"] i1 unfolding s2_def by (metis append_Nil)
  have "queue_rep (qu s2) Ready ((pre2 @ pre) @ q # todo)" using i2 by (simp add: server_inv_def queues_ok_def)
  then have cur: "cur = first todo None" using queue_next res(1) by metis
  have i3: "server_inv (set_rq q r3 s2) (pre2 @ pre @ q # todo) bl fr2 (tunnel (set_rq q r3 s2))" using i2 tun by (simp add: server_inv_def)
  have "q \<notin> set (pre2 @ pre)" "q \<notin> set bl" using i2 by (auto simp: server_inv_def)
  then have rem: "remove1 q (pre2 @ pre @ q # todo) = (pre2 @ pre) @ todo" by (simp add: remove1_append)
  have "blocks s bl s1 bl" using \<open>q \<notin> set bl\<close> by (intro blocks_same) (auto simp: s1_def)
  moreover have "blocks s1 bl s2 bl" using get_request_blocks[OF i1] by (auto simp: s2_def intro: blocks_same)
  moreover have "blocks s2 bl (set_rq q r3 s2) bl" using \<open>q \<notin> set bl\<close> by (intro blocks_same) auto
  ultimately have b3: "blocks s bl (set_rq q r3 s2) bl" using blocks_trans by blast
  obtain rd' bl' fr' where d: "server_inv s' rd' bl' fr' (tunnel s')" "rd' = pre2 @ pre @ q # todo \<or> rd' = (pre2 @ pre) @ todo"
      "blocks (set_rq q r3 s2) bl s' bl'"
    using dispatch_result_inv[OF i3, of q cfg i m] rem unfolding res(2) by auto
  then have "rd' = (pre2 @ pre @ [q]) @ todo \<or> rd' = (pre2 @ pre) @ todo" by auto
  then show ?thesis using cur d(1) blocks_trans[OF b3 d(3)] by blast
qed

lemma process_loop_inv:
  assumes "server_inv s (pre @ todo) bl fr (tunnel s)" "process_loop env cfg sigterm ios (first todo None) s = Some (vs, s')"
  shows "vs = todo \<and> (\<exists>rd' bl' fr'. server_inv s' rd' bl' fr' (tunnel s') \<and> blocks s bl s' bl')"
  using assms
proof (induction todo arbitrary: ios s pre bl fr vs)
  case Nil
  then show ?case using blocks_refl by fastforce
next
  case (Cons q todo)
  then obtain i is' where ios: "ios = i # is'" by (cases ios) auto
  then obtain cur s1 vs' where one: "process_one env cfg sigterm i q s = Some (cur, s1)"
      and rest: "process_loop env cfg sigterm is' cur s1 = Some (vs', s')" "vs = q # vs'"
    using Cons.prems(2) by (auto split: option.splits prod.splits)
  from process_one_inv[OF Cons.prems(1) one] obtain pre' bl' fr' where
    c: "cur = first todo None" and i1: "server_inv s1 (pre' @ todo) bl' fr' (tunnel s1)" and b: "blocks s bl s1 bl'" by blast
  from Cons.IH[OF i1] rest c obtain rd2 bl2 fr2 where "vs' = todo" "server_inv s' rd2 bl2 fr2 (tunnel s')" "blocks s1 bl' s' bl2" by blast
  then show ?case using rest(2) blocks_trans[OF b] by blast
qed

lemma free_streams_inv:
  assumes "server_inv s (pre @ todo) bl fr held" "free_streams n t (first todo None) s = Some s'"
  shows "\<exists>rd' bl' fr'. server_inv s' rd' bl' fr' held \<and> blocks s bl s' bl'"
  using assms
proof (induction todo arbitrary: n s pre bl fr)
  case Nil
  then show ?case using blocks_refl by fastforce
next
  case (Cons q todo)
  then obtain m where n: "n = Suc m" by (cases n) auto
  have nx: "nxt (lnk (qu s)) q = first todo None"
    using queue_next[of "qu s" Ready pre q todo] Cons.prems(1) by (simp add: server_inv_def queues_ok_def)
  have "q \<notin> set pre" using Cons.prems(1) by (auto simp: server_inv_def)
  then have rem: "remove1 q (pre @ q # todo) = pre @ todo" by (simp add: remove1_append)
  let ?s = "if http_stream (rq s q) \<noteq> 0 then free_request t q s else s"
  have "\<exists>pre' bl' fr'. server_inv ?s (pre' @ todo) bl' fr' held \<and> blocks s bl ?s bl'"
  proof (cases "http_stream (rq s q) = 0")
    case True
    then show ?thesis using Cons.prems(1) by (intro exI[of _ "pre @ [q]"] exI[of _ bl] exI[of _ fr]) (simp add: blocks_same)
  next
    case False
    from free_request_inv[OF Cons.prems(1), of q t] obtain rd' bl' fr' where
      f: "server_inv (free_request t q s) rd' bl' fr' held" "rd' = (pre @ [q]) @ todo \<or> rd' = pre @ todo"
        "blocks s bl (free_request t q s) bl'" using rem by auto
    from f(2) obtain pre' where "rd' = pre' @ todo" by auto
    with f(1,3) False show ?thesis by auto
  qed
  then obtain pre' bl' fr' where s1: "server_inv ?s (pre' @ todo) bl' fr' held" "blocks s bl ?s bl'" by blast
  have "free_streams m t (first todo None) ?s = Some s'" using Cons.prems(2) n nx by simp
  from Cons.IH[OF s1(1) this] show ?case using blocks_trans[OF s1(2)] by blast
qed

lemma get_ssl_request_inv:
  assumes "server_inv s rd bl fr held"
  shows "\<exists>pre fr'. server_inv (get_ssl_request cfg acc new s) (pre @ rd) bl fr' held"
proof -
  obtain res s1 where g: "get_sock_request cfg acc s = (res, s1)" by force
  from get_sock_request_inv[OF assms g] obtain pre fr' where "server_inv s1 (pre @ rd) bl fr' held" by blast
  then have "server_inv (get_ssl_request cfg acc new s) (pre @ rd) bl fr' held"
    using g by (simp add: get_ssl_request_def server_inv_def split: option.splits)
  then show ?thesis by blast
qed

lemma process_requests_inv:
  assumes inv: "server_inv s rd bl fr (tunnel s)"
    and run: "process_requests env cfg sigterm web tls restart fuel second old_time ios s = Some (vs, t, s')"
  shows "distinct vs \<and> length vs \<le> MAX_REQUEST \<and> (\<not> restart \<longrightarrow> (\<exists>new. vs = new @ rd)) \<and>
     (\<exists>rd' bl' fr'. server_inv s' rd' bl' fr' (tunnel s') \<and> blocks s bl s' bl')"
proof -
  define s1 where "s1 = (case web of Some a \<Rightarrow> if pending_requests s then get_request cfg a s else s | None \<Rightarrow> s)"
  define s2 where "s2 = (case tls of Some (a, new) \<Rightarrow> get_ssl_request cfg a new s1 | None \<Rightarrow> s1)"
  obtain s3 where s3: "(if restart then free_streams MAX_REQUEST second (request_ready (qu s2)) s2 else Some s2) = Some s3"
    using run unfolding process_requests_def s1_def s2_def Let_def by (auto split: option.splits)
  obtain t' a where ex: "expire_connections fuel (accs env) old_time second (auth (inner s3)) = Some (t', a)"
    using run s3 unfolding process_requests_def s1_def s2_def Let_def by (auto split: option.splits)
  let ?s = "s3\<lparr>inner := (inner s3)\<lparr>auth := a\<rparr>\<rparr>"
  have loop: "process_loop env cfg sigterm ios (request_ready (qu s3)) ?s = Some (vs, s')"
    using run s3 ex unfolding process_requests_def s1_def s2_def Let_def by auto
  have "\<exists>p1 f1. server_inv s1 (p1 @ rd) bl f1 (tunnel s) \<and> blocks s bl s1 bl"
  proof (cases "\<exists>a. web = Some a \<and> pending_requests s")
    case True
    then show ?thesis using get_request_inv[OF inv, of cfg] get_request_blocks[OF inv, of cfg] by (auto simp: s1_def)
  next
    case False
    then have "s1 = s" by (auto simp: s1_def split: option.splits)
    then show ?thesis using inv blocks_refl by (metis append_Nil)
  qed
  then obtain p1 f1 where i1: "server_inv s1 (p1 @ rd) bl f1 (tunnel s)" and b1: "blocks s bl s1 bl" by blast
  have "\<exists>p2 f2. server_inv s2 (p2 @ rd) bl f2 (tunnel s) \<and> blocks s bl s2 bl"
  proof (cases tls)
    case None
    then show ?thesis using i1 b1 by (auto simp: s2_def)
  next
    case (Some at)
    from get_ssl_request_inv[OF i1, of cfg "fst at" "snd at"] obtain pre f2 where
      "server_inv s2 ((pre @ p1) @ rd) bl f2 (tunnel s)" using Some by (auto simp: s2_def split_beta)
    moreover have "blocks s1 bl s2 bl" using get_ssl_request_blocks[OF i1, of cfg "fst at" "snd at"] Some by (auto simp: s2_def split_beta)
    ultimately show ?thesis using blocks_trans[OF b1] by blast
  qed
  then obtain p2 f2 where i2: "server_inv s2 (p2 @ rd) bl f2 (tunnel s)" and b2: "blocks s bl s2 bl" by blast
  have head: "request_ready (qu x) = first xs None" if "server_inv x xs b f h" for x :: "'a server" and xs b f h
    using that queue_head[of "qu x" Ready xs] by (simp add: server_inv_def queues_ok_def list_head_def)
  have "\<exists>rd3 b3 f3. server_inv s3 rd3 b3 f3 (tunnel s) \<and> (\<not> restart \<longrightarrow> rd3 = p2 @ rd) \<and> blocks s2 bl s3 b3"
    using s3 i2 free_streams_inv[of s2 "[]" "p2 @ rd" bl f2 "tunnel s" MAX_REQUEST second s3] head[OF i2] blocks_refl[of s2 bl]
    by (cases restart) fastforce+
  then obtain rd3 b3 f3 where i3: "server_inv s3 rd3 b3 f3 (tunnel s)" "\<not> restart \<longrightarrow> rd3 = p2 @ rd" and b3: "blocks s2 bl s3 b3" by blast
  have "blocks s3 b3 ?s b3" by (rule blocks_same) simp_all
  then have b4: "blocks s bl ?s b3" using blocks_trans b2 b3 by blast
  have "tunnel s3 = tunnel s" using s3 free_streams_tunnel[of MAX_REQUEST second "request_ready (qu s2)" s2 s3]
    by (auto simp: s1_def s2_def split: if_splits option.splits prod.splits)
  then have i: "server_inv ?s ([] @ rd3) b3 f3 (tunnel ?s)" using i3(1) by (simp add: server_inv_def)
  have "request_ready (qu s3) = first rd3 None" using head[OF i3(1)] .
  from process_loop_inv[OF i loop[unfolded this]] have v: "vs = rd3"
      "\<exists>rd' bl' fr'. server_inv s' rd' bl' fr' (tunnel s') \<and> blocks s bl s' bl'"
    using blocks_trans[OF b4] by blast+
  have "distinct rd3" "length rd3 \<le> MAX_REQUEST" using i3(1) by (auto simp: server_inv_def)
  then show ?thesis using v i3(2) by auto
qed


subsection \<open>Waking blocked requests\<close>

definition is_set :: "queues \<Rightarrow> request \<Rightarrow> bool" where
  "is_set s r \<longleftrightarrow> waits_fd r \<in> (if waits_write r then block_write_fdset s else block_read_fdset s)"

definition marked :: "conf \<Rightarrow> request \<Rightarrow> request" where
  "marked cfg r = (if timed_out cfg r then r\<lparr>status := DEAD\<rparr> else r)"

text \<open>The descriptors a blocked request has to do with.\<close>

definition touches :: "request \<Rightarrow> nat set" where
  "touches r = {fd r, waits_fd r}"

lemma fdset_one_cases:
  "fdset_one cfg q s =
    (let r = marked cfg (rq s q); s1 = set_rq q r s in
     if status r = DEAD \<or> is_set (qu s) r then s1\<lparr>qu := ready_request q r (qu s)\<rparr>
     else s1\<lparr>qu := (if waits_write r then set_write_fd else set_read_fd) (waits_fd r) (qu s)\<rparr>)"
  by (cases "status (marked cfg (rq s q))")
    (auto simp: fdset_one_def marked_def[symmetric] Let_def is_set_def waits_write_def waits_fd_def)

lemma server_inv_ready:
  assumes "server_inv s rd bl fr held" "q \<in> set bl"
  shows "server_inv (s\<lparr>qu := ready_request q r (qu s)\<rparr>) (q # rd) (remove1 q bl) fr held"
  using assms ready_request_ok[of "qu s" rd bl fr q r] length_pos_if_in_set[OF assms(2)]
  by (auto simp: server_inv_def length_remove1 neq_Nil_conv)

lemma ready_request_watched:
  assumes "watched s r" "waits_fd r' \<notin> touches r"
  shows "watched (ready_request q r' s) r"
proof -
  have "max_fd (ready_request q r' s) = max_fd s"
    by (auto simp: ready_request_def Let_def clr_read_fd_def clr_write_fd_def split: prod.splits req_status.splits)
  then show ?thesis using assms ready_request_fds[of q r' s] by (auto simp: watched_def touches_def)
qed

lemma set_fd_watched:
  "watched s r \<Longrightarrow> watched (set_read_fd f s) r" "watched s r \<Longrightarrow> watched (set_write_fd f s) r"
  "\<not> waits_write r \<Longrightarrow> watched (set_read_fd (waits_fd r) s) r" "waits_write r \<Longrightarrow> watched (set_write_fd (waits_fd r) s) r"
  by (auto simp: watched_def set_read_fd_def set_write_fd_def)

lemma touches_marked: "waits_fd (marked cfg r) \<in> touches r"
  by (simp add: marked_def touches_def waits_fd_def)

text \<open>A request that rightly stays blocked.\<close>

definition waiting :: "conf \<Rightarrow> queues \<Rightarrow> request \<Rightarrow> bool" where
  "waiting cfg s r \<longleftrightarrow> status r \<noteq> DEAD \<and> \<not> timed_out cfg r \<and> watched s r"

lemma fdset_loop_inv:
  assumes "server_inv s rd (kept @ todo) fr held" "length todo \<le> n"
    and "\<forall>p \<in> set kept. waiting cfg (qu s) (rq s p)"
    and "\<forall>p \<in> set (kept @ todo). \<forall>q \<in> set (kept @ todo). p \<noteq> q \<longrightarrow> touches (rq s p) \<inter> touches (rq s q) = {}"
  shows "\<exists>s' rd' bl'. fdset_loop n cfg (first todo None) s = Some s' \<and> server_inv s' (rd' @ rd) bl' fr held \<and>
    set rd' \<union> set bl' = set (kept @ todo) \<and> (\<forall>p \<in> set bl'. waiting cfg (qu s') (rq s' p))"
  using assms
proof (induction todo arbitrary: n s rd kept)
  case Nil
  then show ?case by (intro exI[of _ s] exI[of _ "[]"] exI[of _ kept]) auto
next
  case (Cons q todo)
  then obtain m where n: "n = Suc m" by (cases n) auto
  let ?r = "marked cfg (rq s q)" and ?s1 = "fdset_one cfg q s"
  have nx: "nxt (lnk (qu s)) q = first todo None"
    using queue_next[of "qu s" Block kept q todo] Cons.prems(1) by (simp add: server_inv_def queues_ok_def)
  have qk: "q \<notin> set kept" "q \<notin> set todo" "q \<in> set (kept @ q # todo)" using Cons.prems(1) by (auto simp: server_inv_def)
  then have rem: "remove1 q (kept @ q # todo) = kept @ todo" by (simp add: remove1_append)
  have i: "server_inv (set_rq q ?r s) rd (kept @ q # todo) fr held" using Cons.prems(1) by (simp add: server_inv_def)
  have tq: "waits_fd ?r \<notin> touches (rq s p)" if "p \<in> set kept" for p
    using Cons.prems(4) touches_marked[of cfg "rq s q"] that qk by fastforce
  have rq1: "rq ?s1 p = (if p = q then ?r else rq s p)" for p by (simp add: fdset_one_cases Let_def)
  have fds: "touches ?r \<subseteq> touches (rq s q)" by (auto simp: marked_def touches_def waits_fd_def)
  show ?case
  proof (cases "status ?r = DEAD \<or> is_set (qu s) ?r")
    case True
    then have qu1: "qu ?s1 = ready_request q ?r (qu s)" by (simp add: fdset_one_cases Let_def)
    have "server_inv ?s1 (q # rd) (kept @ todo) fr held"
      using server_inv_ready[OF i qk(3), of ?r] True rem by (simp add: fdset_one_cases Let_def server_inv_def)
    moreover have "\<forall>p \<in> set kept. waiting cfg (qu ?s1) (rq ?s1 p)"
      using Cons.prems(3) ready_request_watched[OF _ tq] qk(1) by (auto simp: rq1 qu1 waiting_def)
    moreover have "\<forall>p \<in> set (kept @ todo). \<forall>p' \<in> set (kept @ todo). p \<noteq> p' \<longrightarrow> touches (rq ?s1 p) \<inter> touches (rq ?s1 p') = {}"
      using Cons.prems(4) qk by (auto simp: rq1)
    ultimately obtain s' rd' bl' where "fdset_loop m cfg (first todo None) ?s1 = Some s'" "server_inv s' (rd' @ q # rd) bl' fr held"
      "set rd' \<union> set bl' = set (kept @ todo)" "\<forall>p \<in> set bl'. waiting cfg (qu s') (rq s' p)"
      using Cons.IH[of ?s1 "q # rd" kept m] Cons.prems(2) n by auto
    then show ?thesis using n nx by (intro exI[of _ s'] exI[of _ "rd' @ [q]"] exI[of _ bl']) auto
  next
    case False
    then have qu1: "qu ?s1 = (if waits_write ?r then set_write_fd else set_read_fd) (waits_fd ?r) (qu s)" by (simp add: fdset_one_cases Let_def)
    have "queues_ok (qu ?s1) rd (kept @ q # todo) fr" using Cons.prems(1) by (simp add: qu1 server_inv_def queues_ok_def queue_rep_def)
    then have "server_inv ?s1 rd ((kept @ [q]) @ todo) fr held"
      using Cons.prems(1) False by (simp add: server_inv_def fdset_one_cases Let_def)
    moreover have "\<forall>p \<in> set (kept @ [q]). waiting cfg (qu ?s1) (rq ?s1 p)"
      using Cons.prems(3) False qk(1) by (auto simp: rq1 qu1 set_fd_watched waiting_def marked_def split: if_splits)
    moreover have "\<forall>p \<in> set ((kept @ [q]) @ todo). \<forall>p' \<in> set ((kept @ [q]) @ todo). p \<noteq> p' \<longrightarrow> touches (rq ?s1 p) \<inter> touches (rq ?s1 p') = {}"
      using Cons.prems(4) fds by (auto simp: rq1)
    ultimately obtain s' rd' bl' where "fdset_loop m cfg (first todo None) ?s1 = Some s'" "server_inv s' (rd' @ rd) bl' fr held"
      "set rd' \<union> set bl' = set ((kept @ [q]) @ todo)" "\<forall>p \<in> set bl'. waiting cfg (qu s') (rq s' p)"
      using Cons.IH[of ?s1 rd "kept @ [q]" m] Cons.prems(2) n by auto
    then show ?thesis using n nx by (intro exI[of _ s'] exI[of _ rd'] exI[of _ bl']) auto
  qed
qed


definition idle_server :: "nat server" where
  "idle_server = \<lparr>rq = (\<lambda>q. fresh\<lparr>fd := 20 + q, header_line := In_stream 0, time_last := 990\<rparr>),
     qu = sample_queues, request_count = 3, req_malloc = [], inner = sample_state, total_connections = 3, stat_requests = 3,
     stat_errors = 0, pending_requests = False, tunnel = [], acts = []\<rparr>"

lemma idle_server_inv: "server_inv idle_server [4, 7] [5] [] []"
  by (simp add: server_inv_def idle_server_def queues_ok_def queue_rep_def is_queue_def sample_queues_def list_head_def MAX_REQUEST_def)


definition quiet_io :: io where
  "quiet_io = \<lparr>io_accept = A_again, io_read = R_err EAGAIN, io_write = W_err EAGAIN, io_stream = (\<lambda>r. (0, r)), io_rtsp = False, io_second = 7\<rparr>"

lemma quiet_step:
  assumes "rq s q = fresh\<lparr>fd := f, header_line := In_stream 0, time_last := t\<rparr>" "pending_requests s = False"
  shows "\<exists>cur s'. process_one sample_server sample_conf False quiet_io q s = Some (cur, s') \<and> pending_requests s' = False \<and>
     (\<forall>p. p \<noteq> q \<longrightarrow> rq s' p = rq s p)"
proof -
  have "step_request sample_server sample_conf quiet_io (rq s q) (inner s) = Some (- 1, rq s q, inner s)"
    using assms(1) by (simp add: step_request_def read_header_def read_more_def quiet_io_def fresh_def zero_request_def
        reading_header_def would_block_def CLIENT_STREAM_SIZE_def)
  then show ?thesis using assms
    by (simp add: process_one_def Let_def dispatch_result_def set_rq_def fresh_def zero_request_def)
qed


subsection \<open>Kept-alive connections\<close>

lemma new_request_Some:
  assumes "server_inv s rd bl fr held" "fr \<noteq> [] \<or> request_count s < MAX_REQUEST \<and> (\<exists>a ms. req_malloc s = Some a # ms)"
  obtains a s' where "new_request s = (Some a, s')" "rq s' a = cleared (rq s a)"
proof -
  have "request_free (qu s) = first fr None"
    using assms(1) queue_head[of "qu s" Free fr] by (simp add: server_inv_def queues_ok_def list_head_def)
  then show thesis using assms(2) that by (cases fr) (auto simp: new_request_def Let_def)
qed

lemma put_request_fds [simp]: "block_read_fdset (put_request l q s) = block_read_fdset s"
  by (cases l) (auto simp: put_request_def set_head_def split: prod.splits)

text \<open>
  C17: A kept-alive connection. When a request of such a connection has been answered and a structure is available, the connection goes on with
  a new request that has one request less to its credit, starts to parse at the first byte the old one left, and is on the blocked list, waiting to read:
  also when these bytes are a complete request already, which is not answered before the client sends more.
\<close>

theorem keepalive_continues:
  assumes inv: "server_inv s rd bl fr held" and q: "q \<in> set rd" and r: "buffer_end (rq s q) = 0" "keeps_alive (rq s q)"
    and room: "fr \<noteq> [] \<or> request_count s < MAX_REQUEST \<and> (\<exists>a ms. req_malloc s = Some a # ms)"
  shows "\<exists>a fr'. server_inv (free_request t q s) (remove1 q rd) (a # bl) fr' held \<and>
     (let new = rq (free_request t q s) a in
      client_stream new = drop (parse_pos (rq s q)) (client_stream (rq s q)) \<and> parse_inv new \<and> logline new = None \<and>
      fd new = fd (rq s q) \<and> kacount new = kacount (rq s q) - 1 \<and> fd new \<in> block_read_fdset (qu (free_request t q s)))"
proof -
  let ?s = "release_request t (rq s q) (s\<lparr>qu := take_request Ready q (qu s)\<rparr>)"
  have i1: "server_inv ?s (remove1 q rd) bl fr (q # held)" using server_inv_take[OF inv q] by (simp add: server_inv_def)
  have "fr \<noteq> [] \<or> request_count ?s < MAX_REQUEST \<and> (\<exists>a ms. req_malloc ?s = Some a # ms)" using room by simp
  then obtain a s2 where new: "new_request ?s = (Some a, s2)" "rq s2 a = cleared (rq ?s a)" using new_request_Some[OF i1] by blast
  from new_request_inv[OF i1 new(1)] obtain fr' where a: "server_inv s2 (remove1 q rd) bl fr' (a # q # held)" by auto
  let ?s3 = "s2\<lparr>qu := put_request Block a (qu s2)\<rparr>"
  have "server_inv ?s3 (remove1 q rd) (a # bl) fr' (q # held)" by (rule server_inv_put(2)[OF a])
  then have "server_inv (?s3\<lparr>qu := set_read_fd (fd (rq s q)) (qu ?s3)\<rparr>) (remove1 q rd) (a # bl) fr' (q # held)"
    by (simp add: server_inv_def set_read_fd_rep)
  from server_inv_put(3)[OF this] have "server_inv (free_request t q s) (remove1 q rd) (a # bl) (q # fr') held"
    using r new(1) by (auto simp: free_request_def Let_def server_inv_def)
  moreover have "rq (free_request t q s) a = continue_request (rq s q) (cleared (rq s a))"
    "fd (rq s q) \<in> block_read_fdset (qu (free_request t q s))"
    using r new by (simp_all add: free_request_def Let_def set_read_fd_def)
  ultimately show ?thesis
    by (intro exI[of _ a] exI[of _ "q # fr'"]) (simp add: continue_request_def cleared_def zero_request_def parse_inv_def reading_header_def)
qed

definition pipelined :: "nat server" where
  "pipelined = idle_server\<lparr>rq := (rq idle_server)(4 := (rq idle_server 4)\<lparr>keepalive := KA_ACTIVE, kacount := 9, status := DONE,
     response_status := 200, parse_pos := 2, client_stream := ''..GET / HTTP/1.0'' @ CRLF @ CRLF\<rparr>), req_malloc := [Some 30]\<rparr>"

theorem keepalive_continues_witness:
  "\<exists>a fr'. server_inv (free_request 0 4 pipelined) [7] (a # [5]) fr' [] \<and>
     client_stream (rq (free_request 0 4 pipelined) a) = ''GET / HTTP/1.0'' @ CRLF @ CRLF"
proof -
  have e: "server_inv pipelined [4, 7] [5] [] []" "buffer_end (rq pipelined 4) = 0" "keeps_alive (rq pipelined 4)"
    "request_count pipelined < MAX_REQUEST \<and> (\<exists>a ms. req_malloc pipelined = Some a # ms)"
    "drop (parse_pos (rq pipelined 4)) (client_stream (rq pipelined 4)) = ''GET / HTTP/1.0'' @ CRLF @ CRLF"
    using idle_server_inv
    by (simp_all add: pipelined_def server_inv_def idle_server_def keeps_alive_def fresh_def zero_request_def MAX_REQUEST_def)
  show ?thesis using keepalive_continues[OF e(1) _ e(2,3), of 0] e(4,5) by (auto simp: Let_def)
qed

subsection \<open>A file reaches the client\<close>

text \<open>The rounds one request goes through until it is finished.\<close>

fun serve :: "'w server_env \<Rightarrow> conf \<Rightarrow> io list \<Rightarrow> request \<Rightarrow> 'w server_state \<Rightarrow> request option" where
  "serve env cfg [] r st = None"
| "serve env cfg (i # ios) r st =
    (case step_request env cfg i r st of
       None \<Rightarrow> None
     | Some (n, r1, st1) \<Rightarrow> if n = 0 then Some r1 else serve env cfg ios r1 st1)"

lemma step_request_sending:
  assumes s: "sending data answer r" and w: "sock_out r = w # t"
  shows "\<exists>n r'. step_request env cfg i r st = Some (n, r', st) \<and> sending data answer r' \<and> (n = 0 \<longrightarrow> sock_sent r' = answer) \<and>
     (n \<noteq> 0 \<longrightarrow> sock_out r' = t \<and> ((\<exists>k. w = W_ok k) \<longrightarrow> length (sock_sent r') > length (sock_sent r)) \<and>
       length (sock_sent r) \<le> length (sock_sent r'))"
proof (cases "pending r = []")
  case False
  then have live: "buffer_end r \<noteq> 0" "status r = WRITE \<or> status r = DONE" "buf_ok r" using s by (auto simp: pending_def sending_def)
  then have step: "step_request env cfg i r st = map_option (\<lambda>(n, r1). (n, r1, st)) (Some (flush_ret (status r = DONE) r))"
    by (auto simp: step_request_def)
  obtain n r' where f: "req_flush r = (n, r')" "n \<ge> - 1" "sending data answer r'" "status r' = status r" "sock_out r' = t"
      "(\<exists>k. w = W_ok k) \<longrightarrow> length (sock_sent r') > length (sock_sent r)" "n = 0 \<longrightarrow> pending r' = []"
    using sending_flush[OF s w False] by blast
  have "sock_sent r' = answer" if "n = 0" "status r = DONE"
    using f(3,4,7) that by (auto simp: sending_def outstream_def)
  moreover have "length (sock_sent r) \<le> length (sock_sent r')" using req_flush_sent[OF live(3)] f(1) by simp
  moreover have "flush_ret (status r = DONE) r = (if n > 0 \<or> (n = 0 \<and> status r \<noteq> DONE) then (1, r') else (n, r'))"
    using f(1,2) by (simp add: flush_ret_def)
  ultimately show ?thesis using step f by auto
next
  case True
  then have e: "buffer_end r = 0" using s by (simp add: sending_def)
  consider "status r = DONE" | "status r = WRITE" using s by (auto simp: sending_def)
  then show ?thesis
  proof cases
    case 1
    have ok: "buf_ok r" using s by (simp add: sending_def)
    let ?r = "r\<lparr>buffer_start := 0, buffer_end := 0\<rparr>"
    have "step_request env cfg i r st = Some (0, ?r, st)"
      using 1 req_flush_empty[OF ok _ True] by (simp add: step_request_def flush_ret_def)
    moreover have "sending data answer ?r" "sock_sent ?r = answer"
      using s 1 True by (auto simp: sending_def buf_ok_def healthy_def outstream_def pending_def)
    ultimately show ?thesis by blast
  next
    case 2
    obtain n r' where g: "process_get r = (n, r')" "sending data answer r'" "pending r' = []" "n = 0 \<longrightarrow> filepos r' = length data"
        "sock_out r' = t" "n \<noteq> 0 \<longrightarrow> (\<exists>k. w = W_ok k) \<longrightarrow> length (sock_sent r') > length (sock_sent r)"
      "length (sock_sent r) \<le> length (sock_sent r')"
      using process_get_sending[OF s w e 2] by blast
    have "step_request env cfg i r st = Some (n, r', st)" using 2 e s g(1) by (simp add: step_request_def sending_def)
    moreover have "n = 0 \<longrightarrow> sock_sent r' = answer" using g(2-4) by (auto simp: sending_def outstream_def)
    ultimately show ?thesis using g by blast
  qed
qed

lemma serve_sending:
  "sending data answer r \<Longrightarrow> enough answer r \<Longrightarrow> length (sock_out r) \<le> length ios \<Longrightarrow>
   \<exists>r'. serve env cfg ios r st = Some r' \<and> sock_sent r' = answer"
proof (induction ios arbitrary: r)
  case Nil
  then show ?case using enough_sock_out[OF Nil.prems(2) sending_sent[OF Nil.prems(1)]] by auto
next
  case (Cons i ios)
  obtain w t where w: "sock_out r = w # t" by (rule enough_sock_out[OF Cons.prems(2) sending_sent[OF Cons.prems(1)]])
  obtain n r' where st: "step_request env cfg i r st = Some (n, r', st)" "sending data answer r'" "n = 0 \<longrightarrow> sock_sent r' = answer"
      "n \<noteq> 0 \<longrightarrow> sock_out r' = t \<and> ((\<exists>k. w = W_ok k) \<longrightarrow> length (sock_sent r') > length (sock_sent r)) \<and> length (sock_sent r) \<le> length (sock_sent r')"
    using step_request_sending[OF Cons.prems(1) w] by blast
  show ?case
  proof (cases "n = 0")
    case False
    then have "enough answer r'" using st(4) by (intro enough_step[OF Cons.prems(2) w]) auto
    then show ?thesis using Cons.IH[OF st(2)] st False w Cons.prems(3) by simp
  qed (use st in simp)
qed

text \<open>
  C11: A file reaches the client. A file that is mapped into memory, of any length, is delivered: on a connection that does not break and takes at
  least one byte per write, however short the writes are and however often the socket blocks in between, the request ends after at most as many rounds
  as there are socket events, and the client has then received exactly what was in the buffer before, the headers, followed by the whole file.
\<close>

theorem file_reaches_client:
  assumes "buf_ok r" "buffer_end r = 0 \<or> pending r \<noteq> []" "healthy r" "http_stream r = 0" "status r = WRITE"
    and "filesize r = length data" "filepos r = 0" "data_mem r = Some data" "data \<noteq> []"
    and "enough (outstream r @ data) r" "length (sock_out r) \<le> length ios"
  shows "\<exists>r'. serve env cfg ios (buffer_start_of_file data r) st = Some r' \<and> sock_sent r' = outstream r @ data"
  using buffer_start_sending[OF assms(1-10)] assms(11) serve_sending[of data "outstream r @ data" "buffer_start_of_file data r" ios env cfg st]
  by auto

definition sending_request :: request where
  "sending_request = fresh\<lparr>status := WRITE, data_mem := Some ''hello'', filesize := 5,
     sock_out := [W_ok 2, W_err EAGAIN, W_ok 1, W_ok 1, W_ok 1, W_ok 9, W_ok 9]\<rparr>"

theorem file_reaches_client_witness:
  "\<exists>r'. serve sample_server sample_conf (replicate 7 quiet_io) (buffer_start_of_file ''hello'' sending_request) sample_state = Some r' \<and>
     sock_sent r' = ''hello''"
proof -
  have "buf_ok sending_request" "outstream sending_request = []" "buffer_end sending_request = 0"
    by (simp_all add: sending_request_def fresh_def zero_request_def buf_ok_def outstream_def pending_def)
  then show ?thesis
    using file_reaches_client[of sending_request "''hello''" "replicate 7 quiet_io" sample_server sample_conf sample_state]
    by (simp add: sending_request_def healthy_def enough_def offers_def would_block_def fresh_def zero_request_def)
qed

end
