(* ===== verification/Boa_Safe.thy ===== *)
theory Boa_Safe
  imports Boa_Server
begin

text \<open>
  Memory safety of the request structures: whatever a client sends, the offsets a request keeps into its two arrays stay inside
  them, in every state the server can reach. The routines that only write headers, start programs, translate names and so on are treated once,
  in the locale \<open>request_inv\<close>, for any property of the arrays and their offsets.
\<close>

subsection \<open>Properties of the arrays of a request\<close>

definition memory :: "request \<Rightarrow> char list \<times> nat \<times> nat \<times> hptr \<times> hptr \<times> char list" where
  "memory r = (buffer r, buffer_start r, buffer_end r, header_line r, header_end r, client_stream r)"

locale request_inv =
  fixes P :: "request \<Rightarrow> bool"
  assumes mem: "memory r' = memory r \<Longrightarrow> P r \<Longrightarrow> P r'"
    and emit: "P r \<Longrightarrow> P (emit ps r)"
    and flush: "P r \<Longrightarrow> P (snd (req_flush r))"
    and fill: "P r \<Longrightarrow> buffer_end r + length s \<le> BUFFER_SIZE \<Longrightarrow> P (append_to_buffer s r)"
    and rewind: "P r \<Longrightarrow> P (r\<lparr>buffer_end := 0\<rparr>)"
    and relay: "P r \<Longrightarrow> n \<le> BUFFER_SIZE \<Longrightarrow> P (r\<lparr>header_line := In_buffer n, header_end := In_buffer n\<rparr>)"
begin

lemma mem_eq: "memory r' = memory r \<Longrightarrow> P r' = P r"
  using mem[of r' r] mem[of r r'] by metis

lemma updates [simp]:
  "P (r\<lparr>status := a1\<rparr>) = P r" "P (r\<lparr>time_last := a2\<rparr>) = P r" "P (r\<lparr>pathname := a3\<rparr>) = P r" "P (r\<lparr>simple := a4\<rparr>) = P r"
  "P (r\<lparr>keepalive := a5\<rparr>) = P r" "P (r\<lparr>kacount := a6\<rparr>) = P r" "P (r\<lparr>data_fd := a7\<rparr>) = P r" "P (r\<lparr>filesize := a8\<rparr>) = P r"
  "P (r\<lparr>filepos := a9\<rparr>) = P r" "P (r\<lparr>data_mem := b1\<rparr>) = P r" "P (r\<lparr>method := b2\<rparr>) = P r" "P (r\<lparr>logline := b3\<rparr>) = P r"
  "P (r\<lparr>parse_pos := b4\<rparr>) = P r" "P (r\<lparr>http_version := b5\<rparr>) = P r" "P (r\<lparr>response_status := b6\<rparr>) = P r"
  "P (r\<lparr>if_modified_since := b7\<rparr>) = P r" "P (r\<lparr>last_modified := b8\<rparr>) = P r" "P (r\<lparr>http_uri := b9\<rparr>) = P r"
  "P (r\<lparr>authority := c1\<rparr>) = P r" "P (r\<lparr>connect := c2\<rparr>) = P r" "P (r\<lparr>curr_user_id := c3\<rparr>) = P r" "P (r\<lparr>curr_user_ip := c4\<rparr>) = P r"
  "P (r\<lparr>is_memory := c5\<rparr>) = P r" "P (r\<lparr>has_mmap_ptr := c6\<rparr>) = P r" "P (r\<lparr>cmd_string := c7\<rparr>) = P r" "P (r\<lparr>cmd_count := c8\<rparr>) = P r"
  "P (r\<lparr>cmd_arg := c9\<rparr>) = P r" "P (r\<lparr>is_cgi := d1\<rparr>) = P r" "P (r\<lparr>cgi_status := d2\<rparr>) = P r" "P (r\<lparr>cgi_env := d3\<rparr>) = P r"
  "P (r\<lparr>header_user_agent := d4\<rparr>) = P r" "P (r\<lparr>header_referer := d5\<rparr>) = P r" "P (r\<lparr>post_data_fd := d6\<rparr>) = P r"
  "P (r\<lparr>path_info := d7\<rparr>) = P r" "P (r\<lparr>path_translated := d8\<rparr>) = P r" "P (r\<lparr>script_name := d9\<rparr>) = P r"
  "P (r\<lparr>query_string := e1\<rparr>) = P r" "P (r\<lparr>content_type := e2\<rparr>) = P r" "P (r\<lparr>content_length := e3\<rparr>) = P r"
  "P (r\<lparr>mmap_entry_var := e4\<rparr>) = P r" "P (r\<lparr>authorization := e5\<rparr>) = P r" "P (r\<lparr>sessionid := e6\<rparr>) = P r"
  "P (r\<lparr>request_uri := e7\<rparr>) = P r" "P (r\<lparr>sock_out := e8\<rparr>) = P r" "P (r\<lparr>sock_sent := e9\<rparr>) = P r" "P (SQUASH_KA r) = P r"
  "P (r\<lparr>ssl := f1\<rparr>) = P r" "P (r\<lparr>busy_audio := f2\<rparr>) = P r" "P (r\<lparr>busy_video := f3\<rparr>) = P r"
  "P (r\<lparr>flag_set_mac := f4\<rparr>) = P r" "P (r\<lparr>flag_reboot := f5\<rparr>) = P r" "P (r\<lparr>flag_restart := f6\<rparr>) = P r"
  by (rule mem_eq; simp add: memory_def SQUASH_KA_def)+

lemma error_page: "P r \<Longrightarrow> P (error_page cfg st l h b r)"
  unfolding error_page_def Let_def by (intro flush emit) simp

lemma send_error:
  assumes "P r"
  shows "P (send_r_bad_request cfg r)" "P (send_r_not_found cfg r)" "P (send_r_forbidden cfg r)" "P (send_r_unauthorized realm cfg r)"
    "P (send_r_error cfg r)" "P (send_r_not_implemented cfg r)" "P (send_r_bad_gateway cfg r)" "P (send_r_service_unavailable cfg r)"
    "P (send_r_moved_perm url cfg r)" "P (send_r_moved_temp url hdr cfg r)" "P (boa_perror cfg r)"
  using assms by (simp_all add: send_error_defs boa_perror_def error_page)

lemma send_ok:
  assumes "P r"
  shows "P (send_r_request_ok cfg r)" "P (send_request_ok_no_cache cfg r)" "P (send_r_not_modified cfg r)"
  using assms by (simp_all add: send_r_request_ok_def send_request_ok_no_cache_def send_r_not_modified_def Let_def emit flush)

lemma sock_write: "P r \<Longrightarrow> P (snd (sock_write data r))"
  by (simp add: sock_write_def Let_def split: list.split wr_result.split)

lemma init_cgi: "P r \<Longrightarrow> P (snd (init_cgi cfg sys r))"
proof -
  have add: "P (snd (add_all kvs r)) = P r" for kvs r
    by (induction kvs r rule: add_all.induct) (auto simp: add_cgi_env_def)
  have ce: "P (snd (complete_env cfg r)) = P r" for r
    using add[of "complete_env_vars cfg r" r] by (auto simp: complete_env_def split: prod.splits bool.splits)
  assume ok: "P r"
  obtain b r1 where c: "(if is_cgi r \<noteq> NO_CGI then complete_env cfg (SQUASH_KA r) else (True, SQUASH_KA r)) = (b, r1)"
    by fastforce
  then have r1: "P r1" using ok ce[of "SQUASH_KA r"] by (auto split: if_splits)
  have par: "P (snd (cgi_parent p r1))" for p
    using r1 relay[of r1 "BUFFER_SIZE div 2"] relay[of r1 0] relay[of "r1\<lparr>post_data_fd := 0\<rparr>"]
    by (auto simp: cgi_parent_def Let_def split: option.splits intro!: relay)
  show ?thesis using r1 par by (cases b) (auto simp: init_cgi_def c send_error Let_def)
qed

subsubsection \<open>Files\<close>

definition dir_inv :: "dir_result \<Rightarrow> bool" where
  "dir_inv d \<longleftrightarrow> (case d of Dir_error r \<Rightarrow> P r | Dir_return n r \<Rightarrow> P r | Dir_file f r \<Rightarrow> P r | Dir_crash \<Rightarrow> True)"

lemma dir_inv_simps [simp]:
  "dir_inv (Dir_error r) = P r" "dir_inv (Dir_return n r) = P r" "dir_inv (Dir_file f r) = P r" "dir_inv Dir_crash"
  by (simp_all add: dir_inv_def)

lemma dir_inv_cgi: "P r \<Longrightarrow> dir_inv (case init_cgi cfg sys r of (ret, r1) \<Rightarrow> Dir_return ret r1)"
  using init_cgi[of r cfg sys] by (cases "init_cgi cfg sys r") simp

lemma index_directory: "P r \<Longrightarrow> case index_directory env cfg r of Inl r' \<Rightarrow> P r' | Inr r' \<Rightarrow> P r'"
  by (simp add: index_directory_def send_error split: option.split)

lemma get_cachedir_file:
  assumes "P r" shows "dir_inv (get_cachedir_file env cfg cache f r)"
proof -
  have found: "dir_inv (case directory_index cfg of None \<Rightarrow> Dir_crash | Some idx \<Rightarrow> Dir_file g (q\<lparr>request_uri := idx\<rparr>))" if "P q" for g q
    using that by (simp split: option.split)
  show ?thesis using assms index_directory[OF assms, of env cfg] found
    by (cases "index_directory env cfg r") (simp_all add: get_cachedir_file_def Let_def send_error split: sum.split option.split)
qed

lemma dir_fallback: "P r \<Longrightarrow> dir_inv (dir_fallback env cfg sys f r)"
  by (simp add: dir_fallback_def Let_def send_error get_cachedir_file dir_inv_cgi emit flush split: option.split)

lemma get_dir: "P r \<Longrightarrow> dir_inv (get_dir env cfg sys path f r)"
  by (simp add: get_dir_def Let_def send_error dir_fallback dir_inv_cgi emit flush split: option.split sum.split)

lemma gunzip_reply: "P r \<Longrightarrow> P (snd (gunzip_reply cfg sys path r))"
  by (auto simp: gunzip_reply_def Let_def intro!: init_cgi flush emit)

lemma buffer_start_of_file:
  assumes "P r" shows "P (buffer_start_of_file data r)"
proof -
  let ?n = "min (BUFFER_SIZE - buffer_end r) (filesize r)"
  have "P ((append_to_buffer (take ?n data) r)\<lparr>filepos := filepos r + ?n\<rparr>)" if "BUFFER_SIZE - buffer_end r \<noteq> 0"
    using that assms by (auto intro!: fill)
  then show ?thesis using assms by (auto simp: buffer_start_of_file_def Let_def flush)
qed

definition result_inv :: "(int \<times> request \<times> 's) option \<Rightarrow> bool" where
  "result_inv x \<longleftrightarrow> (case x of None \<Rightarrow> True | Some (n, r, s) \<Rightarrow> P r)"

lemma result_inv_simps [simp]: "result_inv None" "result_inv (Some (n, r, s)) = P r"
  by (simp_all add: result_inv_def)

lemma result_inv_case: "P (snd x) \<Longrightarrow> result_inv (case x of (n, r) \<Rightarrow> Some (n, r, s))"
  by (cases x) simp

lemma serve_mapped: "P r \<Longrightarrow> result_inv (serve_mapped env cfg i r m)"
  by (simp add: serve_mapped_def Let_def send_ok buffer_start_of_file split: option.split)

lemma errno_page: "P r \<Longrightarrow> P (errno_page cfg e r)"
  by (simp add: errno_page_def send_error)

lemma serve_file:
  assumes "P r" shows "result_inv (serve_file env cfg f r m)"
proof -
  let ?r1 = "r\<lparr>filesize := st_size (ff_id f), last_modified := ff_mtime f\<rparr>"
  have r1: "P ?r1" using assms by simp
  have "P ((snd (req_flush ((send_r_request_ok cfg ?r1)\<lparr>status := PIPE_READ, cgi_status := CGI_BUFFER, data_fd := open_fd env\<rparr>)))
      \<lparr>header_line := In_buffer 0, header_end := In_buffer 0\<rparr>)"
    using r1 by (intro relay flush) (simp_all add: send_ok)
  moreover have "P (?r1\<lparr>buffer_end := 0\<rparr>)" by (rule rewind[OF r1])
  ultimately show ?thesis using r1 assms serve_mapped[OF r1] send_ok(1)[OF r1]
    by (simp add: serve_file_def Let_def send_ok(3) errno_page split: option.split prod.split)
qed

lemma init_get:
  assumes "P r" shows "result_inv (init_get env cfg sys r m)"
proof (cases "case pathname r of None \<Rightarrow> Inl EOTHER | Some path \<Rightarrow> fs_open env path")
  case (Inl e)
  then show ?thesis using assms gunzip_reply[OF assms] by (simp add: init_get_def errno_page result_inv_case split: option.split sum.split)
next
  case (Inr f)
  have d: "result_inv (case d of Dir_crash \<Rightarrow> None | Dir_error r1 \<Rightarrow> Some (0, r1, m) | Dir_return ret r1 \<Rightarrow> Some (ret, r1, m)
      | Dir_file g r1 \<Rightarrow> serve_file env cfg g r1 m)" if "dir_inv d" for d
    using that by (cases d) (simp_all add: serve_file)
  show ?thesis using Inr assms d[OF get_dir[OF assms]] by (simp add: init_get_def Let_def send_error serve_file)
qed

subsubsection \<open>The end of the headers\<close>

lemma classify_file: "P r \<Longrightarrow> P (snd (classify_file cfg path r))"
  by (simp add: classify_file_def Let_def send_error)

lemma translate_root: "P r \<Longrightarrow> P (fst (snd (translate_root cfg r hc)))"
  using classify_file[of r cfg] by (simp add: translate_root_def Let_def send_error split: option.split prod.split) (metis snd_conv)

lemma translate_path_info:
  "P r \<Longrightarrow> case translate_path_info cfg env info r hc of Inl r' \<Rightarrow> P r' | Inr (r', h) \<Rightarrow> P r'"
  by (simp add: translate_path_info_def Let_def send_error split: option.split prod.split)

lemma script_result:
  assumes "P r"
  shows "P (fst (snd (case translate_path_info cfg env info r hc of
      Inl r2 \<Rightarrow> (0 :: int, r2, hc) | Inr (r2, hc') \<Rightarrow> (1, r2\<lparr>pathname := p\<rparr>, hc'))))"
  using translate_path_info[OF assms, of cfg env info hc] by (auto split: sum.splits)

lemma init_script_alias: "P r \<Longrightarrow> P (fst (snd (init_script_alias cfg env a n r hc)))"
  by (simp add: init_script_alias_def Let_def send_error script_result split: script_end.split option.split)

lemma translate_uri:
  assumes "P r" shows "P (fst (snd (translate_uri cfg env r hc)))"
proof -
  have c: "P (fst (snd (case classify_file cfg path q of (n, r') \<Rightarrow> (n, r', h))))" if "P q" for path q h
    using classify_file[OF that, of cfg path] by (cases "classify_file cfg path q") simp
  show ?thesis using assms
    by (simp add: translate_uri_def Let_def send_error init_script_alias translate_root c split: option.split prod.split)
qed

lemma check_user: "P r \<Longrightarrow> result_inv (check_user env name passwd r s)"
  by (simp add: check_user_def enter_connection_def Let_def split: option.split prod.split bool.split)

lemma check_pair: "P r \<Longrightarrow> result_inv (check_pair env pair r s)"
  by (simp add: check_pair_def Let_def check_user split: option.split)

lemma auth_authorize:
  assumes "P r" shows "result_inv (auth_authorize env bh sk r s)"
proof (cases "http_uri r")
  case (Some u)
  have "P r1" if "uri_decoding d r = Some (n, r1)" for d n r1
    using that assms by (auto simp: uri_decoding_def split: option.splits)
  then show ?thesis using assms Some
    by (simp add: auth_authorize_def check_user check_pair Let_def split: option.split prod.split)
qed (simp add: auth_authorize_def)

lemma start_reply:
  assumes "P r" shows "result_inv (start_reply env cfg r s)"
proof -
  have "result_inv (case x of None \<Rightarrow> None | Some (n, r1, m) \<Rightarrow> Some (n, r1, s\<lparr>mmaps := m\<rparr>))" if "result_inv x" for x
    using that by (auto split: option.splits)
  moreover have "result_inv (init_get (files env) cfg (cgis env) (r\<lparr>status := WRITE\<rparr>) (mmaps s))" using assms by (intro init_get) simp
  ultimately show ?thesis using assms by (simp add: start_reply_def Let_def result_inv_case init_cgi)
qed

definition handlers_keep :: "'w server_env \<Rightarrow> bool" where
  "handlers_keep env \<longleftrightarrow> (\<forall>h r s. P r \<longrightarrow> P (fst (snd (uri_run env h (r, s)))))"

lemma run_handler:
  assumes "handlers_keep env" "P r" shows "result_inv (run_handler env cfg u r s)"
proof (cases "uri_handler u")
  case (Some h)
  then show ?thesis using assms start_reply
    by (cases "uri_run env h (r, s)") (auto simp: run_handler_def handlers_keep_def dest!: spec[of _ h] spec[of _ r] spec[of _ s])
qed (simp add: run_handler_def assms start_reply)

lemma authorize_page:
  assumes "handlers_keep env" "P r" shows "result_inv (authorize_page env cfg u r s)"
  using auth_authorize[OF assms(2), of "accs env" "behind env" "stack env" "auth s"] run_handler[OF assms(1)]
  by (auto simp: authorize_page_def Let_def send_error split: option.splits)

lemma process_header_end:
  assumes "handlers_keep env" "P r" shows "result_inv (process_header_end env cfg r s)"
proof (cases "logline r = None \<or> unescape_uri True (request_uri r) = None")
  case True
  then show ?thesis using assms(2) by (auto simp: process_header_end_def send_error)
next
  case False
  then obtain uq where uq: "logline r \<noteq> None" "unescape_uri True (request_uri r) = Some uq" by auto
  define r1 where "r1 = cleaned uq r"
  obtain ok r2 h where t: "translate_uri cfg (uris env) r1 (homes s) = (ok, r2, h)" by (metis prod_cases3)
  have r1: "P r1" using assms(2) by (simp add: r1_def cleaned_def)
  then have r2: "P r2" using translate_uri[OF r1, of cfg "uris env" "homes s"] t by simp
  then show ?thesis using uq t r1 assms(2) authorize_page[OF assms(1)]
    by (simp add: process_header_end_def Let_def r1_def[symmetric] send_error start_reply split: option.split)
qed

end

subsection \<open>The offsets of a request stay inside its arrays\<close>

fun ptrs_ok :: "hptr \<Rightarrow> hptr \<Rightarrow> bool" where
  "ptrs_ok (In_buffer a) (In_buffer e) \<longleftrightarrow> a \<le> e \<and> e \<le> BUFFER_SIZE"
| "ptrs_ok (In_buffer a) _ \<longleftrightarrow> a \<le> BUFFER_SIZE"
| "ptrs_ok _ (In_buffer e) \<longleftrightarrow> e \<le> BUFFER_SIZE"
| "ptrs_ok _ _ \<longleftrightarrow> True"

definition mem_ok :: "request \<Rightarrow> bool" where
  "mem_ok r \<longleftrightarrow> length (buffer r) = BUFFER_SIZE + 1 \<and> buffer_start r \<le> BUFFER_SIZE \<and> buffer_end r \<le> BUFFER_SIZE \<and>
     ptrs_ok (header_line r) (header_end r) \<and> client_stream_pos r \<le> CLIENT_STREAM_SIZE"

lemma ptrs_ok_stream: "ptrs_ok l e \<Longrightarrow> ptrs_ok (In_stream n) e" "ptrs_ok l e \<Longrightarrow> ptrs_ok l (In_stream n)"
  by (cases l; cases e; simp)+

lemma mem_ok_append: "mem_ok r \<Longrightarrow> buffer_end r + length s \<le> BUFFER_SIZE \<Longrightarrow> mem_ok (append_to_buffer s r)"
  by (simp add: mem_ok_def append_to_buffer_def)

lemma mem_ok_piece: "mem_ok r \<Longrightarrow> mem_ok (put_piece m r)"
proof -
  assume ok: "mem_ok r"
  obtain p where "put_piece m r = append_to_buffer p r \<or> put_piece m r = (append_to_buffer p r)\<lparr>status := DEAD\<rparr>"
    using w_piece.wr_shape[of m r] by blast
  moreover have "buffer_end (put_piece m r) \<le> BUFFER_SIZE" using ok by (intro w_piece.wr_bound) (simp add: mem_ok_def)
  ultimately have "buffer_end r + length p \<le> BUFFER_SIZE" "put_piece m r = append_to_buffer p r \<or> put_piece m r = (append_to_buffer p r)\<lparr>status := DEAD\<rparr>"
    by auto
  then show ?thesis using mem_ok_append[OF ok, of p] by (auto simp: mem_ok_def)
qed

lemma mem_ok_flush:
  assumes "mem_ok r" shows "mem_ok (snd (req_flush r))"
proof (cases "buf_ok r")
  case True
  from req_flush_ok[OF True] have "buf_ok (snd (req_flush r))" .
  then show ?thesis using assms io_erase_fields[OF io_erase_flush[of r]] by (auto simp: mem_ok_def buf_ok_def)
next
  case False
  then have "buffer_start r > buffer_end r" using assms by (auto simp: mem_ok_def buf_ok_def)
  then show ?thesis using assms by (simp add: req_flush_def mem_ok_def Let_def)
qed

interpretation mi: request_inv mem_ok
proof
  show "mem_ok r'" if "memory r' = memory r" "mem_ok r" for r r' using that by (simp add: memory_def mem_ok_def)
  show "mem_ok (emit ps r)" if "mem_ok r" for r ps
    using that unfolding emit_def by (induction ps arbitrary: r) (auto intro: mem_ok_piece)
  show "mem_ok (snd (req_flush r))" if "mem_ok r" for r using that by (rule mem_ok_flush)
  show "mem_ok (append_to_buffer s r)" if "mem_ok r" "buffer_end r + length s \<le> BUFFER_SIZE" for r s using that by (rule mem_ok_append)
  show "mem_ok (r\<lparr>buffer_end := 0\<rparr>)" if "mem_ok r" for r using that by (simp add: mem_ok_def)
  show "mem_ok (r\<lparr>header_line := In_buffer n, header_end := In_buffer n\<rparr>)" if "mem_ok r" "n \<le> BUFFER_SIZE" for r n
    using that by (simp add: mem_ok_def)
qed

subsection \<open>Reading a request\<close>

lemma process_logline_mem:
  assumes "mem_ok r" shows "mem_ok (snd (process_logline cfg r))"
proof -
  have fin: "mem_ok (snd (logline_done cfg q))" if "mem_ok q" for q using that by (simp add: logline_done_def mi.send_error)
  have rtsp: "mem_ok (logline_rtsp (length line - length ver) stop ver q)"
    if "mem_ok q" "client_stream q = client_stream r" "line = cstr (client_stream r)" "suffix ver line" "scan_version ''RTSP'' ver = Some v" for q line ver stop v
  proof -
    have "8 \<le> length ver" using scan_version_length[OF that(5)] by simp
    moreover have "length ver \<le> length line" using that(4) by (simp add: suffix_length_le)
    moreover have "length line \<le> client_stream_pos r" using that(3) by (simp add: cstr_def length_takeWhile_le)
    ultimately show ?thesis using that(1,2) by (simp add: logline_rtsp_def overwrite_version_def mem_ok_def)
  qed
  show ?thesis
  proof (cases "logline_method (cstr (client_stream r))")
    case None
    then show ?thesis using assms by (simp add: process_logline_def Let_def mi.send_error)
  next
    case (Some mn)
    obtain m n where mn: "mn = (m, n)" by force
    define line where "line = cstr (client_stream r)"
    define stop where "stop = dropWhile (\<lambda>c. c = SP) (drop n line)"
    define ver where "ver = dropWhile (\<lambda>c. c = SP) (dropWhile (\<lambda>c. c \<noteq> SP) stop)"
    let ?r2 = "r\<lparr>logline := Some line, method := m, http_version := SIMPLE_HTTP_VERSION, simple := True\<rparr>"
    let ?r3 = "?r2\<lparr>request_uri := takeWhile (\<lambda>c. c \<noteq> SP) stop\<rparr>"
    have "suffix ver line" unfolding ver_def stop_def by (meson suffix_drop suffix_dropWhile suffix_order.trans)
    then have ver: "mem_ok (snd (logline_version cfg (length line - length ver) stop ver q))" if "mem_ok q" "client_stream q = client_stream r" for q
      using that rtsp[OF that line_def] fin by (simp add: logline_version_def mi.send_error split: option.split)
    have "process_logline cfg r = (if length (takeWhile (\<lambda>c. c \<noteq> SP) stop) > MAX_HEADER_LENGTH then (0, send_r_bad_request cfg ?r2)
        else if dropWhile (\<lambda>c. c \<noteq> SP) stop = [] then logline_done cfg ?r3
        else logline_version cfg (length line - length ver) stop ver ?r3)"
      unfolding process_logline_def Let_def Some mn option.case prod.case ver_def stop_def line_def ..
    moreover have "mem_ok ?r3" "mem_ok ?r2" using assms by simp_all
    ultimately show ?thesis using ver[of ?r3] fin[of ?r3] mi.send_error(1)[of ?r2] by (simp del: mi.updates)
  qed
qed

lemma process_option_line_mem:
  assumes "mem_ok r" shows "mem_ok (snd (process_option_line cfg r))"
proof -
  define k where "k = stream_offset (header_line r)"
  define line where "line = cstr (drop k (client_stream r))"
  show ?thesis
  proof (cases "strchr (CHR '':'') line")
    case None
    then show ?thesis using assms by (simp add: process_option_line_def Let_def line_def k_def)
  next
    case (Some rest)
    let ?q = "r\<lparr>client_stream := take k (client_stream r) @ to_upper (before (CHR '':'') line) @
      NUL # drop (k + length (to_upper (before (CHR '':'') line)) + 1) (client_stream r)\<rparr>"
    have "length (before (CHR '':'') line) < length line" using strchr_Some[OF Some] by (metis append_eq_conv_conj length_greater_0_conv length_append less_add_same_cancel1)
    also have "length line \<le> length (drop k (client_stream r))" unfolding line_def cstr_def by (rule length_takeWhile_le)
    finally have "mem_ok ?q" using assms by (cases "client_stream_pos r") (auto simp: mem_ok_def to_upper_def)
    then have "mem_ok (snd (option_value cfg n v ?q))" for n v
      by (simp add: option_value_def add_accept_header_def add_cgi_env_def)
    then show ?thesis using Some by (simp add: process_option_line_def Let_def line_def k_def)
  qed
qed

lemma mem_ok_stream [simp]: "mem_ok (r\<lparr>client_stream := (client_stream r)[i := c]\<rparr>) = mem_ok r"
  by (simp add: mem_ok_def)

lemma mem_ok_stream_ptr:
  "mem_ok r \<Longrightarrow> mem_ok (r\<lparr>header_line := In_stream n\<rparr>)" "mem_ok r \<Longrightarrow> mem_ok (r\<lparr>header_end := In_stream n\<rparr>)"
  by (auto simp: mem_ok_def intro: ptrs_ok_stream)

lemma scan_char_mem: "mem_ok r \<Longrightarrow> mem_ok (scan_char r)"
  by (simp add: scan_char_def Let_def mem_ok_stream_ptr)

definition header_step_inv :: "'w header_step \<Rightarrow> bool" where
  "header_step_inv x \<longleftrightarrow> (case x of H_next r \<Rightarrow> mem_ok r | H_return y \<Rightarrow> mi.result_inv y)"

lemma header_step_inv_simps [simp]: "header_step_inv (H_next r) = mem_ok r" "header_step_inv (H_return y) = mi.result_inv y"
  by (simp_all add: header_step_inv_def)

lemma line_done_mem:
  assumes "mi.handlers_keep env" "mem_ok r" shows "header_step_inv (line_done env cfg r s)"
proof -
  let ?r = "r\<lparr>client_stream := (client_stream r)[stream_offset (header_end r) := NUL]\<rparr>"
  have r: "mem_ok ?r" using assms(2) by simp
  show ?thesis using process_option_line_mem[OF r, of cfg] process_logline_mem[OF r, of cfg] mi.process_header_end[OF assms(1)]
    by (cases "process_option_line cfg ?r"; cases "process_logline cfg ?r") (simp add: line_done_def Let_def mem_ok_stream_ptr)
qed

lemma post_length_mem: "mem_ok r \<Longrightarrow> mem_ok (snd (post_length cfg r))"
  by (simp add: post_length_def Let_def mi.send_error mem_ok_stream_ptr split: option.split)

lemma headers_done_mem:
  assumes "mi.handlers_keep env" "mem_ok r" shows "mi.result_inv (headers_done env cfg r s)"
proof (cases "process_header_end env cfg r s")
  case (Some x)
  obtain n r1 s1 where x: "x = (n, r1, s1)" by (metis prod_cases3)
  define r2 where "r2 = r1\<lparr>header_line := In_stream (parse_pos r), header_end := In_stream (client_stream_pos r1)\<rparr>"
  have r1: "mem_ok r1" using mi.process_header_end[OF assms, of cfg s] Some x by simp
  then have r2: "mem_ok r2" by (simp add: r2_def mem_ok_def)
  then have "mem_ok (r2\<lparr>client_stream := drop (parse_pos r2) (client_stream r2), parse_pos := 0, buffer_start := 0, buffer_end := 0\<rparr>)"
    by (auto simp: mem_ok_def)
  then show ?thesis using r1 r2 post_length_mem[OF r2, of cfg] Some
    by (cases "post_length cfg r2") (simp add: headers_done_def x Let_def r2_def[symmetric])
qed (simp add: headers_done_def)

lemma header_loop_mem: "mi.handlers_keep env \<Longrightarrow> mem_ok r \<Longrightarrow> header_step_inv (header_loop n env cfg r s)"
proof (induction n arbitrary: r)
  case (Suc n)
  have "header_step_inv (header_step env cfg r s)"
    using Suc.prems scan_char_mem[OF Suc.prems(2)] by (simp add: header_step_def Let_def line_done_mem headers_done_mem)
  then show ?case using Suc.IH[OF Suc.prems(1)] by (cases "header_step env cfg r s") simp_all
qed simp

lemma read_header_mem:
  assumes "mi.handlers_keep env" "mem_ok r" shows "mi.result_inv (read_header env cfg rd r s)"
proof -
  have "mem_ok (snd (read_more rd q))" if "mem_ok q" for q
    using that by (auto simp: read_more_def Let_def mem_ok_def split: rd_result.split)
  then show ?thesis using header_loop_mem[OF assms, of "client_stream_pos r - parse_pos r" cfg s]
    by (auto simp: read_header_def mi.result_inv_case split: header_step.split)
qed

subsection \<open>Bodies, programs, and the step of a request\<close>

lemma span_bound:
  assumes "mem_ok r" "span r = Some (p, chunk)" "k \<le> length chunk"
  shows "mem_ok (r\<lparr>header_line := hptr_add p k\<rparr>)"
  using assms(2)
proof (cases rule: span_cases)
  case (1 a b)
  then show ?thesis using assms(1) by (simp add: mem_ok_stream_ptr)
next
  case (2 a b)
  then show ?thesis using assms(1,3) by (auto simp: mem_ok_def)
qed

lemma read_body_mem:
  assumes "mem_ok r" "read_body cfg rd r = Some (n, r')" shows "mem_ok r'"
proof -
  have put: "mem_ok (r\<lparr>status := BODY_WRITE, buffer := mem_put b got (buffer r), header_end := In_buffer (b + length got)\<rparr>)"
    if "header_end r = In_buffer b" "b + length got \<le> BUFFER_SIZE" for b got
    using that assms(1) by (cases "header_line r") (auto simp: mem_ok_def)
  obtain p chunk where "span r = Some (p, chunk)" using assms(2) by (auto simp: read_body_def split: option.splits)
  then show ?thesis using assms put
    by (auto simp: read_body_def Let_def mi.send_error simp del: length_take split: if_splits rd_result.splits hptr.splits)
qed

lemma write_body_mem:
  assumes "mem_ok r" "write_body cfg sys wr r = Some (n, out, r')" shows "mem_ok r'"
proof -
  obtain p chunk where sp: "span r = Some (p, chunk)" using assms(2) by (auto simp: write_body_def split: option.splits)
  let ?k = "if filepos r + length chunk > filesize r then filesize r - filepos r else length chunk"
  let ?r1 = "r\<lparr>header_line := In_buffer 0, header_end := In_buffer 0\<rparr>"
  have r1: "mem_ok ?r1" using assms(1) by (rule mi.relay) simp
  show ?thesis
  proof (cases "?k = 0")
    case True
    then show ?thesis using assms r1 mi.init_cgi[OF r1, of cfg sys] sp
      by (cases "init_cgi cfg sys ?r1") (auto simp: write_body_def Let_def split: if_splits)
  next
    case False
    have ptr: "mem_ok (r\<lparr>filepos := filepos r + length o', header_line := hptr_add p (length o')\<rparr>)" if "length o' \<le> length chunk" for o'
      using span_bound[OF assms(1) sp that] by (simp add: mem_ok_def)
    show ?thesis
    proof (cases wr)
      case (W_err e)
      then show ?thesis using assms sp False by (auto simp: write_body_def Let_def mi.send_error split: if_splits)
    next
      case (W_ok m)
      then have "out = take m (take ?k chunk)" "r' = r\<lparr>filepos := filepos r + length out, header_line := hptr_add p (length out)\<rparr>"
        using assms(2) sp False unfolding write_body_def Let_def by (auto simp del: length_take)
      then show ?thesis using ptr[of out] by simp
    qed
  qed
qed

lemma write_from_pipe_mem:
  assumes "mem_ok r" "write_from_pipe cfg r = Some (n, r')" shows "mem_ok r'"
proof -
  obtain p chunk where sp: "span r = Some (p, chunk)" using assms(2) by (auto simp: write_from_pipe_def split: option.splits)
  show ?thesis
  proof (cases "chunk = []")
    case True
    then show ?thesis using assms sp mi.relay[OF assms(1), of 0] by (auto simp: write_from_pipe_def mem_ok_def split: if_splits)
  next
    case False
    obtain w r1 where w: "sock_write chunk r = (w, r1)" by force
    have r1: "mem_ok r1" using mi.sock_write[OF assms(1), of chunk] w by simp
    have k: "k \<le> length chunk" if "w = W_ok k" for k using w that by (auto simp: sock_write_def Let_def split: list.splits wr_result.splits)
    have "mem_ok (r1\<lparr>header_line := q\<rparr>) = mem_ok (r\<lparr>header_line := q\<rparr>)" for q
      using w by (auto simp: sock_write_def Let_def mem_ok_def split: list.splits wr_result.splits)
    then show ?thesis using assms(2) sp False w r1 k span_bound[OF assms(1) sp]
      by (cases w) (auto simp: write_from_pipe_def mi.send_error split: if_splits)
  qed
qed

lemma process_get_mem: "mem_ok r \<Longrightarrow> mem_ok (snd (process_get r))"
proof -
  assume ok: "mem_ok r"
  let ?d = "take (min (filesize r - filepos r) SOCKETBUF_SIZE) (drop (filepos r) (case data_mem r of Some d \<Rightarrow> d | None \<Rightarrow> []))"
  obtain w r1 where w: "sock_write ?d r = (w, r1)" by force
  then have "mem_ok r1" using mi.sock_write[OF ok, of ?d] by simp
  then show ?thesis using w by (cases w) (simp_all add: process_get_def Let_def)
qed

lemma cgi_header_bounds:
  assumes "mem_ok r" "header_line r = In_buffer a" "header_end r = In_buffer e" "buffer r ! e = NUL"
    and "end_of_headers (cstr (drop a (buffer r))) = Some t"
  defines "c \<equiv> a + (length (cstr (drop a (buffer r))) - length t)"
  shows "a \<le> c" "c + 2 \<le> e" "e \<le> BUFFER_SIZE" "length (cstr (drop a (buffer r))) \<le> e - a"
proof -
  have ae: "a \<le> e" "e \<le> BUFFER_SIZE" "length (buffer r) = BUFFER_SIZE + 1" using assms(1-3) by (simp_all add: mem_ok_def)
  then show len: "length (cstr (drop a (buffer r))) \<le> e - a" using assms(4) by (intro length_cstr_at) auto
  obtain u where u: "cstr (drop a (buffer r)) = u @ t" "2 \<le> length t" by (rule end_of_headers_Some[OF assms(5)]) auto
  show "a \<le> c" "c + 2 \<le> e" "e \<le> BUFFER_SIZE" using u len ae by (auto simp: c_def)
qed

lemma cgi_move_mem:
  assumes "mem_ok r" "header_line r = In_buffer a" "a \<le> c" "c + 2 \<le> BUFFER_SIZE" "header_end r = In_buffer e"
  shows "mem_ok (snd (cgi_move cfg a e c r))"
proof -
  define q where "q = send_r_request_ok cfg r"
  have "io_erase q = io_erase r" by (simp add: q_def send_r_request_ok_def Let_def)
  then have q: "mem_ok q" "header_line q = In_buffer a" "header_end q = In_buffer e"
    using mi.send_ok(1)[OF assms(1), of cfg] assms(2,5) io_erase_fields(10,11)[of q r] by (simp_all add: q_def)
  have len: "length (buffer q) = BUFFER_SIZE + 1" using q(1) by (simp add: mem_ok_def)
  have moved: "mem_ok (x\<lparr>buffer := mem_put d (take k y) b, buffer_end := d + k, header_line := In_buffer (d + k), header_end := In_buffer (d + k)\<rparr>)"
    if "mem_ok x" "d + k \<le> BUFFER_SIZE" "length b = BUFFER_SIZE + 1" for x d k y b using that by (simp add: mem_ok_def)
  have head: "mem_ok (q\<lparr>header_end := In_buffer f, cgi_status := CGI_DONE\<rparr>)" if "a \<le> f" "f \<le> BUFFER_SIZE" for f
    using q that by (simp add: mem_ok_def)
  have f: "a \<le> (if buffer q ! (c + 1) = CR then c + 2 else c + 1)" "(if buffer q ! (c + 1) = CR then c + 2 else c + 1) \<le> BUFFER_SIZE"
    using assms(3,4) by auto
  have reset: "mem_ok (x\<lparr>buffer_start := 0, buffer_end := 0\<rparr>)" if "mem_ok x" for x using that by (simp add: mem_ok_def)
  show ?thesis
  proof (cases "method q = M_HEAD")
    case True
    then show ?thesis using head[OF f] q(1)
      by (simp add: cgi_move_def Let_def q_def[symmetric] mi.send_error reset moved mi.flush len)
  next
    case False
    then show ?thesis using q(1) by (simp add: cgi_move_def Let_def q_def[symmetric] mi.send_error reset moved mi.flush len)
  qed
qed

lemma cgi_location_mem: "mem_ok r \<Longrightarrow> pred_option mem_ok (cgi_location cfg a e buf r)"
proof -
  assume ok: "mem_ok r"
  have "mem_ok (r\<lparr>buffer := (buffer r)[i := NUL]\<rparr>)" for i using ok by (simp add: mem_ok_def)
  then show ?thesis using ok by (simp add: cgi_location_def Let_def mi.send_error)
qed

lemma process_cgi_header_mem:
  assumes "mem_ok r" "header_end r = In_buffer e" "buffer r ! e = NUL" "process_cgi_header cfg r = Some (n, r')"
  shows "mem_ok r'"
proof -
  define q where "q = leave_parse r"
  have q: "mem_ok q" "header_end q = In_buffer e" "buffer q ! e = NUL" using assms(1-3) by (auto simp: q_def leave_parse_def)
  obtain a where a: "header_line q = In_buffer a" using assms(4) q(2) by (auto simp: process_cgi_header_def q_def[symmetric] split: hptr.splits)
  define buf where "buf = cstr (drop a (buffer q))"
  show ?thesis
  proof (cases "end_of_headers buf")
    case None
    then show ?thesis using assms(4) q a by (auto simp: process_cgi_header_def q_def[symmetric] buf_def mi.send_error)
  next
    case (Some t)
    define c where "c = a + (length buf - length t)"
    have bd: "a \<le> c" "c + 2 \<le> e" "e \<le> BUFFER_SIZE" "length buf \<le> e - a"
      using cgi_header_bounds[OF q(1) a q(2,3) Some[unfolded buf_def]] by (simp_all add: buf_def c_def)
    have ptr: "mem_ok (q\<lparr>header_line := In_buffer k\<rparr>)" if "k \<le> e" for k using q(1,2) that bd(3) by (simp add: mem_ok_def)
    have st: "mem_ok (q\<lparr>header_line := In_buffer (a - 1), buffer := mem_put (a - 1) ''HTTP/1.0 '' (buffer q)\<rparr>)"
      if "strncaseeq 8 buf ''Status: ''" "a \<noteq> 0"
    proof -
      have "8 \<le> length buf" using that(1) arg_cong[of _ _ length] by (fastforce simp: strncaseeq_def)
      then have "a - 1 + 9 \<le> length (buffer q)" using bd that(2) q(1) by (simp add: mem_ok_def)
      then show ?thesis using q(1,2) bd by (auto simp: mem_ok_def)
    qed
    have mv: "mem_ok (snd (cgi_move cfg a e c q))" using bd by (intro cgi_move_mem q(1,2) a) auto
    have "process_cgi_header cfg r = (if simple q then Some (1, q\<lparr>header_line := In_buffer (if char_at t 1 = CR then c + 2 else c + 1)\<rparr>)
        else if strncaseeq 8 buf ''Status: '' then
          (if a = 0 then None else Some (1, q\<lparr>header_line := In_buffer (a - 1), buffer := mem_put (a - 1) ''HTTP/1.0 '' (buffer q)\<rparr>))
        else if strncaseeq 10 buf ''Location: '' then map_option (\<lambda>r1. (1, r1\<lparr>status := DONE\<rparr>)) (cgi_location cfg a e buf q)
        else Some (cgi_move cfg a e c q))"
      using Some unfolding process_cgi_header_def Let_def q_def[symmetric] a q(2) prod.case hptr.case buf_def[symmetric] c_def by simp
    then have "pred_option (\<lambda>x. mem_ok (snd x)) (process_cgi_header cfg r)"
      using st mv ptr[of "c + 1"] ptr[of "c + 2"] bd cgi_location_mem[OF q(1), of cfg a e buf] by (simp add: option.pred_map comp_def)
    then show ?thesis using assms(4) by simp
  qed
qed

lemma read_from_pipe_mem:
  assumes "mem_ok r" "read_from_pipe cfg rd r = Some (n, r')" shows "mem_ok r'"
proof -
  obtain e where e: "header_end r = In_buffer e" using assms(2) by (auto simp: read_from_pipe_def split: hptr.splits)
  have le: "e \<le> BUFFER_SIZE" "length (buffer r) = BUFFER_SIZE + 1" using assms(1) e by (cases "header_line r"; simp add: mem_ok_def)+
  have head: "mem_ok y" if "process_cgi_header cfg (x\<lparr>buffer := (buffer x)[e := NUL]\<rparr>) = Some (k, y)" "mem_ok x" "header_end x = In_buffer e" for x k y
    by (rule process_cgi_header_mem[OF _ _ _ that(1)]) (use that(2,3) le in \<open>auto simp: mem_ok_def\<close>)
  have put: "mem_ok (r\<lparr>buffer := mem_put e got (buffer r), header_end := In_buffer (e + length got)\<rparr>)" if "got = take (BUFFER_SIZE - e) bs" for got bs
    using that assms(1) e le by (cases "header_line r") (auto simp: mem_ok_def)
  show ?thesis using assms e head[of "r\<lparr>cgi_status := CGI_BUFFER\<rparr>" n r'] head[of "r\<lparr>status := PIPE_WRITE, cgi_status := CGI_DONE\<rparr>" n r']
      put[OF refl]
    by (auto simp: read_from_pipe_def Let_def simp del: length_take split: if_splits rd_result.splits)
qed

lemma flush_ret_mem: "mem_ok r \<Longrightarrow> mem_ok (snd (flush_ret fin r))"
  using mem_ok_flush[of r] by (cases "req_flush r") (simp add: flush_ret_def)

definition streams_keep :: "io \<Rightarrow> bool" where
  "streams_keep i \<longleftrightarrow> (\<forall>r. mem_ok r \<longrightarrow> mem_ok (snd (io_stream i r)))"

lemma step_request_mem:
  assumes "mi.handlers_keep env" "streams_keep i" "mem_ok r"
  shows "mi.result_inv (step_request env cfg i r st)"
proof -
  have keep: "mi.result_inv (map_option (\<lambda>(n, r1). (n, r1, st)) x)" if "\<And>n r1. x = Some (n, r1) \<Longrightarrow> mem_ok r1" for x
    using that by (cases x) auto
  have keep3: "mi.result_inv (map_option ((\<lambda>(n, r1). (n, r1, st)) \<circ> (\<lambda>(n, out, r1). (n, r1))) x)"
    if "\<And>n out r1. x = Some (n, out, r1) \<Longrightarrow> mem_ok r1" for x :: "(int \<times> char list \<times> request) option"
    using that by (cases x) auto
  have s: "mem_ok (snd (io_stream i r))" using assms(2,3) by (simp add: streams_keep_def)
  have d: "mem_ok (r\<lparr>buffer_end := 0\<rparr>)" using assms(3) by (rule mi.rewind)
  show ?thesis
  proof (cases "buffer_end r \<noteq> 0 \<and> status r \<noteq> DEAD \<and> status r \<noteq> DONE")
    case True
    then show ?thesis using flush_ret_mem[OF assms(3)] by (simp add: step_request_def split_beta)
  next
    case False
    then show ?thesis
    proof (cases "status r")
      case BODY_READ
      then show ?thesis using False by (simp add: step_request_def keep read_body_mem[OF assms(3)])
    next
      case BODY_WRITE
      then show ?thesis using False by (simp add: step_request_def option.map_comp keep3 write_body_mem[OF assms(3)])
    next
      case WRITE
      then show ?thesis using False s process_get_mem[OF assms(3)] by (simp add: step_request_def split_beta)
    next
      case PIPE_READ
      then show ?thesis using False by (simp add: step_request_def keep read_from_pipe_mem[OF assms(3)])
    next
      case PIPE_WRITE
      then show ?thesis using False by (simp add: step_request_def keep write_from_pipe_mem[OF assms(3)])
    next
      case DONE
      then show ?thesis using flush_ret_mem[OF assms(3)] by (simp add: step_request_def split_beta)
    next
      case DEAD
      then show ?thesis using d by (simp add: step_request_def)
    qed (use False in \<open>simp_all add: step_request_def read_header_mem[OF assms(1,3)]\<close>)
  qed
qed

subsection \<open>The requests of the server\<close>

definition all_mem :: "'w server \<Rightarrow> bool" where
  "all_mem s \<longleftrightarrow> (\<forall>q. mem_ok (rq s q))"

lemma all_mem_updates [simp]:
  "all_mem (s\<lparr>qu := a\<rparr>) = all_mem s" "all_mem (s\<lparr>inner := b\<rparr>) = all_mem s" "all_mem (s\<lparr>tunnel := c\<rparr>) = all_mem s"
  "all_mem (s\<lparr>req_malloc := d\<rparr>) = all_mem s" "all_mem (s\<lparr>request_count := e\<rparr>) = all_mem s"
  "all_mem (s\<lparr>pending_requests := f\<rparr>) = all_mem s" "all_mem (s\<lparr>stat_requests := g\<rparr>) = all_mem s"
  "all_mem (s\<lparr>total_connections := h\<rparr>) = all_mem s" "all_mem (s\<lparr>acts := k\<rparr>) = all_mem s" "all_mem (act x s) = all_mem s"
  "all_mem (release_request t r s) = all_mem s"
  by (simp_all add: all_mem_def)

lemma all_mem_set: "all_mem s \<Longrightarrow> mem_ok r \<Longrightarrow> all_mem (set_rq q r s)"
  by (simp add: all_mem_def)

lemma all_memD: "all_mem s \<Longrightarrow> mem_ok (rq s q)"
  by (simp add: all_mem_def)

lemma mem_ok_cleared: "mem_ok r \<Longrightarrow> mem_ok (cleared r)"
  by (simp add: cleared_def mem_ok_def zero_request_def)

lemma new_request_mem: "all_mem s \<Longrightarrow> all_mem (snd (new_request s))"
  by (auto simp: new_request_def Let_def intro!: all_mem_set mem_ok_cleared all_memD split: option.split list.split)

lemma get_sock_request_mem:
  assumes "all_mem s" shows "all_mem (snd (get_sock_request cfg acc s))"
proof -
  obtain na s1 where n: "new_request s = (na, s1)" by force
  then have s1: "all_mem s1" using new_request_mem[OF assms] by simp
  have "all_mem (enter_request cfg c name a s1)" for c name a
  proof -
    have "mem_ok (accepted cfg c name (rq s1 a))" using all_memD[OF s1, of a]
      by (cases "header_end (rq s1 a)"; cases "header_line (rq s1 a)") (auto simp: accepted_def mem_ok_def)
    then show ?thesis using s1 by (auto simp: enter_request_def Let_def mi.send_error intro!: all_mem_set)
  qed
  then show ?thesis using assms s1 by (auto simp: get_sock_request_def n split: accept_result.split option.split)
qed

lemma get_request_mem: "all_mem s \<Longrightarrow> all_mem (get_request cfg acc s)"
  by (simp add: get_request_def get_sock_request_mem)

lemma get_ssl_request_mem: "all_mem s \<Longrightarrow> all_mem (get_ssl_request cfg acc new s)"
  using get_sock_request_mem[of s cfg acc] all_memD
  by (cases "get_sock_request cfg acc s") (auto simp: get_ssl_request_def intro!: all_mem_set split: option.split)

lemma free_request_mem:
  assumes "all_mem s" shows "all_mem (free_request t q s)"
proof -
  let ?s = "release_request t (rq s q) (s\<lparr>qu := take_request Ready q (qu s)\<rparr>)"
  obtain na s1 where n: "new_request ?s = (na, s1)" by force
  then have s1: "all_mem s1" using new_request_mem[of ?s] assms by simp
  have c: "mem_ok (continue_request (rq s q) (rq s1 a))" for a
    using all_memD[OF s1, of a] all_memD[OF assms, of q]
    by (cases "header_end (rq s1 a)"; cases "header_line (rq s1 a)") (auto simp: continue_request_def mem_ok_def)
  show ?thesis using assms s1 all_memD[OF assms, of q] c
    by (auto simp: free_request_def close_request_def Let_def n intro!: all_mem_set split: option.split)
qed

lemma dispatch_result_mem: "all_mem s \<Longrightarrow> all_mem (dispatch_result cfg i q n s)"
  by (auto simp: dispatch_result_def Let_def intro!: free_request_mem all_mem_set dest: all_memD)

lemma process_one_mem:
  assumes "mi.handlers_keep env" "streams_keep i" "all_mem s" "process_one env cfg sigterm i q s = Some (cur, s')"
  shows "all_mem s'"
proof -
  obtain n r1 st where st: "step_request env cfg i (rq s q) (inner s) = Some (n, r1, st)"
    using assms(4) by (auto simp: process_one_def split: option.splits)
  have "mem_ok r1" using step_request_mem[OF assms(1,2) all_memD[OF assms(3), of q], of cfg "inner s"] st by simp
  then have s1: "all_mem (set_rq q (if sigterm then SQUASH_KA r1 else r1) (s\<lparr>inner := st\<rparr>))" (is "all_mem ?s1")
    using assms(3) by (intro all_mem_set) auto
  define s2 where "s2 = (if pending_requests ?s1 then get_request cfg (io_accept i) ?s1 else ?s1)"
  have s2: "all_mem s2" using s1 get_request_mem[OF s1] by (simp add: s2_def)
  then have "all_mem (set_rq q ((rq s2 q)\<lparr>busy_audio := True, busy_video := True\<rparr>) s2)" using all_memD[OF s2] by (intro all_mem_set) auto
  then show ?thesis using assms(4) st unfolding process_one_def Let_def s2_def[symmetric] by (auto intro!: dispatch_result_mem simp: s2_def)
qed

lemma process_loop_mem:
  "mi.handlers_keep env \<Longrightarrow> \<forall>i \<in> set ios. streams_keep i \<Longrightarrow> all_mem s \<Longrightarrow>
   process_loop env cfg sigterm ios cur s = Some (vs, s') \<Longrightarrow> all_mem s'"
proof (induction env cfg sigterm ios cur s arbitrary: vs rule: process_loop.induct)
  case (3 env cfg sigterm i ios q s)
  obtain cur s1 vs' where one: "process_one env cfg sigterm i q s = Some (cur, s1)"
      and rest: "process_loop env cfg sigterm ios cur s1 = Some (vs', s')"
    using "3.prems"(4) by (auto split: option.splits prod.splits)
  have "all_mem s1" using process_one_mem[OF "3.prems"(1) _ "3.prems"(3) one] "3.prems"(2) by simp
  then show ?case using "3.IH"[OF one refl "3.prems"(1)] "3.prems"(2) rest by simp
qed auto

lemma free_streams_mem: "all_mem s \<Longrightarrow> free_streams n t cur s = Some s' \<Longrightarrow> all_mem s'"
  by (induction n t cur s rule: free_streams.induct) (auto intro: free_request_mem split: if_splits)

lemma process_requests_mem:
  assumes "mi.handlers_keep env" "\<forall>i \<in> set ios. streams_keep i" "all_mem s"
    and run: "process_requests env cfg sigterm web tls restart fuel second old_time ios s = Some (vs, t, s')"
  shows "all_mem s'"
proof -
  define s1 where "s1 = (case web of Some a \<Rightarrow> if pending_requests s then get_request cfg a s else s | None \<Rightarrow> s)"
  define s2 where "s2 = (case tls of Some (a, new) \<Rightarrow> get_ssl_request cfg a new s1 | None \<Rightarrow> s1)"
  have "all_mem s1" using assms(3) by (simp add: s1_def get_request_mem split: option.split)
  then have s2: "all_mem s2" by (simp add: s2_def get_ssl_request_mem split: option.split prod.split)
  obtain s3 a where s3: "(if restart then free_streams MAX_REQUEST second (request_ready (qu s2)) s2 else Some s2) = Some s3"
      and loop: "process_loop env cfg sigterm ios (request_ready (qu s3)) (s3\<lparr>inner := (inner s3)\<lparr>auth := a\<rparr>\<rparr>) = Some (vs, s')"
    using run unfolding process_requests_def s1_def[symmetric] s2_def[symmetric] Let_def by (auto split: option.splits)
  have "all_mem s3" using s2 s3 free_streams_mem[OF s2] by (auto split: if_splits)
  then show ?thesis using process_loop_mem[OF assms(1,2) _ loop] by simp
qed

lemma fdset_loop_mem: "all_mem s \<Longrightarrow> fdset_loop n cfg cur s = Some s' \<Longrightarrow> all_mem s'"
proof (induction n cfg cur s rule: fdset_loop.induct)
  case (3 n cfg q s)
  have "mem_ok (marked cfg (rq s q))" using all_memD[OF "3.prems"(1), of q] by (simp add: marked_def)
  then have "all_mem (fdset_one cfg q s)" using "3.prems"(1) by (auto simp: fdset_one_cases Let_def intro!: all_mem_set)
  then show ?case using "3.IH" "3.prems"(2) by simp
qed auto

lemma return_request_mem: "all_mem s \<Longrightarrow> all_mem (return_request q s)"
  using all_memD[of s q] mi.rewind[of "(rq s q)\<lparr>status := DONE\<rparr>"] by (simp add: return_request_def Let_def all_mem_set)

end
