(* ===== verification/Boa_Select.thy ===== *)
theory Boa_Select
  imports Boa_Safe
begin

text \<open>
  \<^verbatim>\<open>select.c\<close>: the main loop of the server, one round at a time, with the stages of an orderly shutdown and the hang-up
  from \<^verbatim>\<open>signals.c\<close>. What \<open>select\<close> reports, the signals, the new connections and the requests the RTSP thread gives back come from
  outside, in the record \<open>round_in\<close>. The lemmas follow the invariant of the request lists and of the memory through every round, and
  show that \<open>select\<close> watches for every blocked request.
\<close>

subsection \<open>The state of the loop\<close>

record sockets =
  web_fd :: nat
  ssl_fd :: nat
  do_sock :: nat

record 'w loop_state =
  srv :: "'w server"
  sigterm_flag :: nat
  old_second :: int

datatype select_outcome = Sel_ready "nat set" "nat set" | Sel_intr | Sel_badf | Sel_error

record round_in =
  in_hup :: bool
  in_returned :: "nat list"
  in_web :: accept_result
  in_tls :: accept_result
  in_ssl :: bool
  in_restart :: bool
  in_fuel :: nat
  in_second :: int
  in_ios :: "io list"
  in_select :: select_outcome

datatype 'w round_result = Round_next "'w loop_state" | Round_exit | Round_die | Round_stuck

subsection \<open>Signals\<close>

text \<open>
  A hang-up, when the new program could not be executed: the sets of descriptors, the cache of home directories and the list of
  free requests are dropped. The counter of requests is not changed. The tables read again are those of the next round.
\<close>

definition sighup_run :: "'w server \<Rightarrow> 'w server" where
  "sighup_run s = s\<lparr>qu := (qu s)\<lparr>block_read_fdset := {}, block_write_fdset := {}, request_free := None\<rparr>,
     inner := (inner s)\<lparr>homes := dump_passwd (homes (inner s))\<rparr>\<rparr>"

definition sigterm_stage1_run :: "sockets \<Rightarrow> 'w server \<Rightarrow> 'w server" where
  "sigterm_stage1_run k s = act (Close (web_fd k)) (s\<lparr>qu := clr_read_fd (web_fd k) (qu s)\<rparr>)"

subsection \<open>One round\<close>

text \<open>\<open>max_fd\<close> is reset to 0 instead of -1; the two differ only in whether \<open>select\<close> looks at descriptor 0, which is in no set.\<close>

definition wake_blocked :: "conf \<Rightarrow> 'w server \<Rightarrow> 'w server option" where
  "wake_blocked cfg s0 =
    (let s = s0\<lparr>qu := (qu s0)\<lparr>max_fd := 0\<rparr>\<rparr> in if request_block (qu s) = None then Some s else fdset_update cfg s)"

definition watch_sockets :: "sockets \<Rightarrow> conf \<Rightarrow> nat \<Rightarrow> 'w server \<Rightarrow> 'w server" where
  "watch_sockets k cfg flag s =
    (if flag = 0 \<and> total_connections s < max_connections cfg - 10
     then s\<lparr>qu := (let q = set_read_fd (web_fd k) (qu s) in if do_sock k < 2 then set_read_fd (ssl_fd k) q else q)\<rparr>
     else s)"

definition after_select :: "sockets \<Rightarrow> 'w server \<Rightarrow> 'w server" where
  "after_select k s = (if web_fd k \<in> block_read_fdset (qu s) then s\<lparr>pending_requests := True\<rparr> else s)"

definition select_result :: "sockets \<Rightarrow> select_outcome \<Rightarrow> nat \<Rightarrow> int \<Rightarrow> 'w server \<Rightarrow> 'w round_result" where
  "select_result k out flag t s =
    (let go = (\<lambda>s. Round_next \<lparr>srv = s, sigterm_flag = flag, old_second = t\<rparr>) in
     case out of
       Sel_intr \<Rightarrow> go s
     | Sel_error \<Rightarrow> Round_die
     | Sel_badf \<Rightarrow> go (after_select k s)
     | Sel_ready rs ws \<Rightarrow> go (after_select k (s\<lparr>qu := (qu s)\<lparr>block_read_fdset := block_read_fdset (qu s) \<inter> rs,
         block_write_fdset := block_write_fdset (qu s) \<inter> ws\<rparr>\<rparr>)))"

text \<open>The work of a round up to the call of \<open>select\<close>, and the whole round.\<close>

definition before_select ::
  "'w server_env \<Rightarrow> conf \<Rightarrow> sockets \<Rightarrow> round_in \<Rightarrow> nat \<Rightarrow> int \<Rightarrow> 'w server \<Rightarrow> (int \<times> 'w server) option" where
  "before_select env cfg k inp flag old s =
    (case wake_blocked cfg (fold return_request (in_returned inp) s) of
       None \<Rightarrow> None
     | Some s2 \<Rightarrow>
        (case process_requests env cfg (flag \<noteq> 0) (if do_sock k \<noteq> 0 then Some (in_web inp) else None)
            (if do_sock k < 2 \<and> ssl_fd k \<in> block_read_fdset (qu s2) then Some (in_tls inp, in_ssl inp) else None)
            (in_restart inp) (in_fuel inp) (in_second inp) old (in_ios inp) s2 of
           None \<Rightarrow> None
         | Some (vs, t, s3) \<Rightarrow> Some (t, watch_sockets k cfg flag s3)))"

definition after_signals :: "sockets \<Rightarrow> round_in \<Rightarrow> 'w loop_state \<Rightarrow> 'w server \<times> nat" where
  "after_signals k inp st =
    (let s0 = (if in_hup inp then sighup_run (srv st) else srv st)
     in if sigterm_flag st = 1 then (sigterm_stage1_run k s0, 2) else (s0, sigterm_flag st))"

definition select_round ::
  "'w server_env \<Rightarrow> conf \<Rightarrow> sockets \<Rightarrow> round_in \<Rightarrow> 'w loop_state \<Rightarrow> 'w round_result" where
  "select_round env cfg k inp st =
    (let (s1, flag) = after_signals k inp st
     in if flag = 2 \<and> request_ready (qu s1) = None \<and> request_block (qu s1) = None then Round_exit
        else (case before_select env cfg k inp flag (old_second st) s1 of
            None \<Rightarrow> Round_stuck
          | Some (t, s3) \<Rightarrow> select_result k (in_select inp) flag t s3))"

subsection \<open>Every round keeps the lists and the memory\<close>

text \<open>The request lists of a server, with nothing in transit: what is on no list belongs to the RTSP thread.\<close>

definition server_ok :: "'w server \<Rightarrow> bool" where
  "server_ok s \<longleftrightarrow> (\<exists>rd bl fr. server_inv s rd bl fr (tunnel s)) \<and> all_mem s"

lemma fdset_one_tunnel [simp]: "tunnel (fdset_one cfg q s) = tunnel s"
  by (simp add: fdset_one_cases Let_def)

lemma queues_ok_fds [simp]:
  "queues_ok (s\<lparr>block_read_fdset := a\<rparr>) rd bl fr = queues_ok s rd bl fr"
  "queues_ok (s\<lparr>block_write_fdset := a\<rparr>) rd bl fr = queues_ok s rd bl fr" "queues_ok (s\<lparr>max_fd := n\<rparr>) rd bl fr = queues_ok s rd bl fr"
  "queues_ok (set_read_fd f s) rd bl fr = queues_ok s rd bl fr" "queues_ok (set_write_fd f s) rd bl fr = queues_ok s rd bl fr"
  "queues_ok (clr_read_fd f s) rd bl fr = queues_ok s rd bl fr"
  by (auto simp: queues_ok_def queue_rep_def list_head_def set_read_fd_def set_write_fd_def clr_read_fd_def split: which_list.splits)

lemma fdset_one_inv:
  assumes "server_inv s rd bl fr held" "q \<in> set bl"
  shows "server_inv (fdset_one cfg q s) (q # rd) (remove1 q bl) fr held \<or> server_inv (fdset_one cfg q s) rd bl fr held"
proof -
  let ?r = "marked cfg (rq s q)" and ?s = "set_rq q (marked cfg (rq s q)) s"
  have i: "server_inv ?s rd bl fr held" using assms(1) by (simp add: server_inv_def)
  show ?thesis
  proof (cases "status ?r = DEAD \<or> is_set (qu s) ?r")
    case True
    then show ?thesis using server_inv_ready[OF i assms(2), of ?r] by (simp add: fdset_one_cases Let_def)
  next
    case False
    then have "server_inv (fdset_one cfg q s) rd bl fr held"
      using assms(1) by (simp add: fdset_one_cases Let_def server_inv_def)
    then show ?thesis ..
  qed
qed

lemma fdset_loop_lists:
  assumes "server_inv s rd (kept @ todo) fr held" "length todo \<le> n"
  shows "\<exists>s' rd' bl'. fdset_loop n cfg (first todo None) s = Some s' \<and> server_inv s' rd' bl' fr held \<and> tunnel s' = tunnel s"
  using assms
proof (induction todo arbitrary: n s rd kept)
  case Nil
  then show ?case by auto
next
  case (Cons q todo)
  then obtain m where n: "n = Suc m" by (cases n) auto
  have nx: "nxt (lnk (qu s)) q = first todo None"
    using queue_next[of "qu s" Block kept q todo] Cons.prems(1) by (simp add: server_inv_def queues_ok_def)
  have "q \<notin> set kept" using Cons.prems(1) by (auto simp: server_inv_def)
  then have "remove1 q (kept @ q # todo) = kept @ todo" by (simp add: remove1_append)
  then have "server_inv (fdset_one cfg q s) (q # rd) (kept @ todo) fr held \<or> server_inv (fdset_one cfg q s) rd ((kept @ [q]) @ todo) fr held"
    using fdset_one_inv[OF Cons.prems(1), of q cfg] by simp
  then show ?case using Cons.IH[of "fdset_one cfg q s" _ _ m] Cons.prems(2) n nx by fastforce
qed

lemma wake_blocked_ok:
  assumes "server_ok s" shows "\<exists>s'. wake_blocked cfg s = Some s' \<and> server_ok s' \<and> tunnel s' = tunnel s"
proof -
  let ?s = "s\<lparr>qu := (qu s)\<lparr>max_fd := 0\<rparr>\<rparr>"
  obtain rd bl fr where i: "server_inv s rd bl fr (tunnel s)" and m: "all_mem s" using assms by (auto simp: server_ok_def)
  then have i': "server_inv ?s rd ([] @ bl) fr (tunnel s)" by (simp add: server_inv_def)
  show ?thesis
  proof (cases "request_block (qu s) = None")
    case True
    then show ?thesis using i' m by (auto simp: wake_blocked_def server_ok_def)
  next
    case False
    have "length bl \<le> MAX_REQUEST" "request_block (qu s) = first bl None"
      using i queue_head[of "qu s" Block bl] by (auto simp: server_inv_def queues_ok_def list_head_def)
    with fdset_loop_lists[OF i', of MAX_REQUEST cfg] obtain s' rd' bl' where
      "fdset_update cfg ?s = Some s'" "server_inv s' rd' bl' fr (tunnel s)" "tunnel s' = tunnel s" by (auto simp: fdset_update_def)
    moreover from this have "all_mem s'" using m fdset_loop_mem[of ?s MAX_REQUEST cfg] by (auto simp: fdset_update_def)
    ultimately have "wake_blocked cfg s = Some s'" "server_ok s'" "tunnel s' = tunnel s"
      using False unfolding server_ok_def by (auto simp: wake_blocked_def)
    then show ?thesis by blast
  qed
qed

lemma return_request_inv:
  assumes i: "server_inv s rd bl fr (tunnel s)" and q: "q \<in> set (tunnel s)"
  shows "server_inv (return_request q s) (q # rd) bl fr (remove1 q (tunnel s))" "tunnel (return_request q s) = remove1 q (tunnel s)"
    "p \<noteq> q \<Longrightarrow> rq (return_request q s) p = rq s p"
proof -
  have "server_inv s rd bl fr (q # remove1 q (tunnel s))"
    using i q length_pos_if_in_set[OF q] by (auto simp: server_inv_def length_remove1 neq_Nil_conv)
  from server_inv_put(1)[OF this] show "server_inv (return_request q s) (q # rd) bl fr (remove1 q (tunnel s))"
    by (simp add: return_request_def Let_def server_inv_def)
qed (simp_all add: return_request_def Let_def)

lemma return_requests_inv:
  "server_inv s rd bl fr (tunnel s) \<Longrightarrow> distinct qs \<Longrightarrow> set qs \<subseteq> set (tunnel s) \<Longrightarrow> s' = fold return_request qs s \<Longrightarrow>
   \<exists>rd'. server_inv s' rd' bl fr (tunnel s') \<and> (\<forall>p \<in> set bl. rq s' p = rq s p)"
proof (induction qs arbitrary: s rd)
  case (Cons q qs)
  then have q: "q \<in> set (tunnel s)" by simp
  note r = return_request_inv[OF Cons.prems(1) q]
  have "set qs \<subseteq> set (remove1 q (tunnel s))" using Cons.prems(2,3) by (auto intro: in_set_remove1[THEN iffD2])
  with Cons.IH[of "return_request q s" "q # rd"] r(1,2) Cons.prems(2,4) obtain rd' where
    "server_inv s' rd' bl fr (tunnel s')" "\<forall>p \<in> set bl. rq s' p = rq (return_request q s) p" by auto
  moreover have "q \<notin> set bl" using Cons.prems(1) q by (auto simp: server_inv_def)
  ultimately show ?case using r(3) by metis
qed auto

lemma return_requests_ok:
  assumes "server_ok s" "distinct qs" "set qs \<subseteq> set (tunnel s)" shows "server_ok (fold return_request qs s)"
proof -
  have "all_mem (fold return_request qs s)" if "all_mem s" for s using that return_request_mem by (induction qs arbitrary: s) auto
  then show ?thesis using assms return_requests_inv[of s _ _ _ qs] unfolding server_ok_def by metis
qed

lemma process_requests_ok:
  assumes "server_ok s" "mi.handlers_keep env" "\<forall>i \<in> set ios. streams_keep i"
    and "process_requests env cfg sigterm web tls restart fuel second old_time ios s = Some (vs, t, s')"
  shows "server_ok s'"
  using assms process_requests_inv[of s _ _ _ env cfg sigterm web tls restart fuel second old_time ios vs t s']
    process_requests_mem[OF assms(2,3), of s cfg sigterm web tls restart fuel second old_time vs t s']
  unfolding server_ok_def by blast

lemma watch_sockets_ok [simp]: "server_ok (watch_sockets k cfg flag s) = server_ok s"
  by (simp add: server_ok_def watch_sockets_def server_inv_def Let_def)

lemma server_ok_updates [simp]:
  "server_ok (s\<lparr>pending_requests := b\<rparr>) = server_ok s"
  "server_ok (s\<lparr>qu := (qu s)\<lparr>block_read_fdset := x, block_write_fdset := y\<rparr>, pending_requests := b\<rparr>) = server_ok s"
  "server_ok (s\<lparr>qu := (qu s)\<lparr>block_read_fdset := x, block_write_fdset := y\<rparr>\<rparr>) = server_ok s"
  by (simp_all add: server_ok_def server_inv_def)

lemma select_result_ok: "select_result k out flag t s = Round_next st \<Longrightarrow> server_ok s \<Longrightarrow> server_ok (srv st)"
  by (cases out) (auto simp: select_result_def after_select_def split: if_splits)

lemma server_ok_set: "server_ok s \<Longrightarrow> mem_ok r \<Longrightarrow> server_ok (set_rq q r s)"
  unfolding server_ok_def by (simp add: server_inv_def all_mem_def)

lemma sighup_run_ok: "server_ok s \<Longrightarrow> server_ok (sighup_run s) \<and> tunnel (sighup_run s) = tunnel s"
proof -
  assume "server_ok s"
  then obtain rd bl fr where i: "server_inv s rd bl fr (tunnel s)" and m: "all_mem s" by (auto simp: server_ok_def)
  from i have "queue_rep (qu s) Ready rd" "queue_rep (qu s) Block bl" "set rd \<inter> set bl = {}" by (simp_all add: server_inv_def queues_ok_def)
  then have "queues_ok ((qu s)\<lparr>block_read_fdset := {}, block_write_fdset := {}, request_free := None\<rparr>) rd bl []"
    by (simp add: queues_ok_def queue_rep_def list_head_def is_queue_def)
  then have "server_inv (sighup_run s) rd bl [] (tunnel s)" using i by (auto simp: sighup_run_def server_inv_def)
  then show ?thesis using m by (auto simp: server_ok_def sighup_run_def)
qed

lemma after_signals_ok:
  assumes "server_ok (srv st)"
  shows "server_ok (fst (after_signals k inp st)) \<and> tunnel (fst (after_signals k inp st)) = tunnel (srv st)"
proof -
  have "server_ok (sigterm_stage1_run k s) = server_ok s \<and> tunnel (sigterm_stage1_run k s) = tunnel s" for s :: "'a server"
    by (simp add: server_ok_def sigterm_stage1_run_def server_inv_def)
  then show ?thesis using assms sighup_run_ok[OF assms] by (simp add: after_signals_def Let_def)
qed

lemma before_select_ok:
  assumes "server_ok s" "mi.handlers_keep env" "\<forall>i \<in> set (in_ios inp). streams_keep i"
    and "distinct (in_returned inp)" "set (in_returned inp) \<subseteq> set (tunnel s)" "before_select env cfg k inp flag old s = Some (t, s')"
  shows "server_ok s'"
proof -
  have "server_ok (fold return_request (in_returned inp) s)" using return_requests_ok assms by blast
  from wake_blocked_ok[OF this, of cfg] assms(6) process_requests_ok[OF _ assms(2,3)] show ?thesis
    by (auto simp: before_select_def split: option.splits if_splits)
qed

text \<open>
  What a run of the server goes through: rounds of the main loop, writes of the RTSP thread to the requests it holds, and the signal that
  starts a shutdown. The configuration, the tables and the clock may be different in every round.
\<close>

inductive server_reach :: "sockets \<Rightarrow> 'w loop_state \<Rightarrow> bool" for k where
  start: "server_inv (srv st) [] [] [] [] \<Longrightarrow> tunnel (srv st) = [] \<Longrightarrow> all_mem (srv st) \<Longrightarrow> server_reach k st"
| round: "server_reach k st \<Longrightarrow> mi.handlers_keep env \<Longrightarrow> \<forall>i \<in> set (in_ios inp). streams_keep i \<Longrightarrow> distinct (in_returned inp) \<Longrightarrow>
    set (in_returned inp) \<subseteq> set (tunnel (srv st)) \<Longrightarrow> select_round env cfg k inp st = Round_next st' \<Longrightarrow> server_reach k st'"
| thread: "server_reach k st \<Longrightarrow> q \<in> set (tunnel (srv st)) \<Longrightarrow> mem_ok r \<Longrightarrow> server_reach k (st\<lparr>srv := set_rq q r (srv st)\<rparr>)"
| sigterm: "server_reach k st \<Longrightarrow> server_reach k (st\<lparr>sigterm_flag := 1\<rparr>)"

lemma select_round_ok:
  assumes "server_ok (srv st)" "mi.handlers_keep env" "\<forall>i \<in> set (in_ios inp). streams_keep i"
    and "distinct (in_returned inp)" "set (in_returned inp) \<subseteq> set (tunnel (srv st))" "select_round env cfg k inp st = Round_next st'"
  shows "server_ok (srv st')"
proof -
  obtain s1 flag where a: "after_signals k inp st = (s1, flag)" by force
  then have ok: "server_ok s1" "tunnel s1 = tunnel (srv st)" using after_signals_ok[OF assms(1), of k inp] by simp_all
  obtain t s3 where b: "before_select env cfg k inp flag (old_second st) s1 = Some (t, s3)" and
      s: "select_result k (in_select inp) flag t s3 = Round_next st'"
    using assms(6) a by (auto simp: select_round_def split: option.splits if_splits)
  have "server_ok s3" using before_select_ok[OF ok(1) assms(2-4) _ b] assms(5) ok(2) by simp
  then show ?thesis by (rule select_result_ok[OF s])
qed


definition empty_server :: "nat server" where
  "empty_server = idle_server\<lparr>request_count := 0, qu := \<lparr>lnk = \<lparr>nxt = (\<lambda>_. None), prv = (\<lambda>_. None)\<rparr>,
     request_ready = None, request_block = None, request_free = None, block_read_fdset = {}, block_write_fdset = {}, max_fd = 0\<rparr>\<rparr>"

definition quiet_round :: round_in where
  "quiet_round = \<lparr>in_hup = True, in_returned = [], in_web = A_again, in_tls = A_again, in_ssl = False, in_restart = False, in_fuel = 0,
     in_second = 7, in_ios = [], in_select = Sel_ready {} {}\<rparr>"

definition sample_sockets :: sockets where
  "sample_sockets = \<lparr>web_fd = 3, ssl_fd = 4, do_sock = 1\<rparr>"

definition first_state :: "nat loop_state" where
  "first_state = \<lparr>srv = empty_server, sigterm_flag = 0, old_second = 7\<rparr>"

lemma first_state_reach: "server_reach sample_sockets first_state"
proof (rule server_reach.start)
  show "all_mem (srv first_state)"
    by (simp add: all_mem_def first_state_def empty_server_def idle_server_def mem_ok_def fresh_def zero_request_def)
qed (simp_all add: first_state_def empty_server_def idle_server_def server_inv_def queues_ok_def queue_rep_def is_queue_def list_head_def)

lemma quiet_round_runs:
  "\<exists>st'. select_round sample_server sample_conf sample_sockets quiet_round first_state = Round_next st'"
  by (simp add: select_round_def after_signals_def sighup_run_def Let_def before_select_def quiet_round_def first_state_def
      empty_server_def idle_server_def wake_blocked_def process_requests_def expire_connections_def select_result_def sample_sockets_def)


subsection \<open>What select watches\<close>

definition apart :: "'w server \<Rightarrow> nat list \<Rightarrow> bool" where
  "apart s bl \<longleftrightarrow> (\<forall>p \<in> set bl. \<forall>q \<in> set bl. p \<noteq> q \<longrightarrow> touches (rq s p) \<inter> touches (rq s q) = {})"

lemma wake_blocked_watches:
  assumes i: "server_inv s rd bl fr (tunnel s)" and "apart s bl"
  shows "\<exists>s' rd' bl'. wake_blocked cfg s = Some s' \<and> server_inv s' rd' bl' fr (tunnel s') \<and> (\<forall>p \<in> set bl'. watched (qu s') (rq s' p))"
proof -
  let ?s = "s\<lparr>qu := (qu s)\<lparr>max_fd := 0\<rparr>\<rparr>"
  have i': "server_inv ?s rd ([] @ bl) fr (tunnel s)" using i by (simp add: server_inv_def)
  have b: "length bl \<le> MAX_REQUEST" "request_block (qu s) = first bl None"
    using i queue_head[of "qu s" Block bl] by (auto simp: server_inv_def queues_ok_def list_head_def)
  show ?thesis
  proof (cases bl)
    case Nil
    then have "wake_blocked cfg s = Some ?s" "server_inv ?s rd [] fr (tunnel ?s)" using b i' by (simp_all add: wake_blocked_def Let_def)
    then show ?thesis by fastforce
  next
    case (Cons q qs)
    then have "wake_blocked cfg s = fdset_loop MAX_REQUEST cfg (first bl None) ?s"
      using b(2) by (simp add: wake_blocked_def Let_def fdset_update_def)
    moreover obtain s' rd' bl' where "fdset_loop MAX_REQUEST cfg (first bl None) ?s = Some s'" "server_inv s' (rd' @ rd) bl' fr (tunnel s)"
        "\<forall>p \<in> set bl'. waiting cfg (qu s') (rq s' p)"
      using fdset_loop_inv[OF i' b(1), of cfg] assms(2) by (auto simp: apart_def)
    moreover from this(1) have "tunnel s' = tunnel s" using fdset_loop_lists[OF i' b(1), of cfg] by auto
    ultimately show ?thesis unfolding waiting_def by metis
  qed
qed

text \<open>
  C14: No lost wakeups in the main loop. When a round reaches \<open>select\<close>, every request that is blocked then, whether it was blocked before
  and stayed so or was blocked by this round, is watched: the descriptor it waits for is in the set that is handed to \<open>select\<close> and
  not above \<open>max_fd\<close>. So is the listening socket, unless the server is being shut down or has too many connections. The blocked requests are
  assumed to use different descriptors.
\<close>

theorem select_watches_blocked:
  assumes "server_inv s rd bl fr (tunnel s)" "apart s bl" "distinct (in_returned inp)" "set (in_returned inp) \<subseteq> set (tunnel s)"
    and run: "before_select env cfg k inp flag old s = Some (t, s')"
  shows "\<exists>rd' bl' fr'. server_inv s' rd' bl' fr' (tunnel s') \<and> (\<forall>p \<in> set bl'. watched (qu s') (rq s' p)) \<and>
     (flag = 0 \<and> total_connections s' < max_connections cfg - 10 \<longrightarrow> web_fd k \<in> block_read_fdset (qu s') \<and> web_fd k \<le> max_fd (qu s'))"
proof -
  define s1 where "s1 = fold return_request (in_returned inp) s"
  obtain rd1 where i1: "server_inv s1 rd1 bl fr (tunnel s1)" and e: "\<forall>p \<in> set bl. rq s1 p = rq s p"
    using return_requests_inv[OF assms(1,3,4) s1_def] by blast
  have "apart s1 bl" using assms(2) e by (simp add: apart_def)
  from wake_blocked_watches[OF i1 this, of cfg] obtain s2 rd2 bl2 where w: "wake_blocked cfg s1 = Some s2"
      "server_inv s2 rd2 bl2 fr (tunnel s2)" "\<forall>p \<in> set bl2. watched (qu s2) (rq s2 p)" by blast
  obtain vs s3 where p: "process_requests env cfg (flag \<noteq> 0) (if do_sock k \<noteq> 0 then Some (in_web inp) else None)
            (if do_sock k < 2 \<and> ssl_fd k \<in> block_read_fdset (qu s2) then Some (in_tls inp, in_ssl inp) else None)
            (in_restart inp) (in_fuel inp) (in_second inp) old (in_ios inp) s2 = Some (vs, t, s3)" "s' = watch_sockets k cfg flag s3"
    using run w(1) by (auto simp: before_select_def s1_def split: option.splits)
  from process_requests_inv[OF w(2) p(1)] obtain rd3 bl3 fr3 where i3: "server_inv s3 rd3 bl3 fr3 (tunnel s3)" "blocks s2 bl2 s3 bl3" by blast
  have "watched (qu s3) (rq s3 p)" if "p \<in> set bl3" for p
    using that i3(2) w(3) watched_mono[of "qu s2" "rq s2 p" "qu s3"] by (auto simp: blocks_def)
  moreover have "fds_le (qu s3) (qu s')" by (auto simp: p(2) watch_sockets_def fds_le_def Let_def set_read_fd_def)
  moreover have "rq s' = rq s3" by (simp add: p(2) watch_sockets_def)
  ultimately have "\<forall>p \<in> set bl3. watched (qu s') (rq s' p)" using watched_mono by metis
  moreover have "server_inv s' rd3 bl3 fr3 (tunnel s')" using i3(1) by (simp add: p(2) watch_sockets_def server_inv_def Let_def)
  moreover have "flag = 0 \<and> total_connections s' < max_connections cfg - 10 \<longrightarrow>
      web_fd k \<in> block_read_fdset (qu s') \<and> web_fd k \<le> max_fd (qu s')"
    by (auto simp: p(2) watch_sockets_def Let_def set_read_fd_def)
  ultimately show ?thesis by blast
qed

definition waiting_server :: "nat server" where
  "waiting_server = idle_server\<lparr>rq := (\<lambda>q. fresh\<lparr>fd := 20 + q, header_line := In_stream 0, time_last := 1000\<rparr>), request_count := 1,
     qu := (qu empty_server)\<lparr>request_block := Some 5\<rparr>\<rparr>"

theorem select_watches_blocked_witness:
  "\<exists>t s'. before_select sample_server sample_conf sample_sockets quiet_round 0 7 waiting_server = Some (t, s') \<and>
     (\<exists>rd' bl' fr'. server_inv s' rd' bl' fr' (tunnel s') \<and> (\<forall>p \<in> set bl'. watched (qu s') (rq s' p)))"
proof -
  have i: "server_inv waiting_server [] [5] [] (tunnel waiting_server)"
    by (simp add: waiting_server_def empty_server_def idle_server_def server_inv_def queues_ok_def queue_rep_def is_queue_def list_head_def
        MAX_REQUEST_def)
  have "\<exists>t s'. before_select sample_server sample_conf sample_sockets quiet_round 0 7 waiting_server = Some (t, s')"
    by (simp add: before_select_def quiet_round_def wake_blocked_def Let_def waiting_server_def empty_server_def idle_server_def fdset_update_def
        MAX_REQUEST_def numeral_eq_Suc fdset_one_cases marked_def timed_out_def is_set_def waits_fd_def waits_write_def
        process_requests_def expire_connections_def sample_sockets_def set_read_fd_def set_rq_def fresh_def zero_request_def sample_conf_def
        REQUEST_TIMEOUT_def)
  then obtain t s' where r: "before_select sample_server sample_conf sample_sockets quiet_round 0 7 waiting_server = Some (t, s')" by blast
  show ?thesis using select_watches_blocked[OF i _ _ _ r] r by (fastforce simp: apart_def quiet_round_def)
qed

end
