(* ===== verification/Boa_Rtsp.thy ===== *)
theory Boa_Rtsp
  imports Boa_Select "HOL-Library.Multiset"
begin

text \<open>
  \<^verbatim>\<open>rtsp_o_http.c\<close>: the thread that carries RTSP over two HTTP connections, a \<open>GET\<close> for what the camera sends and a \<open>POST\<close>
  for what the client sends, and the part of \<^verbatim>\<open>RTSP_O_HTTPServer.cpp\<close> that takes the RTSP requests out of the \<open>POST\<close>. A tunnel is a
  record \<open>rtsp_data\<close>, on one of two doubly linked lists. The requests are taken over from the main loop and given back to it on a list of
  their own. Executing an RTSP command belongs to the streaming library; it is a parameter.
\<close>

subsection \<open>The records\<close>

datatype rtsp_status = STATUS_CLOSED | STATUS_WAIT_SOCKET | STATUS_ACTIVE | STATUS_WAIT_CLOSE

text \<open>\<open>session\<close> tells whether the object of the pointer \<open>rtspclientsession\<close> exists; the other flags are the bits of \<open>flags\<close>.\<close>

record rtsp_data =
  rd_sessionid :: cstring
  session :: bool
  outreq :: "nat option"
  inreq :: "nat option"
  rd_status :: rtsp_status
  in_ok :: bool
  out_ok :: bool
  setup_ok :: bool
  playing :: bool

definition zero_record :: rtsp_data where
  "zero_record = \<lparr>rd_sessionid = [], session = False, outreq = None, inreq = None, rd_status = STATUS_CLOSED, in_ok = False, out_ok = False,
     setup_ok = False, playing = False\<rparr>"

record thread_data =
  hup :: bool
  recs :: "nat \<Rightarrow> rtsp_data"
  rec_lnk :: links
  used_list :: "nat option"
  free_list :: "nat option"
  rec_malloc :: "nat option list"
  treq :: "nat \<Rightarrow> request"
  req_lnk :: links
  return_list :: "nat option"
  insert_req :: "nat option"
  readset :: "nat set"
  max_fd_num :: nat

definition start_rtsp_o_http_thread :: "thread_data \<Rightarrow> thread_data" where
  "start_rtsp_o_http_thread t = t\<lparr>insert_req := None, hup := False, used_list := None, free_list := None, return_list := None\<rparr>"

definition rtsp_o_http_notify_restart :: "thread_data \<Rightarrow> thread_data" where
  "rtsp_o_http_notify_restart t = t\<lparr>hup := True\<rparr>"

definition set_rec :: "nat \<Rightarrow> rtsp_data \<Rightarrow> thread_data \<Rightarrow> thread_data" where
  "set_rec w d t = t\<lparr>recs := (recs t)(w := d)\<rparr>"

definition set_treq :: "nat \<Rightarrow> request \<Rightarrow> thread_data \<Rightarrow> thread_data" where
  "set_treq q r t = t\<lparr>treq := (treq t)(q := r)\<rparr>"

subsection \<open>Handing requests over\<close>

definition rtsp_o_http_get_return_req :: "thread_data \<Rightarrow> nat option \<times> thread_data" where
  "rtsp_o_http_get_return_req t =
    (case return_list t of
       None \<Rightarrow> (None, t)
     | Some q \<Rightarrow>
        (let (hd, h) = dequeue (Some q) q (req_lnk t)
         in (Some q, set_treq q ((treq t q)\<lparr>status := DONE, buffer_end := 0\<rparr>) (t\<lparr>return_list := hd, req_lnk := h\<rparr>))))"

text \<open>
  The main loop offers a request and waits for the thread: \<open>lock1\<close> and \<open>lock2\<close> tell whether the two attempts to lock succeed, \<open>signalled\<close>
  whether the thread answers in time. After a timeout the request stays offered, although the main loop keeps it on its ready list.
\<close>

definition rtsp_o_http_insert_req :: "bool \<Rightarrow> bool \<Rightarrow> bool \<Rightarrow> nat \<Rightarrow> thread_data \<Rightarrow> bool \<times> thread_data" where
  "rtsp_o_http_insert_req lock1 lock2 signalled q t =
    (if \<not> lock1 \<and> \<not> lock2 then (False, t) else (signalled, t\<lparr>insert_req := Some q\<rparr>))"

definition give_back :: "nat \<Rightarrow> thread_data \<Rightarrow> thread_data" where
  "give_back q t = (let (hd, h) = enqueue (return_list t) q (req_lnk t) in t\<lparr>return_list := hd, req_lnk := h\<rparr>)"

subsection \<open>Finding a record\<close>

datatype search_code = NO_SPACE | NEW_ID | EXIST_ID

text \<open>The loop over the used list; the second argument bounds the number of records looked at.\<close>

fun find_record :: "thread_data \<Rightarrow> nat \<Rightarrow> nat option \<Rightarrow> cstring \<Rightarrow> nat option" where
  "find_record t n None sid = None"
| "find_record t 0 (Some w) sid = None"
| "find_record t (Suc n) (Some w) sid =
    (if rd_sessionid (recs t w) = sid then Some w else find_record t n (nxt (rec_lnk t) w) sid)"

text \<open>A record from the free list, or a new one.\<close>

definition take_record :: "thread_data \<Rightarrow> nat option \<times> thread_data" where
  "take_record t =
    (case free_list t of
       Some w \<Rightarrow> (Some w, t\<lparr>rec_lnk := (case nxt (rec_lnk t) w of Some n \<Rightarrow> set_prev n None (rec_lnk t) | None \<Rightarrow> rec_lnk t),
                       free_list := nxt (rec_lnk t) w\<rparr>)
     | None \<Rightarrow>
        (case rec_malloc t of
           Some w # ms \<Rightarrow> (Some w, t\<lparr>rec_malloc := ms\<rparr>)
         | None # ms \<Rightarrow> (None, t\<lparr>rec_malloc := ms\<rparr>)
         | [] \<Rightarrow> (None, t)))"

definition push_used :: "nat \<Rightarrow> cstring \<Rightarrow> thread_data \<Rightarrow> thread_data" where
  "push_used w sid t =
    (let h = set_next w (used_list t) (set_prev w None (rec_lnk t));
         h1 = (case used_list t of Some u \<Rightarrow> set_prev u (Some w) h | None \<Rightarrow> h)
     in (set_rec w (zero_record\<lparr>rd_sessionid := take 27 sid\<rparr>) t)\<lparr>rec_lnk := h1, used_list := Some w\<rparr>)"

definition search_adpative_record :: "nat \<Rightarrow> cstring \<Rightarrow> thread_data \<Rightarrow> search_code \<times> nat option \<times> thread_data" where
  "search_adpative_record n sid t =
    (case find_record t n (used_list t) sid of
       Some w \<Rightarrow> (EXIST_ID, Some w, t)
     | None \<Rightarrow>
        (case take_record t of
           (None, t1) \<Rightarrow> (NO_SPACE, None, t1)
         | (Some w, t1) \<Rightarrow> (NEW_ID, Some w, push_used w sid t1)))"

subsection \<open>Taking a request over\<close>

text \<open>\<open>addClientConnection\<close> creates the session of a record and sets its flag.\<close>

definition addClientConnection :: "rtsp_data \<Rightarrow> rtsp_data" where
  "addClientConnection d = (if session d then d else d\<lparr>session := True, setup_ok := True, playing := False\<rparr>)"

definition watch_req :: "nat \<Rightarrow> thread_data \<Rightarrow> thread_data" where
  "watch_req q t = (let f = fd (treq t q) in t\<lparr>max_fd_num := max f (max_fd_num t), readset := insert f (readset t)\<rparr>)"

definition place_request :: "nat \<Rightarrow> search_code \<Rightarrow> nat \<Rightarrow> thread_data \<Rightarrow> thread_data" where
  "place_request q found w t =
    (let d = recs t w;
         new = (\<lambda>d. if found = NEW_ID then addClientConnection d else d);
         t1 = (if method (treq t q) = M_GET
               then (if outreq d = None then watch_req q (set_rec w (new (d\<lparr>outreq := Some q, out_ok := True\<rparr>)) t) else t)
               else (if inreq d = None then watch_req q (set_rec w (new (d\<lparr>inreq := Some q, in_ok := True\<rparr>)) t) else t));
         d1 = recs t1 w
     in set_rec w (d1\<lparr>rd_status := (if in_ok d1 \<and> out_ok d1 then STATUS_ACTIVE else STATUS_WAIT_SOCKET)\<rparr>) t1)"

definition insert_request :: "nat \<Rightarrow> nat \<Rightarrow> thread_data \<Rightarrow> thread_data" where
  "insert_request n q t =
    (case search_adpative_record n (sessionid (treq t q)) t of
       (found, Some w, t1) \<Rightarrow> if rd_status (recs t1 w) \<noteq> STATUS_WAIT_CLOSE then place_request q found w t1 else t1
     | (found, None, t1) \<Rightarrow> t1)"

subsection \<open>Reading from the connections\<close>

text \<open>
  The connections are read one after the other; \<open>ws\<close> is what \<open>select\<close> left of the set, \<open>rd\<close> what a read from a descriptor gives.
  Data of a \<open>GET\<close> connection is dropped: it is read over the start of the stream.
\<close>

definition closes :: "rd_result \<Rightarrow> bool" where
  "closes x = (case x of R_bytes bs \<Rightarrow> bs = [] | R_err e \<Rightarrow> \<not> would_block e)"

text \<open>A read into a stream that is full returns 0.\<close>

definition read_room :: "nat \<Rightarrow> rd_result \<Rightarrow> rd_result" where
  "read_room n x = (case x of R_bytes bs \<Rightarrow> R_bytes (take n bs) | R_err e \<Rightarrow> R_err e)"

definition poll_in :: "nat set \<Rightarrow> (nat \<Rightarrow> rd_result) \<Rightarrow> nat \<Rightarrow> thread_data \<Rightarrow> bool \<times> thread_data" where
  "poll_in ws rd w t =
    (case inreq (recs t w) of
       Some q \<Rightarrow>
        (let r = treq t q in
         if fd r \<in> ws then
           (let x = read_room (CLIENT_STREAM_SIZE - client_stream_pos r) (rd (fd r)) in
            if closes x then (True, give_back q (set_rec w ((recs t w)\<lparr>in_ok := False, inreq := None\<rparr>) (t\<lparr>readset := readset t - {fd r}\<rparr>)))
            else (False, case x of R_bytes bs \<Rightarrow> set_treq q (r\<lparr>client_stream := client_stream r @ bs\<rparr>) t | R_err e \<Rightarrow> t))
         else (False, t))
     | None \<Rightarrow> (False, t))"

definition poll_out :: "nat set \<Rightarrow> (nat \<Rightarrow> rd_result) \<Rightarrow> nat \<Rightarrow> thread_data \<Rightarrow> bool \<times> thread_data" where
  "poll_out ws rd w t =
    (case outreq (recs t w) of
       Some q \<Rightarrow>
        (let r = treq t q in
         if fd r \<in> ws then
           (let x = read_room CLIENT_STREAM_SIZE (rd (fd r)) in
            if closes x then (True, give_back q (set_rec w ((recs t w)\<lparr>out_ok := False, outreq := None\<rparr>) (t\<lparr>readset := readset t - {fd r}\<rparr>)))
            else (False, case x of
                R_bytes bs \<Rightarrow> set_treq q (r\<lparr>client_stream := take (client_stream_pos r) (bs @ drop (length bs) (client_stream r))\<rparr>) t
              | R_err e \<Rightarrow> t))
         else (False, t))
     | None \<Rightarrow> (False, t))"

definition poll_record :: "nat set \<Rightarrow> (nat \<Rightarrow> rd_result) \<Rightarrow> nat \<Rightarrow> thread_data \<Rightarrow> thread_data" where
  "poll_record ws rd w t =
    (let (a, t1) = poll_in ws rd w t; (b, t2) = poll_out ws rd w t1; d = recs t2 w
     in if rd_status d \<noteq> STATUS_WAIT_CLOSE \<and> (a \<or> b)
        then set_rec w (d\<lparr>rd_status := (if in_ok d \<or> out_ok d then STATUS_WAIT_SOCKET else STATUS_WAIT_CLOSE)\<rparr>) t2
        else t2)"

fun poll_loop :: "nat set \<Rightarrow> (nat \<Rightarrow> rd_result) \<Rightarrow> nat \<Rightarrow> nat option \<Rightarrow> thread_data \<Rightarrow> thread_data" where
  "poll_loop ws rd n None t = t"
| "poll_loop ws rd 0 (Some w) t = t"
| "poll_loop ws rd (Suc n) (Some w) t =
    (let t1 = poll_record ws rd w t in poll_loop ws rd n (nxt (rec_lnk t1) w) t1)"

subsection \<open>The RTSP requests of a tunnel\<close>

definition RTSP_BUFFER_SIZE :: nat where "RTSP_BUFFER_SIZE = 10000"

text \<open>
  New data is decoded behind what the buffer holds; when the stream is full, the terminator is written behind its end, which is not defined.
\<close>

definition decode_stream :: "request \<Rightarrow> request option" where
  "decode_stream r =
    (if parse_pos r < client_stream_pos r then
       if client_stream_pos r < CLIENT_STREAM_SIZE then
         (let d = base64decode (cstr (drop (parse_pos r) (client_stream r))) (BUFFER_SIZE - buffer_end r)
          in Some (r\<lparr>buffer := mem_put (buffer_end r) d (buffer r), buffer_end := buffer_end r + length d - 1,
               parse_pos := 0, client_stream := []\<rparr>))
       else None
     else Some r)"

text \<open>The scan for the end of a request: the loop is left without a result when there are not even four bytes to look at.\<close>

datatype scan_result = Scan_found nat | Scan_return | Scan_short

fun scan_from :: "nat \<Rightarrow> nat \<Rightarrow> char list \<Rightarrow> scan_result" where
  "scan_from 0 i buf = Scan_return"
| "scan_from (Suc n) i buf = (if take 4 (drop i buf) = CRLF @ CRLF then Scan_found (i + 4) else scan_from n (i + 1) buf)"

definition scan_request :: "request \<Rightarrow> scan_result" where
  "scan_request r =
    (if buffer_start r + 4 \<le> buffer_end r then scan_from (buffer_end r - 3 - buffer_start r) (buffer_start r) (buffer r) else Scan_short)"

text \<open>
  One pass of the \<open>do\<close> loop: \<open>msg\<close> is the content of \<open>fRequestBuffer\<close>, empty before the first request. The parameter \<open>exec\<close> is the
  execution of one RTSP request; it is told the descriptor for the answer and whether the stream plays, and returns the latter, whether the
  session goes on, and the state of the streaming library.
\<close>

type_synonym 'l rtsp_exec = "cstring \<Rightarrow> nat option \<Rightarrow> bool \<Rightarrow> 'l \<Rightarrow> bool \<times> bool \<times> 'l"

definition take_message :: "request \<Rightarrow> nat \<Rightarrow> cstring \<times> request" where
  "take_message r e =
    (take (e - buffer_start r) (drop (buffer_start r) (buffer r)),
     if e \<ge> buffer_end r then r\<lparr>buffer_start := 0, buffer_end := 0\<rparr> else r\<lparr>buffer_start := e\<rparr>)"

definition run_message :: "'l rtsp_exec \<Rightarrow> nat option \<Rightarrow> cstring \<Rightarrow> bool \<Rightarrow> 'l \<Rightarrow> bool \<times> bool \<times> 'l" where
  "run_message exec out msg play l =
    (if 0 < length msg \<and> length msg < RTSP_BUFFER_SIZE then exec msg out play l else (play, True, l))"

text \<open>The loop: the result tells whether the function returned from within it.\<close>

fun rtsp_loop :: "nat \<Rightarrow> 'l rtsp_exec \<Rightarrow> nat option \<Rightarrow> cstring \<Rightarrow> request \<Rightarrow> bool \<Rightarrow> 'l \<Rightarrow> (bool \<times> bool \<times> cstring \<times> request \<times> bool \<times> 'l) option" where
  "rtsp_loop 0 exec out msg r play l = None"
| "rtsp_loop (Suc n) exec out msg r play l =
    (case scan_request r of
       Scan_return \<Rightarrow> Some (True, True, msg, r, play, l)
     | sc \<Rightarrow>
        (let (msg1, r1) = (case sc of Scan_found e \<Rightarrow> take_message r e | _ \<Rightarrow> (msg, r));
             (play1, active, l1) = run_message exec out msg1 play l
         in if active \<and> buffer_start r1 < buffer_end r1 then rtsp_loop n exec out msg1 r1 play1 l1
            else Some (False, active, msg1, r1, play1, l1)))"

text \<open>The session is deleted when it has ended, the connections are gone, or the last request was too long.\<close>

definition end_session :: "rtsp_data \<Rightarrow> rtsp_data" where
  "end_session d = d\<lparr>session := False, setup_ok := False, playing := False,
     rd_status := (if rd_status d = STATUS_CLOSED then STATUS_CLOSED else STATUS_WAIT_CLOSE)\<rparr>"

definition finish_handler :: "bool \<Rightarrow> cstring \<Rightarrow> rtsp_data \<Rightarrow> rtsp_data" where
  "finish_handler active msg d =
    (if \<not> active \<or> \<not> (in_ok d \<or> out_ok d) \<or> length msg \<ge> RTSP_BUFFER_SIZE then end_session d else d)"

definition incoming_hander :: "nat \<Rightarrow> 'l rtsp_exec \<Rightarrow> nat \<Rightarrow> thread_data \<Rightarrow> 'l \<Rightarrow> (thread_data \<times> 'l) option" where
  "incoming_hander n exec w t l =
    (let d = recs t w in
     if \<not> session d then None
     else (case inreq d of
         None \<Rightarrow> Some (set_rec w (finish_handler True [] d) t, l)
       | Some q \<Rightarrow>
          (case decode_stream (treq t q) of
             None \<Rightarrow> None
           | Some r \<Rightarrow>
              (case rtsp_loop n exec (map_option (\<lambda>q. fd (treq t q)) (outreq d)) [] r (playing d) l of
                 None \<Rightarrow> None
               | Some (early, active, msg, r1, play, l1) \<Rightarrow>
                  (let d1 = d\<lparr>playing := play\<rparr>
                   in Some (set_treq q r1 (set_rec w (if early then d1 else finish_handler active msg d1) t), l1))))))"

subsection \<open>Closing tunnels\<close>

definition release_record :: "nat \<Rightarrow> thread_data \<Rightarrow> thread_data" where
  "release_record w t =
    (let h = rec_lnk t;
         (us, h1) = (case prv h w of Some p \<Rightarrow> (used_list t, set_next p (nxt h w) h) | None \<Rightarrow> (nxt h w, h));
         h2 = (case nxt h1 w of Some n \<Rightarrow> set_prev n (prv h1 w) h1 | None \<Rightarrow> h1);
         h3 = set_next w (free_list t) (set_prev w None h2)
     in (set_rec w zero_record t)\<lparr>rec_lnk := h3, used_list := us, free_list := Some w\<rparr>)"

definition update_one :: "nat \<Rightarrow> 'l rtsp_exec \<Rightarrow> nat \<Rightarrow> thread_data \<Rightarrow> 'l \<Rightarrow> (thread_data \<times> 'l) option" where
  "update_one n exec w t l =
    (let d = recs t w in
     case rd_status d of
       STATUS_ACTIVE \<Rightarrow>
         (case inreq d of
            None \<Rightarrow> None
          | Some q \<Rightarrow> if parse_pos (treq t q) < client_stream_pos (treq t q) then incoming_hander n exec w t l else Some (t, l))
     | STATUS_WAIT_CLOSE \<Rightarrow>
         (case (if \<not> in_ok d \<and> \<not> out_ok d \<and> (setup_ok d \<or> playing d) then incoming_hander n exec w t l else Some (t, l)) of
            None \<Rightarrow> None
          | Some (t1, l1) \<Rightarrow>
             (let d1 = recs t1 w in
              Some (if in_ok d1 \<or> out_ok d1 \<or> setup_ok d1 \<or> playing d1 then t1 else release_record w t1, l1)))
     | _ \<Rightarrow> Some (t, l))"

fun update_record :: "nat \<Rightarrow> 'l rtsp_exec \<Rightarrow> nat \<Rightarrow> nat option \<Rightarrow> thread_data \<Rightarrow> 'l \<Rightarrow> (thread_data \<times> 'l) option" where
  "update_record n exec m None t l = Some (t, l)"
| "update_record n exec 0 (Some w) t l = None"
| "update_record n exec (Suc m) (Some w) t l =
    (case update_one n exec w t l of
       None \<Rightarrow> None
     | Some (t1, l1) \<Rightarrow> update_record n exec m (nxt (rec_lnk t) w) t1 l1)"

subsection \<open>One round of the thread\<close>

text \<open>\<open>ready\<close> is the outcome of \<open>select\<close>, \<open>None\<close> for an error.\<close>

definition rtsp_round ::
  "nat \<Rightarrow> nat \<Rightarrow> 'l rtsp_exec \<Rightarrow> ('l \<Rightarrow> 'l) \<Rightarrow> nat set option \<Rightarrow> (nat \<Rightarrow> rd_result) \<Rightarrow> thread_data \<Rightarrow> 'l \<Rightarrow> (thread_data \<times> 'l) option" where
  "rtsp_round n m exec do_live555 ready rd t l =
    (let t1 = (case insert_req t of Some q \<Rightarrow> (insert_request m q t)\<lparr>insert_req := None\<rparr> | None \<Rightarrow> t) in
     if used_list t1 = None then Some (t1\<lparr>max_fd_num := 0, readset := {}\<rparr>, l)
     else (let t2 = (case ready of None \<Rightarrow> t1 | Some ws \<Rightarrow> poll_loop (readset t1 \<inter> ws) rd m (used_list t1) t1)
           in update_record n exec m (used_list t2) t2 (do_live555 l)))"

subsection \<open>The lists of records\<close>

text \<open>The free list is linked in one direction only: a released record is put in front of it without a pointer back.\<close>

fun chain :: "links \<Rightarrow> nat list \<Rightarrow> bool" where
  "chain h [] \<longleftrightarrow> True"
| "chain h (x # xs) \<longleftrightarrow> nxt h x = first xs None \<and> chain h xs"

lemma chain_cong: "(\<And>x. x \<in> set xs \<Longrightarrow> nxt h' x = nxt h x) \<Longrightarrow> chain h' xs = chain h xs"
  by (induction xs) auto

definition recs_rep :: "thread_data \<Rightarrow> nat list \<Rightarrow> nat list \<Rightarrow> bool" where
  "recs_rep t us fs \<longleftrightarrow> is_queue (rec_lnk t) (used_list t) us \<and> free_list t = first fs None \<and> chain (rec_lnk t) fs \<and>
     distinct (us @ fs) \<and> distinct (filter (\<lambda>m. m \<noteq> None) (rec_malloc t)) \<and> (\<forall>w \<in> set (us @ fs). Some w \<notin> set (rec_malloc t))"

lemma push_used_enqueue:
  "used_list t \<noteq> Some w \<Longrightarrow> (used_list (push_used w sid t), rec_lnk (push_used w sid t)) = enqueue (used_list t) w (rec_lnk t)"
  by (cases "used_list t") (auto simp: push_used_def enqueue_def Let_def set_rec_def set_next_def set_prev_def fun_upd_twist)

lemma take_record_rep:
  assumes rep: "recs_rep t us fs" and run: "take_record t = (res, t')"
  shows "res = None \<and> recs_rep t' us fs \<or>
    (\<exists>w fs'. res = Some w \<and> w \<notin> set us \<and> (\<forall>sid. recs_rep (push_used w sid t') (w # us) fs'))"
    "recs t' = recs t" "treq t' = treq t" "req_lnk t' = req_lnk t" "return_list t' = return_list t"
proof -
  have push: "recs_rep (push_used w sid t1) (w # us) fs1"
    if "is_queue (rec_lnk t1) (used_list t1) us" "free_list t1 = first fs1 None" "chain (rec_lnk t1) fs1" "distinct (w # us @ fs1)"
      "distinct (filter (\<lambda>m. m \<noteq> None) (rec_malloc t1))" "\<forall>x \<in> set (w # us @ fs1). Some x \<notin> set (rec_malloc t1)" for w sid t1 fs1
  proof -
    have n: "used_list t1 \<noteq> Some w" using that(1,4) by (cases us) (auto simp: is_queue_def)
    note e = push_used_enqueue[OF n, of sid, symmetric]
    have nx: "nxt (rec_lnk (push_used w sid t1)) x = nxt (rec_lnk t1) x" if "x \<noteq> w" for x
      using that by (auto simp: push_used_def Let_def set_rec_def split: option.splits)
    have "chain (rec_lnk (push_used w sid t1)) fs1 = chain (rec_lnk t1) fs1" using that(4) by (intro chain_cong nx) auto
    then show ?thesis using that enqueue_refines[OF that(1) _ e] by (auto simp: recs_rep_def push_used_def Let_def set_rec_def)
  qed
  show "res = None \<and> recs_rep t' us fs \<or> (\<exists>w fs'. res = Some w \<and> w \<notin> set us \<and> (\<forall>sid. recs_rep (push_used w sid t') (w # us) fs'))"
  proof (cases fs)
    case (Cons w fs')
    then have t': "res = Some w" "t' = t\<lparr>rec_lnk := (case nxt (rec_lnk t) w of Some n \<Rightarrow> set_prev n None (rec_lnk t) | None \<Rightarrow> rec_lnk t),
        free_list := first fs' None\<rparr>"
      using rep run by (auto simp: recs_rep_def take_record_def)
    have nx: "nxt (rec_lnk t') x = nxt (rec_lnk t) x" for x by (simp add: t'(2) split: option.split)
    have "prv (rec_lnk t') x = prv (rec_lnk t) x" if "x \<in> set us" for x
    proof -
      have "nxt (rec_lnk t) w = first fs' None" "x \<notin> set fs'" using rep that Cons by (auto simp: recs_rep_def)
      then show ?thesis by (cases fs') (auto simp: t'(2))
    qed
    then have "is_queue (rec_lnk t') (used_list t') us"
      using rep nx is_queue_frame[of "rec_lnk t" "used_list t" us "rec_lnk t'"] by (simp add: recs_rep_def t'(2))
    moreover have "chain (rec_lnk t') fs'" using rep Cons chain_cong[of fs' "rec_lnk t'" "rec_lnk t"] nx by (simp add: recs_rep_def)
    moreover have "w \<notin> set us" using rep Cons by (auto simp: recs_rep_def)
    ultimately have "\<forall>sid. recs_rep (push_used w sid t') (w # us) fs'" using rep Cons by (intro allI push) (auto simp: recs_rep_def t'(2))
    then show ?thesis using t'(1) \<open>w \<notin> set us\<close> by blast
  next
    case Nil
    then have fl: "free_list t = None" using rep by (simp add: recs_rep_def)
    show ?thesis
    proof (cases "rec_malloc t")
      case Nil
      then show ?thesis using run rep fl by (simp add: take_record_def)
    next
      case (Cons m ms)
      show ?thesis
      proof (cases m)
        case None
        then show ?thesis using run rep fl Cons by (auto simp: take_record_def recs_rep_def)
      next
        case (Some w)
        then have t': "res = Some w" "t' = t\<lparr>rec_malloc := ms\<rparr>" using run fl Cons by (simp_all add: take_record_def)
        have "w \<notin> set us" "Some w \<notin> set ms" using rep Cons Some by (auto simp: recs_rep_def)
        then have "\<forall>sid. recs_rep (push_used w sid t') (w # us) []"
          using rep Cons Some \<open>fs = []\<close> by (intro allI push) (auto simp: recs_rep_def t'(2))
        then show ?thesis using t'(1) \<open>w \<notin> set us\<close> by blast
      qed
    qed
  qed
  show "recs t' = recs t" "treq t' = treq t" "req_lnk t' = req_lnk t" "return_list t' = return_list t"
    using run by (auto simp: take_record_def split: option.splits list.splits)
qed

lemma find_record_in:
  "dseg (rec_lnk t) p us None \<Longrightarrow> find_record t n (first us None) sid = Some w \<Longrightarrow> w \<in> set us \<and> rd_sessionid (recs t w) = sid"
proof (induction us arbitrary: n p)
  case (Cons u us)
  then show ?case by (cases n) (auto split: if_splits)
qed simp

lemma find_record_none:
  "dseg (rec_lnk t) p us None \<Longrightarrow> length us \<le> n \<Longrightarrow> find_record t n (first us None) sid = None \<Longrightarrow> w \<in> set us \<Longrightarrow>
   rd_sessionid (recs t w) \<noteq> sid"
proof (induction us arbitrary: n p)
  case (Cons u us)
  then show ?case by (cases n) (auto split: if_splits)
qed simp

lemma release_record_rep:
  assumes rep: "recs_rep t us fs" and w: "w \<in> set us"
  shows "recs_rep (release_record w t) (remove1 w us) (w # fs)"
    "recs (release_record w t) = (recs t)(w := zero_record)" "treq (release_record w t) = treq t"
    "req_lnk (release_record w t) = req_lnk t" "return_list (release_record w t) = return_list t"
    "x \<noteq> w \<Longrightarrow> x \<notin> set us \<Longrightarrow> nxt (rec_lnk (release_record w t)) x = nxt (rec_lnk t) x"
proof -
  let ?t = "release_record w t"
  obtain hd h where d: "dequeue (used_list t) w (rec_lnk t) = (hd, h)" by force
  have q: "is_queue (rec_lnk t) (used_list t) us" using rep by (simp add: recs_rep_def)
  obtain as bs where us: "us = as @ w # bs" using w by (meson split_list)
  have p: "prv (rec_lnk t) w = final None as" using q us by (auto simp: is_queue_def dseg_append)
  have hd: "used_list ?t = hd"
  proof (cases as)
    case Nil
    then show ?thesis using p d q us by (auto simp: release_record_def dequeue_def Let_def set_rec_def is_queue_def)
  next
    case (Cons a as')
    then have "final None as \<noteq> None" "used_list t \<noteq> Some w" using final_in[of None as] q us by (auto simp: is_queue_def)
    then show ?thesis using p d by (auto simp: release_record_def dequeue_def Let_def set_rec_def split: option.splits)
  qed
  have h: "rec_lnk ?t = set_next w (free_list t) h"
    using d by (auto simp: release_record_def dequeue_def Let_def set_rec_def set_next_def set_prev_def fun_upd_twist split: option.splits)
  have "w \<notin> set (remove1 w us)" using q by (auto simp: is_queue_def)
  then have "nxt (set_next w (free_list t) h) x = nxt h x \<and> prv (set_next w (free_list t) h) x = prv h x" if "x \<in> set (remove1 w us)" for x
    using that by auto
  from is_queue_frame[OF dequeue_refines[OF q w d] this] have used: "is_queue (rec_lnk ?t) (used_list ?t) (remove1 w us)"
    unfolding hd h .
  have fr: "nxt (rec_lnk ?t) x = nxt (rec_lnk t) x" if "x \<noteq> w" "x \<notin> set us" for x
    using dequeue_frame[OF q w d that(2)] that(1) by (simp add: h)
  have "chain (rec_lnk ?t) fs = chain (rec_lnk t) fs" using rep w by (intro chain_cong fr) (auto simp: recs_rep_def)
  then have "chain (rec_lnk ?t) fs" using rep by (simp add: recs_rep_def)
  moreover have "free_list ?t = Some w" "rec_malloc ?t = rec_malloc t" by (simp_all add: release_record_def Let_def set_rec_def split: prod.split)
  moreover have "nxt (rec_lnk ?t) w = first fs None" using rep by (simp add: h recs_rep_def)
  ultimately show "recs_rep ?t (remove1 w us) (w # fs)" using used rep w by (auto simp: recs_rep_def)
  show "x \<noteq> w \<Longrightarrow> x \<notin> set us \<Longrightarrow> nxt (rec_lnk ?t) x = nxt (rec_lnk t) x" by (rule fr)
qed (simp_all add: release_record_def Let_def set_rec_def split: prod.split)

subsection \<open>The invariant of the thread\<close>

definition flags_ok :: "rtsp_data \<Rightarrow> bool" where
  "flags_ok d \<longleftrightarrow> (in_ok d \<longleftrightarrow> inreq d \<noteq> None) \<and> (out_ok d \<longleftrightarrow> outreq d \<noteq> None) \<and> (session d \<longleftrightarrow> setup_ok d) \<and> (playing d \<longrightarrow> setup_ok d)"

definition status_ok :: "rtsp_data \<Rightarrow> bool" where
  "status_ok d \<longleftrightarrow> (case rd_status d of
        STATUS_CLOSED \<Rightarrow> False
      | STATUS_WAIT_SOCKET \<Rightarrow> session d \<and> (in_ok d \<or> out_ok d)
      | STATUS_ACTIVE \<Rightarrow> session d \<and> in_ok d \<and> out_ok d
      | STATUS_WAIT_CLOSE \<Rightarrow> True)"

definition slots :: "rtsp_data \<Rightarrow> nat list" where
  "slots d = (case inreq d of Some q \<Rightarrow> [q] | None \<Rightarrow> []) @ (case outreq d of Some q \<Rightarrow> [q] | None \<Rightarrow> [])"

text \<open>The requests the thread can still give back: those of the tunnels in use, and those on the return list.\<close>

definition held :: "thread_data \<Rightarrow> nat list \<Rightarrow> nat list \<Rightarrow> nat list" where
  "held t us rs = concat (map (\<lambda>w. slots (recs t w)) us) @ rs"

text \<open>In the middle of an operation the status of a record may be out of date; the first argument is the set of such records.\<close>

definition thread_inv :: "nat set \<Rightarrow> thread_data \<Rightarrow> nat list \<Rightarrow> nat list \<Rightarrow> nat list \<Rightarrow> bool" where
  "thread_inv X t us fs rs \<longleftrightarrow> recs_rep t us fs \<and> is_queue (req_lnk t) (return_list t) rs \<and> distinct (held t us rs) \<and>
     (\<forall>w \<in> set us. flags_ok (recs t w)) \<and> (\<forall>w \<in> set us - X. status_ok (recs t w))"

lemma held_split:
  "distinct (as @ w # bs) \<Longrightarrow>
   mset (held (set_rec w d t) (as @ w # bs) rs) = mset (held t as []) + mset (held t bs rs) + mset (slots d)"
  "mset (held t (as @ w # bs) rs) = mset (held t as []) + mset (held t bs rs) + mset (slots (recs t w))"
proof -
  assume "distinct (as @ w # bs)"
  then have m: "map (\<lambda>x. slots (recs (set_rec w d t) x)) as = map (\<lambda>x. slots (recs t x)) as"
    "map (\<lambda>x. slots (recs (set_rec w d t) x)) bs = map (\<lambda>x. slots (recs t x)) bs" by (auto simp: set_rec_def)
  show "mset (held (set_rec w d t) (as @ w # bs) rs) = mset (held t as []) + mset (held t bs rs) + mset (slots d)"
    unfolding held_def map_append list.map concat_append concat.simps m by (simp add: set_rec_def)
qed (simp add: held_def)

lemma set_rec_fields [simp]:
  "recs (set_rec w d t) = (recs t)(w := d)" "rec_lnk (set_rec w d t) = rec_lnk t" "used_list (set_rec w d t) = used_list t"
  "free_list (set_rec w d t) = free_list t" "rec_malloc (set_rec w d t) = rec_malloc t" "treq (set_rec w d t) = treq t"
  "req_lnk (set_rec w d t) = req_lnk t" "return_list (set_rec w d t) = return_list t" "insert_req (set_rec w d t) = insert_req t"
  by (simp_all add: set_rec_def)

lemma set_treq_fields [simp]:
  "recs (set_treq q r t) = recs t" "rec_lnk (set_treq q r t) = rec_lnk t" "used_list (set_treq q r t) = used_list t"
  "free_list (set_treq q r t) = free_list t" "rec_malloc (set_treq q r t) = rec_malloc t"
  "req_lnk (set_treq q r t) = req_lnk t" "return_list (set_treq q r t) = return_list t" "insert_req (set_treq q r t) = insert_req t"
  by (simp_all add: set_treq_def)

lemma thread_inv_cong:
  assumes "thread_inv X t us fs rs" "rec_lnk t' = rec_lnk t" "used_list t' = used_list t" "free_list t' = free_list t" "rec_malloc t' = rec_malloc t"
    "req_lnk t' = req_lnk t" "return_list t' = return_list t" "recs t' = recs t"
  shows "thread_inv X t' us fs rs"
  using assms by (simp add: thread_inv_def recs_rep_def held_def)

lemma mset_distinct: "mset xs = mset ys \<Longrightarrow> distinct ys \<Longrightarrow> distinct xs \<and> set xs = set ys"
  by (metis distinct_count_atmost_1 mset_eq_setD)

text \<open>Changing a record without changing its requests.\<close>

lemma thread_inv_rec:
  assumes i: "thread_inv X t us fs rs" and w: "w \<in> set us" and d: "flags_ok d" "slots d = slots (recs t w)"
  shows "status_ok d \<Longrightarrow> thread_inv (X - {w}) (set_rec w d t) us fs rs" "thread_inv (insert w X) (set_rec w d t) us fs rs" "set (held (set_rec w d t) us rs) = set (held t us rs)"
proof -
  obtain as bs where us: "us = as @ w # bs" using w by (meson split_list)
  have "distinct us" using i by (simp add: thread_inv_def recs_rep_def)
  then have "mset (held (set_rec w d t) us rs) = mset (held t us rs)" using held_split(1)[of as w bs d t rs] held_split(2)[of t as w bs rs] d(2) us by simp
  moreover have "distinct (held t us rs)" using i by (simp add: thread_inv_def)
  ultimately have "distinct (held (set_rec w d t) us rs) \<and> set (held (set_rec w d t) us rs) = set (held t us rs)" by (rule mset_distinct)
  then show "status_ok d \<Longrightarrow> thread_inv (X - {w}) (set_rec w d t) us fs rs" "thread_inv (insert w X) (set_rec w d t) us fs rs" "set (held (set_rec w d t) us rs) = set (held t us rs)"
    using i d(1) by (auto simp: thread_inv_def recs_rep_def)
qed

text \<open>Giving a request of a record back.\<close>

lemma give_back_inv:
  assumes i: "thread_inv X t us fs rs" and w: "w \<in> set us" and d: "flags_ok d" "mset (slots (recs t w)) = add_mset q (mset (slots d))"
  shows "thread_inv (insert w X) (give_back q (set_rec w d t)) us fs (q # rs)" "set (held (give_back q (set_rec w d t)) us (q # rs)) = set (held t us rs)"
proof -
  let ?t = "give_back q (set_rec w d t)"
  obtain as bs where us: "us = as @ w # bs" using w by (meson split_list)
  have u: "distinct us" and dh: "distinct (held t us rs)" using i by (simp_all add: thread_inv_def recs_rep_def)
  have "q \<in> set (slots (recs t w))" using d(2) by (metis set_mset_mset union_single_eq_member)
  then have "q \<notin> set rs" using dh w by (auto simp: held_def)
  obtain hd h where e: "enqueue (return_list t) q (req_lnk t) = (hd, h)" by force
  have rq: "is_queue h hd (q # rs)" using i enqueue_refines[OF _ \<open>q \<notin> set rs\<close> e] by (simp add: thread_inv_def)
  have f: "req_lnk ?t = h" "return_list ?t = hd" "recs ?t = (recs t)(w := d)" "rec_lnk ?t = rec_lnk t" "used_list ?t = used_list t"
      "free_list ?t = free_list t" "rec_malloc ?t = rec_malloc t" using e by (simp_all add: give_back_def)
  have "mset (held ?t us (q # rs)) = add_mset q (mset (held (set_rec w d t) us rs))" by (simp add: held_def f)
  also have "\<dots> = mset (held t us rs)" using held_split(1)[of as w bs d t rs] held_split(2)[of t as w bs rs] u d(2) us by simp
  finally have "distinct (held ?t us (q # rs)) \<and> set (held ?t us (q # rs)) = set (held t us rs)" using dh by (rule mset_distinct)
  then show "thread_inv (insert w X) ?t us fs (q # rs)" "set (held ?t us (q # rs)) = set (held t us rs)"
    using i d(1) rq by (simp_all add: thread_inv_def recs_rep_def f)
qed

subsection \<open>Reading keeps the invariant\<close>

definition same_lists :: "thread_data \<Rightarrow> thread_data \<Rightarrow> bool" where
  "same_lists t t' \<longleftrightarrow> rec_lnk t' = rec_lnk t \<and> used_list t' = used_list t \<and> insert_req t' = insert_req t"

lemma give_back_fields [simp]:
  "recs (give_back q t) = recs t" "rec_lnk (give_back q t) = rec_lnk t" "used_list (give_back q t) = used_list t"
  "insert_req (give_back q t) = insert_req t"
  by (simp_all add: give_back_def split: prod.split)

text \<open>Both directions: nothing but the stream of a request changes, or a request leaves the record for the return list.\<close>

definition polled :: "nat \<Rightarrow> thread_data \<Rightarrow> bool \<Rightarrow> thread_data \<Rightarrow> bool" where
  "polled w t a t' \<longleftrightarrow>
    (if a then \<exists>q S d. t' = give_back q (set_rec w d (t\<lparr>readset := S\<rparr>)) \<and> (flags_ok (recs t w) \<longrightarrow> flags_ok d) \<and>
        mset (slots (recs t w)) = add_mset q (mset (slots d)) \<and> rd_status d = rd_status (recs t w) \<and> session d = session (recs t w)
     else t' = t \<or> (\<exists>q r. t' = set_treq q r t))"

lemma poll_polled:
  "poll_in ws rd w t = (a, t') \<Longrightarrow> polled w t a t'" "poll_out ws rd w t = (a, t') \<Longrightarrow> polled w t a t'"
proof -
  have "\<exists>q' S d'. give_back q (set_rec w d (t\<lparr>readset := R\<rparr>)) = give_back q' (set_rec w d' (t\<lparr>readset := S\<rparr>)) \<and>
     (flags_ok (recs t w) \<longrightarrow> flags_ok d') \<and> mset (slots (recs t w)) = add_mset q' (mset (slots d')) \<and>
     rd_status d' = rd_status (recs t w) \<and> session d' = session (recs t w)"
    if "inreq (recs t w) = Some q \<and> d = (recs t w)\<lparr>in_ok := False, inreq := None\<rparr> \<or>
      outreq (recs t w) = Some q \<and> d = (recs t w)\<lparr>out_ok := False, outreq := None\<rparr>" for q d R
    using that by (intro exI[of _ q] exI[of _ R] exI[of _ d]) (auto simp: flags_ok_def slots_def)
  then show "poll_in ws rd w t = (a, t') \<Longrightarrow> polled w t a t'" "poll_out ws rd w t = (a, t') \<Longrightarrow> polled w t a t'"
    by (auto simp: poll_in_def poll_out_def polled_def Let_def split: option.splits if_splits rd_result.splits)
qed

lemma polled_inv:
  assumes i: "thread_inv X t us fs rs" and w: "w \<in> set us" and run: "polled w t a t'"
  shows "\<exists>rs'. thread_inv (if a then insert w X else X) t' us fs rs' \<and> set (held t' us rs') = set (held t us rs) \<and> same_lists t t'"
    "rd_status (recs t' w) = rd_status (recs t w)" "session (recs t' w) = session (recs t w)"
proof -
  have flags: "flags_ok (recs t w)" using i w by (simp add: thread_inv_def)
  have "(\<exists>rs'. thread_inv (if a then insert w X else X) t' us fs rs' \<and> set (held t' us rs') = set (held t us rs) \<and> same_lists t t') \<and>
     rd_status (recs t' w) = rd_status (recs t w) \<and> session (recs t' w) = session (recs t w)"
  proof (cases a)
    case False
    then have e: "recs t' = recs t \<and> rec_lnk t' = rec_lnk t \<and> used_list t' = used_list t \<and> free_list t' = free_list t \<and>
      rec_malloc t' = rec_malloc t \<and> req_lnk t' = req_lnk t \<and> return_list t' = return_list t \<and> insert_req t' = insert_req t"
      using run by (auto simp: polled_def)
    then have "thread_inv X t' us fs rs" by (intro thread_inv_cong[OF i]) simp_all
    then show ?thesis using False e by (auto simp: same_lists_def held_def intro!: exI[of _ rs])
  next
    case True
    then obtain q S d where c: "t' = give_back q (set_rec w d (t\<lparr>readset := S\<rparr>))" "flags_ok d"
        "mset (slots (recs t w)) = add_mset q (mset (slots d))" "rd_status d = rd_status (recs t w)" "session d = session (recs t w)"
      using run flags by (auto simp: polled_def)
    let ?t = "t\<lparr>readset := S\<rparr>"
    have "thread_inv X ?t us fs rs" by (rule thread_inv_cong[OF i]) simp_all
    note g = give_back_inv[OF this w c(2), of q]
    have "thread_inv (insert w X) t' us fs (q # rs)" "set (held t' us (q # rs)) = set (held t us rs)"
      using g c(1,3) by (simp_all add: held_def)
    then show ?thesis using True c(4,5) by (auto simp: same_lists_def c(1) intro!: exI[of _ "q # rs"])
  qed
  then show "\<exists>rs'. thread_inv (if a then insert w X else X) t' us fs rs' \<and> set (held t' us rs') = set (held t us rs) \<and> same_lists t t'"
    "rd_status (recs t' w) = rd_status (recs t w)" "session (recs t' w) = session (recs t w)" by auto
qed

lemma poll_record_inv:
  assumes i: "thread_inv {} t us fs rs" and w: "w \<in> set us"
  shows "\<exists>rs'. thread_inv {} (poll_record ws rd w t) us fs rs' \<and> set (held (poll_record ws rd w t) us rs') = set (held t us rs) \<and>
    same_lists t (poll_record ws rd w t)"
proof -
  obtain a t1 where p1: "poll_in ws rd w t = (a, t1)" by force
  obtain b t2 where p2: "poll_out ws rd w t1 = (b, t2)" by force
  define d where "d = (recs t2 w)\<lparr>rd_status := (if in_ok (recs t2 w) \<or> out_ok (recs t2 w) then STATUS_WAIT_SOCKET else STATUS_WAIT_CLOSE)\<rparr>"
  obtain rs1 where r1: "thread_inv (if a then {w} else {}) t1 us fs rs1" "set (held t1 us rs1) = set (held t us rs)" "same_lists t t1"
      "rd_status (recs t1 w) = rd_status (recs t w)" "session (recs t1 w) = session (recs t w)"
    using polled_inv[OF i w poll_polled(1)[OF p1]] by auto
  obtain rs2 where r2: "thread_inv (if a \<or> b then {w} else {}) t2 us fs rs2" "set (held t2 us rs2) = set (held t us rs)" "same_lists t t2"
      "rd_status (recs t2 w) = rd_status (recs t w)" "session (recs t2 w) = session (recs t w)"
    using polled_inv[OF r1(1) w poll_polled(2)[OF p2]] r1 by (auto simp: same_lists_def split: if_splits)
  show ?thesis
  proof (cases "rd_status (recs t2 w) \<noteq> STATUS_WAIT_CLOSE \<and> (a \<or> b)")
    case True
    then have e: "poll_record ws rd w t = set_rec w d t2" using p1 p2 by (simp add: poll_record_def d_def Let_def)
    have "status_ok (recs t w)" using i w by (simp add: thread_inv_def)
    then have "session (recs t2 w)" using True r2(4,5) by (auto simp: status_ok_def split: rtsp_status.splits)
    then have "status_ok d" "flags_ok d" "slots d = slots (recs t2 w)"
      using r2(1) w by (auto simp: d_def status_ok_def flags_ok_def slots_def thread_inv_def)
    then show ?thesis unfolding e using thread_inv_rec[OF r2(1) w, of d] r2(2,3) True by (auto simp: same_lists_def intro!: exI[of _ rs2])
  next
    case False
    then have e: "poll_record ws rd w t = t2" using p1 p2 by (auto simp: poll_record_def Let_def)
    have "status_ok (recs t2 w)" if "a \<or> b" using False that by (simp add: status_ok_def)
    then have "thread_inv {} t2 us fs rs2" using r2(1) by (auto simp: thread_inv_def split: if_splits)
    then show ?thesis unfolding e using r2(2,3) by blast
  qed
qed

lemma poll_loop_inv:
  assumes "thread_inv {} t us fs rs" "dseg (rec_lnk t) p vs None" "set vs \<subseteq> set us"
  shows "\<exists>rs'. thread_inv {} (poll_loop ws rd n (first vs None) t) us fs rs' \<and>
    set (held (poll_loop ws rd n (first vs None) t) us rs') = set (held t us rs) \<and> same_lists t (poll_loop ws rd n (first vs None) t)"
  using assms
proof (induction vs arbitrary: n t rs p)
  case Nil
  then show ?case by (auto simp: same_lists_def)
next
  case (Cons v vs)
  show ?case
  proof (cases n)
    case 0
    then show ?thesis using Cons.prems(1) by (auto simp: same_lists_def)
  next
    case (Suc m)
    let ?t = "poll_record ws rd v t"
    obtain rs1 where r: "thread_inv {} ?t us fs rs1" "set (held ?t us rs1) = set (held t us rs)" "same_lists t ?t"
      using poll_record_inv[OF Cons.prems(1), of v ws rd] Cons.prems(3) by auto
    have d: "dseg (rec_lnk ?t) (Some v) vs None" "nxt (rec_lnk ?t) v = first vs None"
      using Cons.prems(2) r(3) by (simp_all add: same_lists_def)
    from Cons.IH[OF r(1) d(1), of m] Cons.prems(3) d(2) r(2,3) Suc show ?thesis by (auto simp: Let_def same_lists_def)
  qed
qed

subsection \<open>Taking a request over keeps the invariant\<close>

lemma add_request_inv:
  assumes i: "thread_inv X t us fs rs" and w: "w \<in> set us" and q: "q \<notin> set (held t us rs)"
    and d: "flags_ok d" "mset (slots d) = add_mset q (mset (slots (recs t w)))"
  shows "thread_inv (insert w X) (set_rec w d t) us fs rs" "set (held (set_rec w d t) us rs) = insert q (set (held t us rs))"
proof -
  obtain as bs where us: "us = as @ w # bs" using w by (meson split_list)
  have "distinct us" using i by (simp add: thread_inv_def recs_rep_def)
  then have "mset (held (set_rec w d t) us rs) = mset (q # held t us rs)"
    using held_split(1)[of as w bs d t rs] held_split(2)[of t as w bs rs] d(2) us by simp
  moreover have "distinct (q # held t us rs)" using i q by (simp add: thread_inv_def)
  ultimately have "distinct (held (set_rec w d t) us rs) \<and> set (held (set_rec w d t) us rs) = set (q # held t us rs)" by (rule mset_distinct)
  then show "thread_inv (insert w X) (set_rec w d t) us fs rs" "set (held (set_rec w d t) us rs) = insert q (set (held t us rs))"
    using i d(1) by (auto simp: thread_inv_def recs_rep_def)
qed

text \<open>The slot a request belongs to, and the record with it in the slot.\<close>

definition slot_of :: "request \<Rightarrow> rtsp_data \<Rightarrow> nat option" where
  "slot_of r d = (if method r = M_GET then outreq d else inreq d)"

definition filled :: "request \<Rightarrow> nat \<Rightarrow> rtsp_data \<Rightarrow> rtsp_data" where
  "filled r q d = (if method r = M_GET then d\<lparr>outreq := Some q, out_ok := True\<rparr> else d\<lparr>inreq := Some q, in_ok := True\<rparr>)"

definition timely :: "rtsp_data \<Rightarrow> rtsp_data" where
  "timely d = d\<lparr>rd_status := (if in_ok d \<and> out_ok d then STATUS_ACTIVE else STATUS_WAIT_SOCKET)\<rparr>"

lemma place_request_eq:
  "place_request q found w t =
    (if slot_of (treq t q) (recs t w) = None
     then watch_req q (set_rec w (timely ((if found = NEW_ID then addClientConnection else id) (filled (treq t q) q (recs t w)))) t)
     else set_rec w (timely (recs t w)) t)"
  by (cases "found = NEW_ID"; cases "method (treq t q) = M_GET"; cases "outreq (recs t w)"; cases "inreq (recs t w)")
    (simp_all add: place_request_def slot_of_def filled_def timely_def Let_def watch_req_def set_rec_def)

lemma watch_req_fields [simp]:
  "recs (watch_req q t) = recs t" "rec_lnk (watch_req q t) = rec_lnk t" "used_list (watch_req q t) = used_list t"
  "free_list (watch_req q t) = free_list t" "rec_malloc (watch_req q t) = rec_malloc t" "treq (watch_req q t) = treq t"
  "req_lnk (watch_req q t) = req_lnk t" "return_list (watch_req q t) = return_list t"
  by (simp_all add: watch_req_def Let_def)

lemma slots_session [simp]:
  "slots (addClientConnection d) = slots d" "slots (timely d) = slots d" "slots (d\<lparr>rd_status := x\<rparr>) = slots d" "slots (d\<lparr>playing := p\<rparr>) = slots d"
  "slots (end_session d) = slots d"
  by (simp_all add: slots_def addClientConnection_def timely_def end_session_def)

lemma place_request_inv:
  assumes i: "thread_inv X t us fs rs" "X \<subseteq> {w}" and w: "w \<in> set us" and q: "q \<notin> set (held t us rs)"
    and d: "found = NEW_ID \<and> recs t w = zero_record\<lparr>rd_sessionid := sid\<rparr> \<or> found \<noteq> NEW_ID \<and> session (recs t w)"
  shows "thread_inv {} (place_request q found w t) us fs rs"
    "set (held (place_request q found w t) us rs) =
      (if slot_of (treq t q) (recs t w) = None then insert q (set (held t us rs)) else set (held t us rs))"
proof -
  let ?d = "recs t w" and ?new = "if found = NEW_ID then addClientConnection else id"
  have flags: "flags_ok ?d" using i w by (simp add: thread_inv_def)
  have "thread_inv {} (place_request q found w t) us fs rs \<and> set (held (place_request q found w t) us rs) =
      (if slot_of (treq t q) ?d = None then insert q (set (held t us rs)) else set (held t us rs))"
  proof (cases "slot_of (treq t q) ?d = None")
    case True
    let ?e = "timely (?new (filled (treq t q) q ?d))"
    have e: "flags_ok ?e" "status_ok ?e" "mset (slots ?e) = add_mset q (mset (slots ?d))"
      using d flags True
      by (auto simp: flags_ok_def status_ok_def slots_def timely_def addClientConnection_def filled_def slot_of_def zero_record_def
          split: if_splits option.splits)
    note a = add_request_inv[OF i(1) w q e(1,3)]
    have "thread_inv {} (set_rec w ?e t) us fs rs" using a(1) e(2) i(2) by (auto simp: thread_inv_def)
    then have "thread_inv {} (place_request q found w t) us fs rs"
      unfolding place_request_eq using True by (auto intro: thread_inv_cong)
    then show ?thesis using a(2) True by (simp add: place_request_eq held_def)
  next
    case False
    then have e: "flags_ok (timely ?d)" "status_ok (timely ?d)"
      using d flags by (auto simp: flags_ok_def status_ok_def timely_def zero_record_def slot_of_def split: if_splits)
    have x: "X - {w} = {}" using i(2) by auto
    have "thread_inv {} (set_rec w (timely ?d) t) us fs rs" "set (held (set_rec w (timely ?d) t) us rs) = set (held t us rs)"
      using thread_inv_rec[OF i(1) w e(1)] e(2) unfolding x by simp_all
    moreover have "place_request q found w t = set_rec w (timely ?d) t" using False by (simp only: place_request_eq if_False)
    ultimately show ?thesis using False by (simp only: if_False simp_thms)
  qed
  then show "thread_inv {} (place_request q found w t) us fs rs"
    "set (held (place_request q found w t) us rs) =
      (if slot_of (treq t q) (recs t w) = None then insert q (set (held t us rs)) else set (held t us rs))" by blast+
qed

lemma insert_request_inv:
  assumes i: "thread_inv {} t us fs rs" and q: "q \<notin> set (held t us rs)"
  shows "\<exists>us' fs'. thread_inv {} (insert_request m q t) us' fs' rs \<and> set us \<subseteq> set us' \<and>
    set (held (insert_request m q t) us' rs) \<subseteq> insert q (set (held t us rs))"
proof (cases "find_record t m (used_list t) (sessionid (treq t q))")
  case (Some w)
  have "is_queue (rec_lnk t) (used_list t) us" using i by (simp add: thread_inv_def recs_rep_def)
  then have w: "w \<in> set us" using find_record_in[of t None us m _ w] Some by (auto simp: is_queue_def)
  have st: "status_ok (recs t w)" using i w by (simp add: thread_inv_def)
  have e: "insert_request m q t = (if rd_status (recs t w) \<noteq> STATUS_WAIT_CLOSE then place_request q EXIST_ID w t else t)"
    using Some by (simp add: insert_request_def search_adpative_record_def)
  show ?thesis
  proof (cases "rd_status (recs t w) = STATUS_WAIT_CLOSE")
    case False
    then have "session (recs t w)" using st by (auto simp: status_ok_def split: rtsp_status.splits)
    then have "thread_inv {} (insert_request m q t) us fs rs" "set (held (insert_request m q t) us rs) \<subseteq> insert q (set (held t us rs))"
      using place_request_inv[OF i _ w q, of EXIST_ID] e False by auto
    then show ?thesis by blast
  qed (use e i in auto)
next
  case None
  obtain res t1 where tr: "take_record t = (res, t1)" by force
  have rep: "recs_rep t us fs" using i by (simp add: thread_inv_def)
  note r = take_record_rep[OF rep tr]
  from r(1) show ?thesis
  proof
    assume a: "res = None \<and> recs_rep t1 us fs"
    then have "insert_request m q t = t1" using None tr by (simp add: insert_request_def search_adpative_record_def)
    moreover have "thread_inv {} t1 us fs rs" using i a r by (simp add: thread_inv_def held_def)
    moreover have "held t1 us rs = held t us rs" using r(2) by (simp add: held_def)
    ultimately show ?thesis by (metis order_refl subset_insertI)
  next
    let ?sid = "sessionid (treq t q)"
    assume "\<exists>w fs'. res = Some w \<and> w \<notin> set us \<and> (\<forall>sid. recs_rep (push_used w sid t1) (w # us) fs')"
    then obtain w fs' where w: "res = Some w" "w \<notin> set us" "recs_rep (push_used w ?sid t1) (w # us) fs'" by blast
    let ?t = "push_used w ?sid t1"
    have f: "recs ?t = (recs t)(w := zero_record\<lparr>rd_sessionid := take 27 ?sid\<rparr>)" "treq ?t = treq t" "req_lnk ?t = req_lnk t"
        "return_list ?t = return_list t"
      using r by (simp_all add: push_used_def Let_def)
    have z: "slots (zero_record\<lparr>rd_sessionid := x\<rparr>) = []" "flags_ok (zero_record\<lparr>rd_sessionid := x\<rparr>)" for x
      by (simp_all add: slots_def zero_record_def flags_ok_def)
    have m: "map (\<lambda>x. slots (recs ?t x)) us = map (\<lambda>x. slots (recs t x)) us" using w(2) f(1) by auto
    have h: "held ?t (w # us) rs = held t us rs" unfolding held_def list.map concat.simps m using z f(1) by simp
    then have "thread_inv {w} ?t (w # us) fs' rs" using i w z f by (auto simp: thread_inv_def)
    note p = place_request_inv[OF this subset_refl, of q NEW_ID "take 27 ?sid"]
    have "insert_request m q t = place_request q NEW_ID w ?t"
      using None tr w(1) f by (simp add: insert_request_def search_adpative_record_def zero_record_def)
    then have "thread_inv {} (insert_request m q t) (w # us) fs' rs"
      "set (held (insert_request m q t) (w # us) rs) \<subseteq> insert q (set (held t us rs))"
      using p q h f by auto
    then show ?thesis by (metis set_subset_Cons)
  qed
qed

subsection \<open>Updating keeps the invariant\<close>

lemma finish_handler_ok:
  assumes "flags_ok d" "status_ok d" shows "flags_ok (finish_handler a msg d)" "status_ok (finish_handler a msg d)"
    "slots (finish_handler a msg d) = slots d"
  using assms by (auto simp: finish_handler_def flags_ok_def status_ok_def end_session_def slots_def split: rtsp_status.splits)

lemma incoming_hander_inv:
  assumes i: "thread_inv {} t us fs rs" and w: "w \<in> set us" and run: "incoming_hander n exec w t l = Some (t', l')"
  shows "thread_inv {} t' us fs rs" "set (held t' us rs) = set (held t us rs)" "same_lists t t'" "free_list t' = free_list t"
proof -
  have ok: "flags_ok (recs t w)" "status_ok (recs t w)" using i w by (simp_all add: thread_inv_def)
  have se: "session (recs t w)" using run by (auto simp: incoming_hander_def Let_def split: if_splits)
  have pl: "flags_ok ((recs t w)\<lparr>playing := p\<rparr>)" "status_ok ((recs t w)\<lparr>playing := p\<rparr>)" for p
    using ok se by (auto simp: flags_ok_def status_ok_def split: rtsp_status.splits)
  consider (none) "t' = set_rec w (finish_handler True [] (recs t w)) t"
    | (early) q r p where "t' = set_treq q r (set_rec w ((recs t w)\<lparr>playing := p\<rparr>) t)"
    | (late) q r p a msg where "t' = set_treq q r (set_rec w (finish_handler a msg ((recs t w)\<lparr>playing := p\<rparr>)) t)"
    using run by (auto simp: incoming_hander_def Let_def split: if_splits option.splits)
  then obtain d q r where t': "t' = set_rec w d t \<or> t' = set_treq q r (set_rec w d t)" "flags_ok d" "status_ok d" "slots d = slots (recs t w)"
  proof cases
    case none
    then show ?thesis using finish_handler_ok[OF ok] that by blast
  next
    case early
    then show ?thesis using pl that by (metis slots_session(4))
  next
    case late
    then show ?thesis using finish_handler_ok[OF pl] that by (metis slots_session(4))
  qed
  note r = thread_inv_rec[OF i w t'(2,4)]
  have "thread_inv {} (set_rec w d t) us fs rs" using r(1)[OF t'(3)] by simp
  then show "thread_inv {} t' us fs rs" using t'(1) thread_inv_cong[of "{}" "set_rec w d t" us fs rs t'] by auto
  have "held t' us rs = held (set_rec w d t) us rs" using t'(1) by (auto simp: held_def)
  then show "set (held t' us rs) = set (held t us rs)" using r(3) by simp
  show "same_lists t t'" "free_list t' = free_list t" using t'(1) by (auto simp: same_lists_def)
qed

lemma release_record_inv:
  assumes i: "thread_inv {} t us fs rs" and w: "w \<in> set us" and e: "slots (recs t w) = []"
  shows "thread_inv {} (release_record w t) (remove1 w us) (w # fs) rs"
    "set (held (release_record w t) (remove1 w us) rs) = set (held t us rs)"
proof -
  obtain as bs where us: "us = as @ w # bs" using w by (meson split_list)
  have dist: "distinct us" and rep: "recs_rep t us fs" using i by (simp_all add: thread_inv_def recs_rep_def)
  have w': "w \<notin> set as" "w \<notin> set bs" "remove1 w us = as @ bs" using dist us by (auto simp: remove1_append)
  note r = release_record_rep[OF rep w]
  have m: "map (\<lambda>x. slots (recs (release_record w t) x)) (as @ bs) = map (\<lambda>x. slots (recs t x)) (as @ bs)"
    using w' by (auto simp: r(2))
  have h: "held (release_record w t) (remove1 w us) rs = held t us rs"
    unfolding held_def w'(3) m using e us by simp
  then show "set (held (release_record w t) (remove1 w us) rs) = set (held t us rs)" by simp
  show "thread_inv {} (release_record w t) (remove1 w us) (w # fs) rs"
    unfolding thread_inv_def h using i r(1,4,5) w' us by (auto simp: thread_inv_def r(2))
qed

lemma update_one_inv:
  assumes i: "thread_inv {} t us fs rs" and w: "w \<in> set us" and run: "update_one n exec w t l = Some (t', l')"
  shows "\<exists>us' fs'. thread_inv {} t' us' fs' rs \<and> (us' = us \<or> us' = remove1 w us) \<and> set (held t' us' rs) = set (held t us rs) \<and>
    insert_req t' = insert_req t"
proof -
  have flags: "flags_ok (recs t w)" using i w by (simp add: thread_inv_def)
  have hand: "thread_inv {} t1 us fs rs \<and> set (held t1 us rs) = set (held t us rs) \<and> insert_req t1 = insert_req t"
    if "t1 = t \<and> l1 = l \<or> incoming_hander n exec w t l = Some (t1, l1)" for t1 l1
    using that i incoming_hander_inv[OF i w, of n exec l t1 l1] by (auto simp: same_lists_def)
  have rel: "insert_req (release_record w t1) = insert_req t1" for t1 by (simp add: release_record_def Let_def split: prod.split)
  show ?thesis
  proof (cases "rd_status (recs t w) = STATUS_WAIT_CLOSE")
    case True
    then obtain t1 l1 where t1: "t1 = t \<and> l1 = l \<or> incoming_hander n exec w t l = Some (t1, l1)"
        "t' = (if in_ok (recs t1 w) \<or> out_ok (recs t1 w) \<or> setup_ok (recs t1 w) \<or> playing (recs t1 w) then t1 else release_record w t1)"
      using run by (auto simp: update_one_def Let_def split: option.splits if_splits)
    note h = hand[OF t1(1)]
    show ?thesis
    proof (cases "in_ok (recs t1 w) \<or> out_ok (recs t1 w) \<or> setup_ok (recs t1 w) \<or> playing (recs t1 w)")
      case True
      then have "t' = t1" using t1(2) by (simp only: if_True)
      then show ?thesis using h by blast
    next
      case False
      have "flags_ok (recs t1 w)" using h w by (simp add: thread_inv_def)
      then have "slots (recs t1 w) = []" using False by (simp add: slots_def flags_ok_def)
      moreover have "t' = release_record w t1" using t1(2) False by (simp only: if_False)
      ultimately show ?thesis using release_record_inv[of t1 us fs rs w] h w rel by metis
    qed
  next
    case False
    then have "t' = t \<and> l' = l \<or> incoming_hander n exec w t l = Some (t', l')"
      using run by (auto simp: update_one_def Let_def split: option.splits if_splits rtsp_status.splits)
    then show ?thesis using hand by blast
  qed
qed

lemma update_record_inv:
  assumes "thread_inv {} t (pre @ todo) fs rs" "update_record n exec m (first todo None) t l = Some (t', l')"
  shows "\<exists>us' fs'. thread_inv {} t' us' fs' rs \<and> set (held t' us' rs) = set (held t (pre @ todo) rs) \<and> insert_req t' = insert_req t"
  using assms
proof (induction todo arbitrary: m t l pre fs)
  case Nil
  then show ?case by auto
next
  case (Cons w todo)
  then obtain k where m: "m = Suc k" by (cases m) auto
  then obtain t1 l1 where one: "update_one n exec w t l = Some (t1, l1)"
      and rest: "update_record n exec k (nxt (rec_lnk t) w) t1 l1 = Some (t', l')"
    using Cons.prems(2) by (auto split: option.splits)
  have q: "is_queue (rec_lnk t) (used_list t) (pre @ w # todo)" using Cons.prems(1) by (simp add: thread_inv_def recs_rep_def)
  then have nx: "nxt (rec_lnk t) w = first todo None" and "w \<notin> set pre" by (auto simp: is_queue_def dseg_append)
  then have rem: "remove1 w (pre @ w # todo) = pre @ todo" by (simp add: remove1_append)
  obtain us1 fs1 where u: "thread_inv {} t1 us1 fs1 rs" "us1 = (pre @ [w]) @ todo \<or> us1 = pre @ todo"
      "set (held t1 us1 rs) = set (held t (pre @ w # todo) rs)" "insert_req t1 = insert_req t"
    using update_one_inv[OF Cons.prems(1) _ one] rem by auto
  then obtain pre' where p: "us1 = pre' @ todo" by blast
  from Cons.IH[OF u(1)[unfolded p] rest[unfolded nx]] u(3,4) p show ?case by auto
qed

text \<open>
  The pointers that updating a record follows exist: the request of an active tunnel, and the session when its handler is called. So
  updating fails only in the handler, when the stream is full or a request does not end.
\<close>

lemma update_one_total:
  assumes i: "thread_inv {} t us fs rs" and w: "w \<in> set us" and fail: "update_one n exec w t l = None"
  obtains q where "inreq (recs t w) = Some q" "parse_pos (treq t q) < client_stream_pos (treq t q)"
    "decode_stream (treq t q) = None \<or> (\<exists>r out play. decode_stream (treq t q) = Some r \<and> rtsp_loop n exec out [] r play l = None)"
proof -
  have ok: "flags_ok (recs t w)" "status_ok (recs t w)" using i w by (simp_all add: thread_inv_def)
  have act: "rd_status (recs t w) = STATUS_ACTIVE"
  proof (rule ccontr)
    assume "rd_status (recs t w) \<noteq> STATUS_ACTIVE"
    then have c: "incoming_hander n exec w t l = None" "inreq (recs t w) = None" "session (recs t w)"
      using fail ok by (auto simp: update_one_def Let_def flags_ok_def split: rtsp_status.splits option.splits if_splits)
    then show False by (simp add: incoming_hander_def Let_def)
  qed
  then have "session (recs t w)" "in_ok (recs t w)" using ok(2) by (simp_all add: status_ok_def)
  then obtain q where q: "inreq (recs t w) = Some q" using ok(1) by (auto simp: flags_ok_def)
  then have "parse_pos (treq t q) < client_stream_pos (treq t q)" "incoming_hander n exec w t l = None"
    using fail act by (auto simp: update_one_def Let_def split: if_splits)
  then show thesis using that[OF q] q \<open>session (recs t w)\<close>
    by (auto simp: incoming_hander_def Let_def split: option.splits)
qed

subsection \<open>Runs of the thread\<close>

definition thread_ok :: "thread_data \<Rightarrow> nat set \<Rightarrow> bool" where
  "thread_ok t K \<longleftrightarrow> (\<exists>us fs rs. thread_inv {} t us fs rs \<and> set (held t us rs) \<subseteq> K)"

definition taken_over :: "nat \<Rightarrow> thread_data \<Rightarrow> thread_data" where
  "taken_over m t = (case insert_req t of Some q \<Rightarrow> (insert_request m q t)\<lparr>insert_req := None\<rparr> | None \<Rightarrow> t)"

lemma thread_ok_cong:
  "thread_ok t K \<Longrightarrow> recs t' = recs t \<Longrightarrow> rec_lnk t' = rec_lnk t \<Longrightarrow> used_list t' = used_list t \<Longrightarrow> free_list t' = free_list t \<Longrightarrow>
   rec_malloc t' = rec_malloc t \<Longrightarrow> req_lnk t' = req_lnk t \<Longrightarrow> return_list t' = return_list t \<Longrightarrow> thread_ok t' K"
  using thread_inv_cong[of "{}" t _ _ _ t'] unfolding thread_ok_def held_def by metis

lemma taken_over_ok:
  assumes "thread_ok t K" "\<And>q. insert_req t = Some q \<Longrightarrow> q \<notin> K"
  shows "thread_ok (taken_over m t) (K \<union> set_option (insert_req t)) \<and> insert_req (taken_over m t) = None"
proof (cases "insert_req t")
  case None
  then show ?thesis using assms(1) by (simp add: taken_over_def)
next
  case (Some q)
  obtain us fs rs where i: "thread_inv {} t us fs rs" "set (held t us rs) \<subseteq> K" using assms(1) by (auto simp: thread_ok_def)
  then have "q \<notin> set (held t us rs)" using assms(2)[OF Some] by auto
  from insert_request_inv[OF i(1) this, of m] i(2) have "thread_ok (insert_request m q t) (insert q K)" unfolding thread_ok_def by blast
  then have "thread_ok (taken_over m t) (insert q K)" by (rule thread_ok_cong) (simp_all add: taken_over_def Some)
  then show ?thesis using Some by (simp add: taken_over_def)
qed

lemma round_rest_ok:
  assumes "thread_ok (taken_over m t) K" "insert_req (taken_over m t) = None" "rtsp_round n m exec live ready rd t l = Some (t', l')"
  shows "thread_ok t' K \<and> insert_req t' = None"
proof -
  define t1 where "t1 = taken_over m t"
  obtain us fs rs where i: "thread_inv {} t1 us fs rs" "set (held t1 us rs) \<subseteq> K" "insert_req t1 = None"
    using assms(1,2) by (auto simp: thread_ok_def t1_def)
  have q: "is_queue (rec_lnk t1) (used_list t1) us" using i(1) by (simp add: thread_inv_def recs_rep_def)
  show ?thesis
  proof (cases "used_list t1 = None")
    case True
    then have "t' = t1\<lparr>max_fd_num := 0, readset := {}\<rparr>" using assms(3) by (simp add: rtsp_round_def t1_def taken_over_def Let_def)
    then show ?thesis using assms(1) i(3) thread_ok_cong[of t1 K t'] by (simp add: t1_def)
  next
    case False
    define t2 where "t2 = (case ready of None \<Rightarrow> t1 | Some ws \<Rightarrow> poll_loop (readset t1 \<inter> ws) rd m (used_list t1) t1)"
    have u: "update_record n exec m (used_list t2) t2 (live l) = Some (t', l')"
      using assms(3) False by (simp add: rtsp_round_def t1_def[unfolded taken_over_def, symmetric] t2_def Let_def)
    have "\<exists>rs2. thread_inv {} t2 us fs rs2 \<and> set (held t2 us rs2) = set (held t1 us rs) \<and> same_lists t1 t2"
      using poll_loop_inv[OF i(1), of None us _ rd m] q i(1)
      by (cases ready) (auto simp: t2_def is_queue_def same_lists_def)
    then obtain rs2 where p: "thread_inv {} t2 ([] @ us) fs rs2" "set (held t2 us rs2) = set (held t1 us rs)" "same_lists t1 t2" by auto
    then have "used_list t2 = first us None" using q by (simp add: is_queue_def same_lists_def)
    from update_record_inv[OF p(1) u[unfolded this]] p(2,3) i(2,3) show ?thesis
      unfolding thread_ok_def same_lists_def append_Nil by metis
  qed
qed

lemma get_return_ok:
  assumes "thread_ok t K" "rtsp_o_http_get_return_req t = (Some q, t')"
  shows "q \<in> K \<and> thread_ok t' (K - {q}) \<and> insert_req t' = insert_req t"
proof -
  obtain us fs rs where i: "thread_inv {} t us fs rs" "set (held t us rs) \<subseteq> K" using assms(1) by (auto simp: thread_ok_def)
  have rl: "return_list t = Some q" and iq: "is_queue (req_lnk t) (return_list t) rs"
    using assms(2) i(1) by (auto simp: rtsp_o_http_get_return_req_def thread_inv_def split: option.splits prod.splits)
  then obtain rs' where rs: "rs = q # rs'" by (cases rs) (auto simp: is_queue_def)
  obtain hd h where d: "dequeue (Some q) q (req_lnk t) = (hd, h)" by force
  have t': "t' = set_treq q ((treq t q)\<lparr>status := DONE, buffer_end := 0\<rparr>) (t\<lparr>return_list := hd, req_lnk := h\<rparr>)"
    using assms(2) rl d by (simp add: rtsp_o_http_get_return_req_def)
  have "is_queue h hd rs'" using dequeue_refines[OF iq[unfolded rl] _ d] rs by simp
  moreover have h: "mset (held t us rs) = add_mset q (mset (held t' us rs'))" by (simp add: held_def rs t')
  then have "distinct (q # held t' us rs')" using i(1) mset_distinct[of "q # held t' us rs'" "held t us rs"] by (simp add: thread_inv_def)
  moreover have "set (held t us rs) = insert q (set (held t' us rs'))" using h by (metis set_mset_add_mset_insert set_mset_mset)
  ultimately have "thread_inv {} t' us fs rs'" "q \<in> K" "set (held t' us rs') \<subseteq> K - {q}" "insert_req t' = insert_req t"
    using i by (auto simp: thread_inv_def recs_rep_def t')
  then show ?thesis unfolding thread_ok_def by blast
qed

text \<open>
  The main loop and the thread together, with the set of requests the main loop has handed over and not got back: it hands over a request it
  has, and waits until the thread has seen it, the thread goes through a round, or the main loop takes a request back.
\<close>

inductive thread_step :: "thread_data \<times> 'l \<times> nat set \<Rightarrow> thread_data \<times> 'l \<times> nat set \<Rightarrow> bool" where
  lend: "insert_req t = None \<Longrightarrow> q \<notin> H \<Longrightarrow> rtsp_o_http_insert_req a b True q (set_treq q r t) = (True, t') \<Longrightarrow>
    thread_step (t, l, H) (t', l, insert q H)"
| round: "rtsp_round n m exec live ready rd t l = Some (t', l') \<Longrightarrow> thread_step (t, l, H) (t', l', H)"
| "return": "rtsp_o_http_get_return_req t = (Some q, t') \<Longrightarrow> thread_step (t, l, H) (t', l, H - {q})"

text \<open>\<open>K\<close> bounds what the thread can give back; a request being handed over is not among it yet.\<close>

definition run_ok :: "nat set \<Rightarrow> thread_data \<Rightarrow> nat set \<Rightarrow> bool" where
  "run_ok L t H \<longleftrightarrow> L \<subseteq> H \<and> thread_ok t (H - L - set_option (insert_req t)) \<and> set_option (insert_req t) \<subseteq> H - L"

lemma thread_ok_mono: "thread_ok t K \<Longrightarrow> K \<subseteq> K' \<Longrightarrow> thread_ok t K'"
  unfolding thread_ok_def by blast

lemma run_ok_step:
  assumes "thread_step (t, l, H) (t', l', H')" "run_ok L t H"
  shows "run_ok L t' H'"
  using assms(1)
proof cases
  case (lend q a b r)
  then have t': "t' = (set_treq q r t)\<lparr>insert_req := Some q\<rparr>" by (auto simp: rtsp_o_http_insert_req_def split: if_splits)
  have "thread_ok t (H - L)" using assms(2) lend by (simp add: run_ok_def)
  then have "thread_ok t' (H - L)" by (rule thread_ok_cong) (simp_all add: t')
  moreover have "H - L = H' - L - {q}" using lend assms(2) by (auto simp: run_ok_def)
  ultimately show ?thesis using lend assms(2) t' by (auto simp: run_ok_def)
next
  case (round n m exec live ready rd)
  let ?q = "set_option (insert_req t)"
  have "thread_ok (taken_over m t) (H - L - ?q \<union> ?q) \<and> insert_req (taken_over m t) = None"
    using assms(2) by (intro taken_over_ok) (auto simp: run_ok_def)
  moreover have "H - L - ?q \<union> ?q = H - L" using assms(2) by (auto simp: run_ok_def)
  ultimately have "thread_ok t' (H - L) \<and> insert_req t' = None" using round_rest_ok[OF _ _ round(2)] by metis
  then show ?thesis using round assms(2) by (simp add: run_ok_def)
next
  case (return q)
  from assms(2) have "thread_ok t (H - L - set_option (insert_req t))" by (simp add: run_ok_def)
  from get_return_ok[OF this return(3)] return have g: "q \<in> H - L - set_option (insert_req t)"
      "thread_ok t' (H - L - set_option (insert_req t) - {q})" "insert_req t' = insert_req t" by auto
  moreover have "H - L - set_option (insert_req t) - {q} = H' - L - set_option (insert_req t')" using g return by auto
  ultimately show ?thesis using assms(2) return by (auto simp: run_ok_def)
qed

lemma run_ok_steps: "thread_step\<^sup>*\<^sup>* s s' \<Longrightarrow> run_ok L (fst s) (snd (snd s)) \<Longrightarrow> run_ok L (fst s') (snd (snd s'))"
  by (induction rule: rtranclp_induct) (auto intro: run_ok_step)

definition started :: "thread_data \<Rightarrow> bool" where
  "started t \<longleftrightarrow> used_list t = None \<and> free_list t = None \<and> return_list t = None \<and> insert_req t = None \<and>
     distinct (filter (\<lambda>m. m \<noteq> None) (rec_malloc t))"

lemma started_ok: "started t \<Longrightarrow> run_ok {} t {}"
  unfolding run_ok_def thread_ok_def
  by (auto simp: started_def thread_inv_def recs_rep_def is_queue_def held_def intro!: exI[of _ "[]"])


lemma insert_request_dropped:
  assumes i: "thread_inv {} t us fs rs" and q: "q \<notin> set (held t us rs)"
    and f: "find_record t m (used_list t) (sessionid (treq t q)) = Some w"
    and d: "slot_of (treq t q) (recs t w) \<noteq> None \<or> rd_status (recs t w) = STATUS_WAIT_CLOSE"
  shows "thread_inv {} (insert_request m q t) us fs rs \<and> set (held (insert_request m q t) us rs) = set (held t us rs)"
proof -
  have "is_queue (rec_lnk t) (used_list t) us" using i by (simp add: thread_inv_def recs_rep_def)
  then have w: "w \<in> set us" using find_record_in[of t None us m _ w] f by (auto simp: is_queue_def)
  have st: "status_ok (recs t w)" using i w by (simp add: thread_inv_def)
  have e: "insert_request m q t = (if rd_status (recs t w) \<noteq> STATUS_WAIT_CLOSE then place_request q EXIST_ID w t else t)"
    using f by (simp add: insert_request_def search_adpative_record_def)
  show ?thesis
  proof (cases "rd_status (recs t w) = STATUS_WAIT_CLOSE")
    case False
    then have "session (recs t w)" using st by (auto simp: status_ok_def split: rtsp_status.splits)
    then show ?thesis using place_request_inv[OF i _ w q, of EXIST_ID] e False d by auto
  qed (use e i in auto)
qed

text \<open>
  C38: A second request for a tunnel is lost. When a request is handed over whose session cookie names a tunnel that has a request for this
  direction already, or is closing, the thread forgets it: however the run goes on, it is never given back, and its structure and its
  connection are never freed. With \<open>MAX_REQUEST\<close> such requests the server accepts no connection any more.
\<close>

theorem rtsp_duplicate_lost:
  assumes "started t0" "thread_step\<^sup>*\<^sup>* (t0, l0, {}) (t, l, H)" "insert_req t = Some q"
    and "find_record t m (used_list t) (sessionid (treq t q)) = Some w"
    and "slot_of (treq t q) (recs t w) \<noteq> None \<or> rd_status (recs t w) = STATUS_WAIT_CLOSE"
    and "rtsp_round n m exec live ready rd t l = Some (t1, l1)" "thread_step\<^sup>*\<^sup>* (t1, l1, H) (t2, l2, H2)"
  shows "q \<in> H2 \<and> fst (rtsp_o_http_get_return_req t2) \<noteq> Some q"
proof -
  have r: "run_ok {} t H" using run_ok_steps[OF assms(2)] started_ok[OF assms(1)] by simp
  then have "thread_ok t (H - {q})" "q \<in> H" using assms(3) by (auto simp: run_ok_def)
  then obtain us fs rs where i: "thread_inv {} t us fs rs" "set (held t us rs) \<subseteq> H - {q}" by (auto simp: thread_ok_def)
  then have "q \<notin> set (held t us rs)" by auto
  from insert_request_dropped[OF i(1) this assms(4,5)] i(2) have "thread_ok (insert_request m q t) (H - {q})" unfolding thread_ok_def by blast
  then have "thread_ok (taken_over m t) (H - {q})" by (rule thread_ok_cong) (simp_all add: taken_over_def assms(3))
  moreover have "insert_req (taken_over m t) = None" by (simp add: taken_over_def assms(3))
  ultimately have "run_ok {q} t1 H" using round_rest_ok[OF _ _ assms(6)] \<open>q \<in> H\<close> by (simp add: run_ok_def)
  then have "run_ok {q} t2 H2" using run_ok_steps[OF assms(7), of "{q}"] by simp
  then have r2: "q \<in> H2" "thread_ok t2 (H2 - {q} - set_option (insert_req t2))" by (simp_all add: run_ok_def)
  obtain res t3 where g: "rtsp_o_http_get_return_req t2 = (res, t3)" by force
  have "res \<noteq> Some q" using get_return_ok[OF r2(2)] g by auto
  then show ?thesis using r2(1) g by simp
qed

definition demo_thread :: thread_data where
  "demo_thread = \<lparr>hup = False, recs = (\<lambda>_. zero_record), rec_lnk = \<lparr>nxt = (\<lambda>_. None), prv = (\<lambda>_. None)\<rparr>, used_list = None, free_list = None,
     rec_malloc = [Some 100], treq = (\<lambda>_. fresh), req_lnk = \<lparr>nxt = (\<lambda>_. None), prv = (\<lambda>_. None)\<rparr>, return_list = None, insert_req = None,
     readset = {}, max_fd_num = 0\<rparr>"

definition tunnel_get :: "nat \<Rightarrow> request" where
  "tunnel_get f = fresh\<lparr>fd := f, method := M_GET, sessionid := ''abc''\<rparr>"

definition no_exec :: "nat rtsp_exec" where "no_exec msg out play l = (play, True, l)"

lemmas demo_simps = rtsp_round_def insert_request_def search_adpative_record_def take_record_def push_used_def place_request_eq slot_of_def
  filled_def timely_def addClientConnection_def watch_req_def set_treq_def set_rec_def zero_record_def Let_def update_one_def demo_thread_def tunnel_get_def
  fresh_def zero_request_def

definition open_tunnel :: thread_data where
  "open_tunnel = watch_req 1 (set_rec 100 (timely (addClientConnection (zero_record\<lparr>rd_sessionid := ''abc'', outreq := Some 1, out_ok := True\<rparr>)))
     (demo_thread\<lparr>treq := (treq demo_thread)(1 := tunnel_get 11), used_list := Some 100, rec_malloc := [], 
       rec_lnk := set_next 100 None (set_prev 100 None (rec_lnk demo_thread))\<rparr>))"

lemma open_tunnel_reach:
  "thread_step\<^sup>*\<^sup>* (demo_thread, 0 :: nat, {}) (open_tunnel, 0, {1})"
proof -
  let ?t = "(set_treq 1 (tunnel_get 11) demo_thread)\<lparr>insert_req := Some 1\<rparr>"
  have "thread_step (demo_thread, 0 :: nat, {}) (?t, 0, insert 1 {})"
    by (rule thread_step.lend[where a = True and r = "tunnel_get 11"]) (simp_all add: demo_thread_def rtsp_o_http_insert_req_def)
  moreover have "rtsp_round 1 4 no_exec id None (\<lambda>_. R_bytes []) ?t 0 = Some (open_tunnel, 0)"
    by (simp add: open_tunnel_def demo_simps numeral_eq_Suc)
  then have "thread_step (?t, 0, insert 1 {}) (open_tunnel, 0 :: nat, {1})" by (rule thread_step.round)
  ultimately show ?thesis by (meson converse_rtranclp_into_rtranclp r_into_rtranclp)
qed

lemma demo_started: "started demo_thread"
  by (simp add: started_def demo_thread_def)


theorem rtsp_duplicate_lost_witness:
  "\<exists>t1. thread_step\<^sup>*\<^sup>* (demo_thread, 0 :: nat, {}) (t1, 0, {1, 2}) \<and> insert_req t1 = None \<and> 2 \<in> {1, 2 :: nat} \<and>
     fst (rtsp_o_http_get_return_req t1) \<noteq> Some 2"
proof -
  let ?t = "(set_treq 2 (tunnel_get 12) open_tunnel)\<lparr>insert_req := Some 2\<rparr>"
  have "thread_step (open_tunnel, 0 :: nat, {1}) (?t, 0, insert 2 {1})"
    by (rule thread_step.lend[where a = True and r = "tunnel_get 12"]) (simp_all add: open_tunnel_def demo_simps rtsp_o_http_insert_req_def)
  then have s: "thread_step\<^sup>*\<^sup>* (demo_thread, 0 :: nat, {}) (?t, 0, insert 2 {1})"
    using open_tunnel_reach by (meson rtranclp.rtrancl_into_rtrancl)
  have "\<exists>t1. rtsp_round 1 4 no_exec id None (\<lambda>_. R_bytes []) ?t 0 = Some (t1, 0) \<and> insert_req t1 = None"
    by (simp add: open_tunnel_def demo_simps numeral_eq_Suc)
  then obtain t1 where r: "rtsp_round 1 4 no_exec id None (\<lambda>_. R_bytes []) ?t 0 = Some (t1, 0)" "insert_req t1 = None" by blast
  have f: "find_record ?t 4 (used_list ?t) (sessionid (treq ?t 2)) = Some 100" "slot_of (treq ?t 2) (recs ?t 100) \<noteq> None"
    by (simp_all add: open_tunnel_def demo_simps numeral_eq_Suc)
  have "fst (rtsp_o_http_get_return_req t1) \<noteq> Some 2"
    using rtsp_duplicate_lost[OF demo_started s _ f(1) _ r(1) rtranclp.rtrancl_refl] f(2) by auto
  moreover have "thread_step\<^sup>*\<^sup>* (demo_thread, 0 :: nat, {}) (t1, 0, insert 2 {1})"
    using s thread_step.round[OF r(1)] by (rule rtranclp.rtrancl_into_rtrancl)
  ultimately show ?thesis using r(2) by (auto simp: insert_commute)
qed

subsection \<open>RTSP requests are executed in order\<close>

definition is_message :: "cstring \<Rightarrow> bool" where
  "is_message m \<longleftrightarrow> 4 \<le> length m \<and> (\<forall>i. i + 4 \<le> length m \<longrightarrow> (take 4 (drop i m) = CRLF @ CRLF \<longleftrightarrow> i + 4 = length m))"

definition unfinished :: "cstring \<Rightarrow> bool" where
  "unfinished x \<longleftrightarrow> 4 \<le> length x \<and> (\<forall>i. i + 4 \<le> length x \<longrightarrow> take 4 (drop i x) \<noteq> CRLF @ CRLF)"

fun exec_all :: "'l rtsp_exec \<Rightarrow> nat option \<Rightarrow> cstring list \<Rightarrow> bool \<Rightarrow> 'l \<Rightarrow> bool \<times> bool \<times> 'l" where
  "exec_all exec out [] play l = (play, True, l)"
| "exec_all exec out (m # ms) play l =
    (case exec m out play l of (play1, active, l1) \<Rightarrow> if active then exec_all exec out ms play1 l1 else (play1, False, l1))"

lemma scan_from_found:
  "take 4 (drop (i + k) buf) = CRLF @ CRLF \<Longrightarrow> \<forall>j < k. take 4 (drop (i + j) buf) \<noteq> CRLF @ CRLF \<Longrightarrow> k < n \<Longrightarrow>
   scan_from n i buf = Scan_found (i + k + 4)"
proof (induction n arbitrary: i k)
  case (Suc n)
  show ?case
  proof (cases k)
    case (Suc k')
    have "\<forall>j < k'. take 4 (drop (i + 1 + j) buf) \<noteq> CRLF @ CRLF" using Suc.prems(2) Suc by (auto dest: spec[of _ "Suc _"])
    then have "scan_from n (i + 1) buf = Scan_found (i + 1 + k' + 4)" using Suc.prems Suc by (intro Suc.IH) simp_all
    moreover have "take 4 (drop i buf) \<noteq> CRLF @ CRLF" using Suc.prems(2) Suc by (auto dest: spec[of _ 0])
    ultimately show ?thesis using Suc by simp
  qed (use Suc.prems in simp)
qed simp

lemma scan_from_return: "\<forall>j < n. take 4 (drop (i + j) buf) \<noteq> CRLF @ CRLF \<Longrightarrow> scan_from n i buf = Scan_return"
proof (induction n arbitrary: i)
  case (Suc n)
  have "\<forall>j < n. take 4 (drop (i + 1 + j) buf) \<noteq> CRLF @ CRLF" using Suc.prems by (auto dest: spec[of _ "Suc _"])
  then show ?case using Suc.IH[of "i + 1"] Suc.prems[rule_format, of 0] by simp
qed simp

lemma buffer_window:
  assumes "i + 4 \<le> length (pending r)"
  shows "take 4 (drop (buffer_start r + i) (buffer r)) = take 4 (drop i (pending r))"
proof -
  have "i + 4 \<le> buffer_end r - buffer_start r" using assms unfolding pending_slice[symmetric] by simp
  then have "4 \<le> buffer_end r - buffer_start r - i" by linarith
  then show ?thesis by (simp add: pending_slice[symmetric] drop_take add.commute min_def)
qed

lemma scan_message:
  assumes ok: "buffer_end r \<le> length (buffer r)" "pending r = m @ x" "is_message m"
  shows "scan_request r = Scan_found (buffer_start r + length m)"
proof -
  have len: "length (pending r) = buffer_end r - buffer_start r" using ok(1) by (simp add: pending_def)
  have m: "4 \<le> length m" "length m \<le> buffer_end r - buffer_start r" using ok len by (simp_all add: is_message_def)
  have win: "take 4 (drop (buffer_start r + i) (buffer r)) = take 4 (drop i m)" if "i + 4 \<le> length m" for i
    using buffer_window[of i r] that ok(2) by simp
  have "scan_from (buffer_end r - 3 - buffer_start r) (buffer_start r) (buffer r) = Scan_found (buffer_start r + (length m - 4) + 4)"
  proof (rule scan_from_found)
    show "take 4 (drop (buffer_start r + (length m - 4)) (buffer r)) = CRLF @ CRLF"
      using win[of "length m - 4"] ok(3)[unfolded is_message_def] m(1) by (metis le_add_diff_inverse2 order_refl)
    show "\<forall>j < length m - 4. take 4 (drop (buffer_start r + j) (buffer r)) \<noteq> CRLF @ CRLF"
      using win ok(3) by (auto simp: is_message_def)
    show "length m - 4 < buffer_end r - 3 - buffer_start r" using m by simp
  qed
  then show ?thesis using m by (simp add: scan_request_def)
qed

lemma scan_unfinished:
  assumes "buffer_end r \<le> length (buffer r)" "unfinished (pending r)"
  shows "scan_request r = Scan_return"
proof -
  have len: "length (pending r) = buffer_end r - buffer_start r" using assms(1) by (simp add: pending_def)
  have "scan_from (buffer_end r - 3 - buffer_start r) (buffer_start r) (buffer r) = Scan_return"
    using assms buffer_window[of _ r] len by (intro scan_from_return) (auto simp: unfinished_def)
  moreover have "buffer_start r + 4 \<le> buffer_end r" using assms(2)[unfolded unfinished_def] len by linarith
  ultimately show ?thesis by (simp add: scan_request_def)
qed

lemma take_message_pending:
  assumes "buffer_end r \<le> length (buffer r)" "pending r = m @ x" "m \<noteq> []" "take_message r (buffer_start r + length m) = (msg, r1)"
  shows "msg = m" "pending r1 = x" "buffer_end r1 \<le> length (buffer r1)" "buffer_start r1 < buffer_end r1 \<longleftrightarrow> x \<noteq> []"
proof -
  have "length (pending r) = buffer_end r - buffer_start r" using assms(1) by (simp add: pending_def)
  then have len: "length m + length x = buffer_end r - buffer_start r" using assms(2) by simp
  then have lt: "buffer_start r + length m \<le> buffer_end r" "buffer_start r < buffer_end r" using assms(3) by (cases m; simp)+
  have "take (length m) (pending r) = m" using assms(2) by simp
  then have "take (length m) (drop (buffer_start r) (buffer r)) = m" using len by (simp add: pending_slice[symmetric] min_def split: if_splits)
  then show "msg = m" using assms(4) by (simp add: take_message_def)
  have "drop (length m) (pending r) = x" using assms(2) by simp
  then have "x = take (buffer_end r - (buffer_start r + length m)) (drop (buffer_start r + length m) (buffer r))"
    using assms(1) by (simp add: pending_def drop_take add.commute)
  then show "pending r1 = x" "buffer_end r1 \<le> length (buffer r1)" "buffer_start r1 < buffer_end r1 \<longleftrightarrow> x \<noteq> []"
    using assms(1,4) lt by (auto simp: take_message_def pending_slice[symmetric] split: if_splits)
qed

lemma rtsp_loop_message:
  assumes "buffer_end r \<le> BUFFER_SIZE" "length (buffer r) = BUFFER_SIZE + 1" "pending r = m @ x" "is_message m" "exec m out play l = (play1, active, l1)"
  obtains r1 where "pending r1 = x" "buffer_end r1 \<le> BUFFER_SIZE" "length (buffer r1) = BUFFER_SIZE + 1"
    "rtsp_loop (Suc n) exec out msg r play l =
      (if active \<and> x \<noteq> [] then rtsp_loop n exec out m r1 play1 l1 else Some (False, active, m, r1, play1, l1))"
proof -
  have le: "buffer_end r \<le> length (buffer r)" using assms by simp
  obtain m' r1 where t: "take_message r (buffer_start r + length m) = (m', r1)" by force
  have "m \<noteq> []" using assms(4) by (auto simp: is_message_def)
  note p = take_message_pending[OF le assms(3) this t]
  have "length m \<le> buffer_end r" using arg_cong[OF assms(3), of length] by (simp add: pending_def)
  then have "length m < RTSP_BUFFER_SIZE" using assms(1) by (simp add: RTSP_BUFFER_SIZE_def BUFFER_SIZE_def)
  then have "run_message exec out m play l = (play1, active, l1)" using assms(5) \<open>m \<noteq> []\<close> by (simp add: run_message_def)
  then have "rtsp_loop (Suc n) exec out msg r play l =
      (if active \<and> x \<noteq> [] then rtsp_loop n exec out m r1 play1 l1 else Some (False, active, m, r1, play1, l1))"
    using scan_message[OF le assms(3,4)] t p by simp
  moreover have "buffer_end r1 \<le> BUFFER_SIZE" "length (buffer r1) = BUFFER_SIZE + 1"
    using t assms(1,2) by (auto simp: take_message_def split: if_splits)
  ultimately show thesis using that p(2) by blast
qed

text \<open>
  C19: RTSP requests in a tunnel. When the decoded data is a number of complete requests followed by nothing or by an unfinished one of at
  least four bytes, the loop ends after at most one pass per request and one more, the requests are executed exactly once each, in
  their order, up to the one that ends the session, and the unfinished one is kept for later.
\<close>

theorem rtsp_requests_executed:
  assumes "buffer_end r \<le> BUFFER_SIZE" "length (buffer r) = BUFFER_SIZE + 1" "pending r = concat ms @ rest" "pending r \<noteq> []"
    and "\<forall>m \<in> set ms. is_message m" "rest = [] \<or> unfinished rest" "length ms < n"
    and "exec_all exec out ms play l = (play', active, l')"
  shows "\<exists>early msg' r'. rtsp_loop n exec out msg r play l = Some (early, active, msg', r', play', l') \<and>
     (active \<longrightarrow> pending r' = rest \<and> (early \<longleftrightarrow> rest \<noteq> []))"
  using assms
proof (induction ms arbitrary: n r msg play l)
  case Nil
  then have "scan_request r = Scan_return" by (intro scan_unfinished) auto
  then show ?case using Nil.prems by (cases n) auto
next
  case (Cons m ms)
  obtain k where n: "n = Suc k" using Cons.prems(7) by (cases n) auto
  obtain play1 a l1 where e: "exec m out play l = (play1, a, l1)" by (cases "exec m out play l") auto
  let ?x = "concat ms @ rest"
  have "pending r = m @ ?x" "is_message m" using Cons.prems(3,5) by simp_all
  from rtsp_loop_message[where exec = exec, OF Cons.prems(1,2) this e, of k msg] obtain r1 where r1: "pending r1 = ?x" "buffer_end r1 \<le> BUFFER_SIZE"
      "length (buffer r1) = BUFFER_SIZE + 1" "rtsp_loop n exec out msg r play l =
      (if a \<and> ?x \<noteq> [] then rtsp_loop k exec out m r1 play1 l1 else Some (False, a, m, r1, play1, l1))" unfolding n by blast
  show ?case
  proof (cases "a \<and> ?x \<noteq> []")
    case True
    then have "pending r1 \<noteq> []" "exec_all exec out ms play1 l1 = (play', active, l')" using r1(1) Cons.prems(8) e by simp_all
    from Cons.IH[OF r1(2,3,1) this(1) _ Cons.prems(6) _ this(2), of k m] Cons.prems(5,7) n True r1(4) show ?thesis by simp
  next
    case False
    have "concat ms = [] \<Longrightarrow> ms = []" using Cons.prems(5) by (cases ms) (auto simp: is_message_def)
    then have "play' = play1 \<and> active = a \<and> l' = l1 \<and> (active \<longrightarrow> ?x = [])" using False Cons.prems(8) e by (cases a) auto
    moreover have "rtsp_loop n exec out msg r play l = Some (False, a, m, r1, play1, l1)" using r1(4) False by (simp only: if_False)
    ultimately show ?thesis using r1(1) by auto
  qed
qed

definition rtsp_input :: "cstring \<Rightarrow> request" where
  "rtsp_input x = fresh\<lparr>buffer := mem_put 0 x (replicate (BUFFER_SIZE + 1) NUL), buffer_end := length x\<rparr>"

lemma rtsp_input_pending:
  "length x \<le> BUFFER_SIZE \<Longrightarrow> pending (rtsp_input x) = x \<and> length (buffer (rtsp_input x)) = BUFFER_SIZE + 1 \<and> buffer_end (rtsp_input x) = length x"
  by (simp add: rtsp_input_def pending_def mem_put_def fresh_def zero_request_def)

lemma OPTIONS_message: "is_message (''OPTIONS *'' @ CRLF @ CRLF)"
proof -
  have "\<forall>i \<in> set [0..<14]. i + 4 \<le> length (''OPTIONS *'' @ CRLF @ CRLF) \<longrightarrow>
      (take 4 (drop i (''OPTIONS *'' @ CRLF @ CRLF)) = CRLF @ CRLF \<longleftrightarrow> i + 4 = length (''OPTIONS *'' @ CRLF @ CRLF))"
    by (simp add: upt_rec numeral_eq_Suc)
  then show ?thesis by (auto simp: is_message_def)
qed

theorem rtsp_requests_executed_witness:
  "\<exists>early msg' r' l'. rtsp_loop 3 no_exec (Some 7) [] (rtsp_input (concat [''OPTIONS *'' @ CRLF @ CRLF, ''OPTIONS *'' @ CRLF @ CRLF])) True 0 =
     Some (early, True, msg', r', True, l') \<and> pending r' = []"
proof -
  let ?m = "''OPTIONS *'' @ CRLF @ CRLF" and ?r = "rtsp_input (concat [''OPTIONS *'' @ CRLF @ CRLF, ''OPTIONS *'' @ CRLF @ CRLF])"
  have p: "pending ?r = concat [?m, ?m] @ []" "length (buffer ?r) = BUFFER_SIZE + 1" "buffer_end ?r \<le> BUFFER_SIZE"
    using rtsp_input_pending[of "concat [?m, ?m]"] by (simp_all add: BUFFER_SIZE_def)
  have e: "exec_all no_exec (Some 7) [?m, ?m] True 0 = (True, True, 0)" by (simp add: no_exec_def)
  show ?thesis using rtsp_requests_executed[OF p(3,2,1) _ _ _ _ e, of 3 "[]"] p(1) OPTIONS_message by auto
qed

text \<open>
  C39: A short rest hangs the thread. When one, two or three bytes follow the complete requests, and no request ends the session, the loop
  never ends, whatever the fuel: the scan is not entered, nothing is consumed, and the last request, if there was one, is executed
  again and again. A client that may open a tunnel stops all tunnels this way, with one base64 quadruple.
\<close>

theorem rtsp_short_rest_hangs:
  assumes "buffer_end r \<le> BUFFER_SIZE" "length (buffer r) = BUFFER_SIZE + 1" "pending r = concat ms @ rest"
    and "\<forall>m \<in> set ms. is_message m" "0 < length rest" "length rest < 4" "\<forall>m out play l. fst (snd (exec m out play l))"
  shows "rtsp_loop n exec out msg r play l = None"
  using assms(1-4)
proof (induction n arbitrary: ms r msg play l)
  case (Suc n)
  show ?case
  proof (cases ms)
    case Nil
    then have "buffer_end r - buffer_start r = length rest"
      using Suc.prems(1,2) arg_cong[OF Suc.prems(3), of length] by (simp add: pending_def)
    then have "\<not> buffer_start r + 4 \<le> buffer_end r" "buffer_start r < buffer_end r" using assms(5,6) by linarith+
    then have sc: "scan_request r = Scan_short" "buffer_start r < buffer_end r" by (simp_all add: scan_request_def)
    obtain play1 a l1 where e: "run_message exec out msg play l = (play1, a, l1)" by (cases "run_message exec out msg play l") auto
    moreover have "fst (snd (run_message exec out msg play l))" using assms(7) by (simp add: run_message_def)
    ultimately have "a" by simp
    then show ?thesis using Suc.IH[OF Suc.prems] sc e by simp
  next
    case (Cons m ms')
    obtain play1 a l1 where e: "exec m out play l = (play1, a, l1)" by (cases "exec m out play l") auto
    then have a: "a" using assms(7) by (metis fst_conv snd_conv)
    have "pending r = m @ concat ms' @ rest" "is_message m" using Suc.prems(3,4) Cons by simp_all
    from rtsp_loop_message[where exec = exec, OF Suc.prems(1,2) this e, of n msg] obtain r1 where r1: "pending r1 = concat ms' @ rest" "buffer_end r1 \<le> BUFFER_SIZE"
        "length (buffer r1) = BUFFER_SIZE + 1" "rtsp_loop (Suc n) exec out msg r play l =
        (if a \<and> concat ms' @ rest \<noteq> [] then rtsp_loop n exec out m r1 play1 l1 else Some (False, a, m, r1, play1, l1))" by blast
    then show ?thesis using Suc.IH[OF r1(2,3,1)] a assms(5) Suc.prems(4) Cons by auto
  qed
qed simp

theorem rtsp_short_rest_hangs_witness:
  "rtsp_loop 1000 no_exec (Some 7) [] (rtsp_input ''abc'') True 0 = None"
  using rtsp_short_rest_hangs[of "rtsp_input ''abc''" "[]" "''abc''" no_exec] rtsp_input_pending[of "''abc''"]
  by (simp add: BUFFER_SIZE_def no_exec_def)

end
