(* ===== verification/Boa_Api.thy ===== *)
theory Boa_Api
  imports Boa_Dispatch
begin

text \<open>
  The commands of the camera (\<^verbatim>\<open>appro_api.c\<close>): what their handlers are made of. A handler reads one argument of the query, checks it
  against the limits of a field of the configuration, hands it to the system, and prints a line of the answer into the buffer of the request.

  The statements of C become functions on a context. A \<open>do { ... } while (0)\<close> that is left by \<open>break\<close> is \<open>do_once\<close>, a local variable is bound by
  \<open>bind\<close>, the formats of \<open>sprintf\<close> are lists of conversions. The configuration in shared memory (\<open>sys_info\<close>), \<open>ControlSystemData\<close>, \<open>info_write\<close>
  and the constants of the build are not part of the repository: they are the record \<open>camera\<close>. Numbers of the configuration are read as
  they are after the integer promotions, and limits are not negative. A conditional part of the source (\<open>#ifdef\<close>) is a condition on the constants of the build. Messages
  of the debug macro are left out.
\<close>

subsection \<open>The camera\<close>

datatype api_data = Num nat int | Text "char list"

record 'w camera =
  cfg_u8 :: "'w \<Rightarrow> cstring \<Rightarrow> int"
  cfg_u16 :: "'w \<Rightarrow> cstring \<Rightarrow> int"
  cfg_u32 :: "'w \<Rightarrow> cstring \<Rightarrow> int"
  cfg_s8 :: "'w \<Rightarrow> cstring \<Rightarrow> int"
  cfg_value :: "'w \<Rightarrow> cstring \<Rightarrow> int"
  cfg_min :: "'w \<Rightarrow> cstring \<Rightarrow> int"
  cfg_max :: "'w \<Rightarrow> cstring \<Rightarrow> int"
  cfg_string :: "'w \<Rightarrow> cstring \<Rightarrow> cstring"
  info_num :: "'w \<Rightarrow> cstring \<Rightarrow> int"
  info_str :: "'w \<Rightarrow> cstring \<Rightarrow> cstring"
  info_store :: "cstring \<Rightarrow> int \<Rightarrow> 'w \<Rightarrow> 'w"
  macro :: "cstring \<Rightarrow> int option"
  macro_text :: "cstring \<Rightarrow> cstring"
  control :: "cstring \<Rightarrow> api_data \<Rightarrow> 'w \<Rightarrow> int \<times> 'w"
  info_write :: "cstring \<Rightarrow> api_data \<Rightarrow> 'w \<Rightarrow> int \<times> 'w"
  extern :: "cstring \<Rightarrow> api_data list \<Rightarrow> 'w \<Rightarrow> 'w"

text \<open>\<open>calls\<close> is a history of what the handler has handed to the system, the last call first; no statement reads it.\<close>

record 'w ctx =
  cam :: "'w camera"
  argm :: command_argument
  req :: request
  world :: "'w cmd_world"
  calls :: "(cstring \<times> api_data) list"

subsection \<open>Expressions\<close>

definition name :: "'w ctx \<Rightarrow> cstring" where "name c = arg_name (argm c)"
definition val :: "'w ctx \<Rightarrow> cstring" where "val c = (case arg_value (argm c) of Some v \<Rightarrow> v | None \<Rightarrow> [])"
definition u8 :: "cstring \<Rightarrow> 'w ctx \<Rightarrow> int" where "u8 f c = cfg_u8 (cam c) (outer (world c)) f"
definition u16 :: "cstring \<Rightarrow> 'w ctx \<Rightarrow> int" where "u16 f c = cfg_u16 (cam c) (outer (world c)) f"
definition u32 :: "cstring \<Rightarrow> 'w ctx \<Rightarrow> int" where "u32 f c = cfg_u32 (cam c) (outer (world c)) f"
definition s8 :: "cstring \<Rightarrow> 'w ctx \<Rightarrow> int" where "s8 f c = cfg_s8 (cam c) (outer (world c)) f"
definition ivalue :: "cstring \<Rightarrow> 'w ctx \<Rightarrow> int" where "ivalue f c = cfg_value (cam c) (outer (world c)) f"
definition min_of :: "cstring \<Rightarrow> 'w ctx \<Rightarrow> int" where "min_of f c = cfg_min (cam c) (outer (world c)) f"
definition max_of :: "cstring \<Rightarrow> 'w ctx \<Rightarrow> int" where "max_of f c = cfg_max (cam c) (outer (world c)) f"
definition conf_string :: "cstring \<Rightarrow> 'w ctx \<Rightarrow> cstring" where "conf_string f c = cfg_string (cam c) (outer (world c)) f"
definition sysinfo :: "cstring \<Rightarrow> 'w ctx \<Rightarrow> int" where "sysinfo f c = info_num (cam c) (outer (world c)) f"
definition sysinfo_str :: "cstring \<Rightarrow> 'w ctx \<Rightarrow> cstring" where "sysinfo_str f c = info_str (cam c) (outer (world c)) f"
definition macro_defined :: "cstring \<Rightarrow> 'w ctx \<Rightarrow> bool" where "macro_defined x c \<longleftrightarrow> macro (cam c) x \<noteq> None"
definition macro_val :: "cstring \<Rightarrow> 'w ctx \<Rightarrow> int" where "macro_val x c = (case macro (cam c) x of Some n \<Rightarrow> n | None \<Rightarrow> 0)"
definition macro_str :: "cstring \<Rightarrow> 'w ctx \<Rightarrow> cstring" where "macro_str x c = macro_text (cam c) x"

definition to_u8 :: "int \<Rightarrow> int" where "to_u8 n = n mod 2 ^ 8"
definition to_u16 :: "int \<Rightarrow> int" where "to_u16 n = n mod 2 ^ 16"
definition to_u32 :: "int \<Rightarrow> int" where "to_u32 n = n mod 2 ^ 32"
definition to_i32 :: "int \<Rightarrow> int" where "to_i32 n = (n + 2 ^ 31) mod 2 ^ 32 - 2 ^ 31"

definition nl :: cstring where "nl = [CHR 0x0A]"

text \<open>Formats: \<open>%d\<close>, \<open>%u\<close>, \<open>%0wd\<close> and \<open>%s\<close>. An argument of \<open>%d\<close> is read as an \<open>int\<close>, one of \<open>%u\<close> as an \<open>unsigned int\<close>.\<close>

datatype conv = Lit cstring | D int | U int | D0 nat int | Str cstring

fun conv_text :: "conv \<Rightarrow> cstring" where
  "conv_text (Lit s) = s"
| "conv_text (D n) = show_int (to_i32 n)"
| "conv_text (U n) = show_int (to_u32 n)"
| "conv_text (D0 w n) =
    (let m = to_i32 n in if m < 0 then CHR ''-'' # pad_left (w - 1) (CHR ''0'') (itoa (nat (- m))) else pad_left w (CHR ''0'') (itoa (nat m)))"
| "conv_text (Str s) = s"

definition format_text :: "conv list \<Rightarrow> cstring" where
  "format_text ps = concat (map conv_text ps)"

definition numeric_check :: "cstring \<Rightarrow> int" where
  "numeric_check s = (if list_all isdigit s then 0 else - 1)"

definition profile_check :: "'w ctx \<Rightarrow> int \<Rightarrow> int" where
  "profile_check c profileid =
    (let last = (if macro_defined ''SUPPORT_PROFILE_NUMBER'' c then ivalue ''CONFIG_MAX_PROFILE_NUM'' c else macro_val ''MAX_PROFILE_NUM'' c)
     in if profileid < 0 then - 1
        else if profileid = last then macro_val ''SPECIAL_PROFILE'' c
        else if profileid > last then - 1
        else macro_val ''EXIST_PROFILE'' c)"

subsection \<open>Statements\<close>

datatype flow = Go | Break | Return

type_synonym 'w stmt = "'w ctx \<Rightarrow> flow \<times> 'w ctx"

fun block :: "'w stmt list \<Rightarrow> 'w stmt" where
  "block [] c = (Go, c)"
| "block (s # ss) c = (case s c of (Go, c1) \<Rightarrow> block ss c1 | (f, c1) \<Rightarrow> (f, c1))"

definition brk :: "'w stmt" where "brk c = (Break, c)"
definition ret :: "'w stmt" where "ret c = (Return, c)"

definition do_once :: "'w stmt list \<Rightarrow> 'w stmt" where
  "do_once ss c = (case block ss c of (Break, c1) \<Rightarrow> (Go, c1) | r \<Rightarrow> r)"

definition if_then :: "('w ctx \<Rightarrow> bool) \<Rightarrow> 'w stmt list \<Rightarrow> 'w stmt" where
  "if_then p ss c = (if p c then block ss c else (Go, c))"

definition if_else :: "('w ctx \<Rightarrow> bool) \<Rightarrow> 'w stmt list \<Rightarrow> 'w stmt list \<Rightarrow> 'w stmt" where
  "if_else p ss ts c = (if p c then block ss c else block ts c)"

definition bind :: "('w ctx \<Rightarrow> int) \<Rightarrow> (int \<Rightarrow> 'w stmt list) \<Rightarrow> 'w stmt" where
  "bind f k c = block (k (f c)) c"

text \<open>\<open>req->buffer_end += sprintf (req_bufptr (req), ...)\<close>: there is no check for room.\<close>

definition req_sprintf :: "cstring \<Rightarrow> request \<Rightarrow> request" where
  "req_sprintf s r = r\<lparr>buffer := mem_put (buffer_end r) (s @ [NUL]) (buffer r), buffer_end := buffer_end r + length s\<rparr>"

definition OPTION_OK :: cstring where "OPTION_OK = ''OK ''"
definition OPTION_NG :: cstring where "OPTION_NG = ''NG ''"
definition OPTION_NS :: cstring where "OPTION_NS = ''NS ''"

definition say_text :: "('w ctx \<Rightarrow> conv list) \<Rightarrow> 'w stmt" where
  "say_text f c = (Go, c\<lparr>req := req_sprintf (format_text (f c)) (req c)\<rparr>)"

text \<open>The answers: a mark and \<open>"%s...\n"\<close>, with the name of the argument for the \<open>%s\<close>.\<close>

definition say :: "cstring \<Rightarrow> ('w ctx \<Rightarrow> conv list) \<Rightarrow> 'w stmt" where
  "say k t = say_text (\<lambda>c. Lit k # Str (name c) # t c @ [Lit nl])"

definition set_flag :: "(request \<Rightarrow> request) \<Rightarrow> 'w stmt" where
  "set_flag f c = (Go, c\<lparr>req := f (req c)\<rparr>)"

definition set_ntpd :: "'w stmt" where
  "set_ntpd c = (Go, c\<lparr>world := (world c)\<lparr>ntpd_restart := True\<rparr>\<rparr>)"

definition control_data :: "cstring \<Rightarrow> ('w ctx \<Rightarrow> api_data) \<Rightarrow> (int \<Rightarrow> 'w stmt list) \<Rightarrow> 'w stmt" where
  "control_data sf d k c =
    (case control (cam c) sf (d c) (outer (world c)) of
       (n, w) \<Rightarrow> block (k n) (c\<lparr>world := (world c)\<lparr>outer := w\<rparr>, calls := (sf, d c) # calls c\<rparr>))"

definition write_info :: "cstring \<Rightarrow> ('w ctx \<Rightarrow> api_data) \<Rightarrow> (int \<Rightarrow> 'w stmt list) \<Rightarrow> 'w stmt" where
  "write_info f d k c =
    (case info_write (cam c) f (d c) (outer (world c)) of
       (n, w) \<Rightarrow> block (k n) (c\<lparr>world := (world c)\<lparr>outer := w\<rparr>, calls := (f, d c) # calls c\<rparr>))"

definition store_info :: "cstring \<Rightarrow> ('w ctx \<Rightarrow> int) \<Rightarrow> 'w stmt" where
  "store_info f x c = (Go, c\<lparr>world := (world c)\<lparr>outer := info_store (cam c) f (x c) (outer (world c))\<rparr>\<rparr>)"

definition extern_call :: "cstring \<Rightarrow> ('w ctx \<Rightarrow> api_data list) \<Rightarrow> 'w stmt" where
  "extern_call f ds c = (Go, c\<lparr>world := (world c)\<lparr>outer := extern (cam c) f (ds c) (outer (world c))\<rparr>\<rparr>)"

text \<open>A handler is the list of its statements; running it for argument \<open>i\<close> of the request.\<close>

type_synonym 'w command = "'w stmt list"

definition run_command :: "'w camera \<Rightarrow> 'w command \<Rightarrow> nat \<Rightarrow> request \<times> 'w cmd_world \<Rightarrow> request \<times> 'w cmd_world" where
  "run_command k cmd i st =
    (let c = snd (block cmd \<lparr>cam = k, argm = cmd_arg (fst st) ! i, req = fst st, world = snd st, calls = []\<rparr>) in (req c, world c))"

subsection \<open>What a command prints\<close>

text \<open>
  \<open>answers n c c'\<close>: between the two contexts \<open>n\<close> answers are printed, each with a mark, the name of the command, and at most
  \<open>S + 1\<close> further bytes; the request changes in nothing else but the flags for restarting.
\<close>

definition answer_line :: "nat \<Rightarrow> cstring \<Rightarrow> cstring \<Rightarrow> bool" where
  "answer_line S n l \<longleftrightarrow> (\<exists>k \<in> {OPTION_OK, OPTION_NG, OPTION_NS}. \<exists>t. l = k @ n @ t @ nl \<and> length t \<le> S + 1 \<and> (t = [] \<or> hd t = CHR ''=''))"

definition printed :: "cstring list \<Rightarrow> request \<Rightarrow> request \<Rightarrow> bool" where
  "printed ls r r' \<longleftrightarrow> (\<exists>a b m. r' = (fold req_sprintf ls r)\<lparr>flag_reboot := a, flag_restart := b, flag_set_mac := m\<rparr>)"

definition answers :: "nat \<Rightarrow> nat \<Rightarrow> 'w ctx \<Rightarrow> 'w ctx \<Rightarrow> bool" where
  "answers S n c c' \<longleftrightarrow> cam c' = cam c \<and> argm c' = argm c \<and>
     (\<exists>ls. length ls = n \<and> list_all (answer_line S (name c)) ls \<and> printed ls (req c) (req c'))"

text \<open>The strings of the camera have at most \<open>S\<close> bytes.\<close>

definition strings_fit :: "nat \<Rightarrow> 'w camera \<Rightarrow> bool" where
  "strings_fit S k \<longleftrightarrow> 64 \<le> S \<and> (\<forall>w f. length (cfg_string k w f) \<le> S \<and> length (info_str k w f) \<le> S) \<and> (\<forall>x. length (macro_text k x) \<le> S)"

text \<open>A statement that starts after \<open>n\<close> answers goes on, breaks out or returns after numbers of answers that satisfy \<open>G\<close>, \<open>B\<close> and \<open>R\<close>.\<close>

definition leaves :: "(nat \<Rightarrow> bool) \<Rightarrow> (nat \<Rightarrow> bool) \<Rightarrow> (nat \<Rightarrow> bool) \<Rightarrow> flow \<Rightarrow> nat \<Rightarrow> bool" where
  "leaves G B R f = (case f of Go \<Rightarrow> G | Break \<Rightarrow> B | Return \<Rightarrow> R)"

definition yields :: "nat \<Rightarrow> 'w stmt \<Rightarrow> nat \<Rightarrow> (nat \<Rightarrow> bool) \<Rightarrow> (nat \<Rightarrow> bool) \<Rightarrow> (nat \<Rightarrow> bool) \<Rightarrow> bool" where
  "yields S s n G B R \<longleftrightarrow>
    (\<forall>c. strings_fit S (cam c) \<longrightarrow> (case s c of (f, c') \<Rightarrow> \<exists>m. answers S m c c' \<and> leaves G B R f (n + m)))"

definition answers_once :: "nat \<Rightarrow> 'w command \<Rightarrow> bool" where
  "answers_once S cmd \<longleftrightarrow> yields S (block cmd) 0 (\<lambda>n. n = 1) (\<lambda>n. n = 1) (\<lambda>n. n = 1)"

lemma printed_Nil: "printed [] r r"
  unfolding printed_def by (rule exI[of _ "flag_reboot r"], rule exI[of _ "flag_restart r"], rule exI[of _ "flag_set_mac r"]) simp

lemma req_sprintf_flags:
  "req_sprintf l (r\<lparr>flag_reboot := a, flag_restart := b, flag_set_mac := m\<rparr>) =
   (req_sprintf l r)\<lparr>flag_reboot := a, flag_restart := b, flag_set_mac := m\<rparr>"
  by (cases r) (simp add: req_sprintf_def)

lemma fold_req_sprintf_flags:
  "fold req_sprintf ls (r\<lparr>flag_reboot := a, flag_restart := b, flag_set_mac := m\<rparr>) =
   (fold req_sprintf ls r)\<lparr>flag_reboot := a, flag_restart := b, flag_set_mac := m\<rparr>"
  by (induction ls arbitrary: r) (simp_all add: req_sprintf_flags)

lemma printed_append: "printed ls r r' \<Longrightarrow> printed ls' r' r'' \<Longrightarrow> printed (ls @ ls') r r''"
  unfolding printed_def by (elim exE) (simp add: fold_req_sprintf_flags, blast)

lemma answers_refl: "answers S 0 c c"
  using printed_Nil by (auto simp: answers_def)

lemma answers_trans: "answers S n c c' \<Longrightarrow> answers S m c' c'' \<Longrightarrow> answers S (n + m) c c''"
  unfolding answers_def by (metis (no_types, lifting) length_append list_all_append name_def printed_append)

lemma answers_cam: "answers S n c c' \<Longrightarrow> cam c' = cam c"
  by (simp add: answers_def)

subsection \<open>Counting the answers of a statement\<close>

text \<open>The rules follow the statements. The definitions of the handlers are collected in \<open>command_defs\<close>.\<close>

named_theorems counting
named_theorems command_defs

lemma yieldsI:
  "(\<And>c f c'. strings_fit S (cam c) \<Longrightarrow> s c = (f, c') \<Longrightarrow> \<exists>m. answers S m c c' \<and> leaves G B R f (n + m)) \<Longrightarrow> yields S s n G B R"
  by (simp add: yields_def split: prod.split)

lemma yieldsE:
  assumes "yields S s n G B R" "strings_fit S (cam c)" "s c = (f, c')"
  obtains m where "answers S m c c'" "leaves G B R f (n + m)"
  using assms by (auto simp: yields_def)

lemma yields_quiet:
  assumes "\<And>c. s c = (f, g c)" "\<And>c. answers S 0 c (g c)" "leaves G B R f n"
  shows "yields S s n G B R"
  by (rule yieldsI) (use assms in \<open>auto intro!: exI[of _ 0]\<close>)

lemma yields_nil [counting]: "G n \<Longrightarrow> yields S (block []) n G B R"
  by (rule yields_quiet[of _ _ "\<lambda>c. c"]) (auto simp: leaves_def leaves_def answers_refl)

lemma yields_brk [counting]: "B n \<Longrightarrow> yields S brk n G B R"
  by (rule yields_quiet[of _ _ "\<lambda>c. c"]) (auto simp: leaves_def answers_refl brk_def)

lemma yields_ret [counting]: "R n \<Longrightarrow> yields S ret n G B R"
  by (rule yields_quiet[of _ _ "\<lambda>c. c"]) (auto simp: leaves_def answers_refl ret_def)

lemma yields_cons [counting]:
  assumes "yields S s n (\<lambda>m. yields S (block ss) m G B R) B R"
  shows "yields S (block (s # ss)) n G B R"
proof (rule yieldsI)
  fix c :: "'a ctx" and f c' assume fit: "strings_fit S (cam c)" and run: "block (s # ss) c = (f, c')"
  obtain g c1 where s: "s c = (g, c1)" by (cases "s c")
  from yieldsE[OF assms fit s] obtain m
    where m: "answers S m c c1" "leaves (\<lambda>m. yields S (block ss) m G B R) B R g (n + m)" by blast
  show "\<exists>m. answers S m c c' \<and> leaves G B R f (n + m)"
  proof (cases "g = Go")
    case True
    then have "yields S (block ss) (n + m) G B R" "block ss c1 = (f, c')" using m run s by (auto simp: leaves_def)
    from yieldsE[OF this(1) _ this(2)] fit answers_cam[OF m(1)] obtain k where "answers S k c1 c'" "leaves G B R f (n + m + k)" by metis
    then show ?thesis using answers_trans[OF m(1)] by (auto simp: add.assoc)
  next
    case False
    then show ?thesis using m run s by (cases g) (auto simp: leaves_def)
  qed
qed

lemma yields_do_once [counting]:
  "yields S (block ss) n G G R \<Longrightarrow> yields S (do_once ss) n G B R"
  unfolding yields_def do_once_def leaves_def by (auto split: prod.splits flow.splits)

lemma yields_if_then [counting]: "yields S (block ss) n G B R \<Longrightarrow> G n \<Longrightarrow> yields S (if_then p ss) n G B R"
  using answers_refl by (fastforce simp: yields_def leaves_def if_then_def split: if_splits)

lemma yields_if_else [counting]: "yields S (block ss) n G B R \<Longrightarrow> yields S (block ts) n G B R \<Longrightarrow> yields S (if_else p ss ts) n G B R"
  by (auto simp: yields_def if_else_def)

lemma yields_bind [counting]: "(\<And>v. yields S (block (k v)) n G B R) \<Longrightarrow> yields S (bind f k) n G B R"
  by (auto simp: yields_def bind_def)

text \<open>The effects on the system print nothing.\<close>

lemma answers_world [simp]:
  "answers S m (c\<lparr>world := w\<rparr>) c' = answers S m c c'" "answers S m (c\<lparr>calls := k\<rparr>) c' = answers S m c c'"
  "answers S m c (c'\<lparr>world := w\<rparr>) = answers S m c c'" "answers S m c (c'\<lparr>calls := k\<rparr>) = answers S m c c'"
  by (auto simp: answers_def name_def)

lemma yields_then:
  assumes "\<And>c. \<exists>v w h. s c = block (k v) (c\<lparr>world := w, calls := h\<rparr>)" "\<And>v. yields S (block (k v)) n G B R"
  shows "yields S s n G B R"
proof (rule yieldsI)
  fix c :: "'a ctx" and f c' assume fit: "strings_fit S (cam c)" and run: "s c = (f, c')"
  from assms(1) obtain v w h where "s c = block (k v) (c\<lparr>world := w, calls := h\<rparr>)" by blast
  then have "block (k v) (c\<lparr>world := w, calls := h\<rparr>) = (f, c')" using run by simp
  from yieldsE[OF assms(2) _ this] fit obtain m where "answers S m (c\<lparr>world := w, calls := h\<rparr>) c'" "leaves G B R f (n + m)" by auto
  then show "\<exists>m. answers S m c c' \<and> leaves G B R f (n + m)" by auto
qed

lemma yields_control [counting]: "(\<And>v. yields S (block (k v)) n G B R) \<Longrightarrow> yields S (control_data sf d k) n G B R"
  by (rule yields_then[where k = k]) (auto simp: control_data_def split: prod.split)

lemma yields_write_info [counting]: "(\<And>v. yields S (block (k v)) n G B R) \<Longrightarrow> yields S (write_info f d k) n G B R"
  by (rule yields_then[where k = k]) (auto simp: write_info_def split: prod.split)

lemma yields_store_info [counting]: "G n \<Longrightarrow> yields S (store_info f x) n G B R"
  by (rule yields_quiet) (auto simp: leaves_def store_info_def answers_refl)

lemma yields_extern_call [counting]: "G n \<Longrightarrow> yields S (extern_call f ds) n G B R"
  by (rule yields_quiet) (auto simp: leaves_def extern_call_def answers_refl)

lemma yields_set_ntpd [counting]: "G n \<Longrightarrow> yields S set_ntpd n G B R"
  by (rule yields_quiet) (auto simp: leaves_def set_ntpd_def answers_refl)

lemma yields_flags [counting]:
  assumes "G n"
  shows "yields S (set_flag (flag_reboot_update (\<lambda>_. b))) n G B R" "yields S (set_flag (flag_restart_update (\<lambda>_. b))) n G B R"
    "yields S (set_flag (flag_set_mac_update (\<lambda>_. b))) n G B R"
proof -
  have "\<exists>x y z. r\<lparr>flag_reboot := b\<rparr> = r\<lparr>flag_reboot := x, flag_restart := y, flag_set_mac := z\<rparr>"
    "\<exists>x y z. r\<lparr>flag_restart := b\<rparr> = r\<lparr>flag_reboot := x, flag_restart := y, flag_set_mac := z\<rparr>"
    "\<exists>x y z. r\<lparr>flag_set_mac := b\<rparr> = r\<lparr>flag_reboot := x, flag_restart := y, flag_set_mac := z\<rparr>" for r :: request
    by (cases r; simp)+
  then show "yields S (set_flag (flag_reboot_update (\<lambda>_. b))) n G B R" "yields S (set_flag (flag_restart_update (\<lambda>_. b))) n G B R"
    "yields S (set_flag (flag_set_mac_update (\<lambda>_. b))) n G B R"
    using assms by (auto intro!: yields_quiet simp: leaves_def set_flag_def answers_def printed_def)
qed

text \<open>The length of an answer: numbers have at most eleven characters, strings at most \<open>S\<close>.\<close>

fun cost :: "nat \<Rightarrow> conv \<Rightarrow> nat" where
  "cost S (Lit s) = length s"
| "cost S (D n) = 11"
| "cost S (U n) = 11"
| "cost S (D0 w n) = max 11 w"
| "cost S (Str s) = S"

fun conv_fits :: "nat \<Rightarrow> conv \<Rightarrow> bool" where
  "conv_fits S (Str s) = (length s \<le> S)"
| "conv_fits S p = True"

lemma length_itoa: "n < 10 ^ Suc k \<Longrightarrow> length (itoa n) \<le> Suc k"
proof (induction k arbitrary: n)
  case 0
  then show ?case by (subst itoa.simps) simp
next
  case (Suc k)
  then have "n div 10 < 10 ^ Suc k" by (simp add: div_less_iff_less_mult)
  from Suc.IH[OF this] show ?case by (subst itoa.simps) simp
qed

lemma length_show_int: "\<bar>n\<bar> < 10 ^ 10 \<Longrightarrow> length (show_int n) \<le> 11"
  using length_itoa[of "nat (- n)" 9] length_itoa[of "nat n" 9] by (cases "n < 0") (simp_all add: show_int_def nat_less_iff)

lemma conversions_range: "\<bar>to_i32 n\<bar> < 10 ^ 10" "\<bar>to_u32 n\<bar> < 10 ^ 10"
  using pos_mod_bound[of "2 ^ 32 :: int" "n + 2 ^ 31"] pos_mod_sign[of "2 ^ 32 :: int" "n + 2 ^ 31"]
    pos_mod_bound[of "2 ^ 32 :: int" n] pos_mod_sign[of "2 ^ 32 :: int" n]
  by (simp_all add: to_i32_def to_u32_def)

lemma length_conv_text: "conv_fits S p \<Longrightarrow> length (conv_text p) \<le> cost S p"
proof (cases p)
  case (D0 w n)
  have "length (itoa (nat m)) \<le> 10" "length (itoa (nat (- m))) \<le> 10" if "m = to_i32 n" for m
    using conversions_range(1)[of n] that by (auto intro!: length_itoa[of _ 9, simplified])
  then show ?thesis using D0 by (auto simp: pad_left_def Let_def max_def)
qed (auto intro: length_show_int conversions_range)

lemma length_format_text: "list_all (conv_fits S) ps \<Longrightarrow> length (format_text ps) \<le> sum_list (map (cost S) ps)"
  by (induction ps) (auto simp: format_text_def intro: add_mono length_conv_text)

definition tail_ok :: "nat \<Rightarrow> conv list \<Rightarrow> bool" where
  "tail_ok S ps \<longleftrightarrow> list_all (conv_fits S) ps \<and> sum_list (map (cost S) ps) \<le> S + 1 \<and>
     (case ps of [] \<Rightarrow> True | p # _ \<Rightarrow> \<exists>s. p = Lit (CHR ''='' # s))"

lemma yields_say [counting]:
  assumes "\<And>c. strings_fit S (cam c) \<Longrightarrow> 64 \<le> S \<Longrightarrow> tail_ok S (t c)" "k \<in> {OPTION_OK, OPTION_NG, OPTION_NS}" "G (Suc n)"
  shows "yields S (say k t) n G B R"
proof (rule yieldsI)
  fix c :: "'a ctx" and f c' assume fit: "strings_fit S (cam c)" and run: "say k t c = (f, c')"
  define l where "l = k @ name c @ format_text (t c) @ nl"
  have "format_text (Lit k # Str (name c) # t c @ [Lit nl]) = l" by (simp add: format_text_def l_def)
  then have c': "f = Go" "c' = c\<lparr>req := req_sprintf l (req c)\<rparr>" using run by (auto simp: say_def say_text_def)
  have "tail_ok S (t c)" using assms(1) fit by (simp add: strings_fit_def)
  then have "format_text (t c) = [] \<or> hd (format_text (t c)) = CHR ''=''" "length (format_text (t c)) \<le> S + 1"
    using length_format_text[of S "t c"] by (auto simp: tail_ok_def format_text_def split: list.splits)
  then have "answer_line S (name c) l" unfolding answer_line_def l_def using assms(2) by blast
  moreover have "printed [l] (req c) (req_sprintf l (req c))"
    unfolding printed_def by (rule exI[of _ "flag_reboot (req_sprintf l (req c))"], rule exI[of _ "flag_restart (req_sprintf l (req c))"],
        rule exI[of _ "flag_set_mac (req_sprintf l (req c))"]) simp
  ultimately have "answers S 1 c c'" unfolding answers_def c' by (auto intro!: exI[of _ "[l]"])
  then show "\<exists>m. answers S m c c' \<and> leaves G B R f (n + m)" using assms(3) c' by (intro exI[of _ 1]) (simp add: leaves_def)
qed

lemma strings_length [simp]:
  "strings_fit S (cam c) \<Longrightarrow> length (conf_string f c) \<le> S"
  "strings_fit S (cam c) \<Longrightarrow> length (sysinfo_str f c) \<le> S"
  "strings_fit S (cam c) \<Longrightarrow> length (macro_str x c) \<le> S"
  by (simp_all add: strings_fit_def conf_string_def sysinfo_str_def macro_str_def)

subsection \<open>What a command does to the system\<close>

text \<open>\<open>wp s c G B R\<close>: from the context \<open>c\<close> the statement goes on, breaks out or returns in a context that satisfies \<open>G\<close>, \<open>B\<close> or \<open>R\<close>.\<close>

definition wp :: "'w stmt \<Rightarrow> 'w ctx \<Rightarrow> ('w ctx \<Rightarrow> bool) \<Rightarrow> ('w ctx \<Rightarrow> bool) \<Rightarrow> ('w ctx \<Rightarrow> bool) \<Rightarrow> bool" where
  "wp s c G B R \<longleftrightarrow> (case s c of (Go, c') \<Rightarrow> G c' | (Break, c') \<Rightarrow> B c' | (Return, c') \<Rightarrow> R c')"

definition always :: "'w command \<Rightarrow> 'w ctx \<Rightarrow> ('w ctx \<Rightarrow> bool) \<Rightarrow> bool" where
  "always cmd c P \<longleftrightarrow> wp (block cmd) c P P P"

named_theorems wp

lemma always_iff: "always cmd c P \<longleftrightarrow> P (snd (block cmd c))"
  by (simp add: always_def wp_def split: prod.splits flow.splits)

lemma wp_nil [wp]: "G c \<Longrightarrow> wp (block []) c G B R"
  by (simp add: wp_def)

lemma wp_cons [wp]: "wp s c (\<lambda>c. wp (block ss) c G B R) B R \<Longrightarrow> wp (block (s # ss)) c G B R"
  by (simp add: wp_def split: prod.splits flow.splits)

lemma wp_brk [wp]: "B c \<Longrightarrow> wp brk c G B R"
  by (simp add: wp_def brk_def)

lemma wp_ret [wp]: "R c \<Longrightarrow> wp ret c G B R"
  by (simp add: wp_def ret_def)

lemma wp_do_once [wp]: "wp (block ss) c G G R \<Longrightarrow> wp (do_once ss) c G B R"
  by (simp add: wp_def do_once_def split: prod.splits flow.splits)

lemma wp_if_then [wp]: "(p c \<Longrightarrow> wp (block ss) c G B R) \<Longrightarrow> (\<not> p c \<Longrightarrow> G c) \<Longrightarrow> wp (if_then p ss) c G B R"
  by (simp add: wp_def if_then_def)

lemma wp_if_else [wp]: "(p c \<Longrightarrow> wp (block ss) c G B R) \<Longrightarrow> (\<not> p c \<Longrightarrow> wp (block ts) c G B R) \<Longrightarrow> wp (if_else p ss ts) c G B R"
  by (simp add: wp_def if_else_def)

lemma wp_bind [wp]: "wp (block (k (f c))) c G B R \<Longrightarrow> wp (bind f k) c G B R"
  by (simp add: wp_def bind_def)

lemma wp_say_text [wp]: "(\<And>r. r = req_sprintf (format_text (f c)) (req c) \<Longrightarrow> G (c\<lparr>req := r\<rparr>)) \<Longrightarrow> wp (say_text f) c G B R"
  by (simp add: wp_def say_text_def)

lemma wp_say [wp]:
  "(\<And>r. r = req_sprintf (format_text (Lit k # Str (name c) # t c @ [Lit nl])) (req c) \<Longrightarrow> G (c\<lparr>req := r\<rparr>)) \<Longrightarrow> wp (say k t) c G B R"
  by (simp add: wp_def say_def say_text_def)

lemma wp_control [wp]:
  "(\<And>n w. wp (block (k n)) (c\<lparr>world := w, calls := (sf, d c) # calls c\<rparr>) G B R) \<Longrightarrow> wp (control_data sf d k) c G B R"
  by (cases "control (cam c) sf (d c) (outer (world c))") (simp add: wp_def control_data_def)

lemma wp_write_info [wp]:
  "(\<And>n w. wp (block (k n)) (c\<lparr>world := w, calls := (f, d c) # calls c\<rparr>) G B R) \<Longrightarrow> wp (write_info f d k) c G B R"
  by (cases "info_write (cam c) f (d c) (outer (world c))") (simp add: wp_def write_info_def)

lemma wp_store_info [wp]: "(\<And>w. G (c\<lparr>world := w\<rparr>)) \<Longrightarrow> wp (store_info f x) c G B R"
  by (simp add: wp_def store_info_def)

lemma wp_extern_call [wp]: "(\<And>w. G (c\<lparr>world := w\<rparr>)) \<Longrightarrow> wp (extern_call f ds) c G B R"
  by (simp add: wp_def extern_call_def)

lemma wp_set_ntpd [wp]: "(\<And>w. G (c\<lparr>world := w\<rparr>)) \<Longrightarrow> wp set_ntpd c G B R"
  by (simp add: wp_def set_ntpd_def)

lemma wp_set_flag [wp]: "G (c\<lparr>req := f (req c)\<rparr>) \<Longrightarrow> wp (set_flag f) c G B R"
  by (simp add: wp_def set_flag_def)

text \<open>A command keeps to the limit of a field when all that it hands to the system is at most that limit; a command only reads when it
  leaves the system as it is, and the request but for its buffer.\<close>

fun in_limit :: "int \<Rightarrow> api_data \<Rightarrow> bool" where
  "in_limit m (Num b v) = (0 \<le> v \<and> v \<le> m)"
| "in_limit m (Text s) = (int (length s) \<le> m)"

definition within_limit :: "cstring \<Rightarrow> 'w command \<Rightarrow> bool" where
  "within_limit F cmd \<longleftrightarrow> (\<forall>c. always cmd c (\<lambda>c'. \<forall>x \<in> set (calls c'). x \<in> set (calls c) \<or> in_limit (max_of F c) (snd x)))"

definition core :: "request \<Rightarrow> request" where
  "core r = r\<lparr>buffer := [], buffer_end := 0\<rparr>"

definition reads_only :: "'w command \<Rightarrow> bool" where
  "reads_only cmd \<longleftrightarrow> (\<forall>c. always cmd c (\<lambda>c'. world c' = world c \<and> core (req c') = core (req c)))"

lemma core_req_sprintf [simp]: "core (req_sprintf s r) = core r"
  by (simp add: core_def req_sprintf_def)

lemma max_of_req [simp]: "max_of F (c\<lparr>req := r\<rparr>) = max_of F c" "max_of F (c\<lparr>calls := h\<rparr>) = max_of F c"
  by (simp_all add: max_of_def)

lemma val_update [simp]: "val (c\<lparr>req := r\<rparr>) = val c" "val (c\<lparr>world := w\<rparr>) = val c" "val (c\<lparr>calls := h\<rparr>) = val c"
  by (simp_all add: val_def)

lemma to_unsigned [simp]: "0 \<le> to_u8 n" "0 \<le> to_u16 n" "0 \<le> to_u32 n"
  by (simp_all add: to_u8_def to_u16_def to_u32_def)

lemma numeric_check_neg [simp]: "numeric_check s < 0 \<longleftrightarrow> \<not> list_all isdigit s"
  by (simp add: numeric_check_def)

lemma atoi_numeric [simp]: "list_all isdigit s \<Longrightarrow> 0 \<le> atoi s"
proof (cases s)
  case Nil
  then show ?thesis by (simp add: atoi_def strtol_def)
next
  case (Cons x xs)
  moreover assume "list_all isdigit s"
  ultimately show ?thesis using atoi_digits[of x xs] by simp
qed

end
