(* ===== verification/Boa_Web.thy ===== *)
theory Boa_Web
  imports Boa_Api
begin

text \<open>
  The values of page arguments (\<^verbatim>\<open>web_translate.c\<close>): a printer stores the text of one value of the configuration and returns its length, or a negative number.

  A printer is a function of the camera and the part of the argument behind the dot. The camera is that of the commands (\<open>Boa_Api\<close>); of its context a
  printer only reads. The conditional parts of the source are conditions on the constants of the build; where the source stops the compiler with
  \<open>#error\<close>, the other branch is taken.
\<close>

subsection \<open>Printers\<close>

type_synonym 'w printer = "'w ctx \<Rightarrow> cstring \<Rightarrow> int \<times> cstring"

text \<open>\<open>return sprintf (data, ...)\<close> and \<open>return -1\<close>; the first character of the argument.\<close>

definition put :: "conv list \<Rightarrow> int \<times> cstring" where
  "put ps = (let s = format_text ps in (int (length s), s))"

definition fails :: "int \<times> cstring" where
  "fails = (- 1, [])"

definition arg_char :: "cstring \<Rightarrow> char" where
  "arg_char arg = (case arg of [] \<Rightarrow> NUL | x # _ \<Rightarrow> x)"

subsection \<open>What a printer returns\<close>

named_theorems printer_defs
named_theorems printing

text \<open>The returned number is negative, and nothing is stored, or it is the length of the text. No text is longer than three strings of the configuration and 256 bytes.\<close>

definition result_ok :: "nat \<Rightarrow> int \<times> cstring \<Rightarrow> bool" where
  "result_ok S r \<longleftrightarrow> (fst r < 0 \<and> snd r = []) \<or> (fst r = int (length (snd r)) \<and> length (snd r) \<le> 3 * S + 256)"

definition printer_fits :: "nat \<Rightarrow> 'w printer \<Rightarrow> bool" where
  "printer_fits S p \<longleftrightarrow> (\<forall>c arg. strings_fit S (cam c) \<longrightarrow> result_ok S (p c arg))"

lemma printer_fits_iff: "printer_fits S p \<longleftrightarrow> (\<forall>c arg. strings_fit S (cam c) \<longrightarrow> 64 \<le> S \<longrightarrow> result_ok S (p c arg))"
  by (auto simp: printer_fits_def strings_fit_def)

lemma result_ok_put [printing]:
  assumes "list_all (conv_fits S) ps" "sum_list (map (cost S) ps) \<le> 3 * S + 256"
  shows "result_ok S (put ps)"
  using length_format_text[OF assms(1)] assms(2) by (simp add: result_ok_def put_def Let_def)

lemma result_ok_fails [printing]: "result_ok S fails"
  by (simp add: result_ok_def fails_def)

lemma result_ok_nothing [printing]: "result_ok S (0, [])"
  by (simp add: result_ok_def)

lemma result_ok_if [printing]:
  "(b \<Longrightarrow> result_ok S x) \<Longrightarrow> (\<not> b \<Longrightarrow> result_ok S y) \<Longrightarrow> result_ok S (if b then x else y)"
  by simp

lemma result_ok_let [printing]: "result_ok S (f x) \<Longrightarrow> result_ok S (Let x f)"
  by simp

subsection \<open>What a printer can reveal\<close>

text \<open>A printer is blind to all strings of the configuration outside a set when it prints the same after they have been changed.\<close>

definition swap_strings :: "('w \<Rightarrow> cstring \<Rightarrow> cstring) \<Rightarrow> 'w ctx \<Rightarrow> 'w ctx" where
  "swap_strings s c = c\<lparr>cam := (cam c)\<lparr>cfg_string := s\<rparr>\<rparr>"

definition same_strings :: "cstring list \<Rightarrow> ('w \<Rightarrow> cstring \<Rightarrow> cstring) \<Rightarrow> 'w ctx \<Rightarrow> bool" where
  "same_strings fs s c \<longleftrightarrow> (\<forall>w. \<forall>f \<in> set fs. s w f = cfg_string (cam c) w f)"

definition blind :: "cstring list \<Rightarrow> 'w printer \<Rightarrow> bool" where
  "blind fs p \<longleftrightarrow> (\<forall>s c arg. same_strings fs s c \<longrightarrow> p (swap_strings s c) arg = p c arg)"

lemma swap_strings_config [simp]:
  "u8 f (swap_strings s c) = u8 f c" "u16 f (swap_strings s c) = u16 f c" "u32 f (swap_strings s c) = u32 f c" "s8 f (swap_strings s c) = s8 f c"
  "ivalue f (swap_strings s c) = ivalue f c" "min_of f (swap_strings s c) = min_of f c" "max_of f (swap_strings s c) = max_of f c"
  "sysinfo f (swap_strings s c) = sysinfo f c" "sysinfo_str f (swap_strings s c) = sysinfo_str f c"
  "macro_val x (swap_strings s c) = macro_val x c" "macro_str x (swap_strings s c) = macro_str x c" "req (swap_strings s c) = req c"
  by (simp_all add: swap_strings_def u8_def u16_def u32_def s8_def ivalue_def min_of_def max_of_def sysinfo_def sysinfo_str_def
      macro_val_def macro_str_def)

lemma macro_defined_swap_strings [simp]: "macro_defined x (swap_strings s c) = macro_defined x c"
  by (simp add: swap_strings_def macro_defined_def)

lemma profile_check_swap_strings [simp]: "profile_check (swap_strings s c) n = profile_check c n"
  by (simp add: profile_check_def Let_def)

lemma conf_string_swap_strings: "same_strings fs s c \<Longrightarrow> f \<in> set fs \<Longrightarrow> conf_string f (swap_strings s c) = conf_string f c"
  by (simp add: conf_string_def swap_strings_def same_strings_def)

end
