(* ===== verification/Boa_Web_Picture.thy ===== *)
theory Boa_Web_Picture
  imports Boa_Web
begin

unbundle bit_operations_syntax

text \<open>
  The printers of \<^verbatim>\<open>web_translate.c\<close>, first part: network, card, audio, picture.
\<close>

subsection \<open>The printers\<close>

definition para_sntpip :: "'w printer" where [printer_defs]:
  "para_sntpip c arg = (put [Str (conf_string ''NTP_SERVER'' c)])"

definition para_sntpipname :: "'w printer" where [printer_defs]:
  "para_sntpipname c arg =
    (if macro_defined ''CONFIG_BRAND_DLINK'' c then (if arg_char arg = CHR ''0'' then put [Str ''ntp1.dlink.com'']
    else if arg_char arg = CHR ''1'' then put [Str ''ntp.dlink.com.tw'']
    else if arg_char arg = CHR ''a'' \<or> arg_char arg = NUL then put [Str '';ntp1.dlink.com;ntp.dlink.com.tw'']
    else fails)
    else put [])"

definition para_sntptimezone :: "'w printer" where [printer_defs]:
  "para_sntptimezone c arg = (put [D (u8 ''NTP_TIMEZONE'' c)])"

definition para_sntpfrequency :: "'w printer" where [printer_defs]:
  "para_sntpfrequency c arg = (put [D (s8 ''NTP_FREQUENCY'' c)])"

definition para_dhcpenable :: "'w printer" where [printer_defs]:
  "para_dhcpenable c arg = (put [D (ivalue ''NET_DHCP_ENABLE'' c)])"

definition para_httpport :: "'w printer" where [printer_defs]:
  "para_httpport c arg = (put [D (u16 ''HTTP_PORT'' c)])"

definition para_defaulthttpport :: "'w printer" where [printer_defs]:
  "para_defaulthttpport c arg = (put [D (macro_val ''HTTP_PORT_DEFAULT'' c)])"

definition para_title :: "'w printer" where [printer_defs]:
  "para_title c arg = (put [Str (conf_string ''TITLE'' c)])"

definition para_http_streamname1 :: "'w printer" where [printer_defs]:
  "para_http_streamname1 c arg = (put [Str (conf_string ''STREAM0_HTTPSTREAMNAME'' c)])"

definition para_http_streamname2 :: "'w printer" where [printer_defs]:
  "para_http_streamname2 c arg = (put [Str (conf_string ''STREAM1_HTTPSTREAMNAME'' c)])"

definition para_http_streamname3 :: "'w printer" where [printer_defs]:
  "para_http_streamname3 c arg = (put [Str (conf_string ''STREAM2_HTTPSTREAMNAME'' c)])"

definition para_http_streamname4 :: "'w printer" where [printer_defs]:
  "para_http_streamname4 c arg = (put [Str (conf_string ''STREAM3_HTTPSTREAMNAME'' c)])"

definition para_rtsp_streamname1 :: "'w printer" where [printer_defs]:
  "para_rtsp_streamname1 c arg = (put [Str (conf_string ''STREAM0_RTSPSTREAMNAME'' c)])"

definition para_rtsp_streamname2 :: "'w printer" where [printer_defs]:
  "para_rtsp_streamname2 c arg = (put [Str (conf_string ''STREAM1_RTSPSTREAMNAME'' c)])"

definition para_rtsp_streamname3 :: "'w printer" where [printer_defs]:
  "para_rtsp_streamname3 c arg = (put [Str (conf_string ''STREAM2_RTSPSTREAMNAME'' c)])"

definition para_rtsp_streamname4 :: "'w printer" where [printer_defs]:
  "para_rtsp_streamname4 c arg = (put [Str (conf_string ''STREAM3_RTSPSTREAMNAME'' c)])"

definition para_maxtitlelen :: "'w printer" where [printer_defs]:
  "para_maxtitlelen c arg = (put [D (macro_val ''MAX_LANCAM_TITLE_LEN'' c)])"

definition para_liveresolution :: "'w printer" where [printer_defs]:
  "para_liveresolution c arg = (put [D (u8 ''LIVERESOLUTION'' c)])"

definition para_livequality :: "'w printer" where [printer_defs]:
  "para_livequality c arg =
    (if profile_check c 1 < macro_val ''SPECIAL_PROFILE'' c then fails
    else put [D (u8 ''PROFILE_CONFIG0_JPEG_QUALITY'' c)])"

definition para_livequality2 :: "'w printer" where [printer_defs]:
  "para_livequality2 c arg =
    (if profile_check c 2 < macro_val ''SPECIAL_PROFILE'' c then fails
    else put [D (u8 ''PROFILE_CONFIG1_JPEG_QUALITY'' c)])"

definition para_maxfqdnlen :: "'w printer" where [printer_defs]:
  "para_maxfqdnlen c arg = (put [D (macro_val ''MAX_FQDN_LENGTH'' c)])"

definition para_minnetport :: "'w printer" where [printer_defs]:
  "para_minnetport c arg = (put [D (macro_val ''MIN_SERVER_PORT'' c)])"

definition para_maxnetport :: "'w printer" where [printer_defs]:
  "para_maxnetport c arg = (put [D (macro_val ''MAX_PORT'' c)])"

definition para_maxftpuserlen :: "'w printer" where [printer_defs]:
  "para_maxftpuserlen c arg = (put [D (macro_val ''MAX_STRING_LENGTH'' c)])"

definition para_maxftppwdlen :: "'w printer" where [printer_defs]:
  "para_maxftppwdlen c arg = (put [D (macro_val ''MAX_STRING_LENGTH'' c)])"

definition para_maxftppathlen :: "'w printer" where [printer_defs]:
  "para_maxftppathlen c arg = (put [D (macro_val ''MAX_STRING_LENGTH'' c)])"

definition para_maxsmtpuser :: "'w printer" where [printer_defs]:
  "para_maxsmtpuser c arg = (put [D (macro_val ''MAX_STRING_LENGTH'' c)])"

definition para_maxsmtppwd :: "'w printer" where [printer_defs]:
  "para_maxsmtppwd c arg = (put [D (macro_val ''MAX_STRING_LENGTH'' c)])"

definition para_maxsmtpsender :: "'w printer" where [printer_defs]:
  "para_maxsmtpsender c arg = (put [D (macro_val ''MAX_STRING_LENGTH'' c)])"

definition para_maxemailuserlen :: "'w printer" where [printer_defs]:
  "para_maxemailuserlen c arg = (put [D (macro_val ''MAX_STRING_LENGTH'' c)])"

definition para_supportmpeg4 :: "'w printer" where [printer_defs]:
  "para_supportmpeg4 c arg =
    (if macro_defined ''SUPPORT_MPEG4'' c then put [Lit ''1'']
    else put [Lit ''1''])"

definition para_format :: "'w printer" where [printer_defs]:
  "para_format c arg = (put [D (u8 ''IMAGEFORMAT'' c)])"

definition para_imagesource :: "'w printer" where [printer_defs]:
  "para_imagesource c arg = (put [D (sysinfo ''video_type'' c)])"

definition para_devicename :: "'w printer" where [printer_defs]:
  "para_devicename c arg = (put [Str (conf_string ''DEVICENAME'' c)])"

definition para_sddisplay :: "'w printer" where [printer_defs]:
  "para_sddisplay c arg =
    (if macro_defined ''SUPPORT_SDDISPLAY'' c then put [Lit ''1'']
    else put [Lit ''0''])"

definition para_sdinsert :: "'w printer" where [printer_defs]:
  "para_sdinsert c arg = (put [D (if (sysinfo ''status.mmc'' c) AND (macro_val ''SD_INSERTED'' c) \<noteq> 0 then 1 else 0)])"

definition para_sdformat :: "'w printer" where [printer_defs]:
  "para_sdformat c arg = (put [D (if (sysinfo ''status.mmc'' c) AND (macro_val ''SD_MOUNTED'' c) \<noteq> 0 then 1 else 0)])"

definition para_sdprotect :: "'w printer" where [printer_defs]:
  "para_sdprotect c arg = (put [D (if (sysinfo ''status.mmc'' c) AND (macro_val ''SD_LOCK'' c) \<noteq> 0 then 1 else 0)])"

definition para_sdthispath :: "'w printer" where [printer_defs]:
  "para_sdthispath c arg = (put [Str (sysinfo_str ''sd_status.indir'' c)])"

definition para_sdfppname :: "'w printer" where [printer_defs]:
  "para_sdfppname c arg =
    (if arg_char arg = CHR ''0'' then put [Lit ''10'']
    else if arg_char arg = CHR ''1'' then put [Lit ''20'']
    else if arg_char arg = CHR ''2'' then put [Lit ''50'']
    else if arg_char arg = CHR ''a'' \<or> arg_char arg = NUL then put [Lit ''10;20;50'']
    else fails)"

definition para_sdlock :: "'w printer" where [printer_defs]:
  "para_sdlock c arg = (put [D 1])"

definition para_cfinsert :: "'w printer" where [printer_defs]:
  "para_cfinsert c arg = (put [D 0])"

definition para_defaultcardgethtm :: "'w printer" where [printer_defs]:
  "para_defaultcardgethtm c arg = (put [Str (macro_str ''DEFAULTCARDGETHTM_DEFAULT'' c)])"

definition para_brandurl :: "'w printer" where [printer_defs]:
  "para_brandurl c arg = (put [Str (sysinfo_str ''oem_data.brand_url'' c)])"

definition para_brandname :: "'w printer" where [printer_defs]:
  "para_brandname c arg = (put [Str (sysinfo_str ''oem_data.brand_name'' c)])"

definition para_brandpath :: "'w printer" where [printer_defs]:
  "para_brandpath c arg = (put [Str (sysinfo_str ''oem_data.brand_webdir'' c)])"

definition para_supporttstamp :: "'w printer" where [printer_defs]:
  "para_supporttstamp c arg =
    (if macro_defined ''SUPPORT_TSTAMP'' c then put [Lit ''1'']
    else put [Lit ''0''])"

definition para_supporttstampcolor :: "'w printer" where [printer_defs]:
  "para_supporttstampcolor c arg =
    (if macro_defined ''PLAT_DM365'' c then put [D 0]
    else put [D 1])"

definition para_profile1xsize :: "'w printer" where [printer_defs]:
  "para_profile1xsize c arg =
    (if profile_check c 1 < macro_val ''SPECIAL_PROFILE'' c then fails
    else put [D (ivalue ''PROFILESIZE0_XSIZE'' c)])"

definition para_profile1ysize :: "'w printer" where [printer_defs]:
  "para_profile1ysize c arg =
    (if profile_check c 1 < macro_val ''SPECIAL_PROFILE'' c then fails
    else put [D (ivalue ''PROFILESIZE0_YSIZE'' c)])"

definition para_socketauthority :: "'w printer" where [printer_defs]:
  "para_socketauthority c arg = (put [D (authority (req c))])"

definition para_authoritychange :: "'w printer" where [printer_defs]:
  "para_authoritychange c arg = (put [D 1])"

definition para_supporttwowayaudio :: "'w printer" where [printer_defs]:
  "para_supporttwowayaudio c arg =
    (if macro_defined ''SUPPORT_TWOWAY_AUDIO'' c then put [Lit ''1'']
    else put [Lit ''0''])"

definition para_speaktoken :: "'w printer" where [printer_defs]:
  "para_speaktoken c arg =
    (if sysinfo ''speaktokenid'' c = atoi arg then put [D (sysinfo ''speaktokentime'' c)]
    else put [D 0])"

definition para_supportmotion :: "'w printer" where [printer_defs]:
  "para_supportmotion c arg =
    (if macro_defined ''SUPPORT_MOTION'' c then put [Lit ''1'']
    else put [Lit ''0''])"

definition para_supportmotionmode :: "'w printer" where [printer_defs]:
  "para_supportmotionmode c arg = (put [D (macro_val ''SUPPORT_MOTIONMODE'' c)])"

definition para_supportwireless :: "'w printer" where [printer_defs]:
  "para_supportwireless c arg =
    (if macro_defined ''SUPPORT_WIRELESS'' c then put [Lit ''1'']
    else put [Lit ''0''])"

definition para_serviceftpclient :: "'w printer" where [printer_defs]:
  "para_serviceftpclient c arg =
    (if macro_defined ''CONFIG_BRAND_DLINK'' c then put [D 1]
    else put [D (if sysinfo ''video_type'' c \<noteq> 0 then 1 else 0)])"

definition para_servicesmtpclient :: "'w printer" where [printer_defs]:
  "para_servicesmtpclient c arg =
    (if macro_defined ''CONFIG_BRAND_DLINK'' c then put [D 1]
    else put [D (if sysinfo ''video_type'' c \<noteq> 0 then 1 else 0)])"

definition para_servicepppoe :: "'w printer" where [printer_defs]:
  "para_servicepppoe c arg =
    (if macro_defined ''SERVICE_PPPOE'' c then put [Lit ''1'']
    else put [Lit ''0''])"

definition para_servicesntpclient :: "'w printer" where [printer_defs]:
  "para_servicesntpclient c arg =
    (if macro_defined ''SERVICE_SNTPCLIENT'' c then put [Lit ''1'']
    else put [Lit ''0''])"

definition para_serviceddnsclient :: "'w printer" where [printer_defs]:
  "para_serviceddnsclient c arg =
    (if macro_defined ''SERVICE_DDNSCLIENT'' c then put [Lit ''1'']
    else put [Lit ''0''])"

definition para_supportmaskarea :: "'w printer" where [printer_defs]:
  "para_supportmaskarea c arg =
    (if macro_defined ''SUPPORT_MASKAREA'' c then put [Lit ''1'']
    else put [Lit ''0''])"

definition para_supportlinein :: "'w printer" where [printer_defs]:
  "para_supportlinein c arg =
    (if macro_defined ''SUPPORT_LINEIN'' c then put [Lit ''1'']
    else put [Lit ''0''])"

definition para_supportmic :: "'w printer" where [printer_defs]:
  "para_supportmic c arg =
    (if macro_defined ''SUPPORT_MICROPHONE'' c then put [Lit ''1'']
    else put [Lit ''0''])"

definition para_servicevirtualclient :: "'w printer" where [printer_defs]:
  "para_servicevirtualclient c arg =
    (if macro_defined ''SERVICE_VIRTUALSERVER'' c then put [Lit ''1'']
    else put [Lit ''0''])"

definition para_maxmaskarea :: "'w printer" where [printer_defs]:
  "para_maxmaskarea c arg = (put [D (macro_val ''MAXMASKAREA_DEFAULT'' c)])"

definition para_privacymaskenable :: "'w printer" where [printer_defs]:
  "para_privacymaskenable c arg = (put [D (u8 ''MASKAREAENABLE'' c)])"

definition para_maskareaxlimit :: "'w printer" where [printer_defs]:
  "para_maskareaxlimit c arg =
    (let value = ivalue ''PROFILESIZE0_XSIZE'' c in
    put [D value])"

definition para_maskareaylimit :: "'w printer" where [printer_defs]:
  "para_maskareaylimit c arg =
    (let value = ivalue ''PROFILESIZE0_YSIZE'' c in
    put [D value])"

definition para_maskarea :: "'w printer" where [printer_defs]:
  "para_maskarea c arg =
    (if arg_char arg = CHR ''0'' then put [Str (conf_string ''MASKAREA0_MASKAREA_CMD'' c)]
    else if arg_char arg = CHR ''1'' then put [Str (conf_string ''MASKAREA1_MASKAREA_CMD'' c)]
    else if arg_char arg = CHR ''2'' then put [Str (conf_string ''MASKAREA2_MASKAREA_CMD'' c)]
    else if arg_char arg = CHR ''a'' \<or> arg_char arg = NUL then put [Str (conf_string ''MASKAREA0_MASKAREA_CMD'' c), Lit '';'', Str (conf_string ''MASKAREA1_MASKAREA_CMD'' c), Lit '';'', Str (conf_string ''MASKAREA2_MASKAREA_CMD'' c)]
    else fails)"

definition para_maxchannel :: "'w printer" where [printer_defs]:
  "para_maxchannel c arg = (put [D (macro_val ''MAXCHANNEL_DEFAULT'' c)])"

definition para_supportrs485 :: "'w printer" where [printer_defs]:
  "para_supportrs485 c arg =
    (if macro_defined ''SUPPORT_RS485'' c then put [Lit ''1'']
    else put [Lit ''0''])"

definition para_485enable :: "'w printer" where [printer_defs]:
  "para_485enable c arg = (put [D (u8 ''RS485_ENABLE'' c)])"

definition para_485protocol :: "'w printer" where [printer_defs]:
  "para_485protocol c arg = (put [D (u8 ''RS485_PROTOCOL'' c)])"

definition para_485protocolname :: "'w printer" where [printer_defs]:
  "para_485protocolname c arg =
    (if arg_char arg = CHR ''0'' then put [Lit ''Pelco-D'']
    else if arg_char arg = CHR ''1'' then put [Lit ''Pelco-P'']
    else if arg_char arg = CHR ''a'' \<or> arg_char arg = NUL then put [Lit ''Pelco-D;Pelco-P'']
    else fails)"

definition para_485data :: "'w printer" where [printer_defs]:
  "para_485data c arg = (put [D (u8 ''RS485_DATA'' c)])"

definition para_485stop :: "'w printer" where [printer_defs]:
  "para_485stop c arg = (put [D (u8 ''RS485_STOP'' c)])"

definition para_485parity :: "'w printer" where [printer_defs]:
  "para_485parity c arg = (put [D (u8 ''RS485_PARITY'' c)])"

definition para_uarttypename :: "'w printer" where [printer_defs]:
  "para_uarttypename c arg =
    (if arg_char arg = CHR ''0'' then put [Lit ''8-N-1'']
    else if arg_char arg = CHR ''1'' then put [Lit ''8-E-1'']
    else if arg_char arg = CHR ''2'' then put [Lit ''8-O-1'']
    else if arg_char arg = CHR ''3'' then put [Lit ''7-N-1'']
    else if arg_char arg = CHR ''4'' then put [Lit ''7-E-1'']
    else if arg_char arg = CHR ''5'' then put [Lit ''7-O-1'']
    else if arg_char arg = CHR ''a'' \<or> arg_char arg = NUL then put [Lit ''8-N-1;8-E-1;8-O-1;7-N-1;7-E-1;7-O-1'']
    else fails)"

definition para_485id :: "'w printer" where [printer_defs]:
  "para_485id c arg = (put [D (u8 ''RS485_ID'' c)])"

definition para_485speed :: "'w printer" where [printer_defs]:
  "para_485speed c arg = (put [D (u8 ''RS485_SPEED'' c)])"

definition para_maxptzpresetnum :: "'w printer" where [printer_defs]:
  "para_maxptzpresetnum c arg = (put [D (macro_val ''MAX_PTZPRESET_NUM'' c)])"

definition para_ptzpresetnamelen :: "'w printer" where [printer_defs]:
  "para_ptzpresetnamelen c arg = (put [D (macro_val ''MAX_PTZPRESETNAME_LEN'' c)])"

definition para_supportptzzoom :: "'w printer" where [printer_defs]:
  "para_supportptzzoom c arg =
    (if macro_defined ''SUPPORT_PTZZOOM'' c then put [D 1]
    else put [D 0])"

definition para_supportfan :: "'w printer" where [printer_defs]:
  "para_supportfan c arg =
    (if macro_defined ''SUPPORT_FAN_CONTROL'' c then put [Lit ''1'']
    else put [Lit ''0''])"

definition para_supportrs232 :: "'w printer" where [printer_defs]:
  "para_supportrs232 c arg =
    (if macro_defined ''SUPPORT_RS232'' c then put [Lit ''1'']
    else put [Lit ''0''])"

definition para_layoutnum :: "'w printer" where [printer_defs]:
  "para_layoutnum c arg = (put [D (u8 ''LAYOUTNUM'' c)])"

definition para_support_tstamp_mui :: "'w printer" where [printer_defs]:
  "para_support_tstamp_mui c arg =
    (if macro_defined ''SUPPORT_TSTAMP_MUI'' c then put [Lit ''1'']
    else put [Lit ''0''])"

definition para_mui :: "'w printer" where [printer_defs]:
  "para_mui c arg = (put [D (u8 ''MUI'' c)])"

definition para_supportsequence :: "'w printer" where [printer_defs]:
  "para_supportsequence c arg =
    (if macro_defined ''SUPPORT_SEQUENCE'' c then put [Lit ''1'']
    else put [Lit ''0''])"

definition para_quadmodeselect :: "'w printer" where [printer_defs]:
  "para_quadmodeselect c arg = (put [D (macro_val ''QUADMODESELECT_DEFAULT'' c)])"

definition para_serviceipfilter :: "'w printer" where [printer_defs]:
  "para_serviceipfilter c arg =
    (if macro_defined ''SERVICE_IPFILTER'' c then put [Lit ''1'']
    else put [Lit ''0''])"

definition para_oemflag0 :: "'w printer" where [printer_defs]:
  "para_oemflag0 c arg = (put [D (macro_val ''OEMFLAG0_DEFAULT'' c)])"

definition para_supportdncontrol :: "'w printer" where [printer_defs]:
  "para_supportdncontrol c arg =
    (if macro_defined ''SUPPORT_DNCONTROL'' c then put [Lit ''1'']
    else if macro_defined ''MODEL_VS2415'' c then put [Lit ''1'']
    else put [Lit ''0''])"

definition para_supportavc :: "'w printer" where [printer_defs]:
  "para_supportavc c arg =
    (if macro_defined ''SUPPORT_AVC'' c then put [Lit ''1'']
    else put [Lit ''0''])"

definition para_supportaudio :: "'w printer" where [printer_defs]:
  "para_supportaudio c arg =
    (if macro_defined ''SUPPORT_AUDIO'' c then put [Lit ''1'']
    else put [Lit ''0''])"

definition para_supportaudioinswitch :: "'w printer" where [printer_defs]:
  "para_supportaudioinswitch c arg =
    (if macro_defined ''SUPPORT_AUDIO_SWITCH'' c then put [Lit ''1'']
    else put [Lit ''0''])"

definition para_supportaudioencselect :: "'w printer" where [printer_defs]:
  "para_supportaudioencselect c arg =
    (if macro_defined ''MODEL_VS2415'' c then put [Lit ''1'']
    else put [Lit ''0''])"

definition para_audioinsource :: "'w printer" where [printer_defs]:
  "para_audioinsource c arg = (put [D (u8 ''AUDIOINSOURCESWITCH'' c)])"

definition para_audiotype :: "'w printer" where [printer_defs]:
  "para_audiotype c arg = (put [Str (conf_string ''AUDIO_INFO_CODEC_NAME'' c)])"

definition para_supportptzpage :: "'w printer" where [printer_defs]:
  "para_supportptzpage c arg = (put [D (macro_val ''SUPPORT_PTZPAGE'' c)])"

definition para_ptziconvisible :: "'w printer" where [printer_defs]:
  "para_ptziconvisible c arg = (put [Str ''0x004001C4''])"

definition para_supporteptz :: "'w printer" where [printer_defs]:
  "para_supporteptz c arg =
    (if macro_defined ''SUPPORT_EPTZ'' c then put [Lit ''1'']
    else put [Lit ''0''])"

definition para_dhcpconfig :: "'w printer" where [printer_defs]:
  "para_dhcpconfig c arg =
    (if macro_defined ''DHCP_CONFIG'' c then put [Lit ''1'']
    else put [Str (if ivalue ''DHCPDIPSWITCH'' c \<noteq> 0 then ''0'' else ''1'')])"

definition para_dhcpdipswitch :: "'w printer" where [printer_defs]:
  "para_dhcpdipswitch c arg = (put [D (ivalue ''DHCPDIPSWITCH'' c)])"

definition para_supportdhcpdipswitch :: "'w printer" where [printer_defs]:
  "para_supportdhcpdipswitch c arg =
    (if \<not> macro_defined ''DHCP_CONFIG'' c then (if macro_defined ''CONFIG_BRAND_TYCO'' c then put [Lit ''0'']
    else put [Lit ''1''])
    else put [Lit ''0''])"

definition para_wizardinit :: "'w printer" where [printer_defs]:
  "para_wizardinit c arg = (put [D (ivalue ''WIZARD_INIT'' c)])"

definition para_audioinenable :: "'w printer" where [printer_defs]:
  "para_audioinenable c arg =
    (if macro_defined ''CONFIG_BRAND_DLINK'' c then put [D (of_bool (\<not> (u8 ''AUDIOINENABLE'' c \<noteq> 0)))]
    else put [D (u8 ''AUDIOINENABLE'' c)])"

definition para_audiooutenable :: "'w printer" where [printer_defs]:
  "para_audiooutenable c arg =
    (if macro_defined ''CONFIG_BRAND_DLINK'' c then put [D (of_bool (\<not> (u8 ''AUDIOOUTENABLE'' c \<noteq> 0)))]
    else put [D (u8 ''AUDIOOUTENABLE'' c)])"

definition para_lineingain :: "'w printer" where [printer_defs]:
  "para_lineingain c arg = (put [Str (conf_string ''LINEININPUTGAIN'' c)])"

definition para_externalmicgain :: "'w printer" where [printer_defs]:
  "para_externalmicgain c arg = (put [Str (conf_string ''EXTERNALMICGAIN'' c)])"

definition para_audiooutvolume :: "'w printer" where [printer_defs]:
  "para_audiooutvolume c arg = (put [D (u8 ''AUDIOOUTVOLUME'' c)])"

definition para_audiooutvolumename :: "'w printer" where [printer_defs]:
  "para_audiooutvolumename c arg =
    (if arg_char arg = CHR ''0'' then put [Lit ''1'']
    else if arg_char arg = CHR ''1'' then put [Lit ''2'']
    else if arg_char arg = CHR ''2'' then put [Lit ''3'']
    else if arg_char arg = CHR ''3'' then put [Lit ''4'']
    else if arg_char arg = CHR ''4'' then put [Lit ''5'']
    else if arg_char arg = CHR ''5'' then put [Lit ''6'']
    else if arg_char arg = CHR ''6'' then put [Lit ''7'']
    else if arg_char arg = CHR ''7'' then put [Lit ''8'']
    else if arg_char arg = CHR ''8'' then put [Lit ''9'']
    else if arg_char arg = CHR ''9'' then put [Lit ''10'']
    else if arg_char arg = CHR ''a'' \<or> arg_char arg = NUL then put [Lit ''1;2;3;4;5;6;7;8;9;10'']
    else fails)"

definition para_enabledst :: "'w printer" where [printer_defs]:
  "para_enabledst c arg = (put [D (u8 ''DST_ENABLE'' c)])"

definition para_dstmode :: "'w printer" where [printer_defs]:
  "para_dstmode c arg = (put [D (u8 ''DST_MODE'' c)])"

definition para_dstshift :: "'w printer" where [printer_defs]:
  "para_dstshift c arg = (put [D (u8 ''DST_SHIFT'' c)])"

definition para_dstshiftname :: "'w printer" where [printer_defs]:
  "para_dstshiftname c arg =
    (if arg_char arg = CHR ''0'' then put [Lit ''+2:00'']
    else if arg_char arg = CHR ''1'' then put [Lit ''+1:30'']
    else if arg_char arg = CHR ''2'' then put [Lit ''+1:00'']
    else if arg_char arg = CHR ''3'' then put [Lit ''+0:30'']
    else if arg_char arg = CHR ''4'' then put [Lit ''-0:30'']
    else if arg_char arg = CHR ''5'' then put [Lit ''-1:00'']
    else if arg_char arg = CHR ''6'' then put [Lit ''-1:30'']
    else if arg_char arg = CHR ''7'' then put [Lit ''-2:00'']
    else if arg_char arg = CHR ''a'' \<or> arg_char arg = NUL then put [Lit ''+2:00;+1:30;+1:00;+0:30;-0:30;-1:00;-1:30;-2:00'']
    else fails)"

definition para_dststart :: "'w printer" where [printer_defs]:
  "para_dststart c arg = (put [D (u8 ''DSTSTART_MONTH'' c), Lit '';'', D (u8 ''DSTSTART_WEEK'' c), Lit '';'', D (u8 ''DSTSTART_DAY'' c), Lit '';'', D0 2 (u8 ''DSTSTART_HOUR'' c), Lit '';'', D0 2 (u8 ''DSTSTART_MINUTE'' c)])"

definition para_dstend :: "'w printer" where [printer_defs]:
  "para_dstend c arg = (put [D (u8 ''DSTEND_MONTH'' c), Lit '';'', D (u8 ''DSTEND_WEEK'' c), Lit '';'', D (u8 ''DSTEND_DAY'' c), Lit '';'', D0 2 (u8 ''DSTEND_HOUR'' c), Lit '';'', D0 2 (u8 ''DSTEND_MINUTE'' c)])"

definition para_timeformat :: "'w printer" where [printer_defs]:
  "para_timeformat c arg = (put [D (u8 ''TIME_FORMAT'' c)])"

definition para_pppoeenable :: "'w printer" where [printer_defs]:
  "para_pppoeenable c arg = (put [D (u8 ''PPPOEENABLE'' c)])"

definition para_maxprealarmjpeg :: "'w printer" where [printer_defs]:
  "para_maxprealarmjpeg c arg = (put [Lit ''90''])"

definition para_maxpostalarmjpeg :: "'w printer" where [printer_defs]:
  "para_maxpostalarmjpeg c arg = (put [Lit ''300''])"

definition para_resolutionname :: "'w printer" where [printer_defs]:
  "para_resolutionname c arg =
    (if arg_char arg = CHR ''0'' then put [Lit ''720'']
    else if arg_char arg = CHR ''1'' then put [Lit ''VGA'']
    else if arg_char arg = CHR ''2'' then put [Lit ''CIF'']
    else if arg_char arg = CHR ''3'' then put [Lit ''640x360'']
    else if arg_char arg = CHR ''a'' \<or> arg_char arg = NUL then put [Lit ''720;VGA;CIF;640x360'']
    else fails)"

definition para_videocodecresname :: "'w printer" where [printer_defs]:
  "para_videocodecresname c arg =
    (if arg_char arg = CHR ''0'' then put [Lit ''M4:720,M4:CIF,JPG:352'']
    else if arg_char arg = CHR ''1'' then put [Lit ''M4:VGA,JPG:VGA;M4:720,JPG:VGA'']
    else if arg_char arg = CHR ''2'' then put [Lit ''M4:720,M4:CIF'']
    else if arg_char arg = CHR ''3'' then put [Lit ''M4:720'']
    else if arg_char arg = CHR ''a'' \<or> arg_char arg = NUL then put [Lit ''M4:720,M4:CIF,JPG:352@M4:VGA,JPG:VGA;M4:720,JPG:VGA@M4:720,M4:CIF@M4:720'']
    else fails)"

definition para_videocodecmodename :: "'w printer" where [printer_defs]:
  "para_videocodecmodename c arg =
    (if arg_char arg = CHR ''0'' then put [Lit ''MPEG4+MPEG4+JPEG'']
    else if arg_char arg = CHR ''1'' then put [Lit ''MPEG4+JPEG'']
    else if arg_char arg = CHR ''2'' then put [Lit ''MPEG4+MPEG4'']
    else if arg_char arg = CHR ''3'' then put [Lit ''Single MPEG4'']
    else if arg_char arg = CHR ''a'' \<or> arg_char arg = NUL then put [Lit ''MPEG4+MPEG4+JPEG;MPEG4+JPEG;MPEG4+MPEG4;Single MPEG4'']
    else fails)"

definition para_videoalce :: "'w printer" where [printer_defs]:
  "para_videoalce c arg = (put [D (u8 ''NVIDEOALC'' c)])"

definition para_videocodecmode :: "'w printer" where [printer_defs]:
  "para_videocodecmode c arg = (put [D (u8 ''NVIDEOCODECMODE'' c)])"

definition para_videocodecres :: "'w printer" where [printer_defs]:
  "para_videocodecres c arg = (put [D (u8 ''NVIDEOCODECRES'' c)])"

definition para_mpeg4quality1name :: "'w printer" where [printer_defs]:
  "para_mpeg4quality1name c arg =
    (if arg_char arg = CHR ''0'' then put [Lit ''Highest'']
    else if arg_char arg = CHR ''1'' then put [Lit ''High'']
    else if arg_char arg = CHR ''2'' then put [Lit ''Medium'']
    else if arg_char arg = CHR ''3'' then put [Lit ''Low'']
    else if arg_char arg = CHR ''4'' then put [Lit ''Lowest'']
    else if arg_char arg = CHR ''a'' \<or> arg_char arg = NUL then put [Lit ''Highest;High;Medium;Low;Lowest'']
    else fails)"

definition para_mpeg4quality2name :: "'w printer" where [printer_defs]:
  "para_mpeg4quality2name c arg =
    (if arg_char arg = CHR ''0'' then put [Lit ''Highest'']
    else if arg_char arg = CHR ''1'' then put [Lit ''High'']
    else if arg_char arg = CHR ''2'' then put [Lit ''Medium'']
    else if arg_char arg = CHR ''3'' then put [Lit ''Low'']
    else if arg_char arg = CHR ''4'' then put [Lit ''Lowest'']
    else if arg_char arg = CHR ''a'' \<or> arg_char arg = NUL then put [Lit ''Highest;High;Medium;Low;Lowest'']
    else fails)"

definition para_qualityname :: "'w printer" where [printer_defs]:
  "para_qualityname c arg =
    (if arg_char arg = CHR ''0'' then put [Lit ''Highest'']
    else if arg_char arg = CHR ''1'' then put [Lit ''High'']
    else if arg_char arg = CHR ''2'' then put [Lit ''Medium'']
    else if arg_char arg = CHR ''3'' then put [Lit ''Low'']
    else if arg_char arg = CHR ''4'' then put [Lit ''Lowest'']
    else if arg_char arg = CHR ''a'' \<or> arg_char arg = NUL then put [Lit ''Highest;High;Medium;Low;Lowest'']
    else fails)"

definition para_qualityname2 :: "'w printer" where [printer_defs]:
  "para_qualityname2 c arg =
    (if arg_char arg = CHR ''0'' then put [Lit ''Highest'']
    else if arg_char arg = CHR ''1'' then put [Lit ''High'']
    else if arg_char arg = CHR ''2'' then put [Lit ''Medium'']
    else if arg_char arg = CHR ''3'' then put [Lit ''Low'']
    else if arg_char arg = CHR ''4'' then put [Lit ''Lowest'']
    else if arg_char arg = CHR ''a'' \<or> arg_char arg = NUL then put [Lit ''Highest;High;Medium;Low;Lowest'']
    else fails)"

definition para_motionylimit :: "'w printer" where [printer_defs]:
  "para_motionylimit c arg = (put [Lit ''720''])"

definition para_ratecontrol :: "'w printer" where [printer_defs]:
  "para_ratecontrol c arg = (put [D (u8 ''NRATECONTROL'' c)])"

definition para_ratecontrolname :: "'w printer" where [printer_defs]:
  "para_ratecontrolname c arg =
    (if arg_char arg = CHR ''0'' then put [Lit ''VBR'']
    else if arg_char arg = CHR ''1'' then put [Lit ''CVBR'']
    else if arg_char arg = CHR ''2'' then put [Lit ''CBR'']
    else if arg_char arg = CHR ''a'' \<or> arg_char arg = NUL then put [Lit ''VBR;CVBR;CBR'']
    else fails)"

definition para_quadmodeselectname :: "'w printer" where [printer_defs]:
  "para_quadmodeselectname c arg = (put [Lit ''30 FPS''])"

definition para_videocodecname :: "'w printer" where [printer_defs]:
  "para_videocodecname c arg =
    (if arg_char arg = CHR ''0'' then put [Lit ''single codec'']
    else if arg_char arg = CHR ''1'' then put [Lit ''dual codec'']
    else if arg_char arg = CHR ''2'' then put [Lit ''triple codec'']
    else if arg_char arg = CHR ''a'' \<or> arg_char arg = NUL then put [Lit ''single codec;dual codec;triple codec'']
    else fails)"

definition para_videocodec :: "'w printer" where [printer_defs]:
  "para_videocodec c arg = (put [D (u8 ''NVIDEOCODEC'' c)])"

definition para_videomodename :: "'w printer" where [printer_defs]:
  "para_videomodename c arg =
    (if arg_char arg = CHR ''0'' then put [Lit ''JPEG'']
    else if arg_char arg = CHR ''1'' then put [Lit ''MPEG'']
    else if arg_char arg = CHR ''2'' then put [Lit ''JPEG+MPEG'']
    else if arg_char arg = CHR ''3'' then put [Lit ''MPEG+MPEG'']
    else if arg_char arg = CHR ''4'' then put [Lit ''JPEG+MPEG+MPEG'']
    else if arg_char arg = CHR ''a'' \<or> arg_char arg = NUL then put [Lit ''JPEG;MPEG;JPEG+MPEG;MPEG+MPEG;JPEG+MPEG+MPEG'']
    else fails)"

definition para_supportonvif :: "'w printer" where [printer_defs]:
  "para_supportonvif c arg =
    (if macro_defined ''SUPPORT_ONVIF'' c then put [Lit ''1'']
    else put [Lit ''0''])"

definition para_videomode :: "'w printer" where [printer_defs]:
  "para_videomode c arg = (put [D (sysinfo ''video_type'' c)])"

definition para_flickless :: "'w printer" where [printer_defs]:
  "para_flickless c arg = (put [D (sysinfo ''video_type'' c)])"

definition para_powerline :: "'w printer" where [printer_defs]:
  "para_powerline c arg = (put [Str (if sysinfo ''video_type'' c \<noteq> 0 then ''50'' else ''60'')])"

definition para_supportflickless :: "'w printer" where [printer_defs]:
  "para_supportflickless c arg =
    (if macro_defined ''SUPPORT_FLICKLESS'' c then put [Lit ''1'']
    else put [Lit ''0''])"

definition para_supportpowerline :: "'w printer" where [printer_defs]:
  "para_supportpowerline c arg =
    (if macro_defined ''SUPPORT_FLICKLESS'' c then put [Lit ''1'']
    else put [Lit ''0''])"

definition para_supportagc :: "'w printer" where [printer_defs]:
  "para_supportagc c arg =
    (if macro_defined ''SUPPORT_AGC'' c then put [Lit ''1'']
    else put [Lit ''0''])"

definition para_supportagcctrl :: "'w printer" where [printer_defs]:
  "para_supportagcctrl c arg =
    (if macro_defined ''SUPPORT_AGCCTRL'' c then put [Lit ''1'']
    else put [Lit ''0''])"

definition para_supportaes :: "'w printer" where [printer_defs]:
  "para_supportaes c arg =
    (if macro_defined ''SUPPORT_DC_IRIS_DIP_SW'' c then put [Lit ''1'']
    else put [Lit ''0''])"

definition para_supportvideoalc :: "'w printer" where [printer_defs]:
  "para_supportvideoalc c arg =
    (if macro_defined ''SUPPORT_VIDEOALC'' c then put [Lit ''1'']
    else put [Lit ''0''])"

definition para_fluorescent :: "'w printer" where [printer_defs]:
  "para_fluorescent c arg = (put [D (u8 ''NFLUORESCENT'' c)])"

definition para_fluorescentname :: "'w printer" where [printer_defs]:
  "para_fluorescentname c arg =
    (if arg_char arg = CHR ''0'' then put [Lit ''60Hz'']
    else if arg_char arg = CHR ''1'' then put [Lit ''50Hz'']
    else if arg_char arg = CHR ''a'' \<or> arg_char arg = NUL then put [Lit ''60Hz;50Hz'']
    else fails)"

definition para_mirror :: "'w printer" where [printer_defs]:
  "para_mirror c arg =
    (if macro_defined ''MIRROR_FLIP_INV'' c then put [D (of_bool (\<not> (u8 ''NMIRROR'' c \<noteq> 0)))]
    else put [D (u8 ''NMIRROR'' c)])"

definition para_gammaname :: "'w printer" where [printer_defs]:
  "para_gammaname c arg =
    (if arg_char arg = CHR ''0'' then put [Lit ''Gamma1'']
    else if arg_char arg = CHR ''1'' then put [Lit ''Gamma2'']
    else if arg_char arg = CHR ''2'' then put [Lit ''Gamma3'']
    else if arg_char arg = CHR ''3'' then put [Lit ''Gamma4'']
    else if arg_char arg = CHR ''4'' then put [Lit ''WDR Off'']
    else if arg_char arg = CHR ''5'' then put [Lit ''Auto1'']
    else if arg_char arg = CHR ''6'' then put [Lit ''Auto2'']
    else if arg_char arg = CHR ''a'' \<or> arg_char arg = NUL then put [Lit ''Gamma1;Gamma2;Gamma3;Gamma4;WDR Off;Auto1;Auto2'']
    else fails)"

definition para_supportgamma :: "'w printer" where [printer_defs]:
  "para_supportgamma c arg =
    (if macro_defined ''SUPPORT_GAMMA'' c then put [Lit ''1'']
    else put [Lit ''0''])"

definition para_flipmirrorname :: "'w printer" where [printer_defs]:
  "para_flipmirrorname c arg =
    (if macro_defined ''MODEL_LC7311'' c then (if arg_char arg = CHR ''0'' then put [Lit ''Normal'']
    else if arg_char arg = CHR ''1'' then put [Lit ''Flip'']
    else if arg_char arg = CHR ''a'' \<or> arg_char arg = NUL then put [Lit ''Normal;Flip'']
    else fails)
    else if arg_char arg = CHR ''0'' then put [Lit ''Normal'']
    else if arg_char arg = CHR ''1'' then put [Lit ''Horizontal'']
    else if arg_char arg = CHR ''2'' then put [Lit ''Vertical'']
    else if arg_char arg = CHR ''3'' then put [Lit ''BOTH'']
    else if arg_char arg = CHR ''a'' \<or> arg_char arg = NUL then put [Lit ''Normal;Horizontal;Vertical;Both'']
    else fails)"

definition para_gamma :: "'w printer" where [printer_defs]:
  "para_gamma c arg = (put [D (u8 ''NGAMMA'' c)])"

definition para_flip :: "'w printer" where [printer_defs]:
  "para_flip c arg =
    (if macro_defined ''MIRROR_FLIP_INV'' c then put [D (of_bool (\<not> (u8 ''NFLIP'' c \<noteq> 0)))]
    else put [D (u8 ''NFLIP'' c)])"

definition para_antiflicker :: "'w printer" where [printer_defs]:
  "para_antiflicker c arg =
    (if macro_defined ''SUPPORT_ANTIFLICKER'' c then put [D (u8 ''ANTIFLICKER'' c)]
    else fails)"

definition para_aeshutter :: "'w printer" where [printer_defs]:
  "para_aeshutter c arg = (put [D (u8 ''AESHUTTER'' c)])"

definition para_supportflip :: "'w printer" where [printer_defs]:
  "para_supportflip c arg =
    (if macro_defined ''SUPPORT_FLIP'' c then put [Lit ''1'']
    else put [Lit ''0''])"

definition para_upnpenable :: "'w printer" where [printer_defs]:
  "para_upnpenable c arg = (put [D (u8 ''UPNPENABLE'' c)])"

definition para_upnpcenabl :: "'w printer" where [printer_defs]:
  "para_upnpcenabl c arg = (put [D (u8 ''UPNPCENABLE'' c)])"

definition para_upnpforwardingport :: "'w printer" where [printer_defs]:
  "para_upnpforwardingport c arg = (put [D (ivalue ''UPNPCEXTPORT'' c)])"

definition para_tstampcolor :: "'w printer" where [printer_defs]:
  "para_tstampcolor c arg = (put [D (u8 ''TSTAMPCOLOR'' c)])"

definition para_pppoeactive :: "'w printer" where [printer_defs]:
  "para_pppoeactive c arg = (put [D (sysinfo ''pppoe_active'' c)])"

definition para_pppoeaccount :: "'w printer" where [printer_defs]:
  "para_pppoeaccount c arg = (put [Str (conf_string ''PPPOEACCOUNT'' c)])"

definition para_pppoepwd :: "'w printer" where [printer_defs]:
  "para_pppoepwd c arg = (put [Str (conf_string ''PPPOEPASSWORD'' c)])"

definition para_maxpppoeusrlen :: "'w printer" where [printer_defs]:
  "para_maxpppoeusrlen c arg = (put [D (macro_val ''MAX_PPPOE_ID_LEN'' c)])"

definition para_maxpppoepwdlen :: "'w printer" where [printer_defs]:
  "para_maxpppoepwdlen c arg = (put [D (macro_val ''MAX_PPPOE_PWD_LEN'' c)])"

definition para_tstamploc :: "'w printer" where [printer_defs]:
  "para_tstamploc c arg = (put [D (u8 ''TSTAMPLOCATION'' c)])"

definition para_blc :: "'w printer" where [printer_defs]:
  "para_blc c arg = (put [D (u8 ''NBACKLIGHTCONTROL'' c)])"

definition para_kelvin :: "'w printer" where [printer_defs]:
  "para_kelvin c arg = (put [Lit ''0''])"

definition para_supporthue :: "'w printer" where [printer_defs]:
  "para_supporthue c arg =
    (if macro_defined ''SUPPORT_HUE'' c then put [Lit ''1'']
    else put [Lit ''0''])"

definition para_supportfluorescent :: "'w printer" where [printer_defs]:
  "para_supportfluorescent c arg =
    (if macro_defined ''SUPPORT_FLUORESCENT'' c then put [Lit ''1'']
    else put [Lit ''0''])"

definition para_supportmirror :: "'w printer" where [printer_defs]:
  "para_supportmirror c arg =
    (if macro_defined ''SUPPORT_MIRROR'' c then put [Lit ''1'']
    else put [Lit ''0''])"

definition para_supportkelvin :: "'w printer" where [printer_defs]:
  "para_supportkelvin c arg =
    (if macro_defined ''SUPPORT_KELVIN'' c then put [Lit ''1'']
    else put [Lit ''0''])"

definition para_senseup :: "'w printer" where [printer_defs]:
  "para_senseup c arg = (put [Lit ''1''])"

definition para_supportsenseup :: "'w printer" where [printer_defs]:
  "para_supportsenseup c arg =
    (if macro_defined ''SUPPORT_SENSEUP'' c then put [Lit ''1'']
    else put [Lit ''0''])"

definition para_supportmaxagcgain :: "'w printer" where [printer_defs]:
  "para_supportmaxagcgain c arg =
    (if macro_defined ''SUPPORT_MAXAGCGAIN'' c then put [Lit ''1'']
    else put [Lit ''0''])"

definition para_supportblcmode :: "'w printer" where [printer_defs]:
  "para_supportblcmode c arg =
    (if macro_defined ''SUPPORT_BLCMODE'' c then put [Lit ''1'']
    else put [Lit ''0''])"

definition para_blcmode :: "'w printer" where [printer_defs]:
  "para_blcmode c arg = (put [D (u8 ''NBACKLIGHTCONTROL'' c)])"

definition para_supporthspeedshutter :: "'w printer" where [printer_defs]:
  "para_supporthspeedshutter c arg =
    (if macro_defined ''SUPPORT_HSPEEDSHUTTER'' c then put [Lit ''1'']
    else put [Lit ''0''])"

definition para_hspeedshutter :: "'w printer" where [printer_defs]:
  "para_hspeedshutter c arg = (put [D (u8 ''NHSPEEDSHUTTER'' c)])"

definition para_awb :: "'w printer" where [printer_defs]:
  "para_awb c arg = (put [Str (conf_string ''NWHITEBALANCE'' c)])"

definition para_rgain :: "'w printer" where [printer_defs]:
  "para_rgain c arg = (put [D (ivalue ''RGAIN'' c)])"

definition para_bgain :: "'w printer" where [printer_defs]:
  "para_bgain c arg = (put [D (ivalue ''BGAIN'' c)])"

definition para_tvcable :: "'w printer" where [printer_defs]:
  "para_tvcable c arg = (put [D (u8 ''NTVCABLE'' c)])"

definition para_binning :: "'w printer" where [printer_defs]:
  "para_binning c arg = (put [D (u8 ''NBINNING'' c)])"

definition para_maxagcgainname :: "'w printer" where [printer_defs]:
  "para_maxagcgainname c arg =
    (if arg_char arg = CHR ''0'' then put [Lit ''30dB'']
    else if arg_char arg = CHR ''1'' then put [Lit ''24dB'']
    else if arg_char arg = CHR ''2'' then put [Lit ''16dB'']
    else if arg_char arg = CHR ''3'' then put [Lit ''8dB'']
    else if arg_char arg = CHR ''a'' \<or> arg_char arg = NUL then put [Lit ''30dB;24dB;16dB;8dB'']
    else fails)"

definition para_maxagcgain :: "'w printer" where [printer_defs]:
  "para_maxagcgain c arg = (put [Str (conf_string ''NMAXAGCGAIN'' c)])"

definition para_agcctrl :: "'w printer" where [printer_defs]:
  "para_agcctrl c arg = (put [D (u8 ''AGCCTRL'' c)])"

definition para_daynightname :: "'w printer" where [printer_defs]:
  "para_daynightname c arg =
    (if arg_char arg = CHR ''0'' then put [Lit ''night'']
    else if arg_char arg = CHR ''1'' then put [Lit ''day'']
    else if arg_char arg = CHR ''a'' \<or> arg_char arg = NUL then put [Lit ''night;day'']
    else fails)"

definition para_daynight :: "'w printer" where [printer_defs]:
  "para_daynight c arg = (put [D (u8 ''NDAYNIGHT'' c)])"

definition para_backlight :: "'w printer" where [printer_defs]:
  "para_backlight c arg = (put [D (u8 ''NBACKLIGHT'' c)])"

definition para_brightness :: "'w printer" where [printer_defs]:
  "para_brightness c arg =
    (if macro_defined ''IMAGE_8_ORDER'' c then put [D (u8 ''NBRIGHTNESS'' c div 29)]
    else put [D (u8 ''NBRIGHTNESS'' c)])"

definition para_minbrightness :: "'w printer" where [printer_defs]:
  "para_minbrightness c arg = (put [D (macro_val ''MIN_BRIGHTNESS'' c)])"

definition para_maxbrightness :: "'w printer" where [printer_defs]:
  "para_maxbrightness c arg =
    (if macro_defined ''IMAGE_8_ORDER'' c then put [D 8]
    else put [D (macro_val ''MAX_BRIGHTNESS'' c)])"

definition para_minsharpness :: "'w printer" where [printer_defs]:
  "para_minsharpness c arg = (put [D (macro_val ''MIN_SHARPNESS'' c)])"

definition para_maxsharpness :: "'w printer" where [printer_defs]:
  "para_maxsharpness c arg =
    (if macro_defined ''IMAGE_8_ORDER'' c then put [D 8]
    else put [D (macro_val ''MAX_SHARPNESS'' c)])"

definition para_supportexposuretime :: "'w printer" where [printer_defs]:
  "para_supportexposuretime c arg =
    (if macro_defined ''SUPPORT_EXPOSURETIME'' c then put [Lit ''1'']
    else put [Lit ''0''])"

definition para_supportexposuretimemode :: "'w printer" where [printer_defs]:
  "para_supportexposuretimemode c arg =
    (if macro_defined ''SUPPORT_EXPOSURETIME'' c then put [D (macro_val ''EXPOSURETYPE'' c)]
    else put [Lit ''0''])"

definition para_exposuretime :: "'w printer" where [printer_defs]:
  "para_exposuretime c arg =
    (if macro_val ''EXPOSURETYPE'' c = macro_val ''EXPOSUREMODE_SELECT'' c then put [Str (conf_string ''EXPOSURE_MODE'' c)]
    else if macro_val ''EXPOSURETYPE'' c = macro_val ''EXPOSUREMODE_SELECT'' c then put [Str (conf_string ''A_EXPOSURE_TIME'' c)]
    else if macro_val ''EXPOSURETYPE'' c = macro_val ''EXPOSURETIME_SELECT'' c then put [Str (conf_string ''A_EXPOSURE_TIME'' c)]
    else fails)"

definition para_meteringmethod :: "'w printer" where [printer_defs]:
  "para_meteringmethod c arg =
    (if ivalue ''METERINGMETHOD'' c = macro_val ''METERING_AVERAGE'' c then put [Str ''Average'']
    else if ivalue ''METERINGMETHOD'' c = macro_val ''METERING_CENTER_WEIGHTED'' c then put [Str ''Center-weighted'']
    else if ivalue ''METERINGMETHOD'' c = macro_val ''METERING_SPOT'' c then put [Str ''Spot'']
    else fails)"

definition para_meteringmethodname :: "'w printer" where [printer_defs]:
  "para_meteringmethodname c arg =
    (if arg_char arg = CHR ''0'' then put [Lit ''Center-weighted'']
    else if arg_char arg = CHR ''1'' then put [Lit ''Spot'']
    else if arg_char arg = CHR ''a'' \<or> arg_char arg = NUL then put [Lit ''Center-weighted;Spot'']
    else fails)"

definition para_conflicexposure :: "'w printer" where [printer_defs]:
  "para_conflicexposure c arg =
    (if macro_defined ''SENSOR_USE_MT9V136'' c then put [Lit ''1'']
    else put [Lit ''0''])"

definition para_wdrenable :: "'w printer" where [printer_defs]:
  "para_wdrenable c arg = (put [D (u8 ''WDR_EN'' c)])"

definition para_wdrlevel :: "'w printer" where [printer_defs]:
  "para_wdrlevel c arg = (put [D (u8 ''WDR_LEVEL'' c)])"

definition para_minwdrlevel :: "'w printer" where [printer_defs]:
  "para_minwdrlevel c arg = (put [D (macro_val ''MIN_WDRLEVEL'' c)])"

definition para_maxwdrlevel :: "'w printer" where [printer_defs]:
  "para_maxwdrlevel c arg = (put [D (macro_val ''MAX_WDRLEVEL'' c)])"

definition para_supportwdrlevel :: "'w printer" where [printer_defs]:
  "para_supportwdrlevel c arg =
    (if macro_defined ''SUPPORT_WDRLEVEL'' c then put [Lit ''1'']
    else if macro_defined ''SUPPORT_VISCA'' c then (if sysinfo ''vsptz.wdr'' c \<noteq> 0 then put [Lit ''1'']
    else put [Lit ''0''])
    else put [Lit ''0''])"

definition para_supportdenoise :: "'w printer" where [printer_defs]:
  "para_supportdenoise c arg =
    (if macro_defined ''SUPPORT_DENOISE'' c then put [Lit ''1'']
    else put [Lit ''0''])"

definition para_denoise :: "'w printer" where [printer_defs]:
  "para_denoise c arg = (put [D (u8 ''NDENOISE'' c)])"

definition para_mindenoise :: "'w printer" where [printer_defs]:
  "para_mindenoise c arg = (put [D (macro_val ''MIN_DENOISE'' c)])"

definition para_maxdenoise :: "'w printer" where [printer_defs]:
  "para_maxdenoise c arg = (put [D (macro_val ''MAX_DENOISE'' c)])"

definition para_supportevcomp :: "'w printer" where [printer_defs]:
  "para_supportevcomp c arg =
    (if macro_defined ''SUPPORT_EVCOMP'' c then put [Lit ''1'']
    else put [Lit ''0''])"

definition para_evcomp :: "'w printer" where [printer_defs]:
  "para_evcomp c arg = (put [D (u8 ''NEVCOMP'' c)])"

definition para_minevcomp :: "'w printer" where [printer_defs]:
  "para_minevcomp c arg = (put [D (macro_val ''MIN_EVCOMP'' c)])"

definition para_maxevcomp :: "'w printer" where [printer_defs]:
  "para_maxevcomp c arg = (put [D (macro_val ''MAX_EVCOMP'' c)])"

definition para_supportdre :: "'w printer" where [printer_defs]:
  "para_supportdre c arg =
    (if macro_defined ''SUPPORT_DREMODE'' c then put [Lit ''1'']
    else put [Lit ''0''])"

definition para_supportmeteringmethod :: "'w printer" where [printer_defs]:
  "para_supportmeteringmethod c arg =
    (if macro_defined ''SUPPORT_METERINGMETHOD'' c then put [Lit ''1'']
    else put [Lit ''0''])"

definition para_supportcapturepriority :: "'w printer" where [printer_defs]:
  "para_supportcapturepriority c arg =
    (if macro_defined ''SUPPORT_CAPTUREPRIORITY'' c then put [Lit ''1'']
    else put [Lit ''0''])"

definition para_dremode :: "'w printer" where [printer_defs]:
  "para_dremode c arg = (put [D (u8 ''NDREMODE'' c)])"

definition para_dremodename :: "'w printer" where [printer_defs]:
  "para_dremodename c arg =
    (if macro_defined ''SUPPORT_DREMODE'' c then (if arg_char arg = CHR ''0'' then put [Lit ''None'']
    else if arg_char arg = CHR ''1'' then put [Lit ''WDR'']
    else if arg_char arg = CHR ''a'' \<or> arg_char arg = NUL then put [Lit ''None;WDR'']
    else fails)
    else fails)"

definition para_mincontrast :: "'w printer" where [printer_defs]:
  "para_mincontrast c arg = (put [D (macro_val ''MIN_CONTRAST'' c)])"

definition para_maxcontrast :: "'w printer" where [printer_defs]:
  "para_maxcontrast c arg =
    (if macro_defined ''IMAGE_8_ORDER'' c then put [D 8]
    else put [D (macro_val ''MAX_CONTRAST'' c)])"

definition para_minsaturation :: "'w printer" where [printer_defs]:
  "para_minsaturation c arg = (put [D (macro_val ''MIN_SATURATION'' c)])"

definition para_maxsaturation :: "'w printer" where [printer_defs]:
  "para_maxsaturation c arg = (put [D (macro_val ''MAX_SATURATION'' c)])"

definition para_contrast :: "'w printer" where [printer_defs]:
  "para_contrast c arg =
    (if macro_defined ''IMAGE_8_ORDER'' c then put [D (u8 ''NCONTRAST'' c div 29)]
    else put [D (u8 ''NCONTRAST'' c)])"

definition para_hue :: "'w printer" where [printer_defs]:
  "para_hue c arg = (put [D (u8 ''NHUE'' c)])"

definition para_saturation :: "'w printer" where [printer_defs]:
  "para_saturation c arg = (put [D (u8 ''NSATURATION'' c)])"

definition para_stream4xsize :: "'w printer" where [printer_defs]:
  "para_stream4xsize c arg =
    (if profile_check c 4 < macro_val ''SPECIAL_PROFILE'' c then fails
    else if profile_check c 4 = macro_val ''SPECIAL_PROFILE'' c then put [D (ivalue ''PROFILESIZE3_XSIZE'' c)]
    else put [D (ivalue ''PROFILESIZE3_XSIZE'' c)])"

definition para_stream4ysize :: "'w printer" where [printer_defs]:
  "para_stream4ysize c arg =
    (if profile_check c 4 < macro_val ''SPECIAL_PROFILE'' c then fails
    else if profile_check c 4 = macro_val ''SPECIAL_PROFILE'' c then put [D (ivalue ''PROFILESIZE3_YSIZE'' c)]
    else put [D (ivalue ''PROFILESIZE3_YSIZE'' c)])"

definition para_stream1name :: "'w printer" where [printer_defs]:
  "para_stream1name c arg =
    (if profile_check c 1 < macro_val ''SPECIAL_PROFILE'' c then fails
    else put [Lit ''Profile-1('', D (ivalue ''PROFILESIZE0_XSIZE'' c), Lit ''x'', D (ivalue ''PROFILESIZE0_YSIZE'' c), Lit '')''])"

definition para_stream2name :: "'w printer" where [printer_defs]:
  "para_stream2name c arg =
    (if profile_check c 2 < macro_val ''SPECIAL_PROFILE'' c then fails
    else put [Lit ''Profile-2('', D (ivalue ''PROFILESIZE1_XSIZE'' c), Lit ''x'', D (ivalue ''PROFILESIZE1_YSIZE'' c), Lit '')''])"

definition para_stream3name :: "'w printer" where [printer_defs]:
  "para_stream3name c arg =
    (if profile_check c 3 < macro_val ''SPECIAL_PROFILE'' c then fails
    else put [Lit ''Profile-3('', D (ivalue ''PROFILESIZE2_XSIZE'' c), Lit ''x'', D (ivalue ''PROFILESIZE2_YSIZE'' c), Lit '')''])"

definition para_sharpness :: "'w printer" where [printer_defs]:
  "para_sharpness c arg =
    (if macro_defined ''IMAGE_8_ORDER'' c then put [D (u8 ''NSHARPNESS'' c div 29)]
    else put [D (u8 ''NSHARPNESS'' c)])"

definition para_timeformatname :: "'w printer" where [printer_defs]:
  "para_timeformatname c arg =
    (if arg_char arg = CHR ''0'' then put [Lit ''YYYY/MM/DD'']
    else if arg_char arg = CHR ''1'' then put [Lit ''MM/DD/YYYY'']
    else if arg_char arg = CHR ''2'' then put [Lit ''DD/MM/YYYY'']
    else if arg_char arg = CHR ''a'' \<or> arg_char arg = NUL then put [Lit ''YYYY/MM/DD;MM/DD/YYYY;DD/MM/YYYY'']
    else fails)"

definition para_maxnamelen :: "'w printer" where [printer_defs]:
  "para_maxnamelen c arg = (put [D (macro_val ''MAX_USER_SIZE'' c)])"

definition para_maxpwdlen :: "'w printer" where [printer_defs]:
  "para_maxpwdlen c arg = (put [D (macro_val ''MAX_PASS_SIZE'' c)])"

definition para_authorityadmin :: "'w printer" where [printer_defs]:
  "para_authorityadmin c arg = (put [D (macro_val ''AUTHORITY_ADMIN'' c)])"

definition para_authorityoperator :: "'w printer" where [printer_defs]:
  "para_authorityoperator c arg = (put [D (macro_val ''AUTHORITY_OPERATOR'' c)])"

definition para_authorityviewer :: "'w printer" where [printer_defs]:
  "para_authorityviewer c arg = (put [D (macro_val ''AUTHORITY_VIEWER'' c)])"

definition para_minnamelen :: "'w printer" where [printer_defs]:
  "para_minnamelen c arg = (put [D 4])"

subsection \<open>What they return\<close>

definition picture_printers :: "'w printer list" where
  "picture_printers = [
    para_sntpip, para_sntpipname, para_sntptimezone, para_sntpfrequency, para_dhcpenable, para_httpport, para_defaulthttpport,
    para_title, para_http_streamname1, para_http_streamname2, para_http_streamname3, para_http_streamname4, para_rtsp_streamname1,
    para_rtsp_streamname2, para_rtsp_streamname3, para_rtsp_streamname4, para_maxtitlelen, para_liveresolution, para_livequality,
    para_livequality2, para_maxfqdnlen, para_minnetport, para_maxnetport, para_maxftpuserlen, para_maxftppwdlen, para_maxftppathlen,
    para_maxsmtpuser, para_maxsmtppwd, para_maxsmtpsender, para_maxemailuserlen, para_supportmpeg4, para_format, para_imagesource,
    para_devicename, para_sddisplay, para_sdinsert, para_sdformat, para_sdprotect, para_sdthispath, para_sdfppname, para_sdlock,
    para_cfinsert, para_defaultcardgethtm, para_brandurl, para_brandname, para_brandpath, para_supporttstamp, para_supporttstampcolor,
    para_profile1xsize, para_profile1ysize, para_socketauthority, para_authoritychange, para_supporttwowayaudio, para_speaktoken,
    para_supportmotion, para_supportmotionmode, para_supportwireless, para_serviceftpclient, para_servicesmtpclient,
    para_servicepppoe, para_servicesntpclient, para_serviceddnsclient, para_supportmaskarea, para_supportlinein, para_supportmic,
    para_servicevirtualclient, para_maxmaskarea, para_privacymaskenable, para_maskareaxlimit, para_maskareaylimit, para_maskarea,
    para_maxchannel, para_supportrs485, para_485enable, para_485protocol, para_485protocolname, para_485data, para_485stop,
    para_485parity, para_uarttypename, para_485id, para_485speed, para_maxptzpresetnum, para_ptzpresetnamelen, para_supportptzzoom,
    para_supportfan, para_supportrs232, para_layoutnum, para_support_tstamp_mui, para_mui, para_supportsequence, para_quadmodeselect,
    para_serviceipfilter, para_oemflag0, para_supportdncontrol, para_supportavc, para_supportaudio, para_supportaudioinswitch,
    para_supportaudioencselect, para_audioinsource, para_audiotype, para_supportptzpage, para_ptziconvisible, para_supporteptz,
    para_dhcpconfig, para_dhcpdipswitch, para_supportdhcpdipswitch, para_wizardinit, para_audioinenable, para_audiooutenable,
    para_lineingain, para_externalmicgain, para_audiooutvolume, para_audiooutvolumename, para_enabledst, para_dstmode, para_dstshift,
    para_dstshiftname, para_dststart, para_dstend, para_timeformat, para_pppoeenable, para_maxprealarmjpeg, para_maxpostalarmjpeg,
    para_resolutionname, para_videocodecresname, para_videocodecmodename, para_videoalce, para_videocodecmode, para_videocodecres,
    para_mpeg4quality1name, para_mpeg4quality2name, para_qualityname, para_qualityname2, para_motionylimit, para_ratecontrol,
    para_ratecontrolname, para_quadmodeselectname, para_videocodecname, para_videocodec, para_videomodename, para_supportonvif,
    para_videomode, para_flickless, para_powerline, para_supportflickless, para_supportpowerline, para_supportagc,
    para_supportagcctrl, para_supportaes, para_supportvideoalc, para_fluorescent, para_fluorescentname, para_mirror, para_gammaname,
    para_supportgamma, para_flipmirrorname, para_gamma, para_flip, para_antiflicker, para_aeshutter, para_supportflip,
    para_upnpenable, para_upnpcenabl, para_upnpforwardingport, para_tstampcolor, para_pppoeactive, para_pppoeaccount, para_pppoepwd,
    para_maxpppoeusrlen, para_maxpppoepwdlen, para_tstamploc, para_blc, para_kelvin, para_supporthue, para_supportfluorescent,
    para_supportmirror, para_supportkelvin, para_senseup, para_supportsenseup, para_supportmaxagcgain, para_supportblcmode,
    para_blcmode, para_supporthspeedshutter, para_hspeedshutter, para_awb, para_rgain, para_bgain, para_tvcable, para_binning,
    para_maxagcgainname, para_maxagcgain, para_agcctrl, para_daynightname, para_daynight, para_backlight, para_brightness,
    para_minbrightness, para_maxbrightness, para_minsharpness, para_maxsharpness, para_supportexposuretime,
    para_supportexposuretimemode, para_exposuretime, para_meteringmethod, para_meteringmethodname, para_conflicexposure,
    para_wdrenable, para_wdrlevel, para_minwdrlevel, para_maxwdrlevel, para_supportwdrlevel, para_supportdenoise, para_denoise,
    para_mindenoise, para_maxdenoise, para_supportevcomp, para_evcomp, para_minevcomp, para_maxevcomp, para_supportdre,
    para_supportmeteringmethod, para_supportcapturepriority, para_dremode, para_dremodename, para_mincontrast, para_maxcontrast,
    para_minsaturation, para_maxsaturation, para_contrast, para_hue, para_saturation, para_stream4xsize, para_stream4ysize,
    para_stream1name, para_stream2name, para_stream3name, para_sharpness, para_timeformatname, para_maxnamelen, para_maxpwdlen,
    para_authorityadmin, para_authorityoperator, para_authorityviewer, para_minnamelen]"

lemma picture_printers_fit: "list_all (printer_fits S) picture_printers"
  unfolding picture_printers_def list.pred_inject printer_fits_iff printer_defs by (intro conjI allI impI printing TrueI; simp)

end
