(* ===== verification/Boa_Web_Device.thy ===== *)
theory Boa_Web_Device
  imports Boa_Web
begin

unbundle bit_operations_syntax

text \<open>
  The printers of \<^verbatim>\<open>web_translate.c\<close>, second part: motion, inputs and outputs, accounts, streams, lens.
\<close>

subsection \<open>The printers\<close>

definition para_privacywindowsize :: "'w printer" where [printer_defs]:
  "para_privacywindowsize c arg =
    (if macro_defined ''SUPPORT_PROFILE_NUMBER'' c then put [Str (conf_string ''PROFILE_CONFIG3_EPTZWINDOWSIZE'' c)]
    else put [Str (conf_string ''PROFILE_CONFIG3_EPTZWINDOWSIZE'' c)])"

definition para_motionwindowsize :: "'w printer" where [printer_defs]:
  "para_motionwindowsize c arg =
    (if macro_defined ''SUPPORT_PROFILE_NUMBER'' c then put [Str (conf_string ''PROFILE_CONFIG3_EPTZWINDOWSIZE'' c)]
    else put [Str (conf_string ''PROFILE_CONFIG3_EPTZWINDOWSIZE'' c)])"

definition para_profile1coordinate :: "'w printer" where [printer_defs]:
  "para_profile1coordinate c arg =
    (if profile_check c 1 < macro_val ''SPECIAL_PROFILE'' c then fails
    else put [Str (conf_string ''PROFILE_CONFIG0_EPTZCOORDINATE'' c)])"

definition para_profile2coordinate :: "'w printer" where [printer_defs]:
  "para_profile2coordinate c arg =
    (if profile_check c 2 < macro_val ''SPECIAL_PROFILE'' c then fails
    else put [Str (conf_string ''PROFILE_CONFIG1_EPTZCOORDINATE'' c)])"

definition para_profile3coordinate :: "'w printer" where [printer_defs]:
  "para_profile3coordinate c arg =
    (if profile_check c 3 < macro_val ''SPECIAL_PROFILE'' c then fails
    else put [Str (conf_string ''PROFILE_CONFIG2_EPTZCOORDINATE'' c)])"

definition para_motionblock :: "'w printer" where [printer_defs]:
  "para_motionblock c arg = (put [Str (conf_string ''MOTION_CONFIG_MOTIONBLOCK'' c)])"

definition para_motionenable :: "'w printer" where [printer_defs]:
  "para_motionenable c arg = (put [D (u8 ''MOTION_CONFIG_MOTIONENABLE'' c)])"

definition para_motiondrawenable :: "'w printer" where [printer_defs]:
  "para_motiondrawenable c arg = (put [D (u8 ''MOTION_CONFIG_MOTION_DRAW_ENABLE'' c)])"

definition para_motionlevel :: "'w printer" where [printer_defs]:
  "para_motionlevel c arg = (put [D 0])"

definition para_motionpercentage :: "'w printer" where [printer_defs]:
  "para_motionpercentage c arg = (put [D (u8 ''MOTION_CONFIG_MOTIONPERCENTAGE'' c)])"

definition para_motionsensitivity :: "'w printer" where [printer_defs]:
  "para_motionsensitivity c arg = (put [D (u8 ''MOTION_CONFIG_MOTIONLEVEL'' c)])"

definition para_motionname :: "'w printer" where [printer_defs]:
  "para_motionname c arg =
    (if arg_char arg = CHR ''0'' then put [Lit ''Lowest'']
    else if arg_char arg = CHR ''1'' then put [Lit ''Low'']
    else if arg_char arg = CHR ''2'' then put [Lit ''Medium'']
    else if arg_char arg = CHR ''3'' then put [Lit ''High'']
    else if arg_char arg = CHR ''4'' then put [Lit ''Highest'']
    else if arg_char arg = CHR ''a'' \<or> arg_char arg = NUL then put [Lit ''Lowest;Low;Medium;High;Highest'']
    else fails)"

definition para_motioncenable :: "'w printer" where [printer_defs]:
  "para_motioncenable c arg = (put [D (u8 ''MOTION_CONFIG_MOTIONCENABLE'' c)])"

definition para_ipncptz :: "'w printer" where [printer_defs]:
  "para_ipncptz c arg = ((0, []))"

definition para_motioncvalue :: "'w printer" where [printer_defs]:
  "para_motioncvalue c arg = (put [D (u16 ''MOTION_CONFIG_MOTIONCVALUE'' c)])"

definition para_minmotionthreshold :: "'w printer" where [printer_defs]:
  "para_minmotionthreshold c arg = (put [Lit ''1''])"

definition para_maxmotionthreshold :: "'w printer" where [printer_defs]:
  "para_maxmotionthreshold c arg = (put [Lit ''99''])"

definition para_motionxlimit :: "'w printer" where [printer_defs]:
  "para_motionxlimit c arg = (put [D 1280])"

definition para_motionxblock :: "'w printer" where [printer_defs]:
  "para_motionxblock c arg = (put [D 12])"

definition para_motionyblock :: "'w printer" where [printer_defs]:
  "para_motionyblock c arg = (put [D 8])"

definition para_supportstream1 :: "'w printer" where [printer_defs]:
  "para_supportstream1 c arg =
    (if macro_val ''MAX_PROFILE_NUM'' c \<ge> 1 then (if macro_defined ''SUPPORT_PROFILE_NUMBER'' c then (if ivalue ''CONFIG_MAX_PROFILE_NUM'' c \<ge> 1 then put [Lit ''1'']
    else put [Lit ''0''])
    else put [Lit ''1''])
    else put [Lit ''0''])"

definition para_supportstream2 :: "'w printer" where [printer_defs]:
  "para_supportstream2 c arg =
    (if macro_val ''MAX_PROFILE_NUM'' c \<ge> 2 then (if macro_defined ''SUPPORT_PROFILE_NUMBER'' c then (if ivalue ''CONFIG_MAX_PROFILE_NUM'' c \<ge> 2 then put [Lit ''1'']
    else put [Lit ''0''])
    else put [Lit ''1''])
    else put [Lit ''0''])"

definition para_supportstream3 :: "'w printer" where [printer_defs]:
  "para_supportstream3 c arg =
    (if macro_val ''MAX_PROFILE_NUM'' c \<ge> 3 then (if macro_defined ''SUPPORT_PROFILE_NUMBER'' c then (if ivalue ''CONFIG_MAX_PROFILE_NUM'' c \<ge> 3 then put [Lit ''1'']
    else put [Lit ''0''])
    else put [Lit ''1''])
    else put [Lit ''0''])"

definition para_supportstream4 :: "'w printer" where [printer_defs]:
  "para_supportstream4 c arg =
    (if macro_val ''MAX_PROFILE_NUM'' c \<ge> 4 then (if macro_defined ''SUPPORT_PROFILE_NUMBER'' c then (if ivalue ''CONFIG_MAX_PROFILE_NUM'' c \<ge> 4 then put [Lit ''1'']
    else put [Lit ''0''])
    else put [Lit ''1''])
    else put [Lit ''0''])"

definition para_webprofilenum :: "'w printer" where [printer_defs]:
  "para_webprofilenum c arg =
    (if macro_defined ''SUPPORT_PROFILE_NUMBER'' c then put [D (ivalue ''CONFIG_MAX_WEB_PROFILE_NUM'' c)]
    else put [D (macro_val ''MAX_WEB_PROFILE_NUM'' c)])"

definition para_waitserver :: "'w printer" where [printer_defs]:
  "para_waitserver c arg = (put [Lit ''0''])"

definition para_supportcolorkiller :: "'w printer" where [printer_defs]:
  "para_supportcolorkiller c arg =
    (if macro_defined ''SUPPORT_COLORKILLER'' c then put [Lit ''1'']
    else put [Lit ''0''])"

definition para_supportAWB :: "'w printer" where [printer_defs]:
  "para_supportAWB c arg =
    (if macro_defined ''SUPPORT_AWB'' c then put [Lit ''1'']
    else put [Lit ''0''])"

definition para_supportbrightness :: "'w printer" where [printer_defs]:
  "para_supportbrightness c arg =
    (if macro_defined ''SUPPORT_BRIGHTNESS'' c then put [Lit ''1'']
    else put [Lit ''0''])"

definition para_supportcontrast :: "'w printer" where [printer_defs]:
  "para_supportcontrast c arg =
    (if macro_defined ''SUPPORT_CONTRAST'' c then put [Lit ''1'']
    else put [Lit ''0''])"

definition para_supportsaturation :: "'w printer" where [printer_defs]:
  "para_supportsaturation c arg =
    (if macro_defined ''SUPPORT_SATURATION'' c then put [Lit ''1'']
    else put [Lit ''0''])"

definition para_supportbacklight :: "'w printer" where [printer_defs]:
  "para_supportbacklight c arg =
    (if macro_defined ''SUPPORT_BACKLIGHT'' c then put [Lit ''1'']
    else put [Lit ''0''])"

definition para_supportsharpness :: "'w printer" where [printer_defs]:
  "para_supportsharpness c arg =
    (if macro_defined ''SUPPORT_SHARPNESS'' c then put [Lit ''1'']
    else put [Lit ''0''])"

definition para_supportgiooutalwayson :: "'w printer" where [printer_defs]:
  "para_supportgiooutalwayson c arg = (put [D 1])"

definition para_supportgioin :: "'w printer" where [printer_defs]:
  "para_supportgioin c arg = (put [D (macro_val ''GIOIN_NUM'' c)])"

definition para_supportgioout :: "'w printer" where [printer_defs]:
  "para_supportgioout c arg = (put [D (macro_val ''GIOOUT_NUM'' c)])"

definition para_gioinname :: "'w printer" where [printer_defs]:
  "para_gioinname c arg =
    (if macro_defined ''IO_USE_LOGIC'' c then (if arg_char arg = CHR ''0'' then put [Lit ''Low'']
    else if arg_char arg = CHR ''1'' then put [Lit ''High'']
    else if arg_char arg = CHR ''a'' \<or> arg_char arg = NUL then put [Lit ''Low;High'']
    else fails)
    else if arg_char arg = CHR ''0'' then put [Lit ''N.O.'']
    else if arg_char arg = CHR ''1'' then put [Lit ''N.C.'']
    else if arg_char arg = CHR ''a'' \<or> arg_char arg = NUL then put [Lit ''N.O.;N.C.'']
    else fails)"

definition para_giooutname :: "'w printer" where [printer_defs]:
  "para_giooutname c arg =
    (if macro_defined ''IO_USE_LOGIC'' c then (if arg_char arg = CHR ''0'' then put [Lit ''Low'']
    else if arg_char arg = CHR ''1'' then put [Lit ''High'']
    else if arg_char arg = CHR ''a'' \<or> arg_char arg = NUL then put [Lit ''Low;High'']
    else fails)
    else if arg_char arg = CHR ''0'' then put [Lit ''N.O.'']
    else if arg_char arg = CHR ''1'' then put [Lit ''N.C.'']
    else if arg_char arg = CHR ''a'' \<or> arg_char arg = NUL then put [Lit ''N.O.;N.C.'']
    else fails)"

definition para_softwareversion :: "'w printer" where [printer_defs]:
  "para_softwareversion c arg = (put [D (macro_val ''APP_VERSION_MAJOR'' c), Lit ''.'', D0 2 (macro_val ''APP_VERSION_MINOR'' c)])"

definition para_tstampenable :: "'w printer" where [printer_defs]:
  "para_tstampenable c arg = (put [D (u8 ''TSTAMPENABLE'' c)])"

definition para_tstampcolorname :: "'w printer" where [printer_defs]:
  "para_tstampcolorname c arg =
    (if arg_char arg = CHR ''0'' then put [Lit ''WHITE'']
    else if arg_char arg = CHR ''1'' then put [Lit ''BLACK'']
    else if arg_char arg = CHR ''2'' then put [Lit ''GREEN'']
    else if arg_char arg = CHR ''3'' then put [Lit ''BLUE'']
    else if arg_char arg = CHR ''4'' then put [Lit ''ORANGE'']
    else if arg_char arg = CHR ''a'' \<or> arg_char arg = NUL then put [Lit ''WHITE;BLACK;GREEN;BLUE;ORANGE'']
    else fails)"

definition para_pppoemodename :: "'w printer" where [printer_defs]:
  "para_pppoemodename c arg =
    (if arg_char arg = CHR ''0'' then put [Lit ''OFF'']
    else if arg_char arg = CHR ''1'' then put [Lit ''ON'']
    else if arg_char arg = CHR ''2'' then put [Lit ''TEST'']
    else if arg_char arg = CHR ''a'' \<or> arg_char arg = NUL then put [Lit ''OFF;ON;TEST'']
    else fails)"

definition para_ddnsenable :: "'w printer" where [printer_defs]:
  "para_ddnsenable c arg = (put [D (u8 ''DDNS_ENABLE'' c)])"

definition para_ddnstypename :: "'w printer" where [printer_defs]:
  "para_ddnstypename c arg =
    (if macro_defined ''CONFIG_BRAND_DLINK'' c then (if arg_char arg = CHR ''0'' then put [Lit '';www.dlinkddns.com'']
    else if arg_char arg = CHR ''1'' then put [Lit '';www.DynDNS.org'']
    else if arg_char arg = CHR ''a'' \<or> arg_char arg = NUL then put [Lit '';www.dlinkddns.com;www.DynDNS.org'']
    else fails)
    else if arg_char arg = CHR ''0'' then put [Lit '';www.DynDNS.org'']
    else if arg_char arg = CHR ''a'' \<or> arg_char arg = NUL then put [Lit '';www.DynDNS.org'']
    else fails)"

definition para_ddnsinterval :: "'w printer" where [printer_defs]:
  "para_ddnsinterval c arg = (put [D (u32 ''A_DDNS_INTERVAL'' c)])"

definition para_maxddnsusrlen :: "'w printer" where [printer_defs]:
  "para_maxddnsusrlen c arg = (put [D (macro_val ''MAX_DDNS_ID_LEN'' c)])"

definition para_maxddnspwdlen :: "'w printer" where [printer_defs]:
  "para_maxddnspwdlen c arg = (put [D (macro_val ''MAX_DDNS_PWD_LEN'' c)])"

definition para_ddnshostname :: "'w printer" where [printer_defs]:
  "para_ddnshostname c arg = (put [Str (conf_string ''DDNS_HOSTNAME'' c)])"

definition para_ipfilterenable :: "'w printer" where [printer_defs]:
  "para_ipfilterenable c arg = (put [D (u8 ''IPFILTERENABLE'' c)])"

definition para_ipfilterdefaultpolicy :: "'w printer" where [printer_defs]:
  "para_ipfilterdefaultpolicy c arg = (put [D (u8 ''IPFILTERDEFAULTPOLICY'' c)])"

definition para_maxipfilterpolicy :: "'w printer" where [printer_defs]:
  "para_maxipfilterpolicy c arg = (put [D (macro_val ''IPFILTER_MAX_POLICY'' c)])"

definition para_ipfilterpolicy :: "'w printer" where [printer_defs]:
  "para_ipfilterpolicy c arg =
    (if \<not> macro_defined ''SUPPORT_NEW_IPFILTER'' c then (if arg_char arg = CHR ''0'' then put [Str (if ivalue ''IP_FILTER0_POLICY'' c = (- 1) then [] else (if ivalue ''IP_FILTER0_POLICY'' c = 0 then ''deny'' else ''allow'')), Str (if ivalue ''IP_FILTER0_POLICY'' c = (- 1) then [] else '':''), Str (if ivalue ''IP_FILTER0_POLICY'' c = (- 1) then [] else conf_string ''IP_FILTER0_IP'' c)]
    else if arg_char arg = CHR ''1'' then put [Str (if ivalue ''IP_FILTER1_POLICY'' c = (- 1) then [] else (if ivalue ''IP_FILTER1_POLICY'' c = 0 then ''deny'' else ''allow'')), Str (if ivalue ''IP_FILTER1_POLICY'' c = (- 1) then [] else '':''), Str (if ivalue ''IP_FILTER1_POLICY'' c = (- 1) then [] else conf_string ''IP_FILTER1_IP'' c)]
    else if arg_char arg = CHR ''2'' then put [Str (if ivalue ''IP_FILTER2_POLICY'' c = (- 1) then [] else (if ivalue ''IP_FILTER2_POLICY'' c = 0 then ''deny'' else ''allow'')), Str (if ivalue ''IP_FILTER2_POLICY'' c = (- 1) then [] else '':''), Str (if ivalue ''IP_FILTER2_POLICY'' c = (- 1) then [] else conf_string ''IP_FILTER2_IP'' c)]
    else if arg_char arg = CHR ''3'' then put [Str (if ivalue ''IP_FILTER3_POLICY'' c = (- 1) then [] else (if ivalue ''IP_FILTER3_POLICY'' c = 0 then ''deny'' else ''allow'')), Str (if ivalue ''IP_FILTER3_POLICY'' c = (- 1) then [] else '':''), Str (if ivalue ''IP_FILTER3_POLICY'' c = (- 1) then [] else conf_string ''IP_FILTER3_IP'' c)]
    else if arg_char arg = CHR ''4'' then put [Str (if ivalue ''IP_FILTER4_POLICY'' c = (- 1) then [] else (if ivalue ''IP_FILTER4_POLICY'' c = 0 then ''deny'' else ''allow'')), Str (if ivalue ''IP_FILTER4_POLICY'' c = (- 1) then [] else '':''), Str (if ivalue ''IP_FILTER4_POLICY'' c = (- 1) then [] else conf_string ''IP_FILTER4_IP'' c)]
    else if arg_char arg = CHR ''5'' then put [Str (if ivalue ''IP_FILTER5_POLICY'' c = (- 1) then [] else (if ivalue ''IP_FILTER5_POLICY'' c = 0 then ''deny'' else ''allow'')), Str (if ivalue ''IP_FILTER5_POLICY'' c = (- 1) then [] else '':''), Str (if ivalue ''IP_FILTER5_POLICY'' c = (- 1) then [] else conf_string ''IP_FILTER5_IP'' c)]
    else if arg_char arg = CHR ''6'' then put [Str (if ivalue ''IP_FILTER6_POLICY'' c = (- 1) then [] else (if ivalue ''IP_FILTER6_POLICY'' c = 0 then ''deny'' else ''allow'')), Str (if ivalue ''IP_FILTER6_POLICY'' c = (- 1) then [] else '':''), Str (if ivalue ''IP_FILTER6_POLICY'' c = (- 1) then [] else conf_string ''IP_FILTER6_IP'' c)]
    else if arg_char arg = CHR ''a'' \<or> arg_char arg = NUL then put [Lit '' '']
    else fails)
    else fails)"

definition para_maxquotainbound :: "'w printer" where [printer_defs]:
  "para_maxquotainbound c arg = (put [D (macro_val ''MAX_TC_IN'' c)])"

definition para_maxquotaoutbound :: "'w printer" where [printer_defs]:
  "para_maxquotaoutbound c arg = (put [D (macro_val ''MAX_TC_OUT'' c)])"

definition para_quotainbound :: "'w printer" where [printer_defs]:
  "para_quotainbound c arg = (put [D (u32 ''QUOTAINBOUND'' c)])"

definition para_quotaoutbound :: "'w printer" where [printer_defs]:
  "para_quotaoutbound c arg = (put [D (u32 ''QUOTAOUTBOUND'' c)])"

definition para_virtaulprotocol :: "'w printer" where [printer_defs]:
  "para_virtaulprotocol c arg =
    (if arg_char arg = CHR ''0'' then put [Lit ''TCP'']
    else if arg_char arg = CHR ''1'' then put [Lit ''UDP'']
    else if arg_char arg = CHR ''a'' \<or> arg_char arg = NUL then put [Lit '' '']
    else fails)"

definition para_virtaulenable :: "'w printer" where [printer_defs]:
  "para_virtaulenable c arg = (put [D (u8 ''LVS_ENABLE'' c)])"

definition para_ddnsaccount :: "'w printer" where [printer_defs]:
  "para_ddnsaccount c arg = (put [Str (conf_string ''DDNS_ACCOUNT'' c)])"

definition para_ddnspassword :: "'w printer" where [printer_defs]:
  "para_ddnspassword c arg = (put [Str (conf_string ''DDNS_PASSWORD'' c)])"

definition para_testtimeout :: "'w printer" where [printer_defs]:
  "para_testtimeout c arg =
    (if macro_defined ''SUPPORT_EVENT_2G'' c then put [Lit ''20'']
    else fails)"

definition para_replytest :: "'w printer" where [printer_defs]:
  "para_replytest c arg =
    (if macro_defined ''SUPPORT_EVENT_2G'' c then put [D (sysinfo ''testserver'' c)]
    else fails)"

definition para_sensorcropresolution :: "'w printer" where [printer_defs]:
  "para_sensorcropresolution c arg = (put [Str (conf_string ''SENSOR_CROP_RES'' c)])"

definition para_sensorstartx :: "'w printer" where [printer_defs]:
  "para_sensorstartx c arg = (put [D (u32 ''SENSOR_CROP_STARTX'' c)])"

definition para_sensorstarty :: "'w printer" where [printer_defs]:
  "para_sensorstarty c arg = (put [D (u32 ''SENSOR_CROP_STARTY'' c)])"

definition para_minoutvolume :: "'w printer" where [printer_defs]:
  "para_minoutvolume c arg = (put [D (u8 ''AUDIOOUTVOLUME'' c)])"

definition para_powerout :: "'w printer" where [printer_defs]:
  "para_powerout c arg = (put [D (u8 ''POWEROUT'' c)])"

definition para_powerschedule :: "'w printer" where [printer_defs]:
  "para_powerschedule c arg = (put [D0 6 (u32 ''POWERSCHEDULE_START'' c), D0 6 (u32 ''POWERSCHEDULE_END'' c)])"

definition para_tstamplocname :: "'w printer" where [printer_defs]:
  "para_tstamplocname c arg =
    (if arg_char arg = CHR ''0'' then put [Lit ''UPPER LEFT'']
    else if arg_char arg = CHR ''1'' then put [Lit ''UPPER RIGHT'']
    else if arg_char arg = CHR ''2'' then put [Lit ''BOTTOM LEFT'']
    else if arg_char arg = CHR ''3'' then put [Lit ''BOTTOM RIGHT'']
    else if arg_char arg = CHR ''a'' \<or> arg_char arg = NUL then put [Lit ''UPPER LEFT;UPPER RIGHT;BOTTOM LEFT;BOTTOM RIGHT'']
    else fails)"

definition para_tstampformat :: "'w printer" where [printer_defs]:
  "para_tstampformat c arg = (put [D (u8 ''TSTAMPFORMAT'' c)])"

definition para_tstamplabel :: "'w printer" where [printer_defs]:
  "para_tstamplabel c arg = (put [Str (conf_string ''TSTAMPLABEL'' c)])"

definition para_audioinmax :: "'w printer" where [printer_defs]:
  "para_audioinmax c arg = (put [D 4])"

definition para_audioinvolume :: "'w printer" where [printer_defs]:
  "para_audioinvolume c arg = (put [D (u8 ''AUDIOINVOLUME'' c)])"

definition para_dncontrolmode :: "'w printer" where [printer_defs]:
  "para_dncontrolmode c arg = (put [D (u8 ''DNC_MODE'' c)])"

definition para_dncontrolscheduleex :: "'w printer" where [printer_defs]:
  "para_dncontrolscheduleex c arg = (put [D0 6 (u32 ''DNC_SCHEDULE_START'' c), D0 6 (u32 ''DNC_SCHEDULE_END'' c)])"

definition para_dncontrolsen :: "'w printer" where [printer_defs]:
  "para_dncontrolsen c arg = (put [D (u8 ''DNC_SENSITIVITY'' c)])"

definition para_dncontrold2n :: "'w printer" where [printer_defs]:
  "para_dncontrold2n c arg = (put [D (u8 ''DNC_D2N'' c)])"

definition para_dncontroln2d :: "'w printer" where [printer_defs]:
  "para_dncontroln2d c arg = (put [D (u8 ''DNC_N2D'' c)])"

definition para_dncontrold2nmin :: "'w printer" where [printer_defs]:
  "para_dncontrold2nmin c arg = (put [D (macro_val ''DNC_D2N_MIN'' c)])"

definition para_dncontrold2nmax :: "'w printer" where [printer_defs]:
  "para_dncontrold2nmax c arg = (put [D (macro_val ''DNC_D2N_MAX'' c)])"

definition para_dncontroln2dmin :: "'w printer" where [printer_defs]:
  "para_dncontroln2dmin c arg = (put [D (macro_val ''DNC_N2D_MIN'' c)])"

definition para_dncontroln2dmax :: "'w printer" where [printer_defs]:
  "para_dncontroln2dmax c arg = (put [D (macro_val ''DNC_N2D_MAX'' c)])"

definition para_dncontrolsenname :: "'w printer" where [printer_defs]:
  "para_dncontrolsenname c arg =
    (if arg_char arg = CHR ''0'' then put [Lit ''Lowest'']
    else if arg_char arg = CHR ''1'' then put [Lit ''Low'']
    else if arg_char arg = CHR ''2'' then put [Lit ''Medium'']
    else if arg_char arg = CHR ''3'' then put [Lit ''High'']
    else if arg_char arg = CHR ''4'' then put [Lit ''Highest'']
    else if arg_char arg = CHR ''a'' \<or> arg_char arg = NUL then put [Lit ''Lowest;Low;Medium;High;Highest'']
    else fails)"

definition para_dncontrolmodename :: "'w printer" where [printer_defs]:
  "para_dncontrolmodename c arg =
    (if macro_defined ''CONFIG_BRAND_DLINK'' c then (if arg_char arg = CHR ''0'' then put [Lit ''On Color'']
    else if arg_char arg = CHR ''1'' then put [Lit ''On Mono'']
    else if arg_char arg = CHR ''2'' then put [Lit ''Auto'']
    else if arg_char arg = CHR ''a'' \<or> arg_char arg = NUL then put [Lit ''On Color;On Mono;Auto'']
    else fails)
    else if arg_char arg = CHR ''0'' then put [Lit ''Auto'']
    else if arg_char arg = CHR ''1'' then put [Lit ''Day mode'']
    else if arg_char arg = CHR ''2'' then put [Lit ''Night mode'']
    else if arg_char arg = CHR ''3'' then put [Lit ''Schedule'']
    else if arg_char arg = CHR ''a'' \<or> arg_char arg = NUL then put [Lit ''Auto;Day mode;Night mode;Schedule'']
    else fails)"

definition para_httpsenable :: "'w printer" where [printer_defs]:
  "para_httpsenable c arg = (put [D (u8 ''HTTPS_ENABLE'' c)])"

definition para_httpscountry :: "'w printer" where [printer_defs]:
  "para_httpscountry c arg = (put [Str (conf_string ''HTTPS_COUNTRY_NAME'' c)])"

definition para_maxhttpscountry :: "'w printer" where [printer_defs]:
  "para_maxhttpscountry c arg = (put [D (macro_val ''COUNTRY_NAME_MAX'' c)])"

definition para_httpsstate :: "'w printer" where [printer_defs]:
  "para_httpsstate c arg = (put [Str (conf_string ''HTTPS_STATE_NAME'' c)])"

definition para_maxhttpsstate :: "'w printer" where [printer_defs]:
  "para_maxhttpsstate c arg = (put [D (macro_val ''STATE_NAME_MAX'' c)])"

definition para_httpslocality :: "'w printer" where [printer_defs]:
  "para_httpslocality c arg = (put [Str (conf_string ''HTTPS_LOCALITY_NAME'' c)])"

definition para_maxhttpslocality :: "'w printer" where [printer_defs]:
  "para_maxhttpslocality c arg = (put [D (macro_val ''LOCALITY_NAME_MAX'' c)])"

definition para_httpsorganization :: "'w printer" where [printer_defs]:
  "para_httpsorganization c arg = (put [Str (conf_string ''HTTPS_ORGANIZATION_NAME'' c)])"

definition para_maxhttpsorganization :: "'w printer" where [printer_defs]:
  "para_maxhttpsorganization c arg = (put [D (macro_val ''ORGANIZATION_NAME_MAX'' c)])"

definition para_httpsorgunit :: "'w printer" where [printer_defs]:
  "para_httpsorgunit c arg = (put [Str (conf_string ''HTTPS_ORGANIZATION_UNIT'' c)])"

definition para_maxhttpsorgunit :: "'w printer" where [printer_defs]:
  "para_maxhttpsorgunit c arg = (put [D (macro_val ''ORGANIZATION_UNIT_MAX'' c)])"

definition para_httpscommon :: "'w printer" where [printer_defs]:
  "para_httpscommon c arg = (put [Str (conf_string ''HTTPS_COMMON_NAME'' c)])"

definition para_maxhttpscommon :: "'w printer" where [printer_defs]:
  "para_maxhttpscommon c arg = (put [D (macro_val ''COMMON_NAME_MAX'' c)])"

definition para_httpsvaliddays :: "'w printer" where [printer_defs]:
  "para_httpsvaliddays c arg = (put [D (u32 ''HTTPS_VALIDITY_DAYS'' c)])"

definition para_httpsport :: "'w printer" where [printer_defs]:
  "para_httpsport c arg = (put [D (u16 ''HTTPS_PORT'' c)])"

definition para_defaulthttpsport :: "'w printer" where [printer_defs]:
  "para_defaulthttpsport c arg = (put [D (macro_val ''HTTPS_PORT_DEFAULT'' c)])"

definition para_wifi_support :: "'w printer" where [printer_defs]:
  "para_wifi_support c arg =
    (if macro_defined ''SUPPORT_WIFI'' c then put [Lit ''1'']
    else put [Lit ''0''])"

definition para_wifi_enable :: "'w printer" where [printer_defs]:
  "para_wifi_enable c arg = (put [U (u32 ''WIFI_ENABLE'' c)])"

definition para_wifi_mode :: "'w printer" where [printer_defs]:
  "para_wifi_mode c arg = (put [U (u32 ''WIFI_MODE'' c)])"

definition para_wifi_channel :: "'w printer" where [printer_defs]:
  "para_wifi_channel c arg = (put [U (u32 ''WIFI_CHANNEL'' c)])"

definition para_wifi_auth :: "'w printer" where [printer_defs]:
  "para_wifi_auth c arg = (put [U (u32 ''WIFI_AUTH'' c)])"

definition para_wifi_encrypt :: "'w printer" where [printer_defs]:
  "para_wifi_encrypt c arg = (put [U (u32 ''WIFI_ENCRYPT'' c)])"

definition para_wep_index :: "'w printer" where [printer_defs]:
  "para_wep_index c arg = (put [U (u32 ''WIFI_WEP_INDEX'' c)])"

definition para_wifi_sitelist :: "'w printer" where [printer_defs]:
  "para_wifi_sitelist c arg = (put [Lit ''===SSID List===''])"

definition para_wifi_modename :: "'w printer" where [printer_defs]:
  "para_wifi_modename c arg = (put [Lit ''Infrastructure;Ad-Hoc''])"

definition para_wifi_minchannel :: "'w printer" where [printer_defs]:
  "para_wifi_minchannel c arg = (put [D (sysinfo ''wifi_minchannel'' c)])"

definition para_wifi_maxchannel :: "'w printer" where [printer_defs]:
  "para_wifi_maxchannel c arg = (put [D (sysinfo ''wifi_maxchannel'' c)])"

definition para_wifi_channelname :: "'w printer" where [printer_defs]:
  "para_wifi_channelname c arg =
    (if sysinfo ''wifi_maxchannel'' c = 11 then put [Lit ''1;2;3;4;5;6;7;8;9;10;11'']
    else if sysinfo ''wifi_maxchannel'' c = 13 then put [Lit ''1;2;3;4;5;6;7;8;9;10;11;12;13'']
    else put [Lit ''1;2;3;4;5;6;7;8;9;10;11;12;13;14''])"

definition para_wifi_authname :: "'w printer" where [printer_defs]:
  "para_wifi_authname c arg = (put [Lit ''Open;Shared;WPA-PSK;WPA2-PSK''])"

definition para_wifi_encryptname :: "'w printer" where [printer_defs]:
  "para_wifi_encryptname c arg = (put [Lit ''Disable;WEP;TKIP,AES''])"

definition para_support_bonjour :: "'w printer" where [printer_defs]:
  "para_support_bonjour c arg =
    (if macro_defined ''CONFIG_BRAND_DLINK'' c then put [D 1]
    else put [D 0])"

definition para_supportaf :: "'w printer" where [printer_defs]:
  "para_supportaf c arg =
    (if macro_defined ''SUPPORT_AF'' c then put [D 1]
    else put [D 0])"

definition para_supportantiflicker :: "'w printer" where [printer_defs]:
  "para_supportantiflicker c arg =
    (if macro_defined ''SUPPORT_ANTIFLICKER'' c then put [D 1]
    else put [D 0])"

definition para_OEMModel :: "'w printer" where [printer_defs]:
  "para_OEMModel c arg = (put [Str (sysinfo_str ''oem_data.model_name'' c)])"

definition para_OEMMaker :: "'w printer" where [printer_defs]:
  "para_OEMMaker c arg = (put [Str (sysinfo_str ''oem_data.company_name'' c)])"

definition para_support_netlost :: "'w printer" where [printer_defs]:
  "para_support_netlost c arg =
    (if macro_defined ''SUPPORT_NETWOK_LOST'' c then put [Lit ''1'']
    else put [Lit ''0''])"

definition para_support_videolost :: "'w printer" where [printer_defs]:
  "para_support_videolost c arg =
    (if macro_defined ''SUPPORT_VIDEO_LOST'' c then put [Lit ''1'']
    else put [Lit ''0''])"

definition para_support_pir :: "'w printer" where [printer_defs]:
  "para_support_pir c arg =
    (if macro_defined ''SUPPORT_PIR'' c then put [Lit ''1'']
    else put [Lit ''0''])"

definition para_m_pic_pre_max :: "'w printer" where [printer_defs]:
  "para_m_pic_pre_max c arg =
    (if macro_defined ''SUPPORT_EVENT_2G'' c then put [D (macro_val ''MAX_E2G_PIC_PRE'' c)]
    else put [Lit ''0''])"

definition para_m_pic_pre_min :: "'w printer" where [printer_defs]:
  "para_m_pic_pre_min c arg = (put [Lit ''0''])"

definition para_m_pic_post_max :: "'w printer" where [printer_defs]:
  "para_m_pic_post_max c arg =
    (if macro_defined ''SUPPORT_EVENT_2G'' c then put [D (macro_val ''MAX_E2G_PIC_POST'' c)]
    else put [Lit ''0''])"

definition para_m_pic_post_min :: "'w printer" where [printer_defs]:
  "para_m_pic_post_min c arg = (put [Lit ''0''])"

definition para_m_vid_pre_max :: "'w printer" where [printer_defs]:
  "para_m_vid_pre_max c arg =
    (if macro_defined ''SUPPORT_EVENT_2G'' c then put [D (macro_val ''MAX_E2G_VID_PRE'' c)]
    else put [Lit ''0''])"

definition para_m_vid_pre_min :: "'w printer" where [printer_defs]:
  "para_m_vid_pre_min c arg = (put [Lit ''0''])"

definition para_m_vid_post_max :: "'w printer" where [printer_defs]:
  "para_m_vid_post_max c arg =
    (if macro_defined ''SUPPORT_EVENT_2G'' c then put [D (macro_val ''MAX_E2G_VID_DUR'' c)]
    else put [Lit ''0''])"

definition para_m_vid_post_min :: "'w printer" where [printer_defs]:
  "para_m_vid_post_min c arg =
    (if macro_defined ''SUPPORT_EVENT_2G'' c then put [Lit ''1'']
    else put [Lit ''0''])"

definition para_m_vid_maxsize :: "'w printer" where [printer_defs]:
  "para_m_vid_maxsize c arg =
    (if macro_defined ''SUPPORT_EVENT_2G'' c then put [D (macro_val ''MAX_E2G_VID_FILESIZE'' c)]
    else put [Lit ''0''])"

definition para_m_vid_minsize :: "'w printer" where [printer_defs]:
  "para_m_vid_minsize c arg =
    (if macro_defined ''SUPPORT_EVENT_2G'' c then put [D (macro_val ''MIN_E2G_VID_FILESIZE'' c)]
    else put [Lit ''0''])"

definition para_r_vid_maxsize :: "'w printer" where [printer_defs]:
  "para_r_vid_maxsize c arg =
    (if macro_defined ''SUPPORT_EVENT_2G'' c then put [D (macro_val ''MAX_E2G_REC_FILESIZE'' c)]
    else put [Lit ''0''])"

definition para_r_vid_minsize :: "'w printer" where [printer_defs]:
  "para_r_vid_minsize c arg =
    (if macro_defined ''SUPPORT_EVENT_2G'' c then put [D (macro_val ''MIN_E2G_REC_FILESIZE'' c)]
    else put [Lit ''0''])"

definition para_rewrite_maxsize :: "'w printer" where [printer_defs]:
  "para_rewrite_maxsize c arg =
    (if macro_defined ''SUPPORT_EVENT_2G'' c then put [D (macro_val ''MAX_E2G_REWRITE'' c)]
    else put [Lit ''0''])"

definition para_rewrite_minsize :: "'w printer" where [printer_defs]:
  "para_rewrite_minsize c arg =
    (if macro_defined ''SUPPORT_EVENT_2G'' c then put [D (macro_val ''MIN_E2G_REWRITE'' c)]
    else put [Lit ''0''])"

definition para_maxactionmedia :: "'w printer" where [printer_defs]:
  "para_maxactionmedia c arg =
    (if macro_defined ''SUPPORT_EVENT_2G'' c then put [Lit ''5'']
    else put [Lit ''0''])"

definition para_maxeventserver :: "'w printer" where [printer_defs]:
  "para_maxeventserver c arg =
    (if macro_defined ''SUPPORT_EVENT_2G'' c then put [D (macro_val ''E2G_SERVER_MAX_NUM'' c)]
    else put [Lit ''0''])"

definition para_maxeventmedia :: "'w printer" where [printer_defs]:
  "para_maxeventmedia c arg =
    (if macro_defined ''SUPPORT_EVENT_2G'' c then put [D (macro_val ''E2G_MEDIA_MAX_NUM'' c)]
    else put [Lit ''0''])"

definition para_maxeventnumber :: "'w printer" where [printer_defs]:
  "para_maxeventnumber c arg =
    (if macro_defined ''SUPPORT_EVENT_2G'' c then put [D (macro_val ''E2G_EVENT_MAX_NUM'' c)]
    else put [Lit ''0''])"

definition para_maxrecording :: "'w printer" where [printer_defs]:
  "para_maxrecording c arg =
    (if macro_defined ''SUPPORT_EVENT_2G'' c then put [D (macro_val ''E2G_RECORD_MAX_NUM'' c)]
    else put [Lit ''0''])"

definition para_event_actionchoice :: "'w printer" where [printer_defs]:
  "para_event_actionchoice c arg =
    (if macro_defined ''EVENT_ACTION_CHOICE'' c then put [Lit ''0'']
    else put [Lit ''1''])"

definition para_cf_rate :: "'w printer" where [printer_defs]:
  "para_cf_rate c arg = (fails)"

definition para_cf_duration :: "'w printer" where [printer_defs]:
  "para_cf_duration c arg = (fails)"

definition para_cf_count :: "'w printer" where [printer_defs]:
  "para_cf_count c arg = (fails)"

definition para_cf_maxrecord :: "'w printer" where [printer_defs]:
  "para_cf_maxrecord c arg = (fails)"

definition para_cf_left :: "'w printer" where [printer_defs]:
  "para_cf_left c arg = (fails)"

definition para_cf_used :: "'w printer" where [printer_defs]:
  "para_cf_used c arg = (fails)"

definition para_cf_durationname :: "'w printer" where [printer_defs]:
  "para_cf_durationname c arg = (fails)"

definition para_cf_recordtype :: "'w printer" where [printer_defs]:
  "para_cf_recordtype c arg = (fails)"

definition para_savingmode :: "'w printer" where [printer_defs]:
  "para_savingmode c arg = (put [D (of_bool ((ivalue ''POWER_MODE'' c) AND (macro_val ''POWER_MODE_SAVING_ALL'' c) = macro_val ''POWER_MODE_SAVING_ALL'' c))])"

definition para_analog_output :: "'w printer" where [printer_defs]:
  "para_analog_output c arg = (put [D (of_bool ((ivalue ''POWER_MODE'' c) AND (macro_val ''POWER_MODE_ANALOG_OUT'' c) = macro_val ''POWER_MODE_ANALOG_OUT'' c))])"

definition para_supportdcpower :: "'w printer" where [printer_defs]:
  "para_supportdcpower c arg =
    (if macro_defined ''PLAT_DM365'' c then (if list_ex (\<lambda>x. macro_defined x c) [''MODEL_LC7415'', ''MODEL_LC7415B'', ''MODEL_LC7515''] then put [D (macro_val ''SUPPORT_DCPOWER'' c)]
    else put [Lit ''0''])
    else put [D (macro_val ''SUPPORT_DCPOWER'' c)])"

definition para_supportirled :: "'w printer" where [printer_defs]:
  "para_supportirled c arg =
    (if macro_defined ''SUPPORT_IR'' c then put [Lit ''1'']
    else put [Lit ''0''])"

definition get_video_loss_status :: "'w printer" where [printer_defs]:
  "get_video_loss_status c arg = (put [D (sysinfo ''videoloss'' c)])"

definition para_supporttvout :: "'w printer" where [printer_defs]:
  "para_supporttvout c arg = (put [D (macro_val ''SUPPORT_TVOUT_OFF'' c)])"

definition para_supportled :: "'w printer" where [printer_defs]:
  "para_supportled c arg = (put [D (macro_val ''SUPPORT_LED'' c)])"

definition para_machinetype :: "'w printer" where [printer_defs]:
  "para_machinetype c arg =
    (if list_ex (\<lambda>x. macro_defined x c) [''MACHINE_TYPE_LANCAM'', ''MODEL_VS2415''] then put [Lit ''0'']
    else put [Lit ''1''])"

definition para_rtspstreamnum :: "'w printer" where [printer_defs]:
  "para_rtspstreamnum c arg =
    (if macro_defined ''SUPPORT_PROFILE_NUMBER'' c then put [D (ivalue ''CONFIG_MAX_WEB_PROFILE_NUM'' c)]
    else put [D (macro_val ''MAX_WEB_PROFILE_NUM'' c)])"

definition para_httpstreamnum :: "'w printer" where [printer_defs]:
  "para_httpstreamnum c arg =
    (if macro_defined ''SUPPORT_PROFILE_NUMBER'' c then put [D (ivalue ''CONFIG_MAX_WEB_PROFILE_NUM'' c)]
    else put [D (macro_val ''MAX_WEB_PROFILE_NUM'' c)])"

definition para_profilecheckmode :: "'w printer" where [printer_defs]:
  "para_profilecheckmode c arg =
    (if macro_defined ''PLAT_DM365'' c then put [Lit ''0'']
    else put [Lit ''1''])"

definition para_afmaxzoomstep :: "'w printer" where [printer_defs]:
  "para_afmaxzoomstep c arg = (put [D (macro_val ''MAX_AF_ZOOM'' c)])"

definition para_afmaxfocusstep :: "'w printer" where [printer_defs]:
  "para_afmaxfocusstep c arg = (put [D (macro_val ''MAX_AF_FOCUS'' c)])"

definition para_autofocusmode :: "'w printer" where [printer_defs]:
  "para_autofocusmode c arg = (put [D (ivalue ''AUTOFOCUS_MODE'' c)])"

definition para_autofocuslocation :: "'w printer" where [printer_defs]:
  "para_autofocuslocation c arg = (put [D (ivalue ''AUTOFOCUS_LOCATION'' c)])"

definition para_affocusposition :: "'w printer" where [printer_defs]:
  "para_affocusposition c arg = (put [D (sysinfo ''af_status.focus'' c)])"

definition para_lensspeed :: "'w printer" where [printer_defs]:
  "para_lensspeed c arg = (put [D (ivalue ''LENS_SPEED'' c)])"

definition para_eptzspeed :: "'w printer" where [printer_defs]:
  "para_eptzspeed c arg = (put [D (ivalue ''EPTZ_SPEED'' c)])"

definition para_eptzstreamid :: "'w printer" where [printer_defs]:
  "para_eptzstreamid c arg = (put [D (ivalue ''EPTZ_STREAMID'' c)])"

definition para_dzoommodeinq :: "'w printer" where [printer_defs]:
  "para_dzoommodeinq c arg =
    (if macro_defined ''SUPPORT_VISCA'' c then put [D (sysinfo ''vsptz.dzoommode'' c)]
    else fails)"

definition para_wbmodeinq :: "'w printer" where [printer_defs]:
  "para_wbmodeinq c arg =
    (if macro_defined ''SUPPORT_VISCA'' c then put [Str (sysinfo_str ''vsptz.wbmode'' c)]
    else fails)"

definition para_aemodeinq :: "'w printer" where [printer_defs]:
  "para_aemodeinq c arg =
    (if macro_defined ''SUPPORT_VISCA'' c then put [Str (sysinfo_str ''vsptz.aemode'' c)]
    else fails)"

definition para_shutterposinq :: "'w printer" where [printer_defs]:
  "para_shutterposinq c arg =
    (if macro_defined ''SUPPORT_VISCA'' c then put [Str (sysinfo_str ''vsptz.shutterpos'' c)]
    else fails)"

definition para_gainposinq :: "'w printer" where [printer_defs]:
  "para_gainposinq c arg =
    (if macro_defined ''SUPPORT_VISCA'' c then put [D (sysinfo ''vsptz.gainpos'' c)]
    else fails)"

definition para_expcompposinq :: "'w printer" where [printer_defs]:
  "para_expcompposinq c arg =
    (if macro_defined ''SUPPORT_VISCA'' c then put [D (sysinfo ''vsptz.expcomp'' c)]
    else fails)"

definition para_backlightmodeinq :: "'w printer" where [printer_defs]:
  "para_backlightmodeinq c arg =
    (if macro_defined ''SUPPORT_VISCA'' c then put [D (sysinfo ''vsptz.backlight'' c)]
    else fails)"

definition para_wdinq :: "'w printer" where [printer_defs]:
  "para_wdinq c arg =
    (if macro_defined ''SUPPORT_VISCA'' c then put [D (sysinfo ''vsptz.wdrinfo'' c)]
    else fails)"

definition para_apertureinq :: "'w printer" where [printer_defs]:
  "para_apertureinq c arg =
    (if macro_defined ''SUPPORT_VISCA'' c then put [D (sysinfo ''vsptz.aperture'' c)]
    else fails)"

definition para_freezemodeinq :: "'w printer" where [printer_defs]:
  "para_freezemodeinq c arg =
    (if macro_defined ''SUPPORT_VISCA'' c then put [D (sysinfo ''vsptz.freezemode'' c)]
    else fails)"

definition para_pictureflipmodeinq :: "'w printer" where [printer_defs]:
  "para_pictureflipmodeinq c arg =
    (if macro_defined ''SUPPORT_VISCA'' c then put [D (sysinfo ''vsptz.pictureflipmode'' c)]
    else fails)"

definition para_privacydisplayinq :: "'w printer" where [printer_defs]:
  "para_privacydisplayinq c arg =
    (if macro_defined ''SUPPORT_VISCA'' c then put [D (sysinfo ''vsptz.privacydisplay'' c)]
    else fails)"

definition para_privacytransparency :: "'w printer" where [printer_defs]:
  "para_privacytransparency c arg =
    (if macro_defined ''SUPPORT_VISCA'' c then put [D (sysinfo ''vsptz.privacytransparency'' c)]
    else fails)"

definition para_privacycolor :: "'w printer" where [printer_defs]:
  "para_privacycolor c arg =
    (if macro_defined ''SUPPORT_VISCA'' c then put [Str (sysinfo_str ''vsptz.privacycolor'' c)]
    else fails)"

definition para_homefunction :: "'w printer" where [printer_defs]:
  "para_homefunction c arg =
    (if macro_defined ''SUPPORT_VISCA'' c then put [D (sysinfo ''vsptz.homefunctionmode'' c)]
    else fails)"

definition para_fliptypeinq :: "'w printer" where [printer_defs]:
  "para_fliptypeinq c arg =
    (if macro_defined ''SUPPORT_VISCA'' c then put [Str (sysinfo_str ''vsptz.fliptype'' c)]
    else fails)"

definition para_angleadjust :: "'w printer" where [printer_defs]:
  "para_angleadjust c arg =
    (if macro_defined ''SUPPORT_VISCA'' c then put [D (sysinfo ''vsptz.minangle'' c), Lit '';'', D (sysinfo ''vsptz.maxangle'' c)]
    else fails)"

definition para_autocalibration :: "'w printer" where [printer_defs]:
  "para_autocalibration c arg =
    (if macro_defined ''SUPPORT_VISCA'' c then put [D (sysinfo ''vsptz.autocalibration'' c)]
    else fails)"

definition para_2dnoisereduction :: "'w printer" where [printer_defs]:
  "para_2dnoisereduction c arg =
    (if macro_defined ''SUPPORT_VISCA'' c then put [D (sysinfo ''vsptz.twodnoise'' c)]
    else fails)"

definition para_3dnoisereduction :: "'w printer" where [printer_defs]:
  "para_3dnoisereduction c arg =
    (if macro_defined ''SUPPORT_VISCA'' c then put [D (sysinfo ''vsptz.threednoise'' c)]
    else fails)"

definition para_homefunctionsetting :: "'w printer" where [printer_defs]:
  "para_homefunctionsetting c arg =
    (if macro_defined ''SUPPORT_VISCA'' c then put [Str (sysinfo_str ''vsptz.homefunctionsetting'' c)]
    else fails)"

definition para_homefunctiontime :: "'w printer" where [printer_defs]:
  "para_homefunctiontime c arg =
    (if macro_defined ''SUPPORT_VISCA'' c then put [D (sysinfo ''vsptz.homedelaytime'' c)]
    else fails)"

definition para_homefunctionline :: "'w printer" where [printer_defs]:
  "para_homefunctionline c arg =
    (if macro_defined ''SUPPORT_VISCA'' c then put [D (sysinfo ''vsptz.homeline'' c)]
    else fails)"

definition para_visca_dometype :: "'w printer" where [printer_defs]:
  "para_visca_dometype c arg =
    (if macro_defined ''SUPPORT_VISCA'' c then (if sysinfo ''vsptz.dome_type'' c = 51 then put [Lit ''DH510'']
    else if sysinfo ''vsptz.dome_type'' c = 61 then put [Lit ''DH610'']
    else if sysinfo ''vsptz.dome_type'' c = 70 then put [Lit ''DH701'']
    else if sysinfo ''vsptz.dome_type'' c = 81 then put [Lit ''DH811'']
    else put [Lit ''Unknow''])
    else fails)"

definition para_visca_motortype :: "'w printer" where [printer_defs]:
  "para_visca_motortype c arg =
    (if macro_defined ''SUPPORT_VISCA'' c then (if sysinfo ''vsptz.motor_type'' c = 2 then put [Lit ''D'']
    else if sysinfo ''vsptz.motor_type'' c = 3 then put [Lit ''E'']
    else if sysinfo ''vsptz.motor_type'' c = 4 then put [Lit ''F'']
    else put [Lit ''Unknow''])
    else fails)"

definition para_visca_version :: "'w printer" where [printer_defs]:
  "para_visca_version c arg =
    (if macro_defined ''SUPPORT_VISCA'' c then put [Str (sysinfo_str ''vsptz.version'' c)]
    else fails)"

definition para_visca_model :: "'w printer" where [printer_defs]:
  "para_visca_model c arg =
    (if macro_defined ''SUPPORT_VISCA'' c then (if sysinfo ''vsptz.zoom'' c = 12 then put [Lit ''0'']
    else if sysinfo ''vsptz.zoom'' c = 18 then put [Lit ''1'']
    else if sysinfo ''vsptz.zoom'' c = 30 then put [Lit ''2'']
    else if sysinfo ''vsptz.zoom'' c = 36 then put [Lit ''3'']
    else fails)
    else fails)"

definition para_visca_wintimezone :: "'w printer" where [printer_defs]:
  "para_visca_wintimezone c arg = (put [D (u8 ''NTP_TIMEZONE'' c)])"

definition para_sequencepointnum :: "'w printer" where [printer_defs]:
  "para_sequencepointnum c arg =
    (if macro_defined ''SUPPORT_VISCA'' c then put [D (sysinfo ''vsptz.sequencepoint'' c)]
    else fails)"

definition para_cruiselinenum :: "'w printer" where [printer_defs]:
  "para_cruiselinenum c arg =
    (if macro_defined ''SUPPORT_VISCA'' c then put [D (sysinfo ''vsptz.cruiseline'' c)]
    else fails)"

definition para_visca_dome_ntsc :: "'w printer" where [printer_defs]:
  "para_visca_dome_ntsc c arg =
    (if macro_defined ''SUPPORT_VISCA'' c then put [D (sysinfo ''vsptz.ntsc'' c)]
    else fails)"

definition para_visca_dome_zoom :: "'w printer" where [printer_defs]:
  "para_visca_dome_zoom c arg =
    (if macro_defined ''SUPPORT_VISCA'' c then (if sysinfo ''vsptz.zoom'' c = 12 then put [Lit ''12'']
    else if sysinfo ''vsptz.zoom'' c = 18 then put [Lit ''18'']
    else if sysinfo ''vsptz.zoom'' c = 30 then put [Lit ''30'']
    else if sysinfo ''vsptz.zoom'' c = 36 then put [Lit ''36'']
    else put [Lit ''Unknow''])
    else fails)"

definition para_visca_dome_icr :: "'w printer" where [printer_defs]:
  "para_visca_dome_icr c arg =
    (if macro_defined ''SUPPORT_VISCA'' c then put [D (sysinfo ''vsptz.icr'' c)]
    else fails)"

definition para_visca_dome_wdr :: "'w printer" where [printer_defs]:
  "para_visca_dome_wdr c arg =
    (if macro_defined ''SUPPORT_VISCA'' c then put [D (sysinfo ''vsptz.wdr'' c)]
    else fails)"

definition para_wbmodename :: "'w printer" where [printer_defs]:
  "para_wbmodename c arg =
    (if arg_char arg = CHR ''0'' then put [Lit ''Auto'']
    else if arg_char arg = CHR ''1'' then put [Lit ''Indoor'']
    else if arg_char arg = CHR ''2'' then put [Lit ''Outdoor'']
    else if arg_char arg = CHR ''3'' then put [Lit ''ATW'']
    else if arg_char arg = CHR ''a'' \<or> arg_char arg = NUL then put [Lit ''Auto;Indoor;Outdoor;ATW'']
    else fails)"

definition para_fliptypename :: "'w printer" where [printer_defs]:
  "para_fliptypename c arg =
    (if arg_char arg = CHR ''0'' then put [Lit ''Off'']
    else if arg_char arg = CHR ''1'' then put [Lit ''M.E. Flip'']
    else if arg_char arg = CHR ''2'' then put [Lit ''Image Flip'']
    else if arg_char arg = CHR ''a'' \<or> arg_char arg = NUL then put [Lit ''Off;M.E. Flip;Image Flip'']
    else fails)"

definition para_aemodename :: "'w printer" where [printer_defs]:
  "para_aemodename c arg =
    (if arg_char arg = CHR ''0'' then put [Lit ''Auto'']
    else if arg_char arg = CHR ''1'' then put [Lit ''Manual'']
    else if arg_char arg = CHR ''2'' then put [Lit ''Shutter Priority'']
    else if arg_char arg = CHR ''a'' \<or> arg_char arg = NUL then put [Lit ''Auto;Manual;Shutter Priority'']
    else fails)"

definition para_privacycolorname :: "'w printer" where [printer_defs]:
  "para_privacycolorname c arg =
    (if arg_char arg = CHR ''0'' then put [Lit ''black'']
    else if arg_char arg = CHR ''1'' then put [Lit ''white'']
    else if arg_char arg = CHR ''2'' then put [Lit ''red'']
    else if arg_char arg = CHR ''3'' then put [Lit ''green'']
    else if arg_char arg = CHR ''4'' then put [Lit ''blue'']
    else if arg_char arg = CHR ''5'' then put [Lit ''cyan'']
    else if arg_char arg = CHR ''6'' then put [Lit ''yellow'']
    else if arg_char arg = CHR ''7'' then put [Lit ''magenta'']
    else if arg_char arg = CHR ''a'' \<or> arg_char arg = NUL then put [Lit ''black;white;red;green;blue;cyan;yellow;magenta'']
    else fails)"

definition para_homefunctionname :: "'w printer" where [printer_defs]:
  "para_homefunctionname c arg =
    (if arg_char arg = CHR ''0'' then put [Lit ''Preset'']
    else if arg_char arg = CHR ''1'' then put [Lit ''Sequence'']
    else if arg_char arg = CHR ''2'' then put [Lit ''Autopan'']
    else if arg_char arg = CHR ''3'' then put [Lit ''Cruise'']
    else if arg_char arg = CHR ''a'' \<or> arg_char arg = NUL then put [Lit ''Preset;Sequence;Autopan;Cruise'']
    else fails)"

definition para_panspeed :: "'w printer" where [printer_defs]:
  "para_panspeed c arg =
    (if arg_char arg = CHR ''a'' \<or> arg_char arg = NUL then put [D (ivalue ''VISCA_PAN_SPEED'' c)]
    else fails)"

definition para_tiltspeed :: "'w printer" where [printer_defs]:
  "para_tiltspeed c arg =
    (if arg_char arg = CHR ''a'' \<or> arg_char arg = NUL then put [D (ivalue ''VISCA_TILT_SPEED'' c)]
    else fails)"

definition para_aperturename :: "'w printer" where [printer_defs]:
  "para_aperturename c arg = (put [Lit ''1;2;3;4;5;6;7;8;9;10;11;12;13;14;15;16''])"

definition para_angleminname :: "'w printer" where [printer_defs]:
  "para_angleminname c arg = (put [Lit ''-10;-9;-8;-7;-6;-5;-4;-3;-2;-1;0;1;2;3;4;5;6;7;8;9;10''])"

definition para_anglemaxname :: "'w printer" where [printer_defs]:
  "para_anglemaxname c arg = (put [Lit ''80;81;82;83;84;85;86;87;88;89;90;91;92;93;94;95;96;97;98;99;100''])"

definition para_anglemaxflipname :: "'w printer" where [printer_defs]:
  "para_anglemaxflipname c arg = (put [Lit ''170;171;172;173;174;175;176;177;178;179;180;181;182;183;184;185;186;187;188;189;190''])"

definition para_autopanname :: "'w printer" where [printer_defs]:
  "para_autopanname c arg = (put [Lit ''1;2;3;4''])"

definition para_autopandirecname :: "'w printer" where [printer_defs]:
  "para_autopandirecname c arg = (put [Lit ''Right;Left''])"

definition para_autopanspeedname :: "'w printer" where [printer_defs]:
  "para_autopanspeedname c arg = (put [Lit ''1;2;3;4''])"

definition para_panspeedname :: "'w printer" where [printer_defs]:
  "para_panspeedname c arg = (put [Lit ''1;2;3;4;5;6;7;8;9;10;11;12;13;14;15;16''])"

definition para_tiltspeedname :: "'w printer" where [printer_defs]:
  "para_tiltspeedname c arg = (put [Lit ''1;2;3;4;5;6;7;8;9;10;11;12;13;14;15;16''])"

definition para_cruisename :: "'w printer" where [printer_defs]:
  "para_cruisename c arg =
    (if sysinfo ''vsptz.cruiseline'' c = 4 then put [Lit ''1;2;3;4'']
    else if sysinfo ''vsptz.cruiseline'' c = 8 then put [Lit ''1;2;3;4;5;6;7;8'']
    else fails)"

definition para_visca_burn_status :: "'w printer" where [printer_defs]:
  "para_visca_burn_status c arg =
    (if arg_char arg = CHR ''a'' \<or> arg_char arg = NUL then (if sysinfo ''visca_burn_status'' c = 0 then put [Lit ''Stop'']
    else if sysinfo ''visca_burn_status'' c = 1 then put [Lit ''Running'']
    else if sysinfo ''visca_burn_status'' c = 2 then put [Lit ''Fail'']
    else put [Lit ''Error''])
    else fails)"

definition para_supportvisca :: "'w printer" where [printer_defs]:
  "para_supportvisca c arg =
    (if macro_defined ''SUPPORT_VISCA'' c then put [Lit ''1'']
    else put [Lit ''0''])"

definition para_supportfactorymode :: "'w printer" where [printer_defs]:
  "para_supportfactorymode c arg =
    (if macro_defined ''SUPPORT_FACTORYMODE'' c then put [Lit ''1'']
    else put [Lit ''0''])"

definition para_supportosdswitch :: "'w printer" where [printer_defs]:
  "para_supportosdswitch c arg = (put [Lit ''1''])"

definition para_osdshow :: "'w printer" where [printer_defs]:
  "para_osdshow c arg = (put [D (ivalue ''OSD_SHOW'' c)])"

definition para_support_QoS :: "'w printer" where [printer_defs]:
  "para_support_QoS c arg =
    (if macro_defined ''SUPPORT_QOS_SCHEDULE'' c then put [Lit ''1'']
    else put [Lit ''0''])"

definition para_support_CoS :: "'w printer" where [printer_defs]:
  "para_support_CoS c arg =
    (if macro_defined ''SUPPORT_COS_SCHEDULE'' c then put [Lit ''1'']
    else put [Lit ''0''])"

definition para_support_BWC :: "'w printer" where [printer_defs]:
  "para_support_BWC c arg =
    (if list_ex (\<lambda>x. macro_defined x c) [''SUPPORT_QOS_SCHEDULE'', ''SUPPORT_COS_SCHEDULE''] then put [Lit ''0'']
    else put [Lit ''1''])"

definition para_CoS_enable :: "'w printer" where [printer_defs]:
  "para_CoS_enable c arg = (put [D (u32 ''COS_ENABLE'' c)])"

definition para_VLan_ID :: "'w printer" where [printer_defs]:
  "para_VLan_ID c arg = (put [D (u32 ''COS_VLANID'' c)])"

definition para_CoS_prio_video :: "'w printer" where [printer_defs]:
  "para_CoS_prio_video c arg = (put [D (u32 ''COS_PRIO_VIDEO'' c)])"

definition para_CoS_prio_audio :: "'w printer" where [printer_defs]:
  "para_CoS_prio_audio c arg = (put [D (u32 ''COS_PRIO_AUDIO'' c)])"

definition para_CoS_prio_event :: "'w printer" where [printer_defs]:
  "para_CoS_prio_event c arg = (put [D (u32 ''COS_PRIO_EVENT'' c)])"

definition para_CoS_prio_manage :: "'w printer" where [printer_defs]:
  "para_CoS_prio_manage c arg = (put [D (u32 ''COS_PRIO_MANAGE'' c)])"

definition para_QoS_enable :: "'w printer" where [printer_defs]:
  "para_QoS_enable c arg = (put [D (u32 ''QOS_ENABLE'' c)])"

definition para_QoS_DSCP_video :: "'w printer" where [printer_defs]:
  "para_QoS_DSCP_video c arg = (put [D (u32 ''QOS_DSCP_VIDEO'' c)])"

definition para_QoS_DSCP_audio :: "'w printer" where [printer_defs]:
  "para_QoS_DSCP_audio c arg = (put [D (u32 ''QOS_DSCP_AUDIO'' c)])"

definition para_QoS_DSCP_event :: "'w printer" where [printer_defs]:
  "para_QoS_DSCP_event c arg = (put [D (u32 ''QOS_DSCP_EVENT'' c)])"

definition para_QoS_DSCP_manage :: "'w printer" where [printer_defs]:
  "para_QoS_DSCP_manage c arg = (put [D (u32 ''QOS_DSCP_MANAGE'' c)])"

subsection \<open>What they return\<close>

definition device_printers :: "'w printer list" where
  "device_printers = [
    para_privacywindowsize, para_motionwindowsize, para_profile1coordinate, para_profile2coordinate, para_profile3coordinate,
    para_motionblock, para_motionenable, para_motiondrawenable, para_motionlevel, para_motionpercentage, para_motionsensitivity,
    para_motionname, para_motioncenable, para_ipncptz, para_motioncvalue, para_minmotionthreshold, para_maxmotionthreshold,
    para_motionxlimit, para_motionxblock, para_motionyblock, para_supportstream1, para_supportstream2, para_supportstream3,
    para_supportstream4, para_webprofilenum, para_waitserver, para_supportcolorkiller, para_supportAWB, para_supportbrightness,
    para_supportcontrast, para_supportsaturation, para_supportbacklight, para_supportsharpness, para_supportgiooutalwayson,
    para_supportgioin, para_supportgioout, para_gioinname, para_giooutname, para_softwareversion, para_tstampenable,
    para_tstampcolorname, para_pppoemodename, para_ddnsenable, para_ddnstypename, para_ddnsinterval, para_maxddnsusrlen,
    para_maxddnspwdlen, para_ddnshostname, para_ipfilterenable, para_ipfilterdefaultpolicy, para_maxipfilterpolicy,
    para_ipfilterpolicy, para_maxquotainbound, para_maxquotaoutbound, para_quotainbound, para_quotaoutbound, para_virtaulprotocol,
    para_virtaulenable, para_ddnsaccount, para_ddnspassword, para_testtimeout, para_replytest, para_sensorcropresolution,
    para_sensorstartx, para_sensorstarty, para_minoutvolume, para_powerout, para_powerschedule, para_tstamplocname, para_tstampformat,
    para_tstamplabel, para_audioinmax, para_audioinvolume, para_dncontrolmode, para_dncontrolscheduleex, para_dncontrolsen,
    para_dncontrold2n, para_dncontroln2d, para_dncontrold2nmin, para_dncontrold2nmax, para_dncontroln2dmin, para_dncontroln2dmax,
    para_dncontrolsenname, para_dncontrolmodename, para_httpsenable, para_httpscountry, para_maxhttpscountry, para_httpsstate,
    para_maxhttpsstate, para_httpslocality, para_maxhttpslocality, para_httpsorganization, para_maxhttpsorganization,
    para_httpsorgunit, para_maxhttpsorgunit, para_httpscommon, para_maxhttpscommon, para_httpsvaliddays, para_httpsport,
    para_defaulthttpsport, para_wifi_support, para_wifi_enable, para_wifi_mode, para_wifi_channel, para_wifi_auth, para_wifi_encrypt,
    para_wep_index, para_wifi_sitelist, para_wifi_modename, para_wifi_minchannel, para_wifi_maxchannel, para_wifi_channelname,
    para_wifi_authname, para_wifi_encryptname, para_support_bonjour, para_supportaf, para_supportantiflicker, para_OEMModel,
    para_OEMMaker, para_support_netlost, para_support_videolost, para_support_pir, para_m_pic_pre_max, para_m_pic_pre_min,
    para_m_pic_post_max, para_m_pic_post_min, para_m_vid_pre_max, para_m_vid_pre_min, para_m_vid_post_max, para_m_vid_post_min,
    para_m_vid_maxsize, para_m_vid_minsize, para_r_vid_maxsize, para_r_vid_minsize, para_rewrite_maxsize, para_rewrite_minsize,
    para_maxactionmedia, para_maxeventserver, para_maxeventmedia, para_maxeventnumber, para_maxrecording, para_event_actionchoice,
    para_cf_rate, para_cf_duration, para_cf_count, para_cf_maxrecord, para_cf_left, para_cf_used, para_cf_durationname,
    para_cf_recordtype, para_savingmode, para_analog_output, para_supportdcpower, para_supportirled, get_video_loss_status,
    para_supporttvout, para_supportled, para_machinetype, para_rtspstreamnum, para_httpstreamnum, para_profilecheckmode,
    para_afmaxzoomstep, para_afmaxfocusstep, para_autofocusmode, para_autofocuslocation, para_affocusposition, para_lensspeed,
    para_eptzspeed, para_eptzstreamid, para_dzoommodeinq, para_wbmodeinq, para_aemodeinq, para_shutterposinq, para_gainposinq,
    para_expcompposinq, para_backlightmodeinq, para_wdinq, para_apertureinq, para_freezemodeinq, para_pictureflipmodeinq,
    para_privacydisplayinq, para_privacytransparency, para_privacycolor, para_homefunction, para_fliptypeinq, para_angleadjust,
    para_autocalibration, para_2dnoisereduction, para_3dnoisereduction, para_homefunctionsetting, para_homefunctiontime,
    para_homefunctionline, para_visca_dometype, para_visca_motortype, para_visca_version, para_visca_model, para_visca_wintimezone,
    para_sequencepointnum, para_cruiselinenum, para_visca_dome_ntsc, para_visca_dome_zoom, para_visca_dome_icr, para_visca_dome_wdr,
    para_wbmodename, para_fliptypename, para_aemodename, para_privacycolorname, para_homefunctionname, para_panspeed, para_tiltspeed,
    para_aperturename, para_angleminname, para_anglemaxname, para_anglemaxflipname, para_autopanname, para_autopandirecname,
    para_autopanspeedname, para_panspeedname, para_tiltspeedname, para_cruisename, para_visca_burn_status, para_supportvisca,
    para_supportfactorymode, para_supportosdswitch, para_osdshow, para_support_QoS, para_support_CoS, para_support_BWC,
    para_CoS_enable, para_VLan_ID, para_CoS_prio_video, para_CoS_prio_audio, para_CoS_prio_event, para_CoS_prio_manage,
    para_QoS_enable, para_QoS_DSCP_video, para_QoS_DSCP_audio, para_QoS_DSCP_event, para_QoS_DSCP_manage]"

lemma device_printers_fit: "list_all (printer_fits S) device_printers"
  unfolding device_printers_def list.pred_inject printer_fits_iff printer_defs by (intro conjI allI impI printing TrueI; simp)

end
