(* ===== verification/Boa_Api_Net.thy ===== *)
theory Boa_Api_Net
  imports Boa_Api
begin

unbundle bit_operations_syntax

text \<open>
  The commands for the network (\<^verbatim>\<open>appro_api.c\<close>, first part): address, memory card, MTU, time server, dynamic DNS, quotas, PPPoE and
  UPnP.
\<close>

subsection \<open>The handlers\<close>

definition set_dhcpclient :: "'w command" where [command_defs]:
  "set_dhcpclient = [
    if_then (\<lambda>c. val c = []) [say OPTION_OK (\<lambda>c. [Lit ''='', D (ivalue ''NET_DHCP_ENABLE'' c)]), ret],
    do_once [
      if_then (\<lambda>c. \<not> macro_defined ''DHCP_CONFIG'' c) [if_then (\<lambda>c. ivalue ''DHCPDIPSWITCH'' c = 1) [brk]],
      if_then (\<lambda>c. numeric_check (val c) < 0) [brk],
      bind (\<lambda>c. atoi (val c)) (\<lambda>value. [
        if_then (\<lambda>c. value < min_of ''NET_DHCP_ENABLE'' c \<or> value > max_of ''NET_DHCP_ENABLE'' c) [brk],
        if_then (\<lambda>c. ivalue ''NET_DHCP_ENABLE'' c \<noteq> value) [
          control_data ''SFIELD_SET_DHCPC_ENABLE'' (\<lambda>c. Num 4 value) (\<lambda>ret_val. [if_then (\<lambda>c. ret_val < 0) [brk]])],
        say OPTION_OK (\<lambda>_. []),
        ret])],
    say OPTION_NG (\<lambda>_. [])]"

definition set_dhcpdipswitch :: "'w command" where [command_defs]:
  "set_dhcpdipswitch = [
    if_then (\<lambda>c. val c = []) [say OPTION_OK (\<lambda>c. [Lit ''='', D (ivalue ''DHCPDIPSWITCH'' c)]), ret],
    do_once [
      if_then (\<lambda>c. numeric_check (val c) < 0) [brk],
      bind (\<lambda>c. atoi (val c)) (\<lambda>value. [
        if_then (\<lambda>c. value < min_of ''DHCPDIPSWITCH'' c \<or> value > max_of ''DHCPDIPSWITCH'' c) [brk],
        if_then (\<lambda>c. ivalue ''DHCPDIPSWITCH'' c \<noteq> value) [
          control_data ''SFIELD_SET_DHCPDIPSWITCH'' (\<lambda>c. Num 4 value) (\<lambda>ret_val. [if_then (\<lambda>c. ret_val < 0) [brk]])],
        say OPTION_OK (\<lambda>_. []),
        ret])],
    say OPTION_NG (\<lambda>_. [])]"

definition set_sdcount :: "'w command" where [command_defs]:
  "set_sdcount = [
    if_else (\<lambda>c. macro_defined ''SUPPORT_SD'' c) [say OPTION_OK (\<lambda>_. [])] [say OPTION_NS (\<lambda>_. [])]]"

definition get_sdcount :: "'w command" where [command_defs]:
  "get_sdcount = [
    if_else (\<lambda>c. macro_defined ''SUPPORT_SD'' c) [say OPTION_OK (\<lambda>_. [])] [say OPTION_NS (\<lambda>_. [])]]"

definition get_sdinsert :: "'w command" where [command_defs]:
  "get_sdinsert = [
    if_else (\<lambda>c. macro_defined ''SUPPORT_SD'' c) [
      do_once [
        say OPTION_OK (\<lambda>c. [Lit ''='', D (if (sysinfo ''status.mmc'' c) AND (macro_val ''SD_INSERTED'' c) \<noteq> 0 then 1 else 0)]),
        ret],
      say OPTION_NG (\<lambda>_. [])] [say OPTION_NS (\<lambda>_. [])]]"

definition set_sdfpp :: "'w command" where [command_defs]:
  "set_sdfpp = [
    if_else (\<lambda>c. macro_defined ''SUPPORT_SD'' c) [
      if_then (\<lambda>c. val c = []) [say OPTION_OK (\<lambda>c. [Lit ''='', D (u8 ''SDCARD_SDFPP'' c)]), ret],
      bind (\<lambda>c. to_u8 (atoi (val c))) (\<lambda>value. [
        do_once [
          write_info ''SDCARD_SDFPP'' (\<lambda>c. Num 1 value) (\<lambda>_. []),
          say OPTION_OK (\<lambda>_. []),
          ret],
        say OPTION_NG (\<lambda>_. [])])] [say OPTION_NS (\<lambda>_. [])]]"

definition get_audioenable :: "'w command" where [command_defs]:
  "get_audioenable = [
    do_once [say OPTION_OK (\<lambda>c. [Lit ''='', D (u8 ''AUDIOINENABLE'' c)]), ret],
    say OPTION_NG (\<lambda>_. [])]"

definition set_maxmtu :: "'w command" where [command_defs]:
  "set_maxmtu = [
    bind (\<lambda>c. atoi (val c)) (\<lambda>value. [
      do_once [
        if_then (\<lambda>c. value < 68 \<or> value > 1500) [brk],
        control_data ''SFIELD_SET_MAXMTU'' (\<lambda>c. Num 4 value) (\<lambda>ret_val. [if_then (\<lambda>c. ret_val = (- 1)) [brk]]),
        say OPTION_OK (\<lambda>_. []),
        ret],
      say OPTION_NG (\<lambda>_. [])])]"

definition get_etherstatus :: "'w command" where [command_defs]:
  "get_etherstatus = [
    do_once [say OPTION_OK (\<lambda>c. [Lit ''='', D 1]), ret],
    say OPTION_NG (\<lambda>_. [])]"

definition get_sntptimezone :: "'w command" where [command_defs]:
  "get_sntptimezone = [
    do_once [say OPTION_OK (\<lambda>c. [Lit ''='', D (u8 ''NTP_TIMEZONE'' c)]), ret],
    say OPTION_NG (\<lambda>_. [])]"

definition set_sntpfqdn :: "'w command" where [command_defs]:
  "set_sntpfqdn = [
    if_then (\<lambda>c. val c = []) [say OPTION_OK (\<lambda>c. [Lit ''='', Str (conf_string ''NTP_SERVER'' c)]), ret],
    do_once [
      if_then (\<lambda>c. int (length (val c)) > max_of ''NTP_SERVER'' c) [brk],
      if_then (\<lambda>c. \<not> (conf_string ''NTP_SERVER'' c = val c)) [
        if_then (\<lambda>c. s8 ''NTP_FREQUENCY'' c = 1) [set_ntpd],
        control_data ''SFIELD_SET_SNTP_SERVER'' (\<lambda>c. Text (val c)) (\<lambda>_. [])],
      say OPTION_OK (\<lambda>_. []),
      ret],
    say OPTION_NG (\<lambda>_. [])]"

definition set_ddnsenable :: "'w command" where [command_defs]:
  "set_ddnsenable = [
    if_then (\<lambda>c. val c = []) [say OPTION_OK (\<lambda>c. [Lit ''='', D (u8 ''DDNS_ENABLE'' c)]), ret],
    do_once [
      if_then (\<lambda>c. numeric_check (val c) < 0) [brk],
      bind (\<lambda>c. to_u8 (atoi (val c))) (\<lambda>value. [
        if_then (\<lambda>c. value > max_of ''DDNS_ENABLE'' c) [brk],
        if_then (\<lambda>c. u8 ''DDNS_ENABLE'' c \<noteq> value) [control_data ''SFIELD_SET_DDNS_ENABLE'' (\<lambda>c. Num 1 value) (\<lambda>_. [])],
        say OPTION_OK (\<lambda>_. []),
        ret])],
    say OPTION_NG (\<lambda>_. [])]"

definition get_ddnsenable :: "'w command" where [command_defs]:
  "get_ddnsenable = [say OPTION_OK (\<lambda>c. [Lit ''='', D (u8 ''DDNS_ENABLE'' c)])]"

definition get_ddnstype :: "'w command" where [command_defs]:
  "get_ddnstype = [say OPTION_OK (\<lambda>c. [Lit ''='', D (s8 ''DDNS_TYPE'' c)])]"

definition set_ddnshostname :: "'w command" where [command_defs]:
  "set_ddnshostname = [
    if_then (\<lambda>c. val c = []) [say OPTION_OK (\<lambda>c. [Lit ''='', Str (conf_string ''DDNS_HOSTNAME'' c)]), ret],
    do_once [
      if_then (\<lambda>c. int (length (val c)) > max_of ''DDNS_HOSTNAME'' c) [brk],
      if_then (\<lambda>c. \<not> (conf_string ''DDNS_HOSTNAME'' c = val c)) [control_data ''SFIELD_SET_DDNS_HOST'' (\<lambda>c. Text (val c)) (\<lambda>_. [])],
      say OPTION_OK (\<lambda>_. []),
      ret],
    say OPTION_NG (\<lambda>_. [])]"

definition get_ddnshostname :: "'w command" where [command_defs]:
  "get_ddnshostname = [say OPTION_OK (\<lambda>c. [Lit ''='', Str (conf_string ''DDNS_HOSTNAME'' c)])]"

definition set_ddnsaccount :: "'w command" where [command_defs]:
  "set_ddnsaccount = [
    if_then (\<lambda>c. val c = []) [say OPTION_OK (\<lambda>c. [Lit ''='', Str (conf_string ''DDNS_ACCOUNT'' c)]), ret],
    do_once [
      if_then (\<lambda>c. int (length (val c)) > max_of ''DDNS_ACCOUNT'' c) [brk],
      if_then (\<lambda>c. \<not> (conf_string ''DDNS_ACCOUNT'' c = val c)) [control_data ''SFIELD_SET_DDNS_ACCOUNT'' (\<lambda>c. Text (val c)) (\<lambda>_. [])],
      say OPTION_OK (\<lambda>_. []),
      ret],
    say OPTION_NG (\<lambda>_. [])]"

definition get_ddnsaccount :: "'w command" where [command_defs]:
  "get_ddnsaccount = [say OPTION_OK (\<lambda>c. [Lit ''='', Str (conf_string ''DDNS_ACCOUNT'' c)])]"

definition set_ddnspassword :: "'w command" where [command_defs]:
  "set_ddnspassword = [
    if_then (\<lambda>c. val c = []) [say OPTION_OK (\<lambda>c. [Lit ''='', Str (conf_string ''DDNS_PASSWORD'' c)]), ret],
    do_once [
      if_then (\<lambda>c. int (length (val c)) > max_of ''DDNS_PASSWORD'' c) [brk],
      if_then (\<lambda>c. \<not> (conf_string ''DDNS_PASSWORD'' c = val c)) [control_data ''SFIELD_SET_DDNS_PASSWORD'' (\<lambda>c. Text (val c)) (\<lambda>_. [])],
      say OPTION_OK (\<lambda>_. []),
      ret],
    say OPTION_NG (\<lambda>_. [])]"

definition get_ddnspassword :: "'w command" where [command_defs]:
  "get_ddnspassword = [say OPTION_OK (\<lambda>c. [Lit ''='', Str (conf_string ''DDNS_PASSWORD'' c)])]"

definition set_ddnsinterval :: "'w command" where [command_defs]:
  "set_ddnsinterval = [
    if_then (\<lambda>c. val c = []) [say OPTION_OK (\<lambda>c. [Lit ''='', U (u32 ''A_DDNS_INTERVAL'' c)]), ret],
    do_once [
      if_then (\<lambda>c. numeric_check (val c) < 0) [brk],
      bind (\<lambda>c. to_u32 (atoi (val c))) (\<lambda>value. [
        if_then (\<lambda>c. value < min_of ''A_DDNS_INTERVAL'' c \<or> value > max_of ''A_DDNS_INTERVAL'' c) [brk],
        if_then (\<lambda>c. u32 ''A_DDNS_INTERVAL'' c \<noteq> value) [control_data ''SFIELD_SET_DDNS_INTERVAL'' (\<lambda>c. Num 4 value) (\<lambda>_. [])],
        say OPTION_OK (\<lambda>_. []),
        ret])],
    say OPTION_NG (\<lambda>_. [])]"

definition get_ddnsstatus :: "'w command" where [command_defs]:
  "get_ddnsstatus = [say OPTION_OK (\<lambda>c. [Lit ''='', D (sysinfo ''status.ddns'' c)])]"

definition set_quotainbound :: "'w command" where [command_defs]:
  "set_quotainbound = [
    if_then (\<lambda>c. val c = []) [say OPTION_OK (\<lambda>c. [Lit ''='', U (u32 ''QUOTAINBOUND'' c)]), ret],
    do_once [
      if_then (\<lambda>c. numeric_check (val c) < 0) [brk],
      bind (\<lambda>c. to_u32 (atoi (val c))) (\<lambda>value. [
        if_then (\<lambda>c. value > max_of ''QUOTAINBOUND'' c) [brk],
        if_then (\<lambda>c. u32 ''QUOTAINBOUND'' c \<noteq> value) [
          control_data ''SFIELD_SET_QUOTA_INBOUND'' (\<lambda>c. Num 4 value) (\<lambda>ret_val. [if_then (\<lambda>c. ret_val < 0) [brk]])],
        say OPTION_OK (\<lambda>_. []),
        ret])],
    say OPTION_NG (\<lambda>_. [])]"

definition set_quotaoutbound :: "'w command" where [command_defs]:
  "set_quotaoutbound = [
    if_then (\<lambda>c. val c = []) [say OPTION_OK (\<lambda>c. [Lit ''='', U (u32 ''QUOTAOUTBOUND'' c)]), ret],
    do_once [
      if_then (\<lambda>c. numeric_check (val c) < 0) [brk],
      bind (\<lambda>c. to_u32 (atoi (val c))) (\<lambda>value. [
        if_then (\<lambda>c. value > max_of ''QUOTAOUTBOUND'' c) [brk],
        if_then (\<lambda>c. u32 ''QUOTAOUTBOUND'' c \<noteq> value) [
          control_data ''SFIELD_SET_QUOTA_OUTBOUND'' (\<lambda>c. Num 4 value) (\<lambda>ret_val. [if_then (\<lambda>c. ret_val < 0) [brk]])],
        say OPTION_OK (\<lambda>_. []),
        ret])],
    say OPTION_NG (\<lambda>_. [])]"

definition set_pppoeenable :: "'w command" where [command_defs]:
  "set_pppoeenable = [
    if_then (\<lambda>c. val c = []) [say OPTION_OK (\<lambda>c. [Lit ''='', D (u8 ''PPPOEENABLE'' c)]), ret],
    do_once [
      if_then (\<lambda>c. numeric_check (val c) < 0) [brk],
      bind (\<lambda>c. to_u8 (atoi (val c))) (\<lambda>value. [
        if_then (\<lambda>c. value > max_of ''PPPOEENABLE'' c) [brk],
        if_then (\<lambda>c. u8 ''PPPOEENABLE'' c \<noteq> value) [
          control_data ''SFIELD_SET_PPPOE_ENABLE'' (\<lambda>c. Num 1 value) (\<lambda>_. []),
          if_then (\<lambda>c. value = 0) [control_data ''SFIELD_SET_PPPOE_ENABLE'' (\<lambda>c. Num 1 value) (\<lambda>_. [])]],
        say OPTION_OK (\<lambda>_. []),
        ret])],
    say OPTION_NG (\<lambda>_. [])]"

definition get_pppoeenable :: "'w command" where [command_defs]:
  "get_pppoeenable = [say OPTION_OK (\<lambda>c. [Lit ''='', D (u8 ''PPPOEENABLE'' c)])]"

definition get_pppoeaccount :: "'w command" where [command_defs]:
  "get_pppoeaccount = [say OPTION_OK (\<lambda>c. [Lit ''='', Str (conf_string ''PPPOEACCOUNT'' c)])]"

definition get_isppassword :: "'w command" where [command_defs]:
  "get_isppassword = [say OPTION_OK (\<lambda>c. [Lit ''='', Str (conf_string ''PPPOEPASSWORD'' c)])]"

definition get_ispaccount :: "'w command" where [command_defs]:
  "get_ispaccount = [say OPTION_OK (\<lambda>c. [Lit ''='', Str (conf_string ''PPPOEACCOUNT'' c)])]"

definition get_pppoepwd :: "'w command" where [command_defs]:
  "get_pppoepwd = [say OPTION_OK (\<lambda>c. [Lit ''='', Str (conf_string ''PPPOEPASSWORD'' c)])]"

definition set_pppoeaccount :: "'w command" where [command_defs]:
  "set_pppoeaccount = [
    if_then (\<lambda>c. val c = []) [say OPTION_OK (\<lambda>c. [Lit ''='', Str (conf_string ''PPPOEACCOUNT'' c)]), ret],
    do_once [
      if_then (\<lambda>c. int (length (val c)) > max_of ''PPPOEACCOUNT'' c) [brk],
      if_then (\<lambda>c. \<not> (conf_string ''PPPOEACCOUNT'' c = val c) \<or> sysinfo ''pppoe_active'' c = 0) [control_data ''SFIELD_SET_PPPOE_ACCOUNT'' (\<lambda>c. Text (val c)) (\<lambda>_. [])],
      say OPTION_OK (\<lambda>_. []),
      ret],
    say OPTION_NG (\<lambda>_. [])]"

definition set_pppoepwd :: "'w command" where [command_defs]:
  "set_pppoepwd = [
    if_then (\<lambda>c. val c = []) [say OPTION_OK (\<lambda>c. [Lit ''='', Str (conf_string ''PPPOEPASSWORD'' c)]), ret],
    do_once [
      if_then (\<lambda>c. int (length (val c)) > max_of ''PPPOEACCOUNT'' c) [brk],
      if_then (\<lambda>c. \<not> (conf_string ''PPPOEPASSWORD'' c = val c) \<or> sysinfo ''pppoe_active'' c = 0) [control_data ''SFIELD_SET_PPPOE_PASSWORD'' (\<lambda>c. Text (val c)) (\<lambda>_. [])],
      say OPTION_OK (\<lambda>_. []),
      ret],
    say OPTION_NG (\<lambda>_. [])]"

definition set_upnpenable :: "'w command" where [command_defs]:
  "set_upnpenable = [
    if_then (\<lambda>c. val c = []) [say OPTION_OK (\<lambda>c. [Lit ''='', D (u8 ''UPNPENABLE'' c)]), ret],
    do_once [
      if_then (\<lambda>c. numeric_check (val c) < 0) [brk],
      bind (\<lambda>c. to_u8 (atoi (val c))) (\<lambda>value. [
        if_then (\<lambda>c. value > max_of ''UPNPENABLE'' c) [brk],
        if_then (\<lambda>c. u8 ''UPNPENABLE'' c \<noteq> value) [control_data ''SFIELD_SET_UPNP_ENABLE'' (\<lambda>c. Num 1 value) (\<lambda>_. [])],
        say OPTION_OK (\<lambda>_. []),
        ret])],
    say OPTION_NG (\<lambda>_. [])]"

definition set_upnprefreshtime :: "'w command" where [command_defs]:
  "set_upnprefreshtime = [
    bind (\<lambda>c. to_u8 (atoi (val c))) (\<lambda>value. [
      do_once [
        if_then (\<lambda>c. u8 ''UPNPAVREFRESHTIME'' c \<noteq> value) [control_data ''SFIELD_SET_UPNP_REFRESHTIME'' (\<lambda>c. Num 1 value) (\<lambda>_. [])],
        say OPTION_OK (\<lambda>_. []),
        ret],
      say OPTION_NG (\<lambda>_. [])])]"

definition get_upnpenable :: "'w command" where [command_defs]:
  "get_upnpenable = [say OPTION_OK (\<lambda>c. [Lit ''='', D (u8 ''UPNPENABLE'' c)])]"

definition set_upnpssdpage :: "'w command" where [command_defs]:
  "set_upnpssdpage = [
    bind (\<lambda>c. to_u16 (atoi (val c))) (\<lambda>value. [
      do_once [
        if_then (\<lambda>c. u16 ''UPNPSSDPAGE'' c \<noteq> value) [control_data ''SFIELD_SET_UPNP_SSDP_AGE'' (\<lambda>c. Num 2 value) (\<lambda>_. [])],
        say OPTION_OK (\<lambda>_. []),
        ret],
      say OPTION_NG (\<lambda>_. [])])]"

definition get_upnpssdpage :: "'w command" where [command_defs]:
  "get_upnpssdpage = [say OPTION_OK (\<lambda>c. [Lit ''='', D (u16 ''UPNPSSDPAGE'' c)])]"

definition set_upnpport :: "'w command" where [command_defs]:
  "set_upnpport = [
    bind (\<lambda>c. to_u16 (atoi (val c))) (\<lambda>value. [
      do_once [
        if_then (\<lambda>c. u16 ''UPNPPORT'' c \<noteq> value) [control_data ''SFIELD_SET_UPNP_PORT'' (\<lambda>c. Num 2 value) (\<lambda>_. [])],
        say OPTION_OK (\<lambda>_. []),
        ret],
      say OPTION_NG (\<lambda>_. [])])]"

definition get_upnpport :: "'w command" where [command_defs]:
  "get_upnpport = [say OPTION_OK (\<lambda>c. [Lit ''='', D (u16 ''UPNPSSDPPORT'' c)])]"

subsection \<open>What they print and what they hand to the system\<close>

definition net_commands :: "'w command list" where
  "net_commands = [
    set_dhcpclient, set_dhcpdipswitch, set_sdcount, get_sdcount, get_sdinsert, set_sdfpp, get_audioenable, set_maxmtu,
    get_etherstatus, get_sntptimezone, set_sntpfqdn, set_ddnsenable, get_ddnsenable, get_ddnstype, set_ddnshostname, get_ddnshostname,
    set_ddnsaccount, get_ddnsaccount, set_ddnspassword, get_ddnspassword, set_ddnsinterval, get_ddnsstatus, set_quotainbound,
    set_quotaoutbound, set_pppoeenable, get_pppoeenable, get_pppoeaccount, get_isppassword, get_ispaccount, get_pppoepwd,
    set_pppoeaccount, set_pppoepwd, set_upnpenable, set_upnprefreshtime, get_upnpenable, set_upnpssdpage, get_upnpssdpage,
    set_upnpport, get_upnpport]"

lemma net_commands_answer: "list_all (answers_once S) net_commands"
  unfolding net_commands_def list.pred_inject answers_once_def command_defs by (intro conjI counting TrueI; simp add: tail_ok_def)

text \<open>The commands that set a field, with the field whose limit they check.\<close>

definition net_limits :: "(cstring \<times> 'w command) list" where
  "net_limits = [
    (''NET_DHCP_ENABLE'', set_dhcpclient), (''DHCPDIPSWITCH'', set_dhcpdipswitch), (''NTP_SERVER'', set_sntpfqdn),
    (''DDNS_ENABLE'', set_ddnsenable), (''DDNS_HOSTNAME'', set_ddnshostname), (''DDNS_ACCOUNT'', set_ddnsaccount),
    (''DDNS_PASSWORD'', set_ddnspassword), (''A_DDNS_INTERVAL'', set_ddnsinterval), (''QUOTAINBOUND'', set_quotainbound),
    (''QUOTAOUTBOUND'', set_quotaoutbound), (''PPPOEENABLE'', set_pppoeenable), (''PPPOEACCOUNT'', set_pppoeaccount),
    (''UPNPENABLE'', set_upnpenable)]"

lemma net_limits_hold: "list_all (\<lambda>(F, cmd). within_limit F cmd) net_limits"
  unfolding net_limits_def list.pred_inject prod.case within_limit_def always_def command_defs by (intro conjI allI wp TrueI; simp)

end
