(* ===== verification/Boa_Api_Image.thy ===== *)
theory Boa_Api_Image
  imports Boa_Api
begin

unbundle bit_operations_syntax

text \<open>
  The commands for the image (\<^verbatim>\<open>appro_api.c\<close>, second part): sensor, picture, audio input, motion, memory card, flicker.
\<close>

subsection \<open>The handlers\<close>

definition set_mirror :: "'w command" where [command_defs]:
  "set_mirror = [
    if_else (\<lambda>c. macro_defined ''SUPPORT_MIRROR'' c) [
      if_then (\<lambda>c. val c = []) [
        if_else (\<lambda>c. macro_defined ''MIRROR_FLIP_INV'' c) [
          say OPTION_OK (\<lambda>c. [Lit ''='', D (of_bool (\<not> (u8 ''NMIRROR'' c \<noteq> 0)))])] [say OPTION_OK (\<lambda>c. [Lit ''='', D (u8 ''NMIRROR'' c)])],
        ret],
      do_once [
        if_then (\<lambda>c. numeric_check (val c) < 0) [brk],
        bind (\<lambda>c. if macro_defined ''MIRROR_FLIP_INV'' c then of_bool (\<not> (atoi (val c) \<noteq> 0)) else to_u8 (atoi (val c))) (\<lambda>value. [
          if_then (\<lambda>c. value > max_of ''NMIRROR'' c) [brk],
          if_then (\<lambda>c. u8 ''NMIRROR'' c \<noteq> value) [control_data ''SFIELD_SET_MIRROR'' (\<lambda>c. Num 1 value) (\<lambda>_. [])],
          say OPTION_OK (\<lambda>_. []),
          ret])],
      say OPTION_NG (\<lambda>_. [])] [say OPTION_NS (\<lambda>_. [])]]"

definition set_flip :: "'w command" where [command_defs]:
  "set_flip = [
    if_else (\<lambda>c. macro_defined ''SUPPORT_FLIP'' c) [
      if_then (\<lambda>c. val c = []) [
        if_else (\<lambda>c. macro_defined ''MIRROR_FLIP_INV'' c) [
          say OPTION_OK (\<lambda>c. [Lit ''='', D (of_bool (\<not> (u8 ''NFLIP'' c \<noteq> 0)))])] [say OPTION_OK (\<lambda>c. [Lit ''='', D (u8 ''NFLIP'' c)])],
        ret],
      do_once [
        if_then (\<lambda>c. numeric_check (val c) < 0) [brk],
        bind (\<lambda>c. if macro_defined ''MIRROR_FLIP_INV'' c then of_bool (\<not> (atoi (val c) \<noteq> 0)) else to_u8 (atoi (val c))) (\<lambda>value. [
          if_then (\<lambda>c. value > max_of ''NFLIP'' c) [brk],
          if_then (\<lambda>c. u8 ''NFLIP'' c \<noteq> value) [control_data ''SFIELD_SET_FLIP'' (\<lambda>c. Num 1 value) (\<lambda>_. [])],
          say OPTION_OK (\<lambda>_. []),
          ret])],
      say OPTION_NG (\<lambda>_. [])] [say OPTION_NS (\<lambda>_. [])]]"

definition wm8978test :: "'w command" where [command_defs]:
  "wm8978test = [
    do_once [
      control_data ''SFIELD_SET_WM8978'' (\<lambda>c. Text (val c)) (\<lambda>_. []),
      say OPTION_OK (\<lambda>c. [Lit ''='', Str (val c)]),
      ret],
    say OPTION_NG (\<lambda>_. [])]"

definition set_muteenable :: "'w command" where [command_defs]:
  "set_muteenable = [
    if_else (\<lambda>c. list_ex (\<lambda>x. macro_defined x c) [''SENSOR_USE_TC922'', ''SENSOR_USE_MT9V136'', ''SENSOR_USE_IMX035'', ''SENSOR_USE_TVP5150'', ''SENSOR_USE_OV2715'', ''IMGS_TS2713'', ''IMGS_ADV7180'', ''SENSOR_USE_TVP5150_MDIN270'', ''SENSOR_USE_OV9715'']) [
      bind (\<lambda>c. (if atoi (val c) \<noteq> 0 then 0 else 1)) (\<lambda>value. [
        do_once [
          if_then (\<lambda>c. u8 ''AUDIOINENABLE'' c \<noteq> value) [control_data ''SFIELD_SET_AUDIOENABLE'' (\<lambda>c. Num 1 value) (\<lambda>_. [])],
          say OPTION_OK (\<lambda>_. []),
          ret],
        say OPTION_NG (\<lambda>_. [])])] [say OPTION_NG (\<lambda>_. [])]]"

definition set_externalmicgain :: "'w command" where [command_defs]:
  "set_externalmicgain = [
    if_then (\<lambda>c. val c = []) [say OPTION_OK (\<lambda>c. [Lit ''='', Str (conf_string ''EXTERNALMICGAIN'' c)]), ret],
    do_once [
      if_then (\<lambda>c. \<not> (val c = macro_str ''AUDIOINGAIN_20_DB'' c) \<and> \<not> (val c = macro_str ''AUDIOINGAIN_26_DB'' c)) [brk],
      if_then (\<lambda>c. \<not> (conf_string ''EXTERNALMICGAIN'' c = val c)) [
        control_data ''SFIELD_SET_EXTERNAL_MICINGAIN'' (\<lambda>c. Text (val c @ [NUL])) (\<lambda>_. [])],
      say OPTION_OK (\<lambda>_. []),
      ret],
    say OPTION_NG (\<lambda>_. [])]"

definition set_micgain :: "'w command" where [command_defs]:
  "set_micgain = [
    if_else (\<lambda>c. list_ex (\<lambda>x. macro_defined x c) [''SENSOR_USE_TVP5150'', ''SENSOR_USE_MT9V136'', ''SENSOR_USE_IMX035'', ''SENSOR_USE_OV2715'', ''IMGS_TS2713'', ''IMGS_ADV7180'', ''SENSOR_USE_TVP5150_MDIN270'', ''SENSOR_USE_OV9715'']) [
      bind (\<lambda>c. 0) (\<lambda>value. [
        bind (\<lambda>c. if val c = macro_str ''MICGAIN_1'' c then 0 else if val c = macro_str ''MICGAIN_2'' c then 1 else value) (\<lambda>value. [
          do_once [
            if_then (\<lambda>c. u8 ''MICININPUTGAIN'' c \<noteq> value) [control_data ''SFIELD_SET_MICINGAIN'' (\<lambda>c. Num 1 value) (\<lambda>_. [])],
            say OPTION_OK (\<lambda>_. []),
            ret],
          say OPTION_NG (\<lambda>_. [])])])] [say OPTION_NG (\<lambda>_. [])]]"

definition set_gamma :: "'w command" where [command_defs]:
  "set_gamma = [
    if_else (\<lambda>c. list_ex (\<lambda>x. macro_defined x c) [''SENSOR_USE_TC922'', ''SENSOR_USE_IMX035'']) [
      bind (\<lambda>c. to_u8 (atoi (val c))) (\<lambda>value. [
        do_once [
          if_then (\<lambda>c. u8 ''NGAMMA'' c \<noteq> value) [control_data ''SFIELD_SET_GAMMA'' (\<lambda>c. Num 1 value) (\<lambda>_. [])],
          say OPTION_OK (\<lambda>_. []),
          ret],
        say OPTION_NG (\<lambda>_. [])])] [say OPTION_NS (\<lambda>_. [])]]"

definition set_isupdatecal :: "'w command" where [command_defs]:
  "set_isupdatecal = [
    if_else (\<lambda>c. list_ex (\<lambda>x. macro_defined x c) [''SENSOR_USE_TC922'', ''SENSOR_USE_IMX035'', ''SENSOR_USE_IMX036'', ''SENSOR_USE_IMX076'', ''SENSOR_USE_OV2715'', ''SENSOR_USE_OV9715'']) [
      bind (\<lambda>c. to_u8 (atoi (val c))) (\<lambda>value. [
        do_once [
          if_then (\<lambda>c. u8 ''AWBISUPDATECAL'' c \<noteq> value) [control_data ''SFIELD_SET_ISUPDATECAL'' (\<lambda>c. Num 1 value) (\<lambda>_. [])],
          say OPTION_OK (\<lambda>_. []),
          ret],
        say OPTION_NG (\<lambda>_. [])])] [say OPTION_NG (\<lambda>_. [])]]"

definition set_rgain :: "'w command" where [command_defs]:
  "set_rgain = [
    if_else (\<lambda>c. list_ex (\<lambda>x. macro_defined x c) [''SENSOR_USE_TC922'', ''SENSOR_USE_IMX035'', ''SENSOR_USE_IMX036'', ''SENSOR_USE_IMX076'', ''SENSOR_USE_OV2715'', ''SENSOR_USE_OV9715'']) [
      bind (\<lambda>c. atoi (val c)) (\<lambda>value. [
        do_once [
          if_then (\<lambda>c. ivalue ''RGAIN'' c \<noteq> value) [control_data ''SFIELD_SET_RGAIN'' (\<lambda>c. Num 4 value) (\<lambda>_. [])],
          say OPTION_OK (\<lambda>_. []),
          ret],
        say OPTION_NG (\<lambda>_. [])])] [say OPTION_NG (\<lambda>_. [])]]"

definition set_bgain :: "'w command" where [command_defs]:
  "set_bgain = [
    if_else (\<lambda>c. list_ex (\<lambda>x. macro_defined x c) [''SENSOR_USE_TC922'', ''SENSOR_USE_IMX035'', ''SENSOR_USE_IMX036'', ''SENSOR_USE_IMX076'', ''SENSOR_USE_OV2715'', ''SENSOR_USE_OV9715'']) [
      bind (\<lambda>c. atoi (val c)) (\<lambda>value. [
        do_once [
          if_then (\<lambda>c. ivalue ''BGAIN'' c \<noteq> value) [control_data ''SFIELD_SET_BGAIN'' (\<lambda>c. Num 4 value) (\<lambda>_. [])],
          say OPTION_OK (\<lambda>_. []),
          ret],
        say OPTION_NG (\<lambda>_. [])])] [say OPTION_NG (\<lambda>_. [])]]"

definition set_agcctrl :: "'w command" where [command_defs]:
  "set_agcctrl = [
    if_else (\<lambda>c. list_ex (\<lambda>x. macro_defined x c) [''SUPPORT_AGC'', ''SUPPORT_EXPOSURETIME'']) [
      if_then (\<lambda>c. val c = []) [say OPTION_OK (\<lambda>c. [Lit ''='', D (u8 ''AGCCTRL'' c)]), ret],
      do_once [
        if_then (\<lambda>c. macro_val ''EXPOSURETYPE'' c = macro_val ''EXPOSUREMODE_SELECT'' c) [brk],
        if_then (\<lambda>c. numeric_check (val c) < 0) [brk],
        bind (\<lambda>c. to_u8 (atoi (val c))) (\<lambda>value. [
          if_then (\<lambda>c. value > max_of ''AGCCTRL'' c) [brk],
          if_then (\<lambda>c. u8 ''AGCCTRL'' c \<noteq> value) [write_info ''AGCCTRL'' (\<lambda>c. Num 1 value) (\<lambda>_. [])],
          say OPTION_OK (\<lambda>_. []),
          ret])],
      say OPTION_NG (\<lambda>_. [])] [say OPTION_NS (\<lambda>_. [])]]"

definition set_videoalc :: "'w command" where [command_defs]:
  "set_videoalc = [
    bind (\<lambda>c. to_u8 (atoi (val c))) (\<lambda>value. [
      do_once [
        if_then (\<lambda>c. u8 ''NVIDEOALC'' c \<noteq> value) [control_data ''SFIELD_SET_VIDEOALC'' (\<lambda>c. Num 1 value) (\<lambda>_. [])],
        say OPTION_OK (\<lambda>_. []),
        ret],
      say OPTION_NG (\<lambda>_. [])])]"

definition get_contrast :: "'w command" where [command_defs]:
  "get_contrast = [
    if_else (\<lambda>c. macro_defined ''SUPPORT_CONTRAST'' c) [say OPTION_OK (\<lambda>c. [Lit ''='', D (u8 ''NCONTRAST'' c)])] [say OPTION_NS (\<lambda>_. [])]]"

definition get_hue :: "'w command" where [command_defs]:
  "get_hue = [
    if_else (\<lambda>c. macro_defined ''SUPPORT_HUE'' c) [say OPTION_OK (\<lambda>c. [Lit ''='', D (u8 ''NHUE'' c)])] [say OPTION_NS (\<lambda>_. [])]]"

definition get_saturation :: "'w command" where [command_defs]:
  "get_saturation = [
    if_else (\<lambda>c. macro_defined ''SUPPORT_SATURATION'' c) [say OPTION_OK (\<lambda>c. [Lit ''='', D (u8 ''NSATURATION'' c)])] [say OPTION_NS (\<lambda>_. [])]]"

definition set_hspeedshutter :: "'w command" where [command_defs]:
  "set_hspeedshutter = [
    if_else (\<lambda>c. macro_defined ''SUPPORT_HSPEEDSHUTTER'' c) [
      if_then (\<lambda>c. val c = []) [say OPTION_OK (\<lambda>c. [Lit ''='', D (u8 ''NHSPEEDSHUTTER'' c)]), ret],
      bind (\<lambda>c. to_u8 (atoi (val c))) (\<lambda>value. [
        do_once [
          if_then (\<lambda>c. value > max_of ''NHSPEEDSHUTTER'' c) [brk],
          if_then (\<lambda>c. u8 ''NHSPEEDSHUTTER'' c \<noteq> value) [control_data ''SFIELD_SET_HSPEEDSHUTTER'' (\<lambda>c. Num 1 value) (\<lambda>_. [])],
          say OPTION_OK (\<lambda>_. []),
          ret],
        say OPTION_NG (\<lambda>_. [])])] [say OPTION_NS (\<lambda>_. [])]]"

definition set_backlight :: "'w command" where [command_defs]:
  "set_backlight = [
    if_else (\<lambda>c. macro_defined ''SUPPORT_BACKLIGHT'' c) [
      if_then (\<lambda>c. val c = []) [say OPTION_OK (\<lambda>c. [Lit ''='', D (u8 ''NBACKLIGHT'' c)]), ret],
      bind (\<lambda>c. to_u8 (atoi (val c))) (\<lambda>value. [
        do_once [
          if_then (\<lambda>c. value > max_of ''NBACKLIGHT'' c) [brk],
          if_then (\<lambda>c. u8 ''NBACKLIGHT'' c \<noteq> value) [control_data ''SFIELD_SET_BACKLIGHT'' (\<lambda>c. Num 1 value) (\<lambda>_. [])],
          say OPTION_OK (\<lambda>_. []),
          ret],
        say OPTION_NG (\<lambda>_. [])])] [say OPTION_NS (\<lambda>_. [])]]"

definition set_brightness :: "'w command" where [command_defs]:
  "set_brightness = [
    if_else (\<lambda>c. macro_defined ''SUPPORT_BRIGHTNESS'' c) [
      if_then (\<lambda>c. val c = []) [say OPTION_OK (\<lambda>c. [Lit ''='', D (u8 ''NBRIGHTNESS'' c)]), ret],
      do_once [
        if_then (\<lambda>c. numeric_check (val c) < 0) [brk],
        bind (\<lambda>c. to_u8 (atoi (val c))) (\<lambda>value. [
          bind (\<lambda>c. if macro_defined ''IMAGE_8_ORDER'' c then to_u8 (value * 29) else value) (\<lambda>value. [
            if_then (\<lambda>c. value > max_of ''NBRIGHTNESS'' c) [brk],
            if_then (\<lambda>c. u8 ''NBRIGHTNESS'' c \<noteq> value) [control_data ''SFIELD_SET_BRIGHTNESS'' (\<lambda>c. Num 1 value) (\<lambda>_. [])],
            say OPTION_OK (\<lambda>_. []),
            ret])])],
      say OPTION_NG (\<lambda>_. [])] [say OPTION_NS (\<lambda>_. [])]]"

definition set_denoise :: "'w command" where [command_defs]:
  "set_denoise = [
    if_else (\<lambda>c. macro_defined ''SUPPORT_DENOISE'' c) [
      if_then (\<lambda>c. val c = []) [say OPTION_OK (\<lambda>c. [Lit ''='', D (u8 ''NDENOISE'' c)]), ret],
      do_once [
        if_then (\<lambda>c. numeric_check (val c) < 0) [brk],
        bind (\<lambda>c. to_u8 (atoi (val c))) (\<lambda>value. [
          if_then (\<lambda>c. value > max_of ''NDENOISE'' c) [brk],
          if_then (\<lambda>c. u8 ''NDENOISE'' c \<noteq> value) [control_data ''SFIELD_SET_DENOISE'' (\<lambda>c. Num 1 value) (\<lambda>_. [])],
          say OPTION_OK (\<lambda>_. []),
          ret])],
      say OPTION_NG (\<lambda>_. [])] [say OPTION_NS (\<lambda>_. [])]]"

definition set_evcomp :: "'w command" where [command_defs]:
  "set_evcomp = [
    if_else (\<lambda>c. macro_defined ''SUPPORT_EVCOMP'' c) [
      if_then (\<lambda>c. val c = []) [say OPTION_OK (\<lambda>c. [Lit ''='', D (u8 ''NEVCOMP'' c)]), ret],
      do_once [
        if_then (\<lambda>c. numeric_check (val c) < 0) [brk],
        bind (\<lambda>c. to_u8 (atoi (val c))) (\<lambda>value. [
          if_then (\<lambda>c. value > max_of ''NEVCOMP'' c) [brk],
          if_then (\<lambda>c. u8 ''NEVCOMP'' c \<noteq> value) [control_data ''SFIELD_SET_EVCOMP'' (\<lambda>c. Num 1 value) (\<lambda>_. [])],
          say OPTION_OK (\<lambda>_. []),
          ret])],
      say OPTION_NG (\<lambda>_. [])] [say OPTION_NS (\<lambda>_. [])]]"

definition set_dremode :: "'w command" where [command_defs]:
  "set_dremode = [
    if_else (\<lambda>c. macro_defined ''SUPPORT_DREMODE'' c) [
      if_then (\<lambda>c. val c = []) [say OPTION_OK (\<lambda>c. [Lit ''='', D (u8 ''NDREMODE'' c)]), ret],
      do_once [
        if_then (\<lambda>c. numeric_check (val c) < 0) [brk],
        bind (\<lambda>c. to_u8 (atoi (val c))) (\<lambda>value. [
          if_then (\<lambda>c. value > max_of ''NDREMODE'' c) [brk],
          if_then (\<lambda>c. u8 ''NDREMODE'' c \<noteq> value) [control_data ''SFIELD_SET_DREMODE'' (\<lambda>c. Num 1 value) (\<lambda>_. [])],
          say OPTION_OK (\<lambda>_. []),
          ret])],
      say OPTION_NG (\<lambda>_. [])] [say OPTION_NS (\<lambda>_. [])]]"

definition set_contrast :: "'w command" where [command_defs]:
  "set_contrast = [
    if_else (\<lambda>c. macro_defined ''SUPPORT_CONTRAST'' c) [
      if_then (\<lambda>c. val c = []) [say OPTION_OK (\<lambda>c. [Lit ''='', D (u8 ''NCONTRAST'' c)]), ret],
      do_once [
        if_then (\<lambda>c. numeric_check (val c) < 0) [brk],
        bind (\<lambda>c. to_u8 (atoi (val c))) (\<lambda>value. [
          bind (\<lambda>c. if macro_defined ''IMAGE_8_ORDER'' c then to_u8 (value * 29) else value) (\<lambda>value. [
            if_then (\<lambda>c. value > max_of ''NCONTRAST'' c) [brk],
            if_then (\<lambda>c. u8 ''NCONTRAST'' c \<noteq> value) [control_data ''SFIELD_SET_CONTRAST'' (\<lambda>c. Num 1 value) (\<lambda>_. [])],
            say OPTION_OK (\<lambda>_. []),
            ret])])],
      say OPTION_NG (\<lambda>_. [])] [say OPTION_NS (\<lambda>_. [])]]"

definition set_saturation :: "'w command" where [command_defs]:
  "set_saturation = [
    if_else (\<lambda>c. macro_defined ''SUPPORT_SATURATION'' c) [
      if_then (\<lambda>c. val c = []) [say OPTION_OK (\<lambda>c. [Lit ''='', D (u8 ''NSATURATION'' c)]), ret],
      do_once [
        if_then (\<lambda>c. numeric_check (val c) < 0) [brk],
        bind (\<lambda>c. to_u8 (atoi (val c))) (\<lambda>value. [
          if_then (\<lambda>c. value > max_of ''NSATURATION'' c) [brk],
          if_then (\<lambda>c. u8 ''NSATURATION'' c \<noteq> value) [control_data ''SFIELD_SET_SATURATION'' (\<lambda>c. Num 1 value) (\<lambda>_. [])],
          say OPTION_OK (\<lambda>_. []),
          ret])],
      say OPTION_NG (\<lambda>_. [])] [say OPTION_NS (\<lambda>_. [])]]"

definition set_hue :: "'w command" where [command_defs]:
  "set_hue = [
    if_else (\<lambda>c. macro_defined ''SUPPORT_HUE'' c) [
      if_then (\<lambda>c. val c = []) [say OPTION_OK (\<lambda>c. [Lit ''='', D (u8 ''NHUE'' c)]), ret],
      bind (\<lambda>c. to_u8 (atoi (val c))) (\<lambda>value. [
        do_once [
          if_then (\<lambda>c. value > max_of ''NHUE'' c) [brk],
          if_then (\<lambda>c. u8 ''NHUE'' c \<noteq> value) [control_data ''SFIELD_SET_HUE'' (\<lambda>c. Num 1 value) (\<lambda>_. [])],
          say OPTION_OK (\<lambda>_. []),
          ret],
        say OPTION_NG (\<lambda>_. [])])] [say OPTION_NS (\<lambda>_. [])]]"

definition set_sharpness :: "'w command" where [command_defs]:
  "set_sharpness = [
    if_else (\<lambda>c. macro_defined ''SUPPORT_SHARPNESS'' c) [
      if_then (\<lambda>c. val c = []) [say OPTION_OK (\<lambda>c. [Lit ''='', D (u8 ''NSHARPNESS'' c)]), ret],
      do_once [
        if_then (\<lambda>c. numeric_check (val c) < 0) [brk],
        bind (\<lambda>c. to_u8 (atoi (val c))) (\<lambda>value. [
          bind (\<lambda>c. if macro_defined ''IMAGE_8_ORDER'' c then to_u8 (value * 29) else value) (\<lambda>value. [
            if_then (\<lambda>c. value > max_of ''NSHARPNESS'' c) [brk],
            if_then (\<lambda>c. u8 ''NSHARPNESS'' c \<noteq> value) [control_data ''SFIELD_SET_SHARPNESS'' (\<lambda>c. Num 1 value) (\<lambda>_. [])],
            say OPTION_OK (\<lambda>_. []),
            ret])])],
      say OPTION_NG (\<lambda>_. [])] [say OPTION_NS (\<lambda>_. [])]]"

definition set_wdrenable :: "'w command" where [command_defs]:
  "set_wdrenable = [
    if_else (\<lambda>c. macro_defined ''SUPPORT_WDRLEVEL'' c) [
      if_then (\<lambda>c. val c = []) [say OPTION_OK (\<lambda>c. [Lit ''='', D (u8 ''WDR_EN'' c)]), ret],
      do_once [
        if_then (\<lambda>c. numeric_check (val c) < 0) [brk],
        bind (\<lambda>c. to_u8 (atoi (val c))) (\<lambda>value. [
          if_then (\<lambda>c. value > max_of ''WDR_EN'' c) [brk],
          if_then (\<lambda>c. u8 ''WDR_EN'' c \<noteq> value) [control_data ''SFIELD_SET_WDR_ENABLE'' (\<lambda>c. Num 1 value) (\<lambda>_. [])],
          say OPTION_OK (\<lambda>_. []),
          ret])],
      say OPTION_NG (\<lambda>_. [])] [say OPTION_NS (\<lambda>_. [])]]"

definition set_wdrlevel :: "'w command" where [command_defs]:
  "set_wdrlevel = [
    if_else (\<lambda>c. macro_defined ''SUPPORT_WDRLEVEL'' c) [
      if_then (\<lambda>c. val c = []) [say OPTION_OK (\<lambda>c. [Lit ''='', D (u8 ''WDR_LEVEL'' c)]), ret],
      do_once [
        if_then (\<lambda>c. numeric_check (val c) < 0) [brk],
        bind (\<lambda>c. to_u8 (atoi (val c))) (\<lambda>value. [
          if_then (\<lambda>c. value > max_of ''WDR_LEVEL'' c) [brk],
          if_then (\<lambda>c. u8 ''WDR_LEVEL'' c \<noteq> value) [control_data ''SFIELD_SET_WDR_LEVEL'' (\<lambda>c. Num 1 value) (\<lambda>_. [])],
          say OPTION_OK (\<lambda>_. []),
          ret])],
      say OPTION_NG (\<lambda>_. [])] [say OPTION_NS (\<lambda>_. [])]]"

definition get_sharpness :: "'w command" where [command_defs]:
  "get_sharpness = [
    if_else (\<lambda>c. macro_defined ''SUPPORT_SHARPNESS'' c) [say OPTION_OK (\<lambda>c. [Lit ''='', D (u8 ''NSHARPNESS'' c)])] [say OPTION_NS (\<lambda>_. [])]]"

definition get_vidcodec :: "'w command" where [command_defs]:
  "get_vidcodec = [
    do_once [say OPTION_OK (\<lambda>c. [Lit ''='', D (sysinfo ''procs_status.avserver'' c)]), ret],
    say OPTION_NG (\<lambda>_. [])]"

definition set_videocodecdebug :: "'w command" where [command_defs]:
  "set_videocodecdebug = [
    do_once [
      if_else (\<lambda>c. atoi (val c) = 1) [
        store_info ''osd_debug.avserver_restart'' (\<lambda>c. macro_val ''OSD_DEBUG_ENABLE'' c),
        extern_call ''osd_init'' (\<lambda>c. [])] [
        if_else (\<lambda>c. atoi (val c) = 0) [
          store_info ''osd_debug.avserver_restart'' (\<lambda>c. macro_val ''OSD_DEBUG_DISABLE'' c),
          extern_call ''osd_exit'' (\<lambda>c. [])] [brk]],
      say OPTION_OK (\<lambda>_. []),
      ret],
    say OPTION_NG (\<lambda>_. [])]"

definition get_motionsensitivity :: "'w command" where [command_defs]:
  "get_motionsensitivity = [
    if_else (\<lambda>c. macro_defined ''SUPPORT_MOTION'' c) [say OPTION_OK (\<lambda>c. [Lit ''='', D (u16 ''MOTION_CONFIG_MOTIONCVALUE'' c)])] [say OPTION_NS (\<lambda>_. [])]]"

definition get_motionmax :: "'w command" where [command_defs]:
  "get_motionmax = [
    if_else (\<lambda>c. macro_defined ''SUPPORT_MOTION'' c) [say OPTION_OK (\<lambda>c. [Lit ''='', D (macro_val ''MOTION_LEVEL_NUM'' c)])] [say OPTION_NS (\<lambda>_. [])]]"

definition get_motionenable :: "'w command" where [command_defs]:
  "get_motionenable = [
    if_else (\<lambda>c. macro_defined ''SUPPORT_MOTION'' c) [say OPTION_OK (\<lambda>c. [Lit ''='', D (u8 ''MOTION_CONFIG_MOTIONENABLE'' c)])] [say OPTION_NS (\<lambda>_. [])]]"

definition get_motion :: "'w command" where [command_defs]:
  "get_motion = [
    if_else (\<lambda>c. macro_defined ''SUPPORT_MOTION'' c) [say OPTION_OK (\<lambda>c. [Lit ''='', D (u8 ''MOTION_CONFIG_MOTIONCENABLE'' c)])] [say OPTION_NS (\<lambda>_. [])]]"

definition get_motionx1 :: "'w command" where [command_defs]:
  "get_motionx1 = [say OPTION_OK (\<lambda>c. [Lit ''='', D 0])]"

definition get_motiony1 :: "'w command" where [command_defs]:
  "get_motiony1 = [say OPTION_OK (\<lambda>c. [Lit ''='', D 0])]"

definition get_motionx2 :: "'w command" where [command_defs]:
  "get_motionx2 = [say OPTION_OK (\<lambda>c. [Lit ''='', D 0])]"

definition get_motiony2 :: "'w command" where [command_defs]:
  "get_motiony2 = [say OPTION_OK (\<lambda>c. [Lit ''='', D 0])]"

definition get_motionylimit :: "'w command" where [command_defs]:
  "get_motionylimit = [say OPTION_OK (\<lambda>c. [Lit ''='', D 480])]"

definition get_motionxlimit :: "'w command" where [command_defs]:
  "get_motionxlimit = [say OPTION_OK (\<lambda>c. [Lit ''='', D 480])]"

definition cfformat :: "'w command" where [command_defs]:
  "cfformat = [
    if_else (\<lambda>c. macro_defined ''SUPPORT_CFCARD'' c) [do_once [say OPTION_OK (\<lambda>_. []), ret], say OPTION_NG (\<lambda>_. [])] [say OPTION_NS (\<lambda>_. [])]]"

definition get_cfcount :: "'w command" where [command_defs]:
  "get_cfcount = [
    if_else (\<lambda>c. macro_defined ''SUPPORT_CFCARD'' c) [do_once [say OPTION_OK (\<lambda>_. []), ret], say OPTION_NG (\<lambda>_. [])] [say OPTION_NS (\<lambda>_. [])]]"

definition set_cfcount :: "'w command" where [command_defs]:
  "set_cfcount = [
    if_else (\<lambda>c. macro_defined ''SUPPORT_CFCARD'' c) [do_once [say OPTION_OK (\<lambda>_. []), ret], say OPTION_NG (\<lambda>_. [])] [say OPTION_NS (\<lambda>_. [])]]"

definition set_cfduration :: "'w command" where [command_defs]:
  "set_cfduration = [
    if_else (\<lambda>c. macro_defined ''SUPPORT_CFCARD'' c) [do_once [say OPTION_OK (\<lambda>_. []), ret], say OPTION_NG (\<lambda>_. [])] [say OPTION_NS (\<lambda>_. [])]]"

definition get_cfduration :: "'w command" where [command_defs]:
  "get_cfduration = [
    if_else (\<lambda>c. macro_defined ''SUPPORT_CFCARD'' c) [say OPTION_OK (\<lambda>_. [])] [say OPTION_NS (\<lambda>_. [])]]"

definition get_cferror :: "'w command" where [command_defs]:
  "get_cferror = [
    if_else (\<lambda>c. macro_defined ''SUPPORT_CFCARD'' c) [say OPTION_OK (\<lambda>_. [])] [say OPTION_NS (\<lambda>_. [])]]"

definition get_cfleft :: "'w command" where [command_defs]:
  "get_cfleft = [
    if_else (\<lambda>c. macro_defined ''SUPPORT_CFCARD'' c) [say OPTION_OK (\<lambda>_. [])] [say OPTION_NS (\<lambda>_. [])]]"

definition set_cfrate :: "'w command" where [command_defs]:
  "set_cfrate = [
    if_else (\<lambda>c. macro_defined ''SUPPORT_CFCARD'' c) [say OPTION_OK (\<lambda>_. [])] [say OPTION_NS (\<lambda>_. [])]]"

definition get_cfrate :: "'w command" where [command_defs]:
  "get_cfrate = [
    if_else (\<lambda>c. macro_defined ''SUPPORT_CFCARD'' c) [say OPTION_OK (\<lambda>_. [])] [say OPTION_NS (\<lambda>_. [])]]"

definition set_cfrecordtype :: "'w command" where [command_defs]:
  "set_cfrecordtype = [
    if_else (\<lambda>c. macro_defined ''SUPPORT_CFCARD'' c) [do_once [say OPTION_OK (\<lambda>_. []), ret], say OPTION_NG (\<lambda>_. [])] [say OPTION_NS (\<lambda>_. [])]]"

definition get_cfrecordtype :: "'w command" where [command_defs]:
  "get_cfrecordtype = [
    if_else (\<lambda>c. macro_defined ''SUPPORT_CFCARD'' c) [say OPTION_OK (\<lambda>_. [])] [say OPTION_NS (\<lambda>_. [])]]"

definition set_cfrenable :: "'w command" where [command_defs]:
  "set_cfrenable = [
    if_else (\<lambda>c. macro_defined ''SUPPORT_CFCARD'' c) [do_once [say OPTION_OK (\<lambda>_. []), ret], say OPTION_NG (\<lambda>_. [])] [say OPTION_NS (\<lambda>_. [])]]"

definition get_cfrenable :: "'w command" where [command_defs]:
  "get_cfrenable = [
    if_else (\<lambda>c. macro_defined ''SUPPORT_CFCARD'' c) [say OPTION_OK (\<lambda>_. [])] [say OPTION_NS (\<lambda>_. [])]]"

definition get_cfsize :: "'w command" where [command_defs]:
  "get_cfsize = [
    if_else (\<lambda>c. macro_defined ''SUPPORT_CFCARD'' c) [say OPTION_OK (\<lambda>_. [])] [say OPTION_NS (\<lambda>_. [])]]"

definition get_cfstatus :: "'w command" where [command_defs]:
  "get_cfstatus = [
    if_else (\<lambda>c. macro_defined ''SUPPORT_CFCARD'' c) [say OPTION_OK (\<lambda>_. [])] [say OPTION_NS (\<lambda>_. [])]]"

definition get_cfused :: "'w command" where [command_defs]:
  "get_cfused = [
    if_else (\<lambda>c. macro_defined ''SUPPORT_CFCARD'' c) [say OPTION_OK (\<lambda>_. [])] [say OPTION_NS (\<lambda>_. [])]]"

definition set_cfaenable :: "'w command" where [command_defs]:
  "set_cfaenable = [
    if_else (\<lambda>c. macro_defined ''SUPPORT_CFCARD'' c) [do_once [say OPTION_OK (\<lambda>_. []), ret], say OPTION_NG (\<lambda>_. [])] [say OPTION_NS (\<lambda>_. [])]]"

definition get_cfaenable :: "'w command" where [command_defs]:
  "get_cfaenable = [
    if_else (\<lambda>c. macro_defined ''SUPPORT_CFCARD'' c) [say OPTION_OK (\<lambda>_. [])] [say OPTION_NS (\<lambda>_. [])]]"

definition get_title :: "'w command" where [command_defs]:
  "get_title = [say OPTION_OK (\<lambda>c. [Lit ''='', Str (conf_string ''TITLE'' c)])]"

definition get_helpurl :: "'w command" where [command_defs]:
  "get_helpurl = [say OPTION_OK (\<lambda>c. [Lit ''=http://www.approtech.com''])]"

definition antiflicker :: "'w command" where [command_defs]:
  "antiflicker = [
    if_else (\<lambda>c. macro_defined ''SUPPORT_ANTIFLICKER'' c) [
      if_then (\<lambda>c. val c = []) [say OPTION_OK (\<lambda>c. [Lit ''='', D (u8 ''ANTIFLICKER'' c)]), ret],
      do_once [
        if_then (\<lambda>c. numeric_check (val c) < 0) [brk],
        bind (\<lambda>c. to_u8 (atoi (val c))) (\<lambda>value. [
          control_data ''SFIELD_SET_ANTIFLICKER'' (\<lambda>c. Num 1 value) (\<lambda>ret_val. [if_then (\<lambda>c. ret_val < 0) [brk]]),
          say OPTION_OK (\<lambda>c. [Lit ''='', D value]),
          ret])],
      say OPTION_NG (\<lambda>_. [])] [say OPTION_NS (\<lambda>_. [])]]"

definition flickless :: "'w command" where [command_defs]:
  "flickless = [
    if_else (\<lambda>c. macro_defined ''SUPPORT_FLICKLESS'' c) [
      if_then (\<lambda>c. val c = []) [say OPTION_OK (\<lambda>c. [Lit ''='', D (u8 ''NVIDEOMODE'' c)]), ret],
      do_once [
        if_then (\<lambda>c. numeric_check (val c) < 0) [brk],
        bind (\<lambda>c. to_u8 (atoi (val c))) (\<lambda>value. [
          if_then (\<lambda>c. value > macro_val ''VIDEO_SYSTEM_PAL'' c) [brk],
          if_then (\<lambda>c. sysinfo ''video_type'' c \<noteq> value) [
            if_then (\<lambda>c. sysinfo ''osd_debug.avserver_restart'' c = macro_val ''OSD_DEBUG_ENABLE'' c) [
              extern_call ''osd_print'' (\<lambda>c. [Num 4 3, Num 4 4, Text ''powerline set reset_status''])],
            store_info ''procs_status.reset_status'' (\<lambda>c. macro_val ''NEED_RESET'' c),
            control_data ''SFIELD_SET_FLICKLESS'' (\<lambda>c. Num 1 value) (\<lambda>_. [])],
          say OPTION_OK (\<lambda>c. [Lit ''='', D value]),
          ret])],
      say OPTION_NG (\<lambda>_. [])] [say OPTION_NS (\<lambda>_. [])]]"

definition getflickless :: "'w command" where [command_defs]:
  "getflickless = [
    if_else (\<lambda>c. macro_defined ''SUPPORT_FLICKLESS'' c) [say OPTION_OK (\<lambda>c. [Lit ''='', D (u8 ''NVIDEOMODE'' c)])] [say OPTION_NS (\<lambda>_. [])]]"

definition set_vspanspeed :: "'w command" where [command_defs]:
  "set_vspanspeed = [
    if_else (\<lambda>c. macro_defined ''SUPPORT_VISCA'' c) [
      if_then (\<lambda>c. val c = []) [say OPTION_OK (\<lambda>c. [Lit ''='', D (u8 ''VISCA_PAN_SPEED'' c)]), ret],
      do_once [
        if_then (\<lambda>c. numeric_check (val c) < 0) [brk],
        bind (\<lambda>c. to_u8 (atoi (val c))) (\<lambda>value. [
          if_then (\<lambda>c. value < 1 \<or> value > max_of ''VISCA_PAN_SPEED'' c) [brk],
          if_then (\<lambda>c. u8 ''VISCA_PAN_SPEED'' c \<noteq> value) [write_info ''VISCA_PAN_SPEED'' (\<lambda>c. Num 1 value) (\<lambda>_. [])],
          say OPTION_OK (\<lambda>_. []),
          ret])],
      say OPTION_NG (\<lambda>_. [])] [say OPTION_NS (\<lambda>_. [])]]"

definition set_vstiltspeed :: "'w command" where [command_defs]:
  "set_vstiltspeed = [
    if_else (\<lambda>c. macro_defined ''SUPPORT_VISCA'' c) [
      if_then (\<lambda>c. val c = []) [say OPTION_OK (\<lambda>c. [Lit ''='', D (u8 ''VISCA_TILT_SPEED'' c)]), ret],
      do_once [
        if_then (\<lambda>c. numeric_check (val c) < 0) [brk],
        bind (\<lambda>c. to_u8 (atoi (val c))) (\<lambda>value. [
          if_then (\<lambda>c. value < 1 \<or> value > max_of ''VISCA_TILT_SPEED'' c) [brk],
          if_then (\<lambda>c. u8 ''VISCA_TILT_SPEED'' c \<noteq> value) [write_info ''VISCA_TILT_SPEED'' (\<lambda>c. Num 1 value) (\<lambda>_. [])],
          say OPTION_OK (\<lambda>_. []),
          ret])],
      say OPTION_NG (\<lambda>_. [])] [say OPTION_NS (\<lambda>_. [])]]"

definition get_vsburnstatus :: "'w command" where [command_defs]:
  "get_vsburnstatus = [
    if_else (\<lambda>c. sysinfo ''visca_burn_status'' c = 0) [say OPTION_OK (\<lambda>c. [Lit ''='', Str ''Stop''])] [
      if_else (\<lambda>c. sysinfo ''visca_burn_status'' c = 1) [say OPTION_OK (\<lambda>c. [Lit ''='', Str ''Running''])] [
        if_else (\<lambda>c. sysinfo ''visca_burn_status'' c = 2) [say OPTION_OK (\<lambda>c. [Lit ''='', Str ''Fail''])] [say OPTION_NG (\<lambda>_. [])]]],
    ret]"

definition set_vswintimezone :: "'w command" where [command_defs]:
  "set_vswintimezone = [
    if_else (\<lambda>c. macro_defined ''SUPPORT_WIN_TIMEZONE'' c) [
      if_then (\<lambda>c. val c = []) [say OPTION_OK (\<lambda>c. [Lit ''='', D (u8 ''NTP_TIMEZONE'' c)]), ret],
      do_once [
        if_then (\<lambda>c. numeric_check (val c) < 0) [brk],
        bind (\<lambda>c. atoi (val c)) (\<lambda>value. [
          if_then (\<lambda>c. value < min_of ''NTP_TIMEZONE'' c \<or> value > max_of ''NTP_TIMEZONE'' c) [brk],
          if_then (\<lambda>c. u8 ''NTP_TIMEZONE'' c \<noteq> value) [
            control_data ''SFIELD_SET_TIMEZONE'' (\<lambda>c. Num 4 value) (\<lambda>_. []),
            extern_call ''setenv'' (\<lambda>c. [Text ''TZ'', Text (sysinfo_str ''tzenv'' c), Num 4 1]),
            extern_call ''tzset'' (\<lambda>c. [])],
          say OPTION_OK (\<lambda>_. []),
          ret])],
      say OPTION_NG (\<lambda>_. [])] [say OPTION_NS (\<lambda>_. [])]]"

definition get_liveresolution :: "'w command" where [command_defs]:
  "get_liveresolution = [say OPTION_OK (\<lambda>c. [Lit ''='', D 3])]"

definition get_localaic :: "'w command" where [command_defs]:
  "get_localaic = [say OPTION_OK (\<lambda>c. [Lit ''='', Str ''WM8978G''])]"

definition get_localdecoder :: "'w command" where [command_defs]:
  "get_localdecoder = [say OPTION_OK (\<lambda>c. [Lit ''='', Str ''NONE''])]"

definition get_localflash :: "'w command" where [command_defs]:
  "get_localflash = [say OPTION_OK (\<lambda>c. [Lit ''='', Str ''Samsung NAND 32MiB 3,3V 8-bit''])]"

definition get_localnic :: "'w command" where [command_defs]:
  "get_localnic = [say OPTION_OK (\<lambda>c. [Lit ''='', Str ''DM9000AE''])]"

definition get_localsdram :: "'w command" where [command_defs]:
  "get_localsdram = [say OPTION_OK (\<lambda>c. [Lit ''='', Str ''K4T1G164QD-ZCE6''])]"

definition get_localsram :: "'w command" where [command_defs]:
  "get_localsram = [say OPTION_OK (\<lambda>c. [Lit ''='', Str ''NONE''])]"

subsection \<open>What they print and what they hand to the system\<close>

definition image_commands :: "'w command list" where
  "image_commands = [
    set_mirror, set_flip, set_muteenable, set_externalmicgain, set_micgain, set_gamma, set_isupdatecal, set_rgain, set_bgain,
    set_agcctrl, set_videoalc, get_contrast, get_hue, get_saturation, set_hspeedshutter, set_backlight, set_brightness, set_denoise,
    set_evcomp, set_dremode, set_contrast, set_saturation, set_hue, set_sharpness, set_wdrenable, set_wdrlevel, get_sharpness,
    get_vidcodec, set_videocodecdebug, get_motionsensitivity, get_motionmax, get_motionenable, get_motion, get_motionx1, get_motiony1,
    get_motionx2, get_motiony2, get_motionylimit, get_motionxlimit, cfformat, get_cfcount, set_cfcount, set_cfduration,
    get_cfduration, get_cferror, get_cfleft, set_cfrate, get_cfrate, set_cfrecordtype, get_cfrecordtype, set_cfrenable, get_cfrenable,
    get_cfsize, get_cfstatus, get_cfused, set_cfaenable, get_cfaenable, get_title, get_helpurl, antiflicker, flickless, getflickless,
    set_vspanspeed, set_vstiltspeed, get_vsburnstatus, set_vswintimezone, get_liveresolution, get_localaic, get_localdecoder,
    get_localflash, get_localnic, get_localsdram, get_localsram]"

lemma image_commands_answer: "list_all (answers_once S) image_commands"
  unfolding image_commands_def list.pred_inject answers_once_def command_defs by (intro conjI counting TrueI; simp add: tail_ok_def)

text \<open>The commands that set a field, with the field whose limit they check.\<close>

definition image_limits :: "(cstring \<times> 'w command) list" where
  "image_limits = [
    (''NMIRROR'', set_mirror), (''NFLIP'', set_flip), (''AGCCTRL'', set_agcctrl), (''NHSPEEDSHUTTER'', set_hspeedshutter),
    (''NBACKLIGHT'', set_backlight), (''NBRIGHTNESS'', set_brightness), (''NDENOISE'', set_denoise), (''NEVCOMP'', set_evcomp),
    (''NDREMODE'', set_dremode), (''NCONTRAST'', set_contrast), (''NSATURATION'', set_saturation), (''NHUE'', set_hue),
    (''NSHARPNESS'', set_sharpness), (''WDR_EN'', set_wdrenable), (''WDR_LEVEL'', set_wdrlevel),
    (''VISCA_PAN_SPEED'', set_vspanspeed), (''VISCA_TILT_SPEED'', set_vstiltspeed), (''NTP_TIMEZONE'', set_vswintimezone)]"

lemma image_limits_hold: "list_all (\<lambda>(F, cmd). within_limit F cmd) image_limits"
  unfolding image_limits_def list.pred_inject prod.case within_limit_def always_def command_defs by (intro conjI allI wp TrueI; simp)

end
