(* ===== verification/Boa_Api_Stream.thy ===== *)
theory Boa_Api_Stream
  imports Boa_Api
begin

unbundle bit_operations_syntax

text \<open>
  The commands for the streams (\<^verbatim>\<open>appro_api.c\<close>, third part): what the camera supports, RS-485, versions, the profiles of the
  streams.
\<close>

subsection \<open>The handlers\<close>

definition undefined_cmd :: "'w command" where [command_defs]:
  "undefined_cmd = [say OPTION_NS (\<lambda>_. [])]"

definition af_cnt :: "'w command" where [command_defs]:
  "af_cnt = [say_text (\<lambda>c. [Lit ''OK '', D (sysinfo ''af_status.cnt'' c), Lit nl])]"

definition get_supportmaskarea :: "'w command" where [command_defs]:
  "get_supportmaskarea = [
    if_else (\<lambda>c. macro_defined ''SUPPORT_MASKAREA'' c) [say OPTION_OK (\<lambda>c. [Lit ''=1''])] [say OPTION_OK (\<lambda>c. [Lit ''=0''])]]"

definition set_eptzwindowsize :: "'w command" where [command_defs]:
  "set_eptzwindowsize = [
    do_once [
      if_then (\<lambda>c. \<not> (conf_string ''PROFILE_CONFIG0_EPTZWINDOWSIZE'' c = val c)) [
        control_data ''SFIELD_SET_EPTZ_WINDOWSIZE'' (\<lambda>c. Text (val c @ [NUL])) (\<lambda>ret_val. [if_then (\<lambda>c. ret_val < 0) [brk]])],
      say OPTION_OK (\<lambda>_. []),
      ret],
    say OPTION_NG (\<lambda>_. [])]"

definition set_maskareaenable :: "'w command" where [command_defs]:
  "set_maskareaenable = [
    if_else (\<lambda>c. macro_defined ''SUPPORT_MASKAREA'' c) [
      if_then (\<lambda>c. val c = []) [say OPTION_OK (\<lambda>c. [Lit ''='', D (u8 ''MASKAREAENABLE'' c)]), ret],
      do_once [
        if_then (\<lambda>c. numeric_check (val c) < 0) [brk],
        bind (\<lambda>c. to_u8 (atoi (val c))) (\<lambda>value. [
          if_then (\<lambda>c. value > max_of ''MASKAREAENABLE'' c) [brk],
          if_then (\<lambda>c. u8 ''MASKAREAENABLE'' c \<noteq> value) [control_data ''SFIELD_SET_MASKAREA_ENABLE'' (\<lambda>c. Num 1 value) (\<lambda>_. [])],
          say OPTION_OK (\<lambda>_. []),
          ret])],
      say OPTION_NG (\<lambda>_. [])] [say OPTION_NS (\<lambda>_. [])]]"

definition get_supportonvif :: "'w command" where [command_defs]:
  "get_supportonvif = [
    if_else (\<lambda>c. macro_defined ''SUPPORT_ONVIF'' c) [say OPTION_OK (\<lambda>c. [Lit ''=1''])] [say OPTION_OK (\<lambda>c. [Lit ''=0''])]]"

definition get_supportflickless :: "'w command" where [command_defs]:
  "get_supportflickless = [
    if_else (\<lambda>c. macro_defined ''SUPPORT_FLICKLESS'' c) [say OPTION_OK (\<lambda>c. [Lit ''=1''])] [say OPTION_OK (\<lambda>c. [Lit ''=0''])]]"

definition get_supportpowerline :: "'w command" where [command_defs]:
  "get_supportpowerline = [
    if_else (\<lambda>c. macro_defined ''SUPPORT_FLICKLESS'' c) [say OPTION_OK (\<lambda>c. [Lit ''=1''])] [say OPTION_OK (\<lambda>c. [Lit ''=0''])]]"

definition get_supportagc :: "'w command" where [command_defs]:
  "get_supportagc = [
    if_else (\<lambda>c. macro_defined ''SUPPORT_AGC'' c) [say OPTION_OK (\<lambda>c. [Lit ''=1''])] [say OPTION_OK (\<lambda>c. [Lit ''=0''])]]"

definition get_supportawb :: "'w command" where [command_defs]:
  "get_supportawb = [
    if_else (\<lambda>c. macro_defined ''SUPPORT_AWB'' c) [say OPTION_OK (\<lambda>c. [Lit ''=1''])] [say OPTION_OK (\<lambda>c. [Lit ''=0''])]]"

definition get_supportbacklight :: "'w command" where [command_defs]:
  "get_supportbacklight = [
    if_else (\<lambda>c. macro_defined ''SUPPORT_BACKLIGHT'' c) [say OPTION_OK (\<lambda>c. [Lit ''=1''])] [say OPTION_OK (\<lambda>c. [Lit ''=0''])]]"

definition get_supportblcmode :: "'w command" where [command_defs]:
  "get_supportblcmode = [
    if_else (\<lambda>c. macro_defined ''SUPPORT_BLCMODE'' c) [say OPTION_OK (\<lambda>c. [Lit ''=1''])] [say OPTION_OK (\<lambda>c. [Lit ''=0''])]]"

definition get_supportbrightness :: "'w command" where [command_defs]:
  "get_supportbrightness = [
    if_else (\<lambda>c. macro_defined ''SUPPORT_BRIGHTNESS'' c) [say OPTION_OK (\<lambda>c. [Lit ''=1''])] [say OPTION_OK (\<lambda>c. [Lit ''=0''])]]"

definition get_supportdenoise :: "'w command" where [command_defs]:
  "get_supportdenoise = [
    if_else (\<lambda>c. macro_defined ''SUPPORT_DENOISE'' c) [say OPTION_OK (\<lambda>c. [Lit ''=1''])] [say OPTION_OK (\<lambda>c. [Lit ''=0''])]]"

definition get_supportevcomp :: "'w command" where [command_defs]:
  "get_supportevcomp = [
    if_else (\<lambda>c. macro_defined ''SUPPORT_EVCOMP'' c) [say OPTION_OK (\<lambda>c. [Lit ''=1''])] [say OPTION_OK (\<lambda>c. [Lit ''=0''])]]"

definition get_supportdre :: "'w command" where [command_defs]:
  "get_supportdre = [
    if_else (\<lambda>c. macro_defined ''SUPPORT_DREMODE'' c) [say OPTION_OK (\<lambda>c. [Lit ''=1''])] [say OPTION_OK (\<lambda>c. [Lit ''=0''])]]"

definition get_supportcapturepriority :: "'w command" where [command_defs]:
  "get_supportcapturepriority = [
    if_else (\<lambda>c. macro_defined ''SUPPORT_CAPTUREPRIORITY'' c) [say OPTION_OK (\<lambda>c. [Lit ''=1''])] [say OPTION_OK (\<lambda>c. [Lit ''=0''])]]"

definition get_supportcfcard :: "'w command" where [command_defs]:
  "get_supportcfcard = [
    if_else (\<lambda>c. macro_defined ''SUPPORT_CFCARD'' c) [say OPTION_OK (\<lambda>c. [Lit ''=1''])] [say OPTION_OK (\<lambda>c. [Lit ''=0''])]]"

definition get_supportcolorkiller :: "'w command" where [command_defs]:
  "get_supportcolorkiller = [
    if_else (\<lambda>c. macro_defined ''SUPPORT_COLORKILLER'' c) [say OPTION_OK (\<lambda>c. [Lit ''=1''])] [say OPTION_OK (\<lambda>c. [Lit ''=0''])]]"

definition get_maxchannel :: "'w command" where [command_defs]:
  "get_maxchannel = [say OPTION_OK (\<lambda>c. [Lit ''='', D 1])]"

definition get_maxregister :: "'w command" where [command_defs]:
  "get_maxregister = [say OPTION_OK (\<lambda>c. [Lit ''='', D (macro_val ''ACOUNT_NUM'' c)])]"

definition get_minnamelen :: "'w command" where [command_defs]:
  "get_minnamelen = [say OPTION_OK (\<lambda>c. [Lit ''='', D 3])]"

definition get_supportcontrast :: "'w command" where [command_defs]:
  "get_supportcontrast = [
    if_else (\<lambda>c. macro_defined ''SUPPORT_CONTRAST'' c) [say OPTION_OK (\<lambda>c. [Lit ''=1''])] [say OPTION_OK (\<lambda>c. [Lit ''=0''])]]"

definition get_supportds1302 :: "'w command" where [command_defs]:
  "get_supportds1302 = [
    if_else (\<lambda>c. macro_defined ''SUPPORT_DS1302'' c) [say OPTION_OK (\<lambda>c. [Lit ''=1''])] [say OPTION_OK (\<lambda>c. [Lit ''=0''])]]"

definition get_supportexposure :: "'w command" where [command_defs]:
  "get_supportexposure = [
    if_else (\<lambda>c. macro_defined ''SUPPORT_EXPOSURETIME'' c) [say OPTION_OK (\<lambda>c. [Lit ''=1''])] [say OPTION_OK (\<lambda>c. [Lit ''=0''])]]"

definition get_supportexposuretimemode :: "'w command" where [command_defs]:
  "get_supportexposuretimemode = [
    if_then (\<lambda>c. macro_defined ''SUPPORT_EXPOSURETIME'' c) [say OPTION_OK (\<lambda>c. [Lit ''='', D (macro_val ''EXPOSURETYPE'' c)])]]"

definition get_supportfluorescent :: "'w command" where [command_defs]:
  "get_supportfluorescent = [
    if_else (\<lambda>c. macro_defined ''SUPPORT_FLUORESCENT'' c) [say OPTION_OK (\<lambda>c. [Lit ''=1''])] [say OPTION_OK (\<lambda>c. [Lit ''=0''])]]"

definition get_supportfs :: "'w command" where [command_defs]:
  "get_supportfs = [
    if_else (\<lambda>c. macro_defined ''SUPPORT_FS'' c) [say OPTION_OK (\<lambda>c. [Lit ''=1''])] [say OPTION_OK (\<lambda>c. [Lit ''=0''])]]"

definition get_supporth3a :: "'w command" where [command_defs]:
  "get_supporth3a = [
    if_else (\<lambda>c. macro_defined ''SUPPORTH3A'' c) [say OPTION_OK (\<lambda>c. [Lit ''=1''])] [say OPTION_OK (\<lambda>c. [Lit ''=0''])]]"

definition get_serialnumber :: "'w command" where [command_defs]:
  "get_serialnumber = [say OPTION_OK (\<lambda>c. [Lit ''='', Str ''00-00-00-00-00-00''])]"

definition get_setupversion :: "'w command" where [command_defs]:
  "get_setupversion = [say OPTION_OK (\<lambda>c. [Lit ''='', Str ''1.0''])]"

definition get_softwareversion :: "'w command" where [command_defs]:
  "get_softwareversion = [
    say OPTION_OK (\<lambda>c. [Lit ''='', D (macro_val ''APP_VERSION_MAJOR'' c), Lit ''.'', D0 2 (macro_val ''APP_VERSION_MINOR'' c)])]"

definition get_firmwareversion :: "'w command" where [command_defs]:
  "get_firmwareversion = [
    say OPTION_OK (\<lambda>c. [Lit ''='', D (macro_val ''APP_VERSION_MAJOR'' c), Lit ''.'', D0 2 (macro_val ''APP_VERSION_MINOR'' c), Lit ''.'', D0 2 (macro_val ''APP_VERSION_SUB_MINOR'' c)])]"

definition get_uartspeed :: "'w command" where [command_defs]:
  "get_uartspeed = [
    do_once [say OPTION_OK (\<lambda>c. [Lit ''='', D 7]), ret],
    say OPTION_NG (\<lambda>_. [])]"

definition get_supporthspeedshutter :: "'w command" where [command_defs]:
  "get_supporthspeedshutter = [
    if_else (\<lambda>c. macro_defined ''SUPPORT_HSPEEDSHUTTER'' c) [say OPTION_OK (\<lambda>c. [Lit ''=1''])] [say OPTION_OK (\<lambda>c. [Lit ''=0''])]]"

definition get_supporthue :: "'w command" where [command_defs]:
  "get_supporthue = [
    if_else (\<lambda>c. macro_defined ''SUPPORT_HUE'' c) [say OPTION_OK (\<lambda>c. [Lit ''=1''])] [say OPTION_OK (\<lambda>c. [Lit ''=0''])]]"

definition get_supportkelvin :: "'w command" where [command_defs]:
  "get_supportkelvin = [
    if_else (\<lambda>c. macro_defined ''SUPPORT_KELVIN'' c) [say OPTION_OK (\<lambda>c. [Lit ''=1''])] [say OPTION_OK (\<lambda>c. [Lit ''=0''])]]"

definition get_supportluminance :: "'w command" where [command_defs]:
  "get_supportluminance = [
    if_else (\<lambda>c. macro_defined ''SUPPORT_LUMINANCE'' c) [say OPTION_OK (\<lambda>c. [Lit ''=1''])] [say OPTION_OK (\<lambda>c. [Lit ''=0''])]]"

definition get_supportmaxagcgain :: "'w command" where [command_defs]:
  "get_supportmaxagcgain = [
    if_else (\<lambda>c. macro_defined ''SUPPORT_MAXAGCGAIN'' c) [say OPTION_OK (\<lambda>c. [Lit ''=1''])] [say OPTION_OK (\<lambda>c. [Lit ''=0''])]]"

definition get_supportmirror :: "'w command" where [command_defs]:
  "get_supportmirror = [
    if_else (\<lambda>c. macro_defined ''SUPPORT_MIRROR'' c) [say OPTION_OK (\<lambda>c. [Lit ''=1''])] [say OPTION_OK (\<lambda>c. [Lit ''=0''])]]"

definition get_supportflip :: "'w command" where [command_defs]:
  "get_supportflip = [
    if_else (\<lambda>c. macro_defined ''SUPPORT_FLIP'' c) [say OPTION_OK (\<lambda>c. [Lit ''=1''])] [say OPTION_OK (\<lambda>c. [Lit ''=0''])]]"

definition get_supportprotect :: "'w command" where [command_defs]:
  "get_supportprotect = [
    if_else (\<lambda>c. macro_defined ''SUPPORT_PROTECT'' c) [say OPTION_OK (\<lambda>c. [Lit ''=1''])] [say OPTION_OK (\<lambda>c. [Lit ''=0''])]]"

definition get_supportrs485 :: "'w command" where [command_defs]:
  "get_supportrs485 = [
    if_else (\<lambda>c. macro_defined ''SUPPORT_RS485'' c) [say OPTION_OK (\<lambda>c. [Lit ''=1''])] [say OPTION_OK (\<lambda>c. [Lit ''=0''])]]"

definition rs485_delay :: "'w command" where [command_defs]:
  "rs485_delay = [
    if_else (\<lambda>c. macro_defined ''SUPPORT_RS485'' c) [do_once [say OPTION_OK (\<lambda>_. []), ret], say OPTION_NG (\<lambda>_. [])] [say OPTION_NS (\<lambda>_. [])]]"

definition set_485protocol :: "'w command" where [command_defs]:
  "set_485protocol = [
    if_else (\<lambda>c. macro_defined ''SUPPORT_RS485'' c) [
      if_then (\<lambda>c. val c = []) [say OPTION_OK (\<lambda>c. [Lit ''='', D (u8 ''RS485_PROTOCOL'' c)]), ret],
      do_once [
        if_then (\<lambda>c. numeric_check (val c) < 0) [brk],
        bind (\<lambda>c. to_u8 (atoi (val c))) (\<lambda>value. [
          if_then (\<lambda>c. value > max_of ''RS485_PROTOCOL'' c) [brk],
          if_then (\<lambda>c. u8 ''RS485_PROTOCOL'' c \<noteq> value) [
            control_data ''SFIELD_SET_485_PROTOCOL'' (\<lambda>c. Num 1 value) (\<lambda>ret_val. [if_then (\<lambda>c. ret_val < 0) [brk]])],
          say OPTION_OK (\<lambda>_. []),
          ret])],
      say OPTION_NG (\<lambda>_. [])] [say OPTION_NS (\<lambda>_. [])]]"

definition set_485id :: "'w command" where [command_defs]:
  "set_485id = [
    if_else (\<lambda>c. macro_defined ''SUPPORT_RS485'' c) [
      if_then (\<lambda>c. val c = []) [say OPTION_OK (\<lambda>c. [Lit ''='', D (u8 ''RS485_ID'' c)]), ret],
      do_once [
        if_then (\<lambda>c. numeric_check (val c) < 0) [brk],
        bind (\<lambda>c. to_u8 (atoi (val c))) (\<lambda>value. [
          if_then (\<lambda>c. value > max_of ''RS485_ID'' c) [brk],
          if_then (\<lambda>c. u8 ''RS485_ID'' c \<noteq> value) [
            control_data ''SFIELD_SET_485_ID'' (\<lambda>c. Num 1 value) (\<lambda>ret_val. [if_then (\<lambda>c. ret_val < 0) [brk]])],
          say OPTION_OK (\<lambda>_. []),
          ret])],
      say OPTION_NG (\<lambda>_. [])] [say OPTION_NS (\<lambda>_. [])]]"

definition set_rtspport :: "'w command" where [command_defs]:
  "set_rtspport = [
    if_then (\<lambda>c. val c = []) [say OPTION_OK (\<lambda>c. [Lit ''='', D (u16 ''RTSP_PORT'' c)]), ret],
    do_once [
      if_then (\<lambda>c. numeric_check (val c) < 0) [brk],
      bind (\<lambda>c. to_u16 (atoi (val c))) (\<lambda>value. [
        if_then (\<lambda>c. value > max_of ''RTSP_PORT'' c) [brk],
        if_then (\<lambda>c. value = u16 ''HTTP_PORT'' c) [brk],
        if_then (\<lambda>c. macro_defined ''SERVER_SSL'' c) [if_then (\<lambda>c. value = u16 ''HTTPS_PORT'' c) [brk]],
        if_then (\<lambda>c. u16 ''RTSP_PORT'' c \<noteq> value) [
          write_info ''RTSP_PORT'' (\<lambda>c. Num 2 value) (\<lambda>_. []),
          extern_call ''system'' (\<lambda>c. [Text (''killall -SIGTERM rtsp-streamer'' @ nl)]),
          extern_call ''system'' (\<lambda>c. [Text (''/opt/ipnc/rtsp-streamer &'' @ nl)])],
        say OPTION_OK (\<lambda>_. []),
        ret])],
    say OPTION_NG (\<lambda>_. [])]"

definition replytest :: "'w command" where [command_defs]:
  "replytest = [
    if_else (\<lambda>c. macro_defined ''SUPPORT_EVENT_2G'' c) [say OPTION_OK (\<lambda>c. [Lit ''='', D (sysinfo ''testserver'' c)])] [say OPTION_NS (\<lambda>_. [])]]"

definition set_wintimezone :: "'w command" where [command_defs]:
  "set_wintimezone = [
    if_else (\<lambda>c. macro_defined ''SUPPORT_WIN_TIMEZONE'' c) [
      if_then (\<lambda>c. val c = []) [say OPTION_OK (\<lambda>c. [Lit ''='', D (u8 ''NTP_TIMEZONE'' c)]), ret],
      do_once [
        if_then (\<lambda>c. numeric_check (val c) < 0) [brk],
        bind (\<lambda>c. atoi (val c)) (\<lambda>value. [
          if_then (\<lambda>c. value < min_of ''NTP_TIMEZONE'' c \<or> value > max_of ''NTP_TIMEZONE'' c) [brk],
          if_then (\<lambda>c. u8 ''NTP_TIMEZONE'' c \<noteq> value) [
            control_data ''SFIELD_SET_TIMEZONE'' (\<lambda>c. Num 4 value) (\<lambda>_. []),
            extern_call ''setenv'' (\<lambda>c. [Text ''TZ'', Text (sysinfo_str ''tzenv'' c), Num 4 1]),
            extern_call ''tzset'' (\<lambda>c. [])],
          say OPTION_OK (\<lambda>_. []),
          ret])],
      say OPTION_NG (\<lambda>_. [])] [say OPTION_NS (\<lambda>_. [])]]"

definition get_maxstreamcount :: "'w command" where [command_defs]:
  "get_maxstreamcount = [
    if_else (\<lambda>c. macro_defined ''SUPPORT_PROFILE_NUMBER'' c) [say OPTION_OK (\<lambda>c. [Lit ''='', D (ivalue ''CONFIG_MAX_WEB_PROFILE_NUM'' c)])] [say OPTION_OK (\<lambda>c. [Lit ''='', D (macro_val ''MAX_WEB_PROFILE_NUM'' c)])]]"

definition get_supportstream1 :: "'w command" where [command_defs]:
  "get_supportstream1 = [
    if_else (\<lambda>c. macro_val ''MAX_WEB_PROFILE_NUM'' c \<ge> 1) [
      if_else (\<lambda>c. macro_defined ''SUPPORT_PROFILE_NUMBER'' c) [
        say OPTION_OK (\<lambda>c. [Lit ''='', Str (if ivalue ''CONFIG_MAX_WEB_PROFILE_NUM'' c \<ge> 1 then ''1'' else ''0'')])] [say OPTION_OK (\<lambda>c. [Lit ''=1''])]] [say OPTION_OK (\<lambda>c. [Lit ''=0''])]]"

definition get_supportstream2 :: "'w command" where [command_defs]:
  "get_supportstream2 = [
    if_else (\<lambda>c. macro_val ''MAX_WEB_PROFILE_NUM'' c \<ge> 2) [
      if_else (\<lambda>c. macro_defined ''SUPPORT_PROFILE_NUMBER'' c) [
        say OPTION_OK (\<lambda>c. [Lit ''='', Str (if ivalue ''CONFIG_MAX_WEB_PROFILE_NUM'' c \<ge> 2 then ''1'' else ''0'')])] [say OPTION_OK (\<lambda>c. [Lit ''=1''])]] [say OPTION_OK (\<lambda>c. [Lit ''=0''])]]"

definition get_supportstream3 :: "'w command" where [command_defs]:
  "get_supportstream3 = [
    if_else (\<lambda>c. macro_val ''MAX_WEB_PROFILE_NUM'' c \<ge> 3) [
      if_else (\<lambda>c. macro_defined ''SUPPORT_PROFILE_NUMBER'' c) [
        say OPTION_OK (\<lambda>c. [Lit ''='', Str (if ivalue ''CONFIG_MAX_WEB_PROFILE_NUM'' c \<ge> 3 then ''1'' else ''0'')])] [say OPTION_OK (\<lambda>c. [Lit ''=1''])]] [say OPTION_OK (\<lambda>c. [Lit ''=0''])]]"

definition get_supportstream4 :: "'w command" where [command_defs]:
  "get_supportstream4 = [
    if_else (\<lambda>c. macro_val ''MAX_WEB_PROFILE_NUM'' c \<ge> 4) [
      if_else (\<lambda>c. macro_defined ''SUPPORT_PROFILE_NUMBER'' c) [
        say OPTION_OK (\<lambda>c. [Lit ''='', Str (if ivalue ''CONFIG_MAX_WEB_PROFILE_NUM'' c \<ge> 4 then ''1'' else ''0'')])] [say OPTION_OK (\<lambda>c. [Lit ''=1''])]] [say OPTION_OK (\<lambda>c. [Lit ''=0''])]]"

definition get_profile1format :: "'w command" where [command_defs]:
  "get_profile1format = [
    if_else (\<lambda>c. macro_val ''MAX_WEB_PROFILE_NUM'' c \<ge> 1) [
      if_then (\<lambda>c. profile_check c 1 < macro_val ''SPECIAL_PROFILE'' c) [say OPTION_NG (\<lambda>_. []), ret],
      say OPTION_OK (\<lambda>c. [Lit ''='', Str (conf_string ''PROFILE_CONFIG0_CODECNAME'' c)])] [say OPTION_NS (\<lambda>_. [])]]"

definition get_profile2format :: "'w command" where [command_defs]:
  "get_profile2format = [
    if_else (\<lambda>c. macro_val ''MAX_WEB_PROFILE_NUM'' c \<ge> 2) [
      if_then (\<lambda>c. profile_check c 2 < macro_val ''SPECIAL_PROFILE'' c) [say OPTION_NG (\<lambda>_. []), ret],
      say OPTION_OK (\<lambda>c. [Lit ''='', Str (conf_string ''PROFILE_CONFIG1_CODECNAME'' c)])] [say OPTION_NS (\<lambda>_. [])]]"

definition get_profile3format :: "'w command" where [command_defs]:
  "get_profile3format = [
    if_else (\<lambda>c. macro_val ''MAX_WEB_PROFILE_NUM'' c \<ge> 3) [
      if_then (\<lambda>c. profile_check c 3 < macro_val ''SPECIAL_PROFILE'' c) [say OPTION_NG (\<lambda>_. []), ret],
      say OPTION_OK (\<lambda>c. [Lit ''='', Str (conf_string ''PROFILE_CONFIG2_CODECNAME'' c)])] [say OPTION_NS (\<lambda>_. [])]]"

definition get_profile4format :: "'w command" where [command_defs]:
  "get_profile4format = [
    if_else (\<lambda>c. macro_val ''MAX_WEB_PROFILE_NUM'' c \<ge> 4) [
      if_then (\<lambda>c. profile_check c 4 < macro_val ''SPECIAL_PROFILE'' c) [say OPTION_NG (\<lambda>_. []), ret],
      say OPTION_OK (\<lambda>c. [Lit ''='', Str (conf_string ''PROFILE_CONFIG3_CODECNAME'' c)])] [say OPTION_NS (\<lambda>_. [])]]"

definition get_profile1xsize :: "'w command" where [command_defs]:
  "get_profile1xsize = [
    if_else (\<lambda>c. macro_val ''MAX_WEB_PROFILE_NUM'' c \<ge> 1) [
      if_then (\<lambda>c. profile_check c 1 < macro_val ''SPECIAL_PROFILE'' c) [say OPTION_NG (\<lambda>_. []), ret],
      say OPTION_OK (\<lambda>c. [Lit ''='', D (ivalue ''PROFILESIZE0_XSIZE'' c)])] [say OPTION_NS (\<lambda>_. [])]]"

definition get_profile2xsize :: "'w command" where [command_defs]:
  "get_profile2xsize = [
    if_else (\<lambda>c. macro_val ''MAX_WEB_PROFILE_NUM'' c \<ge> 2) [
      if_then (\<lambda>c. profile_check c 2 < macro_val ''SPECIAL_PROFILE'' c) [say OPTION_NG (\<lambda>_. []), ret],
      say OPTION_OK (\<lambda>c. [Lit ''='', D (ivalue ''PROFILESIZE1_XSIZE'' c)])] [say OPTION_NS (\<lambda>_. [])]]"

definition get_profile3xsize :: "'w command" where [command_defs]:
  "get_profile3xsize = [
    if_else (\<lambda>c. macro_val ''MAX_WEB_PROFILE_NUM'' c \<ge> 3) [
      if_then (\<lambda>c. profile_check c 3 < macro_val ''SPECIAL_PROFILE'' c) [say OPTION_NG (\<lambda>_. []), ret],
      say OPTION_OK (\<lambda>c. [Lit ''='', D (ivalue ''PROFILESIZE2_XSIZE'' c)])] [say OPTION_NS (\<lambda>_. [])]]"

definition get_profile1ysize :: "'w command" where [command_defs]:
  "get_profile1ysize = [
    if_else (\<lambda>c. macro_val ''MAX_WEB_PROFILE_NUM'' c \<ge> 1) [
      if_then (\<lambda>c. profile_check c 1 < macro_val ''SPECIAL_PROFILE'' c) [say OPTION_NG (\<lambda>_. []), ret],
      say OPTION_OK (\<lambda>c. [Lit ''='', D (ivalue ''PROFILESIZE0_YSIZE'' c)])] [say OPTION_NS (\<lambda>_. [])]]"

definition get_profile2ysize :: "'w command" where [command_defs]:
  "get_profile2ysize = [
    if_else (\<lambda>c. macro_val ''MAX_WEB_PROFILE_NUM'' c \<ge> 2) [
      if_then (\<lambda>c. profile_check c 2 < macro_val ''SPECIAL_PROFILE'' c) [say OPTION_NG (\<lambda>_. []), ret],
      say OPTION_OK (\<lambda>c. [Lit ''='', D (ivalue ''PROFILESIZE1_YSIZE'' c)])] [say OPTION_NS (\<lambda>_. [])]]"

definition get_profile3ysize :: "'w command" where [command_defs]:
  "get_profile3ysize = [
    if_else (\<lambda>c. macro_val ''MAX_WEB_PROFILE_NUM'' c \<ge> 3) [
      if_then (\<lambda>c. profile_check c 3 < macro_val ''SPECIAL_PROFILE'' c) [say OPTION_NG (\<lambda>_. []), ret],
      say OPTION_OK (\<lambda>c. [Lit ''='', D (ivalue ''PROFILESIZE2_YSIZE'' c)])] [say OPTION_NS (\<lambda>_. [])]]"

definition set_prf1rate :: "'w command" where [command_defs]:
  "set_prf1rate = [
    if_else (\<lambda>c. macro_val ''MAX_WEB_PROFILE_NUM'' c \<ge> 1) [
      if_then (\<lambda>c. val c = []) [
        if_else (\<lambda>c. profile_check c 1 < macro_val ''SPECIAL_PROFILE'' c) [say OPTION_NG (\<lambda>_. [])] [
          say OPTION_OK (\<lambda>c. [Lit ''='', Str (conf_string ''PROFILE_CONFIG0_FRAMERATE'' c)])],
        ret],
      if_then (\<lambda>c. profile_check c 1 < macro_val ''EXIST_PROFILE'' c) [say OPTION_NG (\<lambda>_. []), ret],
      do_once [
        if_then (\<lambda>c. numeric_check (val c) < 0) [brk],
        if_then (\<lambda>c. atoi (val c) < 1 \<or> atoi (val c) > 30) [brk],
        if_then (\<lambda>c. \<not> (conf_string ''PROFILE_CONFIG0_FRAMERATE'' c = val c)) [
          control_data ''SFIELD_SET_PROFILE1_FRAMERATE'' (\<lambda>c. Text (val c @ [NUL])) (\<lambda>ret_val. [if_then (\<lambda>c. ret_val < 0) [brk]])],
        say OPTION_OK (\<lambda>_. []),
        ret],
      say OPTION_NG (\<lambda>_. [])] [say OPTION_NS (\<lambda>_. [])]]"

definition get_profile1bps :: "'w command" where [command_defs]:
  "get_profile1bps = [
    if_else (\<lambda>c. macro_val ''MAX_WEB_PROFILE_NUM'' c \<ge> 1) [
      if_then (\<lambda>c. profile_check c 1 < macro_val ''SPECIAL_PROFILE'' c) [say OPTION_NG (\<lambda>_. []), ret],
      if_else (\<lambda>c. conf_string ''PROFILE_CONFIG0_CODECNAME'' c = macro_str ''MPEG4_PARSER_NAME'' c \<or> conf_string ''PROFILE_CONFIG0_CODECNAME'' c = macro_str ''H264_PARSER_NAME'' c) [
        say OPTION_OK (\<lambda>c. [Lit ''='', Str (conf_string ''PROFILE_CONFIG0_CBR_QUALITY'' c)])] [say OPTION_NG (\<lambda>_. [])]] [say OPTION_NS (\<lambda>_. [])]]"

definition set_prf1quality :: "'w command" where [command_defs]:
  "set_prf1quality = [
    if_else (\<lambda>c. macro_val ''MAX_WEB_PROFILE_NUM'' c \<ge> 1) [
      if_then (\<lambda>c. val c = []) [
        if_then (\<lambda>c. profile_check c 1 < macro_val ''SPECIAL_PROFILE'' c) [say OPTION_NG (\<lambda>_. []), ret],
        if_else (\<lambda>c. conf_string ''PROFILE_CONFIG0_CODECNAME'' c = macro_str ''MPEG4_PARSER_NAME'' c \<or> conf_string ''PROFILE_CONFIG0_CODECNAME'' c = macro_str ''H264_PARSER_NAME'' c) [say OPTION_OK (\<lambda>c. [Lit ''='', D (u8 ''PROFILE_CONFIG0_FIXED_QUALITY'' c)])] [
          if_else (\<lambda>c. conf_string ''PROFILE_CONFIG0_CODECNAME'' c = macro_str ''JPEG_PARSER_NAME'' c) [say OPTION_OK (\<lambda>c. [Lit ''='', D (u8 ''PROFILE_CONFIG0_JPEG_QUALITY'' c)])] [say OPTION_NG (\<lambda>_. [])]],
        ret],
      if_then (\<lambda>c. profile_check c 1 < macro_val ''EXIST_PROFILE'' c) [say OPTION_NG (\<lambda>_. []), ret],
      do_once [
        if_then (\<lambda>c. numeric_check (val c) < 0) [brk],
        bind (\<lambda>c. atoi (val c)) (\<lambda>value. [
          if_then (\<lambda>c. value > macro_val ''MAX_PROFILE_QUALITY'' c) [brk],
          control_data ''SFIELD_SET_PROFILE1_QUALITY'' (\<lambda>c. Num 4 value) (\<lambda>ret_val. [if_then (\<lambda>c. ret_val < 0) [brk]]),
          say OPTION_OK (\<lambda>_. []),
          ret])],
      say OPTION_NG (\<lambda>_. [])] [say OPTION_NS (\<lambda>_. [])]]"

definition set_profile1keyframeinterval :: "'w command" where [command_defs]:
  "set_profile1keyframeinterval = [
    if_else (\<lambda>c. macro_val ''MAX_WEB_PROFILE_NUM'' c \<ge> 1) [
      if_then (\<lambda>c. val c = []) [
        if_then (\<lambda>c. profile_check c 1 < macro_val ''SPECIAL_PROFILE'' c) [say OPTION_NG (\<lambda>_. []), ret],
        if_else (\<lambda>c. conf_string ''PROFILE_CONFIG0_CODECNAME'' c = macro_str ''MPEG4_PARSER_NAME'' c \<or> conf_string ''PROFILE_CONFIG0_CODECNAME'' c = macro_str ''H264_PARSER_NAME'' c) [
          say OPTION_OK (\<lambda>c. [Lit ''='', Str (conf_string ''PROFILE_CONFIG0_MPEG4GOV'' c)])] [say OPTION_NG (\<lambda>_. [])],
        ret],
      if_then (\<lambda>c. profile_check c 1 < macro_val ''EXIST_PROFILE'' c) [say OPTION_NG (\<lambda>_. []), ret],
      bind (\<lambda>c. to_u8 (atoi (val c))) (\<lambda>value. [
        do_once [
          if_then (\<lambda>c. conf_string ''PROFILE_CONFIG0_CODECNAME'' c = macro_str ''JPEG_PARSER_NAME'' c) [brk],
          if_then (\<lambda>c. value > 30) [brk],
          if_then (\<lambda>c. u8 ''PROFILE_CONFIG0_MPEG4KEYFRAMEINTERVAL'' c = value) [brk],
          control_data ''SFIELD_SET_PROFILE1_GOV'' (\<lambda>c. Num 1 value) (\<lambda>ret_val. [if_then (\<lambda>c. ret_val < 0) [brk]]),
          say OPTION_OK (\<lambda>_. []),
          ret],
        say OPTION_NG (\<lambda>_. [])])] [say OPTION_NS (\<lambda>_. [])]]"

definition set_prf2rate :: "'w command" where [command_defs]:
  "set_prf2rate = [
    if_else (\<lambda>c. macro_val ''MAX_WEB_PROFILE_NUM'' c \<ge> 2) [
      if_then (\<lambda>c. val c = []) [
        if_else (\<lambda>c. profile_check c 2 < macro_val ''SPECIAL_PROFILE'' c) [say OPTION_NG (\<lambda>_. [])] [
          say OPTION_OK (\<lambda>c. [Lit ''='', Str (conf_string ''PROFILE_CONFIG1_FRAMERATE'' c)])],
        ret],
      if_then (\<lambda>c. profile_check c 2 < macro_val ''EXIST_PROFILE'' c) [say OPTION_NG (\<lambda>_. []), ret],
      do_once [
        if_then (\<lambda>c. numeric_check (val c) < 0) [brk],
        if_then (\<lambda>c. atoi (val c) < 1 \<or> atoi (val c) > 30) [brk],
        if_then (\<lambda>c. \<not> (conf_string ''PROFILE_CONFIG1_FRAMERATE'' c = val c)) [
          control_data ''SFIELD_SET_PROFILE2_FRAMERATE'' (\<lambda>c. Text (val c @ [NUL])) (\<lambda>ret_val. [if_then (\<lambda>c. ret_val < 0) [brk]])],
        say OPTION_OK (\<lambda>_. []),
        ret],
      say OPTION_NG (\<lambda>_. [])] [say OPTION_NS (\<lambda>_. [])]]"

definition get_profile2bps :: "'w command" where [command_defs]:
  "get_profile2bps = [
    if_else (\<lambda>c. macro_val ''MAX_WEB_PROFILE_NUM'' c \<ge> 2) [
      if_then (\<lambda>c. profile_check c 2 < macro_val ''SPECIAL_PROFILE'' c) [say OPTION_NG (\<lambda>_. []), ret],
      if_else (\<lambda>c. conf_string ''PROFILE_CONFIG1_CODECNAME'' c = macro_str ''MPEG4_PARSER_NAME'' c \<or> conf_string ''PROFILE_CONFIG1_CODECNAME'' c = macro_str ''H264_PARSER_NAME'' c) [
        say OPTION_OK (\<lambda>c. [Lit ''='', Str (conf_string ''PROFILE_CONFIG1_CBR_QUALITY'' c)])] [say OPTION_NG (\<lambda>_. [])]] [say OPTION_NS (\<lambda>_. [])]]"

definition set_profile2keyframeinterval :: "'w command" where [command_defs]:
  "set_profile2keyframeinterval = [
    if_else (\<lambda>c. macro_val ''MAX_WEB_PROFILE_NUM'' c \<ge> 2) [
      if_then (\<lambda>c. val c = []) [
        if_then (\<lambda>c. profile_check c 2 < macro_val ''SPECIAL_PROFILE'' c) [say OPTION_NG (\<lambda>_. []), ret],
        if_else (\<lambda>c. conf_string ''PROFILE_CONFIG1_CODECNAME'' c = macro_str ''MPEG4_PARSER_NAME'' c \<or> conf_string ''PROFILE_CONFIG1_CODECNAME'' c = macro_str ''H264_PARSER_NAME'' c) [
          say OPTION_OK (\<lambda>c. [Lit ''='', Str (conf_string ''PROFILE_CONFIG1_MPEG4GOV'' c)])] [say OPTION_NG (\<lambda>_. [])],
        ret],
      if_then (\<lambda>c. profile_check c 2 < macro_val ''EXIST_PROFILE'' c) [say OPTION_NG (\<lambda>_. []), ret],
      bind (\<lambda>c. to_u8 (atoi (val c))) (\<lambda>value. [
        do_once [
          if_then (\<lambda>c. conf_string ''PROFILE_CONFIG1_CODECNAME'' c = macro_str ''JPEG_PARSER_NAME'' c) [brk],
          if_then (\<lambda>c. value > 30) [brk],
          if_then (\<lambda>c. u8 ''PROFILE_CONFIG1_MPEG4KEYFRAMEINTERVAL'' c = value) [brk],
          control_data ''SFIELD_SET_PROFILE2_GOV'' (\<lambda>c. Num 1 value) (\<lambda>ret_val. [if_then (\<lambda>c. ret_val < 0) [brk]]),
          say OPTION_OK (\<lambda>_. []),
          ret],
        say OPTION_NG (\<lambda>_. [])])] [say OPTION_NS (\<lambda>_. [])]]"

definition set_profile3keyframeinterval :: "'w command" where [command_defs]:
  "set_profile3keyframeinterval = [
    if_else (\<lambda>c. macro_val ''MAX_WEB_PROFILE_NUM'' c \<ge> 3) [
      if_then (\<lambda>c. val c = []) [
        if_then (\<lambda>c. profile_check c 3 < macro_val ''SPECIAL_PROFILE'' c) [say OPTION_NG (\<lambda>_. [])],
        if_else (\<lambda>c. conf_string ''PROFILE_CONFIG2_CODECNAME'' c = macro_str ''MPEG4_PARSER_NAME'' c \<or> conf_string ''PROFILE_CONFIG2_CODECNAME'' c = macro_str ''H264_PARSER_NAME'' c) [
          say OPTION_OK (\<lambda>c. [Lit ''='', Str (conf_string ''PROFILE_CONFIG2_MPEG4GOV'' c)])] [say OPTION_NG (\<lambda>_. [])],
        ret],
      if_then (\<lambda>c. profile_check c 3 < macro_val ''EXIST_PROFILE'' c) [say OPTION_NG (\<lambda>_. []), ret],
      bind (\<lambda>c. to_u8 (atoi (val c))) (\<lambda>value. [
        do_once [
          if_then (\<lambda>c. conf_string ''PROFILE_CONFIG2_CODECNAME'' c = macro_str ''JPEG_PARSER_NAME'' c) [brk],
          if_then (\<lambda>c. value > 30) [brk],
          if_then (\<lambda>c. u8 ''PROFILE_CONFIG2_MPEG4KEYFRAMEINTERVAL'' c = value) [brk],
          control_data ''SFIELD_SET_PROFILE3_GOV'' (\<lambda>c. Num 1 value) (\<lambda>ret_val. [if_then (\<lambda>c. ret_val < 0) [brk]]),
          say OPTION_OK (\<lambda>_. []),
          ret],
        say OPTION_NG (\<lambda>_. [])])] [say OPTION_NS (\<lambda>_. [])]]"

definition set_prf3rate :: "'w command" where [command_defs]:
  "set_prf3rate = [
    if_else (\<lambda>c. macro_val ''MAX_WEB_PROFILE_NUM'' c \<ge> 3) [
      if_then (\<lambda>c. val c = []) [
        if_else (\<lambda>c. profile_check c 3 < macro_val ''SPECIAL_PROFILE'' c) [say OPTION_NG (\<lambda>_. [])] [
          say OPTION_OK (\<lambda>c. [Lit ''='', Str (conf_string ''PROFILE_CONFIG2_FRAMERATE'' c)])],
        ret],
      if_then (\<lambda>c. profile_check c 3 < macro_val ''EXIST_PROFILE'' c) [say OPTION_NG (\<lambda>_. []), ret],
      do_once [
        if_then (\<lambda>c. numeric_check (val c) < 0) [brk],
        if_then (\<lambda>c. atoi (val c) < 1 \<or> atoi (val c) > 30) [brk],
        if_then (\<lambda>c. \<not> (conf_string ''PROFILE_CONFIG2_FRAMERATE'' c = val c)) [
          control_data ''SFIELD_SET_PROFILE3_FRAMERATE'' (\<lambda>c. Text (val c @ [NUL])) (\<lambda>ret_val. [if_then (\<lambda>c. ret_val < 0) [brk]])],
        say OPTION_OK (\<lambda>_. []),
        ret],
      say OPTION_NG (\<lambda>_. [])] [say OPTION_NS (\<lambda>_. [])]]"

definition set_prf3quality :: "'w command" where [command_defs]:
  "set_prf3quality = [
    if_else (\<lambda>c. macro_val ''MAX_WEB_PROFILE_NUM'' c \<ge> 3) [
      if_then (\<lambda>c. val c = []) [
        if_then (\<lambda>c. profile_check c 3 < macro_val ''SPECIAL_PROFILE'' c) [say OPTION_NG (\<lambda>_. []), ret],
        if_else (\<lambda>c. conf_string ''PROFILE_CONFIG2_CODECNAME'' c = macro_str ''MPEG4_PARSER_NAME'' c \<or> conf_string ''PROFILE_CONFIG2_CODECNAME'' c = macro_str ''H264_PARSER_NAME'' c) [say OPTION_OK (\<lambda>c. [Lit ''='', D (u8 ''PROFILE_CONFIG2_FIXED_QUALITY'' c)])] [
          if_else (\<lambda>c. conf_string ''PROFILE_CONFIG2_CODECNAME'' c = macro_str ''JPEG_PARSER_NAME'' c) [say OPTION_OK (\<lambda>c. [Lit ''='', D (u8 ''PROFILE_CONFIG2_JPEG_QUALITY'' c)])] [say OPTION_NG (\<lambda>_. [])]],
        ret],
      if_then (\<lambda>c. profile_check c 3 < macro_val ''EXIST_PROFILE'' c) [say OPTION_NG (\<lambda>_. []), ret],
      do_once [
        if_then (\<lambda>c. numeric_check (val c) < 0) [brk],
        bind (\<lambda>c. to_u8 (atoi (val c))) (\<lambda>value. [
          if_then (\<lambda>c. value > macro_val ''MAX_PROFILE_QUALITY'' c) [brk],
          control_data ''SFIELD_SET_PROFILE3_QUALITY'' (\<lambda>c. Num 1 value) (\<lambda>ret_val. [if_then (\<lambda>c. ret_val < 0) [brk]]),
          say OPTION_OK (\<lambda>_. []),
          ret])],
      say OPTION_NG (\<lambda>_. [])] [say OPTION_NS (\<lambda>_. [])]]"

definition set_prf4qmod :: "'w command" where [command_defs]:
  "set_prf4qmod = [
    if_else (\<lambda>c. macro_val ''MAX_WEB_PROFILE_NUM'' c \<ge> 4) [
      if_then (\<lambda>c. val c = []) [
        if_then (\<lambda>c. profile_check c 3 < macro_val ''SPECIAL_PROFILE'' c) [say OPTION_NG (\<lambda>_. []), ret],
        if_else (\<lambda>c. conf_string ''PROFILE_CONFIG3_CODECNAME'' c = macro_str ''MPEG4_PARSER_NAME'' c \<or> conf_string ''PROFILE_CONFIG3_CODECNAME'' c = macro_str ''H264_PARSER_NAME'' c) [say OPTION_OK (\<lambda>c. [Lit ''='', D (u8 ''PROFILE_CONFIG3_QMODE'' c)])] [say OPTION_NG (\<lambda>_. [])],
        ret],
      if_then (\<lambda>c. profile_check c 4 < macro_val ''EXIST_PROFILE'' c) [say OPTION_NG (\<lambda>_. []), ret],
      do_once [
        if_then (\<lambda>c. numeric_check (val c) < 0) [brk],
        if_then (\<lambda>c. conf_string ''PROFILE_CONFIG3_CODECNAME'' c = macro_str ''JPEG_PARSER_NAME'' c) [brk],
        bind (\<lambda>c. to_u8 (atoi (val c))) (\<lambda>value. [
          if_then (\<lambda>c. value > max_of ''PROFILE_CONFIG3_QMODE'' c) [brk],
          if_then (\<lambda>c. u8 ''PROFILE_CONFIG3_QMODE'' c \<noteq> value) [write_info ''PROFILE_CONFIG3_QMODE'' (\<lambda>c. Num 1 value) (\<lambda>_. [])],
          say OPTION_OK (\<lambda>_. []),
          ret])],
      say OPTION_NG (\<lambda>_. [])] [say OPTION_NS (\<lambda>_. [])]]"

definition get_supportprofilenumber :: "'w command" where [command_defs]:
  "get_supportprofilenumber = [
    do_once [
      if_else (\<lambda>c. macro_defined ''SUPPORT_PROFILE_NUMBER'' c) [say OPTION_OK (\<lambda>c. [Lit ''='', D 1])] [say OPTION_OK (\<lambda>c. [Lit ''='', D 0])],
      ret],
    say OPTION_NG (\<lambda>_. [])]"

definition get_supportaspectratio :: "'w command" where [command_defs]:
  "get_supportaspectratio = [
    do_once [
      if_else (\<lambda>c. macro_defined ''SUPPORT_ASPECT_RATIO'' c) [say OPTION_OK (\<lambda>c. [Lit ''='', D 1])] [say OPTION_OK (\<lambda>c. [Lit ''='', D 0])],
      ret],
    say OPTION_NG (\<lambda>_. [])]"

definition set_aspectratio :: "'w command" where [command_defs]:
  "set_aspectratio = [
    if_else (\<lambda>c. macro_defined ''SUPPORT_ASPECT_RATIO'' c) [
      do_once [
        if_then (\<lambda>c. val c = []) [say OPTION_OK (\<lambda>c. [Lit ''='', Str (conf_string ''IMG_ASPECT_RATIO'' c)]), ret],
        if_then (\<lambda>c. \<not> (conf_string ''IMG_ASPECT_RATIO'' c = val c)) [
          control_data ''SFIELD_SET_ADJ_ASPECT'' (\<lambda>c. Text (val c @ [NUL])) (\<lambda>ret_val. [if_then (\<lambda>c. ret_val < 0) [brk]]),
          store_info ''procs_status.reset_status'' (\<lambda>c. macro_val ''NEED_RESET'' c),
          say OPTION_OK (\<lambda>_. []),
          ret]],
      say OPTION_NG (\<lambda>_. [])] [say OPTION_NS (\<lambda>_. [])]]"

definition get_profile3bps :: "'w command" where [command_defs]:
  "get_profile3bps = [
    if_else (\<lambda>c. macro_val ''MAX_WEB_PROFILE_NUM'' c \<ge> 3) [
      if_then (\<lambda>c. profile_check c 3 < macro_val ''SPECIAL_PROFILE'' c) [say OPTION_NG (\<lambda>_. []), ret],
      if_else (\<lambda>c. conf_string ''PROFILE_CONFIG2_CODECNAME'' c = macro_str ''MPEG4_PARSER_NAME'' c \<or> conf_string ''PROFILE_CONFIG2_CODECNAME'' c = macro_str ''H264_PARSER_NAME'' c) [
        say OPTION_OK (\<lambda>c. [Lit ''='', Str (conf_string ''PROFILE_CONFIG2_CBR_QUALITY'' c)])] [say OPTION_NG (\<lambda>_. [])]] [say OPTION_NS (\<lambda>_. [])]]"

definition get_profile1quality :: "'w command" where [command_defs]:
  "get_profile1quality = [
    if_else (\<lambda>c. macro_val ''MAX_WEB_PROFILE_NUM'' c \<ge> 1) [
      do_once [
        if_then (\<lambda>c. profile_check c 1 < macro_val ''SPECIAL_PROFILE'' c) [brk],
        if_else (\<lambda>c. conf_string ''PROFILE_CONFIG0_CODECNAME'' c = macro_str ''MPEG4_PARSER_NAME'' c \<or> conf_string ''PROFILE_CONFIG0_CODECNAME'' c = macro_str ''H264_PARSER_NAME'' c) [say OPTION_OK (\<lambda>c. [Lit ''='', D (u8 ''PROFILE_CONFIG0_FIXED_QUALITY'' c)])] [
          if_else (\<lambda>c. conf_string ''PROFILE_CONFIG0_CODECNAME'' c = macro_str ''JPEG_PARSER_NAME'' c) [say OPTION_OK (\<lambda>c. [Lit ''='', D (u8 ''PROFILE_CONFIG0_JPEG_QUALITY'' c)])] [brk]],
        ret],
      say OPTION_NG (\<lambda>_. [])] [say OPTION_NS (\<lambda>_. [])]]"

definition get_profile2quality :: "'w command" where [command_defs]:
  "get_profile2quality = [
    if_else (\<lambda>c. macro_val ''MAX_WEB_PROFILE_NUM'' c \<ge> 2) [
      do_once [
        if_then (\<lambda>c. profile_check c 2 < macro_val ''SPECIAL_PROFILE'' c) [brk],
        if_else (\<lambda>c. conf_string ''PROFILE_CONFIG1_CODECNAME'' c = macro_str ''MPEG4_PARSER_NAME'' c \<or> conf_string ''PROFILE_CONFIG1_CODECNAME'' c = macro_str ''H264_PARSER_NAME'' c) [say OPTION_OK (\<lambda>c. [Lit ''='', D (u8 ''PROFILE_CONFIG1_FIXED_QUALITY'' c)])] [
          if_else (\<lambda>c. conf_string ''PROFILE_CONFIG1_CODECNAME'' c = macro_str ''JPEG_PARSER_NAME'' c) [say OPTION_OK (\<lambda>c. [Lit ''='', D (u8 ''PROFILE_CONFIG1_JPEG_QUALITY'' c)])] [brk]],
        ret],
      say OPTION_NG (\<lambda>_. [])] [say OPTION_NS (\<lambda>_. [])]]"

definition get_profile3quality :: "'w command" where [command_defs]:
  "get_profile3quality = [
    if_else (\<lambda>c. macro_val ''MAX_WEB_PROFILE_NUM'' c \<ge> 3) [
      do_once [
        if_then (\<lambda>c. profile_check c 3 < macro_val ''SPECIAL_PROFILE'' c) [brk],
        if_else (\<lambda>c. conf_string ''PROFILE_CONFIG2_CODECNAME'' c = macro_str ''MPEG4_PARSER_NAME'' c \<or> conf_string ''PROFILE_CONFIG2_CODECNAME'' c = macro_str ''H264_PARSER_NAME'' c) [say OPTION_OK (\<lambda>c. [Lit ''='', D (u8 ''PROFILE_CONFIG2_FIXED_QUALITY'' c)])] [
          if_else (\<lambda>c. conf_string ''PROFILE_CONFIG2_CODECNAME'' c = macro_str ''JPEG_PARSER_NAME'' c) [say OPTION_OK (\<lambda>c. [Lit ''='', D (u8 ''PROFILE_CONFIG2_JPEG_QUALITY'' c)])] [brk]],
        ret],
      say OPTION_NG (\<lambda>_. [])] [say OPTION_NS (\<lambda>_. [])]]"

definition get_profile1qmode :: "'w command" where [command_defs]:
  "get_profile1qmode = [
    if_else (\<lambda>c. macro_val ''MAX_WEB_PROFILE_NUM'' c \<ge> 1) [
      if_then (\<lambda>c. profile_check c 1 < macro_val ''SPECIAL_PROFILE'' c) [say OPTION_NG (\<lambda>_. []), ret],
      if_else (\<lambda>c. conf_string ''PROFILE_CONFIG0_CODECNAME'' c = macro_str ''MPEG4_PARSER_NAME'' c \<or> conf_string ''PROFILE_CONFIG0_CODECNAME'' c = macro_str ''H264_PARSER_NAME'' c) [say OPTION_OK (\<lambda>c. [Lit ''='', D (u8 ''PROFILE_CONFIG0_QMODE'' c)])] [say OPTION_NG (\<lambda>_. [])]] [say OPTION_NS (\<lambda>_. [])]]"

definition get_profile2qmode :: "'w command" where [command_defs]:
  "get_profile2qmode = [
    if_else (\<lambda>c. macro_val ''MAX_WEB_PROFILE_NUM'' c \<ge> 2) [
      if_then (\<lambda>c. profile_check c 2 < macro_val ''SPECIAL_PROFILE'' c) [say OPTION_NG (\<lambda>_. []), ret],
      if_else (\<lambda>c. conf_string ''PROFILE_CONFIG1_CODECNAME'' c = macro_str ''MPEG4_PARSER_NAME'' c \<or> conf_string ''PROFILE_CONFIG1_CODECNAME'' c = macro_str ''H264_PARSER_NAME'' c) [say OPTION_OK (\<lambda>c. [Lit ''='', D (u8 ''PROFILE_CONFIG1_QMODE'' c)])] [say OPTION_NG (\<lambda>_. [])]] [say OPTION_NS (\<lambda>_. [])]]"

definition get_profile3qmode :: "'w command" where [command_defs]:
  "get_profile3qmode = [
    if_else (\<lambda>c. macro_val ''MAX_WEB_PROFILE_NUM'' c \<ge> 3) [
      if_then (\<lambda>c. profile_check c 3 < macro_val ''SPECIAL_PROFILE'' c) [say OPTION_NG (\<lambda>_. []), ret],
      if_else (\<lambda>c. conf_string ''PROFILE_CONFIG2_CODECNAME'' c = macro_str ''MPEG4_PARSER_NAME'' c \<or> conf_string ''PROFILE_CONFIG2_CODECNAME'' c = macro_str ''H264_PARSER_NAME'' c) [say OPTION_OK (\<lambda>c. [Lit ''='', D (u8 ''PROFILE_CONFIG2_QMODE'' c)])] [say OPTION_NG (\<lambda>_. [])]] [say OPTION_NS (\<lambda>_. [])]]"

definition get_profile4qmode :: "'w command" where [command_defs]:
  "get_profile4qmode = [
    if_else (\<lambda>c. macro_val ''MAX_WEB_PROFILE_NUM'' c \<ge> 4) [
      if_then (\<lambda>c. profile_check c 4 < macro_val ''SPECIAL_PROFILE'' c) [say OPTION_NG (\<lambda>_. []), ret],
      if_else (\<lambda>c. conf_string ''PROFILE_CONFIG3_CODECNAME'' c = macro_str ''MPEG4_PARSER_NAME'' c \<or> conf_string ''PROFILE_CONFIG3_CODECNAME'' c = macro_str ''H264_PARSER_NAME'' c) [say OPTION_OK (\<lambda>c. [Lit ''='', D (u8 ''PROFILE_CONFIG3_QMODE'' c)])] [say OPTION_NG (\<lambda>_. [])]] [say OPTION_NS (\<lambda>_. [])]]"

definition get_profile1gov :: "'w command" where [command_defs]:
  "get_profile1gov = [
    if_else (\<lambda>c. macro_val ''MAX_WEB_PROFILE_NUM'' c \<ge> 1) [
      if_then (\<lambda>c. profile_check c 1 < macro_val ''SPECIAL_PROFILE'' c) [say OPTION_NG (\<lambda>_. []), ret],
      if_else (\<lambda>c. conf_string ''PROFILE_CONFIG0_CODECNAME'' c = macro_str ''MPEG4_PARSER_NAME'' c \<or> conf_string ''PROFILE_CONFIG0_CODECNAME'' c = macro_str ''H264_PARSER_NAME'' c) [
        say OPTION_OK (\<lambda>c. [Lit ''='', Str (conf_string ''PROFILE_CONFIG0_MPEG4GOV'' c)])] [say OPTION_NG (\<lambda>_. [])]] [say OPTION_NS (\<lambda>_. [])]]"

definition get_profile2gov :: "'w command" where [command_defs]:
  "get_profile2gov = [
    if_else (\<lambda>c. macro_val ''MAX_WEB_PROFILE_NUM'' c \<ge> 2) [
      if_then (\<lambda>c. profile_check c 2 < macro_val ''SPECIAL_PROFILE'' c) [say OPTION_NG (\<lambda>_. []), ret],
      if_else (\<lambda>c. conf_string ''PROFILE_CONFIG1_CODECNAME'' c = macro_str ''MPEG4_PARSER_NAME'' c \<or> conf_string ''PROFILE_CONFIG1_CODECNAME'' c = macro_str ''H264_PARSER_NAME'' c) [
        say OPTION_OK (\<lambda>c. [Lit ''='', Str (conf_string ''PROFILE_CONFIG1_MPEG4GOV'' c)])] [say OPTION_NG (\<lambda>_. [])]] [say OPTION_NS (\<lambda>_. [])]]"

definition get_profile3gov :: "'w command" where [command_defs]:
  "get_profile3gov = [
    if_else (\<lambda>c. macro_val ''MAX_WEB_PROFILE_NUM'' c \<ge> 3) [
      if_then (\<lambda>c. profile_check c 3 < macro_val ''SPECIAL_PROFILE'' c) [say OPTION_NG (\<lambda>_. []), ret],
      if_else (\<lambda>c. conf_string ''PROFILE_CONFIG2_CODECNAME'' c = macro_str ''MPEG4_PARSER_NAME'' c \<or> conf_string ''PROFILE_CONFIG2_CODECNAME'' c = macro_str ''H264_PARSER_NAME'' c) [
        say OPTION_OK (\<lambda>c. [Lit ''='', Str (conf_string ''PROFILE_CONFIG2_MPEG4GOV'' c)])] [say OPTION_NG (\<lambda>_. [])]] [say OPTION_NS (\<lambda>_. [])]]"

definition set_prf2quality :: "'w command" where [command_defs]:
  "set_prf2quality = [
    if_else (\<lambda>c. macro_val ''MAX_WEB_PROFILE_NUM'' c \<ge> 2) [
      if_then (\<lambda>c. val c = []) [
        if_then (\<lambda>c. profile_check c 2 < macro_val ''SPECIAL_PROFILE'' c) [say OPTION_NG (\<lambda>_. []), ret],
        if_else (\<lambda>c. conf_string ''PROFILE_CONFIG1_CODECNAME'' c = macro_str ''MPEG4_PARSER_NAME'' c \<or> conf_string ''PROFILE_CONFIG1_CODECNAME'' c = macro_str ''H264_PARSER_NAME'' c) [say OPTION_OK (\<lambda>c. [Lit ''='', D (u8 ''PROFILE_CONFIG1_FIXED_QUALITY'' c)])] [
          if_else (\<lambda>c. conf_string ''PROFILE_CONFIG1_CODECNAME'' c = macro_str ''JPEG_PARSER_NAME'' c) [say OPTION_OK (\<lambda>c. [Lit ''='', D (u8 ''PROFILE_CONFIG1_JPEG_QUALITY'' c)])] [say OPTION_NG (\<lambda>_. [])]],
        ret],
      if_then (\<lambda>c. profile_check c 2 < macro_val ''EXIST_PROFILE'' c) [say OPTION_NG (\<lambda>_. []), ret],
      do_once [
        if_then (\<lambda>c. numeric_check (val c) < 0) [brk],
        bind (\<lambda>c. to_u8 (atoi (val c))) (\<lambda>value. [
          if_then (\<lambda>c. value > macro_val ''MAX_PROFILE_QUALITY'' c) [brk],
          control_data ''SFIELD_SET_PROFILE2_QUALITY'' (\<lambda>c. Num 1 value) (\<lambda>ret_val. [if_then (\<lambda>c. ret_val < 0) [brk]]),
          say OPTION_OK (\<lambda>_. []),
          ret])],
      say OPTION_NG (\<lambda>_. [])] [say OPTION_NS (\<lambda>_. [])]]"

subsection \<open>What they print and what they hand to the system\<close>

definition stream_commands :: "'w command list" where
  "stream_commands = [
    undefined_cmd, get_supportmaskarea, set_eptzwindowsize, set_maskareaenable, get_supportonvif, get_supportflickless,
    get_supportpowerline, get_supportagc, get_supportawb, get_supportbacklight, get_supportblcmode, get_supportbrightness,
    get_supportdenoise, get_supportevcomp, get_supportdre, get_supportcapturepriority, get_supportcfcard, get_supportcolorkiller,
    get_maxchannel, get_maxregister, get_minnamelen, get_supportcontrast, get_supportds1302, get_supportexposure,
    get_supportfluorescent, get_supportfs, get_supporth3a, get_serialnumber, get_setupversion, get_softwareversion,
    get_firmwareversion, get_uartspeed, get_supporthspeedshutter, get_supporthue, get_supportkelvin, get_supportluminance,
    get_supportmaxagcgain, get_supportmirror, get_supportflip, get_supportprotect, get_supportrs485, rs485_delay, set_485protocol,
    set_485id, set_rtspport, replytest, set_wintimezone, get_maxstreamcount, get_supportstream1, get_supportstream2,
    get_supportstream3, get_supportstream4, get_profile1format, get_profile2format, get_profile3format, get_profile4format,
    get_profile1xsize, get_profile2xsize, get_profile3xsize, get_profile1ysize, get_profile2ysize, get_profile3ysize, set_prf1rate,
    get_profile1bps, set_prf1quality, set_profile1keyframeinterval, set_prf2rate, get_profile2bps, set_profile2keyframeinterval,
    set_prf3rate, set_prf3quality, set_prf4qmod, get_supportprofilenumber, get_supportaspectratio, set_aspectratio, get_profile3bps,
    get_profile1quality, get_profile2quality, get_profile3quality, get_profile1qmode, get_profile2qmode, get_profile3qmode,
    get_profile4qmode, get_profile1gov, get_profile2gov, get_profile3gov, set_prf2quality]"

lemma stream_commands_answer: "list_all (answers_once S) stream_commands"
  unfolding stream_commands_def list.pred_inject answers_once_def command_defs by (intro conjI counting TrueI; simp add: tail_ok_def)

text \<open>The commands that set a field, with the field whose limit they check.\<close>

definition stream_limits :: "(cstring \<times> 'w command) list" where
  "stream_limits = [
    (''MASKAREAENABLE'', set_maskareaenable), (''RS485_PROTOCOL'', set_485protocol), (''RS485_ID'', set_485id),
    (''RTSP_PORT'', set_rtspport), (''NTP_TIMEZONE'', set_wintimezone), (''PROFILE_CONFIG3_QMODE'', set_prf4qmod)]"

lemma stream_limits_hold: "list_all (\<lambda>(F, cmd). within_limit F cmd) stream_limits"
  unfolding stream_limits_def list.pred_inject prod.case within_limit_def always_def command_defs by (intro conjI allI wp TrueI; simp)

end
