(* ===== verification/Boa_Api_System.thy ===== *)
theory Boa_Api_System
  imports Boa_Api
begin

unbundle bit_operations_syntax

text \<open>
  The commands for the system (\<^verbatim>\<open>appro_api.c\<close>, last part): wireless network, services, motion detection, clock, audio, lamps.
\<close>

subsection \<open>The handlers\<close>

definition get_supportsaturation :: "'w command" where [command_defs]:
  "get_supportsaturation = [
    if_else (\<lambda>c. macro_defined ''SUPPORT_SATURATION'' c) [say OPTION_OK (\<lambda>c. [Lit ''=1''])] [say OPTION_OK (\<lambda>c. [Lit ''=0''])]]"

definition get_supportsd :: "'w command" where [command_defs]:
  "get_supportsd = [
    if_else (\<lambda>c. macro_defined ''SUPPORT_SD'' c) [say OPTION_OK (\<lambda>c. [Lit ''=1''])] [say OPTION_OK (\<lambda>c. [Lit ''=0''])]]"

definition get_supportsenseup :: "'w command" where [command_defs]:
  "get_supportsenseup = [
    if_else (\<lambda>c. macro_defined ''SUPPORT_SENSEUP'' c) [say OPTION_OK (\<lambda>c. [Lit ''=1''])] [say OPTION_OK (\<lambda>c. [Lit ''=0''])]]"

definition get_supportsharpness :: "'w command" where [command_defs]:
  "get_supportsharpness = [
    if_else (\<lambda>c. macro_defined ''SUPPORT_SHARPNESS'' c) [say OPTION_OK (\<lambda>c. [Lit ''=1''])] [say OPTION_OK (\<lambda>c. [Lit ''=0''])]]"

definition get_supportst16550 :: "'w command" where [command_defs]:
  "get_supportst16550 = [
    if_else (\<lambda>c. macro_defined ''SUPPORT_ST16550'' c) [say OPTION_OK (\<lambda>c. [Lit ''=1''])] [say OPTION_OK (\<lambda>c. [Lit ''=0''])]]"

definition get_supporttwowayaudio :: "'w command" where [command_defs]:
  "get_supporttwowayaudio = [
    if_else (\<lambda>c. macro_defined ''SUPPORT_TWOWAY_AUDIO'' c) [say OPTION_OK (\<lambda>c. [Lit ''=1''])] [say OPTION_OK (\<lambda>c. [Lit ''=0''])]]"

definition get_supportusb :: "'w command" where [command_defs]:
  "get_supportusb = [
    if_else (\<lambda>c. macro_defined ''CONFIG_BRAND_DLINK'' c \<or> macro_defined ''MACHINE_TYPE_VIDEOSERVER'' c \<or> macro_val ''SUPPORT_DOME'' c = 1) [say OPTION_OK (\<lambda>c. [Lit ''=0''])] [say OPTION_OK (\<lambda>c. [Lit ''=1''])]]"

definition get_supportwatchdog :: "'w command" where [command_defs]:
  "get_supportwatchdog = [say OPTION_OK (\<lambda>c. [Lit ''=1''])]"

definition get_supportwireless :: "'w command" where [command_defs]:
  "get_supportwireless = [
    if_else (\<lambda>c. macro_defined ''SUPPORT_WIRELESS'' c) [say OPTION_OK (\<lambda>c. [Lit ''=1''])] [say OPTION_OK (\<lambda>c. [Lit ''=0''])]]"

definition set_wladhoc :: "'w command" where [command_defs]:
  "set_wladhoc = [
    if_else (\<lambda>c. macro_defined ''SUPPORT_WIRELESS'' c) [do_once [say OPTION_OK (\<lambda>_. []), ret], say OPTION_NG (\<lambda>_. [])] [say OPTION_NS (\<lambda>_. [])]]"

definition get_wladhoc :: "'w command" where [command_defs]:
  "get_wladhoc = [
    if_else (\<lambda>c. macro_defined ''SUPPORT_WIRELESS'' c) [say OPTION_OK (\<lambda>_. [])] [say OPTION_NS (\<lambda>_. [])]]"

definition set_wlchannel :: "'w command" where [command_defs]:
  "set_wlchannel = [
    if_else (\<lambda>c. macro_defined ''SUPPORT_WIRELESS'' c) [do_once [say OPTION_OK (\<lambda>_. []), ret], say OPTION_NG (\<lambda>_. [])] [say OPTION_NS (\<lambda>_. [])]]"

definition get_wlchannel :: "'w command" where [command_defs]:
  "get_wlchannel = [
    if_else (\<lambda>c. macro_defined ''SUPPORT_WIRELESS'' c) [say OPTION_OK (\<lambda>_. [])] [say OPTION_NS (\<lambda>_. [])]]"

definition set_wlencryption :: "'w command" where [command_defs]:
  "set_wlencryption = [
    if_else (\<lambda>c. macro_defined ''SUPPORT_WIRELESS'' c) [do_once [say OPTION_OK (\<lambda>_. []), ret], say OPTION_NG (\<lambda>_. [])] [say OPTION_NS (\<lambda>_. [])]]"

definition get_wlencryption :: "'w command" where [command_defs]:
  "get_wlencryption = [
    if_else (\<lambda>c. macro_defined ''SUPPORT_WIRELESS'' c) [say OPTION_OK (\<lambda>_. [])] [say OPTION_NS (\<lambda>_. [])]]"

definition set_wlessid :: "'w command" where [command_defs]:
  "set_wlessid = [
    if_else (\<lambda>c. macro_defined ''SUPPORT_WIRELESS'' c) [do_once [say OPTION_OK (\<lambda>_. []), ret], say OPTION_NG (\<lambda>_. [])] [say OPTION_NS (\<lambda>_. [])]]"

definition get_wlessid :: "'w command" where [command_defs]:
  "get_wlessid = [
    if_else (\<lambda>c. macro_defined ''SUPPORT_WIRELESS'' c) [say OPTION_OK (\<lambda>_. [])] [say OPTION_NS (\<lambda>_. [])]]"

definition get_wlstatus :: "'w command" where [command_defs]:
  "get_wlstatus = [
    if_else (\<lambda>c. macro_defined ''SUPPORT_WIRELESS'' c) [say OPTION_OK (\<lambda>_. [])] [say OPTION_NS (\<lambda>_. [])]]"

definition set_wlwepkey :: "'w command" where [command_defs]:
  "set_wlwepkey = [
    if_else (\<lambda>c. macro_defined ''SUPPORT_WIRELESS'' c) [do_once [say OPTION_OK (\<lambda>_. []), ret], say OPTION_NG (\<lambda>_. [])] [say OPTION_NS (\<lambda>_. [])]]"

definition get_wlwepkey :: "'w command" where [command_defs]:
  "get_wlwepkey = [
    if_else (\<lambda>c. macro_defined ''SUPPORT_WIRELESS'' c) [say OPTION_OK (\<lambda>_. [])] [say OPTION_NS (\<lambda>_. [])]]"

definition set_wlwepwhich :: "'w command" where [command_defs]:
  "set_wlwepwhich = [
    if_else (\<lambda>c. macro_defined ''SUPPORT_WIRELESS'' c) [do_once [say OPTION_OK (\<lambda>_. []), ret], say OPTION_NG (\<lambda>_. [])] [say OPTION_NS (\<lambda>_. [])]]"

definition get_wlwepwhich :: "'w command" where [command_defs]:
  "get_wlwepwhich = [
    if_else (\<lambda>c. macro_defined ''SUPPORT_WIRELESS'' c) [say OPTION_OK (\<lambda>_. [])] [say OPTION_NS (\<lambda>_. [])]]"

definition get_servicedhcpclient :: "'w command" where [command_defs]:
  "get_servicedhcpclient = [
    if_else (\<lambda>c. macro_defined ''SERVICE_DHCPCLIENT'' c) [say OPTION_OK (\<lambda>c. [Lit ''=1''])] [say OPTION_OK (\<lambda>c. [Lit ''=0''])]]"

definition get_supportdhcpdipswitch :: "'w command" where [command_defs]:
  "get_supportdhcpdipswitch = [
    if_else (\<lambda>c. \<not> macro_defined ''DHCP_CONFIG'' c) [
      if_else (\<lambda>c. macro_defined ''CONFIG_BRAND_TYCO'' c) [say OPTION_OK (\<lambda>c. [Lit ''=0''])] [say OPTION_OK (\<lambda>c. [Lit ''=1''])]] [say OPTION_OK (\<lambda>c. [Lit ''=0''])]]"

definition get_servicehello :: "'w command" where [command_defs]:
  "get_servicehello = [
    if_else (\<lambda>c. macro_defined ''SERVICE_HELLO'' c) [say OPTION_OK (\<lambda>c. [Lit ''=1''])] [say OPTION_OK (\<lambda>c. [Lit ''=0''])]]"

definition get_servicemcenter :: "'w command" where [command_defs]:
  "get_servicemcenter = [
    if_else (\<lambda>c. macro_defined ''SERVICE_MCENTER'' c) [say OPTION_OK (\<lambda>c. [Lit ''=1''])] [say OPTION_OK (\<lambda>c. [Lit ''=0''])]]"

definition get_mcenterenable :: "'w command" where [command_defs]:
  "get_mcenterenable = [
    if_else (\<lambda>c. macro_defined ''SERVICE_MCENTER'' c) [do_once [say OPTION_OK (\<lambda>_. []), ret], say OPTION_NG (\<lambda>_. [])] [say OPTION_NS (\<lambda>_. [])]]"

definition set_mcenterfqdn :: "'w command" where [command_defs]:
  "set_mcenterfqdn = [
    if_else (\<lambda>c. macro_defined ''SERVICE_MCENTER'' c) [do_once [say OPTION_OK (\<lambda>_. []), ret], say OPTION_NG (\<lambda>_. [])] [say OPTION_NS (\<lambda>_. [])]]"

definition get_mcenterfqdn :: "'w command" where [command_defs]:
  "get_mcenterfqdn = [
    if_else (\<lambda>c. macro_defined ''SERVICE_MCENTER'' c) [do_once [say OPTION_OK (\<lambda>_. []), ret], say OPTION_NG (\<lambda>_. [])] [say OPTION_NS (\<lambda>_. [])]]"

definition set_mcenterpassword :: "'w command" where [command_defs]:
  "set_mcenterpassword = [
    if_else (\<lambda>c. macro_defined ''SERVICE_MCENTER'' c) [do_once [say OPTION_OK (\<lambda>_. []), ret], say OPTION_NG (\<lambda>_. [])] [say OPTION_NS (\<lambda>_. [])]]"

definition get_mcenterpassword :: "'w command" where [command_defs]:
  "get_mcenterpassword = [
    if_else (\<lambda>c. macro_defined ''SERVICE_MCENTER'' c) [do_once [say OPTION_OK (\<lambda>_. []), ret], say OPTION_NG (\<lambda>_. [])] [say OPTION_NS (\<lambda>_. [])]]"

definition set_mcenterport :: "'w command" where [command_defs]:
  "set_mcenterport = [
    if_else (\<lambda>c. macro_defined ''SERVICE_MCENTER'' c) [do_once [say OPTION_OK (\<lambda>_. []), ret], say OPTION_NG (\<lambda>_. [])] [say OPTION_NS (\<lambda>_. [])]]"

definition get_mcenterport :: "'w command" where [command_defs]:
  "get_mcenterport = [
    if_else (\<lambda>c. macro_defined ''SERVICE_MCENTER'' c) [do_once [say OPTION_OK (\<lambda>_. []), ret], say OPTION_NG (\<lambda>_. [])] [say OPTION_NS (\<lambda>_. [])]]"

definition set_mcenterenable :: "'w command" where [command_defs]:
  "set_mcenterenable = [
    if_else (\<lambda>c. macro_defined ''SERVICE_MCENTER'' c) [do_once [say OPTION_OK (\<lambda>_. []), ret], say OPTION_NG (\<lambda>_. [])] [say OPTION_NS (\<lambda>_. [])]]"

definition set_mcenteraccount :: "'w command" where [command_defs]:
  "set_mcenteraccount = [
    if_else (\<lambda>c. macro_defined ''SERVICE_MCENTER'' c) [do_once [say OPTION_OK (\<lambda>_. []), ret], say OPTION_NG (\<lambda>_. [])] [say OPTION_NS (\<lambda>_. [])]]"

definition get_servicenetbiosns :: "'w command" where [command_defs]:
  "get_servicenetbiosns = [
    if_else (\<lambda>c. macro_defined ''SERVICE_NETBIOSNS'' c) [say OPTION_OK (\<lambda>c. [Lit ''=1''])] [say OPTION_OK (\<lambda>c. [Lit ''=0''])]]"

definition get_servicennews :: "'w command" where [command_defs]:
  "get_servicennews = [
    if_else (\<lambda>c. macro_defined ''SERVICE_NNEWS'' c) [say OPTION_OK (\<lambda>c. [Lit ''=1''])] [say OPTION_OK (\<lambda>c. [Lit ''=0''])]]"

definition get_servicescanport :: "'w command" where [command_defs]:
  "get_servicescanport = [
    if_else (\<lambda>c. macro_defined ''SERVICE_SCANPORT'' c) [say OPTION_OK (\<lambda>c. [Lit ''=1''])] [say OPTION_OK (\<lambda>c. [Lit ''=0''])]]"

definition get_supportaudioinswitch :: "'w command" where [command_defs]:
  "get_supportaudioinswitch = [
    if_else (\<lambda>c. macro_defined ''SUPPORT_AUDIO_SWITCH'' c) [say OPTION_OK (\<lambda>c. [Lit ''=1''])] [say OPTION_OK (\<lambda>c. [Lit ''=0''])]]"

definition get_supportaudioencselect :: "'w command" where [command_defs]:
  "get_supportaudioencselect = [
    if_else (\<lambda>c. macro_defined ''MODEL_VS2415'' c) [say OPTION_OK (\<lambda>c. [Lit ''=1''])] [say OPTION_OK (\<lambda>c. [Lit ''=0''])]]"

definition get_supportwdrlevel :: "'w command" where [command_defs]:
  "get_supportwdrlevel = [
    if_else (\<lambda>c. macro_defined ''SUPPORT_WDRLEVEL'' c) [say OPTION_OK (\<lambda>c. [Lit ''=1''])] [say OPTION_OK (\<lambda>c. [Lit ''=0''])]]"

definition get_supportantiflicker :: "'w command" where [command_defs]:
  "get_supportantiflicker = [
    if_else (\<lambda>c. macro_defined ''SUPPORT_ANTIFLICKER'' c) [say OPTION_OK (\<lambda>c. [Lit ''=1''])] [say OPTION_OK (\<lambda>c. [Lit ''=0''])]]"

definition get_servicesmtpclient :: "'w command" where [command_defs]:
  "get_servicesmtpclient = [
    if_else (\<lambda>c. macro_defined ''SERVICE_SMTPCLIENT'' c) [say OPTION_OK (\<lambda>c. [Lit ''=1''])] [say OPTION_OK (\<lambda>c. [Lit ''=0''])]]"

definition get_localrtc :: "'w command" where [command_defs]:
  "get_localrtc = [say OPTION_OK (\<lambda>c. [Lit ''='', Str ''FM4005-G''])]"

definition get_rtcstatus :: "'w command" where [command_defs]:
  "get_rtcstatus = [say OPTION_OK (\<lambda>c. [Lit ''='', D 1])]"

definition get_serviceftpserver :: "'w command" where [command_defs]:
  "get_serviceftpserver = [
    if_else (\<lambda>c. macro_defined ''SERVICE_FTPSERVER'' c) [say OPTION_OK (\<lambda>c. [Lit ''=1''])] [say OPTION_OK (\<lambda>c. [Lit ''=0''])]]"

definition get_serviceftpclient :: "'w command" where [command_defs]:
  "get_serviceftpclient = [
    if_else (\<lambda>c. macro_defined ''SERVICE_FTPCLIENT'' c) [say OPTION_OK (\<lambda>c. [Lit ''=1''])] [say OPTION_OK (\<lambda>c. [Lit ''=0''])]]"

definition get_servicesntpclient :: "'w command" where [command_defs]:
  "get_servicesntpclient = [
    if_else (\<lambda>c. macro_defined ''SERVICE_SNTPCLIENT'' c) [say OPTION_OK (\<lambda>c. [Lit ''=1''])] [say OPTION_OK (\<lambda>c. [Lit ''=0''])]]"

definition get_servicepppoe :: "'w command" where [command_defs]:
  "get_servicepppoe = [
    if_else (\<lambda>c. macro_defined ''SERVICE_PPPOE'' c) [say OPTION_OK (\<lambda>c. [Lit ''=1''])] [say OPTION_OK (\<lambda>c. [Lit ''=0''])]]"

definition get_serviceddnsclient :: "'w command" where [command_defs]:
  "get_serviceddnsclient = [
    if_else (\<lambda>c. macro_defined ''SERVICE_DDNSCLIENT'' c) [say OPTION_OK (\<lambda>c. [Lit ''=1''])] [say OPTION_OK (\<lambda>c. [Lit ''=0''])]]"

definition get_serviceupnpdevice :: "'w command" where [command_defs]:
  "get_serviceupnpdevice = [
    if_else (\<lambda>c. macro_defined ''SERVICE_UPNPDEVICE'' c) [say OPTION_OK (\<lambda>c. [Lit ''=1''])] [say OPTION_OK (\<lambda>c. [Lit ''=0''])]]"

definition get_serviceipfilter :: "'w command" where [command_defs]:
  "get_serviceipfilter = [
    if_else (\<lambda>c. macro_defined ''SUPPORT_NEW_IPFILTER'' c) [say OPTION_OK (\<lambda>c. [Lit ''=1''])] [say OPTION_OK (\<lambda>c. [Lit ''=0''])]]"

definition get_upnpportforwardingstatus :: "'w command" where [command_defs]:
  "get_upnpportforwardingstatus = [say OPTION_OK (\<lambda>c. [Lit ''='', D (sysinfo ''status.upnpportforewarding'' c)])]"

definition get_supporttstamp :: "'w command" where [command_defs]:
  "get_supporttstamp = [
    if_else (\<lambda>c. macro_defined ''SUPPORT_TSTAMP'' c) [say OPTION_OK (\<lambda>c. [Lit ''=1''])] [say OPTION_OK (\<lambda>c. [Lit ''=0''])]]"

definition get_supportmotion :: "'w command" where [command_defs]:
  "get_supportmotion = [
    if_else (\<lambda>c. macro_defined ''SUPPORT_MOTION'' c) [say OPTION_OK (\<lambda>c. [Lit ''=1''])] [say OPTION_OK (\<lambda>c. [Lit ''=0''])]]"

definition get_supportmotionmode :: "'w command" where [command_defs]:
  "get_supportmotionmode = [say OPTION_OK (\<lambda>c. [Lit ''='', D (macro_val ''SUPPORT_MOTIONMODE'' c)])]"

definition get_supportdncontrol :: "'w command" where [command_defs]:
  "get_supportdncontrol = [
    if_else (\<lambda>c. macro_defined ''SUPPORT_DNCONTROL'' c) [say OPTION_OK (\<lambda>c. [Lit ''=1''])] [say OPTION_OK (\<lambda>c. [Lit ''=0''])]]"

definition get_supportaudio :: "'w command" where [command_defs]:
  "get_supportaudio = [
    if_else (\<lambda>c. macro_defined ''SUPPORT_AUDIO'' c) [say OPTION_OK (\<lambda>c. [Lit ''=1''])] [say OPTION_OK (\<lambda>c. [Lit ''=0''])]]"

definition get_supportavc :: "'w command" where [command_defs]:
  "get_supportavc = [
    if_else (\<lambda>c. macro_defined ''SUPPORT_AVC'' c) [say OPTION_OK (\<lambda>c. [Lit ''=1''])] [say OPTION_OK (\<lambda>c. [Lit ''=0''])]]"

definition get_supportmpeg4 :: "'w command" where [command_defs]:
  "get_supportmpeg4 = [
    if_else (\<lambda>c. macro_defined ''SUPPORT_MPEG4'' c) [say OPTION_OK (\<lambda>c. [Lit ''=1''])] [say OPTION_OK (\<lambda>c. [Lit ''=0''])]]"

definition get_supportmui :: "'w command" where [command_defs]:
  "get_supportmui = [say OPTION_OK (\<lambda>c. [Lit ''='', D (macro_val ''SUPPORT_MUI'' c)])]"

definition whoareonline :: "'w command" where [command_defs]:
  "whoareonline = [
    do_once [say OPTION_OK (\<lambda>c. [Lit ''='', D (macro_val ''SUPPORT_MUI'' c)]), ret],
    say OPTION_NG (\<lambda>_. [])]"

definition get_fluorescent :: "'w command" where [command_defs]:
  "get_fluorescent = [
    if_else (\<lambda>c. macro_defined ''SUPPORT_FLUORESCENT'' c) [say OPTION_OK (\<lambda>c. [Lit ''='', D (u8 ''NFLUORESCENT'' c)])] [say OPTION_NS (\<lambda>_. [])]]"

definition get_brightness :: "'w command" where [command_defs]:
  "get_brightness = [
    if_else (\<lambda>c. macro_defined ''SUPPORT_BRIGHTNESS'' c) [say OPTION_OK (\<lambda>c. [Lit ''='', D (u8 ''NBRIGHTNESS'' c)])] [say OPTION_NS (\<lambda>_. [])]]"

definition get_denoise :: "'w command" where [command_defs]:
  "get_denoise = [
    if_else (\<lambda>c. macro_defined ''SUPPORT_DENOISE'' c) [say OPTION_OK (\<lambda>c. [Lit ''='', D (u8 ''NDENOISE'' c)])] [say OPTION_NS (\<lambda>_. [])]]"

definition get_evcomp :: "'w command" where [command_defs]:
  "get_evcomp = [
    if_else (\<lambda>c. macro_defined ''SUPPORT_EVCOMP'' c) [say OPTION_OK (\<lambda>c. [Lit ''='', D (u8 ''NEVCOMP'' c)])] [say OPTION_NS (\<lambda>_. [])]]"

definition get_backlight :: "'w command" where [command_defs]:
  "get_backlight = [
    if_else (\<lambda>c. macro_defined ''SUPPORT_BACKLIGHT'' c) [say OPTION_OK (\<lambda>c. [Lit ''='', D (u8 ''NBACKLIGHT'' c)])] [say OPTION_NS (\<lambda>_. [])]]"

definition get_blc :: "'w command" where [command_defs]:
  "get_blc = [
    if_else (\<lambda>c. macro_defined ''SUPPORT_BLCMODE'' c) [say OPTION_OK (\<lambda>c. [Lit ''='', D (u8 ''NBACKLIGHTCONTROL'' c)])] [say OPTION_NS (\<lambda>_. [])]]"

definition get_mirror :: "'w command" where [command_defs]:
  "get_mirror = [
    if_else (\<lambda>c. macro_defined ''SUPPORT_MIRROR'' c) [
      if_else (\<lambda>c. macro_val ''SUPPORT_DOME'' c \<noteq> 0 \<and> \<not> macro_defined ''SENSOR_USE_MT9V136'' c) [
        say OPTION_OK (\<lambda>c. [Lit ''='', D (of_bool (\<not> (u8 ''NMIRROR'' c \<noteq> 0)))])] [say OPTION_OK (\<lambda>c. [Lit ''='', D (u8 ''NMIRROR'' c)])]] [say OPTION_NS (\<lambda>_. [])]]"

definition motiondrawenable :: "'w command" where [command_defs]:
  "motiondrawenable = [
    if_else (\<lambda>c. macro_defined ''SUPPORT_MOTION'' c) [
      if_then (\<lambda>c. val c = []) [
        say OPTION_OK (\<lambda>c. [Lit ''='', D (u8 ''MOTION_CONFIG_MOTION_DRAW_ENABLE'' c)]),
        ret],
      do_once [
        if_then (\<lambda>c. numeric_check (val c) < 0) [brk],
        bind (\<lambda>c. to_u8 (atoi (val c))) (\<lambda>value. [
          if_then (\<lambda>c. value > max_of ''MOTION_CONFIG_MOTION_DRAW_ENABLE'' c) [brk],
          if_then (\<lambda>c. u8 ''MOTION_CONFIG_MOTION_DRAW_ENABLE'' c \<noteq> value) [
            control_data ''SFIELD_SET_MOTION_DRAW_ENABLE'' (\<lambda>c. Num 1 value) (\<lambda>ret_val. [if_then (\<lambda>c. ret_val < 0) [brk]])],
          say OPTION_OK (\<lambda>_. []),
          ret])],
      say OPTION_NG (\<lambda>_. [])] [say OPTION_NS (\<lambda>_. [])]]"

definition set_motioncenable :: "'w command" where [command_defs]:
  "set_motioncenable = [
    if_else (\<lambda>c. macro_defined ''SUPPORT_MOTION'' c) [
      bind (\<lambda>c. to_u8 (atoi (val c))) (\<lambda>value. [
        do_once [
          if_then (\<lambda>c. macro_defined ''CONFIG_BRAND_DLINK'' c) [brk],
          if_then (\<lambda>c. u8 ''MOTION_CONFIG_MOTIONCENABLE'' c \<noteq> value) [
            control_data ''SFIELD_SET_MOTIONCENABLE'' (\<lambda>c. Num 1 value) (\<lambda>ret_val. [if_then (\<lambda>c. ret_val < 0) [brk]])],
          say OPTION_OK (\<lambda>_. []),
          ret],
        say OPTION_NG (\<lambda>_. [])])] [say OPTION_NS (\<lambda>_. [])]]"

definition set_motionlevel :: "'w command" where [command_defs]:
  "set_motionlevel = [
    if_else (\<lambda>c. macro_defined ''SUPPORT_MOTION'' c) [
      bind (\<lambda>c. to_u8 (atoi (val c))) (\<lambda>value. [
        do_once [
          if_then (\<lambda>c. u8 ''MOTION_CONFIG_MOTIONLEVEL'' c \<noteq> value) [
            control_data ''SFIELD_SET_MOTIONLEVEL'' (\<lambda>c. Num 1 value) (\<lambda>ret_val. [if_then (\<lambda>c. ret_val < 0) [brk]])],
          say OPTION_OK (\<lambda>_. []),
          ret],
        say OPTION_NG (\<lambda>_. [])])] [say OPTION_NS (\<lambda>_. [])]]"

definition set_motioncvalue :: "'w command" where [command_defs]:
  "set_motioncvalue = [
    if_else (\<lambda>c. macro_defined ''SUPPORT_MOTION'' c) [
      if_then (\<lambda>c. val c = []) [say OPTION_OK (\<lambda>c. [Lit ''='', D (u16 ''MOTION_CONFIG_MOTIONCVALUE'' c)]), ret],
      do_once [
        if_then (\<lambda>c. numeric_check (val c) < 0) [brk],
        bind (\<lambda>c. to_u16 (atoi (val c))) (\<lambda>value. [
          if_then (\<lambda>c. value > max_of ''MOTION_CONFIG_MOTIONCVALUE'' c) [brk],
          if_then (\<lambda>c. u16 ''MOTION_CONFIG_MOTIONCVALUE'' c \<noteq> value) [
            control_data ''SFIELD_SET_MOTIONCVALUE'' (\<lambda>c. Num 2 value) (\<lambda>ret_val. [if_then (\<lambda>c. ret_val < 0) [brk]])],
          say OPTION_OK (\<lambda>_. []),
          ret])],
      say OPTION_NG (\<lambda>_. [])] [say OPTION_NS (\<lambda>_. [])]]"

definition set_motionblock :: "'w command" where [command_defs]:
  "set_motionblock = [
    if_else (\<lambda>c. macro_defined ''SUPPORT_MOTION'' c) [
      if_then (\<lambda>c. val c = []) [
        say OPTION_OK (\<lambda>c. [Lit ''='', Str (conf_string ''MOTION_CONFIG_MOTIONBLOCK'' c)]),
        ret],
      do_once [
        if_then (\<lambda>c. int (length (val c)) > max_of ''MOTION_CONFIG_MOTIONBLOCK'' c) [brk],
        if_then (\<lambda>c. val c = conf_string ''MOTION_CONFIG_MOTIONBLOCK'' c) [brk],
        control_data ''SFIELD_SET_MOTIONBLOCK'' (\<lambda>c. Text (val c)) (\<lambda>ret_val. [if_then (\<lambda>c. ret_val < 0) [brk]]),
        say OPTION_OK (\<lambda>_. []),
        ret],
      say OPTION_NG (\<lambda>_. [])] [say OPTION_NS (\<lambda>_. [])]]"

definition set_motionpercentage :: "'w command" where [command_defs]:
  "set_motionpercentage = [
    if_else (\<lambda>c. macro_defined ''SUPPORT_MOTION'' c) [
      if_then (\<lambda>c. val c = []) [
        say OPTION_OK (\<lambda>c. [Lit ''='', D (u8 ''MOTION_CONFIG_MOTIONPERCENTAGE'' c)]),
        ret],
      do_once [
        if_then (\<lambda>c. numeric_check (val c) < 0) [brk],
        bind (\<lambda>c. to_u8 (atoi (val c))) (\<lambda>value. [
          if_then (\<lambda>c. value > max_of ''MOTION_CONFIG_MOTIONPERCENTAGE'' c) [brk],
          if_then (\<lambda>c. u8 ''MOTION_CONFIG_MOTIONPERCENTAGE'' c \<noteq> value) [
            control_data ''SFIELD_SET_MOTION_PERCENTAGE'' (\<lambda>c. Num 1 value) (\<lambda>ret_val. [if_then (\<lambda>c. ret_val < 0) [brk]])],
          say OPTION_OK (\<lambda>_. []),
          ret])],
      say OPTION_NG (\<lambda>_. [])] [say OPTION_NS (\<lambda>_. [])]]"

definition sensorcropenable :: "'w command" where [command_defs]:
  "sensorcropenable = [
    if_then (\<lambda>c. macro_val ''USE_SENSOR_CROP'' c = 0) [say OPTION_NS (\<lambda>_. []), ret],
    if_then (\<lambda>c. int (length (val c)) = 0) [say OPTION_OK (\<lambda>c. [Lit ''='', D (u8 ''SENSOR_CROP_ENABLE'' c)])],
    do_once [
      bind (\<lambda>c. atoi (val c)) (\<lambda>value. [
        if_then (\<lambda>c. value > 1) [brk],
        if_then (\<lambda>c. u32 ''SENSOR_CROP_ENABLE'' c \<noteq> to_u32 value) [
          store_info ''procs_status.reset_status'' (\<lambda>c. macro_val ''NEED_RESET'' c),
          write_info ''SENSOR_CROP_ENABLE'' (\<lambda>c. Num 4 value) (\<lambda>_. [])],
        say OPTION_OK (\<lambda>_. []),
        ret])],
    say OPTION_NG (\<lambda>_. [])]"

definition sensorstartx :: "'w command" where [command_defs]:
  "sensorstartx = [
    if_then (\<lambda>c. macro_val ''USE_SENSOR_CROP'' c = 0) [say OPTION_NS (\<lambda>_. [])],
    if_then (\<lambda>c. int (length (val c)) = 0) [say OPTION_OK (\<lambda>c. [Lit ''='', D (u32 ''SENSOR_CROP_STARTX'' c)])],
    do_once [
      if_then (\<lambda>c. numeric_check (val c) < 0 \<or> u8 ''SENSOR_CROP_ENABLE'' c = 0) [brk],
      bind (\<lambda>c. atoi (val c)) (\<lambda>value. [
        if_then (\<lambda>c. value < 0 \<or> value > 520) [brk],
        if_then (\<lambda>c. u32 ''SENSOR_CROP_STARTX'' c \<noteq> to_u32 value) [
          control_data ''SFIELD_SET_SENSOR_STARTX'' (\<lambda>c. Num 4 value) (\<lambda>ret_val. [if_then (\<lambda>c. ret_val < 0) [brk]])],
        say OPTION_OK (\<lambda>_. []),
        ret])],
    say OPTION_NG (\<lambda>_. [])]"

definition sensorstarty :: "'w command" where [command_defs]:
  "sensorstarty = [
    if_then (\<lambda>c. macro_val ''USE_SENSOR_CROP'' c = 0) [say OPTION_NS (\<lambda>_. [])],
    if_then (\<lambda>c. int (length (val c)) = 0) [say OPTION_OK (\<lambda>c. [Lit ''='', D (u32 ''SENSOR_CROP_STARTY'' c)])],
    ret,
    do_once [
      if_then (\<lambda>c. numeric_check (val c) < 0 \<or> u8 ''SENSOR_CROP_ENABLE'' c = 0) [brk],
      bind (\<lambda>c. atoi (val c)) (\<lambda>value. [
        if_then (\<lambda>c. value < 0 \<or> value > 300) [brk],
        if_then (\<lambda>c. u32 ''SENSOR_CROP_STARTY'' c \<noteq> to_u32 value) [
          control_data ''SFIELD_SET_SENSOR_STARTY'' (\<lambda>c. Num 4 value) (\<lambda>ret_val. [if_then (\<lambda>c. ret_val < 0) [brk]])],
        say OPTION_OK (\<lambda>_. []),
        ret])],
    say OPTION_NG (\<lambda>_. [])]"

definition set_ratecontrol :: "'w command" where [command_defs]:
  "set_ratecontrol = [
    bind (\<lambda>c. to_u8 (atoi (val c))) (\<lambda>value. [
      do_once [
        control_data ''SFIELD_SET_RATE_CONTROL'' (\<lambda>c. Num 1 value) (\<lambda>_. []),
        say OPTION_OK (\<lambda>_. []),
        ret],
      say OPTION_NG (\<lambda>_. [])])]"

definition set_videocodecmode :: "'w command" where [command_defs]:
  "set_videocodecmode = [
    bind (\<lambda>c. to_u8 (atoi (val c))) (\<lambda>value. [
      do_once [
        if_then (\<lambda>c. u8 ''NVIDEOCODECMODE'' c \<noteq> value) [control_data ''SFIELD_SET_VIDEOCODECMODE'' (\<lambda>c. Num 1 value) (\<lambda>_. [])],
        say OPTION_OK (\<lambda>_. []),
        ret],
      say OPTION_NG (\<lambda>_. [])])]"

definition set_videocodecres :: "'w command" where [command_defs]:
  "set_videocodecres = [
    bind (\<lambda>c. to_u8 (atoi (val c))) (\<lambda>value. [
      do_once [
        if_then (\<lambda>c. u8 ''NVIDEOCODECRES'' c \<noteq> value) [control_data ''SFIELD_SET_VIDEOCODECRES'' (\<lambda>c. Num 1 value) (\<lambda>_. [])],
        say OPTION_OK (\<lambda>_. []),
        ret],
      say OPTION_NG (\<lambda>_. [])])]"

definition set_tvcable :: "'w command" where [command_defs]:
  "set_tvcable = [
    bind (\<lambda>c. to_u8 (atoi (val c))) (\<lambda>value. [
      do_once [
        if_then (\<lambda>c. u8 ''NTVCABLE'' c \<noteq> value) [control_data ''SFIELD_SET_TVCABLE'' (\<lambda>c. Num 1 value) (\<lambda>_. [])],
        say OPTION_OK (\<lambda>_. []),
        ret],
      say OPTION_NG (\<lambda>_. [])])]"

definition set_binning :: "'w command" where [command_defs]:
  "set_binning = [
    bind (\<lambda>c. to_u8 (atoi (val c))) (\<lambda>value. [
      do_once [
        if_then (\<lambda>c. u8 ''NBINNING'' c \<noteq> value) [control_data ''SFIELD_SET_BINNING'' (\<lambda>c. Num 1 value) (\<lambda>_. [])],
        say OPTION_OK (\<lambda>_. []),
        ret],
      say OPTION_NG (\<lambda>_. [])])]"

definition set_blcmode :: "'w command" where [command_defs]:
  "set_blcmode = [
    if_else (\<lambda>c. macro_defined ''SUPPORT_BLCMODE'' c) [
      if_then (\<lambda>c. val c = []) [say OPTION_OK (\<lambda>c. [Lit ''='', D (u8 ''NBACKLIGHTCONTROL'' c)]), ret],
      do_once [
        if_then (\<lambda>c. numeric_check (val c) < 0) [brk],
        bind (\<lambda>c. to_u8 (atoi (val c))) (\<lambda>value. [
          if_then (\<lambda>c. value > max_of ''NBACKLIGHTCONTROL'' c) [brk],
          if_then (\<lambda>c. u8 ''NBACKLIGHTCONTROL'' c \<noteq> value) [control_data ''SFIELD_SET_BLCMODE'' (\<lambda>c. Num 1 value) (\<lambda>_. [])],
          say OPTION_OK (\<lambda>_. []),
          ret])],
      say OPTION_NG (\<lambda>_. [])] [say OPTION_NS (\<lambda>_. [])]]"

definition get_maxaccount :: "'w command" where [command_defs]:
  "get_maxaccount = [
    do_once [say OPTION_OK (\<lambda>c. [Lit ''='', D (macro_val ''ACOUNT_NUM'' c)]), ret],
    say OPTION_NG (\<lambda>_. [])]"

definition get_maxpwdlen :: "'w command" where [command_defs]:
  "get_maxpwdlen = [
    do_once [say OPTION_OK (\<lambda>c. [Lit ''='', D (macro_val ''MAX_PASS_SIZE'' c)]), ret],
    say OPTION_NG (\<lambda>_. [])]"

definition get_maxnamelen :: "'w command" where [command_defs]:
  "get_maxnamelen = [
    do_once [say OPTION_OK (\<lambda>c. [Lit ''='', D (macro_val ''MAX_USER_SIZE'' c)]), ret],
    say OPTION_NG (\<lambda>_. [])]"

definition get_maxfqdnlen :: "'w command" where [command_defs]:
  "get_maxfqdnlen = [
    do_once [say OPTION_OK (\<lambda>c. [Lit ''='', D (macro_val ''MAX_FQDN_LENGTH'' c)]), ret],
    say OPTION_NG (\<lambda>_. [])]"

definition set_imagedefault :: "'w command" where [command_defs]:
  "set_imagedefault = [
    do_once [
      if_then (\<lambda>c. numeric_check (val c) < 0) [brk],
      bind (\<lambda>c. to_u8 (atoi (val c))) (\<lambda>value. [
        if_then (\<lambda>c. value \<noteq> 1) [brk],
        control_data ''SFIELD_SET_IMAGEDEFAULT'' (\<lambda>c. Num 1 value) (\<lambda>_. []),
        say OPTION_OK (\<lambda>_. []),
        ret])],
    say OPTION_NG (\<lambda>_. [])]"

definition get_chipcheck :: "'w command" where [command_defs]:
  "get_chipcheck = [
    if_else (\<lambda>c. macro_defined ''SENSOR_USE_IMX035'' c) [
      bind (\<lambda>c. 0) (\<lambda>value. [
        do_once [
          control_data ''SFIELD_CHIPCHECK'' (\<lambda>c. Num 1 value) (\<lambda>_. []),
          say_text (\<lambda>c. [Lit ''chipcheck = '', Str (if sysinfo ''status.chipcheck'' c = 0 then ''OK'' else ''FAIL''), Lit nl]),
          ret],
        say OPTION_NG (\<lambda>_. [])])] [say OPTION_NS (\<lambda>_. [])]]"

definition get_audioinvolume :: "'w command" where [command_defs]:
  "get_audioinvolume = [
    do_once [say OPTION_OK (\<lambda>c. [Lit ''='', D (u8 ''AUDIOINVOLUME'' c)]), ret],
    say OPTION_NG (\<lambda>_. [])]"

definition init_ipncptz :: "'w command" where [command_defs]:
  "init_ipncptz = [
    do_once [
      control_data ''SFIELD_INIT_IPNCPTZ'' (\<lambda>c. Text (val c)) (\<lambda>ret_val. [if_then (\<lambda>c. ret_val < 0) [brk]]),
      say OPTION_OK (\<lambda>_. []),
      ret],
    say OPTION_NG (\<lambda>_. [])]"

definition set_timeformat :: "'w command" where [command_defs]:
  "set_timeformat = [
    if_then (\<lambda>c. val c = []) [say OPTION_OK (\<lambda>c. [Lit ''='', D (u8 ''TIME_FORMAT'' c)]), ret],
    do_once [
      if_then (\<lambda>c. numeric_check (val c) < 0) [brk],
      bind (\<lambda>c. to_u8 (atoi (val c))) (\<lambda>value. [
        if_then (\<lambda>c. value > max_of ''TIME_FORMAT'' c) [brk],
        if_then (\<lambda>c. u8 ''TIME_FORMAT'' c \<noteq> value) [control_data ''SFIELD_SET_TIMEFORMAT'' (\<lambda>c. Num 1 value) (\<lambda>_. [])],
        say OPTION_OK (\<lambda>_. []),
        ret])],
    say OPTION_NG (\<lambda>_. [])]"

definition set_daylight :: "'w command" where [command_defs]:
  "set_daylight = [
    if_then (\<lambda>c. val c = []) [say OPTION_OK (\<lambda>c. [Lit ''='', D (u8 ''DST_ENABLE'' c)]), ret],
    do_once [
      if_then (\<lambda>c. numeric_check (val c) < 0) [brk],
      bind (\<lambda>c. atoi (val c)) (\<lambda>value. [
        if_then (\<lambda>c. value > max_of ''DST_ENABLE'' c) [brk],
        if_then (\<lambda>c. u8 ''DST_ENABLE'' c \<noteq> value) [
          control_data ''SFIELD_SET_DAYLIGHT'' (\<lambda>c. Num 4 value) (\<lambda>_. []),
          extern_call ''setenv'' (\<lambda>c. [Text ''TZ'', Text (sysinfo_str ''tzenv'' c), Num 4 1]),
          extern_call ''tzset'' (\<lambda>c. [])],
        say OPTION_OK (\<lambda>_. []),
        ret])],
    say OPTION_NG (\<lambda>_. [])]"

definition set_dstshift :: "'w command" where [command_defs]:
  "set_dstshift = [
    if_then (\<lambda>c. val c = []) [say OPTION_OK (\<lambda>c. [Lit ''='', D (u8 ''DST_SHIFT'' c)]), ret],
    do_once [
      if_then (\<lambda>c. numeric_check (val c) < 0) [brk],
      bind (\<lambda>c. atoi (val c)) (\<lambda>value. [
        if_then (\<lambda>c. value > max_of ''DST_SHIFT'' c) [brk],
        if_then (\<lambda>c. u8 ''DST_SHIFT'' c \<noteq> value) [
          control_data ''SFIELD_SET_DST_SHIFT'' (\<lambda>c. Num 4 value) (\<lambda>_. []),
          extern_call ''setenv'' (\<lambda>c. [Text ''TZ'', Text (sysinfo_str ''tzenv'' c), Num 4 1]),
          extern_call ''tzset'' (\<lambda>c. [])],
        say OPTION_OK (\<lambda>_. []),
        ret])],
    say OPTION_NG (\<lambda>_. [])]"

definition set_dstmode :: "'w command" where [command_defs]:
  "set_dstmode = [
    if_then (\<lambda>c. val c = []) [say OPTION_OK (\<lambda>c. [Lit ''='', D (u8 ''DST_MODE'' c)]), ret],
    do_once [
      if_then (\<lambda>c. numeric_check (val c) < 0) [brk],
      bind (\<lambda>c. atoi (val c)) (\<lambda>value. [
        if_then (\<lambda>c. value > max_of ''DST_MODE'' c) [brk],
        if_then (\<lambda>c. u8 ''DST_MODE'' c \<noteq> value) [
          control_data ''SFIELD_SET_DST_MODE'' (\<lambda>c. Num 4 value) (\<lambda>_. []),
          extern_call ''setenv'' (\<lambda>c. [Text ''TZ'', Text (sysinfo_str ''tzenv'' c), Num 4 1]),
          extern_call ''tzset'' (\<lambda>c. [])],
        say OPTION_OK (\<lambda>_. []),
        ret])],
    say OPTION_NG (\<lambda>_. [])]"

definition set_dststart :: "'w command" where [command_defs]:
  "set_dststart = [
    if_then (\<lambda>c. val c = []) [
      say OPTION_OK (\<lambda>c. [Lit ''='', D (u8 ''DSTSTART_MONTH'' c), Lit '':'', D (u8 ''DSTSTART_WEEK'' c), Lit '':'', D (u8 ''DSTSTART_DAY'' c), Lit '':'', D (u8 ''DSTSTART_HOUR'' c), Lit '':'', D (u8 ''DSTSTART_MINUTE'' c)]),
      ret],
    do_once [
      control_data ''SFIELD_SET_DST_START'' (\<lambda>c. Text (val c @ [NUL])) (\<lambda>ret_val. [if_then (\<lambda>c. ret_val < 0) [brk]]),
      extern_call ''setenv'' (\<lambda>c. [Text ''TZ'', Text (sysinfo_str ''tzenv'' c), Num 4 1]),
      extern_call ''tzset'' (\<lambda>c. []),
      say OPTION_OK (\<lambda>_. []),
      ret],
    say OPTION_NG (\<lambda>_. [])]"

definition set_dstend :: "'w command" where [command_defs]:
  "set_dstend = [
    if_then (\<lambda>c. val c = []) [
      say OPTION_OK (\<lambda>c. [Lit ''='', D (u8 ''DSTEND_MONTH'' c), Lit '':'', D (u8 ''DSTEND_WEEK'' c), Lit '':'', D (u8 ''DSTEND_DAY'' c), Lit '':'', D (u8 ''DSTEND_HOUR'' c), Lit '':'', D (u8 ''DSTEND_MINUTE'' c)]),
      ret],
    do_once [
      control_data ''SFIELD_SET_DST_END'' (\<lambda>c. Text (val c @ [NUL])) (\<lambda>ret_val. [if_then (\<lambda>c. ret_val < 0) [brk]]),
      extern_call ''setenv'' (\<lambda>c. [Text ''TZ'', Text (sysinfo_str ''tzenv'' c), Num 4 1]),
      extern_call ''tzset'' (\<lambda>c. []),
      say OPTION_OK (\<lambda>_. []),
      ret],
    say OPTION_NG (\<lambda>_. [])]"

definition set_timezone :: "'w command" where [command_defs]:
  "set_timezone = [
    if_else (\<lambda>c. macro_defined ''SUPPORT_WIN_TIMEZONE'' c) [say OPTION_NS (\<lambda>_. [])] [
      do_once [
        if_then (\<lambda>c. numeric_check (val c) < 0) [brk],
        bind (\<lambda>c. atoi (val c)) (\<lambda>value. [
          if_then (\<lambda>c. value > 24) [brk],
          if_then (\<lambda>c. u8 ''NTP_TIMEZONE'' c \<noteq> value) [control_data ''SFIELD_SET_TIMEZONE'' (\<lambda>c. Num 4 value) (\<lambda>_. [])],
          say OPTION_OK (\<lambda>_. []),
          ret])],
      say OPTION_NG (\<lambda>_. [])]]"

definition set_tstampenable :: "'w command" where [command_defs]:
  "set_tstampenable = [
    if_else (\<lambda>c. macro_defined ''SUPPORT_TSTAMP'' c) [
      do_once [
        if_then (\<lambda>c. numeric_check (val c) < 0) [brk],
        bind (\<lambda>c. to_u8 (atoi (val c))) (\<lambda>value. [
          if_then (\<lambda>c. value > max_of ''TSTAMPENABLE'' c) [brk],
          if_then (\<lambda>c. u8 ''TSTAMPENABLE'' c \<noteq> value) [
            control_data ''SFIELD_SET_TSTAMPENABLE'' (\<lambda>c. Num 1 value) (\<lambda>ret_val. [if_then (\<lambda>c. ret_val < 0) [brk]])],
          say OPTION_OK (\<lambda>_. []),
          ret])],
      say OPTION_NG (\<lambda>_. [])] [say OPTION_NS (\<lambda>_. [])]]"

definition set_tstampformat :: "'w command" where [command_defs]:
  "set_tstampformat = [
    if_else (\<lambda>c. macro_defined ''SUPPORT_TSTAMP'' c) [
      if_then (\<lambda>c. val c = []) [say OPTION_OK (\<lambda>c. [Lit ''='', D (u8 ''TIME_FORMAT'' c)]), ret],
      do_once [
        if_then (\<lambda>c. numeric_check (val c) < 0) [brk],
        bind (\<lambda>c. to_u8 (atoi (val c))) (\<lambda>value. [
          control_data ''SFIELD_SET_TSTAMPFORMAT'' (\<lambda>c. Num 1 value) (\<lambda>ret_val. [if_then (\<lambda>c. ret_val < 0) [brk]]),
          say OPTION_OK (\<lambda>_. []),
          ret])],
      say OPTION_NG (\<lambda>_. [])] [say OPTION_NS (\<lambda>_. [])]]"

definition set_tstampcolor :: "'w command" where [command_defs]:
  "set_tstampcolor = [
    if_else (\<lambda>c. macro_defined ''SUPPORT_TSTAMP'' c) [
      do_once [
        if_then (\<lambda>c. numeric_check (val c) < 0) [brk],
        bind (\<lambda>c. to_u8 (atoi (val c))) (\<lambda>value. [
          if_then (\<lambda>c. u8 ''TSTAMPCOLOR'' c \<noteq> value) [
            control_data ''SFIELD_SET_TSTAMPCOLOR'' (\<lambda>c. Num 1 value) (\<lambda>ret_val. [if_then (\<lambda>c. ret_val < 0) [brk]])],
          say OPTION_OK (\<lambda>_. []),
          ret])],
      say OPTION_NG (\<lambda>_. [])] [say OPTION_NS (\<lambda>_. [])]]"

definition set_tstamploc :: "'w command" where [command_defs]:
  "set_tstamploc = [
    if_else (\<lambda>c. macro_defined ''SUPPORT_TSTAMP'' c) [
      do_once [
        if_then (\<lambda>c. numeric_check (val c) < 0) [brk],
        bind (\<lambda>c. to_u8 (atoi (val c))) (\<lambda>value. [
          if_then (\<lambda>c. value > max_of ''TSTAMPLOCATION'' c) [brk],
          control_data ''SFIELD_SET_TSTAMPLOCATION'' (\<lambda>c. Num 1 value) (\<lambda>ret_val. [if_then (\<lambda>c. ret_val < 0) [brk]]),
          say OPTION_OK (\<lambda>_. []),
          ret])],
      say OPTION_NG (\<lambda>_. [])] [say OPTION_NS (\<lambda>_. [])]]"

definition set_audioinenable :: "'w command" where [command_defs]:
  "set_audioinenable = [
    if_then (\<lambda>c. val c = []) [say OPTION_OK (\<lambda>c. [Lit ''='', D (u8 ''AUDIOINENABLE'' c)]), ret],
    do_once [
      if_then (\<lambda>c. numeric_check (val c) < 0) [brk],
      bind (\<lambda>c. to_u8 (atoi (val c))) (\<lambda>value. [
        bind (\<lambda>c. if macro_defined ''CONFIG_BRAND_DLINK'' c then of_bool (\<not> (value \<noteq> 0)) else value) (\<lambda>value. [
          if_then (\<lambda>c. value > max_of ''AUDIOINENABLE'' c) [brk],
          if_then (\<lambda>c. u8 ''AUDIOINENABLE'' c \<noteq> value) [control_data ''SFIELD_SET_AUDIOENABLE'' (\<lambda>c. Num 1 value) (\<lambda>_. [])],
          say OPTION_OK (\<lambda>_. []),
          ret])])],
    say OPTION_NG (\<lambda>_. [])]"

definition set_audioinvolume :: "'w command" where [command_defs]:
  "set_audioinvolume = [
    bind (\<lambda>c. to_u8 (atoi (val c))) (\<lambda>value. [
      do_once [
        if_then (\<lambda>c. u8 ''AUDIOINVOLUME'' c \<noteq> value) [
          control_data ''SFIELD_SET_AUDIOINVOLUME'' (\<lambda>c. Num 1 value) (\<lambda>ret_val. [if_then (\<lambda>c. ret_val < 0) [brk]])],
        say OPTION_OK (\<lambda>_. []),
        ret],
      say OPTION_NG (\<lambda>_. [])])]"

definition set_audiooutenable :: "'w command" where [command_defs]:
  "set_audiooutenable = [
    if_then (\<lambda>c. val c = []) [say OPTION_OK (\<lambda>c. [Lit ''='', D (u8 ''AUDIOOUTENABLE'' c)]), ret],
    do_once [
      if_then (\<lambda>c. numeric_check (val c) < 0) [brk],
      bind (\<lambda>c. to_u8 (atoi (val c))) (\<lambda>value. [
        bind (\<lambda>c. if macro_defined ''CONFIG_BRAND_DLINK'' c then of_bool (\<not> (value \<noteq> 0)) else value) (\<lambda>value. [
          if_then (\<lambda>c. value > max_of ''AUDIOOUTENABLE'' c) [brk],
          if_then (\<lambda>c. u8 ''AUDIOOUTENABLE'' c \<noteq> value) [
            control_data ''SFIELD_SET_AUDIOOUTENABLE'' (\<lambda>c. Num 1 value) (\<lambda>ret_val. [if_then (\<lambda>c. ret_val < 0) [brk]])],
          say OPTION_OK (\<lambda>_. []),
          ret])])],
    say OPTION_NG (\<lambda>_. [])]"

definition set_audiooutvolume :: "'w command" where [command_defs]:
  "set_audiooutvolume = [
    if_then (\<lambda>c. val c = []) [say OPTION_OK (\<lambda>c. [Lit ''='', D (u8 ''AUDIOOUTVOLUME'' c)]), ret],
    bind (\<lambda>c. to_u8 (atoi (val c))) (\<lambda>value. [
      do_once [
        if_then (\<lambda>c. value < min_of ''AUDIOOUTVOLUME'' c \<or> value > max_of ''AUDIOOUTVOLUME'' c) [brk],
        if_then (\<lambda>c. u8 ''AUDIOOUTVOLUME'' c \<noteq> value) [
          control_data ''SFIELD_SET_AUDIOOUTVOLUME'' (\<lambda>c. Num 1 value) (\<lambda>ret_val. [if_then (\<lambda>c. ret_val < 0) [brk]])],
        say OPTION_OK (\<lambda>_. []),
        ret],
      say OPTION_NG (\<lambda>_. [])])]"

definition set_audioinsourceswitch :: "'w command" where [command_defs]:
  "set_audioinsourceswitch = [
    if_else (\<lambda>c. macro_defined ''SUPPORT_AUDIO_SWITCH'' c) [
      if_then (\<lambda>c. val c = []) [say OPTION_OK (\<lambda>c. [Lit ''='', D (u8 ''AUDIOINSOURCESWITCH'' c)]), ret],
      do_once [
        if_then (\<lambda>c. numeric_check (val c) < 0) [brk],
        bind (\<lambda>c. to_u8 (atoi (val c))) (\<lambda>value. [
          if_then (\<lambda>c. value > max_of ''AUDIOINSOURCESWITCH'' c) [brk],
          if_then (\<lambda>c. u8 ''AUDIOINSOURCESWITCH'' c \<noteq> value) [
            control_data ''SFIELD_SET_AUDIOINSOURCESWITCH'' (\<lambda>c. Num 1 value) (\<lambda>ret_val. [if_then (\<lambda>c. ret_val < 0) [brk]])],
          say OPTION_OK (\<lambda>_. []),
          ret])],
      say OPTION_NG (\<lambda>_. [])] [say OPTION_NS (\<lambda>_. [])]]"

definition audiotest :: "'w command" where [command_defs]:
  "audiotest = [
    bind (\<lambda>c. to_u8 (atoi (val c))) (\<lambda>value. [
      if_else (\<lambda>c. value = 1) [
        extern_call ''system'' (\<lambda>c. [Text ''killall -9 audiotest'']),
        extern_call ''system'' (\<lambda>c. [Text ''/opt/ipnc/audiotest &''])] [
        if_else (\<lambda>c. value = 2) [
          extern_call ''system'' (\<lambda>c. [Text ''killall -9 audiotest'']),
          extern_call ''system'' (\<lambda>c. [Text ''/opt/ipnc/audiotest speakstreamtest &''])] [extern_call ''system'' (\<lambda>c. [Text ''killall -9 audiotest''])]]])]"

definition get_daylight :: "'w command" where [command_defs]:
  "get_daylight = [
    do_once [say OPTION_OK (\<lambda>c. [Lit ''='', D (u8 ''NDAYNIGHT'' c)]), ret],
    say OPTION_NG (\<lambda>_. [])]"

definition get_regdomain :: "'w command" where [command_defs]:
  "get_regdomain = [say OPTION_NS (\<lambda>_. [])]"

definition language :: "'w command" where [command_defs]:
  "language = [say OPTION_OK (\<lambda>_. []), ret]"

definition get_supportfactorymode :: "'w command" where [command_defs]:
  "get_supportfactorymode = [
    if_else (\<lambda>c. macro_defined ''SUPPORT_FACTORYMODE'' c) [say OPTION_OK (\<lambda>c. [Lit ''=1''])] [say OPTION_OK (\<lambda>c. [Lit ''=0''])]]"

definition set_mui :: "'w command" where [command_defs]:
  "set_mui = [
    if_then (\<lambda>c. val c = []) [say OPTION_OK (\<lambda>c. [Lit ''='', D (u8 ''MUI'' c)]), ret],
    do_once [
      if_then (\<lambda>c. numeric_check (val c) < 0) [brk],
      bind (\<lambda>c. to_u8 (atoi (val c))) (\<lambda>value. [
        if_then (\<lambda>c. value > max_of ''MUI'' c) [brk],
        if_then (\<lambda>c. u8 ''MUI'' c \<noteq> value) [
          control_data ''SFIELD_SET_MUI'' (\<lambda>c. Num 1 value) (\<lambda>ret_val. [if_then (\<lambda>c. ret_val < 0) [brk]])],
        say OPTION_OK (\<lambda>_. []),
        ret])],
    say OPTION_NG (\<lambda>_. [])]"

definition giveupspeaktoken :: "'w command" where [command_defs]:
  "giveupspeaktoken = [
    if_else (\<lambda>c. macro_defined ''SUPPORT_TWOWAY_AUDIO'' c) [
      bind (\<lambda>c. atoi (val c)) (\<lambda>speakid. [
        do_once [
          if_else (\<lambda>c. sysinfo ''speaktokenid'' c = speakid) [store_info ''speaktokenid'' (\<lambda>c. 0)] [brk],
          say OPTION_OK (\<lambda>_. []),
          ret],
        say OPTION_NG (\<lambda>_. [])])] [say OPTION_NS (\<lambda>c. [Lit ''=''])]]"

definition speaktokentime :: "'w command" where [command_defs]:
  "speaktokentime = [
    if_else (\<lambda>c. macro_defined ''SUPPORT_TWOWAY_AUDIO'' c) [
      bind (\<lambda>c. atoi (val c)) (\<lambda>speakid. [
        do_once [
          if_then (\<lambda>c. sysinfo ''speaktokenid'' c \<noteq> speakid) [brk],
          say OPTION_OK (\<lambda>c. [Lit ''='', D (sysinfo ''speaktokentime'' c)]),
          ret],
        say OPTION_NG (\<lambda>_. [])])] [say OPTION_NS (\<lambda>c. [Lit ''=''])]]"

definition dncontrol_d2n :: "'w command" where [command_defs]:
  "dncontrol_d2n = [
    if_else (\<lambda>c. macro_defined ''SUPPORT_DNCONTROL'' c) [
      bind (\<lambda>c. to_u16 (atoi (val c))) (\<lambda>value. [
        do_once [
          if_then (\<lambda>c. value < macro_val ''DNC_D2N_MIN'' c \<or> value > macro_val ''DNC_D2N_MAX'' c) [brk],
          write_info ''DNC_D2N'' (\<lambda>c. Num 2 value) (\<lambda>_. []),
          say OPTION_OK (\<lambda>_. []),
          ret],
        say OPTION_NG (\<lambda>_. [])])] [say OPTION_NS (\<lambda>c. [Lit ''=''])]]"

definition dncontrol_n2d :: "'w command" where [command_defs]:
  "dncontrol_n2d = [
    if_else (\<lambda>c. macro_defined ''SUPPORT_DNCONTROL'' c) [
      bind (\<lambda>c. to_u16 (atoi (val c))) (\<lambda>value. [
        do_once [
          if_then (\<lambda>c. value < macro_val ''DNC_N2D_MIN'' c \<or> value > macro_val ''DNC_N2D_MAX'' c) [brk],
          write_info ''DNC_N2D'' (\<lambda>c. Num 2 value) (\<lambda>_. []),
          say OPTION_OK (\<lambda>_. []),
          ret],
        say OPTION_NG (\<lambda>_. [])])] [say OPTION_NS (\<lambda>c. [Lit ''=''])]]"

definition get_supportirled :: "'w command" where [command_defs]:
  "get_supportirled = [
    if_else (\<lambda>c. macro_val ''SUPPORT_DCPOWER'' c = 1) [say OPTION_OK (\<lambda>c. [Lit ''=1''])] [say OPTION_OK (\<lambda>c. [Lit ''=0''])]]"

definition get_supportdcpower :: "'w command" where [command_defs]:
  "get_supportdcpower = [
    if_else (\<lambda>c. macro_defined ''PLAT_DM365'' c) [
      if_else (\<lambda>c. list_ex (\<lambda>x. macro_defined x c) [''MODEL_LC7415'', ''MODEL_LC7415B'', ''MODEL_LC7515'']) [say OPTION_OK (\<lambda>c. [Lit ''='', D (macro_val ''SUPPORT_DCPOWER'' c)])] [say OPTION_OK (\<lambda>c. [Lit ''=0''])]] [say OPTION_OK (\<lambda>c. [Lit ''='', D (macro_val ''SUPPORT_DCPOWER'' c)])]]"

definition osd_show :: "'w command" where [command_defs]:
  "osd_show = [
    if_then (\<lambda>c. val c = []) [say OPTION_OK (\<lambda>c. [Lit ''='', D (ivalue ''OSD_SHOW'' c)]), ret],
    do_once [
      if_then (\<lambda>c. numeric_check (val c) < 0) [brk],
      bind (\<lambda>c. atoi (val c)) (\<lambda>value. [
        if_then (\<lambda>c. value < 0 \<or> value > 1) [brk],
        control_data ''SFIELD_SET_OSD_SHOW'' (\<lambda>c. Num 4 value) (\<lambda>ret_val. [if_then (\<lambda>c. ret_val < 0) [brk]]),
        say OPTION_OK (\<lambda>_. []),
        ret])],
    say OPTION_NG (\<lambda>_. [])]"

definition clearalllog :: "'w command" where [command_defs]:
  "clearalllog = [
    do_once [
      if_then (\<lambda>c. numeric_check (val c) < 0) [brk],
      bind (\<lambda>c. atoi (val c)) (\<lambda>value. [
        if_then (\<lambda>c. value \<noteq> 1) [brk],
        control_data ''SFIELD_DEL_LOGALL'' (\<lambda>c. Num 4 value) (\<lambda>ret_val. [if_then (\<lambda>c. ret_val < 0) [brk]]),
        say OPTION_OK (\<lambda>_. []),
        ret])],
    say OPTION_NG (\<lambda>_. [])]"

definition disablemcuwdt :: "'w command" where [command_defs]:
  "disablemcuwdt = [
    if_else (\<lambda>c. macro_defined ''SUPPORT_AF'' c) [
      do_once [
        extern_call ''unlink'' (\<lambda>c. [Text (macro_str ''MCU_WDT_PATH'' c)]),
        say OPTION_OK (\<lambda>_. []),
        ret],
      say OPTION_NG (\<lambda>_. [])] [say OPTION_NS (\<lambda>_. [])]]"

definition get_autofocusbusy :: "'w command" where [command_defs]:
  "get_autofocusbusy = [
    if_else (\<lambda>c. macro_defined ''SUPPORT_AF'' c) [
      do_once [
        if_else (\<lambda>c. sysinfo ''af_status.mode'' c = macro_val ''AF_MANUAL'' c) [say OPTION_OK (\<lambda>c. [Lit ''=0''])] [say OPTION_OK (\<lambda>c. [Lit ''=1''])],
        ret],
      say OPTION_NG (\<lambda>_. [])] [say OPTION_NS (\<lambda>_. [])]]"

definition get_support_QoS :: "'w command" where [command_defs]:
  "get_support_QoS = [
    if_else (\<lambda>c. macro_defined ''SUPPORT_QOS_SCHEDULE'' c) [say OPTION_OK (\<lambda>c. [Lit ''=1''])] [say OPTION_OK (\<lambda>c. [Lit ''=0''])]]"

definition get_support_CoS :: "'w command" where [command_defs]:
  "get_support_CoS = [
    if_else (\<lambda>c. macro_defined ''SUPPORT_COS_SCHEDULE'' c) [say OPTION_OK (\<lambda>c. [Lit ''=1''])] [say OPTION_OK (\<lambda>c. [Lit ''=0''])]]"

definition get_support_BWC :: "'w command" where [command_defs]:
  "get_support_BWC = [
    if_else (\<lambda>c. list_ex (\<lambda>x. macro_defined x c) [''SUPPORT_QOS_SCHEDULE'', ''SUPPORT_COS_SCHEDULE'']) [say OPTION_OK (\<lambda>c. [Lit ''=0''])] [say OPTION_OK (\<lambda>c. [Lit ''=1''])]]"

subsection \<open>What they print and what they hand to the system\<close>

definition system_commands :: "'w command list" where
  "system_commands = [
    get_supportsaturation, get_supportsd, get_supportsenseup, get_supportsharpness, get_supportst16550, get_supporttwowayaudio,
    get_supportusb, get_supportwatchdog, get_supportwireless, set_wladhoc, get_wladhoc, set_wlchannel, get_wlchannel,
    set_wlencryption, get_wlencryption, set_wlessid, get_wlessid, get_wlstatus, set_wlwepkey, get_wlwepkey, set_wlwepwhich,
    get_wlwepwhich, get_servicedhcpclient, get_supportdhcpdipswitch, get_servicehello, get_servicemcenter, get_mcenterenable,
    set_mcenterfqdn, get_mcenterfqdn, set_mcenterpassword, get_mcenterpassword, set_mcenterport, get_mcenterport, set_mcenterenable,
    set_mcenteraccount, get_servicenetbiosns, get_servicennews, get_servicescanport, get_supportaudioinswitch,
    get_supportaudioencselect, get_supportwdrlevel, get_supportantiflicker, get_servicesmtpclient, get_localrtc, get_rtcstatus,
    get_serviceftpserver, get_serviceftpclient, get_servicesntpclient, get_servicepppoe, get_serviceddnsclient, get_serviceupnpdevice,
    get_serviceipfilter, get_upnpportforwardingstatus, get_supporttstamp, get_supportmotion, get_supportmotionmode,
    get_supportdncontrol, get_supportaudio, get_supportavc, get_supportmpeg4, get_supportmui, whoareonline, get_fluorescent,
    get_brightness, get_denoise, get_evcomp, get_backlight, get_blc, get_mirror, motiondrawenable, set_motioncenable, set_motionlevel,
    set_motioncvalue, set_motionblock, set_motionpercentage, set_ratecontrol, set_videocodecmode, set_videocodecres, set_tvcable,
    set_binning, set_blcmode, get_maxaccount, get_maxpwdlen, get_maxnamelen, get_maxfqdnlen, set_imagedefault, get_audioinvolume,
    init_ipncptz, set_timeformat, set_daylight, set_dstshift, set_dstmode, set_dststart, set_dstend, set_timezone, set_tstampenable,
    set_tstampformat, set_tstampcolor, set_tstamploc, set_audioinenable, set_audioinvolume, set_audiooutenable, set_audiooutvolume,
    set_audioinsourceswitch, get_daylight, get_regdomain, language, get_supportfactorymode, set_mui, giveupspeaktoken, speaktokentime,
    dncontrol_d2n, dncontrol_n2d, get_supportirled, get_supportdcpower, osd_show, clearalllog, disablemcuwdt, get_autofocusbusy,
    get_support_QoS, get_support_CoS, get_support_BWC]"

lemma system_commands_answer: "list_all (answers_once S) system_commands"
  unfolding system_commands_def list.pred_inject answers_once_def command_defs by (intro conjI counting TrueI; simp add: tail_ok_def)

text \<open>The commands that set a field, with the field whose limit they check.\<close>

definition system_limits :: "(cstring \<times> 'w command) list" where
  "system_limits = [
    (''MOTION_CONFIG_MOTION_DRAW_ENABLE'', motiondrawenable), (''MOTION_CONFIG_MOTIONCVALUE'', set_motioncvalue),
    (''MOTION_CONFIG_MOTIONBLOCK'', set_motionblock), (''MOTION_CONFIG_MOTIONPERCENTAGE'', set_motionpercentage),
    (''NBACKLIGHTCONTROL'', set_blcmode), (''TIME_FORMAT'', set_timeformat), (''DST_ENABLE'', set_daylight),
    (''DST_SHIFT'', set_dstshift), (''DST_MODE'', set_dstmode), (''TSTAMPENABLE'', set_tstampenable),
    (''TSTAMPLOCATION'', set_tstamploc), (''AUDIOINENABLE'', set_audioinenable), (''AUDIOOUTENABLE'', set_audiooutenable),
    (''AUDIOOUTVOLUME'', set_audiooutvolume), (''AUDIOINSOURCESWITCH'', set_audioinsourceswitch), (''MUI'', set_mui)]"

lemma system_limits_hold: "list_all (\<lambda>(F, cmd). within_limit F cmd) system_limits"
  unfolding system_limits_def list.pred_inject prod.case within_limit_def always_def command_defs by (intro conjI allI wp TrueI; simp)

end
