(* ===== verification/Boa_Api_Table.thy ===== *)
theory Boa_Api_Table
  imports Boa_Api_Net Boa_Api_Image Boa_Api_Stream Boa_Api_System
begin

text \<open>
  The table of the commands (\<open>HttpOptionTable\<close> of \<^verbatim>\<open>appro_api.c\<close>), entry by entry, and what follows from it for the loop that runs
  the commands of a query: who may change the camera, and what the answer to a query looks like.

  The entries of the table depend on the build, like the handlers. A handler that is not translated appears by its name, and its effect is an argument.
  The numbers of the authorities are an argument too; the smaller number has more rights.
\<close>

subsection \<open>The table\<close>

datatype level = AUTH_ADMIN | AUTH_OPERATOR | AUTH_VIEWER | AUTH_NONE

datatype 'w handler = Cmd "'w command" | Other cstring

datatype 'w option_entry = Opt (ent_name: cstring) (ent_handler: "'w handler") (ent_level: level) (ent_flag: nat)

definition API_NONE :: nat where "API_NONE = 0"
definition API_RESTART :: nat where "API_RESTART = 2 ^ 0"
definition API_SET_MAC :: nat where "API_SET_MAC = 2 ^ 1"
definition API_VIDEO_FLAG :: nat where "API_VIDEO_FLAG = 2 ^ API_VIDEO"

definition defined :: "'w camera \<Rightarrow> cstring \<Rightarrow> bool" where
  "defined k x \<longleftrightarrow> macro k x \<noteq> None"

named_theorems table_defs

definition HttpOptionTable_1 :: "'w camera \<Rightarrow> 'w option_entry list" where [table_defs]:
  "HttpOptionTable_1 k =
    [Opt ''debug'' (Cmd undefined_cmd) AUTH_OPERATOR API_NONE,
     Opt ''delay'' (Cmd undefined_cmd) AUTH_OPERATOR API_NONE,
     Opt ''videocodec'' (Other ''set_vidcodec'') AUTH_OPERATOR API_NONE,
     Opt ''videocodecdebug'' (Cmd set_videocodecdebug) AUTH_OPERATOR API_NONE,
     Opt ''videocodecready'' (Cmd get_vidcodec) AUTH_OPERATOR API_NONE,
     Opt ''cameratitle'' (Other ''set_cameratitle'') AUTH_OPERATOR API_NONE,
     Opt ''gettitle'' (Cmd get_title) AUTH_OPERATOR API_NONE,
     Opt ''ccddata'' (Other ''ccddatawrite'') AUTH_OPERATOR API_NONE,
     Opt ''ccderror'' (Cmd undefined_cmd) AUTH_OPERATOR API_NONE,
     Opt ''ccdx'' (Cmd undefined_cmd) AUTH_OPERATOR API_NONE,
     Opt ''ccdy'' (Cmd undefined_cmd) AUTH_OPERATOR API_NONE,
     Opt ''checkpartner'' (Cmd undefined_cmd) AUTH_OPERATOR API_NONE,
     Opt ''videomode'' (Other ''videomode'') AUTH_VIEWER API_NONE,
     Opt ''antiflicker'' (Cmd antiflicker) AUTH_OPERATOR API_VIDEO_FLAG,
     Opt ''flickless'' (Cmd flickless) AUTH_OPERATOR API_VIDEO_FLAG,
     Opt ''powerline'' (Other ''powerline'') AUTH_VIEWER API_VIDEO_FLAG,
     Opt ''getflickless'' (Cmd getflickless) AUTH_VIEWER API_NONE,
     Opt ''engineermode'' (Cmd undefined_cmd) AUTH_OPERATOR API_NONE,
     Opt ''factorydefault'' (Other ''set_factory_default'') AUTH_OPERATOR API_NONE,
     Opt ''supportfactorymode'' (Cmd get_supportfactorymode) AUTH_OPERATOR API_NONE,
     Opt ''getarmhz'' (Other ''get_armhz'') AUTH_OPERATOR API_NONE,
     Opt ''getaxlhz'' (Other ''get_armhz'') AUTH_OPERATOR API_NONE,
     Opt ''getarmioport'' (Other ''get_arm_ioport'') AUTH_OPERATOR API_NONE,
     Opt ''getdsphz'' (Cmd undefined_cmd) AUTH_OPERATOR API_NONE,
     Opt ''getlocalsdram'' (Cmd get_localsdram) AUTH_OPERATOR API_NONE,
     Opt ''getlocalsram'' (Cmd get_localsram) AUTH_OPERATOR API_NONE,
     Opt ''paratest'' (Other ''paratest'') AUTH_OPERATOR API_NONE,
     Opt ''ipncptz'' (Other ''set_ipncptz'') AUTH_OPERATOR API_NONE,
     Opt ''ptzpopup'' (Cmd init_ipncptz) AUTH_OPERATOR API_NONE,
     Opt ''getdip1switch'' (Cmd undefined_cmd) AUTH_OPERATOR API_NONE,
     Opt ''getdip2switch'' (Cmd undefined_cmd) AUTH_OPERATOR API_NONE,
     Opt ''language'' (Cmd language) AUTH_VIEWER API_NONE,
     Opt ''getblockdata'' (Cmd undefined_cmd) AUTH_OPERATOR API_NONE,
     Opt ''getccddata'' (Other ''ccddataread'') AUTH_OPERATOR API_NONE,
     Opt ''getcompiletime'' (Cmd undefined_cmd) AUTH_OPERATOR API_NONE,
     Opt ''gethelpurl'' (Cmd get_helpurl) AUTH_OPERATOR API_NONE,
     Opt ''getlayoutnum'' (Cmd undefined_cmd) AUTH_OPERATOR API_NONE,
     Opt ''getlayoutstr'' (Cmd undefined_cmd) AUTH_OPERATOR API_NONE,
     Opt ''getlayouturl'' (Cmd undefined_cmd) AUTH_OPERATOR API_NONE,
     Opt ''getlocaldecoder'' (Cmd get_localdecoder) AUTH_OPERATOR API_NONE,
     Opt ''getlocalflash'' (Cmd get_localflash) AUTH_OPERATOR API_NONE,
     Opt ''getmaxchannel'' (Cmd get_maxchannel) AUTH_VIEWER API_NONE,
     Opt ''getmaxfqdnlen'' (Cmd get_maxfqdnlen) AUTH_VIEWER API_NONE,
     Opt ''getmaxnamelen'' (Cmd get_maxnamelen) AUTH_VIEWER API_NONE,
     Opt ''getmaxpwdlen'' (Cmd get_maxpwdlen) AUTH_VIEWER API_NONE,
     Opt ''getmemoryleft'' (Other ''get_memoryleft'') AUTH_OPERATOR API_NONE,
     Opt ''getminnamelen'' (Cmd get_minnamelen) AUTH_VIEWER API_NONE,
     Opt ''getnetmedia'' (Cmd undefined_cmd) AUTH_OPERATOR API_NONE,
     Opt ''setparameter'' (Cmd undefined_cmd) AUTH_OPERATOR API_NONE,
     Opt ''getparameter'' (Cmd undefined_cmd) AUTH_OPERATOR API_NONE,
     Opt ''getportmancount'' (Cmd undefined_cmd) AUTH_OPERATOR API_NONE,
     Opt ''getregdomain'' (Cmd get_regdomain) AUTH_OPERATOR API_NONE,
     Opt ''getregister'' (Cmd undefined_cmd) AUTH_OPERATOR API_NONE,
     Opt ''getregisterleft'' (Cmd undefined_cmd) AUTH_OPERATOR API_NONE,
     Opt ''verify'' (Other ''call_verify_func'') AUTH_OPERATOR API_NONE,
     Opt ''setwriteatonce'' (Cmd undefined_cmd) AUTH_OPERATOR API_NONE,
     Opt ''setsdramclk'' (Cmd undefined_cmd) AUTH_OPERATOR API_NONE,
     Opt ''setlayouturl'' (Cmd undefined_cmd) AUTH_OPERATOR API_NONE,
     Opt ''setlayoutstr'' (Cmd undefined_cmd) AUTH_OPERATOR API_NONE,
     Opt ''setlayoutnum'' (Cmd undefined_cmd) AUTH_OPERATOR API_NONE,
     Opt ''sethostname'' (Cmd undefined_cmd) AUTH_OPERATOR API_NONE,
     Opt ''setgioout0data'' (Cmd undefined_cmd) AUTH_OPERATOR API_NONE,
     Opt ''getsdramhz'' (Other ''get_sdramhz'') AUTH_OPERATOR API_NONE,
     Opt ''setsdrate'' (Cmd undefined_cmd) AUTH_OPERATOR API_NONE,
     Opt ''getsdrate'' (Cmd undefined_cmd) AUTH_OPERATOR API_NONE,
     Opt ''getserialnumber'' (Cmd get_serialnumber) AUTH_OPERATOR API_NONE,
     Opt ''getsramdepth'' (Cmd undefined_cmd) AUTH_OPERATOR API_NONE,
     Opt ''getstack'' (Cmd undefined_cmd) AUTH_OPERATOR API_NONE,
     Opt ''getsystemdata'' (Cmd undefined_cmd) AUTH_OPERATOR API_NONE,
     Opt ''ifrmonly'' (Cmd undefined_cmd) AUTH_OPERATOR API_NONE,
     Opt ''keepalive'' (Cmd undefined_cmd) AUTH_OPERATOR API_NONE] @
    (if defined k ''CONFIG_BRAND_DLINK''
     then [Opt ''mui'' (Cmd set_mui) AUTH_VIEWER API_NONE]
     else [Opt ''mui'' (Cmd set_mui) AUTH_OPERATOR API_NONE]) @
    [Opt ''nnewsduration'' (Cmd undefined_cmd) AUTH_OPERATOR API_NONE,
     Opt ''selftest'' (Cmd undefined_cmd) AUTH_OPERATOR API_NONE,
     Opt ''senseup'' (Cmd undefined_cmd) AUTH_OPERATOR API_NONE,
     Opt ''setallreboot'' (Other ''restart_ipcam'') AUTH_OPERATOR API_NONE,
     Opt ''setarmclk'' (Cmd undefined_cmd) AUTH_OPERATOR API_NONE,
     Opt ''setarmioport'' (Other ''set_arm_ioport'') AUTH_OPERATOR API_NONE,
     Opt ''setdspclk'' (Cmd undefined_cmd) AUTH_OPERATOR API_NONE,
     Opt ''getloop'' (Cmd undefined_cmd) AUTH_OPERATOR API_NONE,
     Opt ''writesetupdata'' (Cmd undefined_cmd) AUTH_OPERATOR API_NONE,
     Opt ''savingmode'' (Other ''power_saving_mode'') AUTH_OPERATOR API_NONE,
     Opt ''analogoutput'' (Other ''analog_output'') AUTH_OPERATOR API_NONE,
     Opt ''getsetupsize'' (Cmd undefined_cmd) AUTH_OPERATOR API_NONE,
     Opt ''getsetupversion'' (Cmd get_setupversion) AUTH_OPERATOR API_NONE,
     Opt ''getsoftwareversion'' (Cmd get_softwareversion) AUTH_OPERATOR API_NONE,
     Opt ''getfirmwareversion'' (Cmd get_firmwareversion) AUTH_OPERATOR API_NONE,
     Opt ''getmachinecode'' (Other ''get_machinecode'') AUTH_NONE API_NONE,
     Opt ''submachinecode'' (Other ''sub_machinecode'') AUTH_OPERATOR API_NONE,
     Opt ''biosmodelname'' (Other ''bios_modelname'') AUTH_OPERATOR API_NONE,
     Opt ''getmachsubcode'' (Other ''get_machsubcode'') AUTH_OPERATOR API_NONE,
     Opt ''machsubcode'' (Other ''set_machsubcode'') AUTH_OPERATOR API_NONE,
     Opt ''getcpuversion'' (Other ''get_cpuversion'') AUTH_OPERATOR API_NONE,
     Opt ''getbiosversion'' (Other ''get_biosversion'') AUTH_OPERATOR API_NONE,
     Opt ''getlocalcpu'' (Other ''get_localcpu'') AUTH_OPERATOR API_NONE,
     Opt ''setmachsubcode'' (Other ''set_machsubcode'') AUTH_OPERATOR API_NONE,
     Opt ''channelplan'' (Other ''channel_plan'') AUTH_OPERATOR API_NONE,
     Opt ''getbrandid'' (Other ''get_brandid'') AUTH_OPERATOR API_NONE,
     Opt ''setwladhoc'' (Cmd set_wladhoc) AUTH_OPERATOR API_NONE,
     Opt ''getwladhoc'' (Cmd get_wladhoc) AUTH_OPERATOR API_NONE,
     Opt ''setwlchannel'' (Cmd set_wlchannel) AUTH_OPERATOR API_NONE,
     Opt ''getwlchannel'' (Cmd get_wlchannel) AUTH_OPERATOR API_NONE,
     Opt ''setwlencryption'' (Cmd set_wlencryption) AUTH_OPERATOR API_NONE,
     Opt ''getwlencryption'' (Cmd get_wlencryption) AUTH_OPERATOR API_NONE,
     Opt ''setwlessid'' (Cmd set_wlessid) AUTH_OPERATOR API_NONE,
     Opt ''getwlessid'' (Cmd get_wlessid) AUTH_OPERATOR API_NONE,
     Opt ''getwlstatus'' (Cmd get_wlstatus) AUTH_OPERATOR API_NONE,
     Opt ''setwlwepkey'' (Cmd set_wlwepkey) AUTH_OPERATOR API_NONE,
     Opt ''getwlwepkey'' (Cmd get_wlwepkey) AUTH_OPERATOR API_NONE,
     Opt ''setwlwepwhich'' (Cmd set_wlwepwhich) AUTH_OPERATOR API_NONE,
     Opt ''getwlwepwhich'' (Cmd get_wlwepwhich) AUTH_OPERATOR API_NONE,
     Opt ''supportwireless'' (Cmd get_supportwireless) AUTH_VIEWER API_NONE,
     Opt ''getmcenterenable'' (Cmd undefined_cmd) AUTH_OPERATOR API_NONE,
     Opt ''setmcenterfqdn'' (Cmd undefined_cmd) AUTH_OPERATOR API_NONE,
     Opt ''getmcenterfqdn'' (Cmd undefined_cmd) AUTH_OPERATOR API_NONE,
     Opt ''setmcenterpassword'' (Cmd undefined_cmd) AUTH_OPERATOR API_NONE,
     Opt ''getmcenterpassword'' (Cmd undefined_cmd) AUTH_OPERATOR API_NONE,
     Opt ''setmcenterport'' (Cmd undefined_cmd) AUTH_OPERATOR API_NONE,
     Opt ''getmcenterport'' (Cmd undefined_cmd) AUTH_OPERATOR API_NONE,
     Opt ''setmcenterenable'' (Cmd undefined_cmd) AUTH_OPERATOR API_NONE,
     Opt ''setmcenteraccount'' (Cmd undefined_cmd) AUTH_OPERATOR API_NONE,
     Opt ''servicemcenter'' (Cmd undefined_cmd) AUTH_VIEWER API_NONE,
     Opt ''getetherstatus'' (Cmd get_etherstatus) AUTH_OPERATOR API_NONE,
     Opt ''getnicerror'' (Other ''get_nicerror'') AUTH_OPERATOR API_NONE,
     Opt ''getnicflow'' (Cmd undefined_cmd) AUTH_OPERATOR API_NONE,
     Opt ''getnicin'' (Other ''get_nicin'') AUTH_OPERATOR API_NONE,
     Opt ''getnicout'' (Other ''get_nicout'') AUTH_OPERATOR API_NONE,
     Opt ''getlocalnic'' (Cmd get_localnic) AUTH_OPERATOR API_NONE]"

definition HttpOptionTable_2 :: "'w camera \<Rightarrow> 'w option_entry list" where [table_defs]:
  "HttpOptionTable_2 k =
    [Opt ''setmaxmtu'' (Cmd set_maxmtu) AUTH_OPERATOR API_NONE,
     Opt ''getmaxmtu'' (Other ''get_maxmtu'') AUTH_OPERATOR API_NONE,
     Opt ''setmac'' (Other ''set_mac'') AUTH_OPERATOR API_SET_MAC,
     Opt ''getmac0'' (Other ''get_mac0'') AUTH_OPERATOR API_NONE,
     Opt ''getmac1'' (Cmd undefined_cmd) AUTH_OPERATOR API_NONE,
     Opt ''bootmessage'' (Other ''boot_message'') AUTH_OPERATOR API_NONE,
     Opt ''tvoutput'' (Other ''tv_output'') AUTH_OPERATOR API_NONE,
     Opt ''cfformat'' (Cmd cfformat) AUTH_OPERATOR API_NONE,
     Opt ''getcfcount'' (Cmd get_cfcount) AUTH_OPERATOR API_NONE,
     Opt ''setcfcount'' (Cmd set_cfcount) AUTH_OPERATOR API_NONE,
     Opt ''setcfduration'' (Cmd set_cfduration) AUTH_OPERATOR API_NONE,
     Opt ''getcfduration'' (Cmd get_cfduration) AUTH_OPERATOR API_NONE,
     Opt ''getcferror'' (Cmd get_cferror) AUTH_OPERATOR API_NONE,
     Opt ''getcfleft'' (Cmd get_cfleft) AUTH_OPERATOR API_NONE,
     Opt ''setcfrate'' (Cmd set_cfrate) AUTH_OPERATOR API_NONE,
     Opt ''getcfrate'' (Cmd get_cfrate) AUTH_OPERATOR API_NONE,
     Opt ''setcfrecordtype'' (Cmd set_cfrecordtype) AUTH_OPERATOR API_NONE,
     Opt ''getcfrecordtype'' (Cmd get_cfrecordtype) AUTH_OPERATOR API_NONE,
     Opt ''setcfrenable'' (Cmd set_cfrenable) AUTH_OPERATOR API_NONE,
     Opt ''getcfrenable'' (Cmd get_cfrenable) AUTH_OPERATOR API_NONE,
     Opt ''getcfsize'' (Cmd get_cfsize) AUTH_OPERATOR API_NONE,
     Opt ''getcfstatus'' (Cmd get_cfstatus) AUTH_OPERATOR API_NONE,
     Opt ''getcfused'' (Cmd get_cfused) AUTH_OPERATOR API_NONE,
     Opt ''setcfaenable'' (Cmd set_cfaenable) AUTH_OPERATOR API_NONE,
     Opt ''getcfaenable'' (Cmd get_cfaenable) AUTH_OPERATOR API_NONE,
     Opt ''supportcfcard'' (Cmd get_supportcfcard) AUTH_VIEWER API_NONE,
     Opt ''audiotype'' (Other ''set_audiotype'') AUTH_OPERATOR API_VIDEO_FLAG,
     Opt ''audioinenable'' (Cmd set_audioinenable) AUTH_OPERATOR API_VIDEO_FLAG,
     Opt ''audioinvolume'' (Cmd undefined_cmd) AUTH_OPERATOR API_NONE,
     Opt ''audiooutenable'' (Cmd set_audiooutenable) AUTH_OPERATOR API_VIDEO_FLAG,
     Opt ''audiooutvolume'' (Cmd set_audiooutvolume) AUTH_OPERATOR API_VIDEO_FLAG,
     Opt ''audioinsourceswitch'' (Cmd set_audioinsourceswitch) AUTH_OPERATOR API_VIDEO_FLAG,
     Opt ''audiotest'' (Cmd audiotest) AUTH_OPERATOR API_NONE,
     Opt ''audioamplifyratio'' (Other ''audioamplifyratio'') AUTH_OPERATOR API_NONE,
     Opt ''getmaxaudiopointer'' (Cmd undefined_cmd) AUTH_OPERATOR API_NONE,
     Opt ''getaudioinmax'' (Cmd undefined_cmd) AUTH_OPERATOR API_NONE,
     Opt ''audioerror'' (Cmd undefined_cmd) AUTH_OPERATOR API_NONE,
     Opt ''audiostream'' (Cmd undefined_cmd) AUTH_OPERATOR API_NONE,
     Opt ''getaudioenable'' (Cmd get_audioenable) AUTH_VIEWER API_NONE,
     Opt ''audioenable'' (Cmd set_audioinenable) AUTH_VIEWER API_VIDEO_FLAG,
     Opt ''getaudioinvolume'' (Cmd undefined_cmd) AUTH_OPERATOR API_NONE,
     Opt ''getaudiomax'' (Cmd undefined_cmd) AUTH_OPERATOR API_NONE,
     Opt ''getaudiomode'' (Cmd undefined_cmd) AUTH_OPERATOR API_NONE,
     Opt ''getaudionetmax'' (Cmd undefined_cmd) AUTH_OPERATOR API_NONE,
     Opt ''getaudiooutmax'' (Cmd undefined_cmd) AUTH_OPERATOR API_NONE,
     Opt ''getaudiooutvolume'' (Cmd undefined_cmd) AUTH_OPERATOR API_NONE,
     Opt ''getaudiopointer'' (Cmd undefined_cmd) AUTH_OPERATOR API_NONE,
     Opt ''getaudiotype'' (Cmd undefined_cmd) AUTH_OPERATOR API_NONE,
     Opt ''getaudiobitrate'' (Cmd undefined_cmd) AUTH_OPERATOR API_NONE,
     Opt ''getlocalaic'' (Cmd get_localaic) AUTH_OPERATOR API_NONE,
     Opt ''geteventlist'' (Cmd undefined_cmd) AUTH_OPERATOR API_NONE,
     Opt ''geteventpointer'' (Cmd undefined_cmd) AUTH_OPERATOR API_NONE,
     Opt ''eventcount'' (Cmd undefined_cmd) AUTH_OPERATOR API_NONE,
     Opt ''clearalllog'' (Cmd clearalllog) AUTH_OPERATOR API_NONE,
     Opt ''setuartspeed'' (Cmd undefined_cmd) AUTH_OPERATOR API_NONE,
     Opt ''getuartspeed'' (Cmd get_uartspeed) AUTH_OPERATOR API_NONE,
     Opt ''setuarttype'' (Cmd undefined_cmd) AUTH_OPERATOR API_NONE,
     Opt ''getuarttype'' (Cmd undefined_cmd) AUTH_OPERATOR API_NONE,
     Opt ''getuniversal'' (Cmd undefined_cmd) AUTH_OPERATOR API_NONE,
     Opt ''getlocaluart'' (Cmd undefined_cmd) AUTH_OPERATOR API_NONE,
     Opt ''getliveresolution'' (Cmd get_liveresolution) AUTH_OPERATOR API_NONE,
     Opt ''getlivequality'' (Other ''get_livequality'') AUTH_OPERATOR API_NONE,
     Opt ''quality'' (Other ''set_quality'') AUTH_OPERATOR API_VIDEO_FLAG,
     Opt ''getformat'' (Other ''get_format'') AUTH_OPERATOR API_NONE,
     Opt ''setjpegdelay'' (Cmd undefined_cmd) AUTH_OPERATOR API_NONE,
     Opt ''jpegstatus'' (Cmd undefined_cmd) AUTH_OPERATOR API_NONE,
     Opt ''getjpegcount'' (Cmd undefined_cmd) AUTH_OPERATOR API_NONE,
     Opt ''getjpegmax'' (Cmd undefined_cmd) AUTH_OPERATOR API_NONE,
     Opt ''getjpegsn'' (Cmd undefined_cmd) AUTH_OPERATOR API_NONE,
     Opt ''mpeg4audiorate'' (Cmd undefined_cmd) AUTH_OPERATOR API_NONE,
     Opt ''mpeg4cenable'' (Cmd undefined_cmd) AUTH_OPERATOR API_NONE,
     Opt ''mpeg4cvalue'' (Cmd undefined_cmd) AUTH_OPERATOR API_NONE,
     Opt ''mpeg4ipratio'' (Cmd undefined_cmd) AUTH_OPERATOR API_NONE,
     Opt ''avccenable'' (Cmd undefined_cmd) AUTH_VIEWER API_NONE,
     Opt ''avccvalue'' (Cmd undefined_cmd) AUTH_VIEWER API_NONE,
     Opt ''avcframerate'' (Cmd undefined_cmd) AUTH_VIEWER API_NONE,
     Opt ''avcquality'' (Cmd undefined_cmd) AUTH_VIEWER API_NONE,
     Opt ''avcresolution'' (Cmd undefined_cmd) AUTH_VIEWER API_NONE,
     Opt ''exposure'' (Cmd undefined_cmd) AUTH_OPERATOR API_NONE,
     Opt ''setfps'' (Cmd undefined_cmd) AUTH_OPERATOR API_NONE,
     Opt ''getvideomode'' (Other ''get_videomode'') AUTH_VIEWER API_NONE,
     Opt ''imageformat'' (Other ''set_imageformat'') AUTH_OPERATOR API_VIDEO_FLAG,
     Opt ''resolution'' (Other ''set_resolution'') AUTH_OPERATOR API_VIDEO_FLAG,
     Opt ''mpeg4resolution'' (Cmd undefined_cmd) AUTH_OPERATOR API_NONE,
     Opt ''ratecontrol'' (Cmd set_ratecontrol) AUTH_OPERATOR API_VIDEO_FLAG,
     Opt ''videocodecmode'' (Cmd set_videocodecmode) AUTH_OPERATOR API_VIDEO_FLAG,
     Opt ''videocodecres'' (Cmd set_videocodecres) AUTH_OPERATOR API_VIDEO_FLAG,
     Opt ''img2a'' (Other ''set_img2a'') AUTH_OPERATOR API_VIDEO_FLAG,
     Opt ''imagedefault'' (Cmd set_imagedefault) AUTH_OPERATOR API_VIDEO_FLAG,
     Opt ''colorkiller'' (Cmd undefined_cmd) AUTH_OPERATOR API_NONE,
     Opt ''chipcheck'' (Cmd get_chipcheck) AUTH_OPERATOR API_NONE,
     Opt ''mirror'' (Cmd set_mirror) AUTH_OPERATOR API_VIDEO_FLAG,
     Opt ''flip'' (Cmd set_flip) AUTH_OPERATOR API_VIDEO_FLAG,
     Opt ''gamma'' (Cmd set_gamma) AUTH_OPERATOR API_VIDEO_FLAG] @
    (if defined k ''PLAT_DM355''
     then [Opt ''micgain'' (Cmd set_micgain) AUTH_OPERATOR API_NONE]
     else (if defined k ''PLAT_DM365''
     then [Opt ''micgain'' (Cmd set_externalmicgain) AUTH_OPERATOR API_VIDEO_FLAG]
     else [])) @
    [Opt ''muteenable'' (Cmd set_muteenable) AUTH_OPERATOR API_VIDEO_FLAG,
     Opt ''lineingain'' (Other ''set_lineingain'') AUTH_OPERATOR API_VIDEO_FLAG,
     Opt ''externalmicgain'' (Cmd set_externalmicgain) AUTH_OPERATOR API_VIDEO_FLAG]"

definition HttpOptionTable_3 :: "'w camera \<Rightarrow> 'w option_entry list" where [table_defs]:
  "HttpOptionTable_3 k =
    [Opt ''awb'' (Other ''set_white_balance'') AUTH_OPERATOR API_VIDEO_FLAG,
     Opt ''isupdatecal'' (Cmd set_isupdatecal) AUTH_OPERATOR API_VIDEO_FLAG,
     Opt ''rgain'' (Cmd set_rgain) AUTH_OPERATOR API_VIDEO_FLAG,
     Opt ''bgain'' (Cmd set_bgain) AUTH_OPERATOR API_VIDEO_FLAG,
     Opt ''agc'' (Other ''set_aegain'') AUTH_OPERATOR API_VIDEO_FLAG,
     Opt ''agcctrl'' (Cmd set_agcctrl) AUTH_OPERATOR API_VIDEO_FLAG,
     Opt ''setvideoalc'' (Cmd set_videoalc) AUTH_OPERATOR API_VIDEO_FLAG,
     Opt ''getmirror'' (Cmd get_mirror) AUTH_OPERATOR API_NONE,
     Opt ''kelvin'' (Cmd undefined_cmd) AUTH_OPERATOR API_NONE,
     Opt ''getkelvin'' (Cmd undefined_cmd) AUTH_OPERATOR API_NONE,
     Opt ''maxagcgain'' (Other ''set_maxagcgain'') AUTH_OPERATOR API_VIDEO_FLAG,
     Opt ''tvcalbe'' (Cmd set_tvcable) AUTH_OPERATOR API_VIDEO_FLAG,
     Opt ''binning'' (Cmd set_binning) AUTH_OPERATOR API_VIDEO_FLAG,
     Opt ''getblc'' (Cmd get_blc) AUTH_OPERATOR API_NONE,
     Opt ''blcmode'' (Cmd set_blcmode) AUTH_OPERATOR API_VIDEO_FLAG,
     Opt ''setbacklight'' (Cmd undefined_cmd) AUTH_OPERATOR API_NONE,
     Opt ''getbacklight'' (Cmd undefined_cmd) AUTH_OPERATOR API_NONE,
     Opt ''brightness'' (Cmd set_brightness) AUTH_OPERATOR API_VIDEO_FLAG,
     Opt ''getbrightness'' (Cmd get_brightness) AUTH_OPERATOR API_NONE,
     Opt ''denoise'' (Cmd set_denoise) AUTH_OPERATOR API_VIDEO_FLAG,
     Opt ''getdenoise'' (Cmd get_denoise) AUTH_OPERATOR API_NONE,
     Opt ''evcomp'' (Cmd set_evcomp) AUTH_OPERATOR API_VIDEO_FLAG,
     Opt ''getevcomp'' (Cmd get_evcomp) AUTH_OPERATOR API_NONE,
     Opt ''dremode'' (Cmd set_dremode) AUTH_OPERATOR API_VIDEO_FLAG,
     Opt ''contrast'' (Cmd set_contrast) AUTH_OPERATOR API_VIDEO_FLAG,
     Opt ''getcontrast'' (Cmd get_contrast) AUTH_OPERATOR API_NONE,
     Opt ''h3aaeexposure'' (Cmd undefined_cmd) AUTH_OPERATOR API_NONE,
     Opt ''h3aaefunc'' (Cmd undefined_cmd) AUTH_OPERATOR API_NONE,
     Opt ''h3aaffunc'' (Cmd undefined_cmd) AUTH_OPERATOR API_NONE,
     Opt ''h3aawbfunc'' (Cmd undefined_cmd) AUTH_OPERATOR API_NONE,
     Opt ''gethue'' (Cmd undefined_cmd) AUTH_OPERATOR API_NONE,
     Opt ''hue'' (Cmd undefined_cmd) AUTH_OPERATOR API_NONE,
     Opt ''saturation'' (Cmd set_saturation) AUTH_OPERATOR API_VIDEO_FLAG,
     Opt ''getsaturation'' (Cmd get_saturation) AUTH_OPERATOR API_NONE,
     Opt ''sharpness'' (Cmd set_sharpness) AUTH_OPERATOR API_VIDEO_FLAG,
     Opt ''getsharpness'' (Cmd get_sharpness) AUTH_OPERATOR API_NONE,
     Opt ''wdrenable'' (Cmd set_wdrenable) AUTH_OPERATOR API_VIDEO_FLAG,
     Opt ''wdrlevel'' (Cmd set_wdrlevel) AUTH_OPERATOR API_VIDEO_FLAG,
     Opt ''exposuretime'' (Other ''set_exposuretime'') AUTH_OPERATOR API_VIDEO_FLAG,
     Opt ''meteringmethod'' (Other ''set_meteringmethod'') AUTH_OPERATOR API_VIDEO_FLAG,
     Opt ''setcolorbar'' (Cmd undefined_cmd) AUTH_OPERATOR API_NONE,
     Opt ''maskarea'' (Other ''set_maskarea'') AUTH_OPERATOR API_VIDEO_FLAG,
     Opt ''privacymaskenable'' (Cmd set_maskareaenable) AUTH_OPERATOR API_VIDEO_FLAG,
     Opt ''getjpegyield'' (Cmd undefined_cmd) AUTH_OPERATOR API_NONE,
     Opt ''luminance'' (Cmd undefined_cmd) AUTH_OPERATOR API_NONE,
     Opt ''getluminance'' (Cmd undefined_cmd) AUTH_OPERATOR API_NONE,
     Opt ''getluminancenow'' (Cmd undefined_cmd) AUTH_OPERATOR API_NONE,
     Opt ''getexposure'' (Cmd undefined_cmd) AUTH_OPERATOR API_NONE,
     Opt ''supportonvif'' (Cmd get_supportonvif) AUTH_VIEWER API_NONE,
     Opt ''supportflickless'' (Cmd get_supportflickless) AUTH_VIEWER API_NONE,
     Opt ''supportpowerline'' (Cmd get_supportpowerline) AUTH_VIEWER API_NONE,
     Opt ''supportagc'' (Cmd get_supportagc) AUTH_VIEWER API_NONE,
     Opt ''supportaudio'' (Cmd get_supportaudio) AUTH_VIEWER API_NONE,
     Opt ''supportavc'' (Cmd get_supportavc) AUTH_VIEWER API_NONE,
     Opt ''supportawb'' (Cmd get_supportawb) AUTH_VIEWER API_NONE,
     Opt ''supportbacklight'' (Cmd get_supportbacklight) AUTH_VIEWER API_NONE,
     Opt ''supportblcmode'' (Cmd get_supportblcmode) AUTH_VIEWER API_NONE,
     Opt ''supportbrightness'' (Cmd get_supportbrightness) AUTH_VIEWER API_NONE,
     Opt ''supportdenoise'' (Cmd get_supportdenoise) AUTH_VIEWER API_NONE,
     Opt ''supportevcomp'' (Cmd get_supportevcomp) AUTH_VIEWER API_NONE,
     Opt ''supportdre'' (Cmd get_supportdre) AUTH_VIEWER API_NONE,
     Opt ''supportcapturepriority'' (Cmd get_supportcapturepriority) AUTH_VIEWER API_NONE,
     Opt ''supportcolorkiller'' (Cmd get_supportcolorkiller) AUTH_VIEWER API_NONE,
     Opt ''supportcontrast'' (Cmd get_supportcontrast) AUTH_VIEWER API_NONE,
     Opt ''supportdncontrol'' (Cmd get_supportdncontrol) AUTH_VIEWER API_NONE,
     Opt ''supportds1302'' (Cmd get_supportds1302) AUTH_VIEWER API_NONE,
     Opt ''supportexposure'' (Cmd get_supportexposure) AUTH_VIEWER API_NONE,
     Opt ''supportexposuretimemode'' (Cmd get_supportexposuretimemode) AUTH_VIEWER API_NONE,
     Opt ''supportfluorescent'' (Cmd get_supportfluorescent) AUTH_VIEWER API_NONE,
     Opt ''supportfs'' (Cmd get_supportfs) AUTH_VIEWER API_NONE,
     Opt ''supporth3a'' (Cmd get_supporth3a) AUTH_VIEWER API_NONE,
     Opt ''supporthspeedshutter'' (Cmd get_supporthspeedshutter) AUTH_VIEWER API_NONE,
     Opt ''supporthue'' (Cmd get_supporthue) AUTH_VIEWER API_NONE,
     Opt ''supportkelvin'' (Cmd get_supportkelvin) AUTH_VIEWER API_NONE,
     Opt ''supportluminance'' (Cmd get_supportluminance) AUTH_VIEWER API_NONE,
     Opt ''supportmaskarea'' (Cmd get_supportmaskarea) AUTH_VIEWER API_NONE,
     Opt ''supportmaxagcgain'' (Cmd get_supportmaxagcgain) AUTH_VIEWER API_NONE,
     Opt ''supportmirror'' (Cmd get_supportmirror) AUTH_VIEWER API_NONE,
     Opt ''supportflip'' (Cmd get_supportflip) AUTH_VIEWER API_NONE,
     Opt ''supportmotion'' (Cmd get_supportmotion) AUTH_VIEWER API_NONE,
     Opt ''supportmotionmode'' (Cmd get_supportmotionmode) AUTH_VIEWER API_NONE,
     Opt ''supportmpeg4'' (Cmd get_supportmpeg4) AUTH_VIEWER API_NONE,
     Opt ''supportmui'' (Cmd get_supportmui) AUTH_VIEWER API_NONE,
     Opt ''supportprotect'' (Cmd get_supportprotect) AUTH_VIEWER API_NONE,
     Opt ''supportsaturation'' (Cmd get_supportsaturation) AUTH_VIEWER API_NONE,
     Opt ''supportsd'' (Cmd get_supportsd) AUTH_VIEWER API_NONE,
     Opt ''supportsenseup'' (Cmd get_supportsenseup) AUTH_VIEWER API_NONE,
     Opt ''supportsharpness'' (Cmd get_supportsharpness) AUTH_VIEWER API_NONE,
     Opt ''supportst16550'' (Cmd get_supportst16550) AUTH_VIEWER API_NONE,
     Opt ''supporttstamp'' (Cmd get_supporttstamp) AUTH_VIEWER API_NONE,
     Opt ''supporttwowayaudio'' (Cmd get_supporttwowayaudio) AUTH_VIEWER API_NONE,
     Opt ''supportusb'' (Cmd get_supportusb) AUTH_VIEWER API_NONE,
     Opt ''supportwatchdog'' (Cmd get_supportwatchdog) AUTH_VIEWER API_NONE,
     Opt ''servicehello'' (Cmd get_servicehello) AUTH_VIEWER API_NONE,
     Opt ''servicenetbiosns'' (Cmd get_servicenetbiosns) AUTH_VIEWER API_NONE,
     Opt ''servicennews'' (Cmd get_servicennews) AUTH_VIEWER API_NONE,
     Opt ''servicescanport'' (Cmd get_servicescanport) AUTH_VIEWER API_NONE,
     Opt ''supportaudioinswitch'' (Cmd get_supportaudioinswitch) AUTH_VIEWER API_NONE,
     Opt ''supportaudioencselect'' (Cmd get_supportaudioencselect) AUTH_VIEWER API_NONE,
     Opt ''supportwdrlevel'' (Cmd get_supportwdrlevel) AUTH_VIEWER API_NONE,
     Opt ''machinetype'' (Other ''get_machinetype'') AUTH_VIEWER API_NONE,
     Opt ''supportantiflicker'' (Cmd get_supportantiflicker) AUTH_VIEWER API_NONE,
     Opt ''osdshow'' (Cmd osd_show) AUTH_OPERATOR API_NONE,
     Opt ''osdx'' (Cmd undefined_cmd) AUTH_OPERATOR API_NONE,
     Opt ''osdy'' (Cmd undefined_cmd) AUTH_OPERATOR API_NONE,
     Opt ''setosd'' (Cmd undefined_cmd) AUTH_OPERATOR API_NONE,
     Opt ''getinfolocation'' (Cmd undefined_cmd) AUTH_OPERATOR API_NONE,
     Opt ''infolocation'' (Cmd undefined_cmd) AUTH_OPERATOR API_NONE,
     Opt ''getosdstatus'' (Cmd undefined_cmd) AUTH_OPERATOR API_NONE,
     Opt ''setsdcount'' (Cmd undefined_cmd) AUTH_OPERATOR API_NONE,
     Opt ''getsdcount'' (Cmd undefined_cmd) AUTH_OPERATOR API_NONE,
     Opt ''getsderror'' (Cmd undefined_cmd) AUTH_OPERATOR API_NONE]"

definition HttpOptionTable_4 :: "'w camera \<Rightarrow> 'w option_entry list" where [table_defs]:
  "HttpOptionTable_4 k =
    [Opt ''getsdinsert'' (Cmd get_sdinsert) AUTH_OPERATOR API_NONE,
     Opt ''getsdsize'' (Cmd undefined_cmd) AUTH_OPERATOR API_NONE,
     Opt ''sddel'' (Other ''set_sddel'') AUTH_OPERATOR API_NONE,
     Opt ''sdfpp'' (Cmd set_sdfpp) AUTH_OPERATOR API_NONE,
     Opt ''setdaylight'' (Cmd set_daylight) AUTH_OPERATOR API_NONE,
     Opt ''getdaylight'' (Cmd get_daylight) AUTH_OPERATOR API_NONE,
     Opt ''daylightshift'' (Cmd set_dstshift) AUTH_OPERATOR API_NONE,
     Opt ''daylightmode'' (Cmd set_dstmode) AUTH_OPERATOR API_NONE,
     Opt ''daylightstart'' (Cmd set_dststart) AUTH_OPERATOR API_NONE,
     Opt ''daylightend'' (Cmd set_dstend) AUTH_OPERATOR API_NONE,
     Opt ''digitalalarmin'' (Cmd undefined_cmd) AUTH_OPERATOR API_NONE,
     Opt ''digitalalarmreset'' (Cmd undefined_cmd) AUTH_OPERATOR API_NONE,
     Opt ''getpostalarm'' (Cmd undefined_cmd) AUTH_OPERATOR API_NONE,
     Opt ''getprealarm'' (Cmd undefined_cmd) AUTH_OPERATOR API_NONE,
     Opt ''getrecordstate'' (Cmd undefined_cmd) AUTH_OPERATOR API_NONE,
     Opt ''setupnpenable'' (Cmd set_upnpenable) AUTH_OPERATOR API_NONE,
     Opt ''getupnpenable'' (Cmd get_upnpenable) AUTH_OPERATOR API_NONE,
     Opt ''upnprefresh'' (Other ''set_upnprefresh'') AUTH_OPERATOR API_NONE,
     Opt ''serviceupnpdevice'' (Cmd get_serviceupnpdevice) AUTH_VIEWER API_NONE,
     Opt ''dhcp'' (Cmd set_dhcpclient) AUTH_OPERATOR API_NONE,
     Opt ''dhcpdipswitch'' (Cmd set_dhcpdipswitch) AUTH_OPERATOR API_NONE,
     Opt ''servicedhcpclient'' (Cmd get_servicedhcpclient) AUTH_VIEWER API_NONE,
     Opt ''getdhcpenable'' (Other ''get_dhcpclient'') AUTH_OPERATOR API_NONE,
     Opt ''getdhcpcport'' (Cmd undefined_cmd) AUTH_OPERATOR API_NONE,
     Opt ''getdhcpfail'' (Cmd undefined_cmd) AUTH_OPERATOR API_NONE,
     Opt ''getdhcpoffer'' (Cmd undefined_cmd) AUTH_OPERATOR API_NONE,
     Opt ''getdhcprebinding'' (Cmd undefined_cmd) AUTH_OPERATOR API_NONE,
     Opt ''getdhcprefresh'' (Cmd undefined_cmd) AUTH_OPERATOR API_NONE,
     Opt ''getdhcprelease'' (Cmd undefined_cmd) AUTH_OPERATOR API_NONE,
     Opt ''getdhcprenewal'' (Cmd undefined_cmd) AUTH_OPERATOR API_NONE,
     Opt ''getdhcpsack'' (Cmd undefined_cmd) AUTH_OPERATOR API_NONE,
     Opt ''setdhcpsdesignate'' (Cmd undefined_cmd) AUTH_OPERATOR API_NONE,
     Opt ''getdhcpsdesignate'' (Cmd undefined_cmd) AUTH_OPERATOR API_NONE,
     Opt ''setdhcpsenable'' (Cmd undefined_cmd) AUTH_OPERATOR API_NONE,
     Opt ''getdhcpsenable'' (Cmd undefined_cmd) AUTH_OPERATOR API_NONE,
     Opt ''setdhcpsleasetime'' (Cmd undefined_cmd) AUTH_OPERATOR API_NONE,
     Opt ''getdhcpsleasetime'' (Cmd undefined_cmd) AUTH_OPERATOR API_NONE,
     Opt ''getdhcpslist'' (Cmd undefined_cmd) AUTH_OPERATOR API_NONE,
     Opt ''setdhcpsmaxdomain'' (Cmd undefined_cmd) AUTH_OPERATOR API_NONE,
     Opt ''getdhcpsmaxdomain'' (Cmd undefined_cmd) AUTH_OPERATOR API_NONE,
     Opt ''getdhcpsnak'' (Cmd undefined_cmd) AUTH_OPERATOR API_NONE,
     Opt ''getdhcpsoccupy'' (Cmd undefined_cmd) AUTH_OPERATOR API_NONE,
     Opt ''getdhcpsoffer'' (Cmd undefined_cmd) AUTH_OPERATOR API_NONE,
     Opt ''getdhcpsport'' (Cmd undefined_cmd) AUTH_OPERATOR API_NONE,
     Opt ''supportdhcpdipswitch'' (Cmd get_supportdhcpdipswitch) AUTH_VIEWER API_NONE,
     Opt ''setpppoeenable'' (Cmd set_pppoeenable) AUTH_OPERATOR API_NONE,
     Opt ''getpppoeenable'' (Cmd get_pppoeenable) AUTH_OPERATOR API_NONE,
     Opt ''setpppoeaccount'' (Cmd set_pppoeaccount) AUTH_OPERATOR API_NONE,
     Opt ''getpppoeaccount'' (Cmd get_pppoeaccount) AUTH_OPERATOR API_NONE,
     Opt ''setpppoepwd'' (Cmd set_pppoepwd) AUTH_OPERATOR API_NONE,
     Opt ''getpppoepwd'' (Cmd get_pppoepwd) AUTH_OPERATOR API_NONE,
     Opt ''getispaccount'' (Cmd get_ispaccount) AUTH_OPERATOR API_NONE,
     Opt ''getisppassword'' (Cmd get_isppassword) AUTH_OPERATOR API_NONE,
     Opt ''getispphone'' (Cmd undefined_cmd) AUTH_OPERATOR API_NONE,
     Opt ''setpppoeidle'' (Cmd undefined_cmd) AUTH_OPERATOR API_NONE,
     Opt ''getpppoeidle'' (Cmd undefined_cmd) AUTH_OPERATOR API_NONE,
     Opt ''servicepppoe'' (Cmd get_servicepppoe) AUTH_VIEWER API_NONE,
     Opt ''serviceppp'' (Cmd undefined_cmd) AUTH_VIEWER API_NONE,
     Opt ''setddnsenable'' (Cmd set_ddnsenable) AUTH_OPERATOR API_NONE,
     Opt ''getddnsenable'' (Cmd get_ddnsenable) AUTH_OPERATOR API_NONE,
     Opt ''setddnstype'' (Other ''set_ddnstype'') AUTH_OPERATOR API_NONE,
     Opt ''getddnstype'' (Cmd get_ddnstype) AUTH_OPERATOR API_NONE,
     Opt ''setddnshostname'' (Cmd set_ddnshostname) AUTH_OPERATOR API_NONE,
     Opt ''getddnshostname'' (Cmd get_ddnshostname) AUTH_OPERATOR API_NONE,
     Opt ''setddnsaccount'' (Cmd set_ddnsaccount) AUTH_OPERATOR API_NONE,
     Opt ''getddnsaccount'' (Cmd get_ddnsaccount) AUTH_OPERATOR API_NONE,
     Opt ''setddnspassword'' (Cmd set_ddnspassword) AUTH_OPERATOR API_NONE,
     Opt ''getddnspassword'' (Cmd get_ddnspassword) AUTH_OPERATOR API_NONE,
     Opt ''ddnsinterval'' (Cmd set_ddnsinterval) AUTH_OPERATOR API_NONE,
     Opt ''ddnsstatus'' (Cmd get_ddnsstatus) AUTH_OPERATOR API_NONE,
     Opt ''serviceddnsclient'' (Cmd get_serviceddnsclient) AUTH_VIEWER API_NONE,
     Opt ''servicednsclient'' (Cmd undefined_cmd) AUTH_VIEWER API_NONE,
     Opt ''getdnsip'' (Other ''get_dnsip'') AUTH_OPERATOR API_NONE,
     Opt ''getdns'' (Cmd undefined_cmd) AUTH_OPERATOR API_NONE,
     Opt ''getdnsport'' (Cmd undefined_cmd) AUTH_OPERATOR API_NONE,
     Opt ''getdnsrecord'' (Cmd undefined_cmd) AUTH_OPERATOR API_NONE,
     Opt ''getdnsstatus'' (Cmd undefined_cmd) AUTH_OPERATOR API_NONE,
     Opt ''getdnstableleft'' (Cmd undefined_cmd) AUTH_OPERATOR API_NONE,
     Opt ''getdnstablesize'' (Cmd undefined_cmd) AUTH_OPERATOR API_NONE,
     Opt ''secondarydnsip'' (Other ''dns2'') AUTH_OPERATOR API_NONE,
     Opt ''ipfilterenable'' (Other ''set_ipfilterenable'') AUTH_OPERATOR API_NONE,
     Opt ''ipfilterdefaultpolicy'' (Other ''set_ipfilterdefaultpolicy'') AUTH_OPERATOR API_NONE,
     Opt ''ipfilterpolicyedit'' (Other ''set_ipfilterpolicyedit'') AUTH_OPERATOR API_NONE,
     Opt ''ipfilterpolicydel'' (Other ''set_ipfilterpolicydel'') AUTH_OPERATOR API_NONE,
     Opt ''ipfilterpolicyexch'' (Other ''set_ipfilterpolicyexch'') AUTH_OPERATOR API_NONE,
     Opt ''serviceipfilter'' (Cmd get_serviceipfilter) AUTH_VIEWER API_NONE,
     Opt ''addipfilterpolicy'' (Other ''add_ipfilterpolicy'') AUTH_OPERATOR API_NONE,
     Opt ''delipfilterpolicy'' (Other ''del_ipfilterpolicy'') AUTH_OPERATOR API_NONE]"

definition HttpOptionTable_5 :: "'w camera \<Rightarrow> 'w option_entry list" where [table_defs]:
  "HttpOptionTable_5 k =
    [Opt ''getupnpportforwardingstatus'' (Cmd get_upnpportforwardingstatus) AUTH_OPERATOR API_NONE,
     Opt ''quotainbound'' (Cmd set_quotainbound) AUTH_OPERATOR API_NONE,
     Opt ''quotaoutbound'' (Cmd set_quotaoutbound) AUTH_OPERATOR API_NONE,
     Opt ''tstampenable'' (Cmd set_tstampenable) AUTH_OPERATOR API_NONE,
     Opt ''tstampformat'' (Cmd set_tstampformat) AUTH_OPERATOR API_NONE] @
    (if defined k ''PLAT_DM355''
     then [Opt ''tstampcolor'' (Cmd set_tstampcolor) AUTH_OPERATOR API_NONE]
     else [Opt ''tstampcolor'' (Cmd undefined_cmd) AUTH_OPERATOR API_NONE]) @
    [Opt ''tstamploc'' (Cmd set_tstamploc) AUTH_OPERATOR API_NONE,
     Opt ''tstamplabel'' (Other ''set_tstamplabel'') AUTH_OPERATOR API_NONE,
     Opt ''setgioinenable'' (Other ''set_gioinenable'') AUTH_OPERATOR API_NONE,
     Opt ''setgiointype'' (Other ''set_giointype'') AUTH_OPERATOR API_NONE,
     Opt ''setgiooutenable'' (Other ''set_giooutenable'') AUTH_OPERATOR API_NONE,
     Opt ''setgioouttype'' (Other ''set_gioouttype'') AUTH_OPERATOR API_NONE,
     Opt ''giooutalwayson'' (Other ''set_giooutalwayson'') AUTH_VIEWER API_NONE,
     Opt ''giooutreset'' (Other ''set_giooutreset'') AUTH_VIEWER API_NONE,
     Opt ''getgpiodir'' (Other ''get_gpio_dir'') AUTH_ADMIN API_NONE,
     Opt ''setgpiodir'' (Other ''set_gpio_dir'') AUTH_ADMIN API_NONE,
     Opt ''getgpiovalue'' (Other ''get_gpio_value'') AUTH_ADMIN API_NONE,
     Opt ''setgpiovalue'' (Other ''set_gpio_value'') AUTH_ADMIN API_NONE,
     Opt ''getgpiostate'' (Other ''get_gpio_state'') AUTH_ADMIN API_NONE,
     Opt ''setgpiostate'' (Other ''set_gpio_state'') AUTH_ADMIN API_NONE,
     Opt ''getgiointype'' (Other ''get_giointype'') AUTH_OPERATOR API_NONE,
     Opt ''gethostname'' (Cmd undefined_cmd) AUTH_OPERATOR API_NONE,
     Opt ''getmaxsocket'' (Cmd undefined_cmd) AUTH_OPERATOR API_NONE,
     Opt ''getsocketconnected'' (Cmd undefined_cmd) AUTH_OPERATOR API_NONE,
     Opt ''getsocketfree'' (Cmd undefined_cmd) AUTH_OPERATOR API_NONE,
     Opt ''getsocketloadtimeout'' (Cmd undefined_cmd) AUTH_OPERATOR API_NONE,
     Opt ''getsockettimeout'' (Cmd undefined_cmd) AUTH_OPERATOR API_NONE,
     Opt ''getmaxarprecord'' (Cmd undefined_cmd) AUTH_OPERATOR API_NONE,
     Opt ''getarp'' (Cmd undefined_cmd) AUTH_OPERATOR API_NONE,
     Opt ''internetip'' (Other ''set_netip'') AUTH_OPERATOR API_NONE,
     Opt ''subnetmask'' (Other ''set_netmask'') AUTH_OPERATOR API_NONE,
     Opt ''dnsip'' (Other ''set_dnsip'') AUTH_OPERATOR API_NONE,
     Opt ''gateway'' (Other ''set_gateway'') AUTH_OPERATOR API_NONE,
     Opt ''httpport'' (Other ''set_httpport'') AUTH_OPERATOR API_RESTART,
     Opt ''getnetip'' (Other ''get_netip'') AUTH_OPERATOR API_NONE,
     Opt ''getnetmask'' (Other ''get_netmask'') AUTH_OPERATOR API_NONE,
     Opt ''getgateway'' (Other ''get_gateway'') AUTH_OPERATOR API_NONE,
     Opt ''gethttpport'' (Other ''get_httpport'') AUTH_OPERATOR API_NONE,
     Opt ''ledmode'' (Other ''ledmode'') AUTH_OPERATOR API_NONE,
     Opt ''rtspport'' (Cmd set_rtspport) AUTH_OPERATOR API_NONE,
     Opt ''httpstreamname1'' (Other ''http_stream_name_1'') AUTH_OPERATOR API_NONE,
     Opt ''httpstreamname2'' (Other ''http_stream_name_2'') AUTH_OPERATOR API_NONE,
     Opt ''httpstreamname3'' (Other ''http_stream_name_3'') AUTH_OPERATOR API_NONE,
     Opt ''rtspaccessname1'' (Other ''rtsp_stream_name_1'') AUTH_OPERATOR API_NONE,
     Opt ''rtspaccessname2'' (Other ''rtsp_stream_name_2'') AUTH_OPERATOR API_NONE,
     Opt ''rtspaccessname3'' (Other ''rtsp_stream_name_3'') AUTH_OPERATOR API_NONE,
     Opt ''getmaxregister'' (Cmd get_maxregister) AUTH_OPERATOR API_NONE,
     Opt ''adduser'' (Other ''add_user'') AUTH_OPERATOR API_NONE,
     Opt ''getuser'' (Other ''get_user'') AUTH_OPERATOR API_NONE,
     Opt ''getuserleft'' (Other ''get_userleft'') AUTH_OPERATOR API_NONE,
     Opt ''deluser'' (Other ''del_user'') AUTH_ADMIN API_NONE,
     Opt ''eventstart'' (Other ''event_start'') AUTH_OPERATOR API_NONE,
     Opt ''whoareonline'' (Cmd undefined_cmd) AUTH_OPERATOR API_NONE,
     Opt ''getlogin'' (Cmd undefined_cmd) AUTH_OPERATOR API_NONE,
     Opt ''getloginfail'' (Cmd undefined_cmd) AUTH_OPERATOR API_NONE,
     Opt ''getloginsuccess'' (Cmd undefined_cmd) AUTH_OPERATOR API_NONE,
     Opt ''getmaxaccount'' (Cmd get_maxaccount) AUTH_OPERATOR API_NONE,
     Opt ''login'' (Other ''user_login'') AUTH_NONE API_NONE,
     Opt ''logout'' (Other ''user_logout'') AUTH_NONE API_NONE,
     Opt ''getauthority'' (Other ''get_authority'') AUTH_NONE API_NONE,
     Opt ''getdate'' (Other ''get_date'') AUTH_OPERATOR API_NONE,
     Opt ''gettime'' (Other ''get_time'') AUTH_OPERATOR API_NONE,
     Opt ''ntpfqdn'' (Cmd set_sntpfqdn) AUTH_OPERATOR API_NONE,
     Opt ''ntpenable'' (Other ''ntp_enable'') AUTH_OPERATOR API_NONE,
     Opt ''sntpfqdn'' (Cmd set_sntpfqdn) AUTH_OPERATOR API_NONE,
     Opt ''newdate'' (Other ''set_system_date'') AUTH_OPERATOR API_NONE,
     Opt ''newtime'' (Other ''set_system_time'') AUTH_OPERATOR API_NONE,
     Opt ''timezone'' (Cmd set_timezone) AUTH_OPERATOR API_NONE,
     Opt ''wintimezone'' (Cmd set_wintimezone) AUTH_OPERATOR API_NONE,
     Opt ''timefrequency'' (Other ''set_time_frequency'') AUTH_OPERATOR API_NONE,
     Opt ''timeformat'' (Cmd set_timeformat) AUTH_OPERATOR API_NONE,
     Opt ''getsntpip'' (Other ''get_sntpip'') AUTH_OPERATOR API_NONE,
     Opt ''getsntpfail'' (Cmd undefined_cmd) AUTH_OPERATOR API_NONE,
     Opt ''getsntpfrequency'' (Cmd undefined_cmd) AUTH_OPERATOR API_NONE,
     Opt ''getsntpnext'' (Cmd undefined_cmd) AUTH_OPERATOR API_NONE,
     Opt ''sntpport'' (Cmd undefined_cmd) AUTH_OPERATOR API_NONE,
     Opt ''getsntpport'' (Cmd undefined_cmd) AUTH_OPERATOR API_NONE,
     Opt ''getsntpsuccess'' (Cmd undefined_cmd) AUTH_OPERATOR API_NONE,
     Opt ''getsntptimezone'' (Cmd get_sntptimezone) AUTH_OPERATOR API_NONE,
     Opt ''servicesntpclient'' (Cmd get_servicesntpclient) AUTH_VIEWER API_NONE,
     Opt ''setsntpupdate'' (Cmd undefined_cmd) AUTH_OPERATOR API_NONE,
     Opt ''getrtcstatus'' (Cmd get_rtcstatus) AUTH_OPERATOR API_NONE,
     Opt ''getuptime'' (Cmd undefined_cmd) AUTH_OPERATOR API_NONE,
     Opt ''rtcread'' (Cmd undefined_cmd) AUTH_OPERATOR API_NONE,
     Opt ''rtcwrite'' (Cmd undefined_cmd) AUTH_OPERATOR API_NONE,
     Opt ''getlocalrtc'' (Cmd get_localrtc) AUTH_OPERATOR API_NONE,
     Opt ''getsmtpport'' (Cmd undefined_cmd) AUTH_OPERATOR API_NONE,
     Opt ''rsmtpenable'' (Cmd undefined_cmd) AUTH_OPERATOR API_NONE,
     Opt ''getrsmtpenable'' (Cmd undefined_cmd) AUTH_OPERATOR API_NONE,
     Opt ''rsmtpattach'' (Cmd undefined_cmd) AUTH_OPERATOR API_NONE,
     Opt ''getrsmtpattach'' (Cmd undefined_cmd) AUTH_OPERATOR API_NONE]"

definition HttpOptionTable_6 :: "'w camera \<Rightarrow> 'w option_entry list" where [table_defs]:
  "HttpOptionTable_6 k =
    [Opt ''servicesmtpclient'' (Cmd get_servicesmtpclient) AUTH_VIEWER API_NONE,
     Opt ''manualftp'' (Cmd undefined_cmd) AUTH_OPERATOR API_NONE,
     Opt ''manualstopftp'' (Cmd undefined_cmd) AUTH_OPERATOR API_NONE,
     Opt ''ftprate'' (Cmd undefined_cmd) AUTH_OPERATOR API_NONE,
     Opt ''getftpdtpport'' (Cmd undefined_cmd) AUTH_OPERATOR API_NONE,
     Opt ''getftpgap'' (Cmd undefined_cmd) AUTH_OPERATOR API_NONE,
     Opt ''getftpindexname'' (Cmd undefined_cmd) AUTH_OPERATOR API_NONE,
     Opt ''setftpsenable'' (Cmd undefined_cmd) AUTH_OPERATOR API_NONE,
     Opt ''getftpsenable'' (Cmd undefined_cmd) AUTH_OPERATOR API_NONE,
     Opt ''setftpsport'' (Cmd undefined_cmd) AUTH_OPERATOR API_NONE,
     Opt ''getftpsport'' (Cmd undefined_cmd) AUTH_OPERATOR API_NONE,
     Opt ''getftpstate'' (Cmd undefined_cmd) AUTH_OPERATOR API_NONE,
     Opt ''getftpvdelay'' (Cmd undefined_cmd) AUTH_OPERATOR API_NONE,
     Opt ''getaftprate'' (Cmd undefined_cmd) AUTH_OPERATOR API_NONE,
     Opt ''getalarmduration'' (Cmd undefined_cmd) AUTH_OPERATOR API_NONE,
     Opt ''aftprate'' (Cmd undefined_cmd) AUTH_OPERATOR API_NONE,
     Opt ''rftprate'' (Cmd undefined_cmd) AUTH_OPERATOR API_NONE,
     Opt ''getrftprate'' (Cmd undefined_cmd) AUTH_OPERATOR API_NONE,
     Opt ''serviceftpclient'' (Cmd get_serviceftpclient) AUTH_VIEWER API_NONE,
     Opt ''serviceftpserver'' (Cmd get_serviceftpserver) AUTH_VIEWER API_NONE] @
    (if defined k ''SERVER_SSL''
     then [Opt ''https_enable'' (Other ''https_enable'') AUTH_OPERATOR API_RESTART,
           Opt ''httpsport'' (Other ''https_port'') AUTH_OPERATOR API_RESTART,
           Opt ''clearsslkey'' (Other ''https_clearkey'') AUTH_OPERATOR API_NONE]
     else []) @
    [Opt ''getspeaktoken'' (Other ''get_speak'') AUTH_OPERATOR API_NONE,
     Opt ''giveupspeaktoken'' (Cmd giveupspeaktoken) AUTH_OPERATOR API_NONE,
     Opt ''speaktokentime'' (Cmd speaktokentime) AUTH_OPERATOR API_NONE,
     Opt ''wm8978test'' (Cmd wm8978test) AUTH_OPERATOR API_NONE,
     Opt ''speakstreamosddebug'' (Other ''speakstreamosddebug'') AUTH_OPERATOR API_NONE,
     Opt ''speakstreamtest'' (Other ''speakstreamtest'') AUTH_OPERATOR API_NONE,
     Opt ''rtspframeratedebug'' (Other ''rtspframeratedebug'') AUTH_OPERATOR API_NONE,
     Opt ''rs232delay'' (Cmd undefined_cmd) AUTH_OPERATOR API_NONE,
     Opt ''rs232output'' (Cmd undefined_cmd) AUTH_OPERATOR API_NONE,
     Opt ''rs232read'' (Cmd undefined_cmd) AUTH_OPERATOR API_NONE,
     Opt ''rs232write'' (Cmd undefined_cmd) AUTH_OPERATOR API_NONE,
     Opt ''supportrs485'' (Cmd get_supportrs485) AUTH_VIEWER API_NONE,
     Opt ''rs485delay'' (Cmd rs485_delay) AUTH_OPERATOR API_NONE,
     Opt ''rs485output'' (Other ''rs485_output'') AUTH_OPERATOR API_NONE,
     Opt ''rs485write'' (Other ''rs485_write'') AUTH_OPERATOR API_NONE,
     Opt ''rs485enable'' (Other ''set_485enable'') AUTH_OPERATOR API_NONE,
     Opt ''rs485protocol'' (Cmd set_485protocol) AUTH_OPERATOR API_NONE,
     Opt ''rs485data'' (Other ''set_485data'') AUTH_OPERATOR API_NONE,
     Opt ''rs485stop'' (Other ''set_485stop'') AUTH_OPERATOR API_NONE,
     Opt ''rs485parity'' (Other ''set_485parity'') AUTH_OPERATOR API_NONE,
     Opt ''set485type'' (Cmd undefined_cmd) AUTH_OPERATOR API_NONE,
     Opt ''set485id'' (Cmd set_485id) AUTH_OPERATOR API_NONE,
     Opt ''set485speed'' (Other ''set_485speed'') AUTH_OPERATOR API_NONE,
     Opt ''createpresetname'' (Other ''set_createpreset'') AUTH_OPERATOR API_NONE,
     Opt ''deletepresetname'' (Other ''set_deletepreset'') AUTH_OPERATOR API_NONE,
     Opt ''dv840output'' (Other ''dv840_output'') AUTH_OPERATOR API_NONE,
     Opt ''ipncvisca'' (Other ''visca_protocol'') AUTH_OPERATOR API_NONE,
     Opt ''dncontrolmode'' (Other ''dncontrol_mode'') AUTH_OPERATOR API_NONE,
     Opt ''dncontrolsensitivity'' (Cmd undefined_cmd) AUTH_OPERATOR API_NONE] @
    (if (case macro k ''SUPPORT_DNC_EX'' of Some n \<Rightarrow> n \<noteq> 0 | None \<Rightarrow> False)
     then [Opt ''dncontrolscheduleex'' (Other ''dncontrol_scheduleex'') AUTH_OPERATOR API_NONE]
     else [Opt ''dncontrolschedule'' (Cmd undefined_cmd) AUTH_OPERATOR API_NONE]) @
    [Opt ''dncontrold2n'' (Cmd dncontrol_d2n) AUTH_OPERATOR API_NONE,
     Opt ''dncontroln2d'' (Cmd dncontrol_n2d) AUTH_OPERATOR API_NONE,
     Opt ''focusadjust'' (Cmd undefined_cmd) AUTH_OPERATOR API_NONE,
     Opt ''supportdcpower'' (Cmd get_supportdcpower) AUTH_VIEWER API_NONE,
     Opt ''dcpowermode'' (Other ''set_powerout'') AUTH_OPERATOR API_NONE,
     Opt ''dcpowerschedule'' (Other ''powerschedule'') AUTH_OPERATOR API_NONE,
     Opt ''supportirled'' (Cmd get_supportirled) AUTH_VIEWER API_NONE,
     Opt ''irledmode'' (Other ''set_powerout'') AUTH_OPERATOR API_NONE,
     Opt ''irledschedule'' (Other ''powerschedule'') AUTH_OPERATOR API_NONE,
     Opt ''replytestserver'' (Cmd replytest) AUTH_OPERATOR API_NONE]"

definition HttpOptionTable_7 :: "'w camera \<Rightarrow> 'w option_entry list" where [table_defs]:
  "HttpOptionTable_7 k =
    [Opt ''geteptzstatus'' (Other ''get_eptz_status'') AUTH_VIEWER API_NONE] @
    (if defined k ''CONFIG_BRAND_DLINK''
     then [Opt ''getdlinkalarmstatus'' (Other ''get_dlink_alarm_status'') AUTH_VIEWER API_NONE,
           Opt ''getdlinksdstatus'' (Other ''get_dlink_sd_status'') AUTH_VIEWER API_NONE]
     else [Opt ''getalarmstatus'' (Other ''get_dlink_alarm_status'') AUTH_VIEWER API_NONE,
       Opt ''getsdstatus'' (Other ''get_dlink_sd_status'') AUTH_VIEWER API_NONE]) @
    [Opt ''eptzcoordinate'' (Other ''set_eptzcoordinate'') AUTH_OPERATOR API_VIDEO_FLAG,
     Opt ''eptzwindowsize'' (Cmd set_eptzwindowsize) AUTH_OPERATOR API_VIDEO_FLAG,
     Opt ''supportprofile1'' (Cmd get_supportstream1) AUTH_VIEWER API_NONE,
     Opt ''supportprofile2'' (Cmd get_supportstream2) AUTH_VIEWER API_NONE,
     Opt ''supportprofile3'' (Cmd get_supportstream3) AUTH_VIEWER API_NONE,
     Opt ''supportprofile4'' (Cmd get_supportstream4) AUTH_VIEWER API_NONE,
     Opt ''getmaxstreamcount'' (Cmd get_maxstreamcount) AUTH_OPERATOR API_NONE,
     Opt ''getprofile1format'' (Cmd get_profile1format) AUTH_OPERATOR API_NONE,
     Opt ''getprofile2format'' (Cmd get_profile2format) AUTH_OPERATOR API_NONE,
     Opt ''getprofile3format'' (Cmd get_profile3format) AUTH_OPERATOR API_NONE,
     Opt ''getprofile4format'' (Cmd get_profile4format) AUTH_OPERATOR API_NONE,
     Opt ''getprofile1xsize'' (Cmd get_profile1xsize) AUTH_OPERATOR API_NONE,
     Opt ''getprofile2xsize'' (Cmd get_profile2xsize) AUTH_OPERATOR API_NONE,
     Opt ''getprofile3xsize'' (Cmd get_profile3xsize) AUTH_OPERATOR API_NONE,
     Opt ''getprofile1ysize'' (Cmd get_profile1ysize) AUTH_OPERATOR API_NONE,
     Opt ''getprofile2ysize'' (Cmd get_profile2ysize) AUTH_OPERATOR API_NONE,
     Opt ''getprofile3ysize'' (Cmd get_profile3ysize) AUTH_OPERATOR API_NONE,
     Opt ''getprofile1fps'' (Other ''get_profile1fps'') AUTH_OPERATOR API_NONE,
     Opt ''getprofile2fps'' (Other ''get_profile2fps'') AUTH_OPERATOR API_NONE,
     Opt ''getprofile3fps'' (Other ''get_profile3fps'') AUTH_OPERATOR API_NONE,
     Opt ''getprofile1bps'' (Cmd get_profile1bps) AUTH_OPERATOR API_NONE,
     Opt ''getprofile2bps'' (Cmd get_profile2bps) AUTH_OPERATOR API_NONE,
     Opt ''getprofile3bps'' (Cmd get_profile3bps) AUTH_OPERATOR API_NONE,
     Opt ''getprofile4bps'' (Other ''get_profile4bps'') AUTH_OPERATOR API_NONE,
     Opt ''getprofile1quality'' (Cmd get_profile1quality) AUTH_OPERATOR API_NONE,
     Opt ''getprofile2quality'' (Cmd get_profile2quality) AUTH_OPERATOR API_NONE,
     Opt ''getprofile3quality'' (Cmd get_profile3quality) AUTH_OPERATOR API_NONE,
     Opt ''getprofile4quality'' (Other ''get_profile4quality'') AUTH_OPERATOR API_NONE,
     Opt ''getprofile1qualitymode'' (Cmd get_profile1qmode) AUTH_OPERATOR API_NONE,
     Opt ''getprofile2qualitymode'' (Cmd get_profile2qmode) AUTH_OPERATOR API_NONE,
     Opt ''getprofile3qualitymode'' (Cmd get_profile3qmode) AUTH_OPERATOR API_NONE,
     Opt ''getprofile4qualitymode'' (Cmd get_profile4qmode) AUTH_OPERATOR API_NONE,
     Opt ''getprofile1gov'' (Cmd get_profile1gov) AUTH_OPERATOR API_NONE,
     Opt ''getprofile2gov'' (Cmd get_profile2gov) AUTH_OPERATOR API_NONE,
     Opt ''getprofile3gov'' (Cmd get_profile3gov) AUTH_OPERATOR API_NONE,
     Opt ''getnumprofile'' (Other ''get_numprofile'') AUTH_VIEWER API_NONE,
     Opt ''profile1format'' (Other ''set_prf1format'') AUTH_OPERATOR API_VIDEO_FLAG,
     Opt ''profile1resolution'' (Other ''set_prf1res'') AUTH_OPERATOR API_VIDEO_FLAG,
     Opt ''profile1resolutionname'' (Other ''get_prf1resrange'') AUTH_OPERATOR API_NONE,
     Opt ''profile1rate'' (Cmd set_prf1rate) AUTH_OPERATOR API_VIDEO_FLAG,
     Opt ''profile1ratename'' (Other ''get_prf1raterange'') AUTH_OPERATOR API_NONE,
     Opt ''profile1bps'' (Other ''set_prf1bps'') AUTH_OPERATOR API_VIDEO_FLAG,
     Opt ''profile1bpsname'' (Other ''get_prf1bpsrange'') AUTH_OPERATOR API_NONE,
     Opt ''profile1quality'' (Cmd set_prf1quality) AUTH_OPERATOR API_VIDEO_FLAG,
     Opt ''profile1qmode'' (Other ''set_prf1qmod'') AUTH_OPERATOR API_VIDEO_FLAG,
     Opt ''profile1keyframeinterval'' (Cmd set_profile1keyframeinterval) AUTH_OPERATOR API_VIDEO_FLAG,
     Opt ''profile1govname'' (Other ''get_profile1govrange'') AUTH_OPERATOR API_NONE,
     Opt ''profile1view'' (Other ''set_profile1view'') AUTH_OPERATOR API_VIDEO_FLAG,
     Opt ''profile2format'' (Other ''set_prf2format'') AUTH_OPERATOR API_VIDEO_FLAG,
     Opt ''profile2resolution'' (Other ''set_prf2res'') AUTH_OPERATOR API_VIDEO_FLAG,
     Opt ''profile2resolutionname'' (Other ''get_prf2resrange'') AUTH_OPERATOR API_NONE,
     Opt ''profile2rate'' (Cmd set_prf2rate) AUTH_OPERATOR API_VIDEO_FLAG,
     Opt ''profile2ratename'' (Other ''get_prf2raterange'') AUTH_OPERATOR API_NONE,
     Opt ''profile2bps'' (Other ''set_prf2bps'') AUTH_OPERATOR API_VIDEO_FLAG,
     Opt ''profile2bpsname'' (Other ''get_prf2bpsrange'') AUTH_OPERATOR API_NONE,
     Opt ''profile2quality'' (Cmd set_prf2quality) AUTH_OPERATOR API_VIDEO_FLAG,
     Opt ''profile2qmode'' (Other ''set_prf2qmod'') AUTH_OPERATOR API_VIDEO_FLAG,
     Opt ''profile2keyframeinterval'' (Cmd set_profile2keyframeinterval) AUTH_OPERATOR API_VIDEO_FLAG,
     Opt ''profile2govname'' (Other ''get_profile2govrange'') AUTH_OPERATOR API_NONE,
     Opt ''profile2view'' (Other ''set_profile2view'') AUTH_OPERATOR API_VIDEO_FLAG] @
    (if defined k ''CONFIG_BRAND_TYCO''
     then [Opt ''profile3format'' (Other ''set_prf2format'') AUTH_OPERATOR API_VIDEO_FLAG,
           Opt ''profile3resolution'' (Other ''set_prf2res'') AUTH_OPERATOR API_VIDEO_FLAG,
           Opt ''profile3resolutionname'' (Other ''get_prf2resrange'') AUTH_OPERATOR API_NONE]
     else [Opt ''profile3format'' (Other ''set_prf3format'') AUTH_OPERATOR API_VIDEO_FLAG,
       Opt ''profile3resolution'' (Other ''set_prf3res'') AUTH_OPERATOR API_VIDEO_FLAG,
       Opt ''profile3resolutionname'' (Other ''get_prf3resrange'') AUTH_OPERATOR API_NONE]) @
    [Opt ''profile3rate'' (Cmd set_prf3rate) AUTH_OPERATOR API_VIDEO_FLAG,
     Opt ''profile3ratename'' (Other ''get_prf3raterange'') AUTH_OPERATOR API_NONE,
     Opt ''profile3bps'' (Other ''set_prf3bps'') AUTH_OPERATOR API_VIDEO_FLAG,
     Opt ''profile3bpsname'' (Other ''get_prf3bpsrange'') AUTH_OPERATOR API_NONE,
     Opt ''profile3quality'' (Cmd set_prf3quality) AUTH_OPERATOR API_VIDEO_FLAG,
     Opt ''profile3qmode'' (Other ''set_prf3qmod'') AUTH_OPERATOR API_VIDEO_FLAG,
     Opt ''profile3keyframeinterval'' (Cmd set_profile3keyframeinterval) AUTH_OPERATOR API_VIDEO_FLAG,
     Opt ''profile3govname'' (Other ''get_profile3govrange'') AUTH_OPERATOR API_NONE,
     Opt ''profile3view'' (Other ''set_profile3view'') AUTH_OPERATOR API_VIDEO_FLAG] @
    (if list_ex (defined k) [''MODEL_LC7317'', ''MODEL_LC7337'', ''MODEL_LC7357'', ''MODEL_VS2311T'', ''MODEL_VS2311B'', ''PLAT_DM365'']
     then [Opt ''profile4format'' (Other ''set_prf4format'') AUTH_OPERATOR API_NONE,
           Opt ''profile4resolution'' (Other ''set_prf4res'') AUTH_OPERATOR API_NONE,
           Opt ''profile4resolutionname'' (Other ''get_prf4resrange'') AUTH_OPERATOR API_NONE,
           Opt ''profile4rate'' (Other ''set_prf4rate'') AUTH_OPERATOR API_NONE,
           Opt ''profile4ratename'' (Other ''get_prf4raterange'') AUTH_OPERATOR API_NONE,
           Opt ''profile4bps'' (Other ''set_prf4bps'') AUTH_OPERATOR API_NONE,
           Opt ''profile4bpsname'' (Other ''get_prf4bpsrange'') AUTH_OPERATOR API_NONE,
           Opt ''profile4quality'' (Other ''set_prf4quality'') AUTH_OPERATOR API_NONE]
     else []) @
    [Opt ''profile4keyframeinterval'' (Other ''set_profile4keyframeinterval'') AUTH_OPERATOR API_VIDEO_FLAG,
     Opt ''profile4govname'' (Other ''get_profile4govrange'') AUTH_OPERATOR API_NONE,
     Opt ''profile4qmode'' (Cmd set_prf4qmod) AUTH_OPERATOR API_VIDEO_FLAG,
     Opt ''supportprofilenumber'' (Cmd get_supportprofilenumber) AUTH_OPERATOR API_VIDEO_FLAG,
     Opt ''supportaspectratio'' (Cmd get_supportaspectratio) AUTH_OPERATOR API_VIDEO_FLAG,
     Opt ''profilenumber'' (Other ''set_profilenumber'') AUTH_OPERATOR API_VIDEO_FLAG,
     Opt ''aspectratio'' (Cmd set_aspectratio) AUTH_OPERATOR API_VIDEO_FLAG,
     Opt ''videoprofiledefault'' (Other ''set_videodefault'') AUTH_OPERATOR API_VIDEO_FLAG,
     Opt ''sensorcropenable'' (Cmd sensorcropenable) AUTH_OPERATOR API_VIDEO_FLAG,
     Opt ''sensorcropresolution'' (Other ''sensorcropresolution'') AUTH_OPERATOR API_VIDEO_FLAG,
     Opt ''sensorstartx'' (Cmd sensorstartx) AUTH_OPERATOR API_VIDEO_FLAG,
     Opt ''sensorstarty'' (Cmd sensorstarty) AUTH_OPERATOR API_VIDEO_FLAG,
     Opt ''motionenable'' (Other ''set_motionenable'') AUTH_OPERATOR API_VIDEO_FLAG,
     Opt ''getmotionenable'' (Cmd get_motionenable) AUTH_OPERATOR API_NONE,
     Opt ''getmotion'' (Cmd get_motion) AUTH_OPERATOR API_NONE,
     Opt ''setmotioncnttable'' (Cmd undefined_cmd) AUTH_OPERATOR API_NONE]"

definition HttpOptionTable_8 :: "'w camera \<Rightarrow> 'w option_entry list" where [table_defs]:
  "HttpOptionTable_8 k =
    [Opt ''getmotioncnttable'' (Cmd undefined_cmd) AUTH_OPERATOR API_NONE,
     Opt ''getmotionmax'' (Cmd undefined_cmd) AUTH_OPERATOR API_NONE,
     Opt ''getmotionsensitivity'' (Cmd get_motionsensitivity) AUTH_OPERATOR API_NONE,
     Opt ''setmotionsentable'' (Cmd undefined_cmd) AUTH_OPERATOR API_NONE,
     Opt ''getmotionsentable'' (Cmd undefined_cmd) AUTH_OPERATOR API_NONE,
     Opt ''getmotionx1'' (Cmd undefined_cmd) AUTH_OPERATOR API_NONE,
     Opt ''getmotionx2'' (Cmd undefined_cmd) AUTH_OPERATOR API_NONE,
     Opt ''getmotionxlimit'' (Cmd undefined_cmd) AUTH_OPERATOR API_NONE,
     Opt ''getmotionylimit'' (Cmd undefined_cmd) AUTH_OPERATOR API_NONE,
     Opt ''getmotiony1'' (Cmd undefined_cmd) AUTH_OPERATOR API_NONE,
     Opt ''getmotiony2'' (Cmd undefined_cmd) AUTH_OPERATOR API_NONE,
     Opt ''motionxy'' (Cmd undefined_cmd) AUTH_OPERATOR API_NONE,
     Opt ''motioncenable'' (Cmd undefined_cmd) AUTH_OPERATOR API_NONE,
     Opt ''motionlevel'' (Cmd undefined_cmd) AUTH_OPERATOR API_NONE,
     Opt ''motioncvalue'' (Cmd set_motioncvalue) AUTH_OPERATOR API_VIDEO_FLAG,
     Opt ''motionblock'' (Cmd set_motionblock) AUTH_OPERATOR API_VIDEO_FLAG,
     Opt ''motionpercentage'' (Cmd set_motionpercentage) AUTH_OPERATOR API_VIDEO_FLAG,
     Opt ''motiondrawenable'' (Cmd motiondrawenable) AUTH_OPERATOR API_VIDEO_FLAG,
     Opt ''motionregion'' (Other ''motionregion'') AUTH_OPERATOR API_VIDEO_FLAG,
     Opt ''rtc_cal_value'' (Other ''set_rtc_cal_value'') AUTH_ADMIN API_NONE,
     Opt ''rtc_cal_status'' (Other ''set_rtc_cal_status'') AUTH_ADMIN API_NONE,
     Opt ''rtc_cal_faster'' (Other ''set_rtc_cal_faster'') AUTH_ADMIN API_NONE,
     Opt ''rtc_cal_slower'' (Other ''set_rtc_cal_slower'') AUTH_ADMIN API_NONE,
     Opt ''show_framerate'' (Other ''osd_show_framerate'') AUTH_ADMIN API_NONE,
     Opt ''wizardinit'' (Other ''wizardinit'') AUTH_ADMIN API_NONE,
     Opt ''createeventserver'' (Other ''set_event_server'') AUTH_OPERATOR API_NONE,
     Opt ''deleteeventserver'' (Other ''del_event_server'') AUTH_OPERATOR API_NONE,
     Opt ''createeventmedia'' (Other ''set_event_media'') AUTH_OPERATOR API_NONE,
     Opt ''deleteeventmedia'' (Other ''del_event_media'') AUTH_OPERATOR API_NONE,
     Opt ''createevent'' (Other ''set_event_type'') AUTH_OPERATOR API_NONE,
     Opt ''deleteevent'' (Other ''del_event_type'') AUTH_OPERATOR API_NONE,
     Opt ''createeventrecording'' (Other ''set_event_record'') AUTH_OPERATOR API_NONE,
     Opt ''deleteeventrecording'' (Other ''del_event_record'') AUTH_OPERATOR API_NONE,
     Opt ''autoiris'' (Other ''set_auto_iris'') AUTH_OPERATOR API_NONE,
     Opt ''setafzoom'' (Other ''set_afzoom'') AUTH_OPERATOR API_NONE,
     Opt ''setaffocus'' (Other ''set_affocus'') AUTH_OPERATOR API_NONE,
     Opt ''getaftemperature'' (Other ''get_af_temp'') AUTH_OPERATOR API_NONE,
     Opt ''getafadcvalue'' (Other ''get_af_adc'') AUTH_OPERATOR API_NONE,
     Opt ''getautofocusbusy'' (Cmd get_autofocusbusy) AUTH_OPERATOR API_NONE,
     Opt ''lensspeed'' (Other ''lens_speed'') AUTH_OPERATOR API_NONE,
     Opt ''getmcuwdt'' (Other ''get_mcu_wdt'') AUTH_OPERATOR API_NONE,
     Opt ''setmcuwdt'' (Other ''set_mcu_wdt'') AUTH_OPERATOR API_NONE,
     Opt ''disablemcuwdt'' (Cmd disablemcuwdt) AUTH_OPERATOR API_NONE,
     Opt ''af_cnt'' (Cmd af_cnt) AUTH_VIEWER API_NONE,
     Opt ''af_test'' (Other ''af_test'') AUTH_VIEWER API_NONE,
     Opt ''eptzspeed'' (Other ''eptz_speed'') AUTH_OPERATOR API_NONE,
     Opt ''eptzpspeed'' (Other ''eptz_pspeed'') AUTH_OPERATOR API_NONE,
     Opt ''eptztspeed'' (Other ''eptz_tspeed'') AUTH_OPERATOR API_NONE,
     Opt ''eptzzspeed'' (Other ''eptz_zspeed'') AUTH_OPERATOR API_NONE,
     Opt ''eptzadvspeed'' (Other ''eptz_advspeed'') AUTH_OPERATOR API_NONE,
     Opt ''manualctrlfan'' (Other ''manual_ctrl_fan'') AUTH_OPERATOR API_NONE,
     Opt ''manualctrlheater'' (Other ''manual_ctrl_heater'') AUTH_OPERATOR API_NONE] @
    (if defined k ''SUPPORT_VISCA''
     then [Opt ''setpresetpage'' (Other ''set_vspresetpage'') AUTH_OPERATOR API_NONE,
           Opt ''getpresetpage'' (Other ''get_vspresetpage'') AUTH_OPERATOR API_NONE,
           Opt ''setsequencepage'' (Other ''set_vssequencepage'') AUTH_OPERATOR API_NONE,
           Opt ''getsequencepage'' (Other ''get_vssequencepage'') AUTH_OPERATOR API_NONE,
           Opt ''setvspanspeed'' (Cmd set_vspanspeed) AUTH_OPERATOR API_NONE,
           Opt ''setvstiltspeed'' (Cmd set_vstiltspeed) AUTH_OPERATOR API_NONE,
           Opt ''getburnstatus'' (Cmd get_vsburnstatus) AUTH_NONE API_NONE,
           Opt ''viscagetdate'' (Other ''vsburntest_getdate'') AUTH_NONE API_NONE,
           Opt ''viscagettime'' (Other ''vsburntest_gettime'') AUTH_NONE API_NONE,
           Opt ''viscawintimezone'' (Cmd set_vswintimezone) AUTH_NONE API_NONE,
           Opt ''viscanewdate'' (Other ''set_vssystem_date'') AUTH_NONE API_NONE,
           Opt ''viscanewtime'' (Other ''set_vssystem_time'') AUTH_NONE API_NONE,
           Opt ''viscasetallreboot'' (Other ''restart_visca_ipcam'') AUTH_NONE API_NONE,
           Opt ''viscafactorydefault'' (Other ''set_visca_factory_default'') AUTH_NONE API_NONE,
           Opt ''viscagiooutalwayson'' (Other ''set_vs_giooutalwayson'') AUTH_NONE API_NONE,
           Opt ''viscagetdlinkalarmstatus'' (Other ''get_vs_dlink_alarm_status'') AUTH_NONE API_NONE,
           Opt ''viscasetmac'' (Other ''set_vs_mac'') AUTH_NONE API_NONE]
     else []) @
    [Opt ''supportqos'' (Cmd get_support_QoS) AUTH_NONE API_NONE,
     Opt ''supportcos'' (Cmd get_support_CoS) AUTH_NONE API_NONE,
     Opt ''supportbwc'' (Cmd get_support_BWC) AUTH_NONE API_NONE] @
    (if defined k ''SUPPORT_COS_SCHEDULE''
     then [Opt ''cosenable'' (Other ''set_CoS_enable'') AUTH_OPERATOR API_NONE,
           Opt ''cosvlanid'' (Other ''set_VLan_ID'') AUTH_OPERATOR API_NONE,
           Opt ''cospriovideo'' (Other ''set_CoS_prio_video'') AUTH_OPERATOR API_NONE,
           Opt ''cosprioaudio'' (Other ''set_CoS_prio_audio'') AUTH_OPERATOR API_NONE,
           Opt ''cosprioevent'' (Other ''set_CoS_prio_event'') AUTH_OPERATOR API_NONE,
           Opt ''cospriomanage'' (Other ''set_CoS_prio_manage'') AUTH_OPERATOR API_NONE]
     else []) @
    (if defined k ''SUPPORT_QOS_SCHEDULE''
     then [Opt ''qosenable'' (Other ''set_QoS_enable'') AUTH_OPERATOR API_NONE,
           Opt ''qosdscpvideo'' (Other ''set_QoS_DSCP_video'') AUTH_OPERATOR API_NONE,
           Opt ''qosdscpaudio'' (Other ''set_QoS_DSCP_audio'') AUTH_OPERATOR API_NONE,
           Opt ''qosdscpevent'' (Other ''set_QoS_DSCP_event'') AUTH_OPERATOR API_NONE,
           Opt ''qosdscpmanage'' (Other ''set_QoS_DSCP_manage'') AUTH_OPERATOR API_NONE]
     else []) @
    [Opt ''logtvoutdebug'' (Other ''set_log_tvout_debug'') AUTH_OPERATOR API_NONE] @
    (if defined k ''APIDEBUG''
     then [Opt ''getapihistory'' (Other ''getapihistory'') AUTH_VIEWER API_NONE]
     else [])"

definition HttpOptionTable :: "'w camera \<Rightarrow> 'w option_entry list" where
  "HttpOptionTable k = HttpOptionTable_1 k @ HttpOptionTable_2 k @ HttpOptionTable_3 k @ HttpOptionTable_4 k @ HttpOptionTable_5 k @ HttpOptionTable_6 k @ HttpOptionTable_7 k @ HttpOptionTable_8 k"

text \<open>The entries as the hash table has them: a handler is the position of its entry.\<close>

definition http_options :: "(level \<Rightarrow> int) \<Rightarrow> 'w option_entry list \<Rightarrow> http_option list" where
  "http_options lev tab =
    map (\<lambda>(i, e). \<lparr>opt_name = ent_name e, opt_handler = i, opt_authority = lev (ent_level e), opt_flag = ent_flag e\<rparr>) (enumerate 0 tab)"

definition api_run :: "'w camera \<Rightarrow> (cstring \<Rightarrow> nat \<Rightarrow> request \<times> 'w cmd_world \<Rightarrow> request \<times> 'w cmd_world) \<Rightarrow> 'w option_entry list \<Rightarrow> 'w handlers" where
  "api_run k others tab h i st = (case ent_handler (tab ! h) of Cmd cmd \<Rightarrow> run_command k cmd i st | Other f \<Rightarrow> others f i st)"

subsection \<open>Properties of all entries\<close>

definition all_entries :: "'w camera \<Rightarrow> ('w option_entry \<Rightarrow> bool) \<Rightarrow> bool" where
  "all_entries k P \<longleftrightarrow> list_all P (HttpOptionTable k)"

lemma all_entriesI:
  assumes "list_all P (HttpOptionTable_1 k)"
    "list_all P (HttpOptionTable_2 k)"
    "list_all P (HttpOptionTable_3 k)"
    "list_all P (HttpOptionTable_4 k)"
    "list_all P (HttpOptionTable_5 k)"
    "list_all P (HttpOptionTable_6 k)"
    "list_all P (HttpOptionTable_7 k)"
    "list_all P (HttpOptionTable_8 k)"
  shows "all_entries k P"
  using assms by (simp add: all_entries_def HttpOptionTable_def)

text \<open>The commands that are open to users without the rights of an operator and set something, and those that are not translated.\<close>

definition open_setters :: "cstring list" where
  "open_setters = [''mui'', ''audioenable'', ''viscawintimezone'']"

definition open_others :: "cstring list" where
  "open_others = [
    ''videomode'', ''powerline'', ''getmachinecode'', ''getvideomode'', ''machinetype'', ''giooutalwayson'', ''giooutreset'',
    ''login'', ''logout'', ''getauthority'', ''geteptzstatus'', ''getdlinkalarmstatus'', ''getdlinksdstatus'', ''getalarmstatus'',
    ''getsdstatus'', ''getnumprofile'', ''af_test'', ''viscagetdate'', ''viscagettime'', ''viscanewdate'', ''viscanewtime'',
    ''viscasetallreboot'', ''viscafactorydefault'', ''viscagiooutalwayson'', ''viscagetdlinkalarmstatus'', ''viscasetmac'',
    ''getapihistory'']"

text \<open>The commands that do not answer with exactly one line that names them, or print their argument.\<close>

definition odd_commands :: "cstring list" where
  "odd_commands = [
    ''audiotest'', ''chipcheck'', ''supportexposuretimemode'', ''wm8978test'', ''profile3keyframeinterval'', ''sensorcropenable'',
    ''sensorstartx'', ''sensorstarty'', ''af_cnt'']"

definition open_readers :: "'w command list" where
  "open_readers = [
    getflickless, language, get_maxchannel, get_maxfqdnlen, get_maxnamelen, get_maxpwdlen, get_minnamelen, get_supportwireless,
    undefined_cmd, get_supportcfcard, get_audioenable, get_supportonvif, get_supportflickless, get_supportpowerline, get_supportagc,
    get_supportaudio, get_supportavc, get_supportawb, get_supportbacklight, get_supportblcmode, get_supportbrightness,
    get_supportdenoise, get_supportevcomp, get_supportdre, get_supportcapturepriority, get_supportcolorkiller, get_supportcontrast,
    get_supportdncontrol, get_supportds1302, get_supportexposure, get_supportexposuretimemode, get_supportfluorescent, get_supportfs,
    get_supporth3a, get_supporthspeedshutter, get_supporthue, get_supportkelvin, get_supportluminance, get_supportmaskarea,
    get_supportmaxagcgain, get_supportmirror, get_supportflip, get_supportmotion, get_supportmotionmode, get_supportmpeg4,
    get_supportmui, get_supportprotect, get_supportsaturation, get_supportsd, get_supportsenseup, get_supportsharpness,
    get_supportst16550, get_supporttstamp, get_supporttwowayaudio, get_supportusb, get_supportwatchdog, get_servicehello,
    get_servicenetbiosns, get_servicennews, get_servicescanport, get_supportaudioinswitch, get_supportaudioencselect,
    get_supportwdrlevel, get_supportantiflicker, get_serviceupnpdevice, get_servicedhcpclient, get_supportdhcpdipswitch,
    get_servicepppoe, get_serviceddnsclient, get_serviceipfilter, get_servicesntpclient, get_servicesmtpclient, get_serviceftpclient,
    get_serviceftpserver, get_supportrs485, get_supportdcpower, get_supportirled, get_supportstream1, get_supportstream2,
    get_supportstream3, get_supportstream4, af_cnt, get_vsburnstatus, get_support_QoS, get_support_CoS, get_support_BWC]"

lemma open_readers_read: "list_all reads_only open_readers"
  unfolding open_readers_def list.pred_inject reads_only_def always_def command_defs by (intro conjI allI wp TrueI; simp)

text \<open>Every entry with a translated handler outside \<open>odd_commands\<close> answers once; entries that are open to viewers only read.\<close>

lemmas commands_answer =
  net_commands_answer[unfolded net_commands_def list.pred_inject] image_commands_answer[unfolded image_commands_def list.pred_inject]
  stream_commands_answer[unfolded stream_commands_def list.pred_inject] system_commands_answer[unfolded system_commands_def list.pred_inject]

definition entry_answers :: "nat \<Rightarrow> 'w option_entry \<Rightarrow> bool" where
  "entry_answers S e = (case ent_handler e of Cmd cmd \<Rightarrow> answers_once S cmd \<or> ent_name e \<in> set odd_commands | Other f \<Rightarrow> True)"

lemma entries_answer: "all_entries k (entry_answers S)"
  by (rule all_entriesI; simp add: table_defs entry_answers_def odd_commands_def commands_answer)

definition entry_reads :: "'w option_entry \<Rightarrow> bool" where
  "entry_reads e = (case ent_level e of AUTH_ADMIN \<Rightarrow> True | AUTH_OPERATOR \<Rightarrow> True
     | _ \<Rightarrow> (case ent_handler e of Cmd cmd \<Rightarrow> reads_only cmd \<or> ent_name e \<in> set open_setters | Other f \<Rightarrow> ent_name e \<in> set open_others))"

lemma entries_read: "all_entries k entry_reads"
  by (rule all_entriesI; simp add: table_defs entry_reads_def open_setters_def open_others_def
    open_readers_read[unfolded open_readers_def list.pred_inject])

definition MAX_CMD_NAME :: nat where "MAX_CMD_NAME = 27"

lemma entries_name: "all_entries k (\<lambda>e. length (ent_name e) \<le> MAX_CMD_NAME)"
  by (rule all_entriesI; simp add: table_defs MAX_CMD_NAME_def)

end
