(* ===== verification/Boa_Web_Table.thy ===== *)
theory Boa_Web_Table
  imports Boa_Web_Picture Boa_Web_Device Boa_Api_Table
begin

text \<open>
  The table of the page arguments (\<open>HttpArgument\<close> of \<^verbatim>\<open>web_translate.c\<close>) entry by entry, and what follows from it for the values on a page: they fit
  the memory of their callers, and viewers learn nothing of the secrets of the configuration.
\<close>

subsection \<open>The table\<close>

datatype 'w page_printer = Prt "'w printer" | Hidden cstring

datatype 'w arg_entry = Arg (ent_arg: cstring) (ent_printer: "'w page_printer") (ent_right: level)

named_theorems page_table_defs
named_theorems hidden_defs

definition HttpArgument_1 :: "'w camera \<Rightarrow> 'w arg_entry list" where [page_table_defs]:
  "HttpArgument_1 k =
    (if list_ex (defined k) [''SENSOR_USE_TVP5150'', ''IMGS_TS2713'', ''IMGS_ADV7180'', ''SENSOR_USE_TVP5150_MDIN270'']
     then [Arg ''videolossstatus'' (Prt get_video_loss_status) AUTH_VIEWER]
     else []) @
    [Arg ''machinetype'' (Prt para_machinetype) AUTH_VIEWER,
     Arg ''supporttvout'' (Prt para_supporttvout) AUTH_VIEWER,
     Arg ''supportosdswitch'' (Prt para_supportosdswitch) AUTH_VIEWER,
     Arg ''osdshow'' (Prt para_osdshow) AUTH_VIEWER,
     Arg ''supportled'' (Prt para_supportled) AUTH_VIEWER,
     Arg ''date'' (Hidden ''para_date'') AUTH_VIEWER,
     Arg ''time'' (Hidden ''para_time'') AUTH_VIEWER,
     Arg ''weekday'' (Hidden ''para_week'') AUTH_VIEWER,
     Arg ''sntpip'' (Prt para_sntpip) AUTH_OPERATOR,
     Arg ''sntpipname'' (Prt para_sntpipname) AUTH_OPERATOR,
     Arg ''sntptimezone'' (Prt para_sntptimezone) AUTH_OPERATOR,
     Arg ''sntpfrequency'' (Prt para_sntpfrequency) AUTH_OPERATOR,
     Arg ''dhcpenable'' (Prt para_dhcpenable) AUTH_OPERATOR,
     Arg ''dnsip'' (Hidden ''para_dnsip'') AUTH_OPERATOR,
     Arg ''gateway'' (Hidden ''para_gateway'') AUTH_OPERATOR,
     Arg ''httpport'' (Prt para_httpport) AUTH_VIEWER,
     Arg ''defaulthttpport'' (Prt para_defaulthttpport) AUTH_OPERATOR,
     Arg ''netip'' (Hidden ''para_netip'') AUTH_OPERATOR,
     Arg ''netmask'' (Hidden ''para_netmask'') AUTH_OPERATOR,
     Arg ''macaddress'' (Hidden ''para_netmac'') AUTH_OPERATOR,
     Arg ''title'' (Prt para_title) AUTH_VIEWER,
     Arg ''maxtitlelen'' (Prt para_maxtitlelen) AUTH_OPERATOR,
     Arg ''liveresolution'' (Prt para_liveresolution) AUTH_VIEWER,
     Arg ''livequality'' (Prt para_livequality) AUTH_VIEWER,
     Arg ''livequality2'' (Prt para_livequality2) AUTH_VIEWER,
     Arg ''maxfqdnlen'' (Prt para_maxfqdnlen) AUTH_OPERATOR,
     Arg ''httpstreamname1'' (Prt para_http_streamname1) AUTH_VIEWER,
     Arg ''httpstreamname2'' (Prt para_http_streamname2) AUTH_VIEWER,
     Arg ''httpstreamname3'' (Prt para_http_streamname3) AUTH_VIEWER,
     Arg ''httpstreamname4'' (Prt para_http_streamname4) AUTH_VIEWER,
     Arg ''rtspaccessname1'' (Prt para_rtsp_streamname1) AUTH_VIEWER,
     Arg ''rtspaccessname2'' (Prt para_rtsp_streamname2) AUTH_VIEWER,
     Arg ''rtspaccessname3'' (Prt para_rtsp_streamname3) AUTH_VIEWER,
     Arg ''rtspaccessname4'' (Prt para_rtsp_streamname4) AUTH_VIEWER,
     Arg ''minnetport'' (Prt para_minnetport) AUTH_OPERATOR,
     Arg ''maxnetport'' (Prt para_maxnetport) AUTH_OPERATOR,
     Arg ''OEMModel'' (Prt para_OEMModel) AUTH_VIEWER,
     Arg ''OEMMaker'' (Prt para_OEMMaker) AUTH_VIEWER,
     Arg ''maxftpuserlen'' (Prt para_maxftpuserlen) AUTH_OPERATOR,
     Arg ''maxftppwdlen'' (Prt para_maxftppwdlen) AUTH_OPERATOR,
     Arg ''maxftppathlen'' (Prt para_maxftppathlen) AUTH_OPERATOR,
     Arg ''maxsmtpuser'' (Prt para_maxsmtpuser) AUTH_OPERATOR,
     Arg ''maxsmtppwd'' (Prt para_maxsmtppwd) AUTH_OPERATOR,
     Arg ''maxsmtpsender'' (Prt para_maxsmtpsender) AUTH_OPERATOR,
     Arg ''maxemailuserlen'' (Prt para_maxemailuserlen) AUTH_OPERATOR,
     Arg ''supportmpeg4'' (Prt para_supportmpeg4) AUTH_VIEWER,
     Arg ''format'' (Prt para_format) AUTH_VIEWER,
     Arg ''imagesource'' (Prt para_imagesource) AUTH_VIEWER,
     Arg ''devicename'' (Prt para_devicename) AUTH_VIEWER,
     Arg ''cfinsert'' (Prt para_cfinsert) AUTH_VIEWER,
     Arg ''defaultcardgethtm'' (Prt para_defaultcardgethtm) AUTH_VIEWER,
     Arg ''brandurl'' (Prt para_brandurl) AUTH_VIEWER,
     Arg ''brandname'' (Prt para_brandname) AUTH_VIEWER,
     Arg ''brandpath'' (Prt para_brandpath) AUTH_VIEWER,
     Arg ''supporttstamp'' (Prt para_supporttstamp) AUTH_VIEWER,
     Arg ''supporttstampcolor'' (Prt para_supporttstampcolor) AUTH_VIEWER,
     Arg ''jpegxsize'' (Prt para_profile1xsize) AUTH_VIEWER,
     Arg ''jpegysize'' (Prt para_profile1ysize) AUTH_VIEWER,
     Arg ''socketauthority'' (Prt para_socketauthority) AUTH_VIEWER,
     Arg ''authoritychange'' (Prt para_authoritychange) AUTH_VIEWER,
     Arg ''supportmotion'' (Prt para_supportmotion) AUTH_VIEWER,
     Arg ''supportmotionmode'' (Prt para_supportmotionmode) AUTH_VIEWER,
     Arg ''supportwireless'' (Prt para_supportwireless) AUTH_VIEWER,
     Arg ''serviceftpclient'' (Prt para_serviceftpclient) AUTH_VIEWER,
     Arg ''servicesmtpclient'' (Prt para_servicesmtpclient) AUTH_VIEWER,
     Arg ''servicepppoe'' (Prt para_servicepppoe) AUTH_VIEWER,
     Arg ''servicesntpclient'' (Prt para_servicesntpclient) AUTH_VIEWER,
     Arg ''serviceddnsclient'' (Prt para_serviceddnsclient) AUTH_VIEWER,
     Arg ''supportmaskarea'' (Prt para_supportmaskarea) AUTH_VIEWER,
     Arg ''supportlinein'' (Prt para_supportlinein) AUTH_VIEWER,
     Arg ''supportmic'' (Prt para_supportmic) AUTH_VIEWER,
     Arg ''servicevirtualclient'' (Prt para_servicevirtualclient) AUTH_VIEWER,
     Arg ''privacymaskenable'' (Prt para_privacymaskenable) AUTH_VIEWER,
     Arg ''maxmaskarea'' (Prt para_maxmaskarea) AUTH_VIEWER,
     Arg ''maskareaxlimit'' (Prt para_maskareaxlimit) AUTH_VIEWER,
     Arg ''maskareaylimit'' (Prt para_maskareaylimit) AUTH_VIEWER,
     Arg ''maskarea'' (Prt para_maskarea) AUTH_VIEWER,
     Arg ''machinecode'' (Hidden ''para_machinecode'') AUTH_VIEWER,
     Arg ''maxchannel'' (Prt para_maxchannel) AUTH_VIEWER,
     Arg ''supportrs232'' (Prt para_supportrs232) AUTH_VIEWER,
     Arg ''layoutnum'' (Prt para_layoutnum) AUTH_VIEWER,
     Arg ''supportmui'' (Hidden ''para_supportmui'') AUTH_VIEWER,
     Arg ''mui'' (Prt para_mui) AUTH_VIEWER,
     Arg ''supporttstampmui'' (Prt para_support_tstamp_mui) AUTH_VIEWER,
     Arg ''supportsequence'' (Prt para_supportsequence) AUTH_VIEWER,
     Arg ''quadmodeselect'' (Prt para_quadmodeselect) AUTH_VIEWER,
     Arg ''serviceipfilter'' (Prt para_serviceipfilter) AUTH_VIEWER,
     Arg ''oemflag0'' (Prt para_oemflag0) AUTH_VIEWER,
     Arg ''supportdncontrol'' (Prt para_supportdncontrol) AUTH_VIEWER,
     Arg ''supportavc'' (Prt para_supportavc) AUTH_VIEWER,
     Arg ''supportaudio'' (Prt para_supportaudio) AUTH_OPERATOR,
     Arg ''supportptzpage'' (Prt para_supportptzpage) AUTH_VIEWER,
     Arg ''ptziconvisible'' (Prt para_ptziconvisible) AUTH_VIEWER,
     Arg ''supporteptz'' (Prt para_supporteptz) AUTH_OPERATOR,
     Arg ''supportdhcpdipswitch'' (Prt para_supportdhcpdipswitch) AUTH_VIEWER,
     Arg ''dhcpdipswitch'' (Prt para_dhcpdipswitch) AUTH_OPERATOR,
     Arg ''dhcpconfig'' (Prt para_dhcpconfig) AUTH_OPERATOR,
     Arg ''timeformat'' (Prt para_timeformat) AUTH_VIEWER,
     Arg ''maxprealarmjpeg'' (Prt para_maxprealarmjpeg) AUTH_OPERATOR,
     Arg ''maxpostalarmjpeg'' (Prt para_maxpostalarmjpeg) AUTH_OPERATOR]"

definition HttpArgument_2 :: "'w camera \<Rightarrow> 'w arg_entry list" where [page_table_defs]:
  "HttpArgument_2 k =
    [Arg ''resolutionname'' (Prt para_resolutionname) AUTH_OPERATOR,
     Arg ''mpeg4quality1name'' (Prt para_mpeg4quality1name) AUTH_OPERATOR,
     Arg ''mpeg4quality2name'' (Prt para_mpeg4quality2name) AUTH_OPERATOR,
     Arg ''qualityname'' (Prt para_qualityname) AUTH_VIEWER,
     Arg ''qualityname2'' (Prt para_qualityname2) AUTH_VIEWER,
     Arg ''videocodecresname'' (Prt para_videocodecresname) AUTH_OPERATOR,
     Arg ''videocodecres'' (Prt para_videocodecres) AUTH_OPERATOR,
     Arg ''videocodecmodename'' (Prt para_videocodecmodename) AUTH_OPERATOR,
     Arg ''videocodecmode'' (Prt para_videocodecmode) AUTH_OPERATOR,
     Arg ''videoalc'' (Prt para_videoalce) AUTH_OPERATOR,
     Arg ''waitserver'' (Prt para_waitserver) AUTH_OPERATOR,
     Arg ''supportcolorkiller'' (Prt para_supportcolorkiller) AUTH_VIEWER,
     Arg ''supportAWB'' (Prt para_supportAWB) AUTH_VIEWER,
     Arg ''supportbrightness'' (Prt para_supportbrightness) AUTH_VIEWER,
     Arg ''supportdenoise'' (Prt para_supportdenoise) AUTH_VIEWER,
     Arg ''supportevcomp'' (Prt para_supportevcomp) AUTH_VIEWER,
     Arg ''supportdre'' (Prt para_supportdre) AUTH_VIEWER,
     Arg ''supportmeteringmethod'' (Prt para_supportmeteringmethod) AUTH_VIEWER,
     Arg ''supportcapturepriority'' (Prt para_supportcapturepriority) AUTH_VIEWER,
     Arg ''supportcontrast'' (Prt para_supportcontrast) AUTH_VIEWER,
     Arg ''supportsaturation'' (Prt para_supportsaturation) AUTH_VIEWER,
     Arg ''supportbacklight'' (Prt para_supportbacklight) AUTH_VIEWER,
     Arg ''supportsharpness'' (Prt para_supportsharpness) AUTH_VIEWER,
     Arg ''supportaudioinswitch'' (Prt para_supportaudioinswitch) AUTH_VIEWER,
     Arg ''supportaudioencselect'' (Prt para_supportaudioencselect) AUTH_VIEWER,
     Arg ''audioinsource'' (Prt para_audioinsource) AUTH_VIEWER,
     Arg ''audiotype'' (Prt para_audiotype) AUTH_VIEWER,
     Arg ''audiotypename'' (Hidden ''para_audiotypename'') AUTH_VIEWER,
     Arg ''supporttwowayaudio'' (Prt para_supporttwowayaudio) AUTH_OPERATOR,
     Arg ''speaktoken'' (Prt para_speaktoken) AUTH_VIEWER,
     Arg ''supportrs485'' (Prt para_supportrs485) AUTH_VIEWER,
     Arg ''uartspeedname'' (Hidden ''para_uartspeedname'') AUTH_OPERATOR,
     Arg ''rs485enable'' (Prt para_485enable) AUTH_OPERATOR,
     Arg ''rs485protocol'' (Prt para_485protocol) AUTH_OPERATOR,
     Arg ''rs485protocolname'' (Prt para_485protocolname) AUTH_OPERATOR,
     Arg ''rs485data'' (Prt para_485data) AUTH_OPERATOR,
     Arg ''rs485stop'' (Prt para_485stop) AUTH_OPERATOR,
     Arg ''rs485parity'' (Prt para_485parity) AUTH_OPERATOR,
     Arg ''485type'' (Hidden ''para_485type'') AUTH_OPERATOR,
     Arg ''uarttypename'' (Prt para_uarttypename) AUTH_OPERATOR,
     Arg ''485ID'' (Prt para_485id) AUTH_OPERATOR,
     Arg ''485speed'' (Prt para_485speed) AUTH_OPERATOR] @
    (if defined k ''SUPPORT_RS485'' \<and> defined k ''CONFIG_BRAND_DLINK''
     then [Arg ''ptzpresetname'' (Hidden ''para_ptzpresetname'') AUTH_OPERATOR,
           Arg ''ptzpresetindex'' (Hidden ''para_ptzpresetindex'') AUTH_OPERATOR,
           Arg ''maxptzpresetnum'' (Prt para_maxptzpresetnum) AUTH_OPERATOR,
           Arg ''ptzpresetnamelen'' (Prt para_ptzpresetnamelen) AUTH_OPERATOR]
     else []) @
    [Arg ''pppoeenable'' (Prt para_pppoeenable) AUTH_OPERATOR,
     Arg ''pppoemodename'' (Prt para_pppoemodename) AUTH_OPERATOR,
     Arg ''pppoeactive'' (Prt para_pppoeactive) AUTH_OPERATOR,
     Arg ''pppoeaccount'' (Prt para_pppoeaccount) AUTH_OPERATOR,
     Arg ''pppoepwd'' (Prt para_pppoepwd) AUTH_OPERATOR,
     Arg ''maxpppoeusrlen'' (Prt para_maxpppoeusrlen) AUTH_OPERATOR,
     Arg ''maxpppoepwdlen'' (Prt para_maxpppoepwdlen) AUTH_OPERATOR,
     Arg ''ddnsenable'' (Prt para_ddnsenable) AUTH_OPERATOR,
     Arg ''ddnstype'' (Hidden ''para_ddnstype'') AUTH_OPERATOR,
     Arg ''ddnshostname'' (Prt para_ddnshostname) AUTH_OPERATOR,
     Arg ''ddnsaccount'' (Prt para_ddnsaccount) AUTH_OPERATOR,
     Arg ''ddnspassword'' (Prt para_ddnspassword) AUTH_OPERATOR,
     Arg ''ddnstypename'' (Prt para_ddnstypename) AUTH_OPERATOR,
     Arg ''ddnsinterval'' (Prt para_ddnsinterval) AUTH_OPERATOR,
     Arg ''maxddnsusrlen'' (Prt para_maxddnsusrlen) AUTH_OPERATOR,
     Arg ''maxddnspwdlen'' (Prt para_maxddnspwdlen) AUTH_OPERATOR,
     Arg ''daylight'' (Prt para_enabledst) AUTH_VIEWER,
     Arg ''daylightmode'' (Prt para_dstmode) AUTH_VIEWER,
     Arg ''daylightshift'' (Prt para_dstshift) AUTH_VIEWER,
     Arg ''daylightshiftname'' (Prt para_dstshiftname) AUTH_VIEWER,
     Arg ''daylightstart'' (Prt para_dststart) AUTH_VIEWER,
     Arg ''daylightend'' (Prt para_dstend) AUTH_VIEWER,
     Arg ''testtimeout'' (Prt para_testtimeout) AUTH_OPERATOR,
     Arg ''replytestserver'' (Prt para_replytest) AUTH_OPERATOR,
     Arg ''recresolutionname'' (Hidden ''para_recresolutionname'') AUTH_OPERATOR,
     Arg ''secondarydnsip'' (Hidden ''para_seconddnsip'') AUTH_OPERATOR,
     Arg ''rtspport'' (Hidden ''para_rtspport'') AUTH_VIEWER,
     Arg ''defaultrtspport'' (Hidden ''para_defaultrtspport'') AUTH_OPERATOR,
     Arg ''setupnpcexport'' (Hidden ''para_setupnpcexport'') AUTH_OPERATOR,
     Arg ''upnpforwardingactive'' (Hidden ''papa_upnpforwardingactive'') AUTH_OPERATOR,
     Arg ''allframeratename'' (Hidden ''para_allframeratename'') AUTH_OPERATOR,
     Arg ''supportmultiprofile'' (Hidden ''para_supportprofile'') AUTH_OPERATOR]"

definition HttpArgument_3 :: "'w camera \<Rightarrow> 'w arg_entry list" where [page_table_defs]:
  "HttpArgument_3 k =
    [Arg ''profile1format'' (Hidden ''para_prf1format'') AUTH_OPERATOR,
     Arg ''profile1formatname'' (Hidden ''para_prf1formatname'') AUTH_OPERATOR,
     Arg ''profile1resolution'' (Hidden ''para_prf1res'') AUTH_VIEWER,
     Arg ''profile1resolutionname'' (Hidden ''para_prf1resname'') AUTH_OPERATOR,
     Arg ''profile1rate'' (Hidden ''para_prf1rate'') AUTH_VIEWER,
     Arg ''profile1ratename'' (Hidden ''para_prf1ratename'') AUTH_OPERATOR,
     Arg ''profile1bps'' (Hidden ''para_prf1bps'') AUTH_OPERATOR,
     Arg ''profile1bpsname'' (Hidden ''para_prf1bpsname'') AUTH_OPERATOR,
     Arg ''profile1quality'' (Hidden ''para_prf1quality'') AUTH_OPERATOR,
     Arg ''profile1qualityjpeg'' (Hidden ''para_profile1qualityjpeg'') AUTH_OPERATOR,
     Arg ''profile1qualitympeg4'' (Hidden ''para_profile1qualitympeg4'') AUTH_OPERATOR,
     Arg ''profile1qmode'' (Hidden ''para_prf1qmode'') AUTH_OPERATOR,
     Arg ''profile1keyframeinterval'' (Hidden ''para_profile1keyframeinterval'') AUTH_OPERATOR,
     Arg ''profile1keyframeintervalname'' (Hidden ''para_profile1keyframeintervalname'') AUTH_OPERATOR,
     Arg ''profile1viewres'' (Hidden ''para_prf1view'') AUTH_OPERATOR,
     Arg ''profile2format'' (Hidden ''para_prf2format'') AUTH_OPERATOR,
     Arg ''profile2formatname'' (Hidden ''para_prf2formatname'') AUTH_OPERATOR,
     Arg ''profile2resolution'' (Hidden ''para_prf2res'') AUTH_VIEWER,
     Arg ''profile2resolutionname'' (Hidden ''para_prf1resname'') AUTH_OPERATOR,
     Arg ''profile2rate'' (Hidden ''para_prf2rate'') AUTH_VIEWER,
     Arg ''profile2ratename'' (Hidden ''para_prf1ratename'') AUTH_OPERATOR,
     Arg ''profile2bps'' (Hidden ''para_prf2bps'') AUTH_OPERATOR,
     Arg ''profile2bpsname'' (Hidden ''para_prf2bpsname'') AUTH_OPERATOR,
     Arg ''profile2quality'' (Hidden ''para_prf2quality'') AUTH_OPERATOR,
     Arg ''profile2qualityjpeg'' (Hidden ''para_profile2qualityjpeg'') AUTH_OPERATOR,
     Arg ''profile2qualitympeg4'' (Hidden ''para_profile2qualitympeg4'') AUTH_OPERATOR,
     Arg ''profile2qmode'' (Hidden ''para_prf2qmode'') AUTH_OPERATOR,
     Arg ''profile2keyframeinterval'' (Hidden ''para_profile2keyframeinterval'') AUTH_OPERATOR,
     Arg ''profile2keyframeintervalname'' (Hidden ''para_profile1keyframeintervalname'') AUTH_OPERATOR,
     Arg ''profile2viewres'' (Hidden ''para_prf2view'') AUTH_OPERATOR,
     Arg ''profile3format'' (Hidden ''para_prf3format'') AUTH_OPERATOR,
     Arg ''profile3formatname'' (Hidden ''para_prf3formatname'') AUTH_OPERATOR,
     Arg ''profile3resolution'' (Hidden ''para_prf3res'') AUTH_VIEWER,
     Arg ''profile3resolutionname'' (Hidden ''para_prf1resname'') AUTH_OPERATOR,
     Arg ''profile3rate'' (Hidden ''para_prf3rate'') AUTH_VIEWER,
     Arg ''profile3ratename'' (Hidden ''para_prf1ratename'') AUTH_OPERATOR,
     Arg ''profile3bps'' (Hidden ''para_prf3bps'') AUTH_OPERATOR,
     Arg ''profile3bpsname'' (Hidden ''para_prf3bpsname'') AUTH_OPERATOR,
     Arg ''profile3quality'' (Hidden ''para_prf3quality'') AUTH_OPERATOR,
     Arg ''profile3qualityjpeg'' (Hidden ''para_profile3qualityjpeg'') AUTH_OPERATOR,
     Arg ''profile3qualitympeg4'' (Hidden ''para_profile3qualitympeg4'') AUTH_OPERATOR,
     Arg ''profile3qmode'' (Hidden ''para_prf3qmode'') AUTH_OPERATOR,
     Arg ''profile3keyframeinterval'' (Hidden ''para_profile3keyframeinterval'') AUTH_OPERATOR,
     Arg ''profile3keyframeintervalname'' (Hidden ''para_profile1keyframeintervalname'') AUTH_OPERATOR,
     Arg ''profile3viewres'' (Hidden ''para_prf3view'') AUTH_OPERATOR,
     Arg ''profile4format'' (Hidden ''para_prf4format'') AUTH_OPERATOR] @
    (if defined k ''PLAT_DM365''
     then [Arg ''profile4formatname'' (Hidden ''para_prf1formatname'') AUTH_OPERATOR,
           Arg ''profile4resolutionname'' (Hidden ''para_prf1resname'') AUTH_OPERATOR,
           Arg ''profile4ratename'' (Hidden ''para_prf1ratename'') AUTH_OPERATOR,
           Arg ''profile4keyframeinterval'' (Hidden ''para_profile4keyframeinterval'') AUTH_OPERATOR,
           Arg ''profile4keyframeintervalname'' (Hidden ''para_profile1keyframeintervalname'') AUTH_OPERATOR]
     else (if defined k ''PLAT_DM355''
     then [Arg ''profile4formatname'' (Hidden ''para_prf4formatname'') AUTH_OPERATOR,
           Arg ''profile4resolutionname'' (Hidden ''para_prf4resname'') AUTH_OPERATOR,
           Arg ''profile4ratename'' (Hidden ''para_prf4ratename'') AUTH_OPERATOR]
     else [])) @
    [Arg ''profile4resolution'' (Hidden ''para_prf4res'') AUTH_VIEWER,
     Arg ''profile4rate'' (Hidden ''para_prf4rate'') AUTH_VIEWER,
     Arg ''profile4bps'' (Hidden ''para_prf4bps'') AUTH_OPERATOR,
     Arg ''profile4bpsname'' (Hidden ''para_prf4bpsname'') AUTH_OPERATOR,
     Arg ''profile4quality'' (Hidden ''para_prf4quality'') AUTH_OPERATOR,
     Arg ''profile4qualityjpeg'' (Hidden ''para_profile4qualityjpeg'') AUTH_OPERATOR,
     Arg ''profile4qualitympeg4'' (Hidden ''para_profile4qualitympeg4'') AUTH_OPERATOR,
     Arg ''profile4qualityavc'' (Hidden ''profile4qualityavc'') AUTH_OPERATOR,
     Arg ''profile4qmode'' (Hidden ''para_prf4qmode'') AUTH_OPERATOR,
     Arg ''supportprofilenumber'' (Hidden ''para_supportprofilenumber'') AUTH_OPERATOR,
     Arg ''supportaspectratio'' (Hidden ''para_supportaspectratio'') AUTH_OPERATOR,
     Arg ''profilenumber'' (Hidden ''para_profilenumber'') AUTH_OPERATOR,
     Arg ''profilenumbername'' (Hidden ''para_profilenumbername'') AUTH_OPERATOR,
     Arg ''aspectratio'' (Hidden ''para_aspectratio'') AUTH_OPERATOR,
     Arg ''aspectrationame'' (Hidden ''para_aspectrationame'') AUTH_OPERATOR,
     Arg ''sensorcropresolution'' (Prt para_sensorcropresolution) AUTH_OPERATOR,
     Arg ''sensorcropresolutionname'' (Hidden ''para_sensorcropresolutionname'') AUTH_OPERATOR,
     Arg ''sensorstartx'' (Prt para_sensorstartx) AUTH_OPERATOR,
     Arg ''sensorstarty'' (Prt para_sensorstarty) AUTH_OPERATOR,
     Arg ''minoutvolume'' (Prt para_minoutvolume) AUTH_OPERATOR,
     Arg ''audioinvolumename'' (Hidden ''para_audioinname'') AUTH_OPERATOR,
     Arg ''audiooutname'' (Hidden ''para_audiooutname'') AUTH_OPERATOR,
     Arg ''wintimezone'' (Hidden ''para_wintimezone'') AUTH_OPERATOR,
     Arg ''lineingain'' (Prt para_lineingain) AUTH_OPERATOR,
     Arg ''lineingainname'' (Hidden ''para_lineingainname'') AUTH_OPERATOR,
     Arg ''externalmicgain'' (Prt para_externalmicgain) AUTH_OPERATOR,
     Arg ''externalmicgainname'' (Hidden ''para_externalmicgainname'') AUTH_OPERATOR,
     Arg ''micgainname'' (Hidden ''para_externalmicgainname'') AUTH_OPERATOR] @
    (if defined k ''PLAT_DM355''
     then [Arg ''micgain'' (Hidden ''para_micgain'') AUTH_OPERATOR]
     else (if defined k ''PLAT_DM365''
     then [Arg ''micgain'' (Prt para_externalmicgain) AUTH_OPERATOR]
     else [])) @
    [Arg ''wizardinit'' (Prt para_wizardinit) AUTH_OPERATOR,
     Arg ''audioamplifyratio'' (Hidden ''para_audioamplifyratio'') AUTH_OPERATOR,
     Arg ''audiooutenable'' (Prt para_audiooutenable) AUTH_OPERATOR,
     Arg ''audiooutvolume'' (Prt para_audiooutvolume) AUTH_OPERATOR,
     Arg ''audiooutvolumename'' (Prt para_audiooutvolumename) AUTH_OPERATOR,
     Arg ''ledmode'' (Hidden ''para_ledstatus'') AUTH_OPERATOR,
     Arg ''guest'' (Hidden ''para_guest'') AUTH_OPERATOR,
     Arg ''motionwziardconfig'' (Hidden ''para_mtwzconfig'') AUTH_OPERATOR,
     Arg ''audioinvolume'' (Prt para_audioinvolume) AUTH_OPERATOR,
     Arg ''audioinenable'' (Prt para_audioinenable) AUTH_OPERATOR,
     Arg ''dcpowermode'' (Prt para_powerout) AUTH_OPERATOR,
     Arg ''supportdcpower'' (Prt para_supportdcpower) AUTH_OPERATOR,
     Arg ''dcpowerschedule'' (Prt para_powerschedule) AUTH_OPERATOR,
     Arg ''irledmode'' (Prt para_powerout) AUTH_OPERATOR,
     Arg ''supportirled'' (Prt para_supportirled) AUTH_OPERATOR,
     Arg ''irledschedule'' (Prt para_powerschedule) AUTH_OPERATOR]"

definition HttpArgument_4 :: "'w camera \<Rightarrow> 'w arg_entry list" where [page_table_defs]:
  "HttpArgument_4 k =
    (if (case macro k ''SUPPORT_DNC_EX'' of Some n \<Rightarrow> n \<noteq> 0 | None \<Rightarrow> False)
     then [Arg ''dncontrolscheduleEx'' (Prt para_dncontrolscheduleex) AUTH_OPERATOR]
     else [Arg ''dncontrolschedule'' (Hidden ''para_dncontrolschedule'') AUTH_OPERATOR]) @
    [Arg ''dncontrolsen'' (Prt para_dncontrolsen) AUTH_OPERATOR,
     Arg ''dncontrold2n'' (Prt para_dncontrold2n) AUTH_OPERATOR,
     Arg ''dncontroln2d'' (Prt para_dncontroln2d) AUTH_OPERATOR,
     Arg ''dncontrold2nmin'' (Prt para_dncontrold2nmin) AUTH_OPERATOR,
     Arg ''dncontrold2nmax'' (Prt para_dncontrold2nmax) AUTH_OPERATOR,
     Arg ''dncontroln2dmin'' (Prt para_dncontroln2dmin) AUTH_OPERATOR,
     Arg ''dncontroln2dmax'' (Prt para_dncontroln2dmax) AUTH_OPERATOR,
     Arg ''dncontrolsenname'' (Prt para_dncontrolsenname) AUTH_OPERATOR,
     Arg ''dncontrolmodename'' (Prt para_dncontrolmodename) AUTH_OPERATOR,
     Arg ''dncontrolmode'' (Prt para_dncontrolmode) AUTH_OPERATOR,
     Arg ''ipfilterenable'' (Prt para_ipfilterenable) AUTH_OPERATOR,
     Arg ''ipfilterdefaultpolicy'' (Prt para_ipfilterdefaultpolicy) AUTH_OPERATOR,
     Arg ''maxipfilterpolicy'' (Prt para_maxipfilterpolicy) AUTH_OPERATOR,
     Arg ''ipfilterpolicy'' (Prt para_ipfilterpolicy) AUTH_OPERATOR,
     Arg ''ipfilterallow'' (Hidden ''para_ipfilterallow'') AUTH_OPERATOR,
     Arg ''ipfilterdeny'' (Hidden ''para_ipfilterdeny'') AUTH_OPERATOR,
     Arg ''maxquotainbound'' (Prt para_maxquotainbound) AUTH_OPERATOR,
     Arg ''maxquotaoutbound'' (Prt para_maxquotaoutbound) AUTH_OPERATOR,
     Arg ''quotainbound'' (Prt para_quotainbound) AUTH_OPERATOR,
     Arg ''quotaoutbound'' (Prt para_quotaoutbound) AUTH_OPERATOR] @
    (if defined k ''SENSOR_USE_IMX035''
     then [Arg ''virtaulen'' (Prt para_virtaulenable) AUTH_OPERATOR,
           Arg ''virtaulprotocol'' (Prt para_virtaulprotocol) AUTH_OPERATOR,
           Arg ''virtauldata'' (Hidden ''para_virtauldata'') AUTH_OPERATOR,
           Arg ''aeshutter'' (Prt para_aeshutter) AUTH_OPERATOR]
     else []) @
    [Arg ''aes'' (Hidden ''para_aes'') AUTH_OPERATOR,
     Arg ''supportgamma'' (Prt para_supportgamma) AUTH_OPERATOR,
     Arg ''supportflip'' (Prt para_supportflip) AUTH_OPERATOR] @
    (if defined k ''SENSOR_USE_IMX035''
     then [Arg ''gammaname'' (Prt para_gammaname) AUTH_OPERATOR,
           Arg ''gamma'' (Prt para_gamma) AUTH_OPERATOR,
           Arg ''flipname'' (Prt para_flipmirrorname) AUTH_OPERATOR]
     else []) @
    [Arg ''flip'' (Prt para_flip) AUTH_OPERATOR,
     Arg ''antiflicker'' (Prt para_antiflicker) AUTH_OPERATOR,
     Arg ''quadmodeselectname'' (Prt para_quadmodeselectname) AUTH_OPERATOR,
     Arg ''videocodecname'' (Prt para_videocodecname) AUTH_OPERATOR,
     Arg ''videocodec'' (Prt para_videocodec) AUTH_OPERATOR,
     Arg ''videomodename'' (Prt para_videomodename) AUTH_VIEWER,
     Arg ''videomode'' (Prt para_videomode) AUTH_VIEWER,
     Arg ''flickless'' (Prt para_flickless) AUTH_VIEWER,
     Arg ''powerline'' (Prt para_powerline) AUTH_VIEWER,
     Arg ''supportflickless'' (Prt para_supportflickless) AUTH_VIEWER,
     Arg ''supportpowerline'' (Prt para_supportpowerline) AUTH_VIEWER,
     Arg ''supportagc'' (Prt para_supportagc) AUTH_VIEWER,
     Arg ''supportagcctrl'' (Prt para_supportagcctrl) AUTH_VIEWER,
     Arg ''supportvideoalc'' (Prt para_supportvideoalc) AUTH_VIEWER,
     Arg ''supportaes'' (Prt para_supportaes) AUTH_VIEWER,
     Arg ''agc'' (Hidden ''para_agc'') AUTH_OPERATOR,
     Arg ''agcname'' (Hidden ''para_agcname'') AUTH_OPERATOR,
     Arg ''colorkiller'' (Prt para_daynight) AUTH_OPERATOR,
     Arg ''fluorescent'' (Prt para_fluorescent) AUTH_VIEWER,
     Arg ''fluorescentname'' (Prt para_fluorescentname) AUTH_VIEWER,
     Arg ''mirror'' (Prt para_mirror) AUTH_OPERATOR,
     Arg ''upnpenable'' (Prt para_upnpenable) AUTH_OPERATOR,
     Arg ''supportonvif'' (Prt para_supportonvif) AUTH_VIEWER,
     Arg ''upnpcenable'' (Prt para_upnpcenabl) AUTH_OPERATOR,
     Arg ''upnpforwardingport'' (Prt para_upnpforwardingport) AUTH_OPERATOR,
     Arg ''blc'' (Prt para_blc) AUTH_VIEWER,
     Arg ''kelvin'' (Prt para_kelvin) AUTH_VIEWER,
     Arg ''supporthue'' (Prt para_supporthue) AUTH_VIEWER,
     Arg ''supportfluorescent'' (Prt para_supportfluorescent) AUTH_VIEWER,
     Arg ''supportmirror'' (Prt para_supportmirror) AUTH_VIEWER,
     Arg ''supportkelvin'' (Prt para_supportkelvin) AUTH_VIEWER,
     Arg ''senseup'' (Prt para_senseup) AUTH_VIEWER,
     Arg ''supportsenseup'' (Prt para_supportsenseup) AUTH_VIEWER,
     Arg ''supportmaxagcgain'' (Prt para_supportmaxagcgain) AUTH_VIEWER,
     Arg ''supportblcmode'' (Prt para_supportblcmode) AUTH_VIEWER,
     Arg ''supportbonjour'' (Prt para_support_bonjour) AUTH_VIEWER,
     Arg ''supportaf'' (Prt para_supportaf) AUTH_VIEWER,
     Arg ''supportantiflicker'' (Prt para_supportantiflicker) AUTH_VIEWER,
     Arg ''blcmode'' (Prt para_blcmode) AUTH_VIEWER,
     Arg ''supporthspeedshutter'' (Prt para_supporthspeedshutter) AUTH_VIEWER,
     Arg ''hspeedshutter'' (Prt para_hspeedshutter) AUTH_VIEWER] @
    (if list_ex (defined k) [''SENSOR_USE_MT9V136'', ''SENSOR_USE_OV2715'']
     then [Arg ''awbname'' (Hidden ''para_awbname'') AUTH_VIEWER]
     else []) @
    [Arg ''awb'' (Prt para_awb) AUTH_OPERATOR,
     Arg ''awbname'' (Hidden ''para_awbname'') AUTH_VIEWER] @
    (if list_ex (defined k) [''SENSOR_USE_TC922'', ''SENSOR_USE_IMX035'', ''SENSOR_USE_OV2715'']
     then [Arg ''rgain'' (Prt para_rgain) AUTH_VIEWER,
           Arg ''bgain'' (Prt para_bgain) AUTH_VIEWER]
     else []) @
    [Arg ''binningname'' (Hidden ''para_binningname'') AUTH_VIEWER,
     Arg ''binning'' (Prt para_binning) AUTH_VIEWER,
     Arg ''maxagcgainname'' (Prt para_maxagcgainname) AUTH_VIEWER,
     Arg ''maxagcgain'' (Prt para_maxagcgain) AUTH_VIEWER,
     Arg ''agcctrl'' (Prt para_agcctrl) AUTH_VIEWER,
     Arg ''daynightname'' (Prt para_daynightname) AUTH_VIEWER,
     Arg ''tvcable'' (Prt para_tvcable) AUTH_VIEWER,
     Arg ''blcmodename'' (Hidden ''para_blcmodename'') AUTH_VIEWER,
     Arg ''backlight'' (Prt para_backlight) AUTH_VIEWER,
     Arg ''brightness'' (Prt para_brightness) AUTH_VIEWER,
     Arg ''contrast'' (Prt para_contrast) AUTH_VIEWER,
     Arg ''hue'' (Prt para_hue) AUTH_VIEWER,
     Arg ''saturation'' (Prt para_saturation) AUTH_VIEWER,
     Arg ''sharpness'' (Prt para_sharpness) AUTH_OPERATOR,
     Arg ''timezonename'' (Hidden ''para_timezonename'') AUTH_OPERATOR,
     Arg ''timeformatname'' (Prt para_timeformatname) AUTH_OPERATOR,
     Arg ''minbrightness'' (Prt para_minbrightness) AUTH_OPERATOR,
     Arg ''maxbrightness'' (Prt para_maxbrightness) AUTH_OPERATOR,
     Arg ''minsharpness'' (Prt para_minsharpness) AUTH_OPERATOR,
     Arg ''maxsharpness'' (Prt para_maxsharpness) AUTH_OPERATOR,
     Arg ''exposuretimename'' (Hidden ''para_exposuretimename'') AUTH_OPERATOR,
     Arg ''maxshuttername'' (Hidden ''para_maxshuttername'') AUTH_OPERATOR,
     Arg ''minshuttername'' (Hidden ''para_minshuttername'') AUTH_OPERATOR,
     Arg ''exposureschedulemodename'' (Hidden ''para_exposureschedulemodename'') AUTH_OPERATOR,
     Arg ''supportexposuretime'' (Prt para_supportexposuretime) AUTH_OPERATOR,
     Arg ''supportexposuretimemode'' (Prt para_supportexposuretimemode) AUTH_OPERATOR,
     Arg ''exposuretime'' (Prt para_exposuretime) AUTH_OPERATOR,
     Arg ''exposureschedule'' (Hidden ''para_exposureschedule'') AUTH_OPERATOR,
     Arg ''maxshutter'' (Hidden ''para_maxshutter'') AUTH_OPERATOR,
     Arg ''minshutter'' (Hidden ''para_minshutter'') AUTH_OPERATOR,
     Arg ''meteringmethod'' (Prt para_meteringmethod) AUTH_OPERATOR,
     Arg ''meteringmethodname'' (Prt para_meteringmethodname) AUTH_OPERATOR,
     Arg ''conflicexposure'' (Prt para_conflicexposure) AUTH_OPERATOR,
     Arg ''wdrenable'' (Prt para_wdrenable) AUTH_OPERATOR]"

definition HttpArgument_5 :: "'w camera \<Rightarrow> 'w arg_entry list" where [page_table_defs]:
  "HttpArgument_5 k =
    [Arg ''wdrlevel'' (Prt para_wdrlevel) AUTH_OPERATOR,
     Arg ''minwdrlevel'' (Prt para_minwdrlevel) AUTH_OPERATOR,
     Arg ''maxwdrlevel'' (Prt para_maxwdrlevel) AUTH_OPERATOR,
     Arg ''supportwdrlevel'' (Prt para_supportwdrlevel) AUTH_OPERATOR,
     Arg ''denoise'' (Prt para_denoise) AUTH_OPERATOR,
     Arg ''mindenoise'' (Prt para_mindenoise) AUTH_OPERATOR,
     Arg ''maxdenoise'' (Prt para_maxdenoise) AUTH_OPERATOR,
     Arg ''evcomp'' (Prt para_evcomp) AUTH_OPERATOR,
     Arg ''minevcomp'' (Prt para_minevcomp) AUTH_OPERATOR,
     Arg ''maxevcomp'' (Prt para_maxevcomp) AUTH_OPERATOR,
     Arg ''dremode'' (Prt para_dremode) AUTH_OPERATOR,
     Arg ''dremodename'' (Prt para_dremodename) AUTH_OPERATOR,
     Arg ''mincontrast'' (Prt para_mincontrast) AUTH_VIEWER,
     Arg ''maxcontrast'' (Prt para_maxcontrast) AUTH_VIEWER,
     Arg ''minsaturation'' (Prt para_minsaturation) AUTH_VIEWER,
     Arg ''maxsaturation'' (Prt para_maxsaturation) AUTH_VIEWER,
     Arg ''motionblock'' (Prt para_motionblock) AUTH_OPERATOR,
     Arg ''motionarea'' (Hidden ''para_motionarea'') AUTH_OPERATOR,
     Arg ''motionenable'' (Prt para_motionenable) AUTH_OPERATOR,
     Arg ''motiondrawenable'' (Prt para_motiondrawenable) AUTH_OPERATOR,
     Arg ''motionsensitivity'' (Prt para_motionsensitivity) AUTH_OPERATOR,
     Arg ''motionname'' (Prt para_motionname) AUTH_OPERATOR,
     Arg ''motioncenable'' (Prt para_motioncenable) AUTH_OPERATOR,
     Arg ''motioncvalue'' (Prt para_motioncvalue) AUTH_OPERATOR,
     Arg ''motionlevel'' (Prt para_motionlevel) AUTH_OPERATOR,
     Arg ''motionpercentage'' (Prt para_motionpercentage) AUTH_OPERATOR,
     Arg ''minmotionthreshold'' (Prt para_minmotionthreshold) AUTH_OPERATOR,
     Arg ''maxmotionthreshold'' (Prt para_maxmotionthreshold) AUTH_OPERATOR,
     Arg ''motionxlimit'' (Prt para_motionxlimit) AUTH_OPERATOR,
     Arg ''motionylimit'' (Prt para_motionylimit) AUTH_OPERATOR,
     Arg ''motionxblock'' (Prt para_motionxblock) AUTH_OPERATOR,
     Arg ''motionyblock'' (Prt para_motionyblock) AUTH_OPERATOR,
     Arg ''ipncptz'' (Prt para_ipncptz) AUTH_OPERATOR,
     Arg ''maxnamelen'' (Prt para_maxnamelen) AUTH_VIEWER,
     Arg ''maxpwdlen'' (Prt para_maxpwdlen) AUTH_VIEWER,
     Arg ''authorityadmin'' (Prt para_authorityadmin) AUTH_VIEWER,
     Arg ''authorityoperator'' (Prt para_authorityoperator) AUTH_VIEWER,
     Arg ''authorityviewer'' (Prt para_authorityviewer) AUTH_VIEWER,
     Arg ''minnamelen'' (Prt para_minnamelen) AUTH_VIEWER,
     Arg ''minpwdlen'' (Hidden ''para_minpwdlen'') AUTH_VIEWER,
     Arg ''user'' (Hidden ''para_user'') AUTH_OPERATOR,
     Arg ''authority'' (Hidden ''para_authority'') AUTH_OPERATOR,
     Arg ''sddisplay'' (Prt para_sddisplay) AUTH_VIEWER,
     Arg ''sdinsert'' (Prt para_sdinsert) AUTH_VIEWER,
     Arg ''sdlock'' (Prt para_sdlock) AUTH_VIEWER,
     Arg ''sdleft'' (Hidden ''para_sdleft'') AUTH_OPERATOR,
     Arg ''sdused'' (Hidden ''para_sdused'') AUTH_OPERATOR,
     Arg ''sdformat'' (Prt para_sdformat) AUTH_OPERATOR,
     Arg ''sdprotect'' (Prt para_sdprotect) AUTH_OPERATOR,
     Arg ''sdfolderlist'' (Hidden ''para_sdfolderlist'') AUTH_OPERATOR,
     Arg ''sdfilelist'' (Hidden ''para_sdfilelist'') AUTH_OPERATOR,
     Arg ''sdthispath'' (Prt para_sdthispath) AUTH_OPERATOR,
     Arg ''sdfpp'' (Hidden ''para_sdfpp'') AUTH_OPERATOR,
     Arg ''sdfppname'' (Prt para_sdfppname) AUTH_OPERATOR,
     Arg ''sdthispage'' (Hidden ''para_sdthispage'') AUTH_OPERATOR,
     Arg ''sdtotalpage'' (Hidden ''para_sdtotalpage'') AUTH_OPERATOR,
     Arg ''privacywindowsize'' (Prt para_privacywindowsize) AUTH_OPERATOR,
     Arg ''motionwindowsize'' (Prt para_motionwindowsize) AUTH_OPERATOR,
     Arg ''profile1eptzcoordinate'' (Prt para_profile1coordinate) AUTH_OPERATOR,
     Arg ''profile2eptzcoordinate'' (Prt para_profile2coordinate) AUTH_OPERATOR,
     Arg ''profile3eptzcoordinate'' (Prt para_profile3coordinate) AUTH_OPERATOR,
     Arg ''profile1xsize'' (Hidden ''para_stream1xsize'') AUTH_VIEWER,
     Arg ''profile1ysize'' (Hidden ''para_stream1ysize'') AUTH_VIEWER,
     Arg ''profile2xsize'' (Hidden ''para_stream2xsize'') AUTH_VIEWER,
     Arg ''profile2ysize'' (Hidden ''para_stream2ysize'') AUTH_VIEWER,
     Arg ''profile3xsize'' (Hidden ''para_stream3xsize'') AUTH_VIEWER,
     Arg ''profile3ysize'' (Hidden ''para_stream3ysize'') AUTH_VIEWER,
     Arg ''profile4xsize'' (Prt para_stream4xsize) AUTH_VIEWER,
     Arg ''profile4ysize'' (Prt para_stream4ysize) AUTH_VIEWER,
     Arg ''stream1name'' (Prt para_stream1name) AUTH_VIEWER,
     Arg ''stream2name'' (Prt para_stream2name) AUTH_VIEWER,
     Arg ''stream3name'' (Prt para_stream3name) AUTH_VIEWER,
     Arg ''dmsxsize'' (Hidden ''para_dmsxsize'') AUTH_VIEWER,
     Arg ''dmsysize'' (Hidden ''para_dmsysize'') AUTH_VIEWER,
     Arg ''numprofile'' (Hidden ''para_numprofile'') AUTH_VIEWER,
     Arg ''webprofilenum'' (Prt para_webprofilenum) AUTH_VIEWER,
     Arg ''supportprofile1'' (Prt para_supportstream1) AUTH_VIEWER,
     Arg ''supportprofile2'' (Prt para_supportstream2) AUTH_VIEWER,
     Arg ''supportprofile3'' (Prt para_supportstream3) AUTH_VIEWER,
     Arg ''supportprofile4'' (Prt para_supportstream4) AUTH_VIEWER,
     Arg ''img2a'' (Hidden ''para_image2a'') AUTH_VIEWER,
     Arg ''img2aname'' (Hidden ''para_img2aname'') AUTH_VIEWER,
     Arg ''ratecontrol'' (Prt para_ratecontrol) AUTH_VIEWER,
     Arg ''ratecontrolname'' (Prt para_ratecontrolname) AUTH_VIEWER,
     Arg ''kernelversion'' (Hidden ''para_kernelversion'') AUTH_VIEWER,
     Arg ''biosversion'' (Hidden ''para_biosversion'') AUTH_VIEWER,
     Arg ''CompileTime'' (Hidden ''para_compiletime'') AUTH_VIEWER,
     Arg ''httpsenable'' (Prt para_httpsenable) AUTH_OPERATOR,
     Arg ''httpscountry'' (Prt para_httpscountry) AUTH_OPERATOR]"

definition HttpArgument_6 :: "'w camera \<Rightarrow> 'w arg_entry list" where [page_table_defs]:
  "HttpArgument_6 k =
    [Arg ''maxhttpscountry'' (Prt para_maxhttpscountry) AUTH_OPERATOR,
     Arg ''httpsstate'' (Prt para_httpsstate) AUTH_OPERATOR,
     Arg ''maxhttpsstate'' (Prt para_maxhttpsstate) AUTH_OPERATOR,
     Arg ''httpslocality'' (Prt para_httpslocality) AUTH_OPERATOR,
     Arg ''maxhttpslocality'' (Prt para_maxhttpslocality) AUTH_OPERATOR,
     Arg ''httpsorganization'' (Prt para_httpsorganization) AUTH_OPERATOR,
     Arg ''maxhttpsorganization'' (Prt para_maxhttpsorganization) AUTH_OPERATOR,
     Arg ''httpsorgunit'' (Prt para_httpsorgunit) AUTH_OPERATOR,
     Arg ''maxhttpsorgunit'' (Prt para_maxhttpsorgunit) AUTH_OPERATOR,
     Arg ''httpscommon'' (Prt para_httpscommon) AUTH_OPERATOR,
     Arg ''maxhttpscommon'' (Prt para_maxhttpscommon) AUTH_OPERATOR,
     Arg ''httpsvaliddays'' (Prt para_httpsvaliddays) AUTH_OPERATOR,
     Arg ''httpscheckkey'' (Hidden ''para_httpscheckkey'') AUTH_OPERATOR,
     Arg ''httpscheckcsr'' (Hidden ''para_httpscheckcsr'') AUTH_OPERATOR,
     Arg ''httpscheckcert'' (Hidden ''para_httpscheckcert'') AUTH_OPERATOR,
     Arg ''httpsport'' (Prt para_httpsport) AUTH_OPERATOR,
     Arg ''defaulthttpsport'' (Prt para_defaulthttpsport) AUTH_OPERATOR,
     Arg ''supportwifi'' (Prt para_wifi_support) AUTH_OPERATOR] @
    (if defined k ''SUPPORT_WIFI''
     then [Arg ''wifienable'' (Prt para_wifi_enable) AUTH_OPERATOR,
           Arg ''wifissid'' (Hidden ''para_wifi_ssid'') AUTH_OPERATOR,
           Arg ''wifimode'' (Prt para_wifi_mode) AUTH_OPERATOR,
           Arg ''wifichannel'' (Prt para_wifi_channel) AUTH_OPERATOR,
           Arg ''wifiauth'' (Prt para_wifi_auth) AUTH_OPERATOR,
           Arg ''wifiencrypt'' (Prt para_wifi_encrypt) AUTH_OPERATOR,
           Arg ''wpa_key'' (Hidden ''para_wpa_key'') AUTH_OPERATOR,
           Arg ''wep_index'' (Prt para_wep_index) AUTH_OPERATOR,
           Arg ''wep_key1'' (Hidden ''para_wep_key1'') AUTH_OPERATOR,
           Arg ''wep_key2'' (Hidden ''para_wep_key2'') AUTH_OPERATOR,
           Arg ''wep_key3'' (Hidden ''para_wep_key3'') AUTH_OPERATOR,
           Arg ''wep_key4'' (Hidden ''para_wep_key4'') AUTH_OPERATOR,
           Arg ''wifiminchannel'' (Prt para_wifi_minchannel) AUTH_OPERATOR,
           Arg ''wifimaxchannel'' (Prt para_wifi_maxchannel) AUTH_OPERATOR,
           Arg ''wifisitesurveyname'' (Prt para_wifi_sitelist) AUTH_VIEWER,
           Arg ''wifimodename'' (Prt para_wifi_modename) AUTH_VIEWER,
           Arg ''wifichannelname'' (Prt para_wifi_channelname) AUTH_VIEWER,
           Arg ''wifiauthname'' (Prt para_wifi_authname) AUTH_VIEWER,
           Arg ''wifiencryptname'' (Prt para_wifi_encryptname) AUTH_VIEWER]
     else []) @
    [Arg ''supportgiooutalwayson'' (Prt para_supportgiooutalwayson) AUTH_OPERATOR,
     Arg ''supportgioin'' (Prt para_supportgioin) AUTH_VIEWER,
     Arg ''supportgioout'' (Prt para_supportgioout) AUTH_VIEWER,
     Arg ''gioinenable'' (Hidden ''para_gioinenable'') AUTH_OPERATOR,
     Arg ''giointype'' (Hidden ''para_giointype'') AUTH_OPERATOR,
     Arg ''gioinname'' (Prt para_gioinname) AUTH_OPERATOR,
     Arg ''gioinstatus'' (Hidden ''para_gioinstatus'') AUTH_OPERATOR,
     Arg ''giooutstatus'' (Hidden ''para_giooutstatus'') AUTH_OPERATOR,
     Arg ''giooutenable'' (Hidden ''para_giooutenable'') AUTH_OPERATOR,
     Arg ''gioouttype'' (Hidden ''para_gioouttype'') AUTH_OPERATOR,
     Arg ''giooutname'' (Prt para_giooutname) AUTH_OPERATOR,
     Arg ''softwareversion'' (Prt para_softwareversion) AUTH_OPERATOR,
     Arg ''fullversion'' (Hidden ''para_fullversion'') AUTH_OPERATOR,
     Arg ''tstampcolor'' (Prt para_tstampcolor) AUTH_OPERATOR,
     Arg ''tstamploc'' (Prt para_tstamploc) AUTH_OPERATOR,
     Arg ''tstampenable'' (Prt para_tstampenable) AUTH_OPERATOR,
     Arg ''tstampcolorname'' (Prt para_tstampcolorname) AUTH_OPERATOR,
     Arg ''tstamplocname'' (Prt para_tstamplocname) AUTH_OPERATOR,
     Arg ''tstampformatname'' (Hidden ''para_tstampformatname'') AUTH_OPERATOR,
     Arg ''tstampformat'' (Prt para_tstampformat) AUTH_OPERATOR,
     Arg ''tstamplabel'' (Prt para_tstamplabel) AUTH_OPERATOR,
     Arg ''audioinmax'' (Prt para_audioinmax) AUTH_OPERATOR,
     Arg ''eventlocation'' (Hidden ''para_event_location'') AUTH_OPERATOR,
     Arg ''event'' (Hidden ''para_get_event'') AUTH_OPERATOR,
     Arg ''rtc_cal_status'' (Hidden ''para_rtc_status'') AUTH_OPERATOR,
     Arg ''rtc_cal_value'' (Hidden ''para_rtc_value'') AUTH_OPERATOR,
     Arg ''eventserverlist'' (Hidden ''para_event_server'') AUTH_OPERATOR,
     Arg ''eventmedialist'' (Hidden ''para_event_media'') AUTH_OPERATOR,
     Arg ''eventlist'' (Hidden ''para_event_type'') AUTH_OPERATOR,
     Arg ''eventrecordinglist'' (Hidden ''para_event_record'') AUTH_OPERATOR,
     Arg ''isemptysamba'' (Hidden ''para_empty_smb'') AUTH_OPERATOR,
     Arg ''isemptysd'' (Hidden ''para_empty_sd'') AUTH_OPERATOR,
     Arg ''supportnetlost'' (Prt para_support_netlost) AUTH_OPERATOR,
     Arg ''supportvideolost'' (Prt para_support_videolost) AUTH_OPERATOR,
     Arg ''supportpir'' (Prt para_support_pir) AUTH_OPERATOR,
     Arg ''media_pic_pre_min'' (Prt para_m_pic_pre_min) AUTH_OPERATOR,
     Arg ''media_pic_pre_max'' (Prt para_m_pic_pre_max) AUTH_OPERATOR,
     Arg ''media_pic_post_min'' (Prt para_m_pic_post_min) AUTH_OPERATOR,
     Arg ''media_pic_post_max'' (Prt para_m_pic_post_max) AUTH_OPERATOR,
     Arg ''media_vid_pre_min'' (Prt para_m_vid_pre_min) AUTH_OPERATOR,
     Arg ''media_vid_pre_max'' (Prt para_m_vid_pre_max) AUTH_OPERATOR,
     Arg ''media_vid_post_min'' (Prt para_m_vid_post_min) AUTH_OPERATOR,
     Arg ''media_vid_post_max'' (Prt para_m_vid_post_max) AUTH_OPERATOR,
     Arg ''media_vid_maxsize'' (Prt para_m_vid_maxsize) AUTH_OPERATOR,
     Arg ''media_vid_minsize'' (Prt para_m_vid_minsize) AUTH_OPERATOR,
     Arg ''record_vid_maxsize'' (Prt para_r_vid_maxsize) AUTH_OPERATOR,
     Arg ''record_vid_minsize'' (Prt para_r_vid_minsize) AUTH_OPERATOR,
     Arg ''rewrite_minsize'' (Prt para_rewrite_minsize) AUTH_OPERATOR,
     Arg ''rewrite_maxsize'' (Prt para_rewrite_maxsize) AUTH_OPERATOR,
     Arg ''maxactionmedia'' (Prt para_maxactionmedia) AUTH_OPERATOR,
     Arg ''maxeventserver'' (Prt para_maxeventserver) AUTH_OPERATOR,
     Arg ''maxeventmedia'' (Prt para_maxeventmedia) AUTH_OPERATOR,
     Arg ''maxeventnumber'' (Prt para_maxeventnumber) AUTH_OPERATOR,
     Arg ''maxrecording'' (Prt para_maxrecording) AUTH_OPERATOR,
     Arg ''eventactionchoice'' (Prt para_event_actionchoice) AUTH_OPERATOR,
     Arg ''cfrate'' (Prt para_cf_rate) AUTH_OPERATOR,
     Arg ''cfduration'' (Prt para_cf_duration) AUTH_OPERATOR,
     Arg ''cfcount'' (Prt para_cf_count) AUTH_OPERATOR,
     Arg ''maxcfrecord'' (Prt para_cf_maxrecord) AUTH_OPERATOR,
     Arg ''cfleft'' (Prt para_cf_left) AUTH_OPERATOR,
     Arg ''cfused'' (Prt para_cf_used) AUTH_OPERATOR,
     Arg ''cfdurationname'' (Prt para_cf_durationname) AUTH_OPERATOR,
     Arg ''cfrecordtype'' (Prt para_cf_recordtype) AUTH_OPERATOR,
     Arg ''savingmode'' (Prt para_savingmode) AUTH_OPERATOR,
     Arg ''analogoutput'' (Prt para_analog_output) AUTH_OPERATOR,
     Arg ''supportajax1'' (Hidden ''para_supportajax1'') AUTH_VIEWER,
     Arg ''ajax1name'' (Hidden ''para_ajax1name'') AUTH_VIEWER,
     Arg ''supportajax2'' (Hidden ''para_supportajax2'') AUTH_VIEWER,
     Arg ''ajax2name'' (Hidden ''para_ajax2name'') AUTH_VIEWER,
     Arg ''supportajax3'' (Hidden ''para_supportajax3'') AUTH_VIEWER,
     Arg ''ajax3name'' (Hidden ''para_ajax3name'') AUTH_VIEWER,
     Arg ''httpstreamnum'' (Prt para_httpstreamnum) AUTH_OPERATOR,
     Arg ''rtspstreamnum'' (Prt para_rtspstreamnum) AUTH_OPERATOR,
     Arg ''profilecheckmode'' (Prt para_profilecheckmode) AUTH_OPERATOR,
     Arg ''supportptzzoom'' (Prt para_supportptzzoom) AUTH_VIEWER,
     Arg ''supportfancontrol'' (Prt para_supportfan) AUTH_VIEWER,
     Arg ''afmaxzoomstep'' (Prt para_afmaxzoomstep) AUTH_VIEWER,
     Arg ''afmaxfocusstep'' (Prt para_afmaxfocusstep) AUTH_VIEWER,
     Arg ''autofocusmode'' (Prt para_autofocusmode) AUTH_VIEWER,
     Arg ''autofocuslocation'' (Prt para_autofocuslocation) AUTH_VIEWER,
     Arg ''afzoomposition'' (Hidden ''para_afzoomposition'') AUTH_VIEWER,
     Arg ''affocusposition'' (Prt para_affocusposition) AUTH_VIEWER,
     Arg ''lensspeed'' (Prt para_lensspeed) AUTH_VIEWER]"

definition HttpArgument_7 :: "'w camera \<Rightarrow> 'w arg_entry list" where [page_table_defs]:
  "HttpArgument_7 k =
    [Arg ''eptzspeed'' (Prt para_eptzspeed) AUTH_VIEWER,
     Arg ''eptzstreamid'' (Prt para_eptzstreamid) AUTH_VIEWER,
     Arg ''eptzpresetlistname1'' (Hidden ''para_eptzpresetlist1'') AUTH_VIEWER,
     Arg ''eptzpresetlistname2'' (Hidden ''para_eptzpresetlist2'') AUTH_VIEWER,
     Arg ''eptzpresetlistname3'' (Hidden ''para_eptzpresetlist3'') AUTH_VIEWER,
     Arg ''sequencename1'' (Hidden ''para_sequencename1'') AUTH_VIEWER,
     Arg ''sequencename2'' (Hidden ''para_sequencename2'') AUTH_VIEWER,
     Arg ''sequencename3'' (Hidden ''para_sequencename3'') AUTH_VIEWER,
     Arg ''sequencetime1'' (Hidden ''para_sequencetime1'') AUTH_VIEWER,
     Arg ''sequencetime2'' (Hidden ''para_sequencetime2'') AUTH_VIEWER,
     Arg ''sequencetime3'' (Hidden ''para_sequencetime3'') AUTH_VIEWER] @
    (if defined k ''SUPPORT_VISCA'' \<and> defined k ''CONFIG_BRAND_DLINK''
     then [Arg ''supportvisca'' (Prt para_supportvisca) AUTH_VIEWER,
           Arg ''zoomposinq'' (Hidden ''para_zoomposinq'') AUTH_VIEWER,
           Arg ''dzoommodeinq'' (Prt para_dzoommodeinq) AUTH_VIEWER,
           Arg ''dzoomcsmodeinq'' (Hidden ''para_dzoomcsmodeinq'') AUTH_VIEWER,
           Arg ''dzoomposinq'' (Hidden ''para_dzoomposinq'') AUTH_VIEWER,
           Arg ''focusmodeinq'' (Hidden ''para_focusmodeinq'') AUTH_VIEWER,
           Arg ''focusposinq'' (Hidden ''para_focusposinq'') AUTH_VIEWER,
           Arg ''focusnearlimitinq'' (Hidden ''para_focusnearlimitinq'') AUTH_VIEWER,
           Arg ''afmodeinq'' (Hidden ''para_afmodeinq'') AUTH_VIEWER,
           Arg ''wbmodeinq'' (Prt para_wbmodeinq) AUTH_VIEWER,
           Arg ''rgaininq'' (Hidden ''para_rgaininq'') AUTH_VIEWER,
           Arg ''bgaininq'' (Hidden ''para_bgaininq'') AUTH_VIEWER,
           Arg ''aemodeinq'' (Prt para_aemodeinq) AUTH_VIEWER,
           Arg ''slowshuttermodeinq'' (Hidden ''para_slowshuttermodeinq'') AUTH_VIEWER,
           Arg ''shutterposinq'' (Prt para_shutterposinq) AUTH_VIEWER,
           Arg ''irisposinq'' (Hidden ''para_irisposinq'') AUTH_VIEWER,
           Arg ''gainposinq'' (Prt para_gainposinq) AUTH_VIEWER,
           Arg ''brightposinq'' (Hidden ''para_brightposinq'') AUTH_VIEWER,
           Arg ''expcompmodeinq'' (Hidden ''para_expcompmodeinq'') AUTH_VIEWER,
           Arg ''expcompposinq'' (Prt para_expcompposinq) AUTH_VIEWER,
           Arg ''backlightmodeinq'' (Prt para_backlightmodeinq) AUTH_VIEWER,
           Arg ''wd'' (Prt para_wdinq) AUTH_VIEWER,
           Arg ''apertureinq'' (Prt para_apertureinq) AUTH_VIEWER,
           Arg ''freezemodeinq'' (Prt para_freezemodeinq) AUTH_VIEWER,
           Arg ''pictureflipmodeinq'' (Prt para_pictureflipmodeinq) AUTH_VIEWER,
           Arg ''icrmodeinq'' (Hidden ''para_icrmodeinq'') AUTH_VIEWER,
           Arg ''autoicrmodeinq'' (Hidden ''para_autoicrmodeinq'') AUTH_VIEWER,
           Arg ''irthreshold'' (Hidden ''para_irthreshold'') AUTH_VIEWER,
           Arg ''privacydisplayinq'' (Prt para_privacydisplayinq) AUTH_VIEWER,
           Arg ''privacytransparency'' (Prt para_privacytransparency) AUTH_VIEWER,
           Arg ''privacycolor'' (Prt para_privacycolor) AUTH_VIEWER,
           Arg ''privacysizeinq'' (Hidden ''para_privacysizeinq'') AUTH_VIEWER,
           Arg ''pantiltposinq'' (Hidden ''para_pantiltposinq'') AUTH_VIEWER,
           Arg ''versioninq'' (Hidden ''para_versioninq'') AUTH_VIEWER,
           Arg ''alarmstatus'' (Hidden ''para_alarmstatus'') AUTH_VIEWER,
           Arg ''alarmoutput'' (Hidden ''para_alarmoutput'') AUTH_VIEWER,
           Arg ''homefunction'' (Prt para_homefunction) AUTH_VIEWER,
           Arg ''fliptypeinq'' (Prt para_fliptypeinq) AUTH_VIEWER,
           Arg ''angleadjust'' (Prt para_angleadjust) AUTH_VIEWER,
           Arg ''speedbyzoom'' (Hidden ''para_speedbyzoom'') AUTH_VIEWER,
           Arg ''autocalibration'' (Prt para_autocalibration) AUTH_VIEWER,
           Arg ''2dnoisereduction'' (Prt para_2dnoisereduction) AUTH_VIEWER,
           Arg ''3dnoisereduction'' (Prt para_3dnoisereduction) AUTH_VIEWER,
           Arg ''sequence64_1'' (Hidden ''para_sequence64_1'') AUTH_VIEWER,
           Arg ''sequence64_2'' (Hidden ''para_sequence64_2'') AUTH_VIEWER,
           Arg ''sequence64_3'' (Hidden ''para_sequence64_3'') AUTH_VIEWER,
           Arg ''sequence64_4'' (Hidden ''para_sequence64_4'') AUTH_VIEWER,
           Arg ''sequence64_5'' (Hidden ''para_sequence64_5'') AUTH_VIEWER,
           Arg ''sequence64_6'' (Hidden ''para_sequence64_6'') AUTH_VIEWER,
           Arg ''sequence64_7'' (Hidden ''para_sequence64_7'') AUTH_VIEWER,
           Arg ''sequence64_8'' (Hidden ''para_sequence64_8'') AUTH_VIEWER,
           Arg ''autopan_dir'' (Hidden ''para_autopan_dir'') AUTH_VIEWER,
           Arg ''autopan_speed'' (Hidden ''para_autopan_speed'') AUTH_VIEWER,
           Arg ''homefunctionsetting'' (Prt para_homefunctionsetting) AUTH_VIEWER,
           Arg ''homefunctiontime'' (Prt para_homefunctiontime) AUTH_VIEWER,
           Arg ''homefunctionline'' (Prt para_homefunctionline) AUTH_VIEWER,
           Arg ''homeposition'' (Hidden ''para_homeposition'') AUTH_VIEWER,
           Arg ''sequencelinepointnum'' (Prt para_sequencepointnum) AUTH_VIEWER,
           Arg ''cruiselinenum'' (Prt para_cruiselinenum) AUTH_VIEWER,
           Arg ''viscadomentsc'' (Prt para_visca_dome_ntsc) AUTH_VIEWER,
           Arg ''viscadomezoom'' (Prt para_visca_dome_zoom) AUTH_VIEWER,
           Arg ''viscadomeicr'' (Prt para_visca_dome_icr) AUTH_VIEWER,
           Arg ''viscadomewdr'' (Prt para_visca_dome_wdr) AUTH_VIEWER,
           Arg ''viscapresetlistname'' (Hidden ''para_viscapresetlistname'') AUTH_VIEWER,
           Arg ''viscahomepresetlistname'' (Hidden ''para_viscahomepresetlistname'') AUTH_VIEWER,
           Arg ''viscasequencelistname'' (Hidden ''para_viscasequencelistname'') AUTH_VIEWER,
           Arg ''wbmodename'' (Prt para_wbmodename) AUTH_VIEWER,
           Arg ''fliptypename'' (Prt para_fliptypename) AUTH_VIEWER,
           Arg ''aemodename'' (Prt para_aemodename) AUTH_VIEWER,
           Arg ''aeshuttername'' (Hidden ''para_aeshuttername'') AUTH_VIEWER,
           Arg ''aemanualname'' (Hidden ''para_aemanualname'') AUTH_VIEWER,
           Arg ''privacycolorname'' (Prt para_privacycolorname) AUTH_VIEWER,
           Arg ''homefunctionname'' (Prt para_homefunctionname) AUTH_VIEWER,
           Arg ''panspeedname'' (Prt para_panspeedname) AUTH_VIEWER,
           Arg ''tiltspeedname'' (Prt para_tiltspeedname) AUTH_VIEWER,
           Arg ''presetpageinq'' (Hidden ''para_presetpageinq'') AUTH_VIEWER,
           Arg ''sequencepageinq'' (Hidden ''para_sequencepageinq'') AUTH_VIEWER,
           Arg ''panspeed'' (Prt para_panspeed) AUTH_VIEWER,
           Arg ''tiltspeed'' (Prt para_tiltspeed) AUTH_VIEWER,
           Arg ''aperturename'' (Prt para_aperturename) AUTH_VIEWER,
           Arg ''angleminname'' (Prt para_angleminname) AUTH_VIEWER,
           Arg ''anglemaxname'' (Prt para_anglemaxname) AUTH_VIEWER,
           Arg ''anglemaxflipname'' (Prt para_anglemaxflipname) AUTH_VIEWER,
           Arg ''autopanname'' (Prt para_autopanname) AUTH_VIEWER,
           Arg ''autopandirecname'' (Prt para_autopandirecname) AUTH_VIEWER,
           Arg ''autopanspeedname'' (Prt para_autopanspeedname) AUTH_VIEWER,
           Arg ''cruisename'' (Prt para_cruisename) AUTH_VIEWER,
           Arg ''viscaburnstatus'' (Prt para_visca_burn_status) AUTH_NONE,
           Arg ''viscadometype'' (Prt para_visca_dometype) AUTH_NONE,
           Arg ''viscamotortype'' (Prt para_visca_motortype) AUTH_NONE,
           Arg ''viscaversion'' (Prt para_visca_version) AUTH_NONE,
           Arg ''viscamodel'' (Prt para_visca_model) AUTH_NONE,
           Arg ''viscawintimezone'' (Prt para_visca_wintimezone) AUTH_NONE,
           Arg ''viscamacaddress'' (Hidden ''para_visca_netmac'') AUTH_NONE,
           Arg ''viscaserialnumber'' (Hidden ''para_visca_serial_number'') AUTH_NONE]
     else []) @
    [Arg ''supportqos'' (Prt para_support_QoS) AUTH_NONE,
     Arg ''supportcos'' (Prt para_support_CoS) AUTH_NONE,
     Arg ''supportbwc'' (Prt para_support_BWC) AUTH_NONE] @
    (if defined k ''SUPPORT_COS_SCHEDULE''
     then [Arg ''cosenable'' (Prt para_CoS_enable) AUTH_VIEWER,
           Arg ''cosvlanid'' (Prt para_VLan_ID) AUTH_VIEWER,
           Arg ''cospriovideo'' (Prt para_CoS_prio_video) AUTH_VIEWER,
           Arg ''cosprioaudio'' (Prt para_CoS_prio_audio) AUTH_VIEWER,
           Arg ''cosprioevent'' (Prt para_CoS_prio_event) AUTH_VIEWER,
           Arg ''cospriomanage'' (Prt para_CoS_prio_manage) AUTH_VIEWER]
     else []) @
    (if defined k ''SUPPORT_QOS_SCHEDULE''
     then [Arg ''qosenable'' (Prt para_QoS_enable) AUTH_VIEWER,
           Arg ''qosdscpvideo'' (Prt para_QoS_DSCP_video) AUTH_VIEWER,
           Arg ''qosdscpaudio'' (Prt para_QoS_DSCP_audio) AUTH_VIEWER,
           Arg ''qosdscpevent'' (Prt para_QoS_DSCP_event) AUTH_VIEWER,
           Arg ''qosdscpmanage'' (Prt para_QoS_DSCP_manage) AUTH_VIEWER]
     else []) @
    [Arg ''supportfactorymode'' (Prt para_supportfactorymode) AUTH_OPERATOR]"

definition HttpArgument :: "'w camera \<Rightarrow> 'w arg_entry list" where
  "HttpArgument k = HttpArgument_1 k @ HttpArgument_2 k @ HttpArgument_3 k @ HttpArgument_4 k @ HttpArgument_5 k @ HttpArgument_6 k @ HttpArgument_7 k"

text \<open>The entries as the hash table has them, and the call of the printer of an entry.\<close>

definition html_arguments :: "(level \<Rightarrow> int) \<Rightarrow> 'w arg_entry list \<Rightarrow> html_argument list" where
  "html_arguments lev tab =
    map (\<lambda>(i, e). \<lparr>harg_name = ent_arg e, harg_handler = Some i, harg_authority = lev (ent_right e)\<rparr>) (enumerate 0 tab)"

definition print_argument ::
  "'w ctx \<Rightarrow> (cstring \<Rightarrow> cstring \<Rightarrow> request \<Rightarrow> int \<times> cstring) \<Rightarrow> 'w arg_entry list \<Rightarrow> nat \<Rightarrow> cstring \<Rightarrow> request \<Rightarrow> int \<times> cstring" where
  "print_argument c others tab h sub r =
    (if h < length tab
     then case ent_printer (tab ! h) of Prt p \<Rightarrow> p (c\<lparr>req := r\<rparr>) sub | Hidden f \<Rightarrow> others f sub r
     else fails)"

subsection \<open>Properties of all entries\<close>

lemma all_argumentsI:
  assumes "list_all P (HttpArgument_1 k)"
    "list_all P (HttpArgument_2 k)"
    "list_all P (HttpArgument_3 k)"
    "list_all P (HttpArgument_4 k)"
    "list_all P (HttpArgument_5 k)"
    "list_all P (HttpArgument_6 k)"
    "list_all P (HttpArgument_7 k)"
  shows "list_all P (HttpArgument k)"
  using assms by (simp add: HttpArgument_def)

text \<open>The strings of the configuration that viewers may see, the printers open to them, and the names of those that are not translated.\<close>

definition public_strings :: "cstring list" where
  "public_strings = [
    ''TITLE'', ''STREAM0_HTTPSTREAMNAME'', ''STREAM1_HTTPSTREAMNAME'', ''STREAM2_HTTPSTREAMNAME'', ''STREAM3_HTTPSTREAMNAME'',
    ''STREAM0_RTSPSTREAMNAME'', ''STREAM1_RTSPSTREAMNAME'', ''STREAM2_RTSPSTREAMNAME'', ''STREAM3_RTSPSTREAMNAME'', ''DEVICENAME'',
    ''MASKAREA0_MASKAREA_CMD'', ''MASKAREA1_MASKAREA_CMD'', ''MASKAREA2_MASKAREA_CMD'', ''AUDIO_INFO_CODEC_NAME'', ''NMAXAGCGAIN'']"

definition open_printers :: "'w printer list" where
  "open_printers = [
    get_video_loss_status, para_machinetype, para_supporttvout, para_supportosdswitch, para_osdshow, para_supportled, para_httpport,
    para_title, para_liveresolution, para_livequality, para_livequality2, para_http_streamname1, para_http_streamname2,
    para_http_streamname3, para_http_streamname4, para_rtsp_streamname1, para_rtsp_streamname2, para_rtsp_streamname3,
    para_rtsp_streamname4, para_OEMModel, para_OEMMaker, para_supportmpeg4, para_format, para_imagesource, para_devicename,
    para_cfinsert, para_defaultcardgethtm, para_brandurl, para_brandname, para_brandpath, para_supporttstamp, para_supporttstampcolor,
    para_profile1xsize, para_profile1ysize, para_socketauthority, para_authoritychange, para_supportmotion, para_supportmotionmode,
    para_supportwireless, para_serviceftpclient, para_servicesmtpclient, para_servicepppoe, para_servicesntpclient,
    para_serviceddnsclient, para_supportmaskarea, para_supportlinein, para_supportmic, para_servicevirtualclient,
    para_privacymaskenable, para_maxmaskarea, para_maskareaxlimit, para_maskareaylimit, para_maskarea, para_maxchannel,
    para_supportrs232, para_layoutnum, para_mui, para_support_tstamp_mui, para_supportsequence, para_quadmodeselect,
    para_serviceipfilter, para_oemflag0, para_supportdncontrol, para_supportavc, para_supportptzpage, para_ptziconvisible,
    para_supportdhcpdipswitch, para_timeformat, para_qualityname, para_qualityname2, para_supportcolorkiller, para_supportAWB,
    para_supportbrightness, para_supportdenoise, para_supportevcomp, para_supportdre, para_supportmeteringmethod,
    para_supportcapturepriority, para_supportcontrast, para_supportsaturation, para_supportbacklight, para_supportsharpness,
    para_supportaudioinswitch, para_supportaudioencselect, para_audioinsource, para_audiotype, para_speaktoken, para_supportrs485,
    para_enabledst, para_dstmode, para_dstshift, para_dstshiftname, para_dststart, para_dstend, para_videomodename, para_videomode,
    para_flickless, para_powerline, para_supportflickless, para_supportpowerline, para_supportagc, para_supportagcctrl,
    para_supportvideoalc, para_supportaes, para_fluorescent, para_fluorescentname, para_supportonvif, para_blc, para_kelvin,
    para_supporthue, para_supportfluorescent, para_supportmirror, para_supportkelvin, para_senseup, para_supportsenseup,
    para_supportmaxagcgain, para_supportblcmode, para_support_bonjour, para_supportaf, para_supportantiflicker, para_blcmode,
    para_supporthspeedshutter, para_hspeedshutter, para_rgain, para_bgain, para_binning, para_maxagcgainname, para_maxagcgain,
    para_agcctrl, para_daynightname, para_tvcable, para_backlight, para_brightness, para_contrast, para_hue, para_saturation,
    para_mincontrast, para_maxcontrast, para_minsaturation, para_maxsaturation, para_maxnamelen, para_maxpwdlen, para_authorityadmin,
    para_authorityoperator, para_authorityviewer, para_minnamelen, para_sddisplay, para_sdinsert, para_sdlock, para_stream4xsize,
    para_stream4ysize, para_stream1name, para_stream2name, para_stream3name, para_webprofilenum, para_supportstream1,
    para_supportstream2, para_supportstream3, para_supportstream4, para_ratecontrol, para_ratecontrolname, para_wifi_sitelist,
    para_wifi_modename, para_wifi_channelname, para_wifi_authname, para_wifi_encryptname, para_supportgioin, para_supportgioout,
    para_supportptzzoom, para_supportfan, para_afmaxzoomstep, para_afmaxfocusstep, para_autofocusmode, para_autofocuslocation,
    para_affocusposition, para_lensspeed, para_eptzspeed, para_eptzstreamid, para_supportvisca, para_dzoommodeinq, para_wbmodeinq,
    para_aemodeinq, para_shutterposinq, para_gainposinq, para_expcompposinq, para_backlightmodeinq, para_wdinq, para_apertureinq,
    para_freezemodeinq, para_pictureflipmodeinq, para_privacydisplayinq, para_privacytransparency, para_privacycolor,
    para_homefunction, para_fliptypeinq, para_angleadjust, para_autocalibration, para_2dnoisereduction, para_3dnoisereduction,
    para_homefunctionsetting, para_homefunctiontime, para_homefunctionline, para_sequencepointnum, para_cruiselinenum,
    para_visca_dome_ntsc, para_visca_dome_zoom, para_visca_dome_icr, para_visca_dome_wdr, para_wbmodename, para_fliptypename,
    para_aemodename, para_privacycolorname, para_homefunctionname, para_panspeedname, para_tiltspeedname, para_panspeed,
    para_tiltspeed, para_aperturename, para_angleminname, para_anglemaxname, para_anglemaxflipname, para_autopanname,
    para_autopandirecname, para_autopanspeedname, para_cruisename, para_visca_burn_status, para_visca_dometype, para_visca_motortype,
    para_visca_version, para_visca_model, para_visca_wintimezone, para_support_QoS, para_support_CoS, para_support_BWC,
    para_CoS_enable, para_VLan_ID, para_CoS_prio_video, para_CoS_prio_audio, para_CoS_prio_event, para_CoS_prio_manage,
    para_QoS_enable, para_QoS_DSCP_video, para_QoS_DSCP_audio, para_QoS_DSCP_event, para_QoS_DSCP_manage]"

definition hidden_arguments_1 :: "cstring list" where [hidden_defs]:
  "hidden_arguments_1 = [
    ''date'', ''time'', ''weekday'', ''machinecode'', ''supportmui'']"

definition hidden_arguments_2 :: "cstring list" where [hidden_defs]:
  "hidden_arguments_2 = [
    ''audiotypename'', ''rtspport'']"

definition hidden_arguments_3 :: "cstring list" where [hidden_defs]:
  "hidden_arguments_3 = [
    ''profile1resolution'', ''profile1rate'', ''profile2resolution'', ''profile2rate'', ''profile3resolution'', ''profile3rate'',
    ''profile4resolution'', ''profile4rate'']"

definition hidden_arguments_4 :: "cstring list" where [hidden_defs]:
  "hidden_arguments_4 = [
    ''awbname'', ''binningname'', ''blcmodename'']"

definition hidden_arguments_5 :: "cstring list" where [hidden_defs]:
  "hidden_arguments_5 = [
    ''minpwdlen'', ''profile1xsize'', ''profile1ysize'', ''profile2xsize'', ''profile2ysize'', ''profile3xsize'', ''profile3ysize'',
    ''dmsxsize'', ''dmsysize'', ''numprofile'', ''img2a'', ''img2aname'', ''kernelversion'', ''biosversion'', ''CompileTime'']"

definition hidden_arguments_6 :: "cstring list" where [hidden_defs]:
  "hidden_arguments_6 = [
    ''supportajax1'', ''ajax1name'', ''supportajax2'', ''ajax2name'', ''supportajax3'', ''ajax3name'', ''afzoomposition'']"

definition hidden_arguments_7 :: "cstring list" where [hidden_defs]:
  "hidden_arguments_7 = [
    ''eptzpresetlistname1'', ''eptzpresetlistname2'', ''eptzpresetlistname3'', ''sequencename1'', ''sequencename2'',
    ''sequencename3'', ''sequencetime1'', ''sequencetime2'', ''sequencetime3'', ''zoomposinq'', ''dzoomcsmodeinq'', ''dzoomposinq'',
    ''focusmodeinq'', ''focusposinq'', ''focusnearlimitinq'', ''afmodeinq'', ''rgaininq'', ''bgaininq'', ''slowshuttermodeinq'',
    ''irisposinq'', ''brightposinq'', ''expcompmodeinq'', ''icrmodeinq'', ''autoicrmodeinq'', ''irthreshold'', ''privacysizeinq'',
    ''pantiltposinq'', ''versioninq'', ''alarmstatus'', ''alarmoutput'', ''speedbyzoom'', ''sequence64_1'', ''sequence64_2'',
    ''sequence64_3'', ''sequence64_4'', ''sequence64_5'', ''sequence64_6'', ''sequence64_7'', ''sequence64_8'', ''autopan_dir'',
    ''autopan_speed'', ''homeposition'', ''viscapresetlistname'', ''viscahomepresetlistname'', ''viscasequencelistname'',
    ''aeshuttername'', ''aemanualname'', ''presetpageinq'', ''sequencepageinq'', ''viscamacaddress'', ''viscaserialnumber'']"

definition hidden_arguments :: "cstring list" where
  "hidden_arguments = hidden_arguments_1 @ hidden_arguments_2 @ hidden_arguments_3 @ hidden_arguments_4 @ hidden_arguments_5 @ hidden_arguments_6 @ hidden_arguments_7"

lemma open_printers_blind: "list_all (blind public_strings) open_printers"
  unfolding open_printers_def list.pred_inject blind_def printer_defs
  by (intro conjI allI impI TrueI; simp add: conf_string_swap_strings[of public_strings] public_strings_def)

definition entry_fits :: "nat \<Rightarrow> 'w arg_entry \<Rightarrow> bool" where
  "entry_fits S e = (case ent_printer e of Prt p \<Rightarrow> printer_fits S p | Hidden f \<Rightarrow> True)"

definition entry_blind :: "cstring list \<Rightarrow> 'w arg_entry \<Rightarrow> bool" where
  "entry_blind hs e = (case ent_right e of AUTH_ADMIN \<Rightarrow> True | AUTH_OPERATOR \<Rightarrow> True
     | _ \<Rightarrow> (case ent_printer e of Prt p \<Rightarrow> blind public_strings p | Hidden f \<Rightarrow> ent_arg e \<in> set hs))"

lemma entry_blind_mono: "list_all (entry_blind hs) es \<Longrightarrow> set hs \<subseteq> set hs' \<Longrightarrow> list_all (entry_blind hs') es"
  unfolding list_all_iff entry_blind_def by (auto split: level.splits page_printer.splits)

lemmas printers_fit = picture_printers_fit[unfolded picture_printers_def list.pred_inject] device_printers_fit[unfolded device_printers_def list.pred_inject]

lemma arguments_fit: "list_all (entry_fits S) (HttpArgument k)"
  by (rule all_argumentsI; simp add: page_table_defs entry_fits_def printers_fit)

lemma parts_blind:
  "list_all (entry_blind hidden_arguments_1) (HttpArgument_1 k)"
  "list_all (entry_blind hidden_arguments_2) (HttpArgument_2 k)"
  "list_all (entry_blind hidden_arguments_3) (HttpArgument_3 k)"
  "list_all (entry_blind hidden_arguments_4) (HttpArgument_4 k)"
  "list_all (entry_blind hidden_arguments_5) (HttpArgument_5 k)"
  "list_all (entry_blind hidden_arguments_6) (HttpArgument_6 k)"
  "list_all (entry_blind hidden_arguments_7) (HttpArgument_7 k)"
  by (simp_all add: page_table_defs entry_blind_def hidden_defs open_printers_blind[unfolded open_printers_def list.pred_inject])

lemma arguments_blind: "list_all (entry_blind hidden_arguments) (HttpArgument k)"
  by (rule all_argumentsI; rule parts_blind[THEN entry_blind_mono]; auto simp: hidden_arguments_def)

end
