(* ===== verification/Boa_Api_Run.thy ===== *)
theory Boa_Api_Run
  imports Boa_Api_Table
begin

text \<open>
  A query of commands (\<open>http_run_command\<close> of \<^verbatim>\<open>appro_api.c\<close>) on the table and the handlers of the camera: users without the rights of an
  operator change nothing, a query is answered line by line and the answer fits the buffer, values are checked before they are handed to the system.
\<close>

subsection \<open>From the table to the handler\<close>

lemma fold_upt_invariant:
  assumes "P 0 s" "\<And>i s. i < n \<Longrightarrow> P i s \<Longrightarrow> P (Suc i) (f i s)"
  shows "P n (fold f [0..<n] s)"
  using assms(2) by (induction n) (use assms(1) in auto)

lemma search_entry:
  assumes "http_option_search n (hash_table_init (http_options lev tab)) = Some opt"
  shows "opt_handler opt < length tab \<and> ent_name (tab ! opt_handler opt) = n \<and>
    opt_authority opt = lev (ent_level (tab ! opt_handler opt)) \<and> opt_flag opt = ent_flag (tab ! opt_handler opt)"
proof -
  have "opt \<in> set (http_options lev tab)" "opt_name opt = n"
    using http_option_search_member[OF assms] assms by (auto simp: http_option_search_def find_Some_iff)
  then show ?thesis by (auto simp: http_options_def in_set_enumerate_eq)
qed

lemma table_entry:
  assumes "http_option_search n (hash_table_init (http_options lev (HttpOptionTable k))) = Some opt" "all_entries k P"
  obtains e where "e = HttpOptionTable k ! opt_handler opt" "P e" "ent_name e = n" "opt_authority opt = lev (ent_level e)"
  using search_entry[OF assms(1)] assms(2) by (auto simp: all_entries_def list_all_length)

text \<open>One line of the answer, and a command that only reads.\<close>

lemma run_command_answers:
  assumes "answers_once S cmd" "strings_fit S k"
  obtains l where "answer_line S (arg_name (cmd_arg (fst st) ! i)) l" "printed [l] (fst st) (fst (run_command k cmd i st))"
proof -
  let ?c = "\<lparr>cam = k, argm = cmd_arg (fst st) ! i, req = fst st, world = snd st, calls = []\<rparr>"
  obtain f c' where run: "block cmd ?c = (f, c')" by (cases "block cmd ?c")
  obtain m where "answers S m ?c c'" "leaves (\<lambda>n. n = 1) (\<lambda>n. n = 1) (\<lambda>n. n = 1) f (0 + m)"
    using assms(1)[unfolded answers_once_def] _ run by (rule yieldsE) (use assms(2) in auto)
  then have "answers S 1 ?c c'" by (cases f) (auto simp: leaves_def)
  then show thesis using that run by (auto simp: answers_def run_command_def name_def length_Suc_conv)
qed

lemma run_command_reads:
  assumes "reads_only cmd"
  shows "snd (run_command k cmd i st) = snd st \<and> core (fst (run_command k cmd i st)) = core (fst st)"
  using assms unfolding reads_only_def always_iff run_command_def Let_def by simp

subsection \<open>Who may change the camera\<close>

text \<open>What the handlers can ask of the server: to reboot, to restart, to set the hardware address.\<close>

definition asks :: "request \<Rightarrow> bool \<times> bool \<times> bool" where
  "asks r = (flag_reboot r, flag_restart r, flag_set_mac r)"

definition command_name :: "request \<Rightarrow> nat \<Rightarrow> cstring" where
  "command_name r i = strtolower (arg_name (cmd_arg r ! i))"

lemma core_fields:
  assumes "core r' = core r"
  shows "authority r' = authority r" "cmd_arg r' = cmd_arg r" "asks r' = asks r"
  using arg_cong[OF assms, of authority] arg_cong[OF assms, of cmd_arg] arg_cong[OF assms, of asks] by (simp_all add: core_def asks_def)

lemma emit_fields:
  "cmd_arg (emit ps r) = cmd_arg r" "asks (emit ps r) = asks r"
proof -
  have e: "io_erase (emit ps r) = io_erase r" by simp
  show "cmd_arg (emit ps r) = cmd_arg r" by (rule io_erase_fields(16)[OF e])
  show "asks (emit ps r) = asks r" using arg_cong[OF e, of asks] by (simp add: io_erase_def asks_def)
qed

definition watched_fields :: "nat \<Rightarrow> request \<Rightarrow> 'w cmd_world \<Rightarrow> request \<times> 'w cmd_world \<Rightarrow> bool" where
  "watched_fields i r w st \<longleftrightarrow> snd st = w \<and> authority (fst st) = authority r \<and> asks (fst st) = asks r \<and>
     length (cmd_arg (fst st)) = length (cmd_arg r) \<and> (\<forall>j. i \<le> j \<longrightarrow> cmd_arg (fst st) ! j = cmd_arg r ! j)"

lemma lower_name_fields:
  "asks (lower_name i r) = asks r" "length (cmd_arg (lower_name i r)) = length (cmd_arg r)"
  "i < length (cmd_arg r) \<Longrightarrow> arg_name (cmd_arg (lower_name i r) ! i) = command_name r i"
  "j \<noteq> i \<Longrightarrow> cmd_arg (lower_name i r) ! j = cmd_arg r ! j"
  by (simp_all add: lower_name_def asks_def command_name_def)

lemma run_one_reads:
  fixes k :: "'w camera"
  assumes lev: "lev AUTH_ADMIN \<le> lev AUTH_OPERATOR" "lev AUTH_OPERATOR < authority r"
    and i: "i < length (cmd_arg r)" "command_name r i \<notin> set (open_setters @ open_others)"
    and st: "watched_fields i r w st"
  shows "watched_fields (Suc i) r w
    (run_one (hash_table_init (http_options lev (HttpOptionTable k))) restarting (api_run k others (HttpOptionTable k)) i st)"
proof -
  define tab where "tab = HttpOptionTable k"
  define r1 where "r1 = lower_name i (fst st)"
  have n: "arg_name (cmd_arg r1 ! i) = command_name r i" and a: "authority r1 = authority r"
    using st i lower_name_fields(3)[of i "fst st"] by (simp_all add: watched_fields_def r1_def command_name_def)
  have base: "watched_fields (Suc i) r w (q, w)" if "authority q = authority r1" "asks q = asks r1" "cmd_arg q = cmd_arg r1" for q
    using st that by (simp add: watched_fields_def r1_def lower_name_fields)
  have w: "snd st = w" using st by (simp add: watched_fields_def)
  have said: "watched_fields (Suc i) r w (emit ps r1, w)" for ps by (rule base) (simp_all add: emit_fields)
  show ?thesis
  proof (cases "http_option_search (command_name r i) (hash_table_init (http_options lev tab))")
    case None
    then show ?thesis using said n w by (simp add: run_one_def Let_def r1_def[symmetric] tab_def)
  next
    case (Some opt)
    obtain e where e: "e = tab ! opt_handler opt" "entry_reads e" "ent_name e = command_name r i" "opt_authority opt = lev (ent_level e)"
      using table_entry[OF Some[unfolded tab_def] entries_read] unfolding tab_def by blast
    have "watched_fields (Suc i) r w (api_run k others tab (opt_handler opt) i (r1, w))" if "authority r \<le> lev (ent_level e)"
    proof -
      from that lev have "ent_level e = AUTH_VIEWER \<or> ent_level e = AUTH_NONE" by (cases "ent_level e") auto
      then obtain cmd where cmd: "ent_handler e = Cmd cmd" "reads_only cmd"
        using e(2,3) i(2) by (auto simp: entry_reads_def split: handler.splits)
      obtain q where q: "run_command k cmd i (r1, w) = (q, w)" "core q = core r1"
        using run_command_reads[OF cmd(2), of k i "(r1, w)"] by (cases "run_command k cmd i (r1, w)") auto
      then show ?thesis using base[of q] core_fields[OF q(2)] cmd(1) e(1) by (simp add: api_run_def)
    qed
    then show ?thesis using Some said n w a e(4) by (simp add: run_one_def Let_def r1_def[symmetric] tab_def[symmetric])
  qed
qed

definition sample_levels :: "level \<Rightarrow> int" where
  "sample_levels l = (case l of AUTH_ADMIN \<Rightarrow> 0 | AUTH_OPERATOR \<Rightarrow> 1 | AUTH_VIEWER \<Rightarrow> 2 | AUTH_NONE \<Rightarrow> 3)"

definition plain_camera :: "unit camera" where
  "plain_camera =
    \<lparr>cfg_u8 = \<lambda>_ _. 0, cfg_u16 = \<lambda>_ _. 0, cfg_u32 = \<lambda>_ _. 0, cfg_s8 = \<lambda>_ _. 0, cfg_value = \<lambda>_ _. 0, cfg_min = \<lambda>_ _. 0, cfg_max = \<lambda>_ _. 1,
     cfg_string = \<lambda>_ _. ''x'', info_num = \<lambda>_ _. 0, info_str = \<lambda>_ _. ''x'', info_store = \<lambda>_ _ w. w, macro = \<lambda>_. None, macro_text = \<lambda>_. ''x'',
     control = \<lambda>_ _ w. (0, w), info_write = \<lambda>_ _ w. (0, w), extern = \<lambda>_ _ w. w\<rparr>"

definition bwc_query :: request where
  "bwc_query = fresh\<lparr>authority := 2, cmd_arg := [\<lparr>arg_name = ''supportBWC'', arg_value = Some [], arg_flags = 0\<rparr>]\<rparr>"

lemma bwc_query_name: "command_name bwc_query 0 = ''supportbwc''"
  by (simp add: command_name_def bwc_query_def strtolower_def lower_ascii_def nth_append) code_simp

text \<open>
  C4: Users without the rights of an operator change nothing. For a request whose authority is worse than that of an operator, and any
  query of commands outside the two lists, whatever the camera, its build and its other handlers: the system is left as it was and the request does not
  ask for a restart. The lists name the three commands of viewers that set something, and the commands open to viewers whose handlers
  are not translated.
\<close>

theorem viewers_change_nothing:
  assumes "lev AUTH_ADMIN \<le> lev AUTH_OPERATOR" "lev AUTH_OPERATOR < authority r" "num \<le> length (cmd_arg r)"
    "\<forall>i < num. command_name r i \<notin> set (open_setters @ open_others)"
  shows "\<exists>r'. http_run_command cfg (hash_table_init (http_options lev (HttpOptionTable k))) restarting
      (api_run k others (HttpOptionTable k)) num (r, w) = (r', process_bottom_half w) \<and> asks r' = asks r"
proof -
  let ?run = "run_one (hash_table_init (http_options lev (HttpOptionTable k))) restarting (api_run k others (HttpOptionTable k))"
  let ?r = "send_request_ok_api cfg r"
  have ok: "authority ?r = authority r" "cmd_arg ?r = cmd_arg r" "asks ?r = asks r"
    by (simp_all add: send_request_ok_api_def emit_fields) (simp add: asks_def)
  have "watched_fields num ?r w (fold ?run [0..<num] (?r, w))"
  proof (rule fold_upt_invariant[of "\<lambda>i. watched_fields i ?r w"])
    show "watched_fields (Suc i) ?r w (?run i s)" if "i < num" "watched_fields i ?r w s" for i s
      by (rule run_one_reads[OF assms(1) _ _ _ that(2)]) (use assms ok that(1) in \<open>auto simp: command_name_def\<close>)
  qed (simp add: watched_fields_def)
  then show ?thesis using ok by (auto simp: http_run_command_def watched_fields_def req_copy_def Let_def asks_def split: prod.split)
qed

theorem viewers_change_nothing_witness:
  "\<exists>r'. http_run_command sample_conf (hash_table_init (http_options sample_levels (HttpOptionTable plain_camera))) False
      (api_run plain_camera (\<lambda>f i st. st) (HttpOptionTable plain_camera)) 1 (bwc_query, quiet_world) = (r', process_bottom_half quiet_world) \<and>
    asks r' = asks bwc_query"
proof -
  have "''supportbwc'' \<notin> set (open_setters @ open_others)" by code_simp
  then have "\<forall>i < 1. command_name bwc_query i \<notin> set (open_setters @ open_others)" using bwc_query_name by simp
  then show ?thesis by (intro viewers_change_nothing) (simp_all add: sample_levels_def bwc_query_def)
qed

subsection \<open>The answer to a query\<close>

text \<open>The commands that are translated, permitted to the request, and answer in the usual way.\<close>

definition can_run :: "(level \<Rightarrow> int) \<Rightarrow> 'w camera \<Rightarrow> int \<Rightarrow> cstring \<Rightarrow> bool" where
  "can_run lev k auth n \<longleftrightarrow> n \<notin> set odd_commands \<and>
    (case http_option_search n (hash_table_init (http_options lev (HttpOptionTable k))) of None \<Rightarrow> False
     | Some opt \<Rightarrow> auth \<le> opt_authority opt \<and> (case ent_handler (HttpOptionTable k ! opt_handler opt) of Cmd cmd \<Rightarrow> True | Other f \<Rightarrow> False))"

lemma req_sprintf_ok:
  assumes "buf_ok r" "buffer_end r + length s \<le> BUFFER_SIZE"
  shows "buf_ok (req_sprintf s r) \<and> outstream (req_sprintf s r) = outstream r @ s"
proof -
  have "take (buffer_end r + length s) (mem_put (buffer_end r) (s @ [NUL]) (buffer r)) = take (buffer_end r) (buffer r) @ s"
    using assms by (simp add: mem_put_def buf_ok_def)
  then show ?thesis using assms by (simp add: outstream_def pending_def req_sprintf_def buf_ok_def)
qed

lemma printed_ok:
  assumes "printed [l] r r'" "buf_ok r" "buffer_end r + length l \<le> BUFFER_SIZE"
  shows "buf_ok r' \<and> outstream r' = outstream r @ l \<and> buffer_end r' = buffer_end r + length l \<and>
    authority r' = authority r \<and> cmd_arg r' = cmd_arg r \<and> status r' = status r"
  using assms(1) req_sprintf_ok[OF assms(2,3)]
  by (auto simp: printed_def buf_ok_def outstream_def pending_def) (auto simp: req_sprintf_def)

definition line_room :: "nat \<Rightarrow> nat" where
  "line_room S = S + MAX_CMD_NAME + 5"

lemma answer_line_length: "answer_line S n l \<Longrightarrow> length n \<le> MAX_CMD_NAME \<Longrightarrow> length l \<le> line_room S"
  by (auto simp: answer_line_def line_room_def OPTION_OK_def OPTION_NG_def OPTION_NS_def nl_def)

text \<open>The state after \<open>i\<close> commands: the lines so far are printed, the arguments to come are as they were.\<close>

definition answered :: "nat \<Rightarrow> request \<Rightarrow> nat \<Rightarrow> request \<times> 'w cmd_world \<Rightarrow> bool" where
  "answered S r i st \<longleftrightarrow> buf_ok (fst st) \<and> authority (fst st) = authority r \<and> status (fst st) = status r \<and>
     length (cmd_arg (fst st)) = length (cmd_arg r) \<and> (\<forall>j. i \<le> j \<longrightarrow> cmd_arg (fst st) ! j = cmd_arg r ! j) \<and>
     buffer_end (fst st) \<le> buffer_end r + i * line_room S \<and>
     (\<exists>ls. length ls = i \<and> (\<forall>j < i. answer_line S (command_name r j) (ls ! j)) \<and> outstream (fst st) = outstream r @ concat ls)"

lemma run_one_answers:
  fixes k :: "'w camera"
  assumes fit: "strings_fit S k" and i: "i < length (cmd_arg r)" "can_run lev k (authority r) (command_name r i)"
    and room: "buffer_end r + Suc i * line_room S \<le> BUFFER_SIZE" and st: "answered S r i st"
  shows "answered S r (Suc i)
    (run_one (hash_table_init (http_options lev (HttpOptionTable k))) False (api_run k others (HttpOptionTable k)) i st)"
proof -
  define r1 where "r1 = lower_name i (fst st)"
  have n: "arg_name (cmd_arg r1 ! i) = command_name r i" and a: "authority r1 = authority r"
    using st i lower_name_fields(3)[of i "fst st"] by (simp_all add: answered_def r1_def command_name_def)
  have r1: "buf_ok r1" "outstream r1 = outstream (fst st)" "buffer_end r1 = buffer_end (fst st)" "status r1 = status (fst st)"
    using st by (simp_all add: answered_def r1_def lower_name_def buf_ok_def outstream_def pending_def)
  obtain opt cmd where opt: "http_option_search (command_name r i) (hash_table_init (http_options lev (HttpOptionTable k))) = Some opt"
      "authority r \<le> opt_authority opt" "ent_handler (HttpOptionTable k ! opt_handler opt) = Cmd cmd"
    using i(2) by (auto simp: can_run_def split: option.splits handler.splits)
  have len: "length (command_name r i) \<le> MAX_CMD_NAME" using table_entry[OF opt(1) entries_name] by metis
  have once: "answers_once S cmd"
    using table_entry[OF opt(1) entries_answer[where S = S]] opt(3) i(2) by (auto simp: entry_answers_def can_run_def)
  obtain l where l: "answer_line S (command_name r i) l" "printed [l] r1 (fst (run_command k cmd i (r1, snd st)))"
    using run_command_answers[OF once fit, where st = "(r1, snd st)" and i = i] n by auto
  have "length l \<le> line_room S" by (rule answer_line_length[OF l(1) len])
  moreover have "buffer_end r1 \<le> buffer_end r + i * line_room S" using st r1(3) by (simp add: answered_def)
  ultimately have e: "buffer_end r1 + length l \<le> BUFFER_SIZE" "buffer_end r1 + length l \<le> buffer_end r + Suc i * line_room S"
    using room by simp_all
  obtain ls where ls: "length ls = i" "\<forall>j < i. answer_line S (command_name r j) (ls ! j)" "outstream (fst st) = outstream r @ concat ls"
    using st by (auto simp: answered_def)
  have "\<forall>j < Suc i. answer_line S (command_name r j) ((ls @ [l]) ! j)" using ls l(1) by (auto simp: nth_append less_Suc_eq)
  moreover have "fst (run_one (hash_table_init (http_options lev (HttpOptionTable k))) False (api_run k others (HttpOptionTable k)) i st) =
      fst (run_command k cmd i (r1, snd st))"
    using opt a n by (simp add: run_one_def Let_def r1_def[symmetric] api_run_def)
  ultimately show ?thesis unfolding answered_def
    using printed_ok[OF l(2) r1(1) e(1)] e(2) r1 st ls
    by (auto simp: answered_def r1_def lower_name_fields intro!: exI[of _ "ls @ [l]"])
qed

definition api_header :: cstring where
  "api_header = ''HTTP/1.1 200 OK'' @ CRLF @ ''Content-type: text/html'' @ CRLF @ ''Pragma: no-cache'' @ CRLF @ ''Cache-Control: no-store'' @ CRLF @ CRLF"

lemma length_api_header: "length api_header = 87"
  by (simp add: api_header_def)

lemma send_request_ok_api_room:
  fixes cfg :: conf
  assumes "buf_ok r" "status r \<noteq> DEAD" "buffer_end r + 100 \<le> BUFFER_SIZE"
  defines "q \<equiv> send_request_ok_api cfg r"
  shows "buf_ok q" "outstream q = outstream r @ api_header" "buffer_end q = buffer_end r + 87" "status q = status r"
    "authority q = authority r" "cmd_arg q = cmd_arg r"
proof -
  have "q = append_to_buffer api_header (r\<lparr>response_status := R_REQUEST_OK\<rparr>)"
    using assms length_api_header w_txt.wr_room[of "r\<lparr>response_status := R_REQUEST_OK\<rparr>" api_header]
    by (simp add: q_def send_request_ok_api_def emit_def api_header_def)
  then show "buf_ok q" "outstream q = outstream r @ api_header" "buffer_end q = buffer_end r + 87" "status q = status r"
    "authority q = authority r" "cmd_arg q = cmd_arg r"
    using assms(1,3) append_to_buffer_ok[of "r\<lparr>response_status := R_REQUEST_OK\<rparr>" api_header]
      outstream_append[of "r\<lparr>response_status := R_REQUEST_OK\<rparr>" api_header]
    by (simp_all add: length_api_header) (simp_all add: append_to_buffer_def)
qed


lemma search_find: "http_option_search n (hash_table_init opts) = find (\<lambda>opt. opt_name opt = n) (rev opts)"
  unfolding hash_table_init_def options.look_table by (rule arg_cong[where f = "\<lambda>P. find P (rev opts)"]) auto

lemma entry_found:
  assumes "tab = xs @ e # ys" "ent_name e \<notin> ent_name ` set ys"
  shows "\<exists>opt. http_option_search (ent_name e) (hash_table_init (http_options lev tab)) = Some opt \<and> tab ! opt_handler opt = e \<and>
    opt_authority opt = lev (ent_level e)"
proof -
  let ?o = "\<lambda>(i, e). \<lparr>opt_name = ent_name e, opt_handler = i, opt_authority = lev (ent_level e), opt_flag = ent_flag e\<rparr>"
  have "rev (http_options lev tab) = map ?o (rev (enumerate (Suc (length xs)) ys)) @ ?o (length xs, e) # rev (http_options lev xs)"
    by (simp add: assms(1) http_options_def enumerate_append_eq rev_map)
  moreover have "find (\<lambda>opt. opt_name opt = ent_name e) (map ?o (rev (enumerate (Suc (length xs)) ys))) = None"
    using assms(2) by (auto simp: find_None_iff set_zip enumerate_eq_zip) (metis image_eqI nth_mem)
  ultimately have "find (\<lambda>opt. opt_name opt = ent_name e) (rev (http_options lev tab)) = Some (?o (length xs, e))"
    by (simp add: find_append)
  then show ?thesis using assms(1) by (simp add: search_find)
qed

lemma plain_table:
  obtains xs where "HttpOptionTable plain_camera = xs @ [Opt ''supportbwc'' (Cmd get_support_BWC) AUTH_NONE API_NONE,
    Opt ''logtvoutdebug'' (Other ''set_log_tvout_debug'') AUTH_OPERATOR API_NONE]"
proof -
  have "drop 54 (HttpOptionTable_8 plain_camera) = [Opt ''supportbwc'' (Cmd get_support_BWC) AUTH_NONE API_NONE,
      Opt ''logtvoutdebug'' (Other ''set_log_tvout_debug'') AUTH_OPERATOR API_NONE]"
    by (simp add: HttpOptionTable_8_def defined_def plain_camera_def)
  then show thesis using that append_take_drop_id[of 54 "HttpOptionTable_8 plain_camera"] unfolding HttpOptionTable_def
    by (metis append_assoc)
qed

lemma plain_table_found:
  "\<exists>opt. http_option_search ''supportbwc'' (hash_table_init (http_options lev (HttpOptionTable plain_camera))) = Some opt \<and>
    HttpOptionTable plain_camera ! opt_handler opt = Opt ''supportbwc'' (Cmd get_support_BWC) AUTH_NONE API_NONE \<and>
    opt_authority opt = lev AUTH_NONE"
proof (rule plain_table)
  fix xs assume "HttpOptionTable plain_camera = xs @ [Opt ''supportbwc'' (Cmd get_support_BWC) AUTH_NONE API_NONE,
    Opt ''logtvoutdebug'' (Other ''set_log_tvout_debug'') AUTH_OPERATOR API_NONE]"
  from entry_found[OF this, of lev] show ?thesis by simp
qed


subsection \<open>Values are checked\<close>

definition limited_settings :: "(cstring \<times> 'w command) list" where
  "limited_settings = net_limits @ image_limits @ stream_limits @ system_limits"

lemma limited_settings_hold: "(F, cmd) \<in> set limited_settings \<Longrightarrow> within_limit F cmd"
  using net_limits_hold image_limits_hold stream_limits_hold system_limits_hold
  by (auto simp: limited_settings_def list_all_iff)

text \<open>
  C20: Settings are checked before they are handed on. For every setting of the list, with the field whose limit it checks, and in every situation: whatever the
  command hands to the system is a number between 0 and the limit of the field, or a text no longer than the limit.
\<close>

theorem settings_within_limits:
  assumes "(F, cmd) \<in> set limited_settings" "x \<in> set (calls (snd (block cmd c)))" "calls c = []"
  shows "in_limit (max_of F c) (snd x)"
  using limited_settings_hold[OF assms(1)] assms(2,3) unfolding within_limit_def always_iff by force

definition ddns_context :: "cstring \<Rightarrow> unit ctx" where
  "ddns_context v = \<lparr>cam = plain_camera\<lparr>cfg_u8 := \<lambda>_ _. 1\<rparr>, argm = \<lparr>arg_name = ''ddnsenable'', arg_value = Some v, arg_flags = 0\<rparr>, req = fresh,
    world = quiet_world, calls = []\<rparr>"

lemmas exec_defs = if_then_def if_else_def do_once_def bind_def brk_def ret_def say_def say_text_def control_data_def write_info_def
  extern_call_def store_info_def set_flag_def set_ntpd_def

lemma ddns_calls: "calls (snd (block set_ddnsenable (ddns_context ''256''))) = [(''SFIELD_SET_DDNS_ENABLE'', Num 1 0)]"
proof -
  have "atoi ''256'' = 256" "list_all isdigit ''256''" by code_simp+
  then show ?thesis
    by (simp add: set_ddnsenable_def exec_defs ddns_context_def plain_camera_def val_def u8_def max_of_def to_u8_def quiet_world_def)
qed

theorem settings_within_limits_witness:
  "(''SFIELD_SET_DDNS_ENABLE'', Num 1 0) \<in> set (calls (snd (block set_ddnsenable (ddns_context ''256'')))) \<and>
   in_limit (max_of ''DDNS_ENABLE'' (ddns_context ''256'')) (Num 1 0)"
  using settings_within_limits[of "''DDNS_ENABLE''" set_ddnsenable "(''SFIELD_SET_DDNS_ENABLE'', Num 1 0)" "ddns_context ''256''"] ddns_calls
  by (simp add: limited_settings_def net_limits_def ddns_context_def)

text \<open>The settings that keep their value in a byte before they check it.\<close>

definition byte_settings :: "'w command list" where
  "byte_settings = [
    set_ddnsenable, set_pppoeenable, set_upnpenable, set_agcctrl, set_hspeedshutter, set_backlight, set_denoise, set_evcomp,
    set_dremode, set_saturation, set_hue, set_wdrenable, set_wdrlevel, set_vspanspeed, set_vstiltspeed, set_maskareaenable,
    set_485protocol, set_485id, set_prf4qmod, motiondrawenable, set_motionpercentage, set_blcmode, set_timeformat, set_tstampenable,
    set_tstamploc, set_audiooutvolume, set_audioinsourceswitch, set_mui]"

definition with_value :: "cstring \<Rightarrow> 'w ctx \<Rightarrow> 'w ctx" where
  "with_value v c = c\<lparr>argm := (argm c)\<lparr>arg_value := Some v\<rparr>\<rparr>"

lemma with_value_simps [simp]:
  "val (with_value v c) = v" "name (with_value v c) = name c" "world (with_value v c) = world c" "calls (with_value v c) = calls c"
  "req (with_value v c) = req c" "cam (with_value v c) = cam c" "with_value v (with_value u c) = with_value v c"
  "(with_value v c)\<lparr>world := w\<rparr> = with_value v (c\<lparr>world := w\<rparr>)" "(with_value v c)\<lparr>calls := h\<rparr> = with_value v (c\<lparr>calls := h\<rparr>)"
  "(with_value v c)\<lparr>req := q\<rparr> = with_value v (c\<lparr>req := q\<rparr>)"
  by (simp_all add: with_value_def val_def name_def)

lemma with_value_config [simp]:
  "max_of F (with_value v c) = max_of F c" "min_of F (with_value v c) = min_of F c" "u8 F (with_value v c) = u8 F c"
  "ivalue F (with_value v c) = ivalue F c" "macro_defined x (with_value v c) = macro_defined x c"
  "macro_val x (with_value v c) = macro_val x c" "macro_str x (with_value v c) = macro_str x c"
  "conf_string F (with_value v c) = conf_string F c" "sysinfo F (with_value v c) = sysinfo F c" "sysinfo_str F (with_value v c) = sysinfo_str F c"
  by (simp_all add: max_of_def min_of_def u8_def ivalue_def macro_defined_def macro_val_def macro_str_def conf_string_def sysinfo_def sysinfo_str_def)

lemma with_value_profile [simp]: "profile_check (with_value v c) n = profile_check c n"
  by (simp add: profile_check_def Let_def)

definition wraps :: "'w command \<Rightarrow> bool" where
  "wraps cmd \<longleftrightarrow> (\<forall>c v u. v \<noteq> [] \<longrightarrow> u \<noteq> [] \<longrightarrow> list_all isdigit v \<longrightarrow> list_all isdigit u \<longrightarrow> to_u8 (atoi v) = to_u8 (atoi u) \<longrightarrow>
     block cmd (with_value v c) = map_prod id (with_value v) (block cmd (with_value u c)))"

lemma byte_settings_wrap: "list_all wraps byte_settings"
  unfolding byte_settings_def list.pred_inject wraps_def command_defs
  by (intro conjI allI impI TrueI; simp add: exec_defs split: prod.splits flow.splits)

text \<open>
  C40: The limit of a setting that is kept in a byte can be passed. Two numbers whose difference is a multiple of 256 have the same effect: the system gets the same calls,
  and the answers are the same. A number far above the limit is accepted when its low byte is not above it.
\<close>

theorem byte_settings_ignore_high_bits:
  assumes "cmd \<in> set byte_settings" "list_all isdigit v" "list_all isdigit u" "v \<noteq> []" "u \<noteq> []" "atoi v mod 256 = atoi u mod 256"
  shows "calls (snd (block cmd (with_value v c))) = calls (snd (block cmd (with_value u c))) \<and>
    req (snd (block cmd (with_value v c))) = req (snd (block cmd (with_value u c))) \<and>
    world (snd (block cmd (with_value v c))) = world (snd (block cmd (with_value u c)))"
proof -
  have "wraps cmd" by (rule bspec[OF byte_settings_wrap[unfolded list_all_iff] assms(1)])
  moreover have "to_u8 (atoi v) = to_u8 (atoi u)" using assms(6) by (simp add: to_u8_def)
  ultimately have "block cmd (with_value v c) = map_prod id (with_value v) (block cmd (with_value u c))"
    using assms(2-5) unfolding wraps_def by blast
  then show ?thesis by simp
qed

theorem byte_settings_ignore_high_bits_witness:
  "calls (snd (block set_ddnsenable (with_value ''0'' (ddns_context ''256'')))) = [(''SFIELD_SET_DDNS_ENABLE'', Num 1 0)]"
proof -
  have n: "list_all isdigit ''256''" "list_all isdigit ''0''" "atoi ''256'' = 256" "atoi ''0'' = 0" by code_simp+
  have "with_value ''256'' (ddns_context ''256'') = ddns_context ''256''" by (simp add: with_value_def ddns_context_def)
  then show ?thesis
    using byte_settings_ignore_high_bits[of set_ddnsenable "''256''" "''0''" "ddns_context ''256''"] n ddns_calls
    by (simp add: byte_settings_def)
qed

subsection \<open>Commands for everybody\<close>

definition open_names :: "'w option_entry list \<Rightarrow> cstring list" where
  "open_names es = map ent_name (filter (\<lambda>e. ent_level e = AUTH_NONE) es)"

lemma open_names_simps [simp]:
  "open_names [] = []" "open_names (es @ es') = open_names es @ open_names es'"
  "open_names (if b then es else es') = (if b then open_names es else open_names es')"
  "open_names (Opt n h AUTH_NONE f # es) = n # open_names es" "open_names (Opt n h AUTH_ADMIN f # es) = open_names es"
  "open_names (Opt n h AUTH_OPERATOR f # es) = open_names es" "open_names (Opt n h AUTH_VIEWER f # es) = open_names es"
  by (simp_all add: open_names_def)

lemma open_names_table:
  "open_names (HttpOptionTable_1 k) = [''getmachinecode'']" "open_names (HttpOptionTable_2 k) = []" "open_names (HttpOptionTable_3 k) = []"
  "open_names (HttpOptionTable_4 k) = []" "open_names (HttpOptionTable_5 k) = [''login'', ''logout'', ''getauthority'']"
  "open_names (HttpOptionTable_6 k) = []" "open_names (HttpOptionTable_7 k) = []"
  "open_names (HttpOptionTable_8 k) = (if defined k ''SUPPORT_VISCA''
    then [''getburnstatus'', ''viscagetdate'', ''viscagettime'', ''viscawintimezone'', ''viscanewdate'', ''viscanewtime'', ''viscasetallreboot'',
      ''viscafactorydefault'', ''viscagiooutalwayson'', ''viscagetdlinkalarmstatus'', ''viscasetmac'']
    else []) @ [''supportqos'', ''supportcos'', ''supportbwc'']"
  by (simp_all only: table_defs open_names_simps if_cancel append_Nil append_Nil2 append_Cons)


subsection \<open>Three handlers that do not do what they mean\<close>

text \<open>
  Reading \<open>sensorcropenable\<close> switches the crop off: after the answer there is no return, and the empty value counts as 0.
\<close>

theorem sensorcropenable_read_writes:
  assumes "macro (cam c) ''USE_SENSOR_CROP'' = Some n" "n \<noteq> 0" "arg_value (argm c) = Some []" "0 < u32 ''SENSOR_CROP_ENABLE'' c"
  shows "calls (snd (block sensorcropenable c)) = (''SENSOR_CROP_ENABLE'', Num 4 0) # calls c"
proof -
  have "val c = []" "macro_val ''USE_SENSOR_CROP'' c = n" using assms by (simp_all add: val_def macro_val_def)
  moreover have "atoi [] = 0" by code_simp
  ultimately show ?thesis using assms by (simp add: sensorcropenable_def exec_defs to_u32_def u32_def split: prod.splits)
qed

text \<open>\<open>sensorstarty\<close> never sets anything: the return of its first branch has lost its braces.\<close>

theorem sensorstarty_never_sets: "world (snd (block sensorstarty c)) = world c"
proof -
  have "always sensorstarty c (\<lambda>c'. world c' = world c)"
    unfolding always_def sensorstarty_def by (intro wp; simp)
  then show ?thesis by (simp add: always_iff)
qed

end
