(* ===== verification/Boa_Web_Page.thy ===== *)
theory Boa_Web_Page
  imports Boa_Web_Table Boa_Api_Run Boa_Template
begin

text \<open>
  The values that a page shows (\<open>TranslateWebPara\<close> of \<^verbatim>\<open>web_translate.c\<close> and \<open>html_argument_parse\<close> of \<^verbatim>\<open>get.c\<close>) on the table and the printers of the
  camera: a value fits the memory that its callers provide, and a user without the rights of an operator learns nothing of the secret strings of
  the configuration from a page.
\<close>

subsection \<open>The value of an argument\<close>

definition page_table :: "(level \<Rightarrow> int) \<Rightarrow> 'w camera \<Rightarrow> html_argument list list" where
  "page_table lev k = arg_hash_table_init (html_arguments lev (HttpArgument k))"

abbreviation page_value ::
  "'w ctx \<Rightarrow> (cstring \<Rightarrow> cstring \<Rightarrow> request \<Rightarrow> int \<times> cstring) \<Rightarrow> (level \<Rightarrow> int) \<Rightarrow> 'w camera \<Rightarrow> request \<Rightarrow> cstring \<Rightarrow> cstring \<Rightarrow> (int \<times> cstring) option" where
  "page_value c others lev k \<equiv> TranslateWebPara (print_argument c others (HttpArgument k)) (page_table lev k)"

lemma arg_search_member:
  assumes "arg_search para (arg_hash_table_init xs) = Some a"
  shows "a \<in> set xs \<and> strcaseeq (harg_name a) para"
  using assms nth_mem[of _ "rev xs"] by (force simp: arg_hash_table_init_def args.look_table find_Some_iff strcaseeq_def)

lemma arg_entry_found:
  assumes "arg_search para (page_table lev k) = Some a" "list_all P (HttpArgument k)"
  obtains i where "i < length (HttpArgument k)" "P (HttpArgument k ! i)" "strcaseeq (ent_arg (HttpArgument k ! i)) para"
    "a = \<lparr>harg_name = ent_arg (HttpArgument k ! i), harg_handler = Some i, harg_authority = lev (ent_right (HttpArgument k ! i))\<rparr>"
proof -
  have "a \<in> set (html_arguments lev (HttpArgument k))" and para: "strcaseeq (harg_name a) para"
    using arg_search_member[OF assms(1)[unfolded page_table_def]] by simp_all
  then obtain x where x: "x \<in> set (enumerate 0 (HttpArgument k))" and
    a: "a = (case x of (i, e) \<Rightarrow> \<lparr>harg_name = ent_arg e, harg_handler = Some i, harg_authority = lev (ent_right e)\<rparr>)"
    unfolding html_arguments_def set_map by blast
  obtain i e where ie: "x = (i, e)" by fastforce
  have "i < length (HttpArgument k)" "e = HttpArgument k ! i" using x ie by (simp_all add: in_set_enumerate_eq)
  then show thesis using that[of i] assms(2) para a ie by (simp add: list_all_length)
qed

lemma page_table_no_null: "no_null (page_table lev k)"
proof -
  have "harg_handler a \<noteq> None" if "arg_search para (page_table lev k) = Some a" for para a
    by (rule arg_entry_found[OF that arguments_fit[where S = 0]]) simp
  then show ?thesis by (simp add: no_null_def)
qed

lemma print_argument_ok:
  assumes "strings_fit S (cam c)" "\<forall>f sub q. result_ok S (others f sub q)"
  shows "result_ok S (print_argument c others (HttpArgument k) i sub r)"
proof -
  have "entry_fits S (HttpArgument k ! i)" if "i < length (HttpArgument k)"
    using arguments_fit[of S k] that by (simp only: list_all_length)
  then show ?thesis using assms by (auto simp: print_argument_def entry_fits_def printer_fits_def result_ok_fails split: page_printer.splits)
qed

lemma print_argument_prints:
  assumes "strings_fit S (cam c)" "\<forall>f sub q. result_ok S (others f sub q)"
  shows "prints (print_argument c others (HttpArgument k))"
  unfolding prints_def
proof (intro allI)
  fix h sub r
  show "case print_argument c others (HttpArgument k) h sub r of (sz, bytes) \<Rightarrow>
      if sz < 0 then bytes = [] else nat sz \<le> length bytes \<and> length bytes \<le> nat sz + 1"
    using print_argument_ok[OF assms, of k h sub r] by (auto simp: result_ok_def split: prod.split)
qed

lemma page_value_bound:
  assumes "strings_fit S (cam c)" "S \<le> 255" "\<forall>f sub q. result_ok S (others f sub q)"
  shows "\<exists>n s. page_value c others lev k r para sub = Some (n, s) \<and> (n < 0 \<or> n = int (length s) \<and> length s < 1024)"
proof (cases "arg_search para (page_table lev k)")
  case None
  then show ?thesis by (simp add: TranslateWebPara_def)
next
  case (Some a)
  then obtain i where i: "harg_handler a = Some i" using page_table_no_null[of lev k] by (auto simp: no_null_def)
  obtain n s where ns: "print_argument c others (HttpArgument k) i sub r = (n, s)" by fastforce
  have "n < 0 \<or> n = int (length s) \<and> length s < 1024"
    using print_argument_ok[OF assms(1,3), of k i sub r] ns assms(2) by (auto simp: result_ok_def)
  then show ?thesis using Some i ns by (simp add: TranslateWebPara_def)
qed



subsection \<open>Values keep the secrets\<close>

lemma page_value_blind:
  assumes "lev AUTH_ADMIN \<le> lev AUTH_OPERATOR" "lev AUTH_OPERATOR < authority r" "same_strings public_strings s c"
    "\<forall>n \<in> set hidden_arguments. \<not> strcaseeq n para"
  shows "page_value (swap_strings s c) others' lev k r para sub = page_value c others lev k r para sub"
proof (cases "arg_search para (page_table lev k)")
  case None
  then show ?thesis by (simp add: TranslateWebPara_def)
next
  case (Some a)
  let ?e = "\<lambda>i. HttpArgument k ! i"
  obtain i where i: "i < length (HttpArgument k)" "entry_blind hidden_arguments (?e i)" "strcaseeq (ent_arg (?e i)) para"
      "a = \<lparr>harg_name = ent_arg (?e i), harg_handler = Some i, harg_authority = lev (ent_right (?e i))\<rparr>"
    by (rule arg_entry_found[OF Some arguments_blind])
  have swap: "(swap_strings s c)\<lparr>req := r\<rparr> = swap_strings s (c\<lparr>req := r\<rparr>)" "same_strings public_strings s (c\<lparr>req := r\<rparr>)"
    using assms(3) by (simp_all add: swap_strings_def same_strings_def)
  have "print_argument (swap_strings s c) others' (HttpArgument k) i sub r = print_argument c others (HttpArgument k) i sub r"
    if "authority r \<le> lev (ent_right (?e i))"
  proof -
    from that assms(1,2) have "ent_right (?e i) \<in> {AUTH_VIEWER, AUTH_NONE}" by (cases "ent_right (?e i)") auto
    then obtain p where "ent_printer (?e i) = Prt p" "blind public_strings p"
      using i(2,3) assms(4) by (auto simp: entry_blind_def split: page_printer.splits)
    then show ?thesis using swap i(1) by (simp add: print_argument_def blind_def)
  qed
  then show ?thesis using Some i(4) by (simp add: TranslateWebPara_def)
qed

subsection \<open>Whole pages\<close>

text \<open>The names in the tags of a page, in order.\<close>

function page_tags :: "cstring \<Rightarrow> cstring list" where
  "page_tags s = (case strrfind s of
     None \<Rightarrow> []
   | Some (t0, t1) \<Rightarrow> fst (split_arg (take (t1 - t0 - 2) (drop (t0 + 2) s))) # page_tags (drop (t1 + 2) s))"
  by pat_completeness auto
termination
  by (relation "measure length") (auto dest: strrfind_bounds)

declare page_tags.simps [simp del]

lemma page_tags_tag:
  assumes "strrfind s = Some (t0, t1)"
  shows "page_tags s = fst (split_arg (take (t1 - t0 - 2) (drop (t0 + 2) s))) # page_tags (drop (t1 + 2) s)"
  using assms by (subst page_tags.simps) simp

text \<open>The same values give the same page, and leave the same room.\<close>

lemma tag_value_cong:
  assumes "\<forall>sub. TranslateWebPara h tab r (fst (split_arg (take (t1 - t0 - 2) (drop (t0 + 2) s)))) sub =
    TranslateWebPara h' tab r (fst (split_arg (take (t1 - t0 - 2) (drop (t0 + 2) s)))) sub"
  shows "tag_value h tab r s t0 t1 = tag_value h' tab r s t0 t1"
  using assms by (auto simp: tag_value_def split: prod.split)

lemma expand_cong:
  assumes "\<forall>para \<in> set (page_tags s). \<forall>sub. TranslateWebPara h tab r para sub = TranslateWebPara h' tab r para sub"
  shows "expand h tab r s = expand h' tab r s \<and> roomy h tab r slack s = roomy h' tab r slack s"
  using assms
proof (induction "length s" arbitrary: s slack rule: less_induct)
  case less
  show ?case
  proof (cases "strrfind s")
    case None
    then show ?thesis by (simp add: expand.simps[of _ _ _ s] roomy.simps[of _ _ _ _ s])
  next
    case (Some t)
    then obtain t0 t1 where f: "strrfind s = Some (t0, t1)" by (cases t) auto
    have v: "tag_value h tab r s t0 t1 = tag_value h' tab r s t0 t1"
      using less.prems page_tags_tag[OF f] by (intro tag_value_cong) simp
    have "length (drop (t1 + 2) s) < length s" using strrfind_bounds[OF f] by auto
    note IH = less.hyps[OF this]
    show ?thesis using IH less.prems page_tags_tag[OF f] f v
      by (simp add: expand.simps[of _ _ _ s] roomy.simps[of _ _ _ _ s] Let_def)
  qed
qed

text \<open>There is room for a page when its length and 1024 bytes for each tag are within the room.\<close>

lemma roomy_small:
  assumes "\<And>para sub. \<exists>n v. TranslateWebPara h tab r para sub = Some (n, v) \<and> (n < 0 \<or> n = int (length v) \<and> length v < 1024)"
  shows "length s + 1024 * length (page_tags s) \<le> slack \<Longrightarrow> roomy h tab r slack s"
proof (induction "length s" arbitrary: s slack rule: less_induct)
  case less
  show ?case
  proof (cases "strrfind s")
    case None
    then show ?thesis by (simp add: roomy.simps[of _ _ _ _ s])
  next
    case (Some t)
    then obtain t0 t1 where f: "strrfind s = Some (t0, t1)" by (cases t) auto
    note b = strrfind_bounds[OF f]
    let ?v = "tag_value h tab r s t0 t1" and ?a = "split_arg (take (t1 - t0 - 2) (drop (t0 + 2) s))"
    obtain n v where "TranslateWebPara h tab r (fst ?a) (snd ?a) = Some (n, v)" "n < 0 \<or> n = int (length v) \<and> length v < 1024" using assms by blast
    then have v: "length ?v \<le> t1 + 2 - t0 \<or> length ?v < 1024" by (auto simp: tag_value_def Let_def split: prod.splits)
    have small: "length (drop (t1 + 2) s) < length s" using b by auto
    have tags: "length s + 1024 + 1024 * length (page_tags (drop (t1 + 2) s)) \<le> slack" using less.prems page_tags_tag[OF f] by simp
    then have "roomy h tab r (slack + t1 + 2 - (t0 + length ?v)) (drop (t1 + 2) s)" using v b by (intro less.hyps[OF small]) auto
    moreover have "t1 + 2 - t0 \<le> slack" "t0 + length ?v < slack + t1 + 2" using v b tags by auto
    ultimately show ?thesis using f by (simp add: roomy.simps[of _ _ _ _ s] Let_def)
  qed
qed

lemma page_expanded:
  assumes "strings_fit S (cam c)" "\<forall>f sub q. result_ok S (others f sub q)" "nul_free page" "HTTP_PARSE_LENGTH \<le> length junk"
    "roomy (print_argument c others (HttpArgument k)) (page_table lev k) r HTTP_PARSE_LENGTH page"
  shows "html_argument_parse (length page + 1) (print_argument c others (HttpArgument k)) (page_table lev k) r junk page =
    Some (expand (print_argument c others (HttpArgument k)) (page_table lev k) r page)"
proof -
  let ?h = "print_argument c others (HttpArgument k)" and ?tab = "page_table lev k"
  have "drop HTTP_PARSE_LENGTH (parse_block junk page) = page @ NUL # []" using assms(4) by (simp add: parse_block_def)
  from parse_loop_expand[OF print_argument_prints[OF assms(1,2), of k] page_table_no_null[of lev k] this assms(3), of 0 r "length page + 1" 0] assms(5)
  show ?thesis by (auto simp: HTTP_PARSE_LENGTH_def html_argument_parse_def)
qed

text \<open>
  C6: Viewers see no secrets on a page. For a request whose authority is worse than that of an operator, the expansion of a page returns, and two cameras that
  differ in nothing but the strings of the configuration outside \<open>public_strings\<close> send the same page: accounts, passwords and server names cannot be
  read. The page has the room that the expansion needs, its strings have a bound, and it has no tag whose printer is not translated; what those
  printers do may differ as well.
\<close>

theorem viewers_see_no_secrets:
  assumes "lev AUTH_ADMIN \<le> lev AUTH_OPERATOR" "lev AUTH_OPERATOR < authority r" "same_strings public_strings s c"
    "\<forall>para \<in> set (page_tags page). \<forall>n \<in> set hidden_arguments. \<not> strcaseeq n para"
    "strings_fit S (cam c)" "strings_fit S (cam (swap_strings s c))" "\<forall>f sub q. result_ok S (others f sub q)" "\<forall>f sub q. result_ok S (others' f sub q)"
    "nul_free page" "HTTP_PARSE_LENGTH \<le> length junk"
    "roomy (print_argument c others (HttpArgument k)) (page_table lev k) r HTTP_PARSE_LENGTH page"
  shows "\<exists>shown. html_argument_parse (length page + 1) (print_argument c others (HttpArgument k)) (page_table lev k) r junk page = Some shown \<and>
    html_argument_parse (length page + 1) (print_argument (swap_strings s c) others' (HttpArgument k)) (page_table lev k) r junk page = Some shown"
proof -
  let ?h = "print_argument c others (HttpArgument k)" and ?h' = "print_argument (swap_strings s c) others' (HttpArgument k)"
  have "\<forall>para \<in> set (page_tags page). \<forall>sub. TranslateWebPara ?h' (page_table lev k) r para sub = TranslateWebPara ?h (page_table lev k) r para sub"
    using page_value_blind[OF assms(1-3)] assms(4) by blast
  note same = expand_cong[OF this, of HTTP_PARSE_LENGTH]
  show ?thesis using page_expanded[OF assms(5,7,9-11)] page_expanded[OF assms(6,8-10), of k lev r] same assms(11) by simp
qed

text \<open>A camera whose strings outside \<open>public_strings\<close> are other ones, and a page with a title.\<close>

definition other_strings :: "unit \<Rightarrow> cstring \<Rightarrow> cstring" where
  "other_strings w f = (if f \<in> set public_strings then cfg_string plain_camera w f else ''secret'')"

lemma title_not_hidden: "\<forall>n \<in> set hidden_arguments. \<not> strcaseeq n ''title''"
proof -
  have five: "filter (\<lambda>n. length n = 5) hidden_arguments = [''img2a'']" by (simp add: hidden_arguments_def hidden_defs)
  have "n = ''img2a''" if "n \<in> set hidden_arguments" "strcaseeq n ''title''" for n
  proof -
    have "length n = length ''title''" using that(2) map_eq_imp_length_eq by (auto simp: strcaseeq_def)
    then have "n \<in> set (filter (\<lambda>n. length n = 5) hidden_arguments)" using that(1) by simp
    then show ?thesis unfolding five by simp
  qed
  moreover have "\<not> strcaseeq ''img2a'' ''title''" by code_simp
  ultimately show ?thesis by blast
qed

lemma title_page_tags: "page_tags ''<b><%title%></b>'' = [''title'']"
proof -
  have f: "strrfind ''<b><%title%></b>'' = Some (3, 10)" "strrfind ''</b>'' = None" by (simp_all add: strrfind_def)
  show ?thesis by (subst page_tags.simps, subst f(1), simp add: split_arg_def, subst page_tags.simps, simp add: f(2))
qed

lemma viewers_see_no_secrets_witness:
  "let h = (\<lambda>c. print_argument c (\<lambda>f sub q. fails) (HttpArgument plain_camera)); tab = page_table sample_levels plain_camera;
     page = ''<b><%title%></b>''; junk = replicate HTTP_PARSE_LENGTH NUL; r = fresh\<lparr>authority := 2\<rparr>; c = ddns_context ''1'' in
    \<exists>shown. html_argument_parse (length page + 1) (h c) tab r junk page = Some shown \<and>
      html_argument_parse (length page + 1) (h (swap_strings other_strings c)) tab r junk page = Some shown"
  unfolding Let_def
proof (rule viewers_see_no_secrets[where S = 255])
  have fit: "strings_fit 255 (cam (ddns_context ''1''))" by (simp add: strings_fit_def ddns_context_def plain_camera_def)
  then show "strings_fit 255 (cam (ddns_context ''1''))" .
  show "roomy (print_argument (ddns_context ''1'') (\<lambda>f sub q. fails) (HttpArgument plain_camera)) (page_table sample_levels plain_camera)
      (fresh\<lparr>authority := 2\<rparr>) HTTP_PARSE_LENGTH ''<b><%title%></b>''"
    by (rule roomy_small[OF page_value_bound[OF fit]]) (simp_all add: result_ok_fails title_page_tags HTTP_PARSE_LENGTH_def)
  show "\<forall>para \<in> set (page_tags ''<b><%title%></b>''). \<forall>n \<in> set hidden_arguments. \<not> strcaseeq n para"
    using title_not_hidden by (simp add: title_page_tags)
qed (simp_all add: sample_levels_def same_strings_def other_strings_def strings_fit_def swap_strings_def ddns_context_def plain_camera_def result_ok_fails)

end
