(* ===== verification/Spec2Isabelle.thy ===== *)
theory Spec2Isabelle
  imports Boa_Rtsp Boa_Web_Page
begin

text \<open>
  A verification development of the web server of the DCS-2210 camera: Boa 0.94.13 as the camera's firmware extends it, in
  \<^verbatim>\<open>DCS-2210/apps/public/boa-0.94.13/src\<close>. File names below are relative to that directory.

  \<^bold>\<open>The program.\<close> One process serves all clients. \<open>select_loop\<close> (\<^verbatim>\<open>select.c\<close>) waits for descriptors, moves requests between a ready
  and a blocked list (\<^verbatim>\<open>queue.c\<close>) and calls \<open>process_requests\<close> (\<^verbatim>\<open>request.c\<close>), which accepts connections and gives every ready request one
  step of its own state machine: read the headers (\<^verbatim>\<open>read.c\<close>), parse them (\<^verbatim>\<open>request.c\<close>), translate the URI (\<^verbatim>\<open>alias.c\<close>), authorize
  the user (\<^verbatim>\<open>auth.c\<close>), run a page handler, a command or a program (\<^verbatim>\<open>request.c\<close>, \<^verbatim>\<open>appro_api.c\<close>, \<^verbatim>\<open>cgi.c\<close>) or send a file
  (\<^verbatim>\<open>get.c\<close>, \<^verbatim>\<open>pipe.c\<close>), all through the output buffer of the request (\<^verbatim>\<open>buffer.c\<close>, \<^verbatim>\<open>response.c\<close>). A second thread
  (\<^verbatim>\<open>rtsp_o_http.c\<close>) takes over the requests that tunnel RTSP and gives them back when they end.

  \<^bold>\<open>The theories.\<close> Every function of the code is a definition of the same name, on records with the fields of the C structures.
  \<^item> \<open>Prelude\<close>, \<open>Clib\<close>: C strings, arrays, errors; the functions of the C library the code uses.
  \<^item> \<open>Boa_Util\<close>, \<open>Boa_Escape\<close>, \<open>Hash_Table\<close>, \<open>Boa_Hash\<close>: \<^verbatim>\<open>util.c\<close>, \<^verbatim>\<open>escape.c\<close>, \<^verbatim>\<open>hash.c\<close>. Paths are cleaned of parent segments, decoding
    undoes encoding, dates that are printed are understood, the first MIME type of a suffix wins. The locale of hash chains is interpreted
    on the table of MIME types and on the cache of home directories.
  \<^item> \<open>Request\<close>: the structure of a request and the constants (\<^verbatim>\<open>globals.h\<close>, \<^verbatim>\<open>defines.h\<close>). Pointers into its arrays are offsets.
  \<^item> \<open>Boa_Buffer\<close>, \<open>Boa_Response\<close>: \<^verbatim>\<open>buffer.c\<close>, \<^verbatim>\<open>response.c\<close>. The buffer refines an append-only stream, nothing is lost or sent twice under short
    writes, escaped text is inert, and every error page is a well-formed response.
  \<^item> \<open>Boa_Queue\<close>: \<^verbatim>\<open>queue.c\<close>, doubly linked lists in a store of pointers that refine lists; the contract is the locale \<open>request_lists\<close>.
  \<^item> \<open>Boa_Alias\<close>, \<open>Boa_Mmap\<close>, \<open>Boa_Get\<close>, \<open>Boa_Template\<close>: \<^verbatim>\<open>alias.c\<close>, \<^verbatim>\<open>mmap_cache.c\<close>, \<^verbatim>\<open>get.c\<close>. A translated path stays inside the
    exported directories, the cache returns the file asked for, templates are expanded tag by tag.
  \<^item> \<open>Boa_Cgi\<close>, \<open>Boa_Pipe\<close>: \<^verbatim>\<open>cgi.c\<close>, \<^verbatim>\<open>pipe.c\<close>, \<^verbatim>\<open>cgi_header.c\<close>. Queries are decoded within their buffers, the environment fits, and the
    output of a program reaches the client complete.
  \<^item> \<open>Boa_Auth\<close>, \<open>Boa_Dispatch\<close>: \<^verbatim>\<open>auth.c\<close>, and the tables of pages, commands and page arguments. A request gets the authority of an account only with
    its name and password, and commands run only with the authority they ask for.
  \<^item> \<open>Boa_Request\<close>, \<open>Boa_Read\<close>: the parser, and the state machine that drives it. However a request is split into packets, its lines
    reach the parser; protected pages need authorization; the body of a POST is copied byte by byte.
  \<^item> \<open>Boa_Server\<close>: allocation, acceptance, the scheduler, the waking of blocked requests, the release of requests, kept-alive connections.
    Its invariant \<open>server_inv\<close> says that the ready, blocked and free lists and the requests in other hands are disjoint and at most \<open>MAX_REQUEST\<close>.
  \<^item> \<open>Boa_Safe\<close>: the offsets of a request stay inside its arrays. The locale \<open>request_inv\<close> treats once what most routines do to a
    request, and is interpreted on the predicate \<open>mem_ok\<close>.
  \<^item> \<open>Boa_Select\<close>: the main loop with its signals. Every state that the server can reach has sound lists and sound requests, and
    whenever it waits, it watches everything that is blocked.
  \<^item> \<open>Boa_Rtsp\<close>: the tunnel. The thread gives back only what it was given; RTSP requests are executed in order. Two theorems show what
    goes wrong: a second request of a tunnel is lost for good, and one to three trailing bytes hang the thread.
  \<^item> \<open>Boa_Api\<close> and the theories named after it: the commands of the camera (\<^verbatim>\<open>appro_api.c\<close>). \<open>Boa_Api\<close> has the statements that handlers are made
    of, with rules that count answers and rules for weakest preconditions; \<open>Boa_Api_Net\<close>, \<open>Boa_Api_Image\<close>, \<open>Boa_Api_Stream\<close> and \<open>Boa_Api_System\<close> have the handlers, in
    the order of the code; \<open>Boa_Api_Table\<close> the table of all commands; \<open>Boa_Api_Run\<close> shows what follows for a query: users
    without the rights of an operator change nothing, every command is answered by one line and the buffer holds the answers, settings
    are within their limits. The low byte is all that many settings check, and some builds let everybody reset the camera.
  \<^item> \<open>Boa_Web\<close> and the theories named after it: the values on pages (\<^verbatim>\<open>web_translate.c\<close>). \<open>Boa_Web_Picture\<close> and \<open>Boa_Web_Device\<close> have the printers in the
    order of the code, \<open>Boa_Web_Table\<close> the table of all arguments. \<open>Boa_Web_Page\<close> puts them under the expansion of templates: a value fits the memory of its
    callers, and users without the rights of an operator get the same page whatever the secret strings of the configuration.

  \<^bold>\<open>The outside.\<close> What the program cannot decide is an argument: results of system calls (\<open>sock_out\<close> of a request, the records \<open>io\<close> and
  \<open>round_in\<close>), the file system, the clock, \<open>malloc\<close> (lists of results), the account table, the entries of the dispatch tables and their
  handlers, the execution of RTSP commands. Where a theorem needs something of them it is a named hypothesis, such as \<open>handlers_keep\<close>:
  page handlers leave the offsets of the request inside its arrays.

  \<^bold>\<open>Bounds.\<close> Loops over the lists of the server take \<open>MAX_REQUEST\<close> rounds, which the invariant shows to be enough (\<open>fdset_loop\<close>, \<open>free_streams\<close>).
  The header loop counts the bytes not yet parsed. The loop that expires logins and the loop over RTSP requests need not end: they
  have fuel, with theorems that say when some fuel is enough and when none is. A result \<open>None\<close> of an operation on a request marks what
  C leaves undefined (a pointer into the wrong array, a write behind the end); the theorems on parsing, relaying and updating show where it
  does not occur. Integers are \<open>nat\<close> or \<open>int\<close> where the code bounds them, and words where they wrap around (hashes, bitmaps).

  \<^bold>\<open>Not modelled.\<close> The handlers of the single pages of the camera (most of \<^verbatim>\<open>request.c\<close>), the commands that manage users, schedules, filters, files and
  devices, and the printers that loop over such things (\<open>Other\<close> and \<open>Hidden\<close> entries of the tables) read and set the configuration in shared memory through drivers that are not part of the server; audio and video streaming takes frames from
  the same drivers. The configuration is read by a generated parser. Log files, start-up and the directory indexer, a
  separate program, have no effect on the requests. Threads are interleaved operation by operation; data races inside an operation are outside the
  model. The TLS library appears only as the flag \<open>ssl\<close>.
\<close>

end
